(* ===== verification/Prelude.thy ===== *)
theory Prelude
  imports Main "HOL-Library.Word" "HOL-Library.Multiset" "HOL-Library.Sublist"
    "HOL-Library.Monad_Syntax"
begin

text \<open>
  What the component theories share: a model of Rust's \<^verbatim>\<open>String\<close> with byte offsets and
  character boundaries, the string functions of the standard library the program calls, 16-bit
  scroll arithmetic, and the interfaces (locales) of the recurring shapes of state: a machine whose
  steps keep an invariant, a machine whose steps may panic, a ring of focusable elements and a
  cursor in a list.

  Conventions. \<open>usize\<close> values that index memory are \<open>nat\<close>. A Rust panic (index out of bounds, a
  slice that is not on a character boundary) is \<open>None\<close> in a result of type \<open>'a option\<close>. Fixed-width
  values whose wrap-around can be observed are words, with the arithmetic of the release build.
\<close>

named_theorems str_simps "equations of the string model"
named_theorems op_defs "unfolding equations of a component's operations"

section \<open>Strings\<close>

type_synonym rchar = nat
type_synonym rstr = "rchar list"

text \<open>A string is its sequence of Unicode scalar values; \<open>utf8_len\<close> is \<^verbatim>\<open>char::len_utf8\<close>.\<close>

definition utf8_len :: "rchar \<Rightarrow> nat" where
  "utf8_len c = (if c < 128 then 1 else if c < 2048 then 2 else if c < 65536 then 3 else 4)"

text \<open>\<open>blen\<close> is \<^verbatim>\<open>str::len\<close>: the length in bytes.\<close>

definition blen :: "rstr \<Rightarrow> nat" where
  "blen s = sum_list (map utf8_len s)"

text \<open>A literal of the source, when it is plain ASCII.\<close>

definition lit :: "string \<Rightarrow> rstr" where
  "lit s = map of_char s"

text \<open>
  \<open>split_byte n s\<close> is \<^verbatim>\<open>(&s[..n], &s[n..])\<close>, and \<open>None\<close> where the slice panics: \<open>n\<close> is past
  the end or inside a character.
\<close>

fun split_byte :: "nat \<Rightarrow> rstr \<Rightarrow> (rstr \<times> rstr) option" where
  "split_byte n [] = (if n = 0 then Some ([], []) else None)"
| "split_byte n (c # cs) =
     (if n = 0 then Some ([], c # cs)
      else if utf8_len c \<le> n
      then map_option (\<lambda>(a, b). (c # a, b)) (split_byte (n - utf8_len c) cs)
      else None)"

definition on_boundary :: "rstr \<Rightarrow> nat \<Rightarrow> bool" where
  "on_boundary s n \<longleftrightarrow> split_byte n s \<noteq> None"

text \<open>\<^verbatim>\<open>String::insert\<close> and \<^verbatim>\<open>String::remove\<close> at a byte offset.\<close>

definition str_insert :: "rstr \<Rightarrow> nat \<Rightarrow> rchar \<Rightarrow> rstr option" where
  "str_insert s n c = map_option (\<lambda>(a, b). a @ c # b) (split_byte n s)"

definition str_remove :: "rstr \<Rightarrow> nat \<Rightarrow> rstr option" where
  "str_remove s n =
     (case split_byte n s of Some (a, c # b) \<Rightarrow> Some (a @ b) | _ \<Rightarrow> None)"

text \<open>\<^verbatim>\<open>str::find\<close> with a string pattern: the byte offset of the first occurrence.\<close>

fun str_find :: "rstr \<Rightarrow> rstr \<Rightarrow> nat option" where
  "str_find p [] = (if p = [] then Some 0 else None)"
| "str_find p (c # cs) =
     (if prefix p (c # cs) then Some 0
      else map_option (\<lambda>n. utf8_len c + n) (str_find p cs))"

definition str_contains :: "rstr \<Rightarrow> rstr \<Rightarrow> bool" where
  "str_contains s p \<longleftrightarrow> str_find p s \<noteq> None"

text \<open>The largest boundary up to \<open>n\<close> bytes: \<^verbatim>\<open>str::floor_char_boundary\<close>.\<close>

fun take_bytes :: "nat \<Rightarrow> rstr \<Rightarrow> rstr" where
  "take_bytes n [] = []"
| "take_bytes n (c # cs) =
     (if utf8_len c \<le> n then c # take_bytes (n - utf8_len c) cs else [])"

definition floor_char_boundary :: "rstr \<Rightarrow> nat \<Rightarrow> nat" where
  "floor_char_boundary s n = blen (take_bytes n s)"

text \<open>\<^verbatim>\<open>char::is_whitespace\<close>: the Unicode property White_Space.\<close>

definition is_ws :: "rchar \<Rightarrow> bool" where
  "is_ws c \<longleftrightarrow> (9 \<le> c \<and> c \<le> 13) \<or> c = 32 \<or> c = 133 \<or> c = 160 \<or> c = 5760
     \<or> (8192 \<le> c \<and> c \<le> 8202) \<or> c = 8232 \<or> c = 8233 \<or> c = 8239 \<or> c = 8287 \<or> c = 12288"

definition trim :: "rstr \<Rightarrow> rstr" where
  "trim s = rev (dropWhile is_ws (rev (dropWhile is_ws s)))"

fun words_aux :: "rstr \<Rightarrow> rstr \<Rightarrow> rstr list" where
  "words_aux acc [] = (if acc = [] then [] else [rev acc])"
| "words_aux acc (c # cs) =
     (if is_ws c then (if acc = [] then words_aux [] cs else rev acc # words_aux [] cs)
      else words_aux (c # acc) cs)"

text \<open>\<^verbatim>\<open>str::split_whitespace\<close>.\<close>

definition split_ws :: "rstr \<Rightarrow> rstr list" where
  "split_ws s = words_aux [] s"

text \<open>
  \<^verbatim>\<open>str::lines\<close>: a line ends at a line feed, and a carriage return just before it belongs to the
  line ending; an unterminated last line is kept as it is when it is not empty.
\<close>

definition strip_cr :: "rstr \<Rightarrow> rstr" where
  "strip_cr s = (if s \<noteq> [] \<and> last s = 13 then butlast s else s)"

fun lines_aux :: "rstr \<Rightarrow> rstr \<Rightarrow> rstr list" where
  "lines_aux acc [] = (if acc = [] then [] else [rev acc])"
| "lines_aux acc (c # cs) =
     (if c = 10 then strip_cr (rev acc) # lines_aux [] cs else lines_aux (c # acc) cs)"

definition str_lines :: "rstr \<Rightarrow> rstr list" where
  "str_lines s = lines_aux [] s"

text \<open>\<^verbatim>\<open>[String]::join\<close>.\<close>

fun join :: "rstr \<Rightarrow> rstr list \<Rightarrow> rstr" where
  "join sep [] = []"
| "join sep [x] = x"
| "join sep (x # y # ys) = x @ sep @ join sep (y # ys)"

text \<open>The decimal rendering of an unsigned integer, as \<^verbatim>\<open>format!("{}", n)\<close> prints it.\<close>

fun show_nat :: "nat \<Rightarrow> rstr" where
  "show_nat n = (if n < 10 then [48 + n] else show_nat (n div 10) @ [48 + n mod 10])"

declare show_nat.simps [simp del]

text \<open>\<^verbatim>\<open>str::parse\<close> of an unsigned integer below \<open>limit\<close>.\<close>

definition parse_decimal :: "nat \<Rightarrow> rstr \<Rightarrow> nat option" where
  "parse_decimal limit s =
     (let ds = (case s of c # r \<Rightarrow> if c = 43 then r else s | [] \<Rightarrow> []);
          n = foldl (\<lambda>a d. a * 10 + (d - 48)) 0 ds in
      if ds \<noteq> [] \<and> (\<forall>d \<in> set ds. 48 \<le> d \<and> d \<le> 57) \<and> n < limit then Some n else None)"

definition ascii :: "rstr \<Rightarrow> bool" where
  "ascii s \<longleftrightarrow> (\<forall>c \<in> set s. c < 128)"

text \<open>
  \<^verbatim>\<open>str::to_lowercase\<close> needs the case tables of Unicode, which are data of the standard library: it
  is a parameter \<open>lower\<close> of the definitions that use it. On ASCII text it is \<open>ascii_lower\<close>.
\<close>

definition ascii_lower_char :: "rchar \<Rightarrow> rchar" where
  "ascii_lower_char c = (if 65 \<le> c \<and> c \<le> 90 then c + 32 else c)"

definition ascii_lower :: "rstr \<Rightarrow> rstr" where
  "ascii_lower s = map ascii_lower_char s"

definition lower_on_ascii :: "(rstr \<Rightarrow> rstr) \<Rightarrow> bool" where
  "lower_on_ascii lower \<longleftrightarrow> (\<forall>s. ascii s \<longrightarrow> lower s = ascii_lower s)"

section \<open>Vectors\<close>

text \<open>Indexing, \<^verbatim>\<open>Vec::remove\<close> and \<^verbatim>\<open>Vec::insert\<close>, with their panics.\<close>

definition vec_get :: "'a list \<Rightarrow> nat \<Rightarrow> 'a option" where
  "vec_get xs i = (if i < length xs then Some (xs ! i) else None)"

definition vec_set :: "'a list \<Rightarrow> nat \<Rightarrow> 'a \<Rightarrow> 'a list option" where
  "vec_set xs i x = (if i < length xs then Some (xs[i := x]) else None)"

definition vec_remove :: "'a list \<Rightarrow> nat \<Rightarrow> ('a \<times> 'a list) option" where
  "vec_remove xs i = (if i < length xs then Some (xs ! i, take i xs @ drop (Suc i) xs) else None)"

definition vec_insert :: "'a list \<Rightarrow> nat \<Rightarrow> 'a \<Rightarrow> 'a list option" where
  "vec_insert xs i x = (if i \<le> length xs then Some (take i xs @ x # drop i xs) else None)"

lemma vec_simps [simp]:
  "vec_get (xs @ y # ys) (length xs) = Some y"
  "vec_set (xs @ y # ys) (length xs) z = Some (xs @ z # ys)"
  "vec_remove (xs @ y # ys) (length xs) = Some (y, xs @ ys)"
  "vec_insert (xs @ ys) (length xs) z = Some (xs @ z # ys)"
  by (simp_all add: vec_get_def vec_set_def vec_remove_def vec_insert_def)

lemma vec_split:
  assumes "i < length xs"
  obtains pre y post where "xs = pre @ y # post" "length pre = i"
proof
  show "xs = take i xs @ xs ! i # drop (Suc i) xs" using assms by (rule id_take_nth_drop)
  show "length (take i xs) = i" using assms by simp
qed

section \<open>Lemmas about strings\<close>

lemma utf8_len_pos [simp]: "0 < utf8_len c"
  by (simp add: utf8_len_def)

lemma utf8_len_ascii [simp]: "c < 128 \<Longrightarrow> utf8_len c = 1"
  by (simp add: utf8_len_def)

lemma utf8_len_le_4: "utf8_len c \<le> 4"
  by (simp add: utf8_len_def)

lemma blen_Nil [simp, str_simps]: "blen [] = 0"
  by (simp add: blen_def)

lemma blen_Cons [simp, str_simps]: "blen (c # s) = utf8_len c + blen s"
  by (simp add: blen_def)

lemma blen_append [simp, str_simps]: "blen (s @ t) = blen s + blen t"
  by (simp add: blen_def)

lemma blen_0_iff [simp]: "blen s = 0 \<longleftrightarrow> s = []"
  by (cases s) (auto simp: utf8_len_def)

lemma length_le_blen: "length s \<le> blen s"
proof (induction s)
  case (Cons c s)
  have "1 \<le> utf8_len c" using utf8_len_pos [of c] by linarith
  with Cons show ?case by simp
qed simp

lemma blen_le_4: "blen s \<le> 4 * length s"
  by (induction s) (auto simp: utf8_len_def)

lemma split_byte_0 [simp]: "split_byte 0 s = Some ([], s)"
  by (cases s) auto

lemma split_byte_Some_iff: "split_byte n s = Some (a, b) \<longleftrightarrow> s = a @ b \<and> blen a = n"
proof (induction n s arbitrary: a b rule: split_byte.induct)
  case (1 n)
  then show ?case by auto
next
  case (2 n c cs)
  show ?case
  proof (cases "n = 0")
    case False
    then show ?thesis
      by (cases a) (use "2.IH" in \<open>auto simp: split: if_splits\<close>)
  qed auto
qed

lemma split_byte_append [simp]: "split_byte (blen a) (a @ b) = Some (a, b)"
  by (simp add: split_byte_Some_iff)

lemma split_byte_blen [simp]: "split_byte (blen s) s = Some (s, [])"
  by (simp add: split_byte_Some_iff)

lemma on_boundary_iff: "on_boundary s n \<longleftrightarrow> (\<exists>a b. s = a @ b \<and> blen a = n)"
  by (auto simp: on_boundary_def split_byte_Some_iff)

lemma on_boundaryE:
  assumes "on_boundary s n"
  obtains a b where "s = a @ b" "blen a = n" "split_byte n s = Some (a, b)"
  using assms by (auto simp: on_boundary_def split_byte_Some_iff)

lemma on_boundary_0 [simp]: "on_boundary s 0"
  by (simp add: on_boundary_def)

lemma on_boundary_blen [simp]: "on_boundary s (blen s)"
  by (simp add: on_boundary_def)

lemma on_boundary_le: "on_boundary s n \<Longrightarrow> n \<le> blen s"
  by (auto simp: on_boundary_iff)

lemma ascii_simps [simp, str_simps]:
  "ascii []" "ascii (c # s) \<longleftrightarrow> c < 128 \<and> ascii s" "ascii (s @ t) \<longleftrightarrow> ascii s \<and> ascii t"
  by (auto simp: ascii_def)

lemma ascii_blen: "ascii s \<Longrightarrow> blen s = length s"
  by (induction s) auto

lemma ascii_take [simp]: "ascii s \<Longrightarrow> ascii (take n s)"
  by (auto simp: ascii_def dest: in_set_takeD)

lemma ascii_drop [simp]: "ascii s \<Longrightarrow> ascii (drop n s)"
  by (auto simp: ascii_def dest: in_set_dropD)

lemma ascii_split_byte: "ascii s \<Longrightarrow> n \<le> length s \<Longrightarrow> split_byte n s = Some (take n s, drop n s)"
  by (simp add: split_byte_Some_iff ascii_blen)

lemma ascii_on_boundary: "ascii s \<Longrightarrow> on_boundary s n \<longleftrightarrow> n \<le> blen s"
  by (metis ascii_blen ascii_split_byte on_boundary_def on_boundary_le option.distinct(1))

lemma ascii_lower [simp]: "ascii s \<Longrightarrow> ascii (ascii_lower s)"
  by (auto simp: ascii_def ascii_lower_def ascii_lower_char_def)

lemma length_ascii_lower [simp]: "length (ascii_lower s) = length s"
  by (simp add: ascii_lower_def)

lemma lower_on_asciiD: "lower_on_ascii lower \<Longrightarrow> ascii s \<Longrightarrow> lower s = ascii_lower s"
  by (simp add: lower_on_ascii_def)

lemma lower_on_ascii_ascii_lower [simp]: "lower_on_ascii ascii_lower"
  by (simp add: lower_on_ascii_def)


lemma take_bytes_prefix: "\<exists>t. s = take_bytes n s @ t"
  by (induction n s rule: take_bytes.induct) auto

lemma blen_take_bytes: "blen (take_bytes n s) \<le> n"
  by (induction n s rule: take_bytes.induct) auto

lemma take_bytes_maximal:
  "blen a \<le> n \<Longrightarrow> length a \<le> length (take_bytes n (a @ b))"
proof (induction a arbitrary: n)
  case (Cons c a)
  then show ?case by simp
qed simp

lemma floor_char_boundary_split:
  "split_byte (floor_char_boundary s n) s = Some (take_bytes n s, drop (length (take_bytes n s)) s)"
proof -
  obtain t where "s = take_bytes n s @ t" using take_bytes_prefix by blast
  then show ?thesis
    unfolding split_byte_Some_iff floor_char_boundary_def
    by (metis append_eq_conv_conj)
qed

lemma str_find_SomeD:
  "str_find p s = Some n \<Longrightarrow> \<exists>a b. s = a @ p @ b \<and> blen a = n"
proof (induction s arbitrary: n)
  case Nil
  then show ?case by (auto split: if_splits)
next
  case (Cons c cs)
  show ?case
  proof (cases "prefix p (c # cs)")
    case True
    with Cons.prems show ?thesis by (auto simp: prefix_def)
  next
    case False
    with Cons.prems obtain m where m: "str_find p cs = Some m" "n = utf8_len c + m" by auto
    from Cons.IH [OF m(1)] obtain a b where "cs = a @ p @ b" "blen a = m" by blast
    with m(2) have "c # cs = (c # a) @ p @ b \<and> blen (c # a) = n" by simp
    then show ?thesis by blast
  qed
qed

lemma str_find_NoneD: "str_find p s = None \<Longrightarrow> s \<noteq> a @ p @ b"
proof (induction s arbitrary: a)
  case (Cons c cs)
  then show ?case by (cases a) (auto simp: prefix_def split: if_splits)
qed (auto split: if_splits)

lemma str_find_at_start [simp]: "str_find p (p @ b) = Some 0"
proof (cases "p @ b")
  case (Cons c cs)
  then have "prefix p (c # cs)" by (metis prefixI)
  with Cons show ?thesis by simp
qed simp

lemma str_find_first:
  "str_find p s = Some n \<Longrightarrow> s = a @ p @ b \<Longrightarrow> n \<le> blen a"
proof (induction s arbitrary: n a)
  case (Cons c cs)
  then show ?case
    by (cases a) (auto simp del: str_find.simps(2), auto simp: prefix_def split: if_splits)
qed (auto split: if_splits)

lemma str_contains_iff: "str_contains s p \<longleftrightarrow> (\<exists>a b. s = a @ p @ b)"
  using str_find_SomeD [of p s] str_find_NoneD [of p s]
  unfolding str_contains_def by (metis not_Some_eq)

text \<open>The text before the first occurrence of the query, and the text after it.\<close>

fun find_cut :: "rstr \<Rightarrow> rstr \<Rightarrow> (rstr \<times> rstr) option" where
  "find_cut q [] = (if q = [] then Some ([], []) else None)"
| "find_cut q (c # cs) =
     (if prefix q (c # cs) then Some ([], drop (length q) (c # cs))
      else map_option (\<lambda>(a, b). (c # a, b)) (find_cut q cs))"

lemma find_cut_Some: "find_cut q s = Some (a, b) \<Longrightarrow> s = a @ q @ b"
proof (induction s arbitrary: a)
  case (Cons c cs)
  show ?case
  proof (cases "prefix q (c # cs)")
    case True
    then have "a = []" "b = drop (length q) (c # cs)" using Cons.prems by simp_all
    with True show ?thesis by (auto simp: prefix_def)
  qed (use Cons in auto)
qed (auto split: if_splits)

lemma str_find_cut: "str_find q s = map_option (\<lambda>(a, b). blen a) (find_cut q s)"
proof (induction s)
  case (Cons c cs)
  then show ?case by (cases "find_cut q cs") auto
qed simp

lemma find_cut_None: "find_cut q s = None \<Longrightarrow> \<not> str_contains s q"
  by (simp add: str_contains_def str_find_cut)

lemma join_Cons: "ys \<noteq> [] \<Longrightarrow> join q (x # ys) = x @ q @ join q ys"
  by (cases ys) auto

section \<open>Scrolling in 16-bit arithmetic\<close>

text \<open>
  The views keep a scroll offset in a \<^verbatim>\<open>u16\<close> and compare it with the cursor truncated to
  \<^verbatim>\<open>u16\<close>: \<open>scroll_into_view h cursor scroll\<close> is the new offset for a view of \<open>h\<close> rows.
\<close>

definition scroll_into_view :: "16 word \<Rightarrow> nat \<Rightarrow> 16 word \<Rightarrow> 16 word" where
  "scroll_into_view h cursor scroll =
     (let c = (of_nat cursor :: 16 word) in
      if c < scroll then c
      else if scroll + h \<le> c then (if c < h - 1 then 0 else c - (h - 1))
      else scroll)"

lemma scroll_into_view_visible:
  assumes "0 < h" and "cursor < 2 ^ 16" and "unat scroll + unat h < 2 ^ 16"
  shows "unat (scroll_into_view h cursor scroll) \<le> cursor
    \<and> cursor < unat (scroll_into_view h cursor scroll) + unat h"
proof -
  let ?c = "of_nat cursor :: 16 word"
  have c: "unat ?c = cursor" using assms(2) by (simp add: unat_of_nat take_bit_nat_eq_self)
  have h: "0 < unat h" using assms(1) by (simp add: word_gt_0_no unat_gt_0)
  have h1: "unat (h - 1) = unat h - 1"
    using h by (intro unat_minus_one) auto
  have sh: "unat (scroll + h) = unat scroll + unat h"
    using assms(3) by (simp add: unat_word_ariths)
  show ?thesis
    unfolding scroll_into_view_def Let_def
    using c h h1 sh by (auto simp: word_less_nat_alt word_le_nat_alt unat_sub)
qed

section \<open>Results\<close>

text \<open>The \<^verbatim>\<open>?\<close> operator: an error ends the function, a value goes on.\<close>

fun and_then :: "'e + 'a \<Rightarrow> ('a \<Rightarrow> 'e + 'b) \<Rightarrow> 'e + 'b" where
  "and_then (Inl e) k = Inl e"
| "and_then (Inr x) k = k x"

lemma and_then_Inr_iff: "and_then r k = Inr y \<longleftrightarrow> (\<exists>x. r = Inr x \<and> k x = Inr y)"
  by (cases r) auto

section \<open>Runs and their invariants\<close>

text \<open>A machine whose operations never fail, and its invariant along a run.\<close>

locale invariant_machine =
  fixes step :: "'e \<Rightarrow> 's \<Rightarrow> 's"
    and inv :: "'s \<Rightarrow> bool"
  assumes step_inv: "inv s \<Longrightarrow> inv (step e s)"
begin

lemma run_inv: "inv s \<Longrightarrow> inv (fold step es s)"
  by (induction es arbitrary: s) (auto intro: step_inv)

end

text \<open>
  A machine whose steps commute, as atomic counters do: every interleaving of the same steps reaches
  the same state.
\<close>

locale commuting_machine =
  fixes step :: "'e \<Rightarrow> 's \<Rightarrow> 's"
  assumes step_commute: "step e (step f s) = step f (step e s)"
begin

lemma interleaving_irrelevant: "mset es = mset fs \<Longrightarrow> fold step es s = fold step fs s"
  by (rule fun_cong [OF fold_multiset_equiv]) (auto simp: fun_eq_iff step_commute)

lemma step_last: "fold step es (step e s) = step e (fold step es s)"
proof (induction es arbitrary: s)
  case (Cons f es)
  then show ?case by (simp add: step_commute [of f e])
qed simp

end

text \<open>A machine whose operations may panic: \<open>run_opt\<close> stops at the first panic.\<close>

fun run_opt :: "('e \<Rightarrow> 's \<Rightarrow> 's option) \<Rightarrow> 'e list \<Rightarrow> 's \<Rightarrow> 's option" where
  "run_opt step [] s = Some s"
| "run_opt step (e # es) s = Option.bind (step e s) (run_opt step es)"

locale panic_machine =
  fixes step :: "'e \<Rightarrow> 's \<Rightarrow> 's option"
    and safe :: "'e \<Rightarrow> bool"
    and inv :: "'s \<Rightarrow> bool"
  assumes step_safe: "inv s \<Longrightarrow> safe e \<Longrightarrow> \<exists>s'. step e s = Some s' \<and> inv s'"
begin

lemma run_safe: "inv s \<Longrightarrow> \<forall>e \<in> set es. safe e \<Longrightarrow> \<exists>s'. run_opt step es s = Some s' \<and> inv s'"
proof (induction es arbitrary: s)
  case (Cons e es)
  from Cons.prems obtain s1 where s1: "step e s = Some s1" "inv s1"
    using step_safe by (meson list.set_intros(1))
  with Cons.IH [OF s1(2)] Cons.prems(2) show ?case by simp
qed simp

end

section \<open>Focus rings\<close>

text \<open>Tab and Shift+Tab over the elements of a dialog: each undoes the other.\<close>

locale focus_ring =
  fixes nxt :: "'f \<Rightarrow> 'f"
    and prv :: "'f \<Rightarrow> 'f"
    and member :: "'f \<Rightarrow> bool"
  assumes nxt_member: "member f \<Longrightarrow> member (nxt f)"
    and prv_member: "member f \<Longrightarrow> member (prv f)"
    and prv_nxt: "member f \<Longrightarrow> prv (nxt f) = f"
    and nxt_prv: "member f \<Longrightarrow> nxt (prv f) = f"
begin

lemma nxt_pow_member: "member f \<Longrightarrow> member ((nxt ^^ n) f)"
  by (induction n) (auto intro: nxt_member)

lemma prv_pow_nxt_pow: "member f \<Longrightarrow> (prv ^^ n) ((nxt ^^ n) f) = f"
proof (induction n)
  case (Suc n)
  have "(prv ^^ Suc n) ((nxt ^^ Suc n) f) = (prv ^^ n) (prv (nxt ((nxt ^^ n) f)))"
    by (simp add: funpow_swap1)
  with Suc show ?case by (simp add: prv_nxt nxt_pow_member)
qed simp

lemma nxt_inj: "member f \<Longrightarrow> member g \<Longrightarrow> nxt f = nxt g \<Longrightarrow> f = g"
  by (metis prv_nxt)

end

section \<open>Cursors in a list view\<close>

text \<open>
  A view with \<open>len s\<close> rows and a cursor \<open>cur s\<close>. The laws say what one step up or down does; the
  lemmas bound the cursor along any run.
\<close>

locale list_cursor =
  fixes len :: "'s \<Rightarrow> nat"
    and cur :: "'s \<Rightarrow> nat"
    and up :: "'s \<Rightarrow> 's"
    and down :: "'s \<Rightarrow> 's"
  assumes len_up: "len (up s) = len s"
    and len_down: "len (down s) = len s"
    and cur_up: "cur (up s) = cur s - 1"
    and cur_down: "cur (down s) = (if cur s + 1 < len s then cur s + 1 else cur s)"
begin

lemma up_pow: "cur ((up ^^ n) s) = cur s - n \<and> len ((up ^^ n) s) = len s"
  by (induction n) (auto simp: cur_up len_up)

lemma down_pow:
  "cur s < len s \<Longrightarrow> cur ((down ^^ n) s) = min (cur s + n) (len s - 1) \<and> len ((down ^^ n) s) = len s"
  by (induction n) (auto simp: cur_down len_down)

lemma up_down: "cur s + 1 < len s \<Longrightarrow> cur (up (down s)) = cur s"
  by (simp add: cur_up cur_down)

lemma cursor_bound_up: "cur s < len s \<Longrightarrow> cur (up s) < len (up s)"
  by (simp add: cur_up len_up)

lemma cursor_bound_down: "cur s < len s \<Longrightarrow> cur (down s) < len (down s)"
  by (simp add: cur_down len_down)

end

locale paged_cursor = list_cursor +
  fixes page_up :: "nat \<Rightarrow> 's \<Rightarrow> 's"
    and page_down :: "nat \<Rightarrow> 's \<Rightarrow> 's"
  assumes len_page_up: "len (page_up n s) = len s"
    and len_page_down: "len (page_down n s) = len s"
    and cur_page_up: "cur (page_up n s) = cur s - n"
    and cur_page_down: "cur (page_down n s) = min (cur s + n) (len s - 1)"
begin

lemma page_down_is_downs: "cur s < len s \<Longrightarrow> cur (page_down n s) = cur ((down ^^ n) s)"
  by (simp add: cur_page_down down_pow)

lemma page_up_is_ups: "cur (page_up n s) = cur ((up ^^ n) s)"
  by (simp add: cur_page_up up_pow)

lemma cursor_bound_page: "cur s < len s \<Longrightarrow>
    cur (page_up n s) < len (page_up n s) \<and> cur (page_down n s) < len (page_down n s)"
  by (auto simp: cur_page_up len_page_up cur_page_down len_page_down)

end

end
