(* ===== verification/MessageQueue.thy ===== *)
theory MessageQueue
  imports Prelude
begin

text \<open>
  The agent's message queue, \<^verbatim>\<open>apps/cli/src/agent/message_queue.rs\<close>: a bounded deque kept in
  priority order, with retry accounting and best-effort persistence to a JSON file. The identifier
  and the time stamp of a new message come from the caller (they are drawn from \<^verbatim>\<open>uuid\<close> and the
  clock in the source). JSON encoding is \<^verbatim>\<open>serde\<close>'s: the file is modelled by the queue it decodes
  to.
\<close>

section \<open>Data\<close>

datatype message_priority = Low | Normal | High | System

fun priority_value :: "message_priority \<Rightarrow> nat" where
  "priority_value System = 3"
| "priority_value High = 2"
| "priority_value Normal = 1"
| "priority_value Low = 0"

lemma priority_value_inject [simp]: "priority_value p = priority_value q \<longleftrightarrow> p = q"
  by (cases p; cases q) auto

text \<open>The order in which the queue compares priorities.\<close>

instantiation message_priority :: linorder
begin

definition less_eq_message_priority :: "message_priority \<Rightarrow> message_priority \<Rightarrow> bool" where
  "less_eq_message_priority p q \<longleftrightarrow> priority_value p \<le> priority_value q"

definition less_message_priority :: "message_priority \<Rightarrow> message_priority \<Rightarrow> bool" where
  "less_message_priority p q \<longleftrightarrow> priority_value p < priority_value q"

instance
  by standard (auto simp: less_eq_message_priority_def less_message_priority_def)

end

lemmas priority_order = less_eq_message_priority_def less_message_priority_def

record queued_message =
  qm_id :: rstr
  qm_content :: rstr
  qm_priority :: message_priority
  qm_queued_at :: int
  qm_retry_count :: "32 word"
  qm_max_retries :: "32 word"
  qm_metadata :: "rstr option"

definition qm_new :: "rstr \<Rightarrow> int \<Rightarrow> rstr \<Rightarrow> queued_message" where
  "qm_new uuid now content =
     \<lparr>qm_id = uuid, qm_content = content, qm_priority = Normal, qm_queued_at = now,
      qm_retry_count = 0, qm_max_retries = 3, qm_metadata = None\<rparr>"

definition qm_high_priority :: "rstr \<Rightarrow> int \<Rightarrow> rstr \<Rightarrow> queued_message" where
  "qm_high_priority uuid now content = (qm_new uuid now content)\<lparr>qm_priority := High\<rparr>"

definition qm_system :: "rstr \<Rightarrow> int \<Rightarrow> rstr \<Rightarrow> queued_message" where
  "qm_system uuid now content = (qm_new uuid now content)\<lparr>qm_priority := System\<rparr>"

definition increment_retry :: "queued_message \<Rightarrow> queued_message" where
  "increment_retry m = m\<lparr>qm_retry_count := qm_retry_count m + 1\<rparr>"

definition retries_exhausted :: "queued_message \<Rightarrow> bool" where
  "retries_exhausted m \<longleftrightarrow> qm_retry_count m > qm_max_retries m"

record message_queue =
  mq_queue :: "queued_message list"
  mq_persist_path :: "rstr option"
  mq_max_size :: nat

text \<open>
  The persistence file: absent, holding a queue, or not decodable. An attempt to save either
  succeeds or fails and leaves the file in some state.
\<close>

datatype mq_disk = Absent | Holds "queued_message list" | Corrupt
datatype io_outcome = SaveOk | SaveErr mq_disk

datatype mq_error = QueueFull nat | SaveFailed | LoadFailed

section \<open>Operations\<close>

definition mq_new :: "nat \<Rightarrow> message_queue" where
  "mq_new max_size = \<lparr>mq_queue = [], mq_persist_path = None, mq_max_size = max_size\<rparr>"

fun mq_load :: "message_queue \<Rightarrow> mq_disk \<Rightarrow> mq_error + message_queue" where
  "mq_load q d =
     (if mq_persist_path q = None then Inr q
      else case d of
        Absent \<Rightarrow> Inr q
      | Holds ms \<Rightarrow> Inr (q\<lparr>mq_queue := ms\<rparr>)
      | Corrupt \<Rightarrow> Inl LoadFailed)"

definition with_persistence :: "nat \<Rightarrow> rstr \<Rightarrow> mq_disk \<Rightarrow> mq_error + message_queue" where
  "with_persistence max_size path d =
     (let q = \<lparr>mq_queue = [], mq_persist_path = Some path, mq_max_size = max_size\<rparr>
      in if d \<noteq> Absent then mq_load q d else Inr q)"

definition mq_save :: "io_outcome \<Rightarrow> message_queue \<Rightarrow> mq_disk \<Rightarrow> (mq_error + unit) \<times> mq_disk" where
  "mq_save io q d =
     (if mq_persist_path q = None then (Inr (), d)
      else case io of
        SaveOk \<Rightarrow> (Inr (), Holds (mq_queue q))
      | SaveErr d' \<Rightarrow> (Inl SaveFailed, d'))"

fun find_insert_position :: "message_priority \<Rightarrow> queued_message list \<Rightarrow> nat" where
  "find_insert_position p [] = 0"
| "find_insert_position p (e # es) =
     (if priority_value p > priority_value (qm_priority e) then 0
      else Suc (find_insert_position p es))"

definition insert_message :: "queued_message \<Rightarrow> queued_message list \<Rightarrow> queued_message list" where
  "insert_message m ms =
     (let i = find_insert_position (qm_priority m) ms in take i ms @ m # drop i ms)"

definition mq_push :: "io_outcome \<Rightarrow> queued_message \<Rightarrow> message_queue \<Rightarrow> mq_disk
    \<Rightarrow> (mq_error + unit) \<times> message_queue \<times> mq_disk" where
  "mq_push io m q d =
     (if mq_max_size q \<le> length (mq_queue q) then (Inl (QueueFull (mq_max_size q)), q, d)
      else
        let q' = q\<lparr>mq_queue := insert_message m (mq_queue q)\<rparr> in
        if mq_persist_path q' \<noteq> None
        then (case mq_save io q' d of (r, d') \<Rightarrow> (r, q', d'))
        else (Inr (), q', d))"

definition push_content :: "io_outcome \<Rightarrow> rstr \<Rightarrow> int \<Rightarrow> rstr \<Rightarrow> message_queue \<Rightarrow> mq_disk
    \<Rightarrow> (mq_error + unit) \<times> message_queue \<times> mq_disk" where
  "push_content io uuid now content q d = mq_push io (qm_new uuid now content) q d"

definition mq_pop :: "io_outcome \<Rightarrow> message_queue \<Rightarrow> mq_disk
    \<Rightarrow> queued_message option \<times> message_queue \<times> mq_disk" where
  "mq_pop io q d =
     (case mq_queue q of
        [] \<Rightarrow> (None, q, d)
      | m # ms \<Rightarrow>
          let q' = q\<lparr>mq_queue := ms\<rparr> in
          (Some m, q', if mq_persist_path q' \<noteq> None then snd (mq_save io q' d) else d))"

definition mq_peek :: "message_queue \<Rightarrow> queued_message option" where
  "mq_peek q = (case mq_queue q of [] \<Rightarrow> None | m # _ \<Rightarrow> Some m)"

text \<open>
  Re-queueing. When the retries are exhausted the message is dropped with a warning that prints
  its first 50 bytes: with warnings enabled, the slice panics when byte 50 is inside a character.
\<close>

definition requeue :: "bool \<Rightarrow> io_outcome \<Rightarrow> queued_message \<Rightarrow> message_queue \<Rightarrow> mq_disk
    \<Rightarrow> ((mq_error + unit) \<times> message_queue \<times> mq_disk) option" where
  "requeue warn_enabled io m q d =
     (let m' = increment_retry m in
      if retries_exhausted m'
      then (if warn_enabled \<and> \<not> on_boundary (qm_content m') (min (blen (qm_content m')) 50)
            then None else Some (Inr (), q, d))
      else Some (mq_push io m' q d))"

definition mq_clear :: "io_outcome \<Rightarrow> message_queue \<Rightarrow> mq_disk
    \<Rightarrow> (mq_error + unit) \<times> message_queue \<times> mq_disk" where
  "mq_clear io q d =
     (let q' = q\<lparr>mq_queue := []\<rparr> in
      if mq_persist_path q' \<noteq> None
      then (case mq_save io q' d of (r, d') \<Rightarrow> (r, q', d'))
      else (Inr (), q', d))"

definition mq_drain :: "io_outcome \<Rightarrow> message_queue \<Rightarrow> mq_disk
    \<Rightarrow> queued_message list \<times> message_queue \<times> mq_disk" where
  "mq_drain io q d =
     (let q' = q\<lparr>mq_queue := []\<rparr> in
      (mq_queue q, q', if mq_persist_path q' \<noteq> None then snd (mq_save io q' d) else d))"

definition by_priority :: "message_queue \<Rightarrow> message_priority \<Rightarrow> queued_message list" where
  "by_priority q p = filter (\<lambda>m. qm_priority m = p) (mq_queue q)"

section \<open>The order of the queue\<close>

text \<open>The invariant: priorities never increase along the queue, and the bound is respected.\<close>

definition mq_sorted :: "message_queue \<Rightarrow> bool" where
  "mq_sorted q \<longleftrightarrow> sorted_wrt (\<lambda>a b. qm_priority b \<le> qm_priority a) (mq_queue q)"

definition mq_bounded :: "message_queue \<Rightarrow> bool" where
  "mq_bounded q \<longleftrightarrow> length (mq_queue q) \<le> mq_max_size q"

lemma insert_message_Nil [simp]: "insert_message m [] = [m]"
  by (simp add: insert_message_def)

lemma insert_message_Cons [simp]:
  "insert_message m (e # es) =
     (if qm_priority e < qm_priority m then m # e # es else e # insert_message m es)"
  by (auto simp: insert_message_def priority_order Let_def)

lemma set_insert_message [simp]: "set (insert_message m ms) = insert m (set ms)"
  by (induction ms) auto

lemma length_insert_message [simp]: "length (insert_message m ms) = Suc (length ms)"
  by (induction ms) auto

lemma sorted_insert_message:
  "sorted_wrt (\<lambda>a b. qm_priority b \<le> qm_priority a) ms
    \<Longrightarrow> sorted_wrt (\<lambda>a b. qm_priority b \<le> qm_priority a) (insert_message m ms)"
  by (induction ms) auto

lemma filter_insert_message:
  "sorted_wrt (\<lambda>a b. qm_priority b \<le> qm_priority a) ms
    \<Longrightarrow> filter (\<lambda>x. qm_priority x = p) (insert_message m ms)
      = filter (\<lambda>x. qm_priority x = p) ms @ (if qm_priority m = p then [m] else [])"
proof (induction ms)
  case (Cons e es)
  show ?case
  proof (cases "qm_priority e < qm_priority m")
    case True
    with Cons.prems have "filter (\<lambda>x. qm_priority x = qm_priority m) (e # es) = []"
      by (auto simp: filter_empty_conv)
    with True show ?thesis by auto
  qed (use Cons in auto)
qed simp

text \<open>
  The interface of a priority channel: per class of priority a FIFO queue, and removal from the
  highest class that is not empty.
\<close>

locale priority_channel =
  fixes classes :: "'q \<Rightarrow> 'p :: linorder \<Rightarrow> 'm list"
    and prio :: "'m \<Rightarrow> 'p"
    and enq :: "'m \<Rightarrow> 'q \<Rightarrow> 'q"
    and deq :: "'q \<Rightarrow> ('m \<times> 'q) option"
    and ok :: "'q \<Rightarrow> bool"
  assumes ok_enq: "ok q \<Longrightarrow> ok (enq m q)"
    and ok_deq: "ok q \<Longrightarrow> deq q = Some (m, q') \<Longrightarrow> ok q'"
    and enq_classes: "ok q \<Longrightarrow> classes (enq m q) = (classes q)(prio m := classes q (prio m) @ [m])"
    and deq_None: "ok q \<Longrightarrow> deq q = None \<longleftrightarrow> (\<forall>p. classes q p = [])"
    and deq_classes: "ok q \<Longrightarrow> deq q = Some (m, q') \<Longrightarrow>
      classes q = (classes q')(prio m := m # classes q' (prio m)) \<and> (\<forall>p > prio m. classes q p = [])"
begin

lemma deq_head: "ok q \<Longrightarrow> deq q = Some (m, q') \<Longrightarrow> classes q (prio m) = m # classes q' (prio m)"
  by (metis deq_classes fun_upd_same)

lemma deq_other: "ok q \<Longrightarrow> deq q = Some (m, q') \<Longrightarrow> p \<noteq> prio m \<Longrightarrow> classes q' p = classes q p"
  by (metis deq_classes fun_upd_other)

text \<open>A message overtakes every message of a lower class.\<close>

lemma enq_overtakes:
  assumes ok: "ok q" and none: "\<forall>p \<ge> prio m. classes q p = []"
  shows "\<exists>q'. deq (enq m q) = Some (m, q') \<and> classes q' = classes q"
proof -
  let ?q = "enq m q"
  have nn: "classes q p = []" if "prio m \<le> p" for p using none that by simp
  have ok': "ok ?q" using ok by (rule ok_enq)
  have cl: "classes ?q = (classes q)(prio m := [m])" 
    unfolding enq_classes [OF ok] by (simp add: nn)
  then have "deq ?q \<noteq> None" using deq_None [OF ok'] by (metis fun_upd_same list.distinct(1))
  then obtain m' q' where d: "deq ?q = Some (m', q')" by auto
  have at: "classes ?q (prio m') = m' # classes q' (prio m')"
    using deq_head [OF ok' d] .
  have above: "classes ?q p = []" if "prio m' < p" for p
    using deq_classes [OF ok' d] that by blast
  have "classes ?q (prio m) = [m]" by (simp add: cl)
  then have "\<not> prio m' < prio m" using above by (metis list.distinct(1))
  moreover have "\<not> prio m < prio m'"
  proof
    assume lt: "prio m < prio m'"
    then have "classes q (prio m') = []" by (intro nn) simp
    moreover from lt have "prio m' \<noteq> prio m" by simp
    ultimately have "classes ?q (prio m') = []" unfolding cl by simp
    with at show False by simp
  qed
  ultimately have eq: "prio m' = prio m" by simp
  have "[m] = m' # classes q' (prio m)" using at unfolding eq cl fun_upd_same .
  then have m: "m' = m" "classes q' (prio m) = []" by (metis list.inject)+
  have "classes q' = classes q"
  proof
    fix p
    show "classes q' p = classes q p"
    proof (cases "p = prio m")
      case True
      with m(2) nn [of p] show ?thesis by simp
    next
      case False
      with deq_other [OF ok' d, of p] show ?thesis unfolding cl eq by simp
    qed
  qed
  with d m show ?thesis by blast
qed

text \<open>Within a class, messages leave in the order in which they came.\<close>

lemma fifo:
  assumes "ok q" and "deq q = Some (m, q')" and "classes q (prio m) = a # as"
  shows "m = a \<and> classes (enq m' q') (prio m) = as @ (if prio m' = prio m then [m'] else [])"
  using deq_head [OF assms(1,2)] assms(3) enq_classes [OF ok_deq [OF assms(1,2)], of m']
  by auto

end

text \<open>The queue without its bound and its file is such a channel.\<close>

definition mq_enq :: "queued_message \<Rightarrow> message_queue \<Rightarrow> message_queue" where
  "mq_enq m q = q\<lparr>mq_queue := insert_message m (mq_queue q)\<rparr>"

definition mq_deq :: "message_queue \<Rightarrow> (queued_message \<times> message_queue) option" where
  "mq_deq q = (case mq_pop SaveOk q Absent of (None, _) \<Rightarrow> None | (Some m, q', _) \<Rightarrow> Some (m, q'))"

lemma mq_deq_simp:
  "mq_deq q = (case mq_queue q of [] \<Rightarrow> None | m # ms \<Rightarrow> Some (m, q\<lparr>mq_queue := ms\<rparr>))"
  by (simp add: mq_deq_def mq_pop_def Let_def split: list.splits)

interpretation mq: priority_channel by_priority qm_priority mq_enq mq_deq mq_sorted
proof
  fix q m q'
  assume s: "mq_sorted q"
  show "mq_sorted (mq_enq m q)"
    using s by (simp add: mq_sorted_def mq_enq_def sorted_insert_message)
  show "by_priority (mq_enq m q)
      = (by_priority q)(qm_priority m := by_priority q (qm_priority m) @ [m])"
    using s by (auto simp: fun_eq_iff by_priority_def mq_enq_def mq_sorted_def filter_insert_message)
  show "mq_deq q = None \<longleftrightarrow> (\<forall>p. by_priority q p = [])"
    by (cases "mq_queue q") (auto simp: mq_deq_simp by_priority_def)
  assume d: "mq_deq q = Some (m, q')"
  then obtain ms where ms: "mq_queue q = m # ms" "q' = q\<lparr>mq_queue := ms\<rparr>"
    by (auto simp: mq_deq_simp split: list.splits)
  show "mq_sorted q'" using s ms by (simp add: mq_sorted_def)
  have le: "\<forall>x \<in> set ms. qm_priority x \<le> qm_priority m"
    using s ms by (simp add: mq_sorted_def)
  have "by_priority q p = []" if "qm_priority m < p" for p
    using le that ms(1) by (auto simp: by_priority_def filter_empty_conv)
  moreover have "by_priority q = (by_priority q')(qm_priority m := m # by_priority q' (qm_priority m))"
    using ms by (simp add: fun_eq_iff by_priority_def)
  ultimately show "by_priority q = (by_priority q')(qm_priority m := m # by_priority q' (qm_priority m))
      \<and> (\<forall>p > qm_priority m. by_priority q p = [])"
    by blast
qed

lemma mq_push_accepted:
  "length (mq_queue q) < mq_max_size q \<Longrightarrow> fst (snd (mq_push io m q d)) = mq_enq m q"
  by (simp add: mq_push_def mq_enq_def Let_def split: prod.splits)

lemma mq_pop_state: "fst (mq_pop io q d) = map_option fst (mq_deq q)
    \<and> fst (snd (mq_pop io q d)) = (case mq_deq q of None \<Rightarrow> q | Some (_, q') \<Rightarrow> q')"
  by (simp add: mq_pop_def mq_deq_simp Let_def split: list.splits)

section \<open>Properties\<close>

text \<open>
  C16: the queue refines four FIFO queues, one per priority. An accepted push appends the message to
  its own class, leaves the other classes alone and keeps the queue in order within its bound.
\<close>

theorem mq_push_refines:
  assumes "mq_sorted q" and "length (mq_queue q) < mq_max_size q"
  shows "by_priority (fst (snd (mq_push io m q d)))
           = (by_priority q)(qm_priority m := by_priority q (qm_priority m) @ [m])
         \<and> mq_sorted (fst (snd (mq_push io m q d)))
         \<and> mq_bounded (fst (snd (mq_push io m q d)))"
  using mq.enq_classes [OF assms(1)] mq.ok_enq [OF assms(1)] assms(2)
  by (simp add: mq_push_accepted mq_bounded_def) (simp add: mq_enq_def)

theorem mq_push_refines_witness:
  "\<exists>m. by_priority (fst (snd (mq_push SaveOk m (mq_new 2) Absent)))
      = (by_priority (mq_new 2))(qm_priority m := by_priority (mq_new 2) (qm_priority m) @ [m])"
  using mq_push_refines [of "mq_new 2" SaveOk "qm_new [] 0 []" Absent]
  by (auto simp: mq_sorted_def mq_new_def)

text \<open>
  A pop takes the oldest message of the highest class that has one, and changes nothing else;
  it returns nothing exactly when every class is empty.
\<close>

theorem mq_pop_highest_fifo:
  assumes "mq_sorted q"
  shows "case fst (mq_pop io q d) of
      None \<Rightarrow> \<forall>p. by_priority q p = []
    | Some m \<Rightarrow> by_priority q (qm_priority m) = m # by_priority (fst (snd (mq_pop io q d))) (qm_priority m)
        \<and> (\<forall>p > qm_priority m. by_priority q p = [])
        \<and> (\<forall>p. p \<noteq> qm_priority m \<longrightarrow> by_priority (fst (snd (mq_pop io q d))) p = by_priority q p)
        \<and> mq_sorted (fst (snd (mq_pop io q d)))"
proof (cases "mq_deq q")
  case None
  then show ?thesis using mq.deq_None [OF assms] by (simp add: mq_pop_state)
next
  case (Some r)
  then obtain m q' where d: "mq_deq q = Some (m, q')" by (cases r) auto
  have "by_priority q (qm_priority m) = m # by_priority q' (qm_priority m)"
    using mq.deq_head [OF assms d] .
  moreover have "\<forall>p. p \<noteq> qm_priority m \<longrightarrow> by_priority q' p = by_priority q p"
    using mq.deq_other [OF assms d] by blast
  moreover have "\<forall>p > qm_priority m. by_priority q p = []"
    using mq.deq_classes [OF assms d] by blast
  ultimately show ?thesis
    using mq.ok_deq [OF assms d] d by (simp add: mq_pop_state)
qed

theorem mq_pop_highest_fifo_witness:
  "by_priority (mq_new 5) System = []
   \<and> fst (mq_pop SaveOk (mq_enq (qm_system [] 0 []) (mq_enq (qm_new [] 0 []) (mq_new 5))) Absent)
     = Some (qm_system [] 0 [])"
  using mq_pop_highest_fifo [of "mq_new 5" SaveOk Absent]
  by (simp add: mq_pop_def mq_enq_def mq_new_def mq_sorted_def qm_system_def qm_new_def
      priority_order by_priority_def)

text \<open>
  What a push reports. A full queue is refused and nothing changes. When only the save fails
  the caller gets an error although the message has been queued; otherwise the message is queued
  and the file, if there is one, holds the new queue.
\<close>

theorem mq_push_outcome:
  "case mq_push io m q d of (r, q', d') \<Rightarrow>
     (if mq_max_size q \<le> length (mq_queue q)
      then r = Inl (QueueFull (mq_max_size q)) \<and> q' = q \<and> d' = d
      else mq_queue q' = insert_message m (mq_queue q) \<and> m \<in> set (mq_queue q')
        \<and> (if mq_persist_path q = None then r = Inr () \<and> d' = d
           else if io = SaveOk then r = Inr () \<and> d' = Holds (mq_queue q')
           else r = Inl SaveFailed))"
  by (auto simp: mq_push_def mq_save_def Let_def split: io_outcome.splits)

text \<open>The commands of a client, as one step relation on the queue and its file.\<close>

datatype mq_cmd =
    Push queued_message
  | Requeue queued_message
  | Pop
  | Clear
  | Drain

fun mq_exec :: "mq_cmd \<Rightarrow> message_queue \<times> mq_disk \<Rightarrow> (message_queue \<times> mq_disk) option" where
  "mq_exec (Push m) (q, d) = Some (snd (mq_push SaveOk m q d))"
| "mq_exec (Requeue m) (q, d) = map_option snd (requeue True SaveOk m q d)"
| "mq_exec Pop (q, d) = Some (snd (mq_pop SaveOk q d))"
| "mq_exec Clear (q, d) = Some (snd (mq_clear SaveOk q d))"
| "mq_exec Drain (q, d) = Some (snd (mq_drain SaveOk q d))"

text \<open>A command is safe when the warning's 50-byte slice of the message falls on a boundary.\<close>

definition mq_safe :: "mq_cmd \<Rightarrow> bool" where
  "mq_safe e \<longleftrightarrow> (case e of
     Requeue m \<Rightarrow> on_boundary (qm_content m) (min (blen (qm_content m)) 50) | _ \<Rightarrow> True)"

text \<open>The file is either not used or decodes to the queue; a file never written is an empty queue.\<close>

definition mq_synced :: "message_queue \<Rightarrow> mq_disk \<Rightarrow> bool" where
  "mq_synced q d \<longleftrightarrow> mq_persist_path q = None \<or> d = Holds (mq_queue q) \<or> (d = Absent \<and> mq_queue q = [])"

definition mq_inv :: "message_queue \<times> mq_disk \<Rightarrow> bool" where
  "mq_inv s \<longleftrightarrow> mq_sorted (fst s) \<and> mq_bounded (fst s) \<and> mq_synced (fst s) (snd s)"

lemma mq_push_inv: "mq_inv (q, d) \<Longrightarrow> mq_inv (snd (mq_push SaveOk m q d))"
  by (auto simp: mq_inv_def mq_push_def mq_save_def Let_def mq_sorted_def mq_bounded_def
      mq_synced_def sorted_insert_message)

lemma mq_pop_inv: "mq_inv (q, d) \<Longrightarrow> mq_inv (snd (mq_pop SaveOk q d))"
  by (auto simp: mq_inv_def mq_pop_def mq_save_def Let_def mq_sorted_def mq_bounded_def
      mq_synced_def split: list.splits)

lemma mq_clear_inv: "mq_inv (q, d) \<Longrightarrow> mq_inv (snd (mq_clear SaveOk q d))"
  by (auto simp: mq_inv_def mq_clear_def mq_save_def Let_def mq_sorted_def mq_bounded_def mq_synced_def)

lemma mq_drain_inv: "mq_inv (q, d) \<Longrightarrow> mq_inv (snd (mq_drain SaveOk q d))"
  by (auto simp: mq_inv_def mq_drain_def mq_save_def Let_def mq_sorted_def mq_bounded_def mq_synced_def)

lemma requeue_inv:
  assumes "mq_inv (q, d)" and "mq_safe (Requeue m)"
  shows "\<exists>r. requeue True SaveOk m q d = Some r \<and> mq_inv (snd r)"
  using assms mq_push_inv [OF assms(1), of "increment_retry m"]
  by (cases "mq_push SaveOk (increment_retry m) q d")
    (auto simp: requeue_def mq_safe_def Let_def increment_retry_def)

interpretation mqm: panic_machine mq_exec mq_safe mq_inv
proof
  fix s :: "message_queue \<times> mq_disk" and e
  assume "mq_inv s" "mq_safe e"
  then show "\<exists>s'. mq_exec e s = Some s' \<and> mq_inv s'"
    by (cases s; cases e)
      (auto simp: mq_push_inv mq_pop_inv mq_clear_inv mq_drain_inv dest: requeue_inv)
qed

lemma mq_synced_reload:
  "mq_synced q d \<Longrightarrow> mq_persist_path q = Some path \<Longrightarrow>
    with_persistence (mq_max_size q) path d = Inr q"
  by (cases q) (auto simp: mq_synced_def with_persistence_def)

lemma mq_exec_frame:
  "mq_exec e (q, d) = Some (q', d') \<Longrightarrow>
    mq_persist_path q' = mq_persist_path q \<and> mq_max_size q' = mq_max_size q"
  by (cases e)
    (auto simp: mq_push_def mq_pop_def mq_clear_def mq_drain_def requeue_def mq_save_def Let_def
      split: if_splits list.splits)

lemma mq_run_frame:
  "run_opt mq_exec es (q, d) = Some (q', d') \<Longrightarrow>
    mq_persist_path q' = mq_persist_path q \<and> mq_max_size q' = mq_max_size q"
proof (induction es arbitrary: q d)
  case (Cons e es)
  then obtain q1 d1 where "mq_exec e (q, d) = Some (q1, d1)" "run_opt mq_exec es (q1, d1) = Some (q', d')"
    by (auto simp: bind_eq_Some_conv)
  then show ?case using Cons.IH mq_exec_frame by metis
qed simp



text \<open>
  Bounded retries. A message goes back on the queue only while its incremented retry count does
  not pass its limit; past it the message is dropped without an error and the queue is untouched.
  The 32-bit counter does not wrap on the way: starting at zero, the message is accepted exactly
  \<open>qm_max_retries\<close> times.
\<close>

theorem requeue_bounded:
  assumes "k < 2 ^ 32 - 1" and "m = m0\<lparr>qm_retry_count := of_nat k\<rparr>" and "mq_persist_path q = None"
    and "length (mq_queue q) < mq_max_size q"
  shows "requeue False io m q d =
    (if k < unat (qm_max_retries m0)
     then Some (Inr (), mq_enq (m0\<lparr>qm_retry_count := of_nat (Suc k)\<rparr>) q, d)
     else Some (Inr (), q, d))"
proof -
  have "unat (of_nat k + 1 :: 32 word) = Suc k"
    using assms(1) by (simp add: unat_word_ariths unat_of_nat take_bit_nat_eq_self)
  then have "retries_exhausted (increment_retry m) \<longleftrightarrow> \<not> k < unat (qm_max_retries m0)"
    using assms(2) by (auto simp: retries_exhausted_def increment_retry_def word_less_nat_alt)
  moreover have "increment_retry m = m0\<lparr>qm_retry_count := of_nat (Suc k)\<rparr>"
    using assms(2) by (simp add: increment_retry_def add.commute)
  ultimately show ?thesis
    using assms(3,4) by (simp add: requeue_def mq_push_def mq_enq_def Let_def)
qed

theorem requeue_bounded_witness:
  "requeue False SaveOk (qm_new [] 0 []) (mq_new 1) Absent
     = Some (Inr (), mq_enq ((qm_new [] 0 [])\<lparr>qm_retry_count := of_nat (Suc 0)\<rparr>) (mq_new 1), Absent)"
  using requeue_bounded [of 0 "qm_new [] 0 []" "qm_new [] 0 []" "mq_new 1" SaveOk Absent]
  by (simp add: mq_new_def qm_new_def)

text \<open>
  The drop path is not safe for every message. A message of 49 ASCII characters followed by a
  two-byte character makes the warning's slice panic when its retries run out.
\<close>

theorem requeue_drop_can_panic:
  "requeue True io ((qm_new uuid now (replicate 49 97 @ [233]))\<lparr>qm_retry_count := 3\<rparr>) q d = None"
proof -
  have "blen (replicate n 97) = n" for n by (induction n) auto
  moreover have "\<not> on_boundary (a @ [233]) (Suc (blen a))" for a
    by (induction a) (auto simp: on_boundary_def utf8_len_def)
  ultimately have "\<not> on_boundary (replicate 49 97 @ [233]) 50"
    by (metis eval_nat_numeral(3) numeral_eq_Suc pred_numeral_simps(2) semiring_norm(26-28))
  moreover have "blen (replicate 49 97 @ [233]) = 51"
    using \<open>\<And>n. blen (replicate n 97) = n\<close> by (simp add: utf8_len_def)
  ultimately show ?thesis
    by (simp add: requeue_def increment_retry_def retries_exhausted_def qm_new_def)
qed

end
