(* ===== verification/SessionBudget.thy ===== *)
theory SessionBudget
  imports Prelude
begin

text \<open>
  The budget shared by every agent of a session, \<^verbatim>\<open>apps/cli/src/types/session_budget.rs\<close>. The
  counters are atomics: each \<open>fetch_add\<close> is one step, and the agents' calls interleave. They wrap at
  their width, as atomics do. Floating point is a parameter: \<open>to_microcents\<close> is
  \<^verbatim>\<open>(cost_usd * 1_000_000.0) as u64\<close>, \<open>to_usd\<close> is \<^verbatim>\<open>(n as f64) / 1_000_000.0\<close>, and \<open>fge\<close>, \<open>fgt\<close> are the
  comparisons \<^verbatim>\<open>>=\<close> and \<^verbatim>\<open>>\<close> on \<^verbatim>\<open>f64\<close>.
\<close>

section \<open>State\<close>

datatype 'f budget_error =
    TokensExceeded "64 word" "64 word"
  | CostExceeded 'f 'f
  | AgentsExceeded "32 word" "32 word"

record 'f session_budget =
  max_total_tokens :: "64 word option"
  max_total_cost_usd :: "'f option"
  max_agents :: "32 word option"
  tokens_used :: "64 word"
  cost_used_microcents :: "64 word"
  agents_spawned :: "32 word"

record 'f float_ops =
  to_microcents :: "'f \<Rightarrow> 64 word"
  to_usd :: "64 word \<Rightarrow> 'f"
  fge :: "'f \<Rightarrow> 'f \<Rightarrow> bool"
  fgt :: "'f \<Rightarrow> 'f \<Rightarrow> bool"

definition sb_new :: "'f session_budget" where
  "sb_new = \<lparr>max_total_tokens = None, max_total_cost_usd = None, max_agents = None,
             tokens_used = 0, cost_used_microcents = 0, agents_spawned = 0\<rparr>"

definition with_max_tokens :: "64 word \<Rightarrow> 'f session_budget \<Rightarrow> 'f session_budget" where
  "with_max_tokens n b = b\<lparr>max_total_tokens := Some n\<rparr>"

definition with_max_cost_usd :: "'f \<Rightarrow> 'f session_budget \<Rightarrow> 'f session_budget" where
  "with_max_cost_usd x b = b\<lparr>max_total_cost_usd := Some x\<rparr>"

definition with_max_agents :: "32 word \<Rightarrow> 'f session_budget \<Rightarrow> 'f session_budget" where
  "with_max_agents n b = b\<lparr>max_agents := Some n\<rparr>"

section \<open>Operations\<close>

definition cost_used_usd :: "'f float_ops \<Rightarrow> 'f session_budget \<Rightarrow> 'f" where
  "cost_used_usd F b = to_usd F (cost_used_microcents b)"

text \<open>
  Each limit is checked by a \<^verbatim>\<open>if let Some(limit)\<close> block that may return early. Before a spawn a
  limit that is reached refuses (\<^verbatim>\<open>>=\<close>); during a run only a limit that is passed does (\<^verbatim>\<open>>\<close>).
\<close>

definition check_before_spawn :: "'f float_ops \<Rightarrow> 'f session_budget \<Rightarrow> 'f budget_error + unit" where
  "check_before_spawn F b =
     and_then
       (case max_agents b of
          Some limit \<Rightarrow>
            (let spawned = agents_spawned b in
             if spawned \<ge> limit then Inl (AgentsExceeded spawned limit) else Inr ())
        | None \<Rightarrow> Inr ())
       (\<lambda>_. and_then
         (case max_total_tokens b of
            Some limit \<Rightarrow>
              (let used = tokens_used b in
               if used \<ge> limit then Inl (TokensExceeded used limit) else Inr ())
          | None \<Rightarrow> Inr ())
         (\<lambda>_. case max_total_cost_usd b of
            Some limit \<Rightarrow>
              (let used = cost_used_usd F b in
               if fge F used limit then Inl (CostExceeded used limit) else Inr ())
          | None \<Rightarrow> Inr ()))"

definition check_limits :: "'f float_ops \<Rightarrow> 'f session_budget \<Rightarrow> 'f budget_error + unit" where
  "check_limits F b =
     and_then
       (case max_total_tokens b of
          Some limit \<Rightarrow>
            (let used = tokens_used b in
             if used > limit then Inl (TokensExceeded used limit) else Inr ())
        | None \<Rightarrow> Inr ())
       (\<lambda>_. case max_total_cost_usd b of
          Some limit \<Rightarrow>
            (let used = cost_used_usd F b in
             if fgt F used limit then Inl (CostExceeded used limit) else Inr ())
        | None \<Rightarrow> Inr ())"

text \<open>The atomic updates, and the calls that are made of them.\<close>

datatype sb_atom = AddTokens "64 word" | AddMicrocents "64 word" | AddAgent

fun sb_step :: "sb_atom \<Rightarrow> 'f session_budget \<Rightarrow> 'f session_budget" where
  "sb_step (AddTokens n) b = b\<lparr>tokens_used := tokens_used b + n\<rparr>"
| "sb_step (AddMicrocents n) b = b\<lparr>cost_used_microcents := cost_used_microcents b + n\<rparr>"
| "sb_step AddAgent b = b\<lparr>agents_spawned := agents_spawned b + 1\<rparr>"

definition record_run :: "'f float_ops \<Rightarrow> 64 word \<Rightarrow> 'f \<Rightarrow> 'f session_budget \<Rightarrow> 'f session_budget" where
  "record_run F tokens cost_usd b =
     sb_step (AddMicrocents (to_microcents F cost_usd)) (sb_step (AddTokens tokens) b)"

definition increment_agent_count :: "'f session_budget \<Rightarrow> 'f session_budget" where
  "increment_agent_count b = sb_step AddAgent b"

datatype 'f sb_call = RecordRun "64 word" 'f | IncrementAgentCount

fun sb_atoms :: "'f float_ops \<Rightarrow> 'f sb_call \<Rightarrow> sb_atom list" where
  "sb_atoms F (RecordRun t c) = [AddTokens t, AddMicrocents (to_microcents F c)]"
| "sb_atoms F IncrementAgentCount = [AddAgent]"

fun sb_exec :: "'f float_ops \<Rightarrow> 'f sb_call \<Rightarrow> 'f session_budget \<Rightarrow> 'f session_budget" where
  "sb_exec F (RecordRun t c) b = record_run F t c b"
| "sb_exec F IncrementAgentCount b = increment_agent_count b"

section \<open>Lemmas\<close>

interpretation sb: commuting_machine sb_step
proof
  fix e f :: sb_atom and s :: "'f session_budget"
  show "sb_step e (sb_step f s) = sb_step f (sb_step e s)"
    by (cases e; cases f) (simp_all add: ac_simps)
qed

lemma sb_exec_atoms: "sb_exec F c b = fold sb_step (sb_atoms F c) b"
  by (cases c) (simp_all add: record_run_def increment_agent_count_def)

lemma sb_exec_concat: "fold (sb_exec F) cs b = fold sb_step (concat (map (sb_atoms F) cs)) b"
  by (induction cs arbitrary: b) (simp_all add: sb_exec_atoms)

text \<open>What a run adds to each counter.\<close>

fun call_tokens :: "'f sb_call \<Rightarrow> 64 word" where
  "call_tokens (RecordRun t c) = t"
| "call_tokens IncrementAgentCount = 0"

fun call_microcents :: "'f float_ops \<Rightarrow> 'f sb_call \<Rightarrow> 64 word" where
  "call_microcents F (RecordRun t c) = to_microcents F c"
| "call_microcents F IncrementAgentCount = 0"

fun call_agents :: "'f sb_call \<Rightarrow> 32 word" where
  "call_agents (RecordRun t c) = 0"
| "call_agents IncrementAgentCount = 1"

lemma sb_exec_sums:
  "fold (sb_exec F) cs b =
     b\<lparr>tokens_used := tokens_used b + sum_list (map call_tokens cs),
       cost_used_microcents := cost_used_microcents b + sum_list (map (call_microcents F) cs),
       agents_spawned := agents_spawned b + sum_list (map call_agents cs)\<rparr>"
proof (induction cs arbitrary: b)
  case (Cons c cs)
  then show ?case
    by (cases c) (simp_all add: record_run_def increment_agent_count_def ac_simps)
qed simp

lemma unat_sum_list_word64:
  "unat (x + sum_list ws :: 64 word) = (unat x + sum_list (map unat ws)) mod 2 ^ 64"
proof (induction ws arbitrary: x)
  case (Cons w ws)
  have "unat (x + sum_list (w # ws)) = (unat (x + w) + sum_list (map unat ws)) mod 2 ^ 64"
    using Cons [of "x + w"] by (simp add: add.assoc)
  then show ?case by (simp add: unat_word_ariths mod_simps add.assoc)
next
  case Nil
  have "unat x < 2 ^ 64" by (rule order.strict_trans2 [OF unsigned_less]) simp
  then show ?case by simp
qed

lemma check_before_spawn_Inr:
  "check_before_spawn F b = Inr () \<longleftrightarrow>
     pred_option (\<lambda>l. agents_spawned b < l) (max_agents b)
     \<and> pred_option (\<lambda>l. tokens_used b < l) (max_total_tokens b)
     \<and> pred_option (\<lambda>l. \<not> fge F (cost_used_usd F b) l) (max_total_cost_usd b)"
  by (auto simp: check_before_spawn_def and_then_Inr_iff Let_def not_le split: option.splits)

lemma check_limits_Inr:
  "check_limits F b = Inr () \<longleftrightarrow>
     pred_option (\<lambda>l. tokens_used b \<le> l) (max_total_tokens b)
     \<and> pred_option (\<lambda>l. \<not> fgt F (cost_used_usd F b) l) (max_total_cost_usd b)"
  by (auto simp: check_limits_def and_then_Inr_iff Let_def not_less split: option.splits)

section \<open>Properties\<close>

text \<open>
  Lock-free accounting. However the atomic updates of concurrent agents interleave, the budget ends
  in the state the calls reach one after another, no update is lost, and every counter is the sum of
  what the calls added, modulo its width.
\<close>

theorem record_run_interleaving:
  assumes "mset es = mset (concat (map (sb_atoms F) calls))"
  shows "fold sb_step es b = fold (sb_exec F) calls b
    \<and> unat (tokens_used (fold sb_step es b))
        = (unat (tokens_used b) + sum_list (map (unat \<circ> call_tokens) calls)) mod 2 ^ 64
    \<and> unat (cost_used_microcents (fold sb_step es b))
        = (unat (cost_used_microcents b) + sum_list (map (unat \<circ> call_microcents F) calls)) mod 2 ^ 64"
proof -
  have eq: "fold sb_step es b = fold (sb_exec F) calls b"
    using sb.interleaving_irrelevant [OF assms] by (simp add: sb_exec_concat)
  show ?thesis
    unfolding eq by (simp add: sb_exec_sums unat_sum_list_word64 comp_def)
qed

theorem record_run_interleaving_witness:
  "tokens_used (fold sb_step [AddTokens 5, AddTokens 7, AddMicrocents 2, AddMicrocents 3]
     (sb_new :: nat session_budget)) = 12"
proof -
  let ?F = "\<lparr>to_microcents = of_nat, to_usd = unat, fge = (\<ge>), fgt = (>)\<rparr> :: nat float_ops"
  have "unat (tokens_used (fold sb_step [AddTokens 5, AddTokens 7, AddMicrocents 2, AddMicrocents 3]
     (sb_new :: nat session_budget))) = 12"
    using record_run_interleaving
      [of "[AddTokens 5, AddTokens 7, AddMicrocents 2, AddMicrocents 3]" ?F "[RecordRun 5 3, RecordRun 7 2]"
        sb_new]
    by (simp add: sb_new_def record_run_def)
  then show ?thesis by (simp add: sb_new_def)
qed

text \<open>
  The two checks. A spawn is allowed exactly when no limit is reached, a running agent goes on exactly
  while no limit is passed; so when a spawn is allowed the running agents may go on, and an agent may use
  the budget up to the limit and no further.
\<close>

theorem budget_checks:
  assumes "\<And>x y. fgt F x y \<Longrightarrow> fge F x y"
  shows "(check_before_spawn F b = Inr () \<longleftrightarrow>
       pred_option (\<lambda>l. agents_spawned b < l) (max_agents b)
       \<and> pred_option (\<lambda>l. tokens_used b < l) (max_total_tokens b)
       \<and> pred_option (\<lambda>l. \<not> fge F (cost_used_usd F b) l) (max_total_cost_usd b))
    \<and> (check_limits F b = Inr () \<longleftrightarrow>
       pred_option (\<lambda>l. tokens_used b \<le> l) (max_total_tokens b)
       \<and> pred_option (\<lambda>l. \<not> fgt F (cost_used_usd F b) l) (max_total_cost_usd b))
    \<and> (check_before_spawn F b = Inr () \<longrightarrow> check_limits F b = Inr ())"
  unfolding check_before_spawn_Inr check_limits_Inr
  using assms by (auto simp: option.pred_set elim: order.strict_implies_order)

theorem budget_checks_witness:
  "check_limits \<lparr>to_microcents = of_nat, to_usd = unat, fge = (\<ge>), fgt = (>)\<rparr>
     (with_max_cost_usd 3 (with_max_tokens 10 (sb_new :: nat session_budget))) = Inr ()"
  using budget_checks [of "\<lparr>to_microcents = of_nat, to_usd = unat, fge = (\<ge>), fgt = (>)\<rparr>"
      "with_max_cost_usd 3 (with_max_tokens 10 (sb_new :: nat session_budget))"]
  by (simp add: sb_new_def with_max_cost_usd_def with_max_tokens_def cost_used_usd_def)

text \<open>
  An overrun is final. While the counters do not wrap, a session over its token limit stays over it
  whatever the agents still record.
\<close>

theorem token_overrun_final:
  assumes "max_total_tokens b = Some l" and "l < tokens_used b"
    and "unat (tokens_used b) + sum_list (map (unat \<circ> call_tokens) calls) < 2 ^ 64"
  shows "check_limits F (fold (sb_exec F) calls b)
      = Inl (TokensExceeded (tokens_used b + sum_list (map call_tokens calls)) l)"
proof -
  have "unat (tokens_used b + sum_list (map call_tokens calls))
      = unat (tokens_used b) + sum_list (map (unat \<circ> call_tokens) calls)"
    using assms(3) by (simp add: unat_sum_list_word64 comp_def)
  then have "l < tokens_used b + sum_list (map call_tokens calls)"
    using assms(2) by (simp add: word_less_nat_alt)
  then show ?thesis using assms(1) by (simp add: check_limits_def sb_exec_sums)
qed

theorem token_overrun_final_witness:
  "check_limits \<lparr>to_microcents = of_nat, to_usd = unat, fge = (\<ge>), fgt = (>)\<rparr>
     (fold (sb_exec \<lparr>to_microcents = of_nat, to_usd = unat, fge = (\<ge>), fgt = (>)\<rparr>) [RecordRun 5 1]
       (record_run \<lparr>to_microcents = of_nat, to_usd = unat, fge = (\<ge>), fgt = (>)\<rparr> 11 0
         (with_max_tokens 10 (sb_new :: nat session_budget)))) = Inl (TokensExceeded 16 10)"
  using token_overrun_final [of "record_run \<lparr>to_microcents = of_nat, to_usd = unat, fge = (\<ge>), fgt = (>)\<rparr> 11 0
         (with_max_tokens 10 (sb_new :: nat session_budget))" 10 "[RecordRun 5 1]"
      "\<lparr>to_microcents = of_nat, to_usd = unat, fge = (\<ge>), fgt = (>)\<rparr>"]
  by (simp add: sb_new_def with_max_tokens_def record_run_def)

end
