(* ===== verification/WorkingSet.thy ===== *)
theory WorkingSet
  imports Prelude "HOL-Library.Product_Lexorder"
begin

text \<open>
  The files an agent keeps in context, \<^verbatim>\<open>apps/cli/src/types/working_set.rs\<close>, and
  \<^verbatim>\<open>truncate_on_char_boundary\<close> of \<^verbatim>\<open>apps/cli/src/utils/mod.rs\<close>. The hash map is an association list in
  its iteration order, which the language leaves open: an insertion may reorder it, so the operations
  that insert take the reordering \<open>sh\<close> as a parameter, of which the lemmas only assume
  \<open>mset (sh es) = mset es\<close>. Paths are the strings they are keyed by. The file system is a parameter.
\<close>

section \<open>State\<close>

record ws_entry =
  we_path :: rstr
  we_tokens :: nat
  we_access_count :: "32 word"
  we_last_access_turn :: "32 word"
  we_added_at_turn :: "32 word"
  we_pinned :: bool
  we_label :: "rstr option"

definition we_new :: "rstr \<Rightarrow> nat \<Rightarrow> 32 word \<Rightarrow> ws_entry" where
  "we_new path tokens turn =
     \<lparr>we_path = path, we_tokens = tokens, we_access_count = 1, we_last_access_turn = turn,
      we_added_at_turn = turn, we_pinned = False, we_label = None\<rparr>"

definition we_with_label :: "rstr \<Rightarrow> ws_entry \<Rightarrow> ws_entry" where
  "we_with_label l e = e\<lparr>we_label := Some l\<rparr>"

definition we_as_pinned :: "ws_entry \<Rightarrow> ws_entry" where
  "we_as_pinned e = e\<lparr>we_pinned := True\<rparr>"

record ws_config =
  wc_max_files :: nat
  wc_max_tokens :: nat
  wc_stale_after_turns :: "32 word"
  wc_auto_evict :: bool

definition wc_default :: ws_config where
  "wc_default = \<lparr>wc_max_files = 15, wc_max_tokens = 100000, wc_stale_after_turns = 10, wc_auto_evict = True\<rparr>"

type_synonym ws_entries = "(rstr \<times> ws_entry) list"

record working_set =
  ws_entries :: ws_entries
  ws_config :: ws_config
  ws_current_turn :: "32 word"
  ws_last_eviction :: "rstr option"

definition ws_new :: working_set where
  "ws_new = \<lparr>ws_entries = [], ws_config = wc_default, ws_current_turn = 0, ws_last_eviction = None\<rparr>"

definition ws_with_config :: "ws_config \<Rightarrow> working_set" where
  "ws_with_config c = \<lparr>ws_entries = [], ws_config = c, ws_current_turn = 0, ws_last_eviction = None\<rparr>"

section \<open>Eviction\<close>

text \<open>\<^verbatim>\<open>u32::saturating_sub\<close>.\<close>

definition sat_sub :: "32 word \<Rightarrow> 32 word \<Rightarrow> 32 word" where
  "sat_sub a b = (if b \<le> a then a - b else 0)"

definition total_tokens :: "ws_entries \<Rightarrow> nat" where
  "total_tokens es = sum_list (map (we_tokens \<circ> snd) es)"

definition is_stale :: "working_set \<Rightarrow> ws_entry \<Rightarrow> bool" where
  "is_stale w e \<longleftrightarrow>
     sat_sub (ws_current_turn w) (we_last_access_turn e) \<ge> wc_stale_after_turns (ws_config w)"

definition stale_files :: "working_set \<Rightarrow> ws_entry list" where
  "stale_files w = filter (\<lambda>e. \<not> we_pinned e \<and> is_stale w e) (map snd (ws_entries w))"

definition evict_stale :: "working_set \<Rightarrow> working_set" where
  "evict_stale w =
     (let threshold = sat_sub (ws_current_turn w) (wc_stale_after_turns (ws_config w));
          es = filter (\<lambda>(_, e). we_pinned e \<or> we_last_access_turn e > threshold) (ws_entries w);
          evicted = length (ws_entries w) - length es;
          w' = w\<lparr>ws_entries := es\<rparr>
      in if evicted > 0
         then w'\<lparr>ws_last_eviction :=
           Some (lit ''Evicted '' @ show_nat evicted @ lit '' stale file(s)'')\<rparr>
         else w')"

definition next_turn :: "working_set \<Rightarrow> working_set" where
  "next_turn w =
     (let w' = w\<lparr>ws_current_turn := ws_current_turn w + 1\<rparr>
      in if wc_auto_evict (ws_config w') then evict_stale w' else w')"

text \<open>
  The least recently used entry that is not pinned, the access count breaking ties:
  \<^verbatim>\<open>min_by_key\<close> returns the first of the least elements.
\<close>

definition lru_key :: "ws_entry \<Rightarrow> 32 word \<times> 32 word" where
  "lru_key e = (we_last_access_turn e, we_access_count e)"

fun first_min :: "('a \<Rightarrow> 'b::linorder) \<Rightarrow> 'a list \<Rightarrow> 'a option" where
  "first_min f [] = None"
| "first_min f (x # xs) =
     (case first_min f xs of None \<Rightarrow> Some x | Some y \<Rightarrow> if f y < f x then Some y else Some x)"

definition find_lru_candidate :: "ws_entries \<Rightarrow> rstr option" where
  "find_lru_candidate es =
     map_option fst (first_min (\<lambda>(_, e). lru_key e) (filter (\<lambda>(_, e). \<not> we_pinned e) es))"

definition map_remove :: "'k \<Rightarrow> ('k \<times> 'v) list \<Rightarrow> ('k \<times> 'v) list" where
  "map_remove k es = filter (\<lambda>(k', _). k' \<noteq> k) es"

lemma first_min_None [simp]: "first_min f xs = None \<longleftrightarrow> xs = []"
  by (cases xs) (auto split: option.splits)

lemma first_min_Some:
  "first_min f xs = Some x \<Longrightarrow> x \<in> set xs \<and> (\<forall>y \<in> set xs. f x \<le> f y)"
proof (induction xs arbitrary: x)
  case (Cons a xs)
  show ?case
  proof (cases "first_min f xs")
    case None
    with Cons.prems show ?thesis by simp
  next
    case (Some y)
    with Cons.IH have "y \<in> set xs" "\<forall>z \<in> set xs. f y \<le> f z" by auto
    with Some Cons.prems show ?thesis by (auto split: if_splits)
  qed
qed simp

lemma find_lru_candidate_Some:
  assumes "find_lru_candidate es = Some k"
  obtains e where "(k, e) \<in> set es" "\<not> we_pinned e"
    "\<forall>p \<in> set es. \<not> we_pinned (snd p) \<longrightarrow> lru_key e \<le> lru_key (snd p)"
proof -
  from assms obtain e where
    "first_min (\<lambda>(_, e). lru_key e) (filter (\<lambda>(_, e). \<not> we_pinned e) es) = Some (k, e)"
    by (auto simp: find_lru_candidate_def)
  from first_min_Some [OF this] show ?thesis
    by (intro that [of e]) (auto simp: case_prod_beta)
qed

lemma find_lru_candidate_None: "find_lru_candidate es = None \<longleftrightarrow> (\<forall>p \<in> set es. we_pinned (snd p))"
  by (auto simp: find_lru_candidate_def filter_empty_conv)

lemma length_map_remove: "k \<in> fst ` set es \<Longrightarrow> length (map_remove k es) < length es"
  by (induction es) (auto simp: map_remove_def intro: le_imp_less_Suc)

text \<open>
  A \<^verbatim>\<open>while\<close> loop of \<^verbatim>\<open>maybe_evict\<close>: it evicts candidates while \<open>over\<close> holds of the entries. The
  inner \<^verbatim>\<open>if let\<close> always succeeds, since the candidate is a key of the map.
\<close>

function evict_while :: "(ws_entries \<Rightarrow> bool) \<Rightarrow> ws_entries \<Rightarrow> rstr list \<Rightarrow> ws_entries \<times> rstr list" where
  "evict_while over es evicted =
     (if over es then
        (case find_lru_candidate es of
           Some k \<Rightarrow>
             (case map_of es k of
                Some e \<Rightarrow> evict_while over (map_remove k es) (evicted @ [we_path e])
              | None \<Rightarrow> evict_while over es evicted)
         | None \<Rightarrow> (es, evicted))
      else (es, evicted))"
  by pat_completeness auto
termination
proof (relation "measure (\<lambda>(over, es, evicted). length es)")
  fix over :: "ws_entries \<Rightarrow> bool" and es evicted k e
  assume "over es" "find_lru_candidate es = Some k" "map_of es k = Some e"
  then have "k \<in> fst ` set es" by (force dest: map_of_SomeD)
  then show "((over, map_remove k es, evicted @ [we_path e]), over, es, evicted)
      \<in> measure (\<lambda>(over, es, evicted). length es)" by (simp add: length_map_remove)
next
  fix over :: "ws_entries \<Rightarrow> bool" and es :: ws_entries and evicted :: "rstr list" and k
  assume "find_lru_candidate es = Some k" "map_of es k = None"
  then have False
    by (auto elim!: find_lru_candidate_Some simp: map_of_eq_None_iff rev_image_eqI)
  then show "((over, es, evicted), over, es, evicted) \<in> measure (\<lambda>(over, es, evicted). length es)" ..
qed auto

declare evict_while.simps [simp del]

definition over_files :: "ws_config \<Rightarrow> ws_entries \<Rightarrow> bool" where
  "over_files c es \<longleftrightarrow> length es \<ge> wc_max_files c"

definition over_tokens :: "ws_config \<Rightarrow> nat \<Rightarrow> ws_entries \<Rightarrow> bool" where
  "over_tokens c new_tokens es \<longleftrightarrow> total_tokens es + new_tokens > wc_max_tokens c"

definition maybe_evict :: "nat \<Rightarrow> working_set \<Rightarrow> rstr option \<times> working_set" where
  "maybe_evict new_tokens w =
     (case evict_while (over_files (ws_config w)) (ws_entries w) [] of
        (es1, ev1) \<Rightarrow>
          (case evict_while (over_tokens (ws_config w) new_tokens) es1 ev1 of
             (es2, ev2) \<Rightarrow>
               (let w' = w\<lparr>ws_entries := es2\<rparr> in
                if ev2 = [] then (None, w')
                else (let reason = lit ''Evicted: '' @ join (lit '', '') ev2
                      in (Some reason, w'\<lparr>ws_last_eviction := Some reason\<rparr>)))))"

section \<open>Operations\<close>

text \<open>\<^verbatim>\<open>if let Some(entry) = entries.get_mut(&key) { ... }\<close>.\<close>

definition map_update :: "'k \<Rightarrow> ('v \<Rightarrow> 'v) \<Rightarrow> ('k \<times> 'v) list \<Rightarrow> ('k \<times> 'v) list" where
  "map_update k f es = map (\<lambda>(k', v). if k' = k then (k', f v) else (k', v)) es"

definition has_key :: "'k \<Rightarrow> ('k \<times> 'v) list \<Rightarrow> bool" where
  "has_key k es \<longleftrightarrow> map_of es k \<noteq> None"

definition map_insert :: "(ws_entries \<Rightarrow> ws_entries) \<Rightarrow> rstr \<Rightarrow> ws_entry \<Rightarrow> ws_entries \<Rightarrow> ws_entries" where
  "map_insert sh k e es = sh ((k, e) # map_remove k es)"

definition access :: "32 word \<Rightarrow> ws_entry \<Rightarrow> ws_entry" where
  "access turn e = e\<lparr>we_access_count := we_access_count e + 1, we_last_access_turn := turn\<rparr>"

definition ws_add :: "(ws_entries \<Rightarrow> ws_entries) \<Rightarrow> rstr \<Rightarrow> nat \<Rightarrow> working_set \<Rightarrow> rstr option \<times> working_set" where
  "ws_add sh key tokens w =
     (if has_key key (ws_entries w)
      then (None, w\<lparr>ws_entries := map_update key (access (ws_current_turn w)) (ws_entries w)\<rparr>)
      else (case maybe_evict tokens w of
        (reason, w') \<Rightarrow>
          (reason, w'\<lparr>ws_entries :=
             map_insert sh key (we_new key tokens (ws_current_turn w')) (ws_entries w')\<rparr>)))"

definition ws_add_labeled :: "(ws_entries \<Rightarrow> ws_entries) \<Rightarrow> rstr \<Rightarrow> nat \<Rightarrow> rstr \<Rightarrow> working_set
    \<Rightarrow> rstr option \<times> working_set" where
  "ws_add_labeled sh key tokens label w =
     (if has_key key (ws_entries w)
      then (None, w\<lparr>ws_entries := map_update key
              (\<lambda>e. (access (ws_current_turn w) e)\<lparr>we_label := Some label\<rparr>) (ws_entries w)\<rparr>)
      else (case maybe_evict tokens w of
        (reason, w') \<Rightarrow>
          (reason, w'\<lparr>ws_entries := map_insert sh key
             (we_with_label label (we_new key tokens (ws_current_turn w'))) (ws_entries w')\<rparr>)))"

definition set_label :: "rstr option \<Rightarrow> ws_entry \<Rightarrow> ws_entry" where
  "set_label label e = (case label of Some l \<Rightarrow> e\<lparr>we_label := Some l\<rparr> | None \<Rightarrow> e)"

definition ws_add_pinned :: "(ws_entries \<Rightarrow> ws_entries) \<Rightarrow> rstr \<Rightarrow> nat \<Rightarrow> rstr option \<Rightarrow> working_set
    \<Rightarrow> working_set" where
  "ws_add_pinned sh key tokens label w =
     (if has_key key (ws_entries w)
      then w\<lparr>ws_entries := map_update key
             (\<lambda>e. set_label label (access (ws_current_turn w) (e\<lparr>we_pinned := True\<rparr>))) (ws_entries w)\<rparr>
      else w\<lparr>ws_entries := map_insert sh key
             (set_label label (we_as_pinned (we_new key tokens (ws_current_turn w)))) (ws_entries w)\<rparr>)"

definition ws_touch :: "rstr \<Rightarrow> working_set \<Rightarrow> bool \<times> working_set" where
  "ws_touch key w =
     (if has_key key (ws_entries w)
      then (True, w\<lparr>ws_entries := map_update key (access (ws_current_turn w)) (ws_entries w)\<rparr>)
      else (False, w))"

definition ws_remove :: "rstr \<Rightarrow> working_set \<Rightarrow> bool \<times> working_set" where
  "ws_remove key w = (has_key key (ws_entries w), w\<lparr>ws_entries := map_remove key (ws_entries w)\<rparr>)"

definition ws_pin :: "rstr \<Rightarrow> working_set \<Rightarrow> bool \<times> working_set" where
  "ws_pin key w =
     (if has_key key (ws_entries w)
      then (True, w\<lparr>ws_entries := map_update key (\<lambda>e. e\<lparr>we_pinned := True\<rparr>) (ws_entries w)\<rparr>)
      else (False, w))"

definition ws_unpin :: "rstr \<Rightarrow> working_set \<Rightarrow> bool \<times> working_set" where
  "ws_unpin key w =
     (if has_key key (ws_entries w)
      then (True, w\<lparr>ws_entries := map_update key (\<lambda>e. e\<lparr>we_pinned := False\<rparr>) (ws_entries w)\<rparr>)
      else (False, w))"

definition ws_clear :: "bool \<Rightarrow> working_set \<Rightarrow> working_set" where
  "ws_clear keep_pinned w =
     w\<lparr>ws_entries := (if keep_pinned then filter (\<lambda>(_, e). we_pinned e) (ws_entries w) else []),
       ws_last_eviction := None\<rparr>"

definition ws_get :: "rstr \<Rightarrow> working_set \<Rightarrow> ws_entry option" where
  "ws_get key w = map_of (ws_entries w) key"

definition ws_contains :: "rstr \<Rightarrow> working_set \<Rightarrow> bool" where
  "ws_contains key w \<longleftrightarrow> has_key key (ws_entries w)"

section \<open>The map of entries\<close>

definition ws_ok :: "ws_entries \<Rightarrow> bool" where
  "ws_ok es \<longleftrightarrow> distinct (map fst es) \<and> (\<forall>p \<in> set es. we_path (snd p) = fst p)"

definition permutes :: "('a list \<Rightarrow> 'a list) \<Rightarrow> bool" where
  "permutes sh \<longleftrightarrow> (\<forall>xs. mset (sh xs) = mset xs)"

lemma permutes_set [simp]: "permutes sh \<Longrightarrow> set (sh xs) = set xs"
  by (metis permutes_def set_mset_mset)

lemma permutes_distinct_fst [simp]: "permutes sh \<Longrightarrow> distinct (map fst (sh xs)) \<longleftrightarrow> distinct (map fst xs)"
  by (metis mset_eq_imp_distinct_iff mset_map permutes_def)

lemma permutes_length [simp]: "permutes sh \<Longrightarrow> length (sh xs) = length xs"
  by (metis permutes_def mset_eq_length)

lemma permutes_total [simp]: "permutes sh \<Longrightarrow> total_tokens (sh xs) = total_tokens xs"
  by (metis permutes_def total_tokens_def mset_map sum_mset_sum_list)

lemma map_of_permuted [simp]:
  "permutes sh \<Longrightarrow> distinct (map fst xs) \<Longrightarrow> map_of (sh xs) = map_of xs"
  by (metis map_of_inject_set permutes_distinct_fst permutes_set)

lemma set_map_remove [simp]: "set (map_remove k es) = {p \<in> set es. fst p \<noteq> k}"
  by (auto simp: map_remove_def)

lemma distinct_filter_fst [simp]: "distinct (map fst es) \<Longrightarrow> distinct (map fst (filter P es))"
  by (induction es) auto

lemma distinct_map_remove [simp]: "distinct (map fst es) \<Longrightarrow> distinct (map fst (map_remove k es))"
  by (simp add: map_remove_def)

lemma map_of_map_remove [simp]: "map_of (map_remove k es) = (map_of es)(k := None)"
  by (induction es) (auto simp: map_remove_def fun_eq_iff)

lemma fst_map_update [simp]: "map fst (map_update k f es) = map fst es"
  by (simp add: map_update_def case_prod_beta comp_def if_distrib cong: if_cong)

lemma map_of_map_update [simp]:
  "map_of (map_update k f es) = (map_of es)(k := map_option f (map_of es k))"
  by (induction es) (auto simp: map_update_def fun_eq_iff)

lemma set_map_update:
  "set (map_update k f es) = (\<lambda>q. (fst q, if fst q = k then f (snd q) else snd q)) ` set es"
  unfolding map_update_def set_map by (rule image_cong) (auto simp: case_prod_beta)

lemma ws_ok_map_update [simp]:
  "ws_ok es \<Longrightarrow> (\<And>e. we_path (f e) = we_path e) \<Longrightarrow> ws_ok (map_update k f es)"
  by (simp add: ws_ok_def set_map_update)

lemma ws_ok_simps [simp]:
  "ws_ok []"
  "ws_ok es \<Longrightarrow> ws_ok (filter P es)"
  "ws_ok es \<Longrightarrow> ws_ok (map_remove k es)"
  "permutes sh \<Longrightarrow> ws_ok es \<Longrightarrow> we_path e = k \<Longrightarrow> ws_ok (map_insert sh k e es)"
  by (auto simp: ws_ok_def map_insert_def)

lemma map_of_map_insert [simp]:
  assumes "permutes sh" and "ws_ok es"
  shows "map_of (map_insert sh k e es) = (map_of es)(k \<mapsto> e)"
proof -
  have "distinct (map fst ((k, e) # map_remove k es))"
    using assms(2) by (auto simp: ws_ok_def)
  then have "map_of (map_insert sh k e es) = map_of ((k, e) # map_remove k es)"
    using assms(1) unfolding map_insert_def by (rule map_of_permuted [rotated])
  then show ?thesis by (simp add: fun_eq_iff)
qed

lemma ws_ok_map_of: "ws_ok es \<Longrightarrow> map_of es k = Some e \<longleftrightarrow> (k, e) \<in> set es"
  by (simp add: ws_ok_def)

lemma we_path_simps [simp]:
  "we_path (access t e) = we_path e" "we_path (set_label l e) = we_path e"
  "we_path (we_with_label l' e) = we_path e" "we_path (we_as_pinned e) = we_path e"
  "we_path (we_new k n t) = k"
  by (auto simp: access_def set_label_def we_with_label_def we_as_pinned_def we_new_def split: option.split)

section \<open>What an eviction removes\<close>

text \<open>Every entry gone is unpinned and not more recently used than the unpinned entries left.\<close>

definition lru_evicted :: "ws_entries \<Rightarrow> ws_entries \<Rightarrow> bool" where
  "lru_evicted es es' \<longleftrightarrow> set es' \<subseteq> set es \<and>
     (\<forall>p \<in> set es - set es'. \<not> we_pinned (snd p) \<and>
        (\<forall>q \<in> set es'. \<not> we_pinned (snd q) \<longrightarrow> lru_key (snd p) \<le> lru_key (snd q)))"

lemma lru_evicted_refl [simp]: "lru_evicted es es"
  by (simp add: lru_evicted_def)

lemma lru_evicted_step:
  assumes "lru_evicted es es1" and "ws_ok es1" and "find_lru_candidate es1 = Some k"
  shows "lru_evicted es (map_remove k es1)"
proof -
  obtain e where e: "(k, e) \<in> set es1" "\<not> we_pinned e"
    "\<forall>p \<in> set es1. \<not> we_pinned (snd p) \<longrightarrow> lru_key e \<le> lru_key (snd p)"
    using assms(3) by (rule find_lru_candidate_Some)
  have key: "snd p = e" if "p \<in> set es1" "fst p = k" for p
  proof -
    from that have "(k, snd p) \<in> set es1" by (metis prod.collapse)
    with e(1) assms(2) show ?thesis unfolding ws_ok_def by (metis eq_key_imp_eq_value)
  qed
  show ?thesis
    unfolding lru_evicted_def
  proof (rule conjI, goal_cases sub old)
    case sub
    show ?case using assms(1) by (auto simp: lru_evicted_def)
  next
    case old
    show ?case
    proof (rule ballI)
      fix p assume p: "p \<in> set es - set (map_remove k es1)"
      show "\<not> we_pinned (snd p)
        \<and> (\<forall>q \<in> set (map_remove k es1). \<not> we_pinned (snd q) \<longrightarrow> lru_key (snd p) \<le> lru_key (snd q))"
      proof (cases "p \<in> set es1")
        case True
        with p key have "snd p = e" by simp
        with e show ?thesis by simp
      next
        case False
        with p assms(1) show ?thesis by (simp add: lru_evicted_def)
    qed
    qed
  qed
qed

lemma length_map_remove_key:
  "distinct (map fst es) \<Longrightarrow> (k, e) \<in> set es \<Longrightarrow> length es = Suc (length (map_remove k es))"
proof (induction es)
  case (Cons p es)
  show ?case
  proof (cases "fst p = k")
    case True
    with Cons.prems(1) have "filter (\<lambda>(k', _). k' \<noteq> k) es = es"
      by (auto simp: filter_id_conv image_iff)
    with True show ?thesis by (simp add: map_remove_def case_prod_beta)
  qed (use Cons in \<open>auto simp: map_remove_def\<close>)
qed simp

lemma evict_while_props:
  assumes "ws_ok es"
  shows "case evict_while over es evicted of (es', evicted') \<Rightarrow>
      ws_ok es' \<and> (lru_evicted es0 es \<longrightarrow> lru_evicted es0 es')
      \<and> (over es' \<longrightarrow> (\<forall>p \<in> set es'. we_pinned (snd p)))
      \<and> length es' + length evicted' = length es + length evicted
      \<and> length evicted \<le> length evicted' \<and> (length evicted' = length evicted \<longrightarrow> es' = es)"
  using assms
proof (induction over es evicted rule: evict_while.induct)
  case (1 over es evicted)
  show ?case
  proof (cases "over es \<and> find_lru_candidate es \<noteq> None")
    case True
    then obtain k where k: "over es" "find_lru_candidate es = Some k" by auto
    then obtain e where e: "map_of es k = Some e" "(k, e) \<in> set es"
      by (metis find_lru_candidate_Some "1.prems" ws_ok_map_of)
    have "length es = Suc (length (map_remove k es))"
      using "1.prems" e(2) by (simp add: ws_ok_def length_map_remove_key)
    with "1.IH"(2) [OF k e(1)] "1.prems" lru_evicted_step [OF _ "1.prems" k(2), of es0] show ?thesis
      using k e(1) by (subst evict_while.simps) (auto split: prod.splits)
  next
    case False
    then have "evict_while over es evicted = (es, evicted)"
      by (subst evict_while.simps) (auto split: option.splits)
    with False "1.prems" show ?thesis by (auto simp: find_lru_candidate_None)
  qed
qed

lemma evict_while_result:
  assumes "ws_ok es" and "evict_while over es evicted = (es', evicted')"
  shows "ws_ok es'" and "lru_evicted es0 es \<Longrightarrow> lru_evicted es0 es'" and "set es' \<subseteq> set es"
    and "over es' \<Longrightarrow> \<forall>p \<in> set es'. we_pinned (snd p)"
    and "length es' + length evicted' = length es + length evicted"
    and "length evicted \<le> length evicted'" and "length evicted' = length evicted \<Longrightarrow> es' = es"
proof -
  note props = evict_while_props [OF assms(1), where over = over and evicted = evicted,
      unfolded assms(2) prod.case]
  show "ws_ok es'" "over es' \<Longrightarrow> \<forall>p \<in> set es'. we_pinned (snd p)"
    "length es' + length evicted' = length es + length evicted"
    "length evicted \<le> length evicted'" "length evicted' = length evicted \<Longrightarrow> es' = es"
    using props [of es] by blast+
  show "lru_evicted es0 es \<Longrightarrow> lru_evicted es0 es'" using props [of es0] by blast
  have "lru_evicted es es'" using props [of es] by simp
  then show "set es' \<subseteq> set es" by (simp add: lru_evicted_def)
qed

lemma total_tokens_filter: "total_tokens (filter P es) \<le> total_tokens es"
  by (induction es) (auto simp: total_tokens_def)

text \<open>The limits hold once the loops end, unless only pinned files are left.\<close>

definition within_limits :: "nat \<Rightarrow> working_set \<Rightarrow> bool" where
  "within_limits new_tokens w \<longleftrightarrow>
     (\<forall>p \<in> set (ws_entries w). we_pinned (snd p))
     \<or> (\<not> over_files (ws_config w) (ws_entries w)
        \<and> \<not> over_tokens (ws_config w) new_tokens (ws_entries w))"

lemma maybe_evict_result:
  assumes "ws_ok (ws_entries w)" and "maybe_evict n w = (r, w')"
  shows "ws_ok (ws_entries w')" and "lru_evicted (ws_entries w) (ws_entries w')"
    and "within_limits n w'" and "r = None \<longleftrightarrow> set (ws_entries w) \<subseteq> set (ws_entries w')"
    and "ws_config w' = ws_config w" and "ws_current_turn w' = ws_current_turn w"
proof -
  obtain es1 ev1 where l1: "evict_while (over_files (ws_config w)) (ws_entries w) [] = (es1, ev1)"
    by force
  obtain es2 ev2 where l2: "evict_while (over_tokens (ws_config w) n) es1 ev1 = (es2, ev2)" by force
  note r1 = evict_while_result [OF assms(1) l1]
  note r2 = evict_while_result [OF r1(1) l2]
  have w': "ws_entries w' = es2" "ws_config w' = ws_config w" "ws_current_turn w' = ws_current_turn w"
      "r = None \<longleftrightarrow> ev2 = []"
    using assms(2) l1 l2 by (auto simp: maybe_evict_def Let_def split: if_splits)
  have "over_files (ws_config w) es2 \<Longrightarrow> over_files (ws_config w) es1"
    using r2(5,6) by (simp add: over_files_def)
  then show "within_limits n w'"
    using r1(4) r2(3,4) w' by (auto simp: within_limits_def)
  show "ws_ok (ws_entries w')" "ws_config w' = ws_config w" "ws_current_turn w' = ws_current_turn w"
    using r2(1) w' by auto
  show "lru_evicted (ws_entries w) (ws_entries w')" using r2(2) r1(2) w' by simp
  have "set (ws_entries w) \<subseteq> set es2 \<longleftrightarrow> ev2 = []"
  proof
    assume "set (ws_entries w) \<subseteq> set es2"
    then have "card (set (ws_entries w)) \<le> card (set es2)" by (simp add: card_mono)
    moreover have "card (set es) = length es" if "ws_ok es" for es
      using that by (simp add: ws_ok_def distinct_card distinct_map)
    ultimately have "length (ws_entries w) \<le> length es2" using assms(1) r2(1) by simp
    moreover have "length es2 + length ev2 = length (ws_entries w)" using r1(5) r2(5) by simp
    ultimately have "length ev2 = 0" by linarith
    then show "ev2 = []" by simp
  next
    assume "ev2 = []"
    with r2(6,7) r1(6,7) show "set (ws_entries w) \<subseteq> set es2" by simp
  qed
  with w' show "r = None \<longleftrightarrow> set (ws_entries w) \<subseteq> set (ws_entries w')" by simp
qed

section \<open>The context injected into the prompt\<close>

definition truncate_on_char_boundary :: "rstr \<Rightarrow> nat \<Rightarrow> rstr" where
  "truncate_on_char_boundary s n =
     (if blen s \<le> n then s
      else (case split_byte (floor_char_boundary s n) s of Some (a, b) \<Rightarrow> a | None \<Rightarrow> []))"

definition div_ceil4 :: "nat \<Rightarrow> nat" where
  "div_ceil4 n = n div 4 + (if n mod 4 = 0 then 0 else 1)"

definition estimate_tokens :: "rstr \<Rightarrow> nat" where
  "estimate_tokens s = div_ceil4 (blen s)"

definition estimate_tokens_from_size :: "nat \<Rightarrow> nat" where
  "estimate_tokens_from_size n = div_ceil4 n"

definition truncation_note :: rstr where
  "truncation_note = lit ''...'' @ [10] @ lit ''[TRUNCATED - file too large]''"

definition label_suffix :: "ws_entry \<Rightarrow> rstr" where
  "label_suffix e = (case we_label e of Some l \<Rightarrow> lit '' ('' @ l @ lit '')'' | None \<Rightarrow> [])"

text \<open>
  The loop over the files in order, with the sections so far and the tokens they use. \<open>read\<close> is
  \<^verbatim>\<open>fs::read_to_string\<close>, its error as it is displayed.
\<close>

fun inject_loop :: "(rstr \<Rightarrow> rstr + rstr) \<Rightarrow> nat \<Rightarrow> ws_entry list \<Rightarrow> rstr list \<Rightarrow> nat \<Rightarrow> rstr list \<times> nat" where
  "inject_loop read max_tokens [] sections used = (sections, used)"
| "inject_loop read max_tokens (e # es) sections used =
     (if used \<ge> max_tokens then (sections, used)
      else
        case read (we_path e) of
          Inr text \<Rightarrow>
            (let file_tokens = estimate_tokens text;
                 remaining = max_tokens - used;
                 truncated = (file_tokens > remaining);
                 content = (if truncated
                   then (let max_chars = remaining * 4 in
                         if blen text > max_chars
                         then truncate_on_char_boundary text max_chars @ truncation_note
                         else text)
                   else text);
                 pin = (if we_pinned e then lit '' [pinned]'' else []);
                 trunc = (if truncated then lit '' [truncated]'' else []);
                 section = lit ''=== '' @ we_path e @ lit '' '' @ label_suffix e @ pin @ trunc
                   @ lit '' ==='' @ [10] @ content
             in inject_loop read max_tokens es (sections @ [section]) (used + estimate_tokens content))
        | Inl err \<Rightarrow>
            inject_loop read max_tokens es
              (sections @ [lit ''=== '' @ we_path e @ lit '' ==='' @ [10]
                 @ lit ''[Error reading file: '' @ err @ lit '']'']) used)"

text \<open>The stable sort: pinned first, then the most recent access.\<close>

definition inject_order :: "ws_entry \<Rightarrow> nat \<times> nat" where
  "inject_order e = (if we_pinned e then 0 else 1, 2 ^ 32 - unat (we_last_access_turn e))"

definition build_context_injection :: "(rstr \<Rightarrow> rstr + rstr) \<Rightarrow> working_set \<Rightarrow> rstr option" where
  "build_context_injection read w =
     (if ws_entries w = [] then None
      else
        case inject_loop read (wc_max_tokens (ws_config w))
               (sort_key inject_order (map snd (ws_entries w))) [] 0 of
          (sections, used) \<Rightarrow>
            if sections = [] then None
            else Some (lit ''[Working Set Files]'' @ [10] @ lit ''The following ''
              @ show_nat (length (ws_entries w))
              @ lit '' file(s) are currently in your working context (~'' @ show_nat used
              @ lit '' tokens):'' @ [10, 10] @ join [10, 10] sections @ [10, 10]
              @ lit ''[End Working Set Files]''))"

text \<open>
  The paths mentioned in a text: tokens between delimiters, cut from trailing punctuation, that look
  like a path and name a file. \<open>is_file\<close> is \<^verbatim>\<open>path.exists() && path.is_file()\<close>, \<open>canon\<close> is
  \<^verbatim>\<open>canonicalize().ok()\<close>, \<open>cwd\<close> the current directory and \<open>path_join\<close> is \<^verbatim>\<open>Path::join\<close>.
\<close>

definition ref_delim :: "rchar \<Rightarrow> bool" where
  "ref_delim c \<longleftrightarrow> is_ws c \<or> c = 10 \<or> c \<in> set (lit ''`()[]{}<>'') \<or> c = 34 \<or> c = 39"

fun split_on :: "(rchar \<Rightarrow> bool) \<Rightarrow> rstr \<Rightarrow> rstr \<Rightarrow> rstr list" where
  "split_on d acc [] = [rev acc]"
| "split_on d acc (c # cs) = (if d c then rev acc # split_on d [] cs else split_on d (c # acc) cs)"

definition trim_matches :: "(rchar \<Rightarrow> bool) \<Rightarrow> rstr \<Rightarrow> rstr" where
  "trim_matches d s = rev (dropWhile d (rev (dropWhile d s)))"

definition looks_like_path :: "rstr \<Rightarrow> bool" where
  "looks_like_path t \<longleftrightarrow> (47 \<in> set t \<or> 92 \<in> set t) \<and> 46 \<in> set t \<and> 3 < blen t"

definition push_canonical :: "(rstr \<Rightarrow> rstr option) \<Rightarrow> rstr \<Rightarrow> rstr list \<Rightarrow> rstr list" where
  "push_canonical canon path found =
     (case canon path of Some c \<Rightarrow> if c \<in> set found then found else found @ [c] | None \<Rightarrow> found)"

definition ref_step :: "(rstr \<Rightarrow> bool) \<Rightarrow> (rstr \<Rightarrow> rstr option) \<Rightarrow> rstr option \<Rightarrow> (rstr \<Rightarrow> rstr \<Rightarrow> rstr)
    \<Rightarrow> rstr \<Rightarrow> rstr list \<Rightarrow> rstr list" where
  "ref_step is_file canon cwd path_join tok found =
     (let t = trim_matches (\<lambda>c. c \<in> set (lit '':,;'')) tok in
      if \<not> looks_like_path t then found
      else if is_file t then push_canonical canon t found
      else (case cwd of
          Some d \<Rightarrow> (let full = path_join d t in
            if is_file full then push_canonical canon full found else found)
        | None \<Rightarrow> found))"

definition extract_file_references :: "(rstr \<Rightarrow> bool) \<Rightarrow> (rstr \<Rightarrow> rstr option) \<Rightarrow> rstr option
    \<Rightarrow> (rstr \<Rightarrow> rstr \<Rightarrow> rstr) \<Rightarrow> rstr \<Rightarrow> rstr list" where
  "extract_file_references is_file canon cwd path_join text =
     fold (ref_step is_file canon cwd path_join) (filter (\<lambda>t. t \<noteq> []) (split_on ref_delim [] text)) []"

definition suggest_from_content :: "(rstr \<Rightarrow> bool) \<Rightarrow> (rstr \<Rightarrow> rstr option) \<Rightarrow> rstr option
    \<Rightarrow> (rstr \<Rightarrow> rstr \<Rightarrow> rstr) \<Rightarrow> working_set \<Rightarrow> rstr \<Rightarrow> rstr list" where
  "suggest_from_content is_file canon cwd path_join w text =
     filter (\<lambda>p. \<not> ws_contains p w) (extract_file_references is_file canon cwd path_join text)"

text \<open>The listing shown to the user. \<open>file_name\<close> is \<^verbatim>\<open>Path::file_name\<close>.\<close>

definition display_line :: "(rstr \<Rightarrow> rstr option) \<Rightarrow> working_set \<Rightarrow> ws_entry \<Rightarrow> rstr" where
  "display_line file_name w e =
     (let name = (case file_name (we_path e) of Some n \<Rightarrow> n | None \<Rightarrow> we_path e);
          flags = (if we_pinned e then [128204] else []) @
                  (if is_stale w e \<and> \<not> we_pinned e then [9203] else [])
      in lit ''  '' @ flags @ lit '' '' @ name @ label_suffix e @ lit '' [~'' @ show_nat (we_tokens e)
         @ lit '' tokens, accessed turn '' @ show_nat (unat (we_last_access_turn e)) @ lit '']'')"

definition ws_display :: "(rstr \<Rightarrow> rstr option) \<Rightarrow> working_set \<Rightarrow> rstr" where
  "ws_display file_name w =
     (if ws_entries w = [] then lit ''Working set is empty''
      else
        let header = lit ''Working Set ('' @ show_nat (length (ws_entries w)) @ lit '' files, ~''
              @ show_nat (total_tokens (ws_entries w)) @ lit '' tokens, turn ''
              @ show_nat (unat (ws_current_turn w)) @ lit ''):'';
            sorted = sort_key (\<lambda>e. 2 ^ 32 - unat (we_last_access_turn e)) (map snd (ws_entries w));
            last_lines = (case ws_last_eviction w of
               Some r \<Rightarrow> [[10] @ lit ''  Last eviction: '' @ r] | None \<Rightarrow> [])
        in join [10] (header # map (display_line file_name w) sorted @ last_lines))"

lemma push_canonical_distinct:
  "distinct found \<Longrightarrow> distinct (push_canonical canon p found)"
  by (auto simp: push_canonical_def split: option.split)

lemma extract_file_references_distinct:
  "distinct (extract_file_references is_file canon cwd path_join text)"
proof -
  have "distinct found \<Longrightarrow> distinct (fold (ref_step is_file canon cwd path_join) ts found)" for ts found
    by (induction ts arbitrary: found)
      (auto simp: ref_step_def Let_def push_canonical_distinct split: option.split)
  then show ?thesis by (simp add: extract_file_references_def)
qed

lemma suggest_not_contained:
  "p \<in> set (suggest_from_content is_file canon cwd path_join w text) \<Longrightarrow> \<not> ws_contains p w"
  by (simp add: suggest_from_content_def)

section \<open>Runs\<close>

datatype ws_cmd =
    Add rstr nat | AddLabeled rstr nat rstr | AddPinned rstr nat "rstr option" | Touch rstr
  | Remove rstr | Pin rstr | Unpin rstr | Clear bool | NextTurn

fun ws_exec :: "(ws_entries \<Rightarrow> ws_entries) \<Rightarrow> ws_cmd \<Rightarrow> working_set \<Rightarrow> working_set" where
  "ws_exec sh (Add k n) w = snd (ws_add sh k n w)"
| "ws_exec sh (AddLabeled k n l) w = snd (ws_add_labeled sh k n l w)"
| "ws_exec sh (AddPinned k n l) w = ws_add_pinned sh k n l w"
| "ws_exec sh (Touch k) w = snd (ws_touch k w)"
| "ws_exec sh (Remove k) w = snd (ws_remove k w)"
| "ws_exec sh (Pin k) w = snd (ws_pin k w)"
| "ws_exec sh (Unpin k) w = snd (ws_unpin k w)"
| "ws_exec sh (Clear b) w = ws_clear b w"
| "ws_exec sh NextTurn w = next_turn w"

text \<open>A command that may take a pinned file out of the set, or its pin away.\<close>

fun releases :: "rstr \<Rightarrow> ws_cmd \<Rightarrow> bool" where
  "releases k (Remove k') \<longleftrightarrow> k = k'"
| "releases k (Unpin k') \<longleftrightarrow> k = k'"
| "releases k (Clear b) \<longleftrightarrow> \<not> b"
| "releases k _ \<longleftrightarrow> False"

definition pinned_in :: "rstr \<Rightarrow> working_set \<Rightarrow> bool" where
  "pinned_in k w \<longleftrightarrow> pred_option we_pinned (ws_get k w) \<and> ws_contains k w"

lemma pinned_in_iff: "ws_ok (ws_entries w) \<Longrightarrow> pinned_in k w \<longleftrightarrow> (\<exists>e. (k, e) \<in> set (ws_entries w) \<and> we_pinned e)"
  by (auto simp: pinned_in_def ws_get_def ws_contains_def has_key_def ws_ok_map_of [symmetric]
      simp del: ws_ok_map_of)

lemma pinned_in_map:
  "pinned_in k w \<longleftrightarrow> (case map_of (ws_entries w) k of Some e \<Rightarrow> we_pinned e | None \<Rightarrow> False)"
  by (simp add: pinned_in_def ws_get_def ws_contains_def has_key_def split: option.split)

lemma pinned_in_evicted:
  "ws_ok es \<Longrightarrow> lru_evicted es es' \<Longrightarrow> (k, e) \<in> set es \<Longrightarrow> we_pinned e \<Longrightarrow> (k, e) \<in> set es'"
  by (force simp: lru_evicted_def)

lemma ws_exec_ok:
  assumes "permutes sh" and "ws_ok (ws_entries w)"
  shows "ws_ok (ws_entries (ws_exec sh c w))"
proof (cases c)
  case (Add k n)
  then show ?thesis
    using assms maybe_evict_result(1) [OF assms(2)]
    by (auto simp: ws_add_def access_def split: prod.splits)
next
  case (AddLabeled k n l)
  then show ?thesis
    using assms maybe_evict_result(1) [OF assms(2)]
    by (auto simp: ws_add_labeled_def access_def split: prod.splits)
next
  case (AddPinned k n l)
  then show ?thesis
    using assms by (auto simp: ws_add_pinned_def we_path_simps access_def set_label_def split: option.split)
qed (use assms in \<open>simp_all add: ws_touch_def ws_remove_def ws_pin_def ws_unpin_def ws_clear_def
    next_turn_def evict_stale_def Let_def\<close>)

interpretation wsm: invariant_machine "ws_exec id" "\<lambda>w. ws_ok (ws_entries w)"
  by unfold_locales (rule ws_exec_ok, auto simp: permutes_def)

lemma pinned_in_insert:
  "permutes sh \<Longrightarrow> ws_ok (ws_entries w) \<Longrightarrow> pinned_in k w \<Longrightarrow> k \<noteq> k' \<Longrightarrow>
    pinned_in k (w\<lparr>ws_entries := map_insert sh k' e (ws_entries w)\<rparr>)"
  by (simp add: pinned_in_map)

lemma pinned_in_update:
  "pinned_in k w \<Longrightarrow> (k = k' \<Longrightarrow> \<forall>e. we_pinned e \<longrightarrow> we_pinned (f e)) \<Longrightarrow>
    pinned_in k (w\<lparr>ws_entries := map_update k' f (ws_entries w)\<rparr>)"
  by (auto simp: pinned_in_map split: option.splits)

lemma pinned_in_maybe_evict:
  assumes "ws_ok (ws_entries w)" and "pinned_in k w" and "maybe_evict n w = (r, w')"
  shows "pinned_in k w'"
  using maybe_evict_result(1,2) [OF assms(1,3)] assms(1,2) pinned_in_evicted
  by (metis pinned_in_iff)

lemma pinned_in_filter:
  "ws_ok (ws_entries w) \<Longrightarrow> pinned_in k w \<Longrightarrow> (\<And>e. we_pinned e \<Longrightarrow> P (k, e)) \<Longrightarrow>
    pinned_in k (w\<lparr>ws_entries := filter P (ws_entries w)\<rparr>)"
  by (auto simp: pinned_in_iff)

lemma pinned_in_cong: "ws_entries w = ws_entries w' \<Longrightarrow> pinned_in k w = pinned_in k w'"
  by (simp add: pinned_in_map)

lemma has_key_pinned: "pinned_in k w \<Longrightarrow> has_key k (ws_entries w)"
  by (auto simp: pinned_in_map has_key_def split: option.splits)

lemma pinned_access: "we_pinned (access t e) = we_pinned e" "we_pinned (set_label l e) = we_pinned e"
  by (auto simp: access_def set_label_def split: option.split)

lemma pinned_in_add:
  assumes "permutes sh" and "ws_ok (ws_entries w)" and "pinned_in k w"
  shows "pinned_in k (snd (ws_add sh k' n w))" and "pinned_in k (snd (ws_add_labeled sh k' n l w))"
    and "pinned_in k (ws_add_pinned sh k' n l' w)"
proof -
  show "pinned_in k (snd (ws_add sh k' n w))"
    using assms has_key_pinned [OF assms(3)]
    by (auto simp: ws_add_def pinned_access intro!: pinned_in_update pinned_in_insert
        intro: pinned_in_maybe_evict maybe_evict_result(1) split: prod.splits)
  show "pinned_in k (snd (ws_add_labeled sh k' n l w))"
    using assms has_key_pinned [OF assms(3)]
    by (auto simp: ws_add_labeled_def pinned_access intro!: pinned_in_update pinned_in_insert
        intro: pinned_in_maybe_evict maybe_evict_result(1) split: prod.splits)
  show "pinned_in k (ws_add_pinned sh k' n l' w)"
    using assms has_key_pinned [OF assms(3)]
    by (auto simp: ws_add_pinned_def pinned_access intro!: pinned_in_update pinned_in_insert)
qed

lemma ws_exec_keeps_pinned:
  assumes "permutes sh" and "ws_ok (ws_entries w)" and "pinned_in k w" and "\<not> releases k c"
  shows "pinned_in k (ws_exec sh c w)"
proof (cases c)
  case NextTurn
  have "pinned_in k (w\<lparr>ws_current_turn := t\<rparr>)" for t
    using assms(3) by (simp cong: pinned_in_cong)
  then show ?thesis
    using NextTurn assms
    by (auto simp: next_turn_def evict_stale_def Let_def pinned_in_iff)
next
  case (Remove k')
  then show ?thesis using assms by (auto simp: ws_remove_def pinned_in_map)
qed (use assms in \<open>auto simp: pinned_in_add ws_touch_def ws_pin_def ws_unpin_def ws_clear_def
      pinned_access intro!: pinned_in_update\<close>,
  auto simp: pinned_in_iff)

lemma div_ceil4_bound: "div_ceil4 n \<le> k \<longleftrightarrow> n \<le> 4 * k"
  unfolding div_ceil4_def by (cases "n mod 4 = 0") presburger+

lemma truncate_on_char_boundary_prefix:
  "\<exists>t. s = truncate_on_char_boundary s n @ t \<and> blen (truncate_on_char_boundary s n) \<le> n"
proof (cases "blen s \<le> n")
  case False
  have "take_bytes n s @ drop (length (take_bytes n s)) s = s"
    using floor_char_boundary_split [of s n] by (simp add: split_byte_Some_iff)
  then show ?thesis
    using False blen_take_bytes [of n s]
    by (auto simp: truncate_on_char_boundary_def floor_char_boundary_split
        intro: exI [of _ "drop (length (take_bytes n s)) s"])
qed (auto simp: truncate_on_char_boundary_def)

lemma blen_truncation_note: "blen truncation_note = 32"
  by (simp add: truncation_note_def lit_def utf8_len_def)

lemma inject_loop_bound:
  "used \<le> max_tokens + 8 \<Longrightarrow> snd (inject_loop read max_tokens es sections used) \<le> max_tokens + 8"
proof (induction es arbitrary: sections used)
  case (Cons e es)
  show ?case
  proof (cases "max_tokens \<le> used")
    case False
    have small: "used + estimate_tokens body \<le> max_tokens + 8"
      if "\<not> max_tokens - used < estimate_tokens body" for body
      using that False by linarith
    have large: "used + estimate_tokens (truncate_on_char_boundary body ((max_tokens - used) * 4)
        @ truncation_note) \<le> max_tokens + 8" for body
    proof -
      have "blen (truncate_on_char_boundary body ((max_tokens - used) * 4)) \<le> (max_tokens - used) * 4"
        using truncate_on_char_boundary_prefix by blast
      then have "estimate_tokens (truncate_on_char_boundary body ((max_tokens - used) * 4)
          @ truncation_note) \<le> (max_tokens - used) + 8"
        by (simp add: estimate_tokens_def div_ceil4_bound blen_truncation_note)
      with False show ?thesis by linarith
    qed
    have dead: "used + estimate_tokens body \<le> max_tokens + 8"
      if "\<not> (max_tokens - used) * 4 < blen body" for body
    proof -
      have "estimate_tokens body \<le> max_tokens - used"
        using that by (simp add: estimate_tokens_def div_ceil4_bound)
      with False show ?thesis by linarith
    qed
    show ?thesis
      using False Cons small large dead by (simp add: Let_def split: sum.split)
  qed (use Cons in simp)
qed simp

section \<open>Properties\<close>

text \<open>
  C18: adding a file. The file is in the set afterwards with its first access recorded; what was evicted
  for it was not pinned and was no more recently used than any unpinned file that stays; the file count
  stays within its limit, unless every other file is pinned; and a reason is reported exactly when
  something was evicted.
\<close>

theorem ws_add_evicts_lru:
  assumes "permutes sh" and "ws_ok (ws_entries w)" and "\<not> ws_contains key w"
    and "ws_add sh key tokens w = (reason, w')"
  shows "ws_ok (ws_entries w') \<and> ws_get key w' = Some (we_new key tokens (ws_current_turn w))
    \<and> lru_evicted (ws_entries w) (map_remove key (ws_entries w'))
    \<and> ((\<forall>p \<in> set (ws_entries w'). fst p \<noteq> key \<longrightarrow> we_pinned (snd p))
       \<or> length (ws_entries w') \<le> wc_max_files (ws_config w)
         \<and> total_tokens (ws_entries w') \<le> wc_max_tokens (ws_config w))
    \<and> (reason = None \<longleftrightarrow> set (ws_entries w) \<subseteq> set (ws_entries w'))"
proof -
  obtain w1 where ev: "maybe_evict tokens w = (reason, w1)" and
    w': "w' = w1\<lparr>ws_entries := map_insert sh key (we_new key tokens (ws_current_turn w1)) (ws_entries w1)\<rparr>"
    using assms(3,4) by (auto simp: ws_add_def ws_contains_def split: prod.splits)
  note r = maybe_evict_result [OF assms(2) ev]
  have fresh: "key \<notin> fst ` set (ws_entries w1)"
    using assms(3) r(2) by (force simp: ws_contains_def has_key_def lru_evicted_def map_of_eq_None_iff)
  then have same: "map_remove key (ws_entries w1) = ws_entries w1"
    by (force simp: map_remove_def filter_id_conv)
  let ?e = "we_new key tokens (ws_current_turn w)"
  have es: "ws_entries w' = sh ((key, ?e) # ws_entries w1)"
    using w' same r(6) by (simp add: map_insert_def)
  have tot: "total_tokens (ws_entries w') = tokens + total_tokens (ws_entries w1)"
    using es assms(1) by (simp add: we_new_def) (simp add: total_tokens_def)
  have "set (map_remove key (ws_entries w')) = set (ws_entries w1)"
    using assms(1) es fresh by (auto simp: image_iff)
  then have "lru_evicted (ws_entries w) (map_remove key (ws_entries w'))"
    using r(2) by (simp add: lru_evicted_def)
  moreover have "ws_ok (ws_entries w') \<and> ws_get key w' = Some ?e"
    using w' r(1,6) assms(1) by (simp add: ws_get_def)
  moreover have "(\<forall>p \<in> set (ws_entries w'). fst p \<noteq> key \<longrightarrow> we_pinned (snd p))
       \<or> length (ws_entries w') \<le> wc_max_files (ws_config w)
         \<and> total_tokens (ws_entries w') \<le> wc_max_tokens (ws_config w)"
    using r(3,5) es assms(1) tot by (auto simp: within_limits_def over_files_def over_tokens_def)
  moreover have "reason = None \<longleftrightarrow> set (ws_entries w) \<subseteq> set (ws_entries w')"
    using r(4) es assms(1,3) fresh
    by (force simp: ws_contains_def has_key_def map_of_eq_None_iff)
  ultimately show ?thesis by blast
qed

theorem ws_add_evicts_lru_witness:
  "ws_get [98] (snd (ws_add id [98] 10
     (snd (ws_add id [97] 5 (ws_with_config (wc_default\<lparr>wc_max_files := 1\<rparr>)))))) = Some (we_new [98] 10 0)"
proof -
  let ?w = "snd (ws_add id [97] 5 (ws_with_config (wc_default\<lparr>wc_max_files := 1\<rparr>)))"
  have w: "ws_entries ?w = [([97], we_new [97] 5 0)]" "ws_current_turn ?w = 0"
    by (simp_all add: ws_add_def ws_with_config_def has_key_def maybe_evict_def evict_while.simps
        over_files_def over_tokens_def wc_default_def total_tokens_def map_insert_def map_remove_def)
  show ?thesis
    using ws_add_evicts_lru [of id ?w "[98]" 10, OF _ _ _ prod.collapse [symmetric]] w
    by (simp add: permutes_def ws_ok_def ws_contains_def has_key_def)
qed

text \<open>
  Staleness. Once as many turns have passed as a file may stay unused, a new turn evicts exactly the
  files that \<^verbatim>\<open>stale_files\<close> reports, in every iteration order; pinned files stay.
\<close>

theorem evict_stale_exact:
  assumes "wc_stale_after_turns (ws_config w) \<le> ws_current_turn w"
    and "\<forall>p \<in> set (ws_entries w). we_last_access_turn (snd p) \<le> ws_current_turn w"
  shows "map snd (ws_entries (evict_stale w)) = filter (\<lambda>e. e \<notin> set (stale_files w)) (map snd (ws_entries w))"
proof -
  let ?t = "ws_current_turn w" and ?s = "wc_stale_after_turns (ws_config w)"
  have "?t - ?s < we_last_access_turn e \<longleftrightarrow> \<not> ?s \<le> ?t - we_last_access_turn e"
    if "we_last_access_turn e \<le> ?t" for e
    using that assms(1) by (simp add: word_less_nat_alt word_le_nat_alt unat_sub) linarith
  then have "we_pinned (snd p) \<or> ?t - ?s < we_last_access_turn (snd p) \<longleftrightarrow> snd p \<notin> set (stale_files w)"
    if "p \<in> set (ws_entries w)" for p
    using that assms(2) by (force simp: stale_files_def is_stale_def sat_sub_def)
  then have "filter (\<lambda>p. we_pinned (snd p) \<or> ?t - ?s < we_last_access_turn (snd p)) (ws_entries w)
      = filter (\<lambda>p. snd p \<notin> set (stale_files w)) (ws_entries w)"
    by (rule filter_cong [OF refl])
  then show ?thesis
    using assms(1) by (simp add: evict_stale_def Let_def sat_sub_def filter_map comp_def case_prod_beta')
qed

theorem evict_stale_exact_witness:
  "map snd (ws_entries (evict_stale \<lparr>ws_entries = [([97], we_new [97] 5 0)], ws_config = wc_default,
     ws_current_turn = 12, ws_last_eviction = None\<rparr>)) = []"
  using evict_stale_exact [of "\<lparr>ws_entries = [([97], we_new [97] 5 0)], ws_config = wc_default,
     ws_current_turn = 12, ws_last_eviction = None\<rparr>"]
  by (simp add: wc_default_def we_new_def stale_files_def is_stale_def sat_sub_def word_le_nat_alt)

text \<open>
  In the first turns the two disagree. With the default configuration a file added before the first
  turn is not stale at turn one, and the turn evicts it.
\<close>

theorem first_turn_evicts_fresh_file:
  "stale_files (ws_new\<lparr>ws_current_turn := 1, ws_entries := [(k, we_new k n 0)]\<rparr>) = []
   \<and> ws_entries (next_turn (ws_new\<lparr>ws_entries := [(k, we_new k n 0)]\<rparr>)) = []"
  by (simp add: stale_files_def is_stale_def sat_sub_def ws_new_def wc_default_def we_new_def
      next_turn_def evict_stale_def Let_def word_le_nat_alt)

text \<open>
  The injected context stays within the token limit, but for the truncation note of the one file
  that is cut: its accounting never passes the limit by more than the 8 tokens of the note.
\<close>

theorem injection_bounded:
  "snd (inject_loop read (wc_max_tokens (ws_config w))
      (sort_key inject_order (map snd (ws_entries w))) [] 0) \<le> wc_max_tokens (ws_config w) + 8
   \<and> sorted (map inject_order (sort_key inject_order (map snd (ws_entries w))))
   \<and> mset (sort_key inject_order (map snd (ws_entries w))) = mset (map snd (ws_entries w))"
  by (simp add: inject_loop_bound)

text \<open>
  Pinning protects. Whatever the commands and the iteration orders, every key has one entry, and
  a pinned file stays pinned in the set as long as no command removes it, unpins it or clears everything.
\<close>

theorem pinned_file_stays:
  assumes "permutes sh" and "ws_ok (ws_entries w)" and "pinned_in k w" and "\<forall>c \<in> set cs. \<not> releases k c"
  shows "ws_ok (ws_entries (fold (ws_exec sh) cs w)) \<and> pinned_in k (fold (ws_exec sh) cs w)"
  using assms(2-4)
proof (induction cs arbitrary: w)
  case (Cons c cs)
  then show ?case using ws_exec_ok [OF assms(1)] ws_exec_keeps_pinned [OF assms(1)] by simp
qed simp

theorem pinned_file_stays_witness:
  "pinned_in [97] (fold (ws_exec rev) [NextTurn, Add [98] 200000, Remove [98]] (ws_add_pinned rev [97] 5 None ws_new))"
  using pinned_file_stays [of rev "ws_add_pinned rev [97] 5 None ws_new" "[97]"
      "[NextTurn, Add [98] 200000, Remove [98]]"]
  by (simp add: permutes_def ws_add_pinned_def ws_new_def has_key_def map_insert_def map_remove_def
      ws_ok_def pinned_in_map set_label_def we_as_pinned_def we_new_def)

end
