(* ===== verification/PromptHistory.thy ===== *)
theory PromptHistory
  imports Prelude
begin

text \<open>
  The history of the prompt line, \<^verbatim>\<open>apps/cli/src/utils/prompt_history.rs\<close>: a bounded list of distinct
  prompts, newest last, a position for the arrow keys and a text file with one line per prompt. The
  file is \<open>None\<close> when absent and else its content; a save succeeds, or fails and leaves some content.
  Unicode lower case is a parameter.
\<close>

section \<open>State\<close>

record prompt_history =
  ph_prompts :: "rstr list"
  ph_current_index :: "nat option"
  ph_max_size :: nat

datatype ph_error = ReadFailed | WriteFailed

definition max_history_size :: nat where
  "max_history_size = 1000"

definition ph_empty :: prompt_history where
  "ph_empty = \<lparr>ph_prompts = [], ph_current_index = None, ph_max_size = max_history_size\<rparr>"

section \<open>Operations\<close>

definition not_blank :: "rstr \<Rightarrow> bool" where
  "not_blank s \<longleftrightarrow> trim s \<noteq> []"

definition keep_last :: "nat \<Rightarrow> 'a list \<Rightarrow> 'a list" where
  "keep_last n xs = (if length xs > n then drop (length xs - n) xs else xs)"

text \<open>\<open>readable\<close> is false when \<^verbatim>\<open>read_to_string\<close> fails.\<close>

definition ph_load :: "bool \<Rightarrow> rstr option \<Rightarrow> prompt_history \<Rightarrow> ph_error + prompt_history" where
  "ph_load readable file h =
     (case file of
        None \<Rightarrow> Inr h
      | Some content \<Rightarrow>
          if \<not> readable then Inl ReadFailed
          else Inr (h\<lparr>ph_prompts := keep_last (ph_max_size h) (filter not_blank (str_lines content))\<rparr>))"

definition ph_new :: "bool \<Rightarrow> rstr option \<Rightarrow> ph_error + prompt_history" where
  "ph_new readable file = ph_load readable file ph_empty"

text \<open>\<open>failure\<close> is \<open>None\<close> when \<^verbatim>\<open>fs::write\<close> succeeds, else what it leaves of the file.\<close>

definition ph_save :: "rstr option option \<Rightarrow> prompt_history \<Rightarrow> rstr option \<Rightarrow> (ph_error + unit) \<times> rstr option" where
  "ph_save failure h file =
     (case failure of
        None \<Rightarrow> (Inr (), Some (join [10] (ph_prompts h)))
      | Some file' \<Rightarrow> (Inl WriteFailed, file'))"

definition ph_add :: "rstr option option \<Rightarrow> rstr \<Rightarrow> prompt_history \<Rightarrow> rstr option
    \<Rightarrow> (ph_error + unit) \<times> prompt_history \<times> rstr option" where
  "ph_add failure p h file =
     (if \<not> not_blank p then (Inr (), h, file)
      else
        let ps = filter (\<lambda>q. q \<noteq> p) (ph_prompts h) @ [p];
            ps' = (if length ps > ph_max_size h then drop 1 ps else ps);
            h' = h\<lparr>ph_prompts := ps', ph_current_index := None\<rparr>
        in case ph_save failure h' file of (r, file') \<Rightarrow> (r, h', file'))"

definition ph_at :: "prompt_history \<Rightarrow> nat option \<Rightarrow> rstr option" where
  "ph_at h i = (case i of Some k \<Rightarrow> if k < length (ph_prompts h) then Some (ph_prompts h ! k) else None
                        | None \<Rightarrow> None)"

definition ph_previous :: "prompt_history \<Rightarrow> rstr option \<times> prompt_history" where
  "ph_previous h =
     (if ph_prompts h = [] then (None, h)
      else
        let i = (case ph_current_index h of
                   None \<Rightarrow> Some (length (ph_prompts h) - 1)
                 | Some k \<Rightarrow> if k = 0 then Some 0 else Some (k - 1))
        in (ph_at h i, h\<lparr>ph_current_index := i\<rparr>))"

definition ph_next :: "prompt_history \<Rightarrow> rstr option \<times> prompt_history" where
  "ph_next h =
     (if ph_prompts h = [] then (None, h)
      else
        let i = (case ph_current_index h of
                   None \<Rightarrow> None
                 | Some k \<Rightarrow> if k \<ge> length (ph_prompts h) - 1 then None else Some (k + 1))
        in (ph_at h i, h\<lparr>ph_current_index := i\<rparr>))"

definition ph_reset :: "prompt_history \<Rightarrow> prompt_history" where
  "ph_reset h = h\<lparr>ph_current_index := None\<rparr>"

definition ph_is_navigating :: "prompt_history \<Rightarrow> bool" where
  "ph_is_navigating h \<longleftrightarrow> ph_current_index h \<noteq> None"

definition ph_search :: "(rstr \<Rightarrow> rstr) \<Rightarrow> rstr \<Rightarrow> prompt_history \<Rightarrow> rstr list" where
  "ph_search lower query h =
     (if query = [] then ph_prompts h
      else filter (\<lambda>p. str_contains (lower p) (lower query)) (rev (ph_prompts h)))"

definition ph_get_all :: "prompt_history \<Rightarrow> rstr list" where
  "ph_get_all h = rev (ph_prompts h)"

definition ph_clear :: "rstr option option \<Rightarrow> prompt_history \<Rightarrow> rstr option
    \<Rightarrow> (ph_error + unit) \<times> prompt_history \<times> rstr option" where
  "ph_clear failure h file =
     (let h' = h\<lparr>ph_prompts := [], ph_current_index := None\<rparr>
      in case ph_save failure h' file of (r, file') \<Rightarrow> (r, h', file'))"

section \<open>Invariant\<close>

text \<open>
  Prompts are distinct and not blank, the bound holds, and the position is one of the list.
\<close>

definition ph_inv :: "prompt_history \<Rightarrow> bool" where
  "ph_inv h \<longleftrightarrow> distinct (ph_prompts h) \<and> (\<forall>p \<in> set (ph_prompts h). not_blank p)
     \<and> length (ph_prompts h) \<le> ph_max_size h \<and> 0 < ph_max_size h
     \<and> pred_option (\<lambda>i. i < length (ph_prompts h)) (ph_current_index h)"

lemma length_keep_last [simp]: "length (keep_last n xs) = min n (length xs)"
  by (simp add: keep_last_def)

definition add_bounded :: "nat \<Rightarrow> 'a \<Rightarrow> 'a list \<Rightarrow> 'a list" where
  "add_bounded n x xs =
     (let ys = filter (\<lambda>y. y \<noteq> x) xs @ [x] in if length ys > n then drop 1 ys else ys)"

lemma ph_add_state:
  "fst (snd (ph_add failure p h file)) =
     (if not_blank p
      then h\<lparr>ph_prompts := add_bounded (ph_max_size h) p (ph_prompts h), ph_current_index := None\<rparr>
      else h)"
  by (simp add: ph_add_def Let_def add_bounded_def split: prod.split)

lemma add_bounded_props:
  assumes "distinct xs" and "length xs \<le> n" and "0 < n"
  shows "distinct (add_bounded n x xs)" and "length (add_bounded n x xs) \<le> n"
    and "set (add_bounded n x xs) \<subseteq> insert x (set xs)" and "last (add_bounded n x xs) = x"
    and "add_bounded n x xs \<noteq> []" and "suffix (add_bounded n x xs) (filter (\<lambda>y. y \<noteq> x) xs @ [x])"
proof -
  define fs where "fs = filter (\<lambda>y. y \<noteq> x) xs"
  have f: "distinct fs" "set fs = set xs - {x}" "length fs \<le> n"
    using assms(1,2) le_trans [OF length_filter_le, of xs n] by (auto simp: fs_def)
  have b: "add_bounded n x xs = (if length fs < n then fs @ [x] else tl fs @ [x])"
    using f(3) assms(3) by (cases fs) (auto simp: add_bounded_def Let_def fs_def [symmetric])
  have tl: "distinct (tl fs)" "set (tl fs) \<subseteq> set fs" "suffix (tl fs @ [x]) (fs @ [x])"
    using f(1) by (auto simp: distinct_tl set_mono_suffix suffix_tl)
  show "distinct (add_bounded n x xs)" using b tl(1,2) f by auto
  show "length (add_bounded n x xs) \<le> n" using b f(3) assms(3) by auto
  show "set (add_bounded n x xs) \<subseteq> insert x (set xs)" using b tl(2) f(2) by auto
  show "last (add_bounded n x xs) = x" "add_bounded n x xs \<noteq> []" using b by auto
  show "suffix (add_bounded n x xs) (filter (\<lambda>y. y \<noteq> x) xs @ [x])"
    using b tl(3) by (simp add: fs_def [symmetric])
qed

lemma ph_add_inv: "ph_inv h \<Longrightarrow> ph_inv (fst (snd (ph_add failure p h file)))"
  using add_bounded_props [of "ph_prompts h" "ph_max_size h" p]
  by (auto simp: ph_inv_def ph_add_state)

lemma ph_previous_inv: "ph_inv h \<Longrightarrow> ph_inv (snd (ph_previous h))"
  by (auto simp: ph_inv_def ph_previous_def Let_def split: option.splits)

lemma ph_next_inv: "ph_inv h \<Longrightarrow> ph_inv (snd (ph_next h))"
  by (auto simp: ph_inv_def ph_next_def Let_def split: option.splits)

lemma ph_clear_inv: "ph_inv h \<Longrightarrow> ph_inv (fst (snd (ph_clear failure h file)))"
  by (simp add: ph_inv_def ph_clear_def Let_def split: prod.splits)

datatype ph_cmd = PhAdd "rstr option option" rstr | PhPrevious | PhNext | PhReset | PhClear "rstr option option"

fun ph_exec :: "ph_cmd \<Rightarrow> prompt_history \<times> rstr option \<Rightarrow> prompt_history \<times> rstr option" where
  "ph_exec (PhAdd failure p) (h, f) = snd (ph_add failure p h f)"
| "ph_exec PhPrevious (h, f) = (snd (ph_previous h), f)"
| "ph_exec PhNext (h, f) = (snd (ph_next h), f)"
| "ph_exec PhReset (h, f) = (ph_reset h, f)"
| "ph_exec (PhClear failure) (h, f) = snd (ph_clear failure h f)"

interpretation ph: invariant_machine ph_exec "\<lambda>s. ph_inv (fst s)"
proof
  fix s :: "prompt_history \<times> rstr option" and e
  assume "ph_inv (fst s)"
  then show "ph_inv (fst (ph_exec e s))"
    by (cases s; cases e)
      (auto simp: ph_add_inv ph_previous_inv ph_next_inv ph_clear_inv, simp add: ph_inv_def ph_reset_def)
qed

section \<open>Navigation\<close>

lemma ph_previous_pow:
  assumes "ph_prompts h \<noteq> []" and "ph_current_index h = None" and "k < length (ph_prompts h)"
  shows "((snd \<circ> ph_previous) ^^ Suc k) h = h\<lparr>ph_current_index := Some (length (ph_prompts h) - 1 - k)\<rparr>"
  using assms(3)
proof (induction k)
  case (Suc k)
  then show ?case using assms by (auto simp: ph_previous_def Let_def)
qed (use assms in \<open>simp add: ph_previous_def Let_def\<close>)

lemma ph_next_pow:
  assumes "i + k < length (ph_prompts h)"
  shows "((snd \<circ> ph_next) ^^ k) (h\<lparr>ph_current_index := Some i\<rparr>) = h\<lparr>ph_current_index := Some (i + k)\<rparr>"
  using assms
proof (induction k)
  case (Suc k)
  then show ?case by (auto simp: ph_next_def Let_def)
qed simp

section \<open>The file\<close>

text \<open>A prompt the file format can hold: one line, not ending in a carriage return.\<close>

definition one_line :: "rstr \<Rightarrow> bool" where
  "one_line p \<longleftrightarrow> 10 \<notin> set p \<and> p \<noteq> [] \<and> last p \<noteq> 13"

lemma lines_aux_line: "10 \<notin> set p \<Longrightarrow> lines_aux acc (p @ rest) = lines_aux (rev p @ acc) rest"
  by (induction p arbitrary: acc) auto

lemma str_lines_join:
  "\<forall>p \<in> set ps. one_line p \<Longrightarrow> str_lines (join [10] ps) = ps"
  unfolding str_lines_def
proof (induction "[10 :: nat]" ps rule: join.induct)
  case (2 x)
  then show ?case using lines_aux_line [of x "[]" "[]"] by (simp add: one_line_def)
next
  case (3 x y ys)
  then show ?case
    using lines_aux_line [of x "[]" "10 # join [10] (y # ys)"]
    by (simp add: one_line_def strip_cr_def)
qed simp

lemma not_blank_nonempty: "not_blank p \<Longrightarrow> p \<noteq> []"
  by (auto simp: not_blank_def trim_def)

section \<open>Properties\<close>

text \<open>
  Adding a prompt moves it to the newest end. The prompts stay distinct, not blank and bounded over
  any run of commands; after an accepted prompt, the newest entry is that prompt, and the entries are the
  other old ones in their order, at most the oldest dropped.
\<close>

theorem ph_add_newest:
  assumes "ph_inv h" and "not_blank p"
  shows "let (h', f') = fold ph_exec cs (h, f); h'' = fst (snd (ph_add failure p h' f')) in
      ph_inv h'' \<and> hd (ph_get_all h'') = p \<and> \<not> ph_is_navigating h''
      \<and> prefix (ph_get_all h'') (p # filter (\<lambda>q. q \<noteq> p) (ph_get_all h'))"
proof -
  obtain h' f' where h': "fold ph_exec cs (h, f) = (h', f')" by force
  have inv: "ph_inv h'" using ph.run_inv [of "(h, f)" cs] assms(1) h' by simp
  then have b: "distinct (ph_prompts h')" "length (ph_prompts h') \<le> ph_max_size h'" "0 < ph_max_size h'"
    by (auto simp: ph_inv_def)
  note props = add_bounded_props [OF b, of p]
  show ?thesis
    using ph_add_inv [OF inv, of failure p f'] props assms(2) h'
    by (simp add: ph_add_state ph_get_all_def ph_is_navigating_def hd_rev suffix_to_prefix rev_filter)
qed

theorem ph_add_newest_witness:
  "hd (ph_get_all (fst (snd (ph_add None [97] (fst (fold ph_exec [PhPrevious] (ph_empty, None))) None)))) = [97]"
  using ph_add_newest [of ph_empty "[97]" "[PhPrevious]" None None]
  by (simp add: ph_inv_def ph_empty_def max_history_size_def not_blank_def trim_def is_ws_def
      ph_previous_def Let_def)

text \<open>
  Navigation. From the prompt line, the k-th press of Up shows the k-th newest prompt and stops at
  the oldest; as many presses of Down lead back to the prompt line.
\<close>

theorem ph_navigation:
  assumes "ph_current_index h = None" and "k < length (ph_prompts h)"
  shows "fst (ph_previous (((snd \<circ> ph_previous) ^^ k) h)) = Some (ph_get_all h ! k)
    \<and> ((snd \<circ> ph_next) ^^ Suc k) (((snd \<circ> ph_previous) ^^ Suc k) h) = h"
proof -
  let ?n = "length (ph_prompts h)"
  have ne: "ph_prompts h \<noteq> []" using assms(2) by auto
  note up = ph_previous_pow [OF ne assms(1,2)]
  have "fst (ph_previous (((snd \<circ> ph_previous) ^^ k) h)) = Some (ph_prompts h ! (?n - 1 - k))"
  proof (cases k)
    case 0
    then show ?thesis using ne assms by (simp add: ph_previous_def ph_at_def)
  next
    case (Suc j)
    then show ?thesis
      using ph_previous_pow [OF ne assms(1), of j] assms(2)
      by (auto simp: ph_previous_def ph_at_def Let_def simp del: funpow.simps)
  qed
  then have first: "fst (ph_previous (((snd \<circ> ph_previous) ^^ k) h)) = Some (ph_get_all h ! k)"
    using assms(2) by (simp add: ph_get_all_def rev_nth)
  have "((snd \<circ> ph_next) ^^ k) (h\<lparr>ph_current_index := Some (?n - 1 - k)\<rparr>)
      = h\<lparr>ph_current_index := Some (?n - 1)\<rparr>"
    using ph_next_pow [of "?n - 1 - k" k h] assms(2) by simp
  then have "((snd \<circ> ph_next) ^^ Suc k) (((snd \<circ> ph_previous) ^^ Suc k) h) = h"
    using up assms(1) ne by (simp add: ph_next_def Let_def del: funpow.simps(2) add: funpow.simps(2) [of k "snd \<circ> ph_next"])
  with first show ?thesis by blast
qed

theorem ph_navigation_witness:
  "fst (ph_previous ((snd \<circ> ph_previous) (ph_empty\<lparr>ph_prompts := [[97], [98]]\<rparr>))) = Some [97]"
  using ph_navigation [of "ph_empty\<lparr>ph_prompts := [[97], [98]]\<rparr>" 1]
  by (simp add: ph_empty_def ph_get_all_def)

text \<open>
  Persistence. After an accepted prompt has been saved, a new session reads back the same
  history, when every prompt is a single line that does not end in a carriage return.
\<close>

theorem ph_restart:
  assumes "ph_inv h" and "ph_max_size h = max_history_size" and "not_blank p" and "one_line p"
    and "\<forall>q \<in> set (ph_prompts h). one_line q" and "ph_add None p h disk = (Inr (), h', disk')"
  shows "ph_new True disk' = Inr h'"
proof -
  have b: "distinct (ph_prompts h)" "length (ph_prompts h) \<le> ph_max_size h" "0 < ph_max_size h"
    using assms(1) by (auto simp: ph_inv_def)
  note props = add_bounded_props [OF b, of p]
  have h': "h' = h\<lparr>ph_prompts := add_bounded (ph_max_size h) p (ph_prompts h), ph_current_index := None\<rparr>"
    using ph_add_state [of None p h disk] assms(3,6) by simp
  have disk': "disk' = Some (join [10] (ph_prompts h'))"
    using assms(3,6) by (auto simp: ph_add_def ph_save_def Let_def split: if_splits)
  have "\<forall>q \<in> set (ph_prompts h'). one_line q \<and> not_blank q"
    using props(3) h' assms(1,3,4,5) by (auto simp: ph_inv_def)
  then have "filter not_blank (str_lines (join [10] (ph_prompts h'))) = ph_prompts h'"
    by (simp add: str_lines_join)
  then show ?thesis
    using disk' h' props(2) assms(2)
    by (cases h) (simp add: ph_new_def ph_load_def ph_empty_def keep_last_def)
qed

theorem ph_restart_witness:
  "ph_new True (Some [97]) = Inr (ph_empty\<lparr>ph_prompts := [[97]]\<rparr>)"
  using ph_restart [of ph_empty "[97]" None "ph_empty\<lparr>ph_prompts := [[97]]\<rparr>" "Some [97]"]
  by (simp add: ph_inv_def ph_empty_def max_history_size_def not_blank_def trim_def is_ws_def one_line_def
      ph_add_def ph_save_def)

text \<open>
  A prompt of two lines does not survive: the file has no escape for the line feed, and the next
  session reads two prompts.
\<close>

lemma multiline_prompt_split:
  "ph_add None [97, 10, 98] ph_empty None
     = (Inr (), ph_empty\<lparr>ph_prompts := [[97, 10, 98]]\<rparr>, Some [97, 10, 98])
   \<and> ph_new True (Some [97, 10, 98]) = Inr (ph_empty\<lparr>ph_prompts := [[97], [98]]\<rparr>)"
  by (simp add: ph_empty_def max_history_size_def not_blank_def trim_def is_ws_def ph_add_def ph_save_def
      ph_new_def ph_load_def keep_last_def str_lines_def strip_cr_def)

text \<open>
  Search. A query that is not empty lists the prompts that contain it in any case, newest first; the
  empty query lists every prompt, in the opposite order.
\<close>

lemma ph_search_order:
  "ph_search lower query h =
     (if query = [] then rev (ph_get_all h)
      else filter (\<lambda>p. \<exists>a b. lower p = a @ lower query @ b) (ph_get_all h))"
  by (simp add: ph_search_def ph_get_all_def str_contains_iff)

end
