(* ===== verification/NanoEditor.thy ===== *)
theory NanoEditor
  imports Prelude
begin

text \<open>
  The nano-style editor, \<^verbatim>\<open>apps/cli/src/tui/app/nano_editor.rs\<close>. Lines are strings, the cursor is a row
  and a byte offset in its line, as in the code: an operation whose index or slice is out of range or
  inside a character is \<open>None\<close>, a panic. The file is its content, the name of the file is kept by the
  caller, and \<open>lower\<close> is \<^verbatim>\<open>str::to_lowercase\<close>.
\<close>

section \<open>State\<close>

datatype cursor_direction = Up | Down | Left | Right

record nano =
  ne_lines :: "rstr list"
  ne_original :: "rstr list"
  ne_row :: nat
  ne_col :: nat
  ne_scroll_row :: "16 word"
  ne_scroll_col :: "16 word"
  ne_modified :: bool
  ne_search_query :: "rstr option"
  ne_matches :: "(nat \<times> nat) list"
  ne_current_match :: nat
  ne_status :: "rstr option"
  ne_read_only :: bool
  ne_clipboard :: "rstr list"

definition max_edit_size :: nat where
  "max_edit_size = 1048576"

section \<open>Operations\<close>

text \<open>
  Opening. \<open>meta_len\<close> is the length in the metadata (\<open>None\<close> when it cannot be read), \<open>content\<close> what
  \<^verbatim>\<open>read_to_string\<close> returns, \<open>show_mb\<close> the rendering of the size in megabytes.
\<close>

datatype ne_error = MetadataFailed | NanoReadFailed | FileIsReadOnly | NanoWriteFailed

definition ne_open :: "(nat \<Rightarrow> rstr) \<Rightarrow> nat option \<Rightarrow> rstr option \<Rightarrow> ne_error + nano" where
  "ne_open show_mb meta_len content =
     (case meta_len of
        None \<Rightarrow> Inl MetadataFailed
      | Some n \<Rightarrow>
        (case content of
           None \<Rightarrow> Inl NanoReadFailed
         | Some s \<Rightarrow>
           (let is_binary = 0 \<in> set s;
                ls = str_lines s;
                ls' = (if ls = [] then [[]] else ls);
                status = (if is_binary then Some (lit ''Binary file - Read only'')
                  else if n > max_edit_size
                  then Some (lit ''Large file ('' @ show_mb n @ lit ''MB) - Read only'')
                  else None)
            in Inr \<lparr>ne_lines = ls', ne_original = ls', ne_row = 0, ne_col = 0, ne_scroll_row = 0,
                    ne_scroll_col = 0, ne_modified = False, ne_search_query = None, ne_matches = [],
                    ne_current_match = 0, ne_status = status,
                    ne_read_only = (n > max_edit_size \<or> is_binary), ne_clipboard = []\<rparr>)))"

text \<open>\<open>write_ok\<close> says whether \<^verbatim>\<open>fs::write\<close> succeeds; the result carries what it was asked to write.\<close>

definition ne_save :: "bool \<Rightarrow> nano \<Rightarrow> (ne_error + rstr) \<times> nano" where
  "ne_save write_ok s =
     (if ne_read_only s then (Inl FileIsReadOnly, s)
      else if \<not> write_ok then (Inl NanoWriteFailed, s)
      else (Inr (join [10] (ne_lines s)),
            s\<lparr>ne_original := ne_lines s, ne_modified := False, ne_status := Some (lit ''File saved'')\<rparr>))"

definition ne_insert_char :: "rchar \<Rightarrow> nano \<Rightarrow> nano option" where
  "ne_insert_char c s =
     (if ne_read_only s then Some s
      else do {
        let ls = ne_lines s @ replicate (Suc (ne_row s) - length (ne_lines s)) [];
        line \<leftarrow> vec_get ls (ne_row s);
        let col = min (ne_col s) (blen line);
        line' \<leftarrow> str_insert line col c;
        ls' \<leftarrow> vec_set ls (ne_row s) line';
        Some (s\<lparr>ne_lines := ls', ne_col := col + 1, ne_modified := True\<rparr>)
      })"

definition ne_delete_backward :: "nano \<Rightarrow> nano option" where
  "ne_delete_backward s =
     (if ne_read_only s then Some s
      else if 0 < ne_col s then do {
        line \<leftarrow> vec_get (ne_lines s) (ne_row s);
        let col = min (ne_col s) (blen line);
        if 0 < col then do {
          line' \<leftarrow> str_remove line (col - 1);
          ls' \<leftarrow> vec_set (ne_lines s) (ne_row s) line';
          Some (s\<lparr>ne_lines := ls', ne_col := col - 1, ne_modified := True\<rparr>)
        } else Some s
      }
      else if 0 < ne_row s then do {
        (current, ls) \<leftarrow> vec_remove (ne_lines s) (ne_row s);
        let row = ne_row s - 1;
        line \<leftarrow> vec_get ls row;
        ls' \<leftarrow> vec_set ls row (line @ current);
        Some (s\<lparr>ne_lines := ls', ne_row := row, ne_col := blen line, ne_modified := True\<rparr>)
      }
      else Some s)"

definition ne_delete_forward :: "nano \<Rightarrow> nano option" where
  "ne_delete_forward s =
     (if ne_read_only s then Some s
      else do {
        line \<leftarrow> vec_get (ne_lines s) (ne_row s);
        if ne_col s < blen line then do {
          line' \<leftarrow> str_remove line (ne_col s);
          ls' \<leftarrow> vec_set (ne_lines s) (ne_row s) line';
          Some (s\<lparr>ne_lines := ls', ne_modified := True\<rparr>)
        }
        else if ne_row s + 1 < length (ne_lines s) then do {
          (nxt, ls) \<leftarrow> vec_remove (ne_lines s) (ne_row s + 1);
          line0 \<leftarrow> vec_get ls (ne_row s);
          ls' \<leftarrow> vec_set ls (ne_row s) (line0 @ nxt);
          Some (s\<lparr>ne_lines := ls', ne_modified := True\<rparr>)
        }
        else Some s
      })"

definition ne_insert_newline :: "nano \<Rightarrow> nano option" where
  "ne_insert_newline s =
     (if ne_read_only s then Some s
      else do {
        line \<leftarrow> vec_get (ne_lines s) (ne_row s);
        let col = min (ne_col s) (blen line);
        (kept, remainder) \<leftarrow> split_byte col line;
        ls \<leftarrow> vec_set (ne_lines s) (ne_row s) kept;
        ls' \<leftarrow> vec_insert ls (ne_row s + 1) remainder;
        Some (s\<lparr>ne_lines := ls', ne_row := ne_row s + 1, ne_col := 0, ne_modified := True\<rparr>)
      })"

definition clamp_col :: "nat \<Rightarrow> nano \<Rightarrow> nano option" where
  "clamp_col row s =
     map_option (\<lambda>line. s\<lparr>ne_row := row, ne_col := min (ne_col s) (blen line)\<rparr>) (vec_get (ne_lines s) row)"

fun ne_move_cursor :: "cursor_direction \<Rightarrow> nano \<Rightarrow> nano option" where
  "ne_move_cursor Up s = (if 0 < ne_row s then clamp_col (ne_row s - 1) s else Some s)"
| "ne_move_cursor Down s =
     (if ne_row s + 1 < length (ne_lines s) then clamp_col (ne_row s + 1) s else Some s)"
| "ne_move_cursor Left s =
     (if 0 < ne_col s then Some (s\<lparr>ne_col := ne_col s - 1\<rparr>)
      else if 0 < ne_row s then do {
        line \<leftarrow> vec_get (ne_lines s) (ne_row s - 1);
        Some (s\<lparr>ne_row := ne_row s - 1, ne_col := blen line\<rparr>)
      }
      else Some s)"
| "ne_move_cursor Right s = do {
     line \<leftarrow> vec_get (ne_lines s) (ne_row s);
     if ne_col s < blen line then Some (s\<lparr>ne_col := ne_col s + 1\<rparr>)
     else if ne_row s + 1 < length (ne_lines s) then Some (s\<lparr>ne_row := ne_row s + 1, ne_col := 0\<rparr>)
     else Some s
   }"

definition ne_line_boundary :: "bool \<Rightarrow> nano \<Rightarrow> nano option" where
  "ne_line_boundary start s =
     (if start then Some (s\<lparr>ne_col := 0\<rparr>)
      else map_option (\<lambda>line. s\<lparr>ne_col := blen line\<rparr>) (vec_get (ne_lines s) (ne_row s)))"

definition ne_page_move :: "bool \<Rightarrow> nat \<Rightarrow> nano \<Rightarrow> nano option" where
  "ne_page_move up page_size s =
     clamp_col (if up then ne_row s - page_size
                else min (ne_row s + page_size) (length (ne_lines s) - 1)) s"

definition ne_cut_line :: "nano \<Rightarrow> nano option" where
  "ne_cut_line s =
     (if ne_read_only s then Some s
      else if ne_lines s \<noteq> [] then do {
        (line, ls) \<leftarrow> vec_remove (ne_lines s) (ne_row s);
        let ls' = (if ls = [] then [[]] else ls);
        let row = (if ne_row s \<ge> length ls' then length ls' - 1 else ne_row s);
        cur \<leftarrow> vec_get ls' row;
        Some (s\<lparr>ne_lines := ls', ne_clipboard := ne_clipboard s @ [line], ne_row := row,
                ne_col := min (ne_col s) (blen cur), ne_modified := True\<rparr>)
      }
      else Some s)"

fun insert_all :: "rstr list \<Rightarrow> nat \<Rightarrow> rstr list \<Rightarrow> rstr list option" where
  "insert_all ls i [] = Some ls"
| "insert_all ls i (c # cs) = do { ls' \<leftarrow> vec_insert ls i c; insert_all ls' (i + 1) cs }"

definition ne_paste :: "nano \<Rightarrow> nano option" where
  "ne_paste s =
     (if ne_read_only s then Some s
      else if ne_clipboard s \<noteq> [] then do {
        ls \<leftarrow> insert_all (ne_lines s) (ne_row s) (ne_clipboard s);
        Some (s\<lparr>ne_lines := ls, ne_row := ne_row s + length (ne_clipboard s), ne_modified := True\<rparr>)
      }
      else Some s)"

text \<open>
  The matches of a line: the search goes on one byte after each match, and the slice there panics
  when that byte is inside a character or past the end.
\<close>

function line_matches :: "rstr \<Rightarrow> rstr \<Rightarrow> nat \<Rightarrow> nat list option" where
  "line_matches q line start =
     (case split_byte start line of
        None \<Rightarrow> None
      | Some (_, rest) \<Rightarrow>
          (case str_find q rest of
             None \<Rightarrow> Some []
           | Some col \<Rightarrow> map_option ((#) (start + col)) (line_matches q line (start + col + 1))))"
  by pat_completeness auto
termination
  by (relation "measure (\<lambda>(q, line, start). Suc (blen line) - start)")
    (auto simp: split_byte_Some_iff)

declare line_matches.simps [simp del]

fun search_lines :: "(rstr \<Rightarrow> rstr) \<Rightarrow> rstr \<Rightarrow> nat \<Rightarrow> rstr list \<Rightarrow> (nat \<times> nat) list option" where
  "search_lines lower q row [] = Some []"
| "search_lines lower q row (l # ls) = do {
     cols \<leftarrow> line_matches q (lower l) 0;
     more \<leftarrow> search_lines lower q (Suc row) ls;
     Some (map (Pair row) cols @ more)
   }"

definition ne_search :: "(rstr \<Rightarrow> rstr) \<Rightarrow> rstr \<Rightarrow> nano \<Rightarrow> nano option" where
  "ne_search lower query s = do {
     ms \<leftarrow> search_lines lower (lower query) 0 (ne_lines s);
     let s' = s\<lparr>ne_search_query := Some query, ne_matches := ms, ne_current_match := 0\<rparr>;
     Some (case ms of [] \<Rightarrow> s' | (row, col) # _ \<Rightarrow> s'\<lparr>ne_row := row, ne_col := col\<rparr>)
   }"

definition ne_next_match :: "bool \<Rightarrow> nano \<Rightarrow> nano option" where
  "ne_next_match forward s =
     (if ne_matches s = [] then Some s
      else do {
        let n = length (ne_matches s);
        let i = (if forward then (ne_current_match s + 1) mod n
                 else if ne_current_match s = 0 then n - 1 else ne_current_match s - 1);
        (row, col) \<leftarrow> vec_get (ne_matches s) i;
        Some (s\<lparr>ne_current_match := i, ne_row := row, ne_col := col\<rparr>)
      })"

definition ne_clear_search :: "nano \<Rightarrow> nano" where
  "ne_clear_search s = s\<lparr>ne_search_query := None, ne_matches := [], ne_current_match := 0\<rparr>"

definition ne_ensure_visible :: "16 word \<Rightarrow> 16 word \<Rightarrow> nano \<Rightarrow> nano" where
  "ne_ensure_visible visible_rows visible_cols s =
     s\<lparr>ne_scroll_row := scroll_into_view visible_rows (ne_row s) (ne_scroll_row s),
       ne_scroll_col := scroll_into_view visible_cols (ne_col s) (ne_scroll_col s)\<rparr>"

definition ne_current_line :: "nano \<Rightarrow> rstr" where
  "ne_current_line s = (case vec_get (ne_lines s) (ne_row s) of Some l \<Rightarrow> l | None \<Rightarrow> [])"

section \<open>The text around the cursor\<close>

text \<open>
  The contract of the editor: a text and a position in it, as the characters before and after the cursor.
\<close>

definition ne_before :: "nano \<Rightarrow> rstr" where
  "ne_before s = concat (map (\<lambda>l. l @ [10]) (take (ne_row s) (ne_lines s)))
     @ take (ne_col s) (ne_lines s ! ne_row s)"

definition ne_after :: "nano \<Rightarrow> rstr" where
  "ne_after s = drop (ne_col s) (ne_lines s ! ne_row s)
     @ concat (map (\<lambda>l. 10 # l) (drop (Suc (ne_row s)) (ne_lines s)))"

definition ne_text :: "nano \<Rightarrow> rstr" where
  "ne_text s = join [10] (ne_lines s)"

text \<open>A state whose cursor is in an ASCII text, and which may be edited.\<close>

definition ne_ok :: "nano \<Rightarrow> bool" where
  "ne_ok s \<longleftrightarrow> (\<forall>l \<in> set (ne_lines s). ascii l) \<and> (\<forall>l \<in> set (ne_clipboard s). ascii l)
     \<and> ne_row s < length (ne_lines s) \<and> ne_col s \<le> length (ne_lines s ! ne_row s)"

text \<open>Every such state has its current line split at the cursor.\<close>

lemma ne_okE:
  assumes "ne_ok s"
  obtains pre a b post where "ne_lines s = pre @ (a @ b) # post" "ne_row s = length pre"
    "ne_col s = length a" "ascii a" "ascii b" "\<forall>l \<in> set pre. ascii l" "\<forall>l \<in> set post. ascii l"
proof -
  obtain pre y post where s: "ne_lines s = pre @ y # post" "length pre = ne_row s"
    using assms by (auto simp: ne_ok_def elim: vec_split)
  show ?thesis
    using assms s
    by (intro that [of pre "take (ne_col s) y" "drop (ne_col s) y" post])
      (auto simp: ne_ok_def nth_append)
qed

lemma ne_zipper:
  assumes "ne_lines s = pre @ (a @ b) # post" and "ne_row s = length pre" and "ne_col s = length a"
  shows "ne_before s = concat (map (\<lambda>l. l @ [10]) pre) @ a"
    and "ne_after s = b @ concat (map (\<lambda>l. 10 # l) post)"
  using assms by (simp_all add: ne_before_def ne_after_def)

lemma join_cons: "join [10] (l # ls) = l @ concat (map (\<lambda>l. 10 # l) ls)"
  by (induction ls arbitrary: l) auto

lemma join_append:
  "join [10] (pre @ l # post) = concat (map (\<lambda>l. l @ [10]) pre) @ l @ concat (map (\<lambda>l. 10 # l) post)"
proof (induction pre)
  case (Cons p pre)
  have "join [10] (p # xs) = p @ 10 # join [10] xs" if "xs \<noteq> []" for xs
    using that by (cases xs) auto
  with Cons show ?case by simp
qed (simp add: join_cons)

lemma ne_text_split: "ne_ok s \<Longrightarrow> ne_text s = ne_before s @ ne_after s"
  by (erule ne_okE) (simp add: ne_text_def ne_zipper join_append)

section \<open>Each operation on the text and the cursor\<close>

text \<open>
  \<open>edits s s' b a\<close>: the operation succeeded, the state is a good one and the text is now \<open>b\<close> before
  and \<open>a\<close> after the cursor.
\<close>

definition edits :: "nano option \<Rightarrow> rstr \<Rightarrow> rstr \<Rightarrow> bool" where
  "edits r b a \<longleftrightarrow> (\<exists>s. r = Some s \<and> ne_ok s \<and> ne_before s = b \<and> ne_after s = a)"

lemma edits_step:
  assumes "r = Some s'" and "ne_lines s' = pre @ (a @ b) # post" and "ne_row s' = length pre"
    and "ne_col s' = length a" and "\<forall>l \<in> set (ne_clipboard s'). ascii l"
    and "ascii a" "ascii b" "\<forall>l \<in> set pre. ascii l" "\<forall>l \<in> set post. ascii l"
    and "x = concat (map (\<lambda>l. l @ [10]) pre) @ a" and "y = b @ concat (map (\<lambda>l. 10 # l) post)"
  shows "edits r x y"
  using assms ne_zipper [OF assms(2-4)] by (auto simp: edits_def ne_ok_def)

lemma ascii_split_byte_append [simp]:
  "ascii a \<Longrightarrow> split_byte (length a) (a @ b) = Some (a, b)"
  using split_byte_append [of a b] by (simp add: ascii_blen)

lemma ne_insert_char_edits:
  assumes "ne_ok s" and "\<not> ne_read_only s" and "c < 128"
  shows "edits (ne_insert_char c s) (ne_before s @ [c]) (ne_after s)"
proof -
  obtain pre a b post where s: "ne_lines s = pre @ (a @ b) # post" "ne_row s = length pre"
    "ne_col s = length a" and ok: "ascii a" "ascii b" "\<forall>l \<in> set pre. ascii l" "\<forall>l \<in> set post. ascii l"
    using assms(1) by (rule ne_okE)
  have eq: "ne_insert_char c s =
      Some (s\<lparr>ne_lines := pre @ ((a @ [c]) @ b) # post, ne_col := length (a @ [c]), ne_modified := True\<rparr>)"
    using assms(2) s ok by (simp add: ne_insert_char_def str_insert_def ascii_blen)
  then show ?thesis
    using assms s ok ne_zipper [OF s]
    by (intro edits_step [OF eq, where pre = pre and a = "a @ [c]" and b = b and post = post])
      (auto simp: ne_ok_def)
qed

lemma str_remove_ascii:
  "ascii a \<Longrightarrow> c < 128 \<Longrightarrow> str_remove (a @ c # b) (length a) = Some (a @ b)"
  by (simp add: str_remove_def)

lemma ne_delete_backward_edits:
  assumes "ne_ok s" and "\<not> ne_read_only s"
  shows "edits (ne_delete_backward s) (butlast (ne_before s)) (ne_after s)"
proof -
  obtain pre a b post where s: "ne_lines s = pre @ (a @ b) # post" "ne_row s = length pre"
    "ne_col s = length a" and ok: "ascii a" "ascii b" "\<forall>l \<in> set pre. ascii l" "\<forall>l \<in> set post. ascii l"
    using assms(1) by (rule ne_okE)
  have clip: "\<forall>l \<in> set (ne_clipboard s). ascii l" using assms(1) by (simp add: ne_ok_def)
  note z = ne_zipper [OF s]
  show ?thesis
  proof (cases a rule: rev_cases)
    case (snoc a' c)
    then have eq: "ne_delete_backward s =
      Some (s\<lparr>ne_lines := pre @ (a' @ b) # post, ne_col := length a', ne_modified := True\<rparr>)"
      using assms(2) s ok by (simp add: ne_delete_backward_def str_remove_ascii ascii_blen)
    then show ?thesis
      using s ok z snoc clip
      by (intro edits_step [OF eq, where pre = pre and a = a' and b = b and post = post])
        (auto simp: butlast_append)
  next
    case Nil
    show ?thesis
    proof (cases pre rule: rev_cases)
      case (snoc pre' l)
      then have eq: "ne_delete_backward s =
        Some (s\<lparr>ne_lines := pre' @ (l @ b) # post, ne_row := length pre', ne_col := length l, ne_modified := True\<rparr>)"
        using assms(2) s ok Nil vec_simps(3) [of "pre' @ [l]" b post]
        by (simp add: ne_delete_backward_def ascii_blen)
      then show ?thesis
        using s ok z snoc Nil clip
        by (intro edits_step [OF eq, where pre = pre' and a = l and b = b and post = post])
          (auto simp: butlast_append)
    next
      case Nil
      with \<open>a = []\<close> have "ne_delete_backward s = Some s"
        using assms(2) s by (simp add: ne_delete_backward_def)
      with assms(1) z Nil \<open>a = []\<close> show ?thesis by (simp add: edits_def)
    qed
  qed
qed

lemma ne_delete_forward_edits:
  assumes "ne_ok s" and "\<not> ne_read_only s"
  shows "edits (ne_delete_forward s) (ne_before s) (tl (ne_after s))"
proof -
  obtain pre a b post where s: "ne_lines s = pre @ (a @ b) # post" "ne_row s = length pre"
    "ne_col s = length a" and ok: "ascii a" "ascii b" "\<forall>l \<in> set pre. ascii l" "\<forall>l \<in> set post. ascii l"
    using assms(1) by (rule ne_okE)
  have clip: "\<forall>l \<in> set (ne_clipboard s). ascii l" using assms(1) by (simp add: ne_ok_def)
  note z = ne_zipper [OF s]
  show ?thesis
  proof (cases b)
    case (Cons c b')
    then have eq: "ne_delete_forward s = Some (s\<lparr>ne_lines := pre @ (a @ b') # post, ne_modified := True\<rparr>)"
      using assms(2) s ok by (simp add: ne_delete_forward_def str_remove_ascii ascii_blen)
    then show ?thesis
      using s ok z Cons clip
      by (intro edits_step [OF eq, where pre = pre and a = a and b = b' and post = post]) auto
  next
    case Nil
    show ?thesis
    proof (cases post)
      case (Cons l post')
      then have eq: "ne_delete_forward s = Some (s\<lparr>ne_lines := pre @ (a @ l) # post', ne_modified := True\<rparr>)"
        using assms(2) s ok Nil vec_simps(3) [of "pre @ [a]" l post']
        by (simp add: ne_delete_forward_def ascii_blen)
      then show ?thesis
        using s ok z Cons Nil clip
        by (intro edits_step [OF eq, where pre = pre and a = a and b = l and post = post']) auto
    next
      case Nil
      with \<open>b = []\<close> have "ne_delete_forward s = Some s"
        using assms(2) s ok by (simp add: ne_delete_forward_def ascii_blen)
      with assms(1) z Nil \<open>b = []\<close> show ?thesis by (simp add: edits_def)
    qed
  qed
qed

lemma ne_insert_newline_edits:
  assumes "ne_ok s" and "\<not> ne_read_only s"
  shows "edits (ne_insert_newline s) (ne_before s @ [10]) (ne_after s)"
proof -
  obtain pre a b post where s: "ne_lines s = pre @ (a @ b) # post" "ne_row s = length pre"
    "ne_col s = length a" and ok: "ascii a" "ascii b" "\<forall>l \<in> set pre. ascii l" "\<forall>l \<in> set post. ascii l"
    using assms(1) by (rule ne_okE)
  have eq: "ne_insert_newline s =
      Some (s\<lparr>ne_lines := (pre @ [a]) @ ([] @ b) # post, ne_row := length (pre @ [a]), ne_col := 0,
              ne_modified := True\<rparr>)"
    using assms(2) s ok vec_simps(4) [of "pre @ [a]" post b]
    by (simp add: ne_insert_newline_def ascii_blen)
  then show ?thesis
    using assms s ok ne_zipper [OF s]
    by (intro edits_step [OF eq, where pre = "pre @ [a]" and a = "[]" and b = b and post = post])
      (auto simp: ne_ok_def)
qed

lemma ne_left_edits:
  assumes "ne_ok s"
  shows "edits (ne_move_cursor Left s) (butlast (ne_before s))
    (if ne_before s = [] then ne_after s else last (ne_before s) # ne_after s)"
proof -
  obtain pre a b post where s: "ne_lines s = pre @ (a @ b) # post" "ne_row s = length pre"
    "ne_col s = length a" and ok: "ascii a" "ascii b" "\<forall>l \<in> set pre. ascii l" "\<forall>l \<in> set post. ascii l"
    using assms(1) by (rule ne_okE)
  have clip: "\<forall>l \<in> set (ne_clipboard s). ascii l" using assms(1) by (simp add: ne_ok_def)
  note z = ne_zipper [OF s]
  show ?thesis
  proof (cases a rule: rev_cases)
    case (snoc a' c)
    then have eq: "ne_move_cursor Left s = Some (s\<lparr>ne_col := length a'\<rparr>)" using s by simp
    then show ?thesis
      using s ok z snoc clip
      by (intro edits_step [OF eq, where pre = pre and a = a' and b = "c # b" and post = post])
        (auto simp: butlast_append)
  next
    case Nil
    show ?thesis
    proof (cases pre rule: rev_cases)
      case (snoc pre' l)
      then have "vec_get (ne_lines s) (length pre') = Some l"
        using s vec_simps(1) [of pre' l "(a @ b) # post"] by simp
      then have eq: "ne_move_cursor Left s = Some (s\<lparr>ne_row := length pre', ne_col := length l\<rparr>)"
        using s ok Nil snoc by (simp add: ascii_blen)
      then show ?thesis
        using s ok z snoc Nil clip
        by (intro edits_step [OF eq, where pre = pre' and a = l and b = "[]" and post = "b # post"])
          (auto simp: butlast_append)
    next
      case Nil
      with \<open>a = []\<close> have "ne_move_cursor Left s = Some s" using s by simp
      with assms(1) z Nil \<open>a = []\<close> show ?thesis by (simp add: edits_def)
    qed
  qed
qed

lemma ne_right_edits:
  assumes "ne_ok s"
  shows "edits (ne_move_cursor Right s) (ne_before s @ take 1 (ne_after s)) (tl (ne_after s))"
proof -
  obtain pre a b post where s: "ne_lines s = pre @ (a @ b) # post" "ne_row s = length pre"
    "ne_col s = length a" and ok: "ascii a" "ascii b" "\<forall>l \<in> set pre. ascii l" "\<forall>l \<in> set post. ascii l"
    using assms(1) by (rule ne_okE)
  have clip: "\<forall>l \<in> set (ne_clipboard s). ascii l" using assms(1) by (simp add: ne_ok_def)
  note z = ne_zipper [OF s]
  show ?thesis
  proof (cases b)
    case (Cons c b')
    then have eq: "ne_move_cursor Right s = Some (s\<lparr>ne_col := length (a @ [c])\<rparr>)"
      using s ok by (simp add: ascii_blen)
    then show ?thesis
      using s ok z Cons clip
      by (intro edits_step [OF eq, where pre = pre and a = "a @ [c]" and b = b' and post = post]) auto
  next
    case Nil
    show ?thesis
    proof (cases post)
      case (Cons l post')
      then have eq: "ne_move_cursor Right s = Some (s\<lparr>ne_row := length (pre @ [a]), ne_col := 0\<rparr>)"
        using s ok Nil by (simp add: ascii_blen)
      then show ?thesis
        using s ok z Cons Nil clip
        by (intro edits_step [OF eq, where pre = "pre @ [a]" and a = "[]" and b = l and post = post']) auto
    next
      case Nil
      with \<open>b = []\<close> have "ne_move_cursor Right s = Some s" using s ok by (simp add: ascii_blen)
      with assms(1) z Nil \<open>b = []\<close> show ?thesis by (simp add: edits_def)
    qed
  qed
qed

section \<open>The other operations keep the cursor in the text\<close>

lemma edits_ok: "edits r b a \<Longrightarrow> \<exists>s'. r = Some s' \<and> ne_ok s'"
  by (auto simp: edits_def)

lemma ne_ok_lines: "ne_ok s \<Longrightarrow> ascii (ne_lines s ! ne_row s)"
  by (auto simp: ne_ok_def)

lemma clamp_col_ok:
  "ne_ok s \<Longrightarrow> row < length (ne_lines s) \<Longrightarrow> \<exists>s'. clamp_col row s = Some s' \<and> ne_ok s'"
  by (auto simp: clamp_col_def vec_get_def ne_ok_def ascii_blen)

lemma ne_move_cursor_ok: "ne_ok s \<Longrightarrow> \<exists>s'. ne_move_cursor d s = Some s' \<and> ne_ok s'"
proof (cases d)
  case Up
  assume "ne_ok s"
  then show ?thesis using Up clamp_col_ok [of s "ne_row s - 1"] by (auto simp: ne_ok_def)
next
  case Down
  assume "ne_ok s"
  then show ?thesis using Down clamp_col_ok [of s "ne_row s + 1"] by (auto simp: ne_ok_def)
qed (use edits_ok [OF ne_left_edits] edits_ok [OF ne_right_edits] in blast)+

lemma ne_line_boundary_ok: "ne_ok s \<Longrightarrow> \<exists>s'. ne_line_boundary b s = Some s' \<and> ne_ok s'"
  by (auto simp: ne_line_boundary_def vec_get_def ne_ok_def ascii_blen)

lemma ne_page_move_ok: "ne_ok s \<Longrightarrow> \<exists>s'. ne_page_move up n s = Some s' \<and> ne_ok s'"
  unfolding ne_page_move_def by (rule clamp_col_ok) (auto simp: ne_ok_def)

lemma ne_cut_line_ok:
  assumes "ne_ok s"
  shows "\<exists>s'. ne_cut_line s = Some s' \<and> ne_ok s'"
proof (cases "ne_read_only s")
  case False
  obtain pre a b post where s: "ne_lines s = pre @ (a @ b) # post" "ne_row s = length pre"
    "ne_col s = length a" and ok: "ascii a" "ascii b" "\<forall>l \<in> set pre. ascii l" "\<forall>l \<in> set post. ascii l"
    using assms by (rule ne_okE)
  define ls where "ls = (if pre @ post = [] then [[]] else pre @ post)"
  define row where "row = (if length pre \<ge> length ls then length ls - 1 else length pre)"
  have ls: "\<forall>l \<in> set ls. ascii l" "row < length ls" using ok by (auto simp: ls_def row_def)
  then have "ne_cut_line s = Some (s\<lparr>ne_lines := ls, ne_clipboard := ne_clipboard s @ [a @ b],
      ne_row := row, ne_col := min (length a) (blen (ls ! row)), ne_modified := True\<rparr>)"
    using False s by (auto simp: ne_cut_line_def ls_def row_def vec_get_def Let_def)
  then show ?thesis using ls ok assms by (auto simp: ne_ok_def ascii_blen)
qed (use assms in \<open>simp add: ne_cut_line_def\<close>)

lemma insert_all_app:
  "insert_all (pre @ post) (length pre) cs = Some (pre @ cs @ post)"
proof (induction cs arbitrary: pre)
  case (Cons c cs)
  then show ?case using Cons [of "pre @ [c]"] by simp
qed simp

lemma ne_paste_ok:
  assumes "ne_ok s"
  shows "\<exists>s'. ne_paste s = Some s' \<and> ne_ok s'"
proof (cases "ne_read_only s \<or> ne_clipboard s = []")
  case False
  obtain pre a b post where s: "ne_lines s = pre @ (a @ b) # post" "ne_row s = length pre"
    "ne_col s = length a" and ok: "ascii a" "ascii b" "\<forall>l \<in> set pre. ascii l" "\<forall>l \<in> set post. ascii l"
    using assms by (rule ne_okE)
  have "ne_paste s = Some (s\<lparr>ne_lines := (pre @ ne_clipboard s) @ (a @ b) # post,
      ne_row := length (pre @ ne_clipboard s), ne_modified := True\<rparr>)"
    using False s by (simp add: ne_paste_def insert_all_app)
  then show ?thesis using s ok assms by (auto simp: ne_ok_def nth_append)
qed (use assms in \<open>auto simp: ne_paste_def\<close>)

section \<open>Search\<close>

lemma str_find_ascii_Some:
  "str_find q s = Some n \<Longrightarrow> ascii s \<Longrightarrow> prefix q (drop n s) \<and> (\<forall>i < n. \<not> prefix q (drop i s)) \<and> n \<le> length s"
proof (induction s arbitrary: n)
  case (Cons c cs)
  show ?case
  proof (cases "prefix q (c # cs)")
    case False
    with Cons.prems obtain m where m: "str_find q cs = Some m" "n = Suc m" by auto
    with Cons.IH [OF m(1)] Cons.prems False show ?thesis
      by (auto simp: less_Suc_eq_0_disj)
  qed (use Cons.prems in simp)
qed (auto split: if_splits)

lemma str_find_ascii_None:
  "str_find q s = None \<Longrightarrow> \<not> prefix q (drop i s)"
  using str_find_NoneD [of q s "take i s"] by (auto simp: prefix_def, metis append_take_drop_id)

text \<open>In an ASCII line every occurrence of the query is found, overlapping ones too.\<close>

lemma line_matches_ascii:
  assumes "ascii line" and "q \<noteq> []" and "start \<le> length line"
  shows "line_matches q line start = Some (filter (\<lambda>i. prefix q (drop i line)) [start..<length line])"
  using assms(3)
proof (induction "length line - start" arbitrary: start rule: less_induct)
  case less
  have sp: "split_byte start line = Some (take start line, drop start line)"
    using assms(1) less.prems by (rule ascii_split_byte)
  show ?case
  proof (cases "str_find q (drop start line)")
    case None
    then have "\<not> prefix q (drop i line)" if "start \<le> i" for i
      using str_find_ascii_None [OF None, of "i - start"] that by simp
    then show ?thesis using sp None by (subst line_matches.simps) (simp add: filter_empty_conv)
  next
    case (Some n)
    have n: "prefix q (drop (start + n) line)" "\<forall>i < n. \<not> prefix q (drop (start + i) line)"
      "start + n \<le> length line"
      using str_find_ascii_Some [OF Some] assms(1) less.prems by (auto simp: add.commute)
    with assms(2) have lt: "start + n < length line"
      by (metis drop_all linorder_not_less prefix_bot.extremum_uniqueI)
    have "filter (\<lambda>i. prefix q (drop i line)) [start..<start + n] = []"
      using n(2) by (auto simp: filter_empty_conv nat_le_iff_add)
    moreover have "[start..<length line] = [start..<start + n] @ (start + n) # [start + n + 1..<length line]"
      using lt upt_add_eq_append [of start "start + n" "length line - (start + n)"]
      by (simp add: upt_conv_Cons)
    ultimately have "filter (\<lambda>i. prefix q (drop i line)) [start..<length line] =
        (start + n) # filter (\<lambda>i. prefix q (drop i line)) [start + n + 1..<length line]"
      using n(1) by simp
    moreover have "line_matches q line (start + n + 1) =
        Some (filter (\<lambda>i. prefix q (drop i line)) [start + n + 1..<length line])"
      using less.hyps [of "start + n + 1"] lt by simp
    ultimately show ?thesis using sp Some by (subst line_matches.simps) simp
  qed
qed

fun occurrences :: "rstr \<Rightarrow> nat \<Rightarrow> rstr list \<Rightarrow> (nat \<times> nat) list" where
  "occurrences q row [] = []"
| "occurrences q row (l # ls) =
     map (Pair row) (filter (\<lambda>i. prefix q (drop i l)) [0..<length l]) @ occurrences q (Suc row) ls"

lemma search_lines_ascii:
  assumes "lower_on_ascii lower" and "q \<noteq> []" and "\<forall>l \<in> set ls. ascii l"
  shows "search_lines lower q row ls = Some (occurrences q row (map ascii_lower ls))"
  using assms(3)
proof (induction ls arbitrary: row)
  case (Cons l ls)
  then show ?case
    using line_matches_ascii [of "ascii_lower l" q 0] assms(2) by (simp add: lower_on_asciiD [OF assms(1)])
qed simp

lemma occurrences_in_range:
  "(r, c) \<in> set (occurrences q row ls) \<Longrightarrow> row \<le> r \<and> r - row < length ls \<and> c < length (ls ! (r - row))"
proof (induction ls arbitrary: row)
  case (Cons l ls)
  show ?case
  proof (cases "(r, c) \<in> set (occurrences q (Suc row) ls)")
    case True
    from Cons.IH [OF this] show ?thesis by (auto simp: nth_Cons' Suc_diff_Suc)
  qed (use Cons.prems in auto)
qed simp

lemma ne_search_ascii:
  assumes "lower_on_ascii lower" and "ne_ok s" and "query \<noteq> []" and "ascii query"
    and "ms = occurrences (ascii_lower query) 0 (map ascii_lower (ne_lines s))"
  shows "ne_search lower query s =
      Some (let s' = s\<lparr>ne_search_query := Some query, ne_matches := ms, ne_current_match := 0\<rparr>
            in case ms of [] \<Rightarrow> s' | (row, col) # _ \<Rightarrow> s'\<lparr>ne_row := row, ne_col := col\<rparr>)"
proof -
  have "ascii_lower query \<noteq> []" using assms(3) by (simp add: ascii_lower_def)
  moreover have "\<forall>l \<in> set (ne_lines s). ascii l" using assms(2) by (simp add: ne_ok_def)
  ultimately have "search_lines lower (lower query) 0 (ne_lines s) = Some ms"
    using search_lines_ascii [OF assms(1)] assms(4,5) by (simp add: lower_on_asciiD [OF assms(1)])
  then show ?thesis by (simp add: ne_search_def Let_def)
qed

lemma ne_search_ok:
  assumes "lower_on_ascii lower" and "ne_ok s" and "query \<noteq> []" and "ascii query"
  shows "\<exists>s'. ne_search lower query s = Some s' \<and> ne_ok s'"
proof -
  obtain ms where ms: "ms = occurrences (ascii_lower query) 0 (map ascii_lower (ne_lines s))" by blast
  have range: "r < length (ne_lines s) \<and> c \<le> length (ne_lines s ! r)" if "(r, c) \<in> set ms" for r c
    using occurrences_in_range [of r c "ascii_lower query" 0 "map ascii_lower (ne_lines s)"] that ms
    by auto
  note eq = ne_search_ascii [OF assms ms]
  show ?thesis
  proof (cases ms)
    case Nil
    with eq assms(2) show ?thesis by (simp add: ne_ok_def)
  next
    case (Cons m ms')
    obtain r c where "m = (r, c)" by (cases m)
    with Cons eq range [of r c] assms(2) show ?thesis by (simp add: ne_ok_def)
  qed
qed

section \<open>Properties\<close>

datatype ne_cmd =
    InsertChar rchar | DeleteBackward | DeleteForward | InsertNewline | Move cursor_direction
  | LineBoundary bool | PageMove bool nat | CutLine | Paste | Search rstr | NextMatch bool | ClearSearch
  | EnsureVisible "16 word" "16 word"

fun ne_exec :: "(rstr \<Rightarrow> rstr) \<Rightarrow> ne_cmd \<Rightarrow> nano \<Rightarrow> nano option" where
  "ne_exec lower (InsertChar c) s = ne_insert_char c s"
| "ne_exec lower DeleteBackward s = ne_delete_backward s"
| "ne_exec lower DeleteForward s = ne_delete_forward s"
| "ne_exec lower InsertNewline s = ne_insert_newline s"
| "ne_exec lower (Move d) s = ne_move_cursor d s"
| "ne_exec lower (LineBoundary b) s = ne_line_boundary b s"
| "ne_exec lower (PageMove up n) s = ne_page_move up n s"
| "ne_exec lower CutLine s = ne_cut_line s"
| "ne_exec lower Paste s = ne_paste s"
| "ne_exec lower (Search q) s = ne_search lower q s"
| "ne_exec lower (NextMatch f) s = ne_next_match f s"
| "ne_exec lower ClearSearch s = Some (ne_clear_search s)"
| "ne_exec lower (EnsureVisible r c) s = Some (ne_ensure_visible r c s)"

text \<open>
  The commands that cannot panic in an ASCII text: they insert ASCII characters and search for queries
  that are not empty. Going to a match is left out: the matches may be out of date.
\<close>

fun ne_safe :: "ne_cmd \<Rightarrow> bool" where
  "ne_safe (InsertChar c) \<longleftrightarrow> c < 128"
| "ne_safe (Search q) \<longleftrightarrow> q \<noteq> [] \<and> ascii q"
| "ne_safe (NextMatch f) \<longleftrightarrow> False"
| "ne_safe _ \<longleftrightarrow> True"

lemma ne_read_only_id:
  "ne_read_only s \<Longrightarrow> ne_insert_char c s = Some s \<and> ne_delete_backward s = Some s
    \<and> ne_delete_forward s = Some s \<and> ne_insert_newline s = Some s \<and> ne_cut_line s = Some s
    \<and> ne_paste s = Some s"
  by (simp add: ne_insert_char_def ne_delete_backward_def ne_delete_forward_def ne_insert_newline_def
      ne_cut_line_def ne_paste_def)

lemma ne_exec_ok:
  assumes "lower_on_ascii lower" and "ne_ok s" and "ne_safe c"
  shows "\<exists>s'. ne_exec lower c s = Some s' \<and> ne_ok s'"
proof (cases "ne_read_only s")
  case True
  show ?thesis
    using assms ne_read_only_id [OF True] ne_move_cursor_ok ne_line_boundary_ok ne_page_move_ok
      ne_search_ok [OF assms(1,2)]
    by (cases c) (auto simp: ne_ok_def ne_clear_search_def ne_ensure_visible_def)
next
  case False
  show ?thesis
  proof (cases c)
    case (InsertChar x)
    with assms False show ?thesis using edits_ok [OF ne_insert_char_edits] by simp
  next
    case DeleteBackward
    with assms False show ?thesis using edits_ok [OF ne_delete_backward_edits] by simp
  next
    case DeleteForward
    with assms False show ?thesis using edits_ok [OF ne_delete_forward_edits] by simp
  next
    case InsertNewline
    with assms False show ?thesis using edits_ok [OF ne_insert_newline_edits] by simp
  next
    case (Search q)
    with assms show ?thesis using ne_search_ok by simp
  qed (use assms ne_move_cursor_ok ne_line_boundary_ok ne_page_move_ok ne_cut_line_ok ne_paste_ok in
      \<open>auto simp: ne_ok_def ne_clear_search_def ne_ensure_visible_def\<close>)
qed

interpretation ne: panic_machine "ne_exec ascii_lower" ne_safe ne_ok
  by unfold_locales (rule ne_exec_ok, simp_all)

text \<open>
  C15: editing is editing of the text at the cursor. In an ASCII text, an inserted character or line
  break goes to the end of what is before the cursor, backspace removes its last character, delete the
  first character after the cursor, with nothing else changed and no panic; Left and Right move one
  character across line boundaries, and do nothing at the ends of the text.
\<close>

theorem nano_edits_text:
  assumes "ne_ok s" and "\<not> ne_read_only s" and "c < 128"
  shows "ne_text s = ne_before s @ ne_after s
    \<and> edits (ne_insert_char c s) (ne_before s @ [c]) (ne_after s)
    \<and> edits (ne_insert_newline s) (ne_before s @ [10]) (ne_after s)
    \<and> edits (ne_delete_backward s) (butlast (ne_before s)) (ne_after s)
    \<and> edits (ne_delete_forward s) (ne_before s) (tl (ne_after s))
    \<and> edits (ne_move_cursor Left s) (butlast (ne_before s))
        (if ne_before s = [] then ne_after s else last (ne_before s) # ne_after s)
    \<and> edits (ne_move_cursor Right s) (ne_before s @ take 1 (ne_after s)) (tl (ne_after s))"
  using assms ne_text_split ne_insert_char_edits ne_insert_newline_edits ne_delete_backward_edits
    ne_delete_forward_edits ne_left_edits ne_right_edits
  by blast

text \<open>An editor on some text, for the witnesses.\<close>

definition nano_on :: "rstr list \<Rightarrow> nano" where
  "nano_on ls = \<lparr>ne_lines = ls, ne_original = ls, ne_row = 0, ne_col = 0, ne_scroll_row = 0,
     ne_scroll_col = 0, ne_modified = False, ne_search_query = None, ne_matches = [],
     ne_current_match = 0, ne_status = None, ne_read_only = False, ne_clipboard = []\<rparr>"

theorem nano_edits_text_witness:
  "edits (ne_insert_char 65 (nano_on [[97, 98]])) [65] [97, 98]"
  using nano_edits_text [of "nano_on [[97, 98]]" 65]
  by (simp add: nano_on_def ne_ok_def ne_before_def ne_after_def)

text \<open>
  No panic in ASCII text. Any run of commands that insert ASCII characters and search for
  queries that are not empty, and do not go to an old match, ends normally with the cursor in the text.
\<close>

theorem nano_run_safe:
  assumes "ne_ok s" and "\<forall>c \<in> set cs. ne_safe c"
  shows "\<exists>s'. run_opt (ne_exec ascii_lower) cs s = Some s' \<and> ne_ok s'
    \<and> ne_row s' < length (ne_lines s') \<and> ne_col s' \<le> blen (ne_current_line s')"
proof -
  obtain s' where r: "run_opt (ne_exec ascii_lower) cs s = Some s'" and ok: "ne_ok s'"
    using ne.run_safe [OF assms] by blast
  then have "ne_row s' < length (ne_lines s') \<and> ne_col s' \<le> blen (ne_current_line s')"
    using ne_ok_lines [OF ok] by (simp add: ne_ok_def ne_current_line_def vec_get_def ascii_blen)
  with r ok show ?thesis by blast
qed

theorem nano_run_safe_witness:
  "\<exists>s'. run_opt (ne_exec ascii_lower) [CutLine, Paste, Paste, Move Up, Search [66], InsertChar 65]
     (nano_on [[97, 98], []]) = Some s' \<and> ne_ok s'"
  using nano_run_safe [of "nano_on [[97, 98], []]"
      "[CutLine, Paste, Paste, Move Up, Search [66], InsertChar 65]"]
  by (auto simp: nano_on_def ne_ok_def)

text \<open>
  Search. In an ASCII text the matches are exactly the places where the query occurs without
  regard to case, overlapping ones included, in text order, and the cursor goes to the first.
\<close>

theorem nano_search_finds:
  assumes "lower_on_ascii lower" and "ne_ok s" and "query \<noteq> []" and "ascii query"
    and "ne_search lower query s = Some s'"
  shows "ne_matches s' = occurrences (ascii_lower query) 0 (map ascii_lower (ne_lines s))
    \<and> ne_lines s' = ne_lines s
    \<and> (case ne_matches s' of [] \<Rightarrow> (ne_row s', ne_col s') = (ne_row s, ne_col s)
       | m # _ \<Rightarrow> (ne_row s', ne_col s') = m)"
  using ne_search_ascii [OF assms(1-4) refl] assms(5)
  by (auto simp: Let_def split: list.splits)

theorem nano_search_finds_witness:
  "ne_search ascii_lower [65, 97] (nano_on [[97, 65, 97]]) =
    Some ((nano_on [[97, 65, 97]])\<lparr>ne_search_query := Some [65, 97], ne_matches := [(0, 0), (0, 1)]\<rparr>)
   \<and> ne_matches ((nano_on [[97, 65, 97]])\<lparr>ne_search_query := Some [65, 97], ne_matches := [(0, 0), (0, 1)]\<rparr>)
     = occurrences (ascii_lower [65, 97]) 0 (map ascii_lower [[97, 65, 97]])"
proof -
  have "ne_search ascii_lower [65, 97] (nano_on [[97, 65, 97]]) =
    Some ((nano_on [[97, 65, 97]])\<lparr>ne_search_query := Some [65, 97], ne_matches := [(0, 0), (0, 1)]\<rparr>)"
    by (simp add: ne_search_def nano_on_def ascii_lower_def ascii_lower_char_def line_matches.simps)
  from nano_search_finds [OF _ _ _ _ this] this show ?thesis
    by (simp add: nano_on_def ne_ok_def)
qed

text \<open>
  What ASCII protects from. After a two-byte character has been typed the next one panics,
  since the cursor advances one byte; searching for the empty query always panics; and going to a
  match after its line was cut leaves the cursor outside the text, where Delete panics.
\<close>

theorem nano_panics:
  "run_opt (ne_exec lower) [InsertChar 233, InsertChar 233] (nano_on [[]]) = None
   \<and> line_matches [] line 0 = None
   \<and> run_opt (ne_exec ascii_lower) [Search [98], CutLine, NextMatch True, DeleteForward]
       (nano_on [[97], [98]]) = None"
proof (intro conjI)
  show "run_opt (ne_exec lower) [InsertChar 233, InsertChar 233] (nano_on [[]]) = None"
    by (simp add: nano_on_def ne_insert_char_def vec_get_def vec_set_def str_insert_def utf8_len_def)
  have "line_matches [] line start = None" if "start \<le> Suc (blen line)" for start
    using that
  proof (induction "Suc (blen line) - start" arbitrary: start rule: less_induct)
    case less
    show ?case
    proof (cases "split_byte start line")
      case (Some p)
      then obtain a b where "split_byte start line = Some (a, b)" by (cases p) auto
      moreover have "start \<le> blen line"
        using calculation by (auto simp: split_byte_Some_iff)
      moreover have "str_find [] b = Some 0" using str_find_at_start [of "[]" b] by simp
      ultimately show ?thesis
        using less.hyps [of "start + 1"] by (subst line_matches.simps) simp
    qed (simp add: line_matches.simps)
  qed
  then show "line_matches [] line 0 = None" by simp
  show "run_opt (ne_exec ascii_lower) [Search [98], CutLine, NextMatch True, DeleteForward] (nano_on [[97], [98]]) = None"
    by (simp add: nano_on_def ne_search_def ascii_lower_def ascii_lower_char_def line_matches.simps
        ne_cut_line_def vec_remove_def vec_get_def ne_next_match_def ne_delete_forward_def)
qed

text \<open>
  Opening a file and saving it unchanged writes its lines joined by line feeds: the line ending of
  the last line is lost.
\<close>

lemma save_drops_final_newline:
  "(case ne_open f (Some 2) (Some [97, 10]) of Inr s \<Rightarrow> fst (ne_save True s) | Inl e \<Rightarrow> Inl e) = Inr [97]"
  by (simp add: ne_open_def ne_save_def str_lines_def strip_cr_def max_edit_size_def Let_def)

end
