(* ===== verification/FindReplace.thy ===== *)
theory FindReplace
  imports Prelude
begin

text \<open>
  The find/replace dialog, \<^verbatim>\<open>apps/cli/src/tui/app/find_replace.rs\<close>: its focus ring, two input fields with
  a cursor counted in characters, and matches as byte ranges of the searched text. Lower case and the
  regular expression engine are parameters. A slice or a replacement that is not on character
  boundaries is \<open>None\<close>, a panic.
\<close>

section \<open>State\<close>

datatype fr_mode = Find | Replace
datatype fr_context = ConversationView | InputView

datatype dialog_focus =
    FindInput | ReplaceInput | CaseCheckbox | RegexCheckbox | NextButton | ReplaceButton | ReplaceAllButton

record rect =
  rx :: "16 word"
  ry :: "16 word"
  rwidth :: "16 word"
  rheight :: "16 word"

record fr_state =
  fr_mode :: fr_mode
  fr_context :: fr_context
  find_query :: rstr
  find_cursor_pos :: nat
  replace_text :: rstr
  replace_cursor_pos :: nat
  fr_focus :: dialog_focus
  case_sensitive :: bool
  use_regex :: bool
  fr_matches :: "(nat \<times> nat) list"
  current_match_index :: nat
  fr_status :: "rstr option"
  click_regions :: "(rect \<times> dialog_focus) list"

definition new_find :: "fr_context \<Rightarrow> fr_state" where
  "new_find ctx = \<lparr>fr_mode = Find, fr_context = ctx, find_query = [], find_cursor_pos = 0,
     replace_text = [], replace_cursor_pos = 0, fr_focus = FindInput, case_sensitive = False,
     use_regex = False, fr_matches = [], current_match_index = 0, fr_status = None, click_regions = []\<rparr>"

definition new_replace :: "fr_context \<Rightarrow> fr_state" where
  "new_replace ctx = (new_find ctx)\<lparr>fr_mode := Replace\<rparr>"

section \<open>Focus\<close>

definition is_input_focused :: "fr_state \<Rightarrow> bool" where
  "is_input_focused s \<longleftrightarrow> fr_focus s = FindInput \<or> fr_focus s = ReplaceInput"

definition focusable_elements :: "fr_mode \<Rightarrow> dialog_focus list" where
  "focusable_elements m =
     [FindInput] @ (if m = Replace then [ReplaceInput] else [])
     @ [CaseCheckbox, RegexCheckbox, NextButton]
     @ (if m = Replace then [ReplaceButton, ReplaceAllButton] else [])"

text \<open>\<^verbatim>\<open>iter().position\<close>.\<close>

fun position :: "('a \<Rightarrow> bool) \<Rightarrow> 'a list \<Rightarrow> nat option" where
  "position P [] = None"
| "position P (x # xs) = (if P x then Some 0 else map_option Suc (position P xs))"

definition focus_next :: "fr_state \<Rightarrow> fr_state" where
  "focus_next s =
     (let es = focusable_elements (fr_mode s) in
      case position (\<lambda>e. e = fr_focus s) es of
        Some i \<Rightarrow> s\<lparr>fr_focus := es ! ((i + 1) mod length es)\<rparr>
      | None \<Rightarrow> s)"

definition focus_prev :: "fr_state \<Rightarrow> fr_state" where
  "focus_prev s =
     (let es = focusable_elements (fr_mode s) in
      case position (\<lambda>e. e = fr_focus s) es of
        Some i \<Rightarrow> s\<lparr>fr_focus := es ! ((i + length es - 1) mod length es)\<rparr>
      | None \<Rightarrow> s)"

definition fr_set_focus :: "dialog_focus \<Rightarrow> fr_state \<Rightarrow> fr_state" where
  "fr_set_focus e s =
     (if e \<in> {ReplaceInput, ReplaceButton, ReplaceAllButton}
      then (if fr_mode s = Replace then s\<lparr>fr_focus := e\<rparr> else s)
      else s\<lparr>fr_focus := e\<rparr>)"

text \<open>The edges of a region are computed in 16-bit arithmetic.\<close>

definition in_rect :: "16 word \<Rightarrow> 16 word \<Rightarrow> rect \<Rightarrow> bool" where
  "in_rect col row r \<longleftrightarrow> col \<ge> rx r \<and> col < rx r + rwidth r \<and> row \<ge> ry r \<and> row < ry r + rheight r"

definition fr_handle_click :: "16 word \<Rightarrow> 16 word \<Rightarrow> fr_state \<Rightarrow> dialog_focus option" where
  "fr_handle_click col row s = map_option snd (find (\<lambda>(r, e). in_rect col row r) (click_regions s))"

definition clear_click_regions :: "fr_state \<Rightarrow> fr_state" where
  "clear_click_regions s = s\<lparr>click_regions := []\<rparr>"

definition add_click_region :: "rect \<Rightarrow> dialog_focus \<Rightarrow> fr_state \<Rightarrow> fr_state" where
  "add_click_region r e s = s\<lparr>click_regions := click_regions s @ [(r, e)]\<rparr>"

section \<open>Matches\<close>

text \<open>
  The literal search goes on after each match. It would not end on an empty query (which its caller
  excludes), and it slices at byte offsets: \<open>None\<close> when it panics or does not return.
\<close>

partial_function (option) lit_matches :: "rstr \<Rightarrow> rstr \<Rightarrow> nat \<Rightarrow> (nat \<times> nat) list option" where
  "lit_matches q body start =
     (case split_byte start body of
        None \<Rightarrow> None
      | Some p \<Rightarrow>
          (case str_find q (snd p) of
             None \<Rightarrow> Some []
           | Some pos \<Rightarrow>
               Option.bind (lit_matches q body (start + pos + blen q))
                 (\<lambda>ms. Some ((start + pos, start + pos + blen q) # ms))))"

definition update_matches_literal :: "(rstr \<Rightarrow> rstr) \<Rightarrow> rstr \<Rightarrow> fr_state \<Rightarrow> fr_state option" where
  "update_matches_literal lower body s =
     (let (search_text, query) =
            (if case_sensitive s then (body, find_query s) else (lower body, lower (find_query s)))
      in map_option (\<lambda>ms. s\<lparr>fr_matches := ms\<rparr>) (lit_matches query search_text 0))"

text \<open>\<open>regex query insensitive text\<close>: the ranges found, \<open>None\<close> for an invalid expression.\<close>

type_synonym regex_engine = "rstr \<Rightarrow> bool \<Rightarrow> rstr \<Rightarrow> (nat \<times> nat) list option"

definition update_matches_regex :: "regex_engine \<Rightarrow> rstr \<Rightarrow> fr_state \<Rightarrow> fr_state" where
  "update_matches_regex regex body s =
     (case regex (find_query s) (\<not> case_sensitive s) body of
        None \<Rightarrow> s\<lparr>fr_status := Some (lit ''Invalid regex'')\<rparr>
      | Some ms \<Rightarrow> s\<lparr>fr_matches := ms\<rparr>)"

definition match_count_message :: "fr_state \<Rightarrow> rstr" where
  "match_count_message s =
     show_nat (current_match_index s + 1) @ lit ''/'' @ show_nat (length (fr_matches s)) @ lit '' matches''"

definition update_matches :: "(rstr \<Rightarrow> rstr) \<Rightarrow> regex_engine \<Rightarrow> rstr \<Rightarrow> fr_state \<Rightarrow> fr_state option" where
  "update_matches lower regex body s0 =
     (let s = s0\<lparr>fr_matches := [], current_match_index := 0\<rparr> in
      if find_query s = [] then Some (s\<lparr>fr_status := None\<rparr>)
      else do {
        s' \<leftarrow> (if use_regex s then Some (update_matches_regex regex body s)
              else update_matches_literal lower body s);
        Some (if fr_matches s' = [] then s'\<lparr>fr_status := Some (lit ''No matches found'')\<rparr>
              else s'\<lparr>fr_status := Some (match_count_message s')\<rparr>)
      })"

definition update_status_message :: "fr_state \<Rightarrow> fr_state" where
  "update_status_message s =
     (if fr_matches s \<noteq> [] then s\<lparr>fr_status := Some (match_count_message s)\<rparr> else s)"

definition fr_next_match :: "fr_state \<Rightarrow> fr_state" where
  "fr_next_match s =
     (if fr_matches s \<noteq> []
      then update_status_message
        (s\<lparr>current_match_index := (current_match_index s + 1) mod length (fr_matches s)\<rparr>)
      else s)"

definition fr_prev_match :: "fr_state \<Rightarrow> fr_state" where
  "fr_prev_match s =
     (if fr_matches s \<noteq> []
      then update_status_message
        (s\<lparr>current_match_index :=
           (if current_match_index s = 0 then length (fr_matches s) - 1 else current_match_index s - 1)\<rparr>)
      else s)"

definition current_match_position :: "fr_state \<Rightarrow> (nat \<times> nat) option" where
  "current_match_position s = vec_get (fr_matches s) (current_match_index s)"

section \<open>Replacement\<close>

text \<open>\<^verbatim>\<open>String::replace_range(start..end, r)\<close>.\<close>

definition replace_range :: "rstr \<Rightarrow> nat \<Rightarrow> nat \<Rightarrow> rstr \<Rightarrow> rstr option" where
  "replace_range body start end r =
     (if start \<le> end then do {
        (a, rest) \<leftarrow> split_byte start body;
        (m, b) \<leftarrow> split_byte (end - start) rest;
        Some (a @ r @ b)
      } else None)"

datatype replace_error = OutOfBounds | NoMatch

definition replace_current :: "(rstr \<Rightarrow> rstr) \<Rightarrow> regex_engine \<Rightarrow> fr_state \<Rightarrow> rstr
    \<Rightarrow> ((replace_error + unit) \<times> fr_state \<times> rstr) option" where
  "replace_current lower regex s body =
     (case current_match_position s of
        Some (start, end) \<Rightarrow>
          if end \<le> blen body then do {
            body' \<leftarrow> replace_range body start end (replace_text s);
            s' \<leftarrow> update_matches lower regex body' s;
            Some (Inr (), s'\<lparr>fr_status := Some (lit ''Replaced 1 occurrence'')\<rparr>, body')
          }
          else Some (Inl OutOfBounds, s, body)
      | None \<Rightarrow> Some (Inl NoMatch, s, body))"

text \<open>The loop over the matches in reverse order.\<close>

fun replace_rev :: "rstr \<Rightarrow> (nat \<times> nat) list \<Rightarrow> rstr \<Rightarrow> rstr option" where
  "replace_rev r [] body = Some body"
| "replace_rev r ((start, end) # ms) body = do {
     body' \<leftarrow> replace_rev r ms body;
     if end \<le> blen body' then replace_range body' start end r else Some body'
   }"

definition replaced_message :: "nat \<Rightarrow> rstr" where
  "replaced_message n = lit ''Replaced '' @ show_nat n @ lit '' occurrence(s)''"

definition replace_all :: "(rstr \<Rightarrow> rstr) \<Rightarrow> regex_engine \<Rightarrow> fr_state \<Rightarrow> rstr
    \<Rightarrow> ((replace_error + nat) \<times> fr_state \<times> rstr) option" where
  "replace_all lower regex s body =
     (let count = length (fr_matches s) in
      if count = 0 then Some (Inl NoMatch, s, body)
      else do {
        body' \<leftarrow> replace_rev (replace_text s) (fr_matches s) body;
        let s' = s\<lparr>fr_status := Some (replaced_message count)\<rparr>;
        s'' \<leftarrow> update_matches lower regex body' s';
        Some (Inr count, s'', body')
      })"

section \<open>Input fields\<close>

definition char_to_byte_index :: "rstr \<Rightarrow> nat \<Rightarrow> nat" where
  "char_to_byte_index s i = (if i < length s then blen (take i s) else blen s)"

definition byte_to_char_index :: "rstr \<Rightarrow> nat \<Rightarrow> nat" where
  "byte_to_char_index s b =
     (case position (\<lambda>i. blen (take i s) = b) [0..<length s] of Some i \<Rightarrow> i | None \<Rightarrow> length s)"

definition fr_insert_char :: "rchar \<Rightarrow> fr_state \<Rightarrow> fr_state option" where
  "fr_insert_char c s =
     (if fr_focus s = FindInput then do {
        q \<leftarrow> str_insert (find_query s) (char_to_byte_index (find_query s) (find_cursor_pos s)) c;
        Some (s\<lparr>find_query := q, find_cursor_pos := find_cursor_pos s + 1\<rparr>)
      }
      else if fr_focus s = ReplaceInput \<and> fr_mode s = Replace then do {
        q \<leftarrow> str_insert (replace_text s) (char_to_byte_index (replace_text s) (replace_cursor_pos s)) c;
        Some (s\<lparr>replace_text := q, replace_cursor_pos := replace_cursor_pos s + 1\<rparr>)
      }
      else Some s)"

text \<open>Removing the character at a position, when the byte offset is in the string.\<close>

definition remove_char_at :: "rstr \<Rightarrow> nat \<Rightarrow> rstr option" where
  "remove_char_at q pos =
     (let byte_pos = char_to_byte_index q pos in if byte_pos < blen q then str_remove q byte_pos else Some q)"

definition delete_char_backward :: "fr_state \<Rightarrow> fr_state option" where
  "delete_char_backward s =
     (if fr_focus s = FindInput \<and> find_cursor_pos s > 0 then do {
        let pos = find_cursor_pos s - 1;
        q \<leftarrow> remove_char_at (find_query s) pos;
        Some (s\<lparr>find_query := q, find_cursor_pos := pos\<rparr>)
      }
      else if fr_focus s = ReplaceInput \<and> fr_mode s = Replace \<and> replace_cursor_pos s > 0 then do {
        let pos = replace_cursor_pos s - 1;
        q \<leftarrow> remove_char_at (replace_text s) pos;
        Some (s\<lparr>replace_text := q, replace_cursor_pos := pos\<rparr>)
      }
      else Some s)"

definition move_cursor_left :: "fr_state \<Rightarrow> fr_state" where
  "move_cursor_left s =
     (if fr_focus s = FindInput then s\<lparr>find_cursor_pos := find_cursor_pos s - 1\<rparr>
      else if fr_focus s = ReplaceInput then s\<lparr>replace_cursor_pos := replace_cursor_pos s - 1\<rparr>
      else s)"

definition move_cursor_right :: "fr_state \<Rightarrow> fr_state" where
  "move_cursor_right s =
     (if fr_focus s = FindInput
      then (if find_cursor_pos s < length (find_query s)
            then s\<lparr>find_cursor_pos := find_cursor_pos s + 1\<rparr> else s)
      else if fr_focus s = ReplaceInput
      then (if replace_cursor_pos s < length (replace_text s)
            then s\<lparr>replace_cursor_pos := replace_cursor_pos s + 1\<rparr> else s)
      else s)"

definition toggle_case_sensitive :: "fr_state \<Rightarrow> fr_state" where
  "toggle_case_sensitive s = s\<lparr>case_sensitive := \<not> case_sensitive s\<rparr>"

definition toggle_regex :: "fr_state \<Rightarrow> fr_state" where
  "toggle_regex s = s\<lparr>use_regex := \<not> use_regex s\<rparr>"

section \<open>The focus ring\<close>

lemma focus_next_simps:
  "fr_mode (focus_next s) = fr_mode s" "fr_mode (focus_prev s) = fr_mode s"
  by (auto simp: focus_next_def focus_prev_def Let_def split: option.split)

definition focus_ok :: "fr_state \<Rightarrow> bool" where
  "focus_ok s \<longleftrightarrow> fr_focus s \<in> set (focusable_elements (fr_mode s))"

interpretation fr: focus_ring focus_next focus_prev focus_ok
proof
  fix s
  assume ok: "focus_ok s"
  show "focus_ok (focus_next s)" "focus_ok (focus_prev s)" "focus_prev (focus_next s) = s"
    "focus_next (focus_prev s) = s"
    using ok by (cases "fr_mode s"; cases "fr_focus s";
      simp add: focus_ok_def focus_next_def focus_prev_def focusable_elements_def)+
qed

section \<open>Pieces between the occurrences\<close>

function pieces :: "rstr \<Rightarrow> rstr \<Rightarrow> rstr list" where
  "pieces q s =
     (if q = [] then [s]
      else case find_cut q s of None \<Rightarrow> [s] | Some (a, b) \<Rightarrow> a # pieces q b)"
  by pat_completeness auto
termination
  by (relation "measure (\<lambda>(q, s). length s)") (auto dest!: find_cut_Some)

declare pieces.simps [simp del]

fun piece_matches :: "nat \<Rightarrow> nat \<Rightarrow> rstr list \<Rightarrow> (nat \<times> nat) list" where
  "piece_matches n off (x # y # ys) =
     (off + blen x, off + blen x + n) # piece_matches n (off + blen x + n) (y # ys)"
| "piece_matches n off xs = []"

lemma pieces_not_Nil [simp]: "pieces q s \<noteq> []"
  by (subst pieces.simps) (auto split: option.splits)

lemma piece_matches_Cons:
  "ys \<noteq> [] \<Longrightarrow> piece_matches n off (x # ys) =
     (off + blen x, off + blen x + n) # piece_matches n (off + blen x + n) ys"
  by (cases ys) auto

lemma join_pieces: "join q (pieces q s) = s"
proof (induction q s rule: pieces.induct)
  case (1 q s)
  then show ?case
    by (subst pieces.simps) (auto simp: join_Cons dest!: find_cut_Some split: option.splits)
qed

lemma pieces_free:
  assumes "q \<noteq> []" and "x \<in> set (pieces q s)"
  shows "\<not> str_contains x q"
  using assms
proof (induction q s rule: pieces.induct)
  case (1 q s)
  show ?case
  proof (cases "find_cut q s")
    case None
    with 1 show ?thesis by (simp add: pieces.simps find_cut_None)
  next
    case (Some p)
    obtain a b where p: "p = (a, b)" by (cases p)
    have "\<not> str_contains a q"
    proof
      assume "str_contains a q"
      then obtain u v where "a = u @ q @ v" by (auto simp: str_contains_iff)
      then have "s = u @ q @ (v @ q @ b)" using find_cut_Some [of q s a b] Some p by simp
      from str_find_first [OF _ this] Some p have "blen a \<le> blen u" by (simp add: str_find_cut)
      with \<open>a = u @ q @ v\<close> 1(2) show False by simp
    qed
    with 1 Some p show ?thesis by (subst (asm) pieces.simps) auto
  qed
qed

text \<open>The code's matches are the gaps between the pieces.\<close>

lemma lit_matches_pieces:
  assumes "q \<noteq> []"
  shows "lit_matches q (pre @ s) (blen pre) = Some (piece_matches (blen q) (blen pre) (pieces q s))"
proof (induction "length s" arbitrary: pre s rule: less_induct)
  case less
  show ?case
  proof (cases "find_cut q s")
    case None
    then show ?thesis
      using assms by (subst lit_matches.simps) (simp add: str_find_cut pieces.simps)
  next
    case (Some p)
    then obtain a b where ab: "find_cut q s = Some (a, b)" by (cases p) auto
    from find_cut_Some [OF this] have s: "s = a @ q @ b" .
    have "lit_matches q (pre @ s) (blen pre + blen a + blen q)
        = Some (piece_matches (blen q) (blen pre + blen a + blen q) (pieces q b))"
      using less.hyps [of b "pre @ a @ q"] s assms by (simp add: add.assoc)
    moreover have "pieces q s = a # pieces q b" using ab assms by (simp add: pieces.simps [of q s])
    moreover have "str_find q s = Some (blen a)" using ab by (simp add: str_find_cut)
    ultimately show ?thesis by (subst lit_matches.simps) (simp add: piece_matches_Cons)
  qed
qed

lemma replace_rev_pieces:
  assumes "xs \<noteq> []"
  shows "replace_rev r (piece_matches (blen q) (blen pre) xs) (pre @ join q xs) = Some (pre @ join r xs)"
  using assms
proof (induction xs arbitrary: pre)
  case (Cons x xs)
  show ?case
  proof (cases xs)
    case (Cons y ys)
    then have "replace_rev r (piece_matches (blen q) (blen (pre @ x @ q)) xs) ((pre @ x @ q) @ join q xs)
        = Some ((pre @ x @ q) @ join r xs)"
      using Cons.IH [of "pre @ x @ q"] Cons by blast
    moreover have "replace_range (pre @ x @ q @ join r xs) (blen pre + blen x) (blen pre + blen x + blen q) r
        = Some (pre @ x @ r @ join r xs)"
      using split_byte_append [of "pre @ x" "q @ join r xs"] split_byte_append [of q "join r xs"]
      by (simp add: replace_range_def)
    ultimately show ?thesis
      using Cons by (simp add: piece_matches_Cons join_Cons add.assoc)
  qed simp
qed simp

section \<open>Properties\<close>

text \<open>
  Tab and Shift+Tab. Each is the inverse of the other in both modes, focus stays on an element of
  the dialog, and as many steps back as forward return to the same element.
\<close>

theorem fr_focus_ring:
  assumes "focus_ok s"
  shows "focus_ok (focus_next s) \<and> focus_prev (focus_next s) = s \<and> focus_next (focus_prev s) = s
    \<and> (focus_prev ^^ n) ((focus_next ^^ n) s) = s"
  using fr.nxt_member fr.prv_nxt fr.nxt_prv fr.prv_pow_nxt_pow assms by blast

theorem fr_focus_ring_witness:
  "focus_prev (focus_next (new_replace InputView)) = new_replace InputView"
  using fr_focus_ring [of "new_replace InputView"]
  by (simp add: focus_ok_def new_replace_def new_find_def focusable_elements_def)

lemma literal_matches:
  assumes "find_query s \<noteq> []" and "case_sensitive s" and "\<not> use_regex s"
  shows "\<exists>s'. update_matches lower regex body s = Some s'
    \<and> fr_matches s' = piece_matches (blen (find_query s)) 0 (pieces (find_query s) body)
    \<and> current_match_index s' = 0"
  using lit_matches_pieces [OF assms(1), of "[]" body] assms
  by (auto simp: update_matches_def update_matches_literal_def Let_def)

text \<open>
  Literal search. With case sensitivity, in any Unicode text, the search ends without a panic, and
  the matches cut the text into pieces that do not contain the query and that the query joins again.
\<close>

theorem literal_matches_correct:
  assumes "find_query s \<noteq> []" and "case_sensitive s" and "\<not> use_regex s"
  shows "\<exists>s'. update_matches lower regex body s = Some s'
    \<and> fr_matches s' = piece_matches (blen (find_query s)) 0 (pieces (find_query s) body)
    \<and> join (find_query s) (pieces (find_query s) body) = body
    \<and> (\<forall>x \<in> set (pieces (find_query s) body). \<not> str_contains x (find_query s))
    \<and> current_match_index s' = 0"
  using literal_matches [OF assms] join_pieces pieces_free [OF assms(1)] by blast

theorem literal_matches_correct_witness:
  "\<exists>s'. update_matches id (\<lambda>_ _ _. None) [97, 233, 97]
      ((new_find InputView)\<lparr>find_query := [233], case_sensitive := True\<rparr>) = Some s'
    \<and> fr_matches s' = [(1, 3)]"
proof -
  let ?s = "(new_find InputView)\<lparr>find_query := [233], case_sensitive := True\<rparr>"
  have "pieces [233] [97, 233, 97] = [[97], [97]]"
    by (simp add: pieces.simps [of "[233]" "[97, 233, 97]"] pieces.simps [of "[233]" "[97]"])
  then show ?thesis
    using literal_matches_correct [of ?s id "\<lambda>_ _ _. None" "[97, 233, 97]"]
    by (auto simp: new_find_def utf8_len_def)
qed



text \<open>
  Case-insensitive replacement mixes two texts: the ranges come from the lower-cased text and are
  applied to the original. Where lower case is longer, the replacement panics inside a character.
\<close>

theorem insensitive_replace_can_panic:
  assumes "lower [304, 233, 97] = [105, 775, 233, 97]" and "lower [233] = [233]"
  shows "\<exists>s'. update_matches lower regex [304, 233, 97] ((new_replace InputView)\<lparr>find_query := [233]\<rparr>) = Some s'
    \<and> replace_all lower regex s' [304, 233, 97] = None"
proof -
  have "pieces [233] [105, 775, 233, 97] = [[105, 775], [97]]"
    by (simp add: pieces.simps [of "[233]" "[105, 775, 233, 97]"] pieces.simps [of "[233]" "[97]"])
  then have "lit_matches [233] [105, 775, 233, 97] 0 = Some [(3, 5)]"
    using lit_matches_pieces [of "[233]" "[]" "[105, 775, 233, 97]"] by (simp add: utf8_len_def)
  then show ?thesis
    using assms
    by (simp add: update_matches_def update_matches_literal_def new_replace_def new_find_def
        replace_all_def replace_range_def utf8_len_def Let_def)
qed

theorem insensitive_replace_can_panic_witness:
  "\<exists>lower s'. replace_all lower (\<lambda>_ _ _. None) s' [304, 233, 97] = None"
  using insensitive_replace_can_panic
    [of "\<lambda>s. concat (map (\<lambda>c. if c = 304 then [105, 775] else [c]) s)" "\<lambda>_ _ _. None"]
  by auto

text \<open>
  The input fields count characters, so typing and deleting never panic, in any script; a typed
  character lands before the cursor and backspace takes it away again.
\<close>

lemma char_to_byte_boundary: "split_byte (char_to_byte_index s i) s = Some (take i s, drop i s)"
proof -
  have "char_to_byte_index s i = blen (take i s)" by (simp add: char_to_byte_index_def)
  then show ?thesis by (simp add: split_byte_Some_iff)
qed

lemma typed_then_deleted:
  assumes "fr_focus s = FindInput" and "find_cursor_pos s \<le> length (find_query s)"
  shows "Option.bind (fr_insert_char c s) delete_char_backward = Some s"
proof -
  let ?a = "take (find_cursor_pos s) (find_query s)" and ?b = "drop (find_cursor_pos s) (find_query s)"
  have ins: "fr_insert_char c s = Some (s\<lparr>find_query := ?a @ c # ?b, find_cursor_pos := find_cursor_pos s + 1\<rparr>)"
    using assms(1) by (simp add: fr_insert_char_def str_insert_def char_to_byte_boundary)
  have "char_to_byte_index (?a @ c # ?b) (find_cursor_pos s) = blen ?a"
    using assms(2) by (simp add: char_to_byte_index_def)
  then have "remove_char_at (?a @ c # ?b) (find_cursor_pos s) = Some (find_query s)"
    using split_byte_append [of ?a "c # ?b"] by (simp add: remove_char_at_def Let_def str_remove_def)
  then show ?thesis using assms(1) by (simp add: ins delete_char_backward_def)
qed

text \<open>The report of Replace All is always overwritten by the search that follows it.\<close>

lemma replaced_message_overwritten:
  assumes "find_query s \<noteq> []" and "replace_all lower regex s body = Some (Inr n, s', body')"
  shows "fr_status s' = Some (lit ''No matches found'') \<or> fr_status s' = Some (match_count_message s')"
  using assms
  by (auto simp: replace_all_def update_matches_def Let_def match_count_message_def
      split: if_splits bind_splits)

end
