(* ===== verification/JournalTree.thy ===== *)
theory JournalTree
  imports Prelude
begin

text \<open>
  The collapsible journal, \<^verbatim>\<open>apps/cli/src/tui/app/journal_tree.rs\<close>: a tree of turns, messages and tool
  calls rebuilt from the flat lists of messages and tool executions, and a cached depth-first render
  list with a cursor. Node ids are counted from 1 and never wrap (\<open>nat\<close>). The depth-first walk recurses
  on the node map, which could be cyclic: it takes fuel, and running out of it is \<open>None\<close>.
\<close>

section \<open>Data\<close>

record tui_message =
  msg_role :: rstr
  msg_content :: rstr
  msg_created_at :: int

record tool_entry =
  tool_name :: rstr
  parameters_summary :: rstr
  result_summary :: rstr
  tool_success :: bool
  executed_at :: int
  duration_ms :: "nat option"

type_synonym node_id = nat

datatype node_kind = TurnKind | UserMessage | AssistantMessage | ToolCall | SubAgentSpawn | SystemEvent

datatype node_payload =
    MessagePayload rstr rstr
  | ToolPayload rstr rstr rstr bool "nat option"
  | SpawnPayload rstr rstr
  | SystemPayload rstr
  | TurnPayload nat

record journal_node =
  jn_id :: node_id
  jn_kind :: node_kind
  jn_timestamp :: int
  jn_payload :: node_payload
  jn_children :: "node_id list"
  jn_parent :: "node_id option"

record render_item =
  ri_node_id :: node_id
  ri_depth :: nat
  ri_is_last_child :: bool
  ri_ancestor_has_more :: "bool list"
  ri_is_collapsed :: bool
  ri_has_children :: bool

record journal =
  nodes :: "node_id \<Rightarrow> journal_node option"
  roots :: "node_id list"
  collapsed :: "node_id set"
  cursor :: "node_id option"
  render_list :: "render_item list"
  dirty :: bool
  next_id :: node_id
  last_msg_count :: nat
  last_tool_count :: nat

definition jt_new :: journal where
  "jt_new = \<lparr>nodes = Map.empty, roots = [], collapsed = {}, cursor = None, render_list = [],
     dirty = True, next_id = 1, last_msg_count = 0, last_tool_count = 0\<rparr>"

datatype flat_event = FlatMessage tui_message | FlatTool tool_entry

fun e_timestamp :: "flat_event \<Rightarrow> int" where
  "e_timestamp (FlatMessage m) = msg_created_at m"
| "e_timestamp (FlatTool t) = executed_at t"

definition merge_events :: "tui_message list \<Rightarrow> tool_entry list \<Rightarrow> flat_event list" where
  "merge_events ms ts = sort_key e_timestamp (map FlatMessage ms @ map FlatTool ts)"

definition extract_agent_id :: "rstr \<Rightarrow> rstr" where
  "extract_agent_id s =
     (let p = lit ''agent_id: '';
          rest = (if prefix p s then drop (length p) s else s)
      in case split_ws rest of [] \<Rightarrow> lit ''unknown'' | w # _ \<Rightarrow> w)"

section \<open>Building the tree\<close>

text \<open>The next id, the node inserted under it, and the link from its parent.\<close>

definition new_node :: "node_kind \<Rightarrow> int \<Rightarrow> node_payload \<Rightarrow> node_id option \<Rightarrow> journal \<Rightarrow> journal" where
  "new_node kind ts payload parent j =
     j\<lparr>nodes := (nodes j)(next_id j \<mapsto> \<lparr>jn_id = next_id j, jn_kind = kind, jn_timestamp = ts,
         jn_payload = payload, jn_children = [], jn_parent = parent\<rparr>),
       next_id := next_id j + 1, dirty := True\<rparr>"

definition push_child :: "node_id \<Rightarrow> node_id \<Rightarrow> journal \<Rightarrow> journal" where
  "push_child p c j =
     (case nodes j p of
        Some n \<Rightarrow> j\<lparr>nodes := (nodes j)(p \<mapsto> n\<lparr>jn_children := jn_children n @ [c]\<rparr>)\<rparr>
      | None \<Rightarrow> j)"

definition add_child :: "node_kind \<Rightarrow> int \<Rightarrow> node_payload \<Rightarrow> node_id \<Rightarrow> journal \<Rightarrow> node_id \<times> journal" where
  "add_child kind ts payload p j =
     (next_id j, push_child p (next_id j) (new_node kind ts payload (Some p) j))"

definition add_turn :: "int \<Rightarrow> nat \<Rightarrow> journal \<Rightarrow> node_id \<times> journal" where
  "add_turn ts n j =
     (let j' = new_node TurnKind ts (TurnPayload n) None j
      in (next_id j, j'\<lparr>roots := roots j' @ [next_id j]\<rparr>))"

text \<open>The loop variables of the rebuild.\<close>

record builder =
  b_tree :: journal
  b_turn :: "node_id option"
  b_assistant :: "node_id option"
  b_turn_number :: nat

text \<open>The turn to attach to, created when there is none.\<close>

definition ensure_turn :: "int \<Rightarrow> builder \<Rightarrow> node_id \<times> builder" where
  "ensure_turn ts b =
     (case b_turn b of
        Some t \<Rightarrow> (t, b)
      | None \<Rightarrow>
          (let n = b_turn_number b + 1 in
           case add_turn ts n (b_tree b) of
             (t, j) \<Rightarrow> (t, b\<lparr>b_tree := j, b_turn := Some t, b_turn_number := n\<rparr>)))"

definition build_message :: "tui_message \<Rightarrow> builder \<Rightarrow> builder" where
  "build_message m b =
     (if msg_role m = lit ''user'' then
        (let n = b_turn_number b + 1 in
         case add_turn (msg_created_at m) n (b_tree b) of
           (t, j) \<Rightarrow>
             (case add_child UserMessage (msg_created_at m) (MessagePayload (msg_role m) (msg_content m)) t j of
                (_, j') \<Rightarrow> \<lparr>b_tree = j', b_turn = Some t, b_assistant = None, b_turn_number = n\<rparr>))
      else if msg_role m = lit ''assistant'' then
        (case ensure_turn (msg_created_at m) b of
           (t, b') \<Rightarrow>
             (case add_child AssistantMessage (msg_created_at m)
                     (MessagePayload (msg_role m) (msg_content m)) t (b_tree b') of
                (i, j) \<Rightarrow> b'\<lparr>b_tree := j, b_assistant := Some i\<rparr>))
      else if msg_role m = lit ''system'' then
        (case ensure_turn (msg_created_at m) b of
           (t, b') \<Rightarrow>
             (case add_child SystemEvent (msg_created_at m) (SystemPayload (msg_content m)) t (b_tree b') of
                (_, j) \<Rightarrow> b'\<lparr>b_tree := j\<rparr>))
      else b)"

definition tool_node_kind :: "tool_entry \<Rightarrow> node_kind" where
  "tool_node_kind t = (if tool_name t = lit ''agent_spawn'' then SubAgentSpawn else ToolCall)"

definition tool_node_payload :: "tool_entry \<Rightarrow> node_payload" where
  "tool_node_payload t =
     (if tool_name t = lit ''agent_spawn''
      then SpawnPayload (extract_agent_id (result_summary t)) (parameters_summary t)
      else ToolPayload (tool_name t) (parameters_summary t) (result_summary t) (tool_success t) (duration_ms t))"

definition build_tool :: "tool_entry \<Rightarrow> builder \<Rightarrow> builder" where
  "build_tool t b =
     (case (case b_assistant b of Some a \<Rightarrow> Some a | None \<Rightarrow> b_turn b) of
        None \<Rightarrow> b
      | Some p \<Rightarrow>
          (case add_child (tool_node_kind t) (executed_at t) (tool_node_payload t) p (b_tree b) of
             (_, j) \<Rightarrow> b\<lparr>b_tree := j\<rparr>))"

fun build_event :: "flat_event \<Rightarrow> builder \<Rightarrow> builder" where
  "build_event (FlatMessage m) b = build_message m b"
| "build_event (FlatTool t) b = build_tool t b"

definition cleared :: "journal \<Rightarrow> builder" where
  "cleared j = \<lparr>b_tree = j\<lparr>nodes := Map.empty, roots := [], next_id := 1\<rparr>,
     b_turn = None, b_assistant = None, b_turn_number = 0\<rparr>"

definition rebuild_from_flat :: "tui_message list \<Rightarrow> tool_entry list \<Rightarrow> journal \<Rightarrow> journal" where
  "rebuild_from_flat ms ts j =
     (let old_collapsed = collapsed j;
          old_cursor = cursor j;
          j' = b_tree (fold build_event (merge_events ms ts) (cleared j))
      in j'\<lparr>collapsed := {i \<in> old_collapsed. nodes j' i \<noteq> None},
            cursor := (case old_cursor of
                Some i \<Rightarrow> if nodes j' i \<noteq> None then Some i else None
              | None \<Rightarrow> None),
            last_msg_count := length ms, last_tool_count := length ts, dirty := True\<rparr>)"

definition rebuild_if_stale :: "tui_message list \<Rightarrow> tool_entry list \<Rightarrow> journal \<Rightarrow> journal" where
  "rebuild_if_stale ms ts j =
     (if length ms \<noteq> last_msg_count j \<or> length ts \<noteq> last_tool_count j
      then (rebuild_from_flat ms ts j)\<lparr>last_msg_count := length ms, last_tool_count := length ts\<rparr>
      else j)"

text \<open>Activity of a sub-agent. \<open>order\<close> is the order in which the hash map yields its values.\<close>

definition is_spawn_of :: "rstr \<Rightarrow> journal_node \<Rightarrow> bool" where
  "is_spawn_of agent n \<longleftrightarrow> (case jn_payload n of SpawnPayload a _ \<Rightarrow> a = agent | _ \<Rightarrow> False)"

fun inject_event :: "node_id \<Rightarrow> flat_event \<Rightarrow> journal \<Rightarrow> journal" where
  "inject_event spawn (FlatMessage m) j =
     (let kind = (if msg_role m = lit ''assistant'' then AssistantMessage
                  else if msg_role m = lit ''user'' then UserMessage else SystemEvent);
          payload = (if kind = SystemEvent then SystemPayload (msg_content m)
                     else MessagePayload (msg_role m) (msg_content m))
      in snd (add_child kind (msg_created_at m) payload spawn j))"
| "inject_event spawn (FlatTool t) j =
     snd (add_child ToolCall (executed_at t)
       (ToolPayload (tool_name t) (parameters_summary t) (result_summary t) (tool_success t) (duration_ms t))
       spawn j)"

definition inject_subagent_activity :: "node_id list \<Rightarrow> rstr \<Rightarrow> tui_message list \<Rightarrow> tool_entry list
    \<Rightarrow> journal \<Rightarrow> journal" where
  "inject_subagent_activity order agent ms ts j =
     (case find (\<lambda>i. case nodes j i of Some n \<Rightarrow> is_spawn_of agent n | None \<Rightarrow> False) order of
        None \<Rightarrow> j
      | Some spawn \<Rightarrow> (fold (inject_event spawn) (merge_events ms ts) j)\<lparr>dirty := True\<rparr>)"

section \<open>The render list\<close>

definition has_children :: "journal \<Rightarrow> node_id \<Rightarrow> bool" where
  "has_children j i \<longleftrightarrow> (case nodes j i of Some n \<Rightarrow> jn_children n \<noteq> [] | None \<Rightarrow> False)"

definition children_of :: "journal \<Rightarrow> node_id \<Rightarrow> node_id list" where
  "children_of j i = (case nodes j i of Some n \<Rightarrow> jn_children n | None \<Rightarrow> [])"

text \<open>
  The depth-first walk of a node, and the loop over children or roots, where the last element is the
  last sibling. The fuel bounds the depth of the recursion.
\<close>

fun dfs :: "nat \<Rightarrow> journal \<Rightarrow> node_id \<Rightarrow> nat \<Rightarrow> bool \<Rightarrow> bool list \<Rightarrow> render_item list option"
  and dfs_list :: "nat \<Rightarrow> journal \<Rightarrow> node_id list \<Rightarrow> nat \<Rightarrow> bool list \<Rightarrow> render_item list option" where
  "dfs 0 j i depth is_last anc = None"
| "dfs (Suc f) j i depth is_last anc =
     (let item = \<lparr>ri_node_id = i, ri_depth = depth, ri_is_last_child = is_last,
            ri_ancestor_has_more = anc, ri_is_collapsed = (i \<in> collapsed j),
            ri_has_children = has_children j i\<rparr>
      in if has_children j i \<and> i \<notin> collapsed j
         then map_option ((#) item) (dfs_list f j (children_of j i) (depth + 1) (anc @ [\<not> is_last]))
         else Some [item])"
| "dfs_list f j [] depth anc = Some []"
| "dfs_list f j (c # cs) depth anc = do {
     xs \<leftarrow> dfs f j c depth (cs = []) anc;
     ys \<leftarrow> dfs_list f j cs depth anc;
     Some (xs @ ys)
   }"

definition recompute_render_list :: "journal \<Rightarrow> journal option" where
  "recompute_render_list j =
     (if \<not> dirty j then Some j
      else do {
        items \<leftarrow> dfs_list (next_id j) j (roots j) 0 [];
        Some (j\<lparr>render_list := items, dirty := False\<rparr>)
      })"

section \<open>Cursor and collapse\<close>

definition render_ids :: "journal \<Rightarrow> node_id list" where
  "render_ids j = map ri_node_id (render_list j)"

fun position_of :: "'a \<Rightarrow> 'a list \<Rightarrow> nat option" where
  "position_of x [] = None"
| "position_of x (y # ys) = (if y = x then Some 0 else map_option Suc (position_of x ys))"

definition cursor_pos :: "journal \<Rightarrow> nat option" where
  "cursor_pos j = (case cursor j of Some c \<Rightarrow> position_of c (render_ids j) | None \<Rightarrow> None)"

definition first_id :: "'a list \<Rightarrow> 'a option" where
  "first_id xs = (case xs of [] \<Rightarrow> None | x # _ \<Rightarrow> Some x)"

definition last_id :: "'a list \<Rightarrow> 'a option" where
  "last_id xs = (if xs = [] then None else Some (last xs))"

text \<open>The moves, on a tree whose render list is up to date.\<close>

definition next_in_list :: "journal \<Rightarrow> journal" where
  "next_in_list j =
     (if render_list j = [] then j
      else case cursor_pos j of
        Some i \<Rightarrow> (if i + 1 < length (render_list j) then j\<lparr>cursor := Some (render_ids j ! (i + 1))\<rparr> else j)
      | None \<Rightarrow> j\<lparr>cursor := first_id (render_ids j)\<rparr>)"

definition prev_in_list :: "journal \<Rightarrow> journal" where
  "prev_in_list j =
     (if render_list j = [] then j
      else case cursor_pos j of
        Some i \<Rightarrow> (if i > 0 then j\<lparr>cursor := Some (render_ids j ! (i - 1))\<rparr> else j)
      | None \<Rightarrow> j\<lparr>cursor := last_id (render_ids j)\<rparr>)"

definition cursor_next :: "journal \<Rightarrow> journal option" where
  "cursor_next j = map_option next_in_list (recompute_render_list j)"

definition cursor_prev :: "journal \<Rightarrow> journal option" where
  "cursor_prev j = map_option prev_in_list (recompute_render_list j)"

definition cursor_first :: "journal \<Rightarrow> journal option" where
  "cursor_first j = map_option (\<lambda>j. j\<lparr>cursor := first_id (render_ids j)\<rparr>) (recompute_render_list j)"

definition cursor_last :: "journal \<Rightarrow> journal option" where
  "cursor_last j = map_option (\<lambda>j. j\<lparr>cursor := last_id (render_ids j)\<rparr>) (recompute_render_list j)"

definition cursor_render_index :: "journal \<Rightarrow> (nat option \<times> journal) option" where
  "cursor_render_index j = map_option (\<lambda>j. (cursor_pos j, j)) (recompute_render_list j)"

definition toggle_collapse :: "node_id \<Rightarrow> journal \<Rightarrow> journal" where
  "toggle_collapse i j =
     (if i \<in> collapsed j then j\<lparr>collapsed := collapsed j - {i}, dirty := True\<rparr>
      else j\<lparr>collapsed := insert i (collapsed j), dirty := True\<rparr>)"

definition expand_node :: "node_id \<Rightarrow> journal \<Rightarrow> journal" where
  "expand_node i j = j\<lparr>collapsed := collapsed j - {i}, dirty := True\<rparr>"

definition collapse_node :: "node_id \<Rightarrow> journal \<Rightarrow> journal" where
  "collapse_node i j =
     (if has_children j i then j\<lparr>collapsed := insert i (collapsed j), dirty := True\<rparr> else j)"

definition cursor_collapse_or_parent :: "journal \<Rightarrow> journal" where
  "cursor_collapse_or_parent j =
     (case cursor j of
        None \<Rightarrow> j
      | Some c \<Rightarrow>
          if has_children j c \<and> c \<notin> collapsed j then collapse_node c j
          else (case nodes j c of
              Some n \<Rightarrow> (case jn_parent n of Some p \<Rightarrow> j\<lparr>cursor := Some p\<rparr> | None \<Rightarrow> j)
            | None \<Rightarrow> j))"

text \<open>The summary line: the slice at byte 57 panics inside a character.\<close>

definition first_line :: "rstr \<Rightarrow> rstr" where
  "first_line s = (case str_lines s of [] \<Rightarrow> [] | l # _ \<Rightarrow> trim l)"

definition cut_line :: "rstr \<Rightarrow> rstr option" where
  "cut_line l = map_option (\<lambda>(a, b). a @ [8230]) (split_byte 57 l)"

fun summary_text :: "node_payload \<Rightarrow> rstr option" where
  "summary_text (TurnPayload n) = Some (lit ''Turn '' @ show_nat n)"
| "summary_text (MessagePayload role content) =
     (let l = first_line content in
      if blen l > 60 then cut_line l
      else if l = [] then Some (lit ''(empty)'') else Some l)"
| "summary_text (ToolPayload name params result ok ms) = Some (name @ [32] @ params)"
| "summary_text (SpawnPayload agent task) = Some ([9889, 32] @ task)"
| "summary_text (SystemPayload desc) =
     (let l = first_line desc in if blen l > 60 then cut_line l else Some l)"

section \<open>Well-formed trees\<close>

text \<open>
  Ids are counted; a child has a greater id than its parent and points back to it; a node without a
  parent is a root.
\<close>

definition node_ok :: "journal \<Rightarrow> node_id \<Rightarrow> journal_node \<Rightarrow> bool" where
  "node_ok j i n \<longleftrightarrow> jn_id n = i \<and> 1 \<le> i \<and> i < next_id j \<and> distinct (jn_children n)
     \<and> (\<forall>c \<in> set (jn_children n). i < c \<and> (\<exists>m. nodes j c = Some m \<and> jn_parent m = Some i))
     \<and> (case jn_parent n of
          None \<Rightarrow> i \<in> set (roots j)
        | Some p \<Rightarrow> (\<exists>m. nodes j p = Some m \<and> i \<in> set (jn_children m)))"

definition jt_wf :: "journal \<Rightarrow> bool" where
  "jt_wf j \<longleftrightarrow> (\<forall>i n. nodes j i = Some n \<longrightarrow> node_ok j i n) \<and> distinct (roots j) \<and> 1 \<le> next_id j
     \<and> (\<forall>r \<in> set (roots j). \<exists>n. nodes j r = Some n \<and> jn_parent n = None)"

lemma jt_wf_node: "jt_wf j \<Longrightarrow> nodes j i = Some n \<Longrightarrow> node_ok j i n"
  by (simp add: jt_wf_def)

lemma jt_wf_fresh: "jt_wf j \<Longrightarrow> next_id j \<le> i \<Longrightarrow> nodes j i = None"
  using jt_wf_node [of j i] by (cases "nodes j i") (auto simp: node_ok_def)

lemma add_turn_wf:
  assumes "jt_wf j" and "add_turn ts n j = (t, j')"
  shows "jt_wf j'" and "nodes j' t \<noteq> None" and "t = next_id j" and "next_id j' = next_id j + 1"
proof -
  have t: "t = next_id j" "j' = (new_node TurnKind ts (TurnPayload n) None j)
      \<lparr>roots := roots j @ [next_id j]\<rparr>"
    using assms(2) by (auto simp: add_turn_def Let_def new_node_def)
  note fresh = jt_wf_fresh [OF assms(1) order.refl]
  have not_root: "next_id j \<notin> set (roots j)" using assms(1) fresh by (auto simp: jt_wf_def)
  have "node_ok j' i m" if m: "nodes j' i = Some m" for i m
  proof (cases "i = next_id j")
    case True
    with m t assms(1) show ?thesis by (auto simp: new_node_def node_ok_def jt_wf_def)
  next
    case False
    with m t have "nodes j i = Some m" by (simp add: new_node_def)
    from jt_wf_node [OF assms(1) this] fresh show ?thesis
      unfolding t by (fastforce simp: new_node_def node_ok_def split: option.splits)
  qed
  moreover have "\<forall>r \<in> set (roots j'). \<exists>m. nodes j' r = Some m \<and> jn_parent m = None"
    using assms(1) t fresh by (auto simp: new_node_def jt_wf_def)
  ultimately show "jt_wf j'"
    using assms(1) t not_root by (auto simp: jt_wf_def new_node_def)
  show "nodes j' t \<noteq> None" "t = next_id j" "next_id j' = next_id j + 1"
    using t by (auto simp: new_node_def)
qed

lemma add_child_eq:
  assumes "jt_wf j" and "nodes j p = Some q"
  shows "add_child kind ts payload p j =
    (next_id j, j\<lparr>nodes := (nodes j)(next_id j \<mapsto> \<lparr>jn_id = next_id j, jn_kind = kind, jn_timestamp = ts,
         jn_payload = payload, jn_children = [], jn_parent = Some p\<rparr>,
       p \<mapsto> q\<lparr>jn_children := jn_children q @ [next_id j]\<rparr>), next_id := next_id j + 1, dirty := True\<rparr>)"
proof -
  have "p \<noteq> next_id j" using assms jt_wf_fresh [OF assms(1), of p] by auto
  then show ?thesis using assms(2) by (simp add: add_child_def push_child_def new_node_def)
qed

lemma add_child_wf:
  assumes "jt_wf j" and "nodes j p = Some q" and "add_child kind ts payload p j = (i, j')"
  shows "jt_wf j'" and "nodes j' i \<noteq> None" and "i = next_id j" and "next_id j' = next_id j + 1"
proof -
  let ?n = "\<lparr>jn_id = next_id j, jn_kind = kind, jn_timestamp = ts, jn_payload = payload,
    jn_children = [], jn_parent = Some p\<rparr>"
  have i: "i = next_id j" and j': "j' = j\<lparr>nodes := (nodes j)(next_id j \<mapsto> ?n,
       p \<mapsto> q\<lparr>jn_children := jn_children q @ [next_id j]\<rparr>), next_id := next_id j + 1, dirty := True\<rparr>"
    using assms(3) add_child_eq [OF assms(1,2), of kind ts payload] by auto
  note fresh = jt_wf_fresh [OF assms(1) order.refl]
  have p: "p \<noteq> next_id j" "p < next_id j" "node_ok j p q"
    using assms(2) fresh jt_wf_node [OF assms(1,2)] by (auto simp: node_ok_def)
  have new_child: "next_id j \<notin> set (jn_children m)" if "nodes j k = Some m" for k m
    using jt_wf_node [OF assms(1) that] fresh by (auto simp: node_ok_def)
  have "node_ok j' k m" if m: "nodes j' k = Some m" for k m
  proof -
    consider "k = p" | "k = next_id j" "k \<noteq> p" | "k \<noteq> p" "k \<noteq> next_id j" by blast
    then show ?thesis
    proof cases
      case 1
      with m have "m = q\<lparr>jn_children := jn_children q @ [next_id j]\<rparr>" by (simp add: j')
      then show ?thesis
        using 1 p new_child [OF assms(2)] fresh assms(2) unfolding j' node_ok_def
        by (auto split: option.splits)
    next
      case 2
      with m p show ?thesis using assms(1) by (auto simp: j' node_ok_def jt_wf_def)
    next
      case 3
      with m have "nodes j k = Some m" by (simp add: j')
      from jt_wf_node [OF assms(1) this] show ?thesis
        using p(1) assms(2) fresh unfolding j' node_ok_def
        by (auto split: option.splits)
    qed
  qed
  moreover have "\<forall>r \<in> set (roots j'). \<exists>m. nodes j' r = Some m \<and> jn_parent m = None"
    using assms(1,2) fresh p(1) by (fastforce simp: j' jt_wf_def)
  ultimately show "jt_wf j'" using assms(1) by (simp add: jt_wf_def) (simp add: j')
  show "nodes j' i \<noteq> None" "i = next_id j" "next_id j' = next_id j + 1"
    using i p(1) by (auto simp: j')
qed

text \<open>The builder: its tree is well-formed and the open turn and assistant message are in it.\<close>

definition builder_ok :: "builder \<Rightarrow> bool" where
  "builder_ok b \<longleftrightarrow> jt_wf (b_tree b)
     \<and> (\<forall>t. b_turn b = Some t \<longrightarrow> nodes (b_tree b) t \<noteq> None)
     \<and> (\<forall>a. b_assistant b = Some a \<longrightarrow> nodes (b_tree b) a \<noteq> None)"

lemma jt_wf_collapsed [simp]:
  "jt_wf (j\<lparr>collapsed := c\<rparr>) = jt_wf j" "jt_wf (j\<lparr>cursor := x\<rparr>) = jt_wf j"
  "jt_wf (j\<lparr>dirty := d\<rparr>) = jt_wf j" "jt_wf (j\<lparr>render_list := l\<rparr>) = jt_wf j"
  "jt_wf (j\<lparr>last_msg_count := m\<rparr>) = jt_wf j" "jt_wf (j\<lparr>last_tool_count := m\<rparr>) = jt_wf j"
  by (auto simp: jt_wf_def node_ok_def split: option.splits)

text \<open>The tree grows: old nodes keep all but their children, which are only appended to.\<close>

definition node_le :: "journal_node \<Rightarrow> journal_node \<Rightarrow> bool" where
  "node_le n n' \<longleftrightarrow> jn_id n' = jn_id n \<and> jn_kind n' = jn_kind n \<and> jn_timestamp n' = jn_timestamp n
     \<and> jn_payload n' = jn_payload n \<and> jn_parent n' = jn_parent n
     \<and> prefix (jn_children n) (jn_children n')"

definition tree_le :: "journal \<Rightarrow> journal \<Rightarrow> bool" where
  "tree_le j j' \<longleftrightarrow> (\<forall>i n. nodes j i = Some n \<longrightarrow> (\<exists>n'. nodes j' i = Some n' \<and> node_le n n'))
     \<and> prefix (roots j) (roots j')"

lemma node_le_refl [simp]: "node_le n n"
  by (simp add: node_le_def)

lemma node_le_trans: "node_le a b \<Longrightarrow> node_le b c \<Longrightarrow> node_le a c"
  by (auto simp: node_le_def)

lemma tree_le_refl [simp]: "tree_le j j"
  by (auto simp: tree_le_def)

lemma tree_le_trans: "tree_le a b \<Longrightarrow> tree_le b c \<Longrightarrow> tree_le a c"
  unfolding tree_le_def by (meson node_le_trans prefix_order.trans)

lemma tree_le_nodes: "tree_le j j' \<Longrightarrow> nodes j i \<noteq> None \<Longrightarrow> nodes j' i \<noteq> None"
  by (auto simp: tree_le_def)

lemma add_turn_le:
  assumes "jt_wf j" and "add_turn ts n j = (t, j')"
  shows "tree_le j j'"
  using assms jt_wf_fresh [OF assms(1) order.refl]
  by (auto simp: add_turn_def new_node_def Let_def tree_le_def)

lemma add_child_le:
  assumes "jt_wf j" and "nodes j p = Some q" and "add_child kind ts payload p j = (i, j')"
  shows "tree_le j j'"
  using assms jt_wf_fresh [OF assms(1) order.refl] add_child_eq [OF assms(1,2), of kind ts payload]
  by (auto simp: tree_le_def node_le_def)

text \<open>\<open>grows b b'\<close>: a good builder led to a good builder with a grown tree.\<close>

definition grows :: "builder \<Rightarrow> builder \<Rightarrow> bool" where
  "grows b b' \<longleftrightarrow> (builder_ok b \<longrightarrow> builder_ok b' \<and> tree_le (b_tree b) (b_tree b'))"

lemma grows_trans: "grows a b \<Longrightarrow> grows b c \<Longrightarrow> grows a c"
  unfolding grows_def using tree_le_trans by blast

lemma ensure_turn_grows:
  assumes "ensure_turn ts b = (t, b')"
  shows "grows b b'" and "builder_ok b \<Longrightarrow> nodes (b_tree b') t \<noteq> None"
proof -
  have "builder_ok b \<Longrightarrow> builder_ok b' \<and> tree_le (b_tree b) (b_tree b') \<and> nodes (b_tree b') t \<noteq> None"
  proof (cases "b_turn b")
    case None
    assume ok: "builder_ok b"
    obtain t0 j where t: "add_turn ts (b_turn_number b + 1) (b_tree b) = (t0, j)" by force
    then have b': "b' = b\<lparr>b_tree := j, b_turn := Some t0, b_turn_number := b_turn_number b + 1\<rparr>" "t = t0"
      using assms None by (auto simp: ensure_turn_def Let_def)
    have wf: "jt_wf (b_tree b)" using ok by (simp add: builder_ok_def)
    show ?thesis
      using ok b' add_turn_wf(1,2) [OF wf t] add_turn_le [OF wf t] tree_le_nodes [OF add_turn_le [OF wf t]]
      by (auto simp: builder_ok_def)
  qed (use assms in \<open>auto simp: ensure_turn_def builder_ok_def\<close>)
  then show "grows b b'" "builder_ok b \<Longrightarrow> nodes (b_tree b') t \<noteq> None" by (auto simp: grows_def)
qed

lemma child_grows:
  assumes "builder_ok b" and "nodes (b_tree b) p \<noteq> None" and "add_child kind ts payload p (b_tree b) = (i, j)"
  shows "builder_ok (b\<lparr>b_tree := j\<rparr>)" and "builder_ok (b\<lparr>b_tree := j, b_assistant := Some i\<rparr>)"
    and "tree_le (b_tree b) j"
proof -
  obtain q where q: "nodes (b_tree b) p = Some q" using assms(2) by auto
  have wf: "jt_wf (b_tree b)" using assms(1) by (simp add: builder_ok_def)
  note wf' = add_child_wf [OF wf q assms(3)] and le = add_child_le [OF wf q assms(3)]
  show "builder_ok (b\<lparr>b_tree := j\<rparr>)" "builder_ok (b\<lparr>b_tree := j, b_assistant := Some i\<rparr>)"
    "tree_le (b_tree b) j"
    using assms(1) wf' le tree_le_nodes [OF le] by (auto simp: builder_ok_def)
qed

lemma build_event_grows: "grows b (build_event e b)"
proof (cases e)
  case (FlatMessage m)
  consider "msg_role m = lit ''user''"
    | "msg_role m \<noteq> lit ''user''" "msg_role m = lit ''assistant'' \<or> msg_role m = lit ''system''"
    | "msg_role m \<noteq> lit ''user''" "msg_role m \<noteq> lit ''assistant''" "msg_role m \<noteq> lit ''system''"
    by blast
  then show ?thesis
  proof cases
    case 1
    obtain t j where t: "add_turn (msg_created_at m) (b_turn_number b + 1) (b_tree b) = (t, j)" by force
    obtain i j' where c: "add_child UserMessage (msg_created_at m)
        (MessagePayload (msg_role m) (msg_content m)) t j = (i, j')" by force
    have e: "build_event e b = \<lparr>b_tree = j', b_turn = Some t, b_assistant = None,
        b_turn_number = b_turn_number b + 1\<rparr>"
      using FlatMessage 1 t c by (simp add: build_message_def Let_def)
    show ?thesis
      unfolding grows_def
    proof
      assume ok: "builder_ok b"
      then have wf: "jt_wf (b_tree b)" by (simp add: builder_ok_def)
      note t' = add_turn_wf(1,2) [OF wf t]
      let ?b = "\<lparr>b_tree = j, b_turn = Some t, b_assistant = None, b_turn_number = b_turn_number b + 1\<rparr>"
      have "builder_ok ?b" using t' by (simp add: builder_ok_def)
      from child_grows [OF this, of t UserMessage "msg_created_at m" _ i j'] c t' add_turn_le [OF wf t]
      show "builder_ok (build_event e b) \<and> tree_le (b_tree b) (b_tree (build_event e b))"
        unfolding e by (auto intro: tree_le_trans)
    qed
  next
    case 2
    obtain t b' where t: "ensure_turn (msg_created_at m) b = (t, b')" by force
    note grow = ensure_turn_grows [OF t]
    show ?thesis
      unfolding grows_def
    proof
      assume ok: "builder_ok b"
      with grow have b': "builder_ok b'" "tree_le (b_tree b) (b_tree b')" "nodes (b_tree b') t \<noteq> None"
        by (auto simp: grows_def)
      show "builder_ok (build_event e b) \<and> tree_le (b_tree b) (b_tree (build_event e b))"
      proof (cases "msg_role m = lit ''assistant''")
        case True
        obtain i j where c: "add_child AssistantMessage (msg_created_at m)
            (MessagePayload (msg_role m) (msg_content m)) t (b_tree b') = (i, j)" by force
        have "build_event e b = b'\<lparr>b_tree := j, b_assistant := Some i\<rparr>"
          using FlatMessage 2(1) True t c by (simp add: build_message_def)
        with child_grows(2,3) [OF b'(1,3) c] b'(2) show ?thesis by (simp add: tree_le_trans)
      next
        case False
        obtain i j where c: "add_child SystemEvent (msg_created_at m) (SystemPayload (msg_content m)) t
            (b_tree b') = (i, j)" by force
        have "build_event e b = b'\<lparr>b_tree := j\<rparr>"
          using FlatMessage 2 False t c by (simp add: build_message_def)
        with child_grows(1,3) [OF b'(1,3) c] b'(2) show ?thesis by (simp add: tree_le_trans)
      qed
    qed
  next
    case 3
    with FlatMessage show ?thesis by (simp add: grows_def build_message_def)
  qed
next
  case (FlatTool t)
  show ?thesis
    unfolding grows_def
  proof
    assume ok: "builder_ok b"
    show "builder_ok (build_event e b) \<and> tree_le (b_tree b) (b_tree (build_event e b))"
    proof (cases "case b_assistant b of Some a \<Rightarrow> Some a | None \<Rightarrow> b_turn b")
      case None
      with FlatTool ok show ?thesis by (simp add: build_tool_def)
    next
      case (Some p)
      with ok have p: "nodes (b_tree b) p \<noteq> None" by (auto simp: builder_ok_def split: option.splits)
      obtain i j where c: "add_child (tool_node_kind t) (executed_at t) (tool_node_payload t) p (b_tree b) = (i, j)"
        by force
      have "build_event e b = b\<lparr>b_tree := j\<rparr>" using FlatTool Some c by (simp add: build_tool_def)
      with child_grows(1,3) [OF ok p c] show ?thesis by simp
    qed
  qed
qed

lemma build_grows: "grows b (fold build_event es b)"
proof (induction es arbitrary: b)
  case (Cons e es)
  then show ?case using build_event_grows grows_trans by (metis fold_simps(2))
qed (simp add: grows_def)

lemma cleared_ok: "builder_ok (cleared j)"
  by (simp add: cleared_def builder_ok_def jt_wf_def)

lemma rebuild_wf: "jt_wf (rebuild_from_flat ms ts j)"
  using build_grows [of "cleared j" "merge_events ms ts"] cleared_ok
  by (simp add: rebuild_from_flat_def Let_def grows_def builder_ok_def)

lemma inject_event_wf:
  assumes "jt_wf j" and "nodes j spawn \<noteq> None"
  shows "jt_wf (inject_event spawn e j) \<and> tree_le j (inject_event spawn e j)"
proof -
  obtain q where q: "nodes j spawn = Some q" using assms(2) by auto
  have "jt_wf (snd (add_child k t pl spawn j)) \<and> tree_le j (snd (add_child k t pl spawn j))" for k t pl
    using add_child_wf(1) [OF assms(1) q] add_child_le [OF assms(1) q] by (metis prod.collapse)
  then show ?thesis by (cases e) (simp_all add: Let_def)
qed

lemma inject_wf:
  assumes "jt_wf j"
  shows "jt_wf (inject_subagent_activity order agent ms ts j)
    \<and> tree_le j (inject_subagent_activity order agent ms ts j)"
proof -
  have "jt_wf (fold (inject_event i) es j) \<and> tree_le j (fold (inject_event i) es j)"
    if "jt_wf j" "nodes j i \<noteq> None" for i es and j :: journal
    using that
  proof (induction es arbitrary: j)
    case (Cons e es)
    from inject_event_wf [OF Cons.prems]
    have "jt_wf (inject_event i e j)" "tree_le j (inject_event i e j)" by auto
    with Cons tree_le_nodes tree_le_trans show ?case by (metis fold_simps(2))
  qed simp
  moreover have "nodes j i \<noteq> None"
    if "find (\<lambda>i. case nodes j i of Some n \<Rightarrow> is_spawn_of agent n | None \<Rightarrow> False) order = Some i" for i
    using that by (auto simp: find_Some_iff split: option.splits)
  moreover have "tree_le j (j'\<lparr>dirty := d\<rparr>) = tree_le j j'" for j' d by (simp add: tree_le_def)
  ultimately show ?thesis
    using assms by (simp add: inject_subagent_activity_def split: option.split) 
qed

section \<open>The walk\<close>

text \<open>An expanded node shows its children.\<close>

definition shows_child :: "journal \<Rightarrow> node_id \<Rightarrow> node_id \<Rightarrow> bool" where
  "shows_child j i c \<longleftrightarrow> i \<notin> collapsed j \<and> c \<in> set (children_of j i)"

definition visible :: "journal \<Rightarrow> node_id \<Rightarrow> bool" where
  "visible j i \<longleftrightarrow> (\<exists>r \<in> set (roots j). (shows_child j)\<^sup>*\<^sup>* r i)"

lemma children_of_wf:
  assumes "jt_wf j" and "c \<in> set (children_of j i)"
  shows "i < c" and "\<exists>m. nodes j c = Some m \<and> jn_parent m = Some i" and "c < next_id j"
    and "distinct (children_of j i)"
proof -
  have n: "\<exists>n. nodes j i = Some n \<and> c \<in> set (jn_children n) \<and> children_of j i = jn_children n"
    using assms(2) by (cases "nodes j i") (auto simp: children_of_def)
  then obtain n where n: "nodes j i = Some n" "c \<in> set (jn_children n)" "children_of j i = jn_children n"
    by blast
  from jt_wf_node [OF assms(1) n(1)] n(2,3)
  show "i < c" and p: "\<exists>m. nodes j c = Some m \<and> jn_parent m = Some i" and "distinct (children_of j i)"
    unfolding node_ok_def by simp_all
  from p jt_wf_fresh [OF assms(1), of c] show "c < next_id j" by (metis linorder_not_less option.distinct(1))
qed

lemma distinct_children: "jt_wf j \<Longrightarrow> distinct (children_of j i)"
  using children_of_wf(4) [of j _ i] by (cases "children_of j i") auto

lemma shows_child_wf:
  assumes "jt_wf j" and "shows_child j a c"
  shows "a < c" and "\<exists>m. nodes j c = Some m \<and> jn_parent m = Some a"
  using children_of_wf(1,2) [OF assms(1), of c a] assms(2) unfolding shows_child_def by blast+

lemma shows_child_unique:
  assumes "jt_wf j" and "shows_child j a c" and "shows_child j b c"
  shows "a = b"
  using shows_child_wf(2) [OF assms(1,2)] shows_child_wf(2) [OF assms(1,3)] by auto

lemma shows_star_le:
  assumes "jt_wf j" and "(shows_child j)\<^sup>*\<^sup>* a b"
  shows "a \<le> b"
  using assms(2)
proof (induction rule: rtranclp_induct)
  case (step b c)
  with shows_child_wf(1) [OF assms(1) step.hyps(2)] show ?case by simp
qed simp

text \<open>Ancestors of a node form a chain.\<close>

lemma shows_star_last:
  assumes "(shows_child j)\<^sup>*\<^sup>* a b" and "a \<noteq> b"
  obtains w where "(shows_child j)\<^sup>*\<^sup>* a w" and "shows_child j w b"
  using assms by (auto elim: rtranclp.cases)

lemma shows_chain:
  assumes "jt_wf j" and "(shows_child j)\<^sup>*\<^sup>* a x" and "(shows_child j)\<^sup>*\<^sup>* b x"
  shows "(shows_child j)\<^sup>*\<^sup>* a b \<or> (shows_child j)\<^sup>*\<^sup>* b a"
  using assms(2,3)
proof (induction rule: rtranclp_induct)
  case (step y z)
  show ?case
  proof (cases "b = z")
    case True
    with step.hyps show ?thesis by (simp add: rtranclp.rtrancl_into_rtrancl)
  next
    case False
    with step.prems obtain w where w: "(shows_child j)\<^sup>*\<^sup>* b w" "shows_child j w z"
      by (rule shows_star_last)
    with shows_child_unique [OF assms(1) w(2) step.hyps(2)] step.IH show ?thesis by simp
  qed
qed simp

text \<open>Siblings, and roots, have disjoint subtrees.\<close>

definition apart :: "journal \<Rightarrow> node_id list \<Rightarrow> bool" where
  "apart j cs \<longleftrightarrow> (\<forall>c \<in> set cs. nodes j c \<noteq> None)
     \<and> (\<forall>c \<in> set cs. \<forall>d \<in> set cs. (shows_child j)\<^sup>*\<^sup>* c d \<longrightarrow> c = d) \<and> distinct cs"

lemma children_apart:
  assumes "jt_wf j"
  shows "apart j (children_of j i)"
proof -
  have "c = d" if c: "c \<in> set (children_of j i)" and d: "d \<in> set (children_of j i)"
    and cd: "(shows_child j)\<^sup>*\<^sup>* c d" for c d
  proof (rule ccontr)
    assume "c \<noteq> d"
    with cd obtain w where w: "(shows_child j)\<^sup>*\<^sup>* c w" "shows_child j w d" by (rule shows_star_last)
    have "w = i" using shows_child_wf(2) [OF assms w(2)] children_of_wf(2) [OF assms d] by auto
    with shows_star_le [OF assms w(1)] children_of_wf(1) [OF assms c] show False by simp
  qed
  moreover have "nodes j c \<noteq> None" if "c \<in> set (children_of j i)" for c
    using children_of_wf(2) [OF assms that] by auto
  ultimately show ?thesis using distinct_children [OF assms] unfolding apart_def by blast
qed

lemma roots_apart:
  assumes "jt_wf j"
  shows "apart j (roots j)"
proof -
  have r: "\<exists>n. nodes j r = Some n \<and> jn_parent n = None" if "r \<in> set (roots j)" for r
    using assms that by (simp add: jt_wf_def)
  have "c = d" if d: "d \<in> set (roots j)" and cd: "(shows_child j)\<^sup>*\<^sup>* c d" for c d
  proof (rule ccontr)
    assume "c \<noteq> d"
    with cd obtain w where "(shows_child j)\<^sup>*\<^sup>* c w" "shows_child j w d" by (rule shows_star_last)
    with shows_child_wf(2) [OF assms, of w d] r [OF d] show False by auto
  qed
  moreover have "nodes j c \<noteq> None" if "c \<in> set (roots j)" for c using r [OF that] by auto
  moreover have "distinct (roots j)" using assms by (simp add: jt_wf_def)
  ultimately show ?thesis unfolding apart_def by blast
qed

text \<open>
  The walk of a node lists its visible subtree, each node once; with one unit of fuel per possible id
  below it does not run out.
\<close>

lemma dfs_step:
  assumes "jt_wf j" and "has_children j i" and "i \<notin> collapsed j"
  shows "{x. (shows_child j)\<^sup>*\<^sup>* i x} =
    insert i (\<Union>c \<in> set (children_of j i). {x. (shows_child j)\<^sup>*\<^sup>* c x})"
proof -
  have "(shows_child j)\<^sup>*\<^sup>* i x \<longleftrightarrow> x = i \<or> (\<exists>c \<in> set (children_of j i). (shows_child j)\<^sup>*\<^sup>* c x)" for x
  proof
    assume "(shows_child j)\<^sup>*\<^sup>* i x"
    then show "x = i \<or> (\<exists>c \<in> set (children_of j i). (shows_child j)\<^sup>*\<^sup>* c x)"
      by (cases rule: converse_rtranclpE) (auto simp: shows_child_def)
  next
    assume "x = i \<or> (\<exists>c \<in> set (children_of j i). (shows_child j)\<^sup>*\<^sup>* c x)"
    with assms(3) show "(shows_child j)\<^sup>*\<^sup>* i x"
      by (auto simp: shows_child_def intro: converse_rtranclp_into_rtranclp)
  qed
  then show ?thesis by auto
qed

lemma dfs_leaf:
  assumes "\<not> (has_children j i \<and> i \<notin> collapsed j)"
  shows "{x. (shows_child j)\<^sup>*\<^sup>* i x} = {i}"
proof -
  have "\<not> shows_child j i x" for x
    using assms by (cases "nodes j i") (auto simp: shows_child_def has_children_def children_of_def)
  then show ?thesis by (auto elim: converse_rtranclpE)
qed

lemma dfs_correct:
  assumes "jt_wf j"
  shows "nodes j i \<noteq> None \<Longrightarrow> next_id j \<le> i + f \<Longrightarrow>
      \<exists>xs. dfs f j i depth l anc = Some xs
        \<and> set (map ri_node_id xs) = {x. (shows_child j)\<^sup>*\<^sup>* i x} \<and> distinct (map ri_node_id xs)"
    and "apart j cs \<Longrightarrow> \<forall>c \<in> set cs. next_id j \<le> c + f \<Longrightarrow>
      \<exists>xs. dfs_list f j cs depth anc = Some xs
        \<and> set (map ri_node_id xs) = (\<Union>c \<in> set cs. {x. (shows_child j)\<^sup>*\<^sup>* c x})
        \<and> distinct (map ri_node_id xs)"
  using assms
proof (induction f j i depth l anc and f j cs depth anc rule: dfs_dfs_list.induct)
  case (1 j i depth l anc)
  then show ?case using jt_wf_fresh [of j i] by simp
next
  case (2 f j i depth l anc)
  show ?case
  proof (cases "has_children j i \<and> i \<notin> collapsed j")
    case False
    then show ?thesis using dfs_leaf [OF False] by auto
  next
    case True
    have "\<forall>c \<in> set (children_of j i). next_id j \<le> c + f"
      using children_of_wf(1) [OF "2.prems"(3)] "2.prems"(2) by fastforce
    with "2.IH" [OF refl True children_apart [OF "2.prems"(3)]] "2.prems"(3) obtain xs where
      xs: "dfs_list f j (children_of j i) (depth + 1) (anc @ [\<not> l]) = Some xs"
        "set (map ri_node_id xs) = (\<Union>c \<in> set (children_of j i). {x. (shows_child j)\<^sup>*\<^sup>* c x})"
        "distinct (map ri_node_id xs)"
      by blast
    have "i \<notin> set (map ri_node_id xs)"
      using xs(2) shows_star_le [OF "2.prems"(3)] children_of_wf(1) [OF "2.prems"(3)] by fastforce
    with xs True dfs_step [OF "2.prems"(3), of i] show ?thesis by (auto simp: Let_def)
  qed
next
  case (3 f j depth anc)
  then show ?case by simp
next
  case (4 f j c cs depth anc)
  have a: "nodes j c \<noteq> None" "next_id j \<le> c + f" "apart j cs" "\<forall>c \<in> set cs. next_id j \<le> c + f" "c \<notin> set cs"
    using "4.prems"(1,2) by (auto simp: apart_def)
  from "4.IH"(1) [OF a(1,2) "4.prems"(3)] obtain xs where
    xs: "dfs f j c depth (cs = []) anc = Some xs" "set (map ri_node_id xs) = {x. (shows_child j)\<^sup>*\<^sup>* c x}"
      "distinct (map ri_node_id xs)" by blast
  from "4.IH"(2) [OF xs(1) a(3,4) "4.prems"(3)] obtain ys where
    ys: "dfs_list f j cs depth anc = Some ys"
      "set (map ri_node_id ys) = (\<Union>c \<in> set cs. {x. (shows_child j)\<^sup>*\<^sup>* c x})"
      "distinct (map ri_node_id ys)" by blast
  have "set (map ri_node_id xs) \<inter> set (map ri_node_id ys) = {}"
  proof (rule ccontr)
    assume "\<not> ?thesis"
    then obtain x d where "(shows_child j)\<^sup>*\<^sup>* c x" "d \<in> set cs" "(shows_child j)\<^sup>*\<^sup>* d x"
      using xs(2) ys(2) by blast
    with shows_chain [OF "4.prems"(3)] have "(shows_child j)\<^sup>*\<^sup>* c d \<or> (shows_child j)\<^sup>*\<^sup>* d c" by blast
    with "4.prems"(1) \<open>d \<in> set cs\<close> a(5) show False by (auto simp: apart_def)
  qed
  with xs ys show ?case by (simp add: image_Un)
qed

lemma recompute_correct:
  assumes "jt_wf j" and "dirty j"
  shows "\<exists>j'. recompute_render_list j = Some j' \<and> distinct (render_ids j')
    \<and> set (render_ids j') = {i. visible j i} \<and> \<not> dirty j' \<and> nodes j' = nodes j \<and> cursor j' = cursor j"
  using dfs_correct(2) [OF assms(1) roots_apart [OF assms(1)], of "next_id j" 0 "[]"] assms(2)
  by (auto simp: recompute_render_list_def render_ids_def visible_def)

lemma all_visible:
  assumes "jt_wf j" and "collapsed j = {}" and "nodes j i \<noteq> None"
  shows "visible j i"
  using assms(3)
proof (induction i rule: less_induct)
  case (less i)
  then obtain n where n: "nodes j i = Some n" by auto
  note ok = jt_wf_node [OF assms(1) n]
  show ?case
  proof (cases "jn_parent n")
    case None
    with ok show ?thesis by (auto simp: node_ok_def visible_def)
  next
    case (Some p)
    with ok obtain m where m: "nodes j p = Some m" "i \<in> set (jn_children m)" by (auto simp: node_ok_def)
    then have "shows_child j p i" using assms(2) by (simp add: shows_child_def children_of_def)
    moreover from this have "visible j p"
      using less.IH [of p] shows_child_wf(1) [OF assms(1)] m(1) by simp
    ultimately show ?thesis unfolding visible_def by (meson rtranclp.rtrancl_into_rtrancl)
  qed
qed

lemma visible_node:
  assumes "jt_wf j" and "visible j i"
  shows "nodes j i \<noteq> None"
proof -
  obtain r where r: "r \<in> set (roots j)" "(shows_child j)\<^sup>*\<^sup>* r i" using assms(2) by (auto simp: visible_def)
  show ?thesis
  proof (cases "r = i")
    case True
    with r(1) roots_apart [OF assms(1)] show ?thesis by (simp add: apart_def)
  next
    case False
    with r(2) obtain w where "(shows_child j)\<^sup>*\<^sup>* r w" "shows_child j w i" by (rule shows_star_last)
    with shows_child_wf(2) [OF assms(1), of w i] show ?thesis by auto
  qed
qed

lemma rebuild_frame:
  "collapsed (rebuild_from_flat ms ts j) = {i \<in> collapsed j. nodes (rebuild_from_flat ms ts j) i \<noteq> None}"
  "cursor (rebuild_from_flat ms ts j) = (case cursor j of
     Some i \<Rightarrow> if nodes (rebuild_from_flat ms ts j) i \<noteq> None then Some i else None | None \<Rightarrow> None)"
proof -
  show "collapsed (rebuild_from_flat ms ts j) = {i \<in> collapsed j. nodes (rebuild_from_flat ms ts j) i \<noteq> None}"
    by (simp add: rebuild_from_flat_def Let_def)
  show "cursor (rebuild_from_flat ms ts j) = (case cursor j of
     Some i \<Rightarrow> if nodes (rebuild_from_flat ms ts j) i \<noteq> None then Some i else None | None \<Rightarrow> None)"
    by (cases "cursor j") (simp_all add: rebuild_from_flat_def Let_def)
qed

section \<open>What each event leaves in the tree\<close>

definition node_for :: "journal \<Rightarrow> node_kind \<Rightarrow> int \<Rightarrow> node_payload \<Rightarrow> bool" where
  "node_for j kind ts payload \<longleftrightarrow>
     (\<exists>i n. nodes j i = Some n \<and> jn_kind n = kind \<and> jn_timestamp n = ts \<and> jn_payload n = payload)"

definition known_role :: "tui_message \<Rightarrow> bool" where
  "known_role m \<longleftrightarrow> msg_role m \<in> {lit ''user'', lit ''assistant'', lit ''system''}"

definition message_node :: "journal \<Rightarrow> tui_message \<Rightarrow> bool" where
  "message_node j m \<longleftrightarrow>
     (if msg_role m = lit ''user'' then node_for j UserMessage (msg_created_at m) (MessagePayload (msg_role m) (msg_content m))
      else if msg_role m = lit ''assistant''
      then node_for j AssistantMessage (msg_created_at m) (MessagePayload (msg_role m) (msg_content m))
      else node_for j SystemEvent (msg_created_at m) (SystemPayload (msg_content m)))"

lemma node_for_le: "tree_le j j' \<Longrightarrow> node_for j k t p \<Longrightarrow> node_for j' k t p"
  unfolding tree_le_def node_for_def node_le_def by metis

lemma message_node_le: "tree_le j j' \<Longrightarrow> message_node j m \<Longrightarrow> message_node j' m"
  by (auto simp: message_node_def dest: node_for_le)

lemma message_node_cong: "nodes j = nodes j' \<Longrightarrow> message_node j m = message_node j' m"
  by (simp add: message_node_def node_for_def)

lemma add_child_node_for:
  assumes "jt_wf j" and "nodes j p \<noteq> None" and "add_child kind ts payload p j = (i, j')"
  shows "node_for j' kind ts payload"
proof -
  obtain q where q: "nodes j p = Some q" using assms(2) by auto
  then have "p \<noteq> next_id j" using jt_wf_fresh [OF assms(1) order.refl] by auto
  then show ?thesis
    using assms(3) add_child_eq [OF assms(1) q, of kind ts payload] unfolding node_for_def
    by (intro exI [of _ "next_id j"]) auto
qed

lemma build_message_node:
  assumes "builder_ok b" and "known_role m"
  shows "message_node (b_tree (build_message m b)) m"
proof (cases "msg_role m = lit ''user''")
  case True
  obtain t j where t: "add_turn (msg_created_at m) (b_turn_number b + 1) (b_tree b) = (t, j)" by force
  obtain i j' where c: "add_child UserMessage (msg_created_at m)
      (MessagePayload (msg_role m) (msg_content m)) t j = (i, j')" by force
  have "jt_wf (b_tree b)" using assms(1) by (simp add: builder_ok_def)
  note t' = add_turn_wf(1,2) [OF this t]
  from add_child_node_for [OF t' c] show ?thesis
    using True t c by (simp add: message_node_def build_message_def Let_def)
next
  case False
  obtain t b' where t: "ensure_turn (msg_created_at m) b = (t, b')" by force
  with ensure_turn_grows [OF t] assms(1) have b': "jt_wf (b_tree b')" "nodes (b_tree b') t \<noteq> None"
    by (auto simp: grows_def builder_ok_def)
  show ?thesis
  proof (cases "msg_role m = lit ''assistant''")
    case True
    obtain i j where c: "add_child AssistantMessage (msg_created_at m)
        (MessagePayload (msg_role m) (msg_content m)) t (b_tree b') = (i, j)" by force
    from add_child_node_for [OF b' c] show ?thesis
      using False True t c by (simp add: message_node_def build_message_def)
  next
    case ass: False
    obtain i j where c: "add_child SystemEvent (msg_created_at m) (SystemPayload (msg_content m)) t
        (b_tree b') = (i, j)" by force
    from add_child_node_for [OF b' c] show ?thesis
      using False ass assms(2) t c by (simp add: message_node_def build_message_def known_role_def)
  qed
qed

lemma build_message_nodes:
  assumes "builder_ok b" and "FlatMessage m \<in> set es" and "known_role m"
  shows "message_node (b_tree (fold build_event es b)) m"
proof -
  obtain xs ys where es: "es = xs @ FlatMessage m # ys" using assms(2) by (meson split_list)
  let ?b = "fold build_event xs b"
  have ok: "builder_ok ?b" using build_grows [of b xs] assms(1) by (simp add: grows_def)
  with build_event_grows [of ?b "FlatMessage m"] have "builder_ok (build_message m ?b)"
    by (simp add: grows_def)
  with build_grows [of "build_message m ?b" ys]
  have "tree_le (b_tree (build_message m ?b)) (b_tree (fold build_event es b))"
    by (simp add: grows_def es)
  with build_message_node [OF ok assms(3)] message_node_le show ?thesis by blast
qed

section \<open>Events appended later\<close>

lemma sort_key_append_later:
  assumes "\<forall>x \<in> set xs. \<forall>y \<in> set ys. f x < f y" and "mset zs = mset xs + mset ys"
    and "\<And>k. filter (\<lambda>x. f x = k) zs = filter (\<lambda>x. f x = k) xs @ filter (\<lambda>x. f x = k) ys"
  shows "sort_key f zs = sort_key f xs @ sort_key f ys"
proof (rule properties_for_sort_key)
  show "mset (sort_key f xs @ sort_key f ys) = mset zs" using assms(2) by simp
  show "sorted (map f (sort_key f xs @ sort_key f ys))"
    using assms(1) by (fastforce simp: sorted_append)
  fix k
  have comm: "(\<lambda>x. f k = f x) = (\<lambda>x. f x = f k)" by auto
  show "filter (\<lambda>x. f k = f x) (sort_key f xs @ sort_key f ys) = filter (\<lambda>x. f k = f x) zs"
    using assms(3) [of "f k"] sort_key_stable [of f "f k" xs] sort_key_stable [of f "f k" ys]
    unfolding comm filter_append by metis
qed

lemma merge_events_append:
  assumes "\<forall>x \<in> set (map FlatMessage ms @ map FlatTool ts).
      \<forall>y \<in> set (map FlatMessage ms' @ map FlatTool ts'). e_timestamp x < e_timestamp y"
  shows "merge_events (ms @ ms') (ts @ ts') = merge_events ms ts @ merge_events ms' ts'"
proof -
  let ?x = "map FlatMessage ms @ map FlatTool ts" and ?y = "map FlatMessage ms' @ map FlatTool ts'"
  have "filter (\<lambda>x. e_timestamp x = k) (map FlatMessage (ms @ ms') @ map FlatTool (ts @ ts'))
      = filter (\<lambda>x. e_timestamp x = k) ?x @ filter (\<lambda>x. e_timestamp x = k) ?y" for k
  proof (cases "\<exists>y \<in> set ?y. e_timestamp y = k")
    case True
    then obtain y where y: "y \<in> set ?y" "e_timestamp y = k" by blast
    have "e_timestamp x \<noteq> k" if "x \<in> set ?x" for x
      using assms [rule_format, OF that y(1)] y(2) by simp
    then have "filter (\<lambda>x. e_timestamp x = k) (map FlatMessage ms) = []"
      "filter (\<lambda>x. e_timestamp x = k) (map FlatTool ts) = []" by (auto simp: filter_empty_conv)
    then show ?thesis by simp
  next
    case False
    then have "filter (\<lambda>x. e_timestamp x = k) (map FlatMessage ms') = []"
      "filter (\<lambda>x. e_timestamp x = k) (map FlatTool ts') = []" by (auto simp: filter_empty_conv)
    then show ?thesis by simp
  qed
  from sort_key_append_later [OF assms _ this] show ?thesis by (simp add: merge_events_def)
qed

text \<open>The build only depends on the nodes, the roots and the next id, which it clears first.\<close>

definition core :: "journal \<Rightarrow> (node_id \<Rightarrow> journal_node option) \<times> node_id list \<times> node_id" where
  "core j = (nodes j, roots j, next_id j)"

lemma core_new_node:
  "core j = core j' \<Longrightarrow> core (new_node k t p q j) = core (new_node k t p q j')"
  by (simp add: core_def new_node_def)

lemma core_push_child: "core j = core j' \<Longrightarrow> core (push_child p c j) = core (push_child p c j')"
  by (simp add: core_def push_child_def split: option.split)

lemma core_add_child:
  assumes "core j = core j'" and "add_child k t pl p j = (i, k1)" and "add_child k t pl p j' = (i', k1')"
  shows "i = i' \<and> core k1 = core k1'"
  using assms core_push_child [OF core_new_node [OF assms(1)]]
  by (auto simp: add_child_def) (auto simp: core_def)

lemma core_add_turn:
  assumes "core j = core j'" and "add_turn ts n j = (t, k)" and "add_turn ts n j' = (t', k')"
  shows "t = t' \<and> core k = core k'"
  using assms by (auto simp: add_turn_def Let_def core_def new_node_def)

definition same_build :: "builder \<Rightarrow> builder \<Rightarrow> bool" where
  "same_build b b' \<longleftrightarrow> core (b_tree b) = core (b_tree b') \<and> b_turn b = b_turn b'
     \<and> b_assistant b = b_assistant b' \<and> b_turn_number b = b_turn_number b'"

lemma same_ensure_turn:
  assumes "same_build b b'" and "ensure_turn ts b = (t, c)" and "ensure_turn ts b' = (t', c')"
  shows "t = t' \<and> same_build c c'"
proof (cases "b_turn b")
  case None
  obtain u j u' j' where a: "add_turn ts (b_turn_number b + 1) (b_tree b) = (u, j)"
    "add_turn ts (b_turn_number b + 1) (b_tree b') = (u', j')" by force
  have "u = u' \<and> core j = core j'"
    using assms(1) core_add_turn [OF _ a] unfolding same_build_def by blast
  moreover have "b_turn b' = None" "b_turn_number b' = b_turn_number b"
    using assms(1) None by (simp_all add: same_build_def)
  moreover from this have "c = b\<lparr>b_tree := j, b_turn := Some u, b_turn_number := b_turn_number b + 1\<rparr>"
    "c' = b'\<lparr>b_tree := j', b_turn := Some u', b_turn_number := b_turn_number b + 1\<rparr>" "t = u" "t' = u'"
    using assms(2,3) None a unfolding ensure_turn_def by (auto simp: Let_def)
  ultimately show ?thesis using assms(1) by (simp add: same_build_def)
next
  case (Some u)
  moreover from this have "b_turn b' = Some u" using assms(1) by (simp add: same_build_def)
  ultimately show ?thesis using assms by (auto simp: ensure_turn_def)
qed

lemma same_build_message:
  assumes "same_build b b'"
  shows "same_build (build_message m b) (build_message m b')"
proof (cases "msg_role m = lit ''user''")
  case True
  obtain t j t' j' where t: "add_turn (msg_created_at m) (b_turn_number b + 1) (b_tree b) = (t, j)"
    "add_turn (msg_created_at m) (b_turn_number b + 1) (b_tree b') = (t', j')" by force
  have n: "b_turn_number b' = b_turn_number b" using assms by (simp add: same_build_def)
  obtain i k i' k' where c: "add_child UserMessage (msg_created_at m)
      (MessagePayload (msg_role m) (msg_content m)) t j = (i, k)"
    "add_child UserMessage (msg_created_at m) (MessagePayload (msg_role m) (msg_content m)) t' j' = (i', k')"
    by force
  have e: "t = t'" "core j = core j'"
    using core_add_turn [OF _ t] assms unfolding same_build_def by blast+
  then have "core k = core k'" using core_add_child [OF e(2) c(1)] c(2) by simp
  moreover have "build_message m b = \<lparr>b_tree = k, b_turn = Some t, b_assistant = None, b_turn_number = b_turn_number b + 1\<rparr>"
    "build_message m b' = \<lparr>b_tree = k', b_turn = Some t', b_assistant = None, b_turn_number = b_turn_number b + 1\<rparr>"
    using True t c n by (simp_all add: build_message_def Let_def)
  ultimately show ?thesis using e by (simp add: same_build_def)
next
  case False
  obtain t c t' c' where t: "ensure_turn (msg_created_at m) b = (t, c)"
    "ensure_turn (msg_created_at m) b' = (t', c')" by force
  from same_ensure_turn [OF assms t] have s: "t = t'" "same_build c c'" by auto
  obtain i k i' k' where a: "add_child AssistantMessage (msg_created_at m)
      (MessagePayload (msg_role m) (msg_content m)) t (b_tree c) = (i, k)"
    "add_child AssistantMessage (msg_created_at m) (MessagePayload (msg_role m) (msg_content m)) t (b_tree c') = (i', k')"
    by force
  obtain x k2 x' k2' where y: "add_child SystemEvent (msg_created_at m) (SystemPayload (msg_content m)) t
      (b_tree c) = (x, k2)"
    "add_child SystemEvent (msg_created_at m) (SystemPayload (msg_content m)) t (b_tree c') = (x', k2')"
    by force
  have cc: "core (b_tree c) = core (b_tree c')" using s(2) by (simp add: same_build_def)
  have "i = i' \<and> core k = core k'" "core k2 = core k2'"
    using core_add_child [OF cc a] core_add_child [OF cc y] by blast+
  moreover have "build_message m b = (if msg_role m = lit ''assistant'' then c\<lparr>b_tree := k, b_assistant := Some i\<rparr>
      else if msg_role m = lit ''system'' then c\<lparr>b_tree := k2\<rparr> else b)"
    "build_message m b' = (if msg_role m = lit ''assistant'' then c'\<lparr>b_tree := k', b_assistant := Some i'\<rparr>
      else if msg_role m = lit ''system'' then c'\<lparr>b_tree := k2'\<rparr> else b')"
    using False t s(1) a y by (cases "msg_role m = lit ''assistant''"; auto simp: build_message_def)+
  ultimately show ?thesis using s(2) assms by (simp add: same_build_def)
qed

lemma same_build_event:
  assumes "same_build b b'"
  shows "same_build (build_event e b) (build_event e b')"
proof (cases e)
  case (FlatMessage m)
  with same_build_message [OF assms] show ?thesis by simp
next
  case (FlatTool t)
  have parent: "(case b_assistant b' of Some a \<Rightarrow> Some a | None \<Rightarrow> b_turn b')
      = (case b_assistant b of Some a \<Rightarrow> Some a | None \<Rightarrow> b_turn b)"
  proof -
    have "b_assistant b' = b_assistant b" "b_turn b' = b_turn b" using assms by (simp_all add: same_build_def)
    then show ?thesis by (simp only:)
  qed
  show ?thesis
  proof (cases "case b_assistant b of Some a \<Rightarrow> Some a | None \<Rightarrow> b_turn b")
    case None
    with FlatTool assms parent show ?thesis by (simp add: build_tool_def)
  next
    case (Some p)
    obtain i k i' k' where a: "add_child (tool_node_kind t) (executed_at t) (tool_node_payload t) p (b_tree b) = (i, k)"
      "add_child (tool_node_kind t) (executed_at t) (tool_node_payload t) p (b_tree b') = (i', k')" by force
    have "core k = core k'" using core_add_child [OF _ a] assms unfolding same_build_def by blast
    moreover have "build_event e b = b\<lparr>b_tree := k\<rparr>" "build_event e b' = b'\<lparr>b_tree := k'\<rparr>"
      using FlatTool Some parent a by (simp_all add: build_tool_def)
    ultimately show ?thesis using assms by (simp add: same_build_def)
  qed
qed

lemma rebuild_tree:
  "nodes (rebuild_from_flat ms ts j) = nodes (b_tree (fold build_event (merge_events ms ts) (cleared jt_new)))"
  "roots (rebuild_from_flat ms ts j) = roots (b_tree (fold build_event (merge_events ms ts) (cleared jt_new)))"
proof -
  have "same_build (fold build_event es b) (fold build_event es b')" if "same_build b b'" for es b b'
    using that
  proof (induction es arbitrary: b b')
    case (Cons e es)
    from Cons.IH [OF same_build_event [OF Cons.prems]] show ?case by simp
  qed simp
  moreover have "same_build (cleared j) (cleared jt_new)"
    by (simp add: cleared_def same_build_def core_def)
  ultimately have "same_build (fold build_event (merge_events ms ts) (cleared j))
      (fold build_event (merge_events ms ts) (cleared jt_new))" by blast
  then show "nodes (rebuild_from_flat ms ts j) = nodes (b_tree (fold build_event (merge_events ms ts) (cleared jt_new)))"
    "roots (rebuild_from_flat ms ts j) = roots (b_tree (fold build_event (merge_events ms ts) (cleared jt_new)))"
    by (simp_all add: rebuild_from_flat_def Let_def same_build_def core_def)
qed

section \<open>Properties\<close>

text \<open>
  C14: the render list. After any rebuild the tree is well-formed, and the walk ends within the fuel of
  one unit per id and lists exactly the visible nodes, each once.
\<close>

theorem journal_render:
  "\<exists>j'. recompute_render_list (rebuild_from_flat ms ts j) = Some j' \<and> distinct (render_ids j')
    \<and> set (render_ids j') = {i. visible (rebuild_from_flat ms ts j) i}
    \<and> length (render_ids j') < next_id (rebuild_from_flat ms ts j)"
proof -
  let ?j = "rebuild_from_flat ms ts j"
  have "dirty ?j" by (simp add: rebuild_from_flat_def Let_def)
  from recompute_correct [OF rebuild_wf this] obtain j' where
    j': "recompute_render_list ?j = Some j'" "distinct (render_ids j')"
      "set (render_ids j') = {i. visible ?j i}" by blast
  have "1 \<le> i \<and> i < next_id ?j" if "visible ?j i" for i
  proof -
    from visible_node [OF rebuild_wf that] show ?thesis using jt_wf_node [OF rebuild_wf] by (fastforce simp: node_ok_def)
  qed
  then have "set (render_ids j') \<subseteq> {1..<next_id ?j}" using j'(3) by auto
  then have "card (set (render_ids j')) \<le> next_id ?j - 1"
    using card_mono [of "{1..<next_id ?j}"] by simp
  moreover have "1 \<le> next_id ?j" using rebuild_wf [of ms ts j] by (simp add: jt_wf_def)
  ultimately have "length (render_ids j') < next_id ?j" using j'(2) by (simp add: distinct_card)
  with j' show ?thesis by blast
qed

text \<open>
  C21: nothing is lost. With nothing collapsed, every node of the rebuilt tree is in the render list,
  and every message of a known role has a node with its role, content and time.
\<close>

theorem journal_complete:
  assumes "collapsed j = {}" and "m \<in> set ms" and "known_role m"
  shows "\<exists>j'. recompute_render_list (rebuild_from_flat ms ts j) = Some j'
    \<and> set (render_ids j') = dom (nodes (rebuild_from_flat ms ts j))
    \<and> message_node (rebuild_from_flat ms ts j) m"
proof -
  let ?j = "rebuild_from_flat ms ts j"
  have d: "dirty ?j" and c: "collapsed ?j = {}"
    using assms(1) by (simp_all add: rebuild_from_flat_def Let_def)
  from recompute_correct [OF rebuild_wf d] obtain j' where
    j': "recompute_render_list ?j = Some j'" "set (render_ids j') = {i. visible ?j i}" by blast
  have "visible ?j i \<longleftrightarrow> nodes ?j i \<noteq> None" for i
  proof
    assume "visible ?j i"
    then show "nodes ?j i \<noteq> None" by (rule visible_node [OF rebuild_wf])
  qed (rule all_visible [OF rebuild_wf c])
  moreover have "message_node ?j m"
    using build_message_nodes [OF cleared_ok _ assms(3), of "merge_events ms ts" jt_new] assms(2)
      message_node_cong [OF rebuild_tree(1)] by (simp add: merge_events_def)
  ultimately show ?thesis using j' by (auto simp: dom_def)
qed

theorem journal_complete_witness:
  "\<exists>j'. recompute_render_list (rebuild_from_flat [\<lparr>msg_role = lit ''user'', msg_content = [], msg_created_at = 0\<rparr>]
     [] jt_new) = Some j'"
  using journal_complete [of jt_new "\<lparr>msg_role = lit ''user'', msg_content = [], msg_created_at = 0\<rparr>"
      "[\<lparr>msg_role = lit ''user'', msg_content = [], msg_created_at = 0\<rparr>]" "[]"]
  by (auto simp: jt_new_def known_role_def)

text \<open>
  Ids are stable. When events later than all old ones are appended, every node keeps its id, kind,
  payload, time and parent, and children are only added: collapsed nodes and the cursor mean the same
  nodes after the rebuild.
\<close>

theorem journal_append_stable:
  assumes "\<forall>x \<in> set (map FlatMessage ms @ map FlatTool ts).
      \<forall>y \<in> set (map FlatMessage ms' @ map FlatTool ts'). e_timestamp x < e_timestamp y"
  shows "tree_le (rebuild_from_flat ms ts j) (rebuild_from_flat (ms @ ms') (ts @ ts') (rebuild_from_flat ms ts j))
    \<and> collapsed (rebuild_from_flat (ms @ ms') (ts @ ts') (rebuild_from_flat ms ts j))
      = collapsed (rebuild_from_flat ms ts j)
    \<and> cursor (rebuild_from_flat (ms @ ms') (ts @ ts') (rebuild_from_flat ms ts j))
      = cursor (rebuild_from_flat ms ts j)"
proof -
  let ?a = "rebuild_from_flat ms ts j" and ?b = "rebuild_from_flat (ms @ ms') (ts @ ts') (rebuild_from_flat ms ts j)"
  let ?m = "fold build_event (merge_events ms ts) (cleared jt_new)"
  have "builder_ok ?m" using build_grows [of "cleared jt_new" "merge_events ms ts"] cleared_ok
    by (simp add: grows_def)
  then have "tree_le (b_tree ?m) (b_tree (fold build_event (merge_events ms' ts') ?m))"
    using build_grows [of ?m "merge_events ms' ts'"] by (simp add: grows_def)
  then have le: "tree_le ?a ?b"
    by (simp add: tree_le_def rebuild_tree merge_events_append [OF assms])
  have "i \<in> collapsed ?a \<Longrightarrow> nodes ?a i \<noteq> None" "cursor ?a = Some i \<Longrightarrow> nodes ?a i \<noteq> None" for i
    by (auto simp: rebuild_from_flat_def Let_def split: option.splits if_splits)
  then have keep: "i \<in> collapsed ?a \<Longrightarrow> nodes ?b i \<noteq> None" "cursor ?a = Some i \<Longrightarrow> nodes ?b i \<noteq> None" for i
    using tree_le_nodes [OF le] by blast+
  have "collapsed ?b = {i \<in> collapsed ?a. nodes ?b i \<noteq> None}"
    "cursor ?b = (case cursor ?a of Some i \<Rightarrow> if nodes ?b i \<noteq> None then Some i else None | None \<Rightarrow> None)"
    by (rule rebuild_frame)+
  with keep le show ?thesis by (auto split: option.splits)
qed

theorem journal_append_stable_witness:
  "tree_le (rebuild_from_flat [\<lparr>msg_role = lit ''user'', msg_content = [], msg_created_at = 0\<rparr>] [] jt_new)
    (rebuild_from_flat [\<lparr>msg_role = lit ''user'', msg_content = [], msg_created_at = 0\<rparr>,
        \<lparr>msg_role = lit ''assistant'', msg_content = [], msg_created_at = 1\<rparr>] []
      (rebuild_from_flat [\<lparr>msg_role = lit ''user'', msg_content = [], msg_created_at = 0\<rparr>] [] jt_new))"
  using journal_append_stable [of "[\<lparr>msg_role = lit ''user'', msg_content = [], msg_created_at = 0\<rparr>]" "[]"
      "[\<lparr>msg_role = lit ''assistant'', msg_content = [], msg_created_at = 1\<rparr>]" "[]" jt_new]
  by simp

text \<open>
  Collapsing. Collapsing an expanded node that is visible hides exactly the nodes strictly below it,
  and expanding it again shows them.
\<close>

theorem collapse_hides_subtree:
  assumes "jt_wf j" and "has_children j i" and "i \<notin> collapsed j" and "visible j i"
  shows "(visible (collapse_node i j) x \<longleftrightarrow> visible j x \<and> (x = i \<or> \<not> (shows_child j)\<^sup>*\<^sup>* i x))
    \<and> (visible (expand_node i (collapse_node i j)) x \<longleftrightarrow> visible j x)"
proof -
  let ?j = "collapse_node i j"
  have step: "shows_child ?j a b \<longleftrightarrow> shows_child j a b \<and> a \<noteq> i" for a b
    using assms(2) by (auto simp: shows_child_def collapse_node_def children_of_def)
  have roots: "roots ?j = roots j" by (simp add: collapse_node_def)
  have down: "(shows_child j)\<^sup>*\<^sup>* r x \<and> (x = i \<or> \<not> (shows_child j)\<^sup>*\<^sup>* i x)"
    if r: "r \<in> set (roots j)" and "(shows_child ?j)\<^sup>*\<^sup>* r x" for r x
    using that(2)
  proof (induction rule: rtranclp_induct)
    case base
    have "r = i" if "(shows_child j)\<^sup>*\<^sup>* i r"
    proof (rule ccontr)
      assume "r \<noteq> i"
      with that obtain w where "(shows_child j)\<^sup>*\<^sup>* i w" "shows_child j w r" by (metis shows_star_last)
      with shows_child_wf(2) [OF assms(1), of w r] assms(1) r show False by (auto simp: jt_wf_def)
    qed
    then show ?case by auto
  next
    case (step y z)
    then have e: "shows_child j y z" "y \<noteq> i" by (simp_all add: \<open>\<And>b a. shows_child ?j a b \<longleftrightarrow> _\<close>)
    have "z = i" if "(shows_child j)\<^sup>*\<^sup>* i z"
    proof (rule ccontr)
      assume "z \<noteq> i"
      with that obtain w where w: "(shows_child j)\<^sup>*\<^sup>* i w" "shows_child j w z" by (metis shows_star_last)
      with shows_child_unique [OF assms(1) w(2) e(1)] step.IH e(2) show False by simp
    qed
    with e step.IH show ?case by (auto intro: rtranclp.rtrancl_into_rtrancl)
  qed
  have up: "(shows_child ?j)\<^sup>*\<^sup>* r x"
    if "(shows_child j)\<^sup>*\<^sup>* r x" and "x = i \<or> \<not> (shows_child j)\<^sup>*\<^sup>* i x" for r x
    using that
  proof (induction rule: rtranclp_induct)
    case (step y z)
    have "\<not> (shows_child j)\<^sup>*\<^sup>* i y"
    proof
      assume y: "(shows_child j)\<^sup>*\<^sup>* i y"
      with step.hyps(2) have "(shows_child j)\<^sup>*\<^sup>* i z" by (rule rtranclp.rtrancl_into_rtrancl [rotated])
      with step.prems have "z = i" by simp
      with shows_star_le [OF assms(1) y] shows_child_wf(1) [OF assms(1) step.hyps(2)] show False by simp
    qed
    moreover from this have "y \<noteq> i" by auto
    ultimately show ?case
      using step by (auto simp: \<open>\<And>b a. shows_child ?j a b \<longleftrightarrow> _\<close> intro: rtranclp.rtrancl_into_rtrancl)
  qed simp
  have "visible ?j x \<longleftrightarrow> visible j x \<and> (x = i \<or> \<not> (shows_child j)\<^sup>*\<^sup>* i x)"
    using down up unfolding visible_def roots by blast
  moreover have "shows_child (expand_node i ?j) = shows_child j"
    using assms(2,3) by (auto simp: fun_eq_iff shows_child_def expand_node_def collapse_node_def children_of_def)
  then have "visible (expand_node i ?j) x \<longleftrightarrow> visible j x"
    by (simp add: visible_def expand_node_def collapse_node_def)
  ultimately show ?thesis by blast
qed

theorem collapse_hides_subtree_witness:
  "\<not> visible (collapse_node 1 (rebuild_from_flat
      [\<lparr>msg_role = lit ''user'', msg_content = [], msg_created_at = 0\<rparr>] [] jt_new)) 2"
proof -
  let ?j = "rebuild_from_flat [\<lparr>msg_role = lit ''user'', msg_content = [], msg_created_at = 0\<rparr>] [] jt_new"
  have j: "has_children ?j 1" "1 \<notin> collapsed ?j" "roots ?j = [1]" "2 \<in> set (children_of ?j 1)"
    by (simp_all add: rebuild_from_flat_def merge_events_def cleared_def jt_new_def build_message_def
        add_turn_def new_node_def add_child_def push_child_def has_children_def children_of_def Let_def)
  then have "shows_child ?j 1 2" by (simp add: shows_child_def)
  moreover have "visible ?j 1" using j(3) by (auto simp: visible_def)
  ultimately show ?thesis
    using collapse_hides_subtree [OF rebuild_wf j(1,2), of 2] by auto
qed

text \<open>
  The summary line is not safe for every text: it slices the first line at byte 57. For an ASCII
  first line it is always there and at most 60 bytes long; with a two-byte character across byte 57 it
  panics.
\<close>

theorem summary_line:
  "(ascii (first_line content) \<longrightarrow>
      (\<exists>s. summary_text (MessagePayload role content) = Some s \<and> blen s \<le> 60))
   \<and> summary_text (MessagePayload role (replicate 56 97 @ [233] @ replicate 10 97)) = None"
proof
  have "\<exists>s. cut_line l = Some s \<and> blen s \<le> 60" if l: "ascii l" "60 < blen l" for l
  proof -
    have "split_byte 57 l = Some (take 57 l, drop 57 l)"
      using l by (intro ascii_split_byte) (simp_all add: ascii_blen)
    moreover have "blen (take 57 l) = 57" using l ascii_take [of l 57] by (simp add: ascii_blen)
    ultimately show ?thesis by (simp add: cut_line_def utf8_len_def)
  qed
  then show "ascii (first_line content) \<longrightarrow>
      (\<exists>s. summary_text (MessagePayload role content) = Some s \<and> blen s \<le> 60)"
    by (auto simp: Let_def lit_def utf8_len_def)
next
  let ?l = "replicate 56 97 @ [233] @ replicate 10 (97 :: nat)"
  have line: "first_line ?l = ?l"
  proof -
    have "10 \<notin> set ?l" by simp
    then have "str_lines ?l = [?l]"
    proof -
      have "lines_aux acc (s @ []) = lines_aux (rev s @ acc) []" if "10 \<notin> set s" for acc s
        using that by (induction s arbitrary: acc) auto
      from this [of ?l "[]"] show ?thesis by (simp add: str_lines_def)
    qed
    moreover have "trim ?l = ?l"
    proof -
      have d: "dropWhile is_ws (97 # s) = 97 # s" for s by (simp add: is_ws_def)
      have "rev ?l = 97 # replicate 9 97 @ [233] @ replicate 56 97" "?l = 97 # replicate 55 97 @ [233] @ replicate 10 97"
        by (simp_all add: numeral_eq_Suc replicate_append_same)
      then have "dropWhile is_ws ?l = ?l" "dropWhile is_ws (rev ?l) = rev ?l" using d by metis+
      then show ?thesis by (simp only: trim_def rev_rev_ident)
    qed
    ultimately show ?thesis by (simp add: first_line_def)
  qed
  have b: "blen (replicate n 97) = n" for n by (induction n) auto
  have "split_byte (Suc (blen a)) (a @ 233 # s) = None" for a s
    by (induction a) (auto simp: utf8_len_def)
  from this [of "replicate 56 97" "replicate 10 97"] have "split_byte 57 ?l = None" by (simp add: b)
  then show "summary_text (MessagePayload role ?l) = None"
    by (simp add: line cut_line_def b utf8_len_def del: append.simps)
qed

theorem summary_line_witness:
  "\<exists>s. summary_text (MessagePayload [] [97]) = Some s \<and> blen s \<le> 60"
  using summary_line [of "[97]" "[]"]
  by (simp add: first_line_def str_lines_def trim_def is_ws_def)

text \<open>
  The cursor: on an up-to-date list it moves one row at a time and stops at the ends, and a step down
  is undone by a step up.
\<close>

lemma position_of_Some: "position_of x xs = Some i \<Longrightarrow> i < length xs \<and> xs ! i = x"
  by (induction xs arbitrary: i) (auto split: if_splits)

lemma position_of_nth: "distinct xs \<Longrightarrow> i < length xs \<Longrightarrow> position_of (xs ! i) xs = Some i"
proof (induction xs arbitrary: i)
  case (Cons x xs)
  then show ?case by (cases i) auto
qed simp

lemma cursor_next_prev:
  assumes "distinct (render_ids j)" and "\<not> dirty j" and "cursor_pos j = Some i"
  shows "cursor_pos (next_in_list j) = Some (min (i + 1) (length (render_list j) - 1))"
    and "cursor_pos (prev_in_list j) = Some (i - 1)"
    and "i + 1 < length (render_list j) \<Longrightarrow> Option.bind (cursor_next j) cursor_prev = Some j"
proof -
  have i: "i < length (render_ids j)" "cursor j = Some (render_ids j ! i)"
    using assms(3) position_of_Some by (fastforce simp: cursor_pos_def split: option.splits)+
  have ids: "length (render_ids j) = length (render_list j)" "render_ids (j\<lparr>cursor := c\<rparr>) = render_ids j" for c
    by (simp_all add: render_ids_def)
  have ne: "render_list j \<noteq> []" using i(1) ids by auto
  have at: "cursor_pos (j\<lparr>cursor := Some (render_ids j ! k)\<rparr>) = Some k" if "k < length (render_ids j)" for k
    using position_of_nth [OF assms(1) that] by (simp add: cursor_pos_def ids)
  show "cursor_pos (next_in_list j) = Some (min (i + 1) (length (render_list j) - 1))"
    using at [of "i + 1"] i ids ne assms(3) by (auto simp: next_in_list_def min_def)
  show "cursor_pos (prev_in_list j) = Some (i - 1)"
    using at [of "i - 1"] i ids ne assms(3) by (auto simp: prev_in_list_def)
  show "Option.bind (cursor_next j) cursor_prev = Some j" if "i + 1 < length (render_list j)"
    using at [of "i + 1"] i ids ne assms(2,3) that
    by (auto simp: cursor_next_def cursor_prev_def recompute_render_list_def next_in_list_def prev_in_list_def)
qed

end
