(* ===== verification/Questions.thy ===== *)
theory Questions
  imports Prelude
begin

text \<open>
  Clarifying questions: the answer dialog of \<^verbatim>\<open>apps/cli/src/types/question.rs\<close> and the parsing,
  validation and formatting of \<^verbatim>\<open>apps/cli/src/tui/question_parser.rs\<close>. JSON decoding is \<^verbatim>\<open>serde\<close>'s, a
  parameter; the fixed regular expression of the block is translated to the search it performs.
\<close>

section \<open>Data\<close>

datatype ambiguity_type = Semantic | Generalize | Specify

fun to_emoji :: "ambiguity_type \<Rightarrow> rstr" where
  "to_emoji Semantic = [128269]"
| "to_emoji Generalize = [128208]"
| "to_emoji Specify = [127919]"

fun to_display_name :: "ambiguity_type \<Rightarrow> rstr" where
  "to_display_name Semantic = lit ''Semantic''"
| "to_display_name Generalize = lit ''Generalize''"
| "to_display_name Specify = lit ''Specify''"

record ambiguity_analysis =
  predicted_types :: "ambiguity_type list"
  aa_reasoning :: rstr

record question_option =
  qo_id :: rstr
  qo_label :: rstr
  qo_description :: "rstr option"

record clarifying_question =
  cq_id :: rstr
  cq_question :: rstr
  cq_header :: rstr
  cq_options :: "question_option list"
  cq_multi_select :: bool
  cq_ambiguity_type :: "ambiguity_type option"

record question_block =
  qb_analysis :: "ambiguity_analysis option"
  qb_questions :: "clarifying_question list"

record answer_state =
  current_question_idx :: nat
  selected_options :: "bool list list"
  other_selected :: "bool list"
  other_text :: "rstr list"
  cursor_idx :: nat
  editing_other :: bool

definition qa_new :: "question_block \<Rightarrow> answer_state" where
  "qa_new b = \<lparr>current_question_idx = 0,
     selected_options = map (\<lambda>q. replicate (length (cq_options q)) False) (qb_questions b),
     other_selected = replicate (length (qb_questions b)) False,
     other_text = replicate (length (qb_questions b)) [], cursor_idx = 0, editing_other = False\<rparr>"

section \<open>The answer dialog\<close>

definition total_items :: "question_block \<Rightarrow> answer_state \<Rightarrow> nat" where
  "total_items b s = (case vec_get (qb_questions b) (current_question_idx s) of
     Some q \<Rightarrow> length (cq_options q) + 1 | None \<Rightarrow> 1)"

definition is_cursor_on_other :: "question_block \<Rightarrow> answer_state \<Rightarrow> bool" where
  "is_cursor_on_other b s = (case vec_get (qb_questions b) (current_question_idx s) of
     Some q \<Rightarrow> cursor_idx s \<ge> length (cq_options q) | None \<Rightarrow> False)"

text \<open>\<^verbatim>\<open>if let Some(x) = xs.get_mut(i) { ... }\<close>.\<close>

definition modify_nth :: "nat \<Rightarrow> ('a \<Rightarrow> 'a) \<Rightarrow> 'a list \<Rightarrow> 'a list" where
  "modify_nth i f xs = (if i < length xs then xs[i := f (xs ! i)] else xs)"

definition clear_all :: "bool list \<Rightarrow> bool list" where
  "clear_all bs = map (\<lambda>_. False) bs"

definition toggle_current :: "question_block \<Rightarrow> answer_state \<Rightarrow> answer_state" where
  "toggle_current b s =
     (let i = current_question_idx s; c = cursor_idx s in
      case vec_get (qb_questions b) i of
        None \<Rightarrow> s
      | Some q \<Rightarrow>
          if c < length (cq_options q) then
            (let sel = modify_nth i (\<lambda>opts.
                   if cq_multi_select q then modify_nth c Not opts
                   else modify_nth c (\<lambda>_. True) (clear_all opts)) (selected_options s);
                 oth = (if cq_multi_select q then other_selected s
                        else modify_nth i (\<lambda>_. False) (other_selected s))
             in s\<lparr>selected_options := sel, other_selected := oth\<rparr>)
          else
            (let sel = (if cq_multi_select q then selected_options s
                        else modify_nth i clear_all (selected_options s));
                 oth = modify_nth i (\<lambda>o'. if cq_multi_select q then \<not> o' else True) (other_selected s)
             in s\<lparr>selected_options := sel, other_selected := oth\<rparr>))"

definition q_cursor_up :: "answer_state \<Rightarrow> answer_state" where
  "q_cursor_up s = (if cursor_idx s > 0 then s\<lparr>cursor_idx := cursor_idx s - 1\<rparr> else s)"

definition q_cursor_down :: "question_block \<Rightarrow> answer_state \<Rightarrow> answer_state" where
  "q_cursor_down b s =
     (if cursor_idx s < total_items b s - 1 then s\<lparr>cursor_idx := cursor_idx s + 1\<rparr> else s)"

definition next_question :: "question_block \<Rightarrow> answer_state \<Rightarrow> bool \<times> answer_state" where
  "next_question b s =
     (if current_question_idx s + 1 < length (qb_questions b)
      then (True, s\<lparr>current_question_idx := current_question_idx s + 1, cursor_idx := 0, editing_other := False\<rparr>)
      else (False, s))"

definition prev_question :: "answer_state \<Rightarrow> bool \<times> answer_state" where
  "prev_question s =
     (if current_question_idx s > 0
      then (True, s\<lparr>current_question_idx := current_question_idx s - 1, cursor_idx := 0, editing_other := False\<rparr>)
      else (False, s))"

definition get_or :: "'a \<Rightarrow> 'a list \<Rightarrow> nat \<Rightarrow> 'a" where
  "get_or d xs i = (case vec_get xs i of Some x \<Rightarrow> x | None \<Rightarrow> d)"

definition question_answered :: "answer_state \<Rightarrow> nat \<Rightarrow> bool" where
  "question_answered s i \<longleftrightarrow> True \<in> set (get_or [] (selected_options s) i)
     \<or> get_or False (other_selected s) i \<and> trim (get_or [] (other_text s) i) \<noteq> []"

definition all_answered :: "question_block \<Rightarrow> answer_state \<Rightarrow> bool" where
  "all_answered b s \<longleftrightarrow> list_all (question_answered s) [0..<length (qb_questions b)]"

definition is_last_question :: "question_block \<Rightarrow> answer_state \<Rightarrow> bool" where
  "is_last_question b s \<longleftrightarrow> current_question_idx s + 1 \<ge> length (qb_questions b)"

definition current_other_text :: "answer_state \<Rightarrow> rstr" where
  "current_other_text s = get_or [] (other_text s) (current_question_idx s)"

definition append_other_char :: "rchar \<Rightarrow> answer_state \<Rightarrow> answer_state" where
  "append_other_char c s = s\<lparr>other_text := modify_nth (current_question_idx s) (\<lambda>t. t @ [c]) (other_text s)\<rparr>"

definition backspace_other :: "answer_state \<Rightarrow> answer_state" where
  "backspace_other s = s\<lparr>other_text := modify_nth (current_question_idx s) butlast (other_text s)\<rparr>"

section \<open>Parsing and validation\<close>

definition validate_ambiguity_analysis :: "ambiguity_analysis \<Rightarrow> bool" where
  "validate_ambiguity_analysis a \<longleftrightarrow> predicted_types a \<noteq> [] \<and> trim (aa_reasoning a) \<noteq> []"

definition valid_option :: "question_option \<Rightarrow> bool" where
  "valid_option opt \<longleftrightarrow> (let n = length (split_ws (qo_label opt)) in \<not> (n = 0 \<or> n > 5))"

definition valid_question :: "clarifying_question \<Rightarrow> bool" where
  "valid_question q \<longleftrightarrow> \<not> (length (cq_options q) < 2 \<or> length (cq_options q) > 4)
     \<and> \<not> (blen (cq_header q) > 12) \<and> list_all valid_option (cq_options q)"

text \<open>An invalid analysis only logs a warning.\<close>

definition validate_question_block :: "question_block \<Rightarrow> bool" where
  "validate_question_block b \<longleftrightarrow>
     \<not> (qb_questions b = [] \<or> length (qb_questions b) > 4) \<and> list_all valid_question (qb_questions b)"

definition open_tag :: rstr where
  "open_tag = lit ''<clarifying_questions>''"

definition close_tag :: rstr where
  "close_tag = lit ''</clarifying_questions>''"

text \<open>
  \<^verbatim>\<open><clarifying_questions>\s*([\s\S]*?)\s*</clarifying_questions>\<close>: the first opening tag, the first closing
  tag after it, and the trimmed text between; the result is the text before, the group, the text after.
\<close>

definition find_block :: "rstr \<Rightarrow> (rstr \<times> rstr \<times> rstr) option" where
  "find_block s = do {
     (before, rest) \<leftarrow> find_cut open_tag s;
     (body, after) \<leftarrow> find_cut close_tag rest;
     Some (before, trim body, after)
   }"

record parsed_response =
  pr_content :: rstr
  pr_questions :: "question_block option"

definition parse_response :: "(rstr \<Rightarrow> question_block option) \<Rightarrow> rstr \<Rightarrow> parsed_response" where
  "parse_response decode response =
     (case find_block response of
        None \<Rightarrow> \<lparr>pr_content = response, pr_questions = None\<rparr>
      | Some (before, json, after) \<Rightarrow>
          (case decode json of
             None \<Rightarrow> \<lparr>pr_content = response, pr_questions = None\<rparr>
           | Some b \<Rightarrow>
               if validate_question_block b
               then \<lparr>pr_content = trim (before @ after), pr_questions = Some b\<rparr>
               else \<lparr>pr_content = response, pr_questions = None\<rparr>))"

section \<open>Formatting\<close>

text \<open>The slice at byte 47 panics inside a character.\<close>

definition truncate_question :: "rstr \<Rightarrow> rstr option" where
  "truncate_question q = (if blen q \<le> 50 then Some q else map_option fst (split_byte 47 q))"

definition answer_parts :: "answer_state \<Rightarrow> nat \<Rightarrow> clarifying_question \<Rightarrow> rstr list" where
  "answer_parts s i q =
     (let selected = get_or [] (selected_options s) i;
          opts = map (\<lambda>(sel, opt). qo_label opt) (filter fst (zip selected (cq_options q)));
          text = trim (get_or [] (other_text s) i)
      in opts @ (if get_or False (other_selected s) i \<and> text \<noteq> [] then [text] else []))"

definition format_answer :: "clarifying_question \<Rightarrow> rstr list \<Rightarrow> rstr list option" where
  "format_answer q parts =
     (if parts = [] then Some []
      else do {
        t \<leftarrow> truncate_question (cq_question q);
        Some [lit ''For \"'' @ t @ lit ''\": '' @
          (if length parts = 1 then hd parts
           else join (lit '', '') (butlast parts) @ lit '' and '' @ last parts)]
      })"

fun format_all :: "answer_state \<Rightarrow> nat \<Rightarrow> clarifying_question list \<Rightarrow> rstr list option" where
  "format_all s i [] = Some []"
| "format_all s i (q # qs) = do {
     p \<leftarrow> format_answer q (answer_parts s i q);
     ps \<leftarrow> format_all s (Suc i) qs;
     Some (p @ ps)
   }"

definition default_answer :: rstr where
  "default_answer = lit ''I'd like to proceed with your default recommendations.''"

definition format_answers_natural :: "question_block \<Rightarrow> answer_state \<Rightarrow> rstr option" where
  "format_answers_natural b s = do {
     parts \<leftarrow> format_all s 0 (qb_questions b);
     Some (if parts = [] then default_answer else join [10, 10] parts)
   }"

definition format_declined_message :: rstr where
  "format_declined_message =
     lit ''I'd prefer to skip these questions and have you proceed with your best judgment.''"

section \<open>The invariant of the dialog\<close>

text \<open>
  Rows and options match the questions, the cursor is on an item, and a single-select question has at
  most one of its options and \<^verbatim>\<open>Other\<close> selected.
\<close>

definition count_true :: "bool list \<Rightarrow> nat" where
  "count_true bs = length (filter id bs)"

definition row_ok :: "clarifying_question \<Rightarrow> bool list \<Rightarrow> bool \<Rightarrow> bool" where
  "row_ok q sel oth \<longleftrightarrow> length sel = length (cq_options q)
     \<and> (cq_multi_select q \<or> count_true sel + (if oth then 1 else 0) \<le> 1)"

definition qa_inv :: "question_block \<Rightarrow> answer_state \<Rightarrow> bool" where
  "qa_inv b s \<longleftrightarrow> length (selected_options s) = length (qb_questions b)
     \<and> length (other_selected s) = length (qb_questions b)
     \<and> length (other_text s) = length (qb_questions b)
     \<and> cursor_idx s < total_items b s
     \<and> (\<forall>i < length (qb_questions b).
          row_ok (qb_questions b ! i) (selected_options s ! i) (other_selected s ! i))"

lemma count_true_simps [simp]:
  "count_true [] = 0" "count_true (x # xs) = (if x then 1 else 0) + count_true xs"
  "count_true (clear_all bs) = 0" "count_true (replicate n False) = 0"
  by (auto simp: count_true_def clear_all_def filter_empty_conv)

lemma count_true_set_one: "c < length bs \<Longrightarrow> count_true ((clear_all bs)[c := True]) = 1"
proof (induction bs arbitrary: c)
  case (Cons x bs)
  then show ?case by (cases c) (auto simp: clear_all_def, simp_all add: clear_all_def [symmetric])
qed simp

lemma length_clear_all [simp]: "length (clear_all bs) = length bs"
  by (simp add: clear_all_def)

lemma length_modify_nth [simp]: "length (modify_nth i f xs) = length xs"
  by (simp add: modify_nth_def)

lemma nth_modify_nth:
  "j < length xs \<Longrightarrow> modify_nth i f xs ! j = (if i = j then f (xs ! j) else xs ! j)"
  by (simp add: modify_nth_def nth_list_update)

lemma qa_new_inv: "qa_inv b (qa_new b)"
  by (auto simp: qa_inv_def qa_new_def row_ok_def total_items_def vec_get_def)

lemma toggle_inv:
  assumes "qa_inv b s"
  shows "qa_inv b (toggle_current b s)"
proof (cases "current_question_idx s < length (qb_questions b)")
  case True
  let ?i = "current_question_idx s" and ?c = "cursor_idx s" and ?q = "qb_questions b ! current_question_idx s"
  have row: "row_ok ?q (selected_options s ! ?i) (other_selected s ! ?i)" using assms True by (simp add: qa_inv_def)
  show ?thesis
  proof (cases "?c < length (cq_options ?q)")
    case c: True
    have "row_ok ?q (if cq_multi_select ?q then modify_nth ?c Not (selected_options s ! ?i)
        else modify_nth ?c (\<lambda>_. True) (clear_all (selected_options s ! ?i)))
        (if cq_multi_select ?q then other_selected s ! ?i else False)"
      using row c count_true_set_one [of ?c "selected_options s ! ?i"]
      by (auto simp: row_ok_def modify_nth_def)
    then show ?thesis
      using assms True c unfolding qa_inv_def
      by (auto simp: toggle_current_def Let_def vec_get_def nth_modify_nth total_items_def)
  next
    case False
    have "row_ok ?q (if cq_multi_select ?q then selected_options s ! ?i else clear_all (selected_options s ! ?i))
        (if cq_multi_select ?q then \<not> other_selected s ! ?i else True)"
      using row by (auto simp: row_ok_def)
    then show ?thesis
      using assms True False unfolding qa_inv_def
      by (auto simp: toggle_current_def Let_def vec_get_def nth_modify_nth total_items_def)
  qed
qed (use assms in \<open>simp add: toggle_current_def vec_get_def Let_def\<close>)

interpretation qc: list_cursor "total_items b" cursor_idx q_cursor_up "q_cursor_down b" for b
proof
  fix s
  show "total_items b (q_cursor_up s) = total_items b s" "total_items b (q_cursor_down b s) = total_items b s"
    by (simp_all add: total_items_def q_cursor_up_def q_cursor_down_def)
  show "cursor_idx (q_cursor_up s) = cursor_idx s - 1" by (simp add: q_cursor_up_def)
  show "cursor_idx (q_cursor_down b s) = (if cursor_idx s + 1 < total_items b s then cursor_idx s + 1 else cursor_idx s)"
    by (simp add: q_cursor_down_def less_diff_conv)
qed

datatype qa_cmd = Toggle | CursorUp | CursorDown | NextQuestion | PrevQuestion | AppendChar rchar | BackspaceOther

fun qa_exec :: "question_block \<Rightarrow> qa_cmd \<Rightarrow> answer_state \<Rightarrow> answer_state" where
  "qa_exec b Toggle s = toggle_current b s"
| "qa_exec b CursorUp s = q_cursor_up s"
| "qa_exec b CursorDown s = q_cursor_down b s"
| "qa_exec b NextQuestion s = snd (next_question b s)"
| "qa_exec b PrevQuestion s = snd (prev_question s)"
| "qa_exec b (AppendChar c) s = append_other_char c s"
| "qa_exec b BackspaceOther s = backspace_other s"

lemma total_items_pos: "0 < total_items b s"
  by (simp add: total_items_def split: option.split)

lemma qa_exec_inv: "qa_inv b s \<Longrightarrow> qa_inv b (qa_exec b c s)"
proof (cases c)
  case Toggle
  assume "qa_inv b s"
  with Toggle show ?thesis by (simp add: toggle_inv)
next
  case CursorUp
  assume i: "qa_inv b s"
  with CursorUp qc.cursor_bound_up [of s b] show ?thesis by (simp add: qa_inv_def) (simp add: q_cursor_up_def)
next
  case CursorDown
  assume i: "qa_inv b s"
  with CursorDown qc.cursor_bound_down [of s b] show ?thesis by (simp add: qa_inv_def) (simp add: q_cursor_down_def)
next
  case NextQuestion
  assume i: "qa_inv b s"
  with NextQuestion show ?thesis
    using total_items_pos [of b "snd (next_question b s)"]
    by (auto simp: qa_inv_def next_question_def)
next
  case PrevQuestion
  assume i: "qa_inv b s"
  with PrevQuestion show ?thesis
    using total_items_pos [of b "snd (prev_question s)"]
    by (auto simp: qa_inv_def prev_question_def)
qed (auto simp: qa_inv_def append_other_char_def backspace_other_def total_items_def)

interpretation qa: invariant_machine "qa_exec b" "qa_inv b" for b
  by unfold_locales (rule qa_exec_inv)

section \<open>Properties\<close>

text \<open>
  Choices. After any commands the cursor is on an item of the current question, and every
  single-select question has at most one of its options and \<^verbatim>\<open>Other\<close> selected.
\<close>

theorem single_select_exclusive:
  assumes "s = fold (qa_exec b) cs (qa_new b)" and "i < length (qb_questions b)"
    and "\<not> cq_multi_select (qb_questions b ! i)"
  shows "count_true (selected_options s ! i) + (if other_selected s ! i then 1 else 0) \<le> 1
    \<and> length (selected_options s ! i) = length (cq_options (qb_questions b ! i))
    \<and> cursor_idx s < total_items b s"
  using qa.run_inv [OF qa_new_inv, of b cs] assms by (auto simp: qa_inv_def row_ok_def)

definition demo_block :: question_block where
  "demo_block = \<lparr>qb_analysis = None, qb_questions = [\<lparr>cq_id = [], cq_question = lit ''Which?'',
     cq_header = lit ''Pick'', cq_options = [\<lparr>qo_id = [], qo_label = lit ''A'', qo_description = None\<rparr>,
       \<lparr>qo_id = [], qo_label = lit ''B'', qo_description = None\<rparr>], cq_multi_select = False,
     cq_ambiguity_type = None\<rparr>]\<rparr>"

theorem single_select_exclusive_witness:
  "count_true (selected_options (fold (qa_exec demo_block) [Toggle, CursorDown, Toggle] (qa_new demo_block)) ! 0) \<le> 1"
  using single_select_exclusive [OF refl, of 0 demo_block "[Toggle, CursorDown, Toggle]"]
  by (simp add: demo_block_def)

lemma find_cut_at:
  assumes "q \<noteq> []" and "\<not> str_contains (a @ butlast q) q"
  shows "find_cut q (a @ q @ b) = Some (a, b)"
  using assms(2)
proof (induction a)
  case Nil
  obtain x xs where q: "q = x # xs" using assms(1) by (cases q) auto
  then have "find_cut q (x # xs @ b) = Some ([], drop (length q) (q @ b))"
    by (simp add: prefix_def)
  then show ?case by (simp add: q)
next
  case (Cons x a)
  have "\<not> prefix q (x # a @ q @ b)"
  proof
    assume p: "prefix q (x # a @ q @ b)"
    have split: "x # a @ q @ b = (x # a @ butlast q) @ (last q # b)"
      using assms(1) by (metis append.assoc append_Cons append_butlast_last_id append_Nil)
    have "length q \<le> length (x # a @ butlast q)" using assms(1) by simp
    with p split have "prefix q (x # a @ butlast q)" by (metis prefix_length_prefix prefixI)
    then obtain z where "(x # a) @ butlast q = [] @ q @ z" by (auto simp: prefix_def)
    with Cons.prems show False unfolding str_contains_iff by blast
  qed
  moreover have "\<not> str_contains (a @ butlast q) q"
    using Cons.prems unfolding str_contains_iff by (metis append_Cons)
  ultimately show ?case using Cons.IH by simp
qed

text \<open>
  The block is found and removed. When the first opening tag is followed by a body without a
  closing tag, the closing tag and more text, and the trimmed body decodes to a valid block, the
  response is that block and the text around it.
\<close>

theorem parse_response_block:
  assumes "\<not> str_contains (a @ butlast open_tag) open_tag"
    and "\<not> str_contains (body @ butlast close_tag) close_tag"
    and "decode (trim body) = Some blk" and "validate_question_block blk"
  shows "parse_response decode (a @ open_tag @ body @ close_tag @ c)
      = \<lparr>pr_content = trim (a @ c), pr_questions = Some blk\<rparr>
    \<and> 1 \<le> length (qb_questions blk) \<and> length (qb_questions blk) \<le> 4
    \<and> (\<forall>q \<in> set (qb_questions blk). 2 \<le> length (cq_options q) \<and> length (cq_options q) \<le> 4
        \<and> blen (cq_header q) \<le> 12)"
proof -
  have "open_tag \<noteq> []" "close_tag \<noteq> []" by (simp_all add: open_tag_def close_tag_def lit_def)
  then have "find_block (a @ open_tag @ body @ close_tag @ c) = Some (a, trim body, c)"
    using find_cut_at [OF _ assms(1)] find_cut_at [OF _ assms(2)] by (simp add: find_block_def)
  moreover have "1 \<le> length (qb_questions blk)" "length (qb_questions blk) \<le> 4"
    using assms(4) by (auto simp: validate_question_block_def Suc_le_eq)
  moreover have "\<forall>q \<in> set (qb_questions blk). 2 \<le> length (cq_options q) \<and> length (cq_options q) \<le> 4
        \<and> blen (cq_header q) \<le> 12"
    using assms(4) by (auto simp: validate_question_block_def valid_question_def list_all_iff)
  ultimately show ?thesis using assms(3,4) by (simp add: parse_response_def)
qed

theorem parse_response_block_witness:
  "parse_response (\<lambda>_. Some demo_block) (open_tag @ [123, 125] @ close_tag)
     = \<lparr>pr_content = [], pr_questions = Some demo_block\<rparr>"
proof -
  have "\<not> str_contains (butlast open_tag) open_tag" "\<not> str_contains ([123, 125] @ butlast close_tag) close_tag"
    by (simp_all add: str_contains_def open_tag_def close_tag_def lit_def)
  moreover have "validate_question_block demo_block"
    by (simp add: validate_question_block_def demo_block_def valid_question_def valid_option_def
        split_ws_def lit_def is_ws_def utf8_len_def)
  ultimately show ?thesis
    using parse_response_block [of "[]" "[123, 125]" "\<lambda>_. Some demo_block" demo_block "[]"]
    by (simp add: trim_def)
qed

lemma filter_zip_one:
  "length bs = length xs \<Longrightarrow> c < length xs \<Longrightarrow>
    filter fst (zip ((clear_all bs)[c := True]) xs) = [(True, xs ! c)]"
proof (induction bs xs arbitrary: c rule: list_induct2)
  case (Cons b bs x xs)
  have "filter fst (zip (clear_all bs) xs) = []" for bs :: "bool list" and xs :: "'b list"
    by (auto simp: filter_empty_conv clear_all_def dest: set_zip_leftD)
  with Cons show ?case by (cases c) (auto simp: clear_all_def)
qed simp

text \<open>
  The answer text. Choosing an option of a single-select question makes its label the whole answer
  to it, whatever was selected before.
\<close>

theorem single_select_answer:
  assumes "qa_inv b s" and "current_question_idx s < length (qb_questions b)"
    and "q = qb_questions b ! current_question_idx s" and "\<not> cq_multi_select q"
    and "cursor_idx s < length (cq_options q)"
  shows "answer_parts (toggle_current b s) (current_question_idx s) q
      = [qo_label (cq_options q ! cursor_idx s)]
    \<and> question_answered (toggle_current b s) (current_question_idx s)"
proof -
  let ?i = "current_question_idx s"
  have len: "?i < length (selected_options s)" "?i < length (other_selected s)"
    "length (selected_options s ! ?i) = length (cq_options q)"
    using assms(1-3) by (auto simp: qa_inv_def row_ok_def)
  have t: "toggle_current b s = s\<lparr>selected_options := (selected_options s)[?i := (clear_all (selected_options s ! ?i))[cursor_idx s := True]],
      other_selected := (other_selected s)[?i := False]\<rparr>"
    using assms(2-5) len by (simp add: toggle_current_def vec_get_def modify_nth_def Let_def)
  have "True \<in> set ((clear_all (selected_options s ! ?i))[cursor_idx s := True])"
    using assms(5) len(3) by (simp add: set_update_memI)
  then show ?thesis
    using filter_zip_one [OF len(3), of "cursor_idx s"] assms(5) len
    by (simp add: t answer_parts_def question_answered_def get_or_def vec_get_def Let_def)
qed

theorem single_select_answer_witness:
  "answer_parts (toggle_current demo_block (qa_new demo_block)) 0 (qb_questions demo_block ! 0) = [lit ''A'']"
  using single_select_answer [OF qa_new_inv, of demo_block "qb_questions demo_block ! 0"]
  by (simp add: demo_block_def qa_new_def)

text \<open>
  A question whose text is longer than 50 bytes and has a two-byte character across byte 47 panics when
  the answers are formatted.
\<close>

lemma truncate_question_total: "ascii q \<Longrightarrow> \<exists>t. truncate_question q = Some t \<and> prefix t q"
  by (auto simp: truncate_question_def ascii_split_byte ascii_blen take_is_prefix)

lemma truncate_question_panics: "truncate_question (replicate 46 97 @ [233] @ replicate 10 97) = None"
proof -
  have b: "blen (replicate n 97) = n" for n by (induction n) auto
  have "split_byte (Suc (blen a)) (a @ 233 # s) = None" for a s
    by (induction a) (auto simp: utf8_len_def)
  from this [of "replicate 46 97" "replicate 10 97"]
  have "split_byte 47 (replicate 46 97 @ [233] @ replicate 10 97) = None" by (simp add: b)
  then show ?thesis by (simp add: truncate_question_def b utf8_len_def)
qed

end
