(* ===== verification/Process.thy ===== *)
theory Process
  imports Prelude
begin

text \<open>
  Child processes and fallible computations over a world: what the components that start commands
  share. A computation takes the world and yields an error or a value, and the world it leaves.
\<close>

record cmd_output =
  co_success :: bool
  co_stdout :: rstr
  co_stderr :: rstr

text \<open>The \<^verbatim>\<open>?\<close> operator over the world.\<close>

definition io_then :: "('w \<Rightarrow> ('e + 'a) \<times> 'w) \<Rightarrow> ('a \<Rightarrow> 'w \<Rightarrow> ('e + 'b) \<times> 'w) \<Rightarrow> 'w \<Rightarrow> ('e + 'b) \<times> 'w" where
  "io_then m k w = (case m w of (Inl e, w1) \<Rightarrow> (Inl e, w1) | (Inr x, w1) \<Rightarrow> k x w1)"

definition io_fail :: "'e \<Rightarrow> 'w \<Rightarrow> ('e + 'a) \<times> 'w" where
  "io_fail e w = (Inl e, w)"

definition io_ret :: "'a \<Rightarrow> 'w \<Rightarrow> ('e + 'a) \<times> 'w" where
  "io_ret x w = (Inr x, w)"

lemma io_ret_then [simp]: "io_then (io_ret x) k = k x"
  by (simp add: io_then_def io_ret_def fun_eq_iff)

lemma io_then_assoc: "io_then (io_then m k) h = io_then m (\<lambda>x. io_then (k x) h)"
  by (auto simp: io_then_def fun_eq_iff split: prod.splits sum.splits)

lemma io_then_InrE:
  assumes "io_then m k w = (Inr y, w2)"
  obtains x w1 where "m w = (Inr x, w1)" and "k x w1 = (Inr y, w2)"
  using assms by (auto simp: io_then_def split: prod.splits sum.splits)

lemma io_then_Inr_iff:
  "io_then m k w = (Inr y, w2) \<longleftrightarrow> (\<exists>x w1. m w = (Inr x, w1) \<and> k x w1 = (Inr y, w2))"
  by (auto simp: io_then_def split: prod.splits sum.splits)

lemma io_ret_iff [simp]: "io_ret x w = (Inr y, w1) \<longleftrightarrow> x = y \<and> w = w1"
  by (simp add: io_ret_def)

lemma io_fail_iff [simp]: "io_fail e w \<noteq> (Inr y, w1)"
  by (simp add: io_fail_def)

end
