(* ===== verification/SelfImprove.thy ===== *)
theory SelfImprove
  imports Process
begin

text \<open>
  The self-improvement loop, \<^verbatim>\<open>apps/cli/src/self_improve/\<close>: configuration, safety guard, metrics, the
  comparison of the two execution paths, task generation and the controller. What lies outside the
  process (the working directory, the commands it starts, the model provider, the agents, the clock,
  the file system) is the record \<open>si_env\<close> of functions over an explicit world. A \<^verbatim>\<open>u32\<close> is a
  \<open>32 word\<close>. Floating point is a parameter: the type \<open>'f\<close>, its comparison, addition and formatting.
  A duration is a number of nanoseconds.
\<close>

section \<open>Configuration and tasks\<close>

record 'f si_config =
  max_cycles :: "32 word"
  max_budget :: 'f
  dry_run :: bool
  strategies :: "rstr list"
  agent_iterations :: "32 word"
  max_diff_per_task :: "32 word"
  max_total_diff :: "32 word"
  create_prs :: bool
  branch_prefix :: rstr
  no_bridge :: bool
  no_direct :: bool
  si_model :: "rstr option"
  si_provider :: "rstr option"
  circuit_breaker_threshold :: "32 word"

definition si_config_default :: "'f \<Rightarrow> 'f si_config" where
  "si_config_default ten =
     \<lparr>max_cycles = 10, max_budget = ten, dry_run = False, strategies = [], agent_iterations = 25,
      max_diff_per_task = 200, max_total_diff = 1000, create_prs = False,
      branch_prefix = lit ''self-improve/'', no_bridge = False, no_direct = False,
      si_model = None, si_provider = None, circuit_breaker_threshold = 3\<rparr>"

definition is_strategy_enabled :: "'f si_config \<Rightarrow> rstr \<Rightarrow> bool" where
  "is_strategy_enabled c name \<longleftrightarrow> strategies c = [] \<or> (\<exists>s \<in> set (strategies c). s = name)"

datatype improvement_category = Linting | Testing | Documentation | Refactoring | DeadCode | EvalDriven

fun show_category :: "improvement_category \<Rightarrow> rstr" where
  "show_category Linting = lit ''linting''"
| "show_category Testing = lit ''testing''"
| "show_category Documentation = lit ''documentation''"
| "show_category Refactoring = lit ''refactoring''"
| "show_category DeadCode = lit ''dead_code''"
| "show_category EvalDriven = lit ''eval_driven''"

record improvement_task =
  it_id :: rstr
  it_strategy :: rstr
  it_category :: improvement_category
  it_description :: rstr
  it_target_files :: "rstr list"
  it_priority :: "8 word"
  it_estimated_diff_lines :: "32 word"
  it_context :: rstr

section \<open>Safety guard\<close>

datatype 'f safety_stop =
    BudgetExceeded 'f
  | CycleLimitReached "32 word"
  | CircuitBreakerTripped "32 word"
  | DiffLimitExceeded "32 word"

fun show_stop :: "('f \<Rightarrow> rstr) \<Rightarrow> 'f safety_stop \<Rightarrow> rstr" where
  "show_stop fmt2 (BudgetExceeded cost) = lit ''Budget exceeded: $'' @ fmt2 cost"
| "show_stop fmt2 (CycleLimitReached n) = lit ''Cycle limit reached: '' @ show_nat (unat n)"
| "show_stop fmt2 (CircuitBreakerTripped n) =
     lit ''Circuit breaker tripped after '' @ show_nat (unat n) @ lit '' consecutive failures''"
| "show_stop fmt2 (DiffLimitExceeded n) =
     lit ''Total diff limit exceeded: '' @ show_nat (unat n) @ lit '' lines''"

record 'f safety_guard =
  sg_config :: "'f si_config"
  consecutive_failures :: "32 word"
  sg_total_cost :: 'f
  total_diff_lines :: "32 word"
  cycles_completed :: "32 word"

definition sg_new :: "'f \<Rightarrow> 'f si_config \<Rightarrow> 'f safety_guard" where
  "sg_new zero c = \<lparr>sg_config = c, consecutive_failures = 0, sg_total_cost = zero,
                    total_diff_lines = 0, cycles_completed = 0\<rparr>"

definition check_can_continue :: "('f \<Rightarrow> 'f \<Rightarrow> bool) \<Rightarrow> 'f safety_guard \<Rightarrow> 'f safety_stop + unit" where
  "check_can_continue ge g =
     (if ge (sg_total_cost g) (max_budget (sg_config g)) then Inl (BudgetExceeded (sg_total_cost g))
      else if max_cycles (sg_config g) \<le> cycles_completed g
      then Inl (CycleLimitReached (cycles_completed g))
      else if circuit_breaker_threshold (sg_config g) \<le> consecutive_failures g
      then Inl (CircuitBreakerTripped (consecutive_failures g))
      else if max_total_diff (sg_config g) \<le> total_diff_lines g
      then Inl (DiffLimitExceeded (total_diff_lines g))
      else Inr ())"

definition sg_record_success :: "32 word \<Rightarrow> 'f safety_guard \<Rightarrow> 'f safety_guard" where
  "sg_record_success n g =
     g\<lparr>consecutive_failures := 0, total_diff_lines := total_diff_lines g + n,
       cycles_completed := cycles_completed g + 1\<rparr>"

definition sg_record_failure :: "'f safety_guard \<Rightarrow> 'f safety_guard" where
  "sg_record_failure g =
     g\<lparr>consecutive_failures := consecutive_failures g + 1, cycles_completed := cycles_completed g + 1\<rparr>"

definition sg_record_cost :: "('f \<Rightarrow> 'f \<Rightarrow> 'f) \<Rightarrow> 'f \<Rightarrow> 'f safety_guard \<Rightarrow> 'f safety_guard" where
  "sg_record_cost add cost g = g\<lparr>sg_total_cost := add (sg_total_cost g) cost\<rparr>"

section \<open>Results of the two paths\<close>

record path_result =
  pr_success :: bool
  pr_iterations :: "32 word"
  pr_diff :: rstr
  pr_diff_lines :: "32 word"
  pr_duration :: nat
  pr_error :: "rstr option"

definition pr_failure :: "rstr \<Rightarrow> nat \<Rightarrow> path_result" where
  "pr_failure err d = \<lparr>pr_success = False, pr_iterations = 0, pr_diff = [], pr_diff_lines = 0,
                       pr_duration = d, pr_error = Some err\<rparr>"

record comparison_result =
  both_succeeded :: bool
  both_failed :: bool
  diffs_match :: bool
  iteration_delta :: "32 word"
  bridge_specific_errors :: "rstr list"

text \<open>
  \<^verbatim>\<open>split_whitespace().collect()\<close> concatenates the words; the delta is a difference of \<^verbatim>\<open>i32\<close>, read
  with \<open>sint\<close>.
\<close>

definition compare_paths :: "path_result \<Rightarrow> path_result \<Rightarrow> comparison_result" where
  "compare_paths d b =
     (let both = pr_success d \<and> pr_success b in
      \<lparr>both_succeeded = both,
       both_failed = (\<not> pr_success d \<and> \<not> pr_success b),
       diffs_match = (if both then concat (split_ws (pr_diff d)) = concat (split_ws (pr_diff b)) else False),
       iteration_delta = pr_iterations b - pr_iterations d,
       bridge_specific_errors =
         (if \<not> pr_success b \<and> pr_success d
          then (case pr_error b of
                  Some err \<Rightarrow> [lit ''Bridge failed while direct succeeded: '' @ err]
                | None \<Rightarrow> [])
          else [])\<rparr>)"

section \<open>Metrics\<close>

record strategy_metrics =
  st_generated :: "32 word"
  st_attempted :: "32 word"
  st_succeeded :: "32 word"

definition strategy_metrics_default :: strategy_metrics where
  "strategy_metrics_default = \<lparr>st_generated = 0, st_attempted = 0, st_succeeded = 0\<rparr>"

record 'f session_metrics =
  start_time :: nat
  tasks_attempted :: "32 word"
  tasks_succeeded :: "32 word"
  tasks_failed :: "32 word"
  per_strategy :: "rstr \<rightharpoonup> strategy_metrics"
  comparisons :: "comparison_result list"
  sm_total_cost :: 'f
  total_iterations :: "32 word"
  commits :: "rstr list"

definition sm_new :: "nat \<Rightarrow> 'f \<Rightarrow> 'f session_metrics" where
  "sm_new now zero = \<lparr>start_time = now, tasks_attempted = 0, tasks_succeeded = 0, tasks_failed = 0,
                      per_strategy = Map.empty, comparisons = [], sm_total_cost = zero,
                      total_iterations = 0, commits = []\<rparr>"

text \<open>\<^verbatim>\<open>per_strategy.entry(s).or_default()\<close>, updated in place.\<close>

definition with_entry :: "rstr \<Rightarrow> (strategy_metrics \<Rightarrow> strategy_metrics) \<Rightarrow>
    'f session_metrics \<Rightarrow> 'f session_metrics" where
  "with_entry s f m =
     m\<lparr>per_strategy := (per_strategy m)
         (s \<mapsto> f (case per_strategy m s of Some x \<Rightarrow> x | None \<Rightarrow> strategy_metrics_default))\<rparr>"

definition sm_record_attempt :: "rstr \<Rightarrow> 'f session_metrics \<Rightarrow> 'f session_metrics" where
  "sm_record_attempt s m =
     with_entry s (\<lambda>x. x\<lparr>st_attempted := st_attempted x + 1\<rparr>) (m\<lparr>tasks_attempted := tasks_attempted m + 1\<rparr>)"

definition sm_record_success :: "rstr \<Rightarrow> 32 word \<Rightarrow> 'f session_metrics \<Rightarrow> 'f session_metrics" where
  "sm_record_success s n m =
     with_entry s (\<lambda>x. x\<lparr>st_succeeded := st_succeeded x + 1\<rparr>)
       (m\<lparr>tasks_succeeded := tasks_succeeded m + 1, total_iterations := total_iterations m + n\<rparr>)"

definition sm_record_failure :: "rstr \<Rightarrow> 'f session_metrics \<Rightarrow> 'f session_metrics" where
  "sm_record_failure s m =
     with_entry s (\<lambda>x. x\<lparr>st_attempted := st_attempted x + 1\<rparr>) (m\<lparr>tasks_failed := tasks_failed m + 1\<rparr>)"

definition sm_record_generated :: "rstr \<Rightarrow> 32 word \<Rightarrow> 'f session_metrics \<Rightarrow> 'f session_metrics" where
  "sm_record_generated s n = with_entry s (\<lambda>x. x\<lparr>st_generated := st_generated x + n\<rparr>)"

definition sm_record_comparison :: "comparison_result \<Rightarrow> 'f session_metrics \<Rightarrow> 'f session_metrics" where
  "sm_record_comparison c m = m\<lparr>comparisons := comparisons m @ [c]\<rparr>"

definition sm_record_commit :: "rstr \<Rightarrow> 'f session_metrics \<Rightarrow> 'f session_metrics" where
  "sm_record_commit h m = m\<lparr>commits := commits m @ [h]\<rparr>"

definition success_rate :: "'f \<Rightarrow> (32 word \<Rightarrow> 32 word \<Rightarrow> 'f) \<Rightarrow> 'f session_metrics \<Rightarrow> 'f" where
  "success_rate zero quot m =
     (if tasks_attempted m = 0 then zero else quot (tasks_succeeded m) (tasks_attempted m))"

section \<open>Session report\<close>

record 'f session_report =
  sr_metrics :: "'f session_metrics"
  sr_duration :: nat
  safety_stop_reason :: "rstr option"

definition sr_new :: "('f \<Rightarrow> rstr) \<Rightarrow> 'f session_metrics \<Rightarrow> nat \<Rightarrow> 'f safety_stop option \<Rightarrow> 'f session_report" where
  "sr_new fmt2 m d stop = \<lparr>sr_metrics = m, sr_duration = d, safety_stop_reason = map_option (show_stop fmt2) stop\<rparr>"

text \<open>
  What the report takes from libraries: the formats of dates, durations and floats, the quotient and
  the zero of \<^verbatim>\<open>f64\<close>, and the order in which a hash map is iterated.
\<close>

record 'f si_fmt =
  fmt_date :: "nat \<Rightarrow> rstr"
  fmt_stamp :: "nat \<Rightarrow> rstr"
  fmt_secs :: "nat \<Rightarrow> rstr"
  fmt_percent :: "'f \<Rightarrow> rstr"
  fmt_cost2 :: "'f \<Rightarrow> rstr"
  fmt_cost4 :: "'f \<Rightarrow> rstr"
  f_quot :: "32 word \<Rightarrow> 32 word \<Rightarrow> 'f"
  f_zero :: 'f
  map_order :: "(rstr \<rightharpoonup> strategy_metrics) \<Rightarrow> (rstr \<times> strategy_metrics) list"

definition nl :: rstr where
  "nl = [10]"

definition show_u32 :: "32 word \<Rightarrow> rstr" where
  "show_u32 n = show_nat (unat n)"

definition md_row :: "string \<Rightarrow> rstr \<Rightarrow> rstr" where
  "md_row name v = lit ''| '' @ lit name @ lit '' | '' @ v @ lit '' |'' @ nl"

definition to_markdown :: "'f si_fmt \<Rightarrow> 'f session_report \<Rightarrow> rstr" where
  "to_markdown F r =
     (let m = sr_metrics r; cs = comparisons m;
          both_ok = List.length (filter both_succeeded cs);
          matched = List.length (filter diffs_match cs) in
      lit ''# Self-Improvement Session Report'' @ nl @ nl @
      lit ''**Date**: '' @ fmt_date F (start_time m) @ nl @
      lit ''**Duration**: '' @ fmt_secs F (sr_duration r) @ lit ''s'' @ nl @
      lit ''**Success Rate**: '' @ fmt_percent F (success_rate (f_zero F) (f_quot F) m) @ lit ''%'' @ nl @ nl @
      lit ''## Summary'' @ nl @ nl @
      lit ''| Metric | Value |'' @ nl @ lit ''|--------|-------|'' @ nl @
      md_row ''Tasks Attempted'' (show_u32 (tasks_attempted m)) @
      md_row ''Tasks Succeeded'' (show_u32 (tasks_succeeded m)) @
      md_row ''Tasks Failed'' (show_u32 (tasks_failed m)) @
      md_row ''Total Iterations'' (show_u32 (total_iterations m)) @
      md_row ''Estimated Cost'' (lit ''$'' @ fmt_cost4 F (sm_total_cost m)) @
      md_row ''Commits'' (show_nat (List.length (commits m))) @
      (if map_order F (per_strategy m) \<noteq> [] then
         nl @ lit ''## Per-Strategy Breakdown'' @ nl @ nl @
         lit ''| Strategy | Generated | Attempted | Succeeded |'' @ nl @
         lit ''|----------|-----------|-----------|----------|'' @ nl @
         concat (map (\<lambda>(name, x). lit ''| '' @ name @ lit '' | '' @ show_u32 (st_generated x) @ lit '' | '' @
                        show_u32 (st_attempted x) @ lit '' | '' @ show_u32 (st_succeeded x) @ lit '' |'' @ nl)
                   (map_order F (per_strategy m)))
       else []) @
      (if cs \<noteq> [] then
         nl @ lit ''## Dual-Path Comparisons'' @ nl @ nl @
         lit ''- Both paths succeeded: '' @ show_nat both_ok @ lit ''/'' @ show_nat (List.length cs) @ nl @
         lit ''- Diffs matched: '' @ show_nat matched @ lit ''/'' @ show_nat both_ok @ nl
       else []) @
      (case safety_stop_reason r of
         Some reason \<Rightarrow> nl @ lit ''## Stop Reason'' @ nl @ nl @ reason @ nl
       | None \<Rightarrow> []) @
      (if commits m \<noteq> [] then
         nl @ lit ''## Commits'' @ nl @ nl @ concat (map (\<lambda>h. lit ''- `'' @ h @ lit ''`'' @ nl) (commits m))
       else []))"

section \<open>Environment\<close>

record agent_outcome =
  ao_success :: bool
  ao_iterations :: "32 word"
  ao_summary :: rstr

text \<open>
  The world outside: \<open>env_cmd program args directory\<close> runs a child process and returns its exit and
  its decoded output, \<open>env_agent\<close> runs a task agent (identifier, description, directory, iterations)
  on a provider, the bridge operations talk to the agent network. Each may fail with a message.
\<close>

record ('p, 'w) si_env =
  env_cwd :: "'w \<Rightarrow> rstr + rstr"
  env_now :: "'w \<Rightarrow> nat"
  env_cmd :: "rstr \<Rightarrow> rstr list \<Rightarrow> rstr \<Rightarrow> 'w \<Rightarrow> (rstr + cmd_output) \<times> 'w"
  env_provider :: "rstr \<Rightarrow> 'w \<Rightarrow> (rstr + 'p) \<times> 'w"
  env_agent :: "'p \<Rightarrow> rstr \<Rightarrow> rstr \<Rightarrow> rstr \<Rightarrow> 32 word \<Rightarrow> 'w \<Rightarrow> (rstr + agent_outcome) \<times> 'w"
  env_connect :: "rstr \<Rightarrow> 'w \<Rightarrow> (rstr + unit) \<times> 'w"
  env_initialize :: "'w \<Rightarrow> (rstr + unit) \<times> 'w"
  env_spawn :: "rstr \<Rightarrow> rstr \<Rightarrow> 32 word \<Rightarrow> 'w \<Rightarrow> (rstr + rstr) \<times> 'w"
  env_await :: "rstr \<Rightarrow> nat \<Rightarrow> 'w \<Rightarrow> (rstr + agent_outcome) \<times> 'w"
  env_shutdown :: "'w \<Rightarrow> 'w"
  env_mkdir :: "rstr \<Rightarrow> 'w \<Rightarrow> (rstr + unit) \<times> 'w"
  env_write :: "rstr \<Rightarrow> rstr \<Rightarrow> 'w \<Rightarrow> (rstr + unit) \<times> 'w"

definition sr_save :: "'f si_fmt \<Rightarrow> ('f session_report \<Rightarrow> rstr + rstr) \<Rightarrow> ('p, 'w) si_env \<Rightarrow>
    rstr \<Rightarrow> 'f session_report \<Rightarrow> 'w \<Rightarrow> (rstr + unit) \<times> 'w" where
  "sr_save F to_json E dir r =
     io_then (env_mkdir E dir) (\<lambda>_.
       let base = dir @ lit ''/session-'' @ fmt_stamp F (start_time (sr_metrics r)) in
       io_then (\<lambda>w. (to_json r, w)) (\<lambda>json.
       io_then (env_write E (base @ lit ''.json'') json) (\<lambda>_.
       env_write E (base @ lit ''.md'') (to_markdown F r))))"

section \<open>Task generation\<close>

record 'w strategy =
  sy_name :: rstr
  sy_generate :: "rstr \<Rightarrow> nat \<Rightarrow> 'w \<Rightarrow> (rstr + improvement_task list) \<times> 'w"

definition from_config :: "'w strategy list \<Rightarrow> 'f si_config \<Rightarrow> 'w strategy list" where
  "from_config all c =
     (if strategies c = [] then all else filter (\<lambda>s. is_strategy_enabled c (sy_name s)) all)"

fun gen_loop :: "'f si_config \<Rightarrow> rstr \<Rightarrow> 'w strategy list \<Rightarrow> improvement_task list \<Rightarrow> 'w \<Rightarrow>
    improvement_task list \<times> 'w" where
  "gen_loop c repo [] acc w = (acc, w)"
| "gen_loop c repo (s # ss) acc w =
     (if \<not> is_strategy_enabled c (sy_name s) then gen_loop c repo ss acc w
      else case sy_generate s repo 5 w of
             (Inr tasks, w1) \<Rightarrow> gen_loop c repo ss (acc @ tasks) w1
           | (Inl e, w1) \<Rightarrow> gen_loop c repo ss acc w1)"

definition generate_all :: "('p, 'w) si_env \<Rightarrow> 'f si_config \<Rightarrow> 'w strategy list \<Rightarrow> 'w \<Rightarrow>
    (rstr + improvement_task list) \<times> 'w" where
  "generate_all E c ss w =
     (case env_cwd E w of
        Inl e \<Rightarrow> (Inl e, w)
      | Inr repo \<Rightarrow> (case gen_loop c repo ss [] w of
                       (tasks, w1) \<Rightarrow> (Inr (sort_key (\<lambda>t. - uint (it_priority t)) tasks), w1)))"

section \<open>The controller\<close>

record cycle_result =
  cr_task :: improvement_task
  cr_direct :: "path_result option"
  cr_bridge :: "path_result option"
  cr_comparison :: "comparison_result option"
  cr_committed :: bool
  cr_commit_hash :: "rstr option"

record ('f, 'w) controller =
  ct_config :: "'f si_config"
  ct_generator :: "'w strategy list"
  ct_metrics :: "'f session_metrics"
  ct_safety :: "'f safety_guard"

definition ct_new :: "nat \<Rightarrow> 'f \<Rightarrow> 'w strategy list \<Rightarrow> 'f si_config \<Rightarrow> ('f, 'w) controller" where
  "ct_new now zero all c =
     \<lparr>ct_config = c, ct_generator = from_config all c, ct_metrics = sm_new now zero, ct_safety = sg_new zero c\<rparr>"

definition new_with_strategies :: "nat \<Rightarrow> 'f \<Rightarrow> 'f si_config \<Rightarrow> 'w strategy list \<Rightarrow> ('f, 'w) controller" where
  "new_with_strategies now zero c ss =
     \<lparr>ct_config = c, ct_generator = ss, ct_metrics = sm_new now zero, ct_safety = sg_new zero c\<rparr>"

definition get_git_diff :: "('p, 'w) si_env \<Rightarrow> rstr \<Rightarrow> 'w \<Rightarrow> (rstr + rstr) \<times> 'w" where
  "get_git_diff E path =
     io_then (env_cmd E (lit ''git'') [lit ''diff'', lit ''--stat''] path) (\<lambda>out. io_ret (co_stdout out))"

text \<open>\<^verbatim>\<open>get_git_diff(path).await.unwrap_or_default()\<close>.\<close>

definition diff_or_empty :: "('p, 'w) si_env \<Rightarrow> rstr \<Rightarrow> 'w \<Rightarrow> rstr \<times> 'w" where
  "diff_or_empty E path w =
     (case get_git_diff E path w of (Inr d, w1) \<Rightarrow> (d, w1) | (Inl e, w1) \<Rightarrow> ([], w1))"

definition count_lines :: "rstr \<Rightarrow> 32 word" where
  "count_lines d = word_of_nat (List.length (str_lines d))"

definition full_description :: "improvement_task \<Rightarrow> rstr" where
  "full_description t =
     it_description t @ nl @ nl @ lit ''Context:'' @ nl @ it_context t @ nl @ nl @
     lit ''Target files: '' @ join (lit '', '') (it_target_files t)"

definition outcome_result :: "agent_outcome \<Rightarrow> rstr \<Rightarrow> nat \<Rightarrow> path_result" where
  "outcome_result r diff d =
     \<lparr>pr_success = ao_success r, pr_iterations = ao_iterations r, pr_diff = diff,
      pr_diff_lines = count_lines diff, pr_duration = d,
      pr_error = (if ao_success r then None else Some (ao_summary r))\<rparr>"

definition execute_direct_path :: "'f si_config \<Rightarrow> ('p, 'w) si_env \<Rightarrow> improvement_task \<Rightarrow> rstr \<Rightarrow> 'w \<Rightarrow>
    (rstr + path_result) \<times> 'w" where
  "execute_direct_path c E t path w0 =
     io_then (env_provider E (case si_model c of Some m \<Rightarrow> m | None \<Rightarrow> lit ''default''))
       (\<lambda>p w1.
          case env_agent E p (lit ''self-improve-'' @ it_id t) (full_description t) path (agent_iterations c) w1 of
            (Inr r, w2) \<Rightarrow>
              (case diff_or_empty E path w2 of
                 (diff, w3) \<Rightarrow> (Inr (outcome_result r diff (env_now E w2 - env_now E w0)), w3))
          | (Inl e, w2) \<Rightarrow> (Inr (pr_failure e (env_now E w2 - env_now E w0)), w2)) w0"

text \<open>Every failure of the bridge is a failed result, not an error; the client is shut down after a spawn.\<close>

definition execute_bridge_path :: "'f si_config \<Rightarrow> ('p, 'w) si_env \<Rightarrow> improvement_task \<Rightarrow> rstr \<Rightarrow> 'w \<Rightarrow>
    (rstr + path_result) \<times> 'w" where
  "execute_bridge_path c E t path w0 =
     (case env_connect E (lit ''rullama'') w0 of
        (Inl e, w1) \<Rightarrow> (Inr (pr_failure (lit ''Bridge connect failed: '' @ e) (env_now E w1 - env_now E w0)), w1)
      | (Inr _, w1) \<Rightarrow>
     (case env_initialize E w1 of
        (Inl e, w2) \<Rightarrow> (Inr (pr_failure (lit ''Bridge initialize failed: '' @ e) (env_now E w2 - env_now E w0)), w2)
      | (Inr _, w2) \<Rightarrow>
     (case env_spawn E (full_description t) path (agent_iterations c) w2 of
        (Inl e, w3) \<Rightarrow>
          (let w4 = env_shutdown E w3 in
           (Inr (pr_failure (lit ''Bridge spawn failed: '' @ e) (env_now E w4 - env_now E w0)), w4))
      | (Inr agent, w3) \<Rightarrow>
     (case env_await E agent 300 w3 of
        (Inl e, w4) \<Rightarrow>
          (let w5 = env_shutdown E w4 in
           (Inr (pr_failure (lit ''Bridge await failed: '' @ e) (env_now E w5 - env_now E w0)), w5))
      | (Inr r, w4) \<Rightarrow>
          (case diff_or_empty E path (env_shutdown E w4) of
             (diff, w6) \<Rightarrow> (Inr (outcome_result r diff (env_now E w6 - env_now E w0)), w6))))))"

definition validate_changes :: "('p, 'w) si_env \<Rightarrow> rstr \<Rightarrow> 'w \<Rightarrow> (rstr + unit) \<times> 'w" where
  "validate_changes E path =
     io_then (env_cmd E (lit ''cargo'') [lit ''check''] path) (\<lambda>check.
       if \<not> co_success check then io_fail (lit ''cargo check failed: '' @ co_stderr check)
       else
     io_then (env_cmd E (lit ''cargo'') [lit ''test'', lit ''--'', lit ''--no-capture''] path) (\<lambda>test.
       if \<not> co_success test then io_fail (lit ''cargo test failed: '' @ co_stderr test)
       else io_ret ()))"

definition commit_message :: "improvement_task \<Rightarrow> rstr" where
  "commit_message t =
     lit ''self-improve('' @ it_strategy t @ lit ''): '' @ take 72 (it_description t) @ nl @ nl @
     lit ''Strategy: '' @ it_strategy t @ nl @ lit ''Category: '' @ show_category (it_category t) @ nl @
     lit ''Target files: '' @ join (lit '', '') (it_target_files t)"

definition commit_changes :: "('p, 'w) si_env \<Rightarrow> rstr \<Rightarrow> improvement_task \<Rightarrow> 'w \<Rightarrow> (rstr + rstr) \<times> 'w" where
  "commit_changes E path t =
     io_then (env_cmd E (lit ''git'') [lit ''add'', lit ''-A''] path) (\<lambda>add.
       if \<not> co_success add then io_fail (lit ''git add failed'')
       else
     io_then (env_cmd E (lit ''git'') [lit ''status'', lit ''--porcelain''] path) (\<lambda>status.
       if trim (co_stdout status) = [] then io_fail (lit ''No changes to commit'')
       else
     io_then (env_cmd E (lit ''git'') [lit ''commit'', lit ''-m'', commit_message t] path) (\<lambda>commit.
       if \<not> co_success commit then io_fail (lit ''git commit failed: '' @ co_stderr commit)
       else
     io_then (env_cmd E (lit ''git'') [lit ''rev-parse'', lit ''HEAD''] path) (\<lambda>hash.
       io_ret (trim (co_stdout hash))))))"

text \<open>The work tree of a path is the current directory; its branch name is computed and not used.\<close>

definition setup_worktree :: "'f si_config \<Rightarrow> ('p, 'w) si_env \<Rightarrow> improvement_task \<Rightarrow> rstr \<Rightarrow> 'w \<Rightarrow>
    (rstr + (rstr \<times> rstr)) \<times> 'w" where
  "setup_worktree c E t sfx w =
     (let branch = branch_prefix c @ it_strategy t @ lit ''_'' @ it_id t @ lit ''_'' @ sfx in
      (case env_cwd E w of Inl e \<Rightarrow> (Inl e, w) | Inr path \<Rightarrow> (Inr (path, branch), w)))"

text \<open>What becomes of a path: a success counts only when its changes validate, an error is a failure.\<close>

definition settle_path :: "('p, 'w) si_env \<Rightarrow> rstr \<Rightarrow> (rstr + path_result) \<times> 'w \<Rightarrow> path_result \<times> 'w" where
  "settle_path E path r =
     (case r of
        (Inr res, w) \<Rightarrow>
          if pr_success res then
            (case validate_changes E path w of
               (Inr _, w1) \<Rightarrow> (res, w1)
             | (Inl _, w1) \<Rightarrow> (pr_failure (lit ''Validation failed'') (pr_duration res), w1))
          else (res, w)
      | (Inl e, w) \<Rightarrow> (pr_failure e 0, w))"

definition run_path :: "'f si_config \<Rightarrow> ('p, 'w) si_env \<Rightarrow> improvement_task \<Rightarrow> rstr \<Rightarrow> bool \<Rightarrow>
    ('f si_config \<Rightarrow> ('p, 'w) si_env \<Rightarrow> improvement_task \<Rightarrow> rstr \<Rightarrow> 'w \<Rightarrow> (rstr + path_result) \<times> 'w) \<Rightarrow>
    'w \<Rightarrow> (rstr + path_result option) \<times> 'w" where
  "run_path c E t sfx disabled exec =
     (if disabled then io_ret None
      else io_then (setup_worktree c E t sfx) (\<lambda>(path, branch) w.
             case settle_path E path (exec c E t path w) of (res, w1) \<Rightarrow> (Inr (Some res), w1)))"

definition opt_filter :: "('a \<Rightarrow> bool) \<Rightarrow> 'a option \<Rightarrow> 'a option" where
  "opt_filter P x = (case x of Some a \<Rightarrow> if P a then Some a else None | None \<Rightarrow> None)"

definition winning_result :: "path_result option \<Rightarrow> path_result option \<Rightarrow> path_result option" where
  "winning_result d b =
     (case opt_filter pr_success d of Some r \<Rightarrow> Some r | None \<Rightarrow> opt_filter pr_success b)"

definition run_cycle :: "'f si_config \<Rightarrow> ('p, 'w) si_env \<Rightarrow> improvement_task \<Rightarrow> 'w \<Rightarrow>
    (rstr + cycle_result) \<times> 'w" where
  "run_cycle c E t w =
     (case env_cwd E w of
        Inl e \<Rightarrow> (Inl e, w)
      | Inr repo \<Rightarrow>
          io_then (run_path c E t (lit ''direct'') (no_direct c) execute_direct_path) (\<lambda>d.
          io_then (run_path c E t (lit ''bridge'') (no_bridge c) execute_bridge_path) (\<lambda>b w2.
            let comparison = (case (d, b) of (Some x, Some y) \<Rightarrow> Some (compare_paths x y) | _ \<Rightarrow> None);
                (hash, w3) = (case winning_result d b of
                    Some r \<Rightarrow>
                      if pr_diff_lines r \<le> max_diff_per_task c then
                        (case commit_changes E repo t w2 of
                           (Inr h, w3) \<Rightarrow> (Some h, w3)
                         | (Inl e, w3) \<Rightarrow> (None, w3))
                      else (None, w2)
                  | None \<Rightarrow> (None, w2)) in
            (Inr \<lparr>cr_task = t, cr_direct = d, cr_bridge = b, cr_comparison = comparison,
                  cr_committed = (hash \<noteq> None), cr_commit_hash = hash\<rparr>, w3))) w)"

definition cycle_succeeded :: "cycle_result \<Rightarrow> bool" where
  "cycle_succeeded r \<longleftrightarrow>
     (case cr_direct r of Some x \<Rightarrow> pr_success x | None \<Rightarrow> False) \<or>
     (case cr_bridge r of Some x \<Rightarrow> pr_success x | None \<Rightarrow> False)"

definition max_over :: "(path_result \<Rightarrow> 32 word) \<Rightarrow> cycle_result \<Rightarrow> 32 word" where
  "max_over f r = max (case cr_direct r of Some x \<Rightarrow> f x | None \<Rightarrow> 0)
                      (case cr_bridge r of Some x \<Rightarrow> f x | None \<Rightarrow> 0)"

text \<open>The bookkeeping of the loop body after a cycle, in the order of the statements.\<close>

definition settle_cycle :: "improvement_task \<Rightarrow> rstr + cycle_result \<Rightarrow> ('f, 'w) controller \<Rightarrow>
    ('f, 'w) controller" where
  "settle_cycle t res c =
     (case res of
        Inr r \<Rightarrow>
          let c1 = c\<lparr>ct_metrics := sm_record_attempt (it_strategy t) (ct_metrics c)\<rparr>;
              c2 = (if cycle_succeeded r then
                      let m = sm_record_success (it_strategy t) (max_over pr_iterations r) (ct_metrics c1) in
                      c1\<lparr>ct_safety := sg_record_success (max_over pr_diff_lines r) (ct_safety c1),
                         ct_metrics := (case cr_commit_hash r of Some h \<Rightarrow> sm_record_commit h m | None \<Rightarrow> m)\<rparr>
                    else
                      c1\<lparr>ct_safety := sg_record_failure (ct_safety c1),
                         ct_metrics := sm_record_failure (it_strategy t) (ct_metrics c1)\<rparr>) in
          (case cr_comparison r of
             Some x \<Rightarrow> c2\<lparr>ct_metrics := sm_record_comparison x (ct_metrics c2)\<rparr>
           | None \<Rightarrow> c2)
      | Inl e \<Rightarrow>
          c\<lparr>ct_safety := sg_record_failure (ct_safety c),
            ct_metrics := sm_record_failure (it_strategy t) (ct_metrics c)\<rparr>)"

fun run_tasks :: "('f \<Rightarrow> 'f \<Rightarrow> bool) \<Rightarrow> ('p, 'w) si_env \<Rightarrow> improvement_task list \<Rightarrow> ('f, 'w) controller \<Rightarrow> 'w \<Rightarrow>
    'f safety_stop option \<times> ('f, 'w) controller \<times> 'w" where
  "run_tasks ge E [] c w = (None, c, w)"
| "run_tasks ge E (t # ts) c w =
     (case check_can_continue ge (ct_safety c) of
        Inl reason \<Rightarrow> (Some reason, c, w)
      | Inr _ \<Rightarrow> (case run_cycle (ct_config c) E t w of
                    (res, w1) \<Rightarrow> run_tasks ge E ts (settle_cycle t res c) w1))"

definition report_dir :: rstr where
  "report_dir = lit ''test-results/self-improve''"

text \<open>A report that cannot be saved is only logged. The dry run prints its tasks and stops.\<close>

definition si_run :: "'f si_fmt \<Rightarrow> ('f session_report \<Rightarrow> rstr + rstr) \<Rightarrow> ('f \<Rightarrow> 'f \<Rightarrow> bool) \<Rightarrow> ('p, 'w) si_env \<Rightarrow>
    ('f, 'w) controller \<Rightarrow> 'w \<Rightarrow> (rstr + 'f session_report) \<times> ('f, 'w) controller \<times> 'w" where
  "si_run F to_json ge E c w0 =
     (case generate_all E (ct_config c) (ct_generator c) w0 of
        (Inl e, w1) \<Rightarrow> (Inl e, c, w1)
      | (Inr tasks, w1) \<Rightarrow>
          let c1 = c\<lparr>ct_metrics := fold (\<lambda>t. sm_record_generated (it_strategy t) 1) tasks (ct_metrics c)\<rparr> in
          if dry_run (ct_config c) then
            (Inr (sr_new (fmt_cost2 F) (ct_metrics c1) (env_now E w1 - env_now E w0) None), c1, w1)
          else
            (case run_tasks ge E tasks c1 w1 of
               (stop, c2, w2) \<Rightarrow>
                 let report = sr_new (fmt_cost2 F) (ct_metrics c2) (env_now E w2 - env_now E w0) stop in
                 (Inr report, c2, snd (sr_save F to_json E report_dir report w2))))"

section \<open>The guard bounds the loop\<close>

lemma check_ok_iff:
  "check_can_continue ge g = Inr () \<longleftrightarrow>
     \<not> ge (sg_total_cost g) (max_budget (sg_config g)) \<and> cycles_completed g < max_cycles (sg_config g) \<and>
     consecutive_failures g < circuit_breaker_threshold (sg_config g) \<and>
     total_diff_lines g < max_total_diff (sg_config g)"
  by (auto simp: check_can_continue_def)

text \<open>The part of the controller's state the guard keeps, and the invariant of the loop.\<close>

definition guard_inv :: "'f \<Rightarrow> 'f si_config \<Rightarrow> ('f, 'w) controller \<Rightarrow> bool" where
  "guard_inv zero cfg c \<longleftrightarrow>
     (let g = ct_safety c; m = ct_metrics c in
      sg_config g = cfg \<and> sg_total_cost g = zero \<and> cycles_completed g \<le> max_cycles cfg \<and>
      consecutive_failures g \<le> circuit_breaker_threshold cfg \<and>
      tasks_succeeded m + tasks_failed m = cycles_completed g)"

lemma metrics_counts [simp]:
  "tasks_succeeded (with_entry s f m) = tasks_succeeded m"
  "tasks_failed (with_entry s f m) = tasks_failed m"
  "tasks_attempted (with_entry s f m) = tasks_attempted m"
  by (simp_all add: with_entry_def)

lemmas metrics_defs = sm_record_attempt_def sm_record_success_def sm_record_failure_def
  sm_record_comparison_def sm_record_commit_def sm_record_generated_def

lemma settle_cycle_safety:
  "ct_safety (settle_cycle t res c) =
     (case res of Inr r \<Rightarrow> if cycle_succeeded r then sg_record_success (max_over pr_diff_lines r) (ct_safety c)
                           else sg_record_failure (ct_safety c)
      | Inl e \<Rightarrow> sg_record_failure (ct_safety c))"
  by (simp add: settle_cycle_def Let_def split: sum.splits option.splits)

lemma settle_cycle_counts:
  "tasks_succeeded (ct_metrics (settle_cycle t res c)) = tasks_succeeded (ct_metrics c) +
     (case res of Inr r \<Rightarrow> if cycle_succeeded r then 1 else 0 | Inl e \<Rightarrow> 0)"
  "tasks_failed (ct_metrics (settle_cycle t res c)) = tasks_failed (ct_metrics c) +
     (case res of Inr r \<Rightarrow> if cycle_succeeded r then 0 else 1 | Inl e \<Rightarrow> 1)"
  "tasks_attempted (ct_metrics (settle_cycle t res c)) = tasks_attempted (ct_metrics c) +
     (case res of Inr r \<Rightarrow> 1 | Inl e \<Rightarrow> 0)"
  by (simp_all add: settle_cycle_def Let_def metrics_defs split: sum.splits option.splits)

lemma word_less_inc:
  assumes "(a::32 word) < b"
  shows "1 + a \<le> b" and "unat (1 + a) = Suc (unat a)"
proof -
  have lt: "unat b < 2 ^ 32"
    using unsigned_less [of b] by simp
  have "unat (1 + a) = Suc (unat a)"
    using assms lt by (simp add: word_less_nat_alt unat_word_ariths)
  with assms show "unat (1 + a) = Suc (unat a)" and "1 + a \<le> b"
    by (simp_all add: word_le_nat_alt word_less_nat_alt)
qed

lemma settle_cycle_inv:
  assumes "guard_inv zero cfg c" and "check_can_continue ge (ct_safety c) = Inr ()"
  shows "guard_inv zero cfg (settle_cycle t res c)"
    and "unat (cycles_completed (ct_safety (settle_cycle t res c))) = unat (cycles_completed (ct_safety c)) + 1"
  using assms
  by (auto simp: guard_inv_def Let_def check_ok_iff settle_cycle_safety settle_cycle_counts word_less_inc
      sg_record_success_def sg_record_failure_def algebra_simps split: sum.splits)

lemma run_tasks_inv:
  assumes "guard_inv zero cfg c" and "run_tasks ge E ts c w = (stop, c1, w1)"
  shows "guard_inv zero cfg c1 \<and>
    (case stop of
       None \<Rightarrow> unat (cycles_completed (ct_safety c1)) = unat (cycles_completed (ct_safety c)) + List.length ts
     | Some r \<Rightarrow> check_can_continue ge (ct_safety c1) = Inl r \<and>
         unat (cycles_completed (ct_safety c1)) < unat (cycles_completed (ct_safety c)) + List.length ts)"
  using assms
proof (induction ts arbitrary: c w)
  case (Cons t ts)
  show ?case
  proof (cases "check_can_continue ge (ct_safety c)")
    case (Inr u)
    obtain res w2 where cyc: "run_cycle (ct_config c) E t w = (res, w2)" by fastforce
    note inv = settle_cycle_inv [OF Cons.prems(1) Inr [simplified], of t res]
    from Cons.prems(2) Inr cyc have "run_tasks ge E ts (settle_cycle t res c) w2 = (stop, c1, w1)" by simp
    from Cons.IH [OF inv(1) this] inv(2) show ?thesis by (auto split: option.splits)
  qed (use Cons.prems in auto)
qed auto

lemma fold_generated_counts:
  "tasks_succeeded (fold (\<lambda>t. sm_record_generated (it_strategy t) 1) ts m) = tasks_succeeded m"
  "tasks_failed (fold (\<lambda>t. sm_record_generated (it_strategy t) 1) ts m) = tasks_failed m"
  by (induction ts arbitrary: m) (auto simp: metrics_defs)

lemma guard_inv_start:
  "guard_inv zero cfg (new_with_strategies now zero cfg ss
     \<lparr>ct_metrics := fold (\<lambda>t. sm_record_generated (it_strategy t) 1) ts (sm_new now zero)\<rparr>)"
  by (simp add: guard_inv_def new_with_strategies_def sg_new_def fold_generated_counts sm_new_def)

text \<open>
  C19: A session of the improvement loop stays within its limits: it never runs more cycles than
  \<^verbatim>\<open>max_cycles\<close> nor lets more than the threshold of failures follow each other, every cycle is booked as
  a success or as a failure, and it stops early exactly with the reason its guard gives. The cost
  stays zero, so the budget is never what stops a session that was allowed to start.
\<close>

theorem si_run_guarded:
  assumes "si_run F to_json ge E (new_with_strategies now zero cfg ss) w = (Inr report, c, w1)"
  shows "let g = ct_safety c; m = ct_metrics c in
    sr_metrics report = m \<and> cycles_completed g \<le> max_cycles cfg \<and>
    consecutive_failures g \<le> circuit_breaker_threshold cfg \<and> sg_total_cost g = zero \<and>
    tasks_succeeded m + tasks_failed m = cycles_completed g \<and>
    (\<exists>ts w2. generate_all E cfg ss w = (Inr ts, w2) \<and>
      (case safety_stop_reason report of
         None \<Rightarrow> unat (cycles_completed g) = (if dry_run cfg then 0 else List.length ts)
       | Some s \<Rightarrow> unat (cycles_completed g) < List.length ts \<and>
           (\<exists>r. s = show_stop (fmt_cost2 F) r \<and> check_can_continue ge g = Inl r)))"
proof -
  let ?c0 = "new_with_strategies now zero cfg ss"
  have sel: "ct_config ?c0 = cfg" "ct_generator ?c0 = ss" "ct_metrics ?c0 = sm_new now zero"
    by (simp_all add: new_with_strategies_def)
  obtain ts w2 where gen: "generate_all E cfg ss w = (Inr ts, w2)"
    using assms by (cases "generate_all E cfg ss w") (auto simp: si_run_def sel split: sum.splits)
  let ?c1 = "?c0\<lparr>ct_metrics := fold (\<lambda>t. sm_record_generated (it_strategy t) 1) ts (sm_new now zero)\<rparr>"
  have start: "cycles_completed (ct_safety ?c1) = 0"
    by (simp add: new_with_strategies_def sg_new_def)
  note inv0 = guard_inv_start [where zero = zero and cfg = cfg and now = now and ss = ss and ts = ts]
  show ?thesis
  proof (cases "dry_run cfg")
    case True
    with assms gen have "c = ?c1" "sr_metrics report = ct_metrics ?c1" "safety_stop_reason report = None"
      by (auto simp: si_run_def sel Let_def sr_new_def)
    with True gen inv0 start show ?thesis by (simp add: guard_inv_def Let_def)
  next
    case False
    obtain stop c2 w3 where run: "run_tasks ge E ts ?c1 w2 = (stop, c2, w3)" by (metis prod_cases3)
    with assms gen False have r: "c = c2" "sr_metrics report = ct_metrics c2"
        "safety_stop_reason report = map_option (show_stop (fmt_cost2 F)) stop"
      by (auto simp: si_run_def sel Let_def sr_new_def)
    from run_tasks_inv [OF inv0 run] gen False start r show ?thesis
      by (auto simp: guard_inv_def Let_def split: option.splits)
  qed
qed

section \<open>What is committed\<close>

lemma settle_path_success:
  "settle_path E path r = (res, w1) \<Longrightarrow> pr_success res \<Longrightarrow>
     \<exists>w. r = (Inr res, w) \<and> validate_changes E path w = (Inr (), w1)"
  by (auto simp: settle_path_def pr_failure_def split: sum.splits prod.splits if_splits)

lemma run_path_success:
  assumes "run_path c E t sfx disabled exec w = (Inr (Some res), w1)" and "pr_success res"
  shows "\<not> disabled \<and> (\<exists>dir w0. exec c E t dir w = (Inr res, w0) \<and> validate_changes E dir w0 = (Inr (), w1))"
  using assms
  by (auto simp: run_path_def io_then_def io_ret_def setup_worktree_def Let_def
      dest!: settle_path_success split: if_splits sum.splits prod.splits)

lemma validate_changes_ok:
  assumes "validate_changes E dir w = (Inr (), w2)"
  shows "\<exists>o1 w1 o2. env_cmd E (lit ''cargo'') [lit ''check''] dir w = (Inr o1, w1) \<and> co_success o1 \<and>
    env_cmd E (lit ''cargo'') [lit ''test'', lit ''--'', lit ''--no-capture''] dir w1 = (Inr o2, w2) \<and> co_success o2"
  using assms
  by (auto simp: validate_changes_def io_then_def io_ret_def io_fail_def split: sum.splits prod.splits if_splits)

lemma winning_cases:
  "winning_result d b = Some p \<Longrightarrow> pr_success p \<and> (d = Some p \<or> b = Some p)"
  by (auto simp: winning_result_def opt_filter_def split: option.splits if_splits)

lemma run_cycle_parts:
  assumes "run_cycle c E t w = (Inr r, w')"
  shows "\<exists>repo w1 w2. env_cwd E w = Inr repo \<and>
    run_path c E t (lit ''direct'') (no_direct c) execute_direct_path w = (Inr (cr_direct r), w1) \<and>
    run_path c E t (lit ''bridge'') (no_bridge c) execute_bridge_path w1 = (Inr (cr_bridge r), w2) \<and>
    (cr_committed r \<longrightarrow>
      (\<exists>p. winning_result (cr_direct r) (cr_bridge r) = Some p \<and> pr_diff_lines p \<le> max_diff_per_task c \<and>
        commit_changes E repo t w2 = (Inr (the (cr_commit_hash r)), w')))"
  using assms
  by (auto simp: run_cycle_def io_then_def Let_def split: sum.splits prod.splits option.splits if_splits)

text \<open>
  What a cycle commits was produced by a path that succeeded: the winning result comes from a run
  of the direct or of the bridge path, \<^verbatim>\<open>cargo check\<close> and \<^verbatim>\<open>cargo test\<close> both passed right after that
  run, and its diff count is within the limit of one task.
\<close>

theorem commit_needs_validated_path:
  assumes "run_cycle c E t w = (Inr r, w')" and "cr_committed r"
  shows "\<exists>p exec repo dir w0 w1 w2 w3 w4 o1 o2.
    winning_result (cr_direct r) (cr_bridge r) = Some p \<and> pr_success p \<and>
    pr_diff_lines p \<le> max_diff_per_task c \<and>
    (exec = execute_direct_path \<and> \<not> no_direct c \<or> exec = execute_bridge_path \<and> \<not> no_bridge c) \<and>
    exec c E t dir w0 = (Inr p, w1) \<and>
    env_cmd E (lit ''cargo'') [lit ''check''] dir w1 = (Inr o1, w2) \<and> co_success o1 \<and>
    env_cmd E (lit ''cargo'') [lit ''test'', lit ''--'', lit ''--no-capture''] dir w2 = (Inr o2, w3) \<and> co_success o2 \<and>
    env_cwd E w = Inr repo \<and> commit_changes E repo t w4 = (Inr (the (cr_commit_hash r)), w')"
proof -
  obtain repo w1 w2 p where repo: "env_cwd E w = Inr repo"
    and d: "run_path c E t (lit ''direct'') (no_direct c) execute_direct_path w = (Inr (cr_direct r), w1)"
    and b: "run_path c E t (lit ''bridge'') (no_bridge c) execute_bridge_path w1 = (Inr (cr_bridge r), w2)"
    and p: "winning_result (cr_direct r) (cr_bridge r) = Some p" "pr_diff_lines p \<le> max_diff_per_task c"
    and com: "commit_changes E repo t w2 = (Inr (the (cr_commit_hash r)), w')"
    using run_cycle_parts [OF assms(1)] assms(2) by blast
  have "\<exists>exec dir v0 v1 v2.
      (exec = execute_direct_path \<and> \<not> no_direct c \<or> exec = execute_bridge_path \<and> \<not> no_bridge c) \<and>
      exec c E t dir v0 = (Inr p, v1) \<and> validate_changes E dir v1 = (Inr (), v2)"
  proof (cases "cr_direct r = Some p")
    case True
    with d winning_cases [OF p(1)] show ?thesis by (fastforce dest: run_path_success)
  next
    case False
    with b winning_cases [OF p(1)] show ?thesis by (fastforce dest: run_path_success)
  qed
  then obtain exec dir v0 v1 v2 where
      ex: "exec = execute_direct_path \<and> \<not> no_direct c \<or> exec = execute_bridge_path \<and> \<not> no_bridge c"
    and run: "exec c E t dir v0 = (Inr p, v1)" and val: "validate_changes E dir v1 = (Inr (), v2)"
    by blast
  obtain o1 v3 o2 where
      "env_cmd E (lit ''cargo'') [lit ''check''] dir v1 = (Inr o1, v3)" "co_success o1"
      "env_cmd E (lit ''cargo'') [lit ''test'', lit ''--'', lit ''--no-capture''] dir v3 = (Inr o2, v2)"
      "co_success o2"
    using validate_changes_ok [OF val] by blast
  with ex run p repo com winning_cases [OF p(1)] show ?thesis by blast
qed

text \<open>
  A small world to run the controller in: whether the tree is broken, and whether a broken tree has
  been committed. Cargo fails on a broken tree; the agent of the direct path succeeds, the agent of
  the bridge breaks the tree and times out.
\<close>

definition demo_env :: "(unit, bool \<times> bool) si_env" where
  "demo_env =
     \<lparr>env_cwd = (\<lambda>w. Inr (lit ''.'')), env_now = (\<lambda>w. 0),
      env_cmd = (\<lambda>prog args dir (broken, bad).
        if prog = lit ''cargo'' then (Inr \<lparr>co_success = \<not> broken, co_stdout = [], co_stderr = []\<rparr>, (broken, bad))
        else (Inr \<lparr>co_success = True, co_stdout = lit ''M'', co_stderr = []\<rparr>,
              (broken, bad \<or> hd args = lit ''commit'' \<and> broken))),
      env_provider = (\<lambda>m w. (Inr (), w)),
      env_agent = (\<lambda>p i d path n w. (Inr \<lparr>ao_success = True, ao_iterations = 3, ao_summary = []\<rparr>, w)),
      env_connect = (\<lambda>n w. (Inr (), w)), env_initialize = (\<lambda>w. (Inr (), w)),
      env_spawn = (\<lambda>d path n (broken, bad). (Inr [], (True, bad))),
      env_await = (\<lambda>a n w. (Inl (lit ''timeout''), w)), env_shutdown = (\<lambda>w. w),
      env_mkdir = (\<lambda>d w. (Inr (), w)), env_write = (\<lambda>p d w. (Inr (), w))\<rparr>"

definition demo_task :: improvement_task where
  "demo_task = \<lparr>it_id = lit ''t1'', it_strategy = lit ''clippy'', it_category = Linting, it_description = [],
                it_target_files = [], it_priority = 3, it_estimated_diff_lines = 1, it_context = []\<rparr>"

definition demo_config :: "nat si_config" where
  "demo_config = si_config_default 10"

definition demo_strategy :: "(bool \<times> bool) strategy" where
  "demo_strategy = \<lparr>sy_name = lit ''clippy'', sy_generate = (\<lambda>repo n w. (Inr [demo_task], w))\<rparr>"

definition demo_fmt :: "nat si_fmt" where
  "demo_fmt = \<lparr>fmt_date = show_nat, fmt_stamp = show_nat, fmt_secs = show_nat, fmt_percent = show_nat,
               fmt_cost2 = show_nat, fmt_cost4 = show_nat, f_quot = (\<lambda>a b. unat a div unat b), f_zero = 0,
               map_order = (\<lambda>m. [])\<rparr>"

lemma demo_words [simp]:
  "lit ''git'' \<noteq> lit ''cargo''" "lit ''add'' \<noteq> lit ''commit''" "lit ''status'' \<noteq> lit ''commit''"
  "lit ''rev-parse'' \<noteq> lit ''commit''" "lit ''diff'' \<noteq> lit ''commit''" "lit ''M'' \<noteq> []"
  by (simp_all add: lit_def)

lemma demo_text [simp]: "trim (lit ''M'') = lit ''M''" "count_lines (lit ''M'') = 1"
  by (simp_all add: lit_def trim_def is_ws_def count_lines_def str_lines_def strip_cr_def)

lemmas cycle_defs = run_cycle_def run_path_def io_then_def io_ret_def io_fail_def setup_worktree_def
  settle_path_def execute_direct_path_def execute_bridge_path_def diff_or_empty_def get_git_diff_def
  validate_changes_def commit_changes_def winning_result_def opt_filter_def outcome_result_def
  pr_failure_def Let_def

lemma demo_run:
  "\<exists>r. run_cycle demo_config demo_env t (False, False) = (Inr r, (True, True)) \<and> cr_committed r \<and>
     cycle_succeeded r \<and> cr_commit_hash r = Some (lit ''M'')"
  by (simp add: cycle_defs demo_env_def demo_config_def si_config_default_def cycle_succeeded_def
      del: append_Cons)

text \<open>
  The tree that is committed need not be the tree that was validated: both paths work in the same
  directory, so in this run the direct path validates, the bridge path then breaks the tree and fails,
  and the commit takes the broken tree, on which the validation fails.
\<close>

theorem commit_takes_unvalidated_tree:
  "\<exists>r w1. run_cycle demo_config demo_env demo_task (False, False) = (Inr r, w1) \<and> cr_committed r \<and>
     isl (fst (validate_changes demo_env (lit ''.'') w1)) \<and> snd w1"
  using demo_run [of demo_task] by (auto simp: validate_changes_def io_then_def io_fail_def demo_env_def)

theorem commit_needs_validated_path_witness:
  "\<exists>r w1 p. run_cycle demo_config demo_env demo_task (False, False) = (Inr r, w1) \<and> cr_committed r \<and>
     winning_result (cr_direct r) (cr_bridge r) = Some p \<and> pr_diff_lines p \<le> 200"
  using demo_run [of demo_task]
    commit_needs_validated_path [of demo_config demo_env demo_task "(False, False)" _ "(True, True)"]
  by (fastforce simp: demo_config_def si_config_default_def)

lemma demo_session:
  "\<exists>report c w1. si_run demo_fmt (\<lambda>r. Inr []) (\<ge>) demo_env
      (new_with_strategies 0 0 demo_config [demo_strategy]) (False, False) = (Inr report, c, w1) \<and>
    cycles_completed (ct_safety c) = 1"
proof -
  obtain r where r: "run_cycle (si_config_default 10 :: nat si_config) demo_env demo_task (False, False) = (Inr r, (True, True))"
      "cycle_succeeded r"
    using demo_run [of demo_task] by (auto simp: demo_config_def)
  have gen: "generate_all demo_env (si_config_default 10 :: nat si_config) [demo_strategy] (False, False) =
      (Inr [demo_task], (False, False))"
    by (simp add: generate_all_def demo_env_def demo_strategy_def is_strategy_enabled_def si_config_default_def)
  show ?thesis
    using r by (simp add: si_run_def gen demo_config_def new_with_strategies_def Let_def check_can_continue_def
        sg_new_def settle_cycle_safety sg_record_success_def)
       (simp add: si_config_default_def)
qed

theorem si_run_guarded_witness:
  "\<exists>report c w1. si_run demo_fmt (\<lambda>r. Inr []) (\<ge>) demo_env
      (new_with_strategies 0 0 demo_config [demo_strategy]) (False, False) = (Inr report, c, w1) \<and>
    cycles_completed (ct_safety c) = 1 \<and> cycles_completed (ct_safety c) \<le> max_cycles demo_config \<and>
    sg_total_cost (ct_safety c) = 0"
proof -
  obtain report c w1 where run: "si_run demo_fmt (\<lambda>r. Inr []) (\<ge>) demo_env
      (new_with_strategies 0 0 demo_config [demo_strategy]) (False, False) = (Inr report, c, w1)"
    and one: "cycles_completed (ct_safety c) = 1"
    using demo_session by blast
  from si_run_guarded [OF run] run one show ?thesis by (auto simp: Let_def)
qed

section \<open>The books of a cycle\<close>

definition strategy_entry :: "rstr \<Rightarrow> 'f session_metrics \<Rightarrow> strategy_metrics" where
  "strategy_entry s m = (case per_strategy m s of Some x \<Rightarrow> x | None \<Rightarrow> strategy_metrics_default)"

lemma strategy_entry_simps [simp]:
  "strategy_entry s (with_entry s f m) = f (strategy_entry s m)"
  "strategy_entry s (m\<lparr>tasks_attempted := a\<rparr>) = strategy_entry s m"
  "strategy_entry s (m\<lparr>tasks_succeeded := a\<rparr>) = strategy_entry s m"
  "strategy_entry s (m\<lparr>tasks_failed := a\<rparr>) = strategy_entry s m"
  "strategy_entry s (m\<lparr>total_iterations := a\<rparr>) = strategy_entry s m"
  "strategy_entry s (m\<lparr>comparisons := cs\<rparr>) = strategy_entry s m"
  "strategy_entry s (m\<lparr>commits := hs\<rparr>) = strategy_entry s m"
  by (simp_all add: strategy_entry_def with_entry_def)

text \<open>
  How a cycle is booked. A cycle counts once as attempted when it returns a result and not at all
  when it returns an error, and always once as succeeded or failed; but the attempts of its strategy
  grow by one for a success or an error and by two for a result that failed.
\<close>

theorem cycle_bookkeeping:
  "let s = it_strategy t; m = ct_metrics c; m1 = ct_metrics (settle_cycle t res c);
       good = (case res of Inr r \<Rightarrow> cycle_succeeded r | Inl e \<Rightarrow> False) in
   tasks_attempted m1 = tasks_attempted m + (case res of Inr r \<Rightarrow> 1 | Inl e \<Rightarrow> 0) \<and>
   tasks_succeeded m1 = tasks_succeeded m + (if good then 1 else 0) \<and>
   tasks_failed m1 = tasks_failed m + (if good then 0 else 1) \<and>
   st_succeeded (strategy_entry s m1) = st_succeeded (strategy_entry s m) + (if good then 1 else 0) \<and>
   st_attempted (strategy_entry s m1) = st_attempted (strategy_entry s m) +
     (case res of Inr r \<Rightarrow> if cycle_succeeded r then 1 else 2 | Inl e \<Rightarrow> 1)"
  by (simp add: settle_cycle_counts)
     (simp add: settle_cycle_def Let_def metrics_defs split: sum.splits option.splits)

end
