(* ===== verification/FileExplorer.thy ===== *)
theory FileExplorer
  imports Prelude "HOL-Library.List_Lexorder"
begin

text \<open>
  The file explorer popup, \<^verbatim>\<open>apps/cli/src/tui/app/file_explorer.rs\<close>: navigation inside a jail of
  allowed directories, the listing, the search filter, the selection and the cursor. A path is the
  list of the components of an absolute path; the file system is the record \<open>fsys\<close>, an argument of
  each operation, so that it may change between two operations. \<open>lower\<close> is \<^verbatim>\<open>str::to_lowercase\<close>;
  names compare by code points, which is the order of their UTF-8 bytes.
\<close>

section \<open>Paths and the file system\<close>

type_synonym path = "rstr list"

definition path_parent :: "path \<Rightarrow> path option" where
  "path_parent p = (if p = [] then None else Some (butlast p))"

definition path_starts_with :: "path \<Rightarrow> path \<Rightarrow> bool" where
  "path_starts_with p base \<longleftrightarrow> take (List.length base) p = base"

definition show_path :: "path \<Rightarrow> rstr" where
  "show_path p = lit ''/'' @ join (lit ''/'') p"

text \<open>\<^verbatim>\<open>Path::extension\<close>: what follows the last dot of the name, if anything precedes that dot.\<close>

definition path_extension :: "path \<Rightarrow> rstr option" where
  "path_extension p =
     (if p = [] then None
      else let name = last p; ext = rev (takeWhile (\<lambda>c. c \<noteq> 46) (rev name));
               stem = take (List.length name - List.length ext - 1) name in
           if 46 \<in> set name \<and> stem \<noteq> [] \<and> name \<noteq> lit ''..'' then Some ext else None)"

record metadata =
  md_is_dir :: bool
  md_is_symlink :: bool
  md_len :: "64 word"

record dir_entry =
  de_name :: rstr
  de_path :: path
  de_metadata :: "metadata option"
  de_link :: "path option"

text \<open>
  \<open>fs_canon\<close> is \<^verbatim>\<open>canonicalize\<close>, \<open>fs_read_dir\<close> yields a result per entry (\<open>None\<close> for an entry that
  cannot be read), \<open>fs_home\<close> is \<^verbatim>\<open>dirs::home_dir\<close>.
\<close>

record fsys =
  fs_canon :: "path \<Rightarrow> path option"
  fs_is_dir :: "path \<Rightarrow> bool"
  fs_read_dir :: "path \<Rightarrow> dir_entry option list option"
  fs_home :: "path option"

section \<open>State\<close>

datatype explorer_mode = Browser | Search

datatype entry_type =
    Directory
  | File "64 word" "rstr option"
  | Symlink path
  | ParentDir

record file_entry =
  fe_name :: rstr
  fe_path :: path
  fe_type :: entry_type

record explorer =
  current_dir :: path
  root_jail :: path
  entries :: "file_entry list"
  cursor_index :: nat
  scroll :: "16 word"
  selected_files :: "path set"
  mode :: explorer_mode
  search_query :: rstr
  filtered_indices :: "nat list option"
  error :: "rstr option"
  show_hidden :: bool
  history :: "path list"

section \<open>The jail\<close>

definition allowed_readonly :: "path list" where
  "allowed_readonly = [[lit ''etc''], [lit ''usr'', lit ''share''], [lit ''opt''], [lit ''tmp'']]"

definition is_allowed_path :: "path \<Rightarrow> path \<Rightarrow> bool" where
  "is_allowed_path p home \<longleftrightarrow>
     path_starts_with p home \<or> (\<exists>a \<in> set allowed_readonly. path_starts_with p a)"

definition is_within_jail :: "fsys \<Rightarrow> explorer \<Rightarrow> path \<Rightarrow> bool" where
  "is_within_jail fs s p = (case fs_canon fs p of Some q \<Rightarrow> is_allowed_path q (root_jail s) | None \<Rightarrow> False)"

section \<open>Listing\<close>

definition entry_type_of :: "dir_entry \<Rightarrow> entry_type" where
  "entry_type_of d =
     (case de_metadata d of
        Some m \<Rightarrow>
          if md_is_dir m then Directory
          else if md_is_symlink m then Symlink (case de_link d of Some t \<Rightarrow> t | None \<Rightarrow> [])
          else File (md_len m) (path_extension (de_path d))
      | None \<Rightarrow> File 0 None)"

definition to_entry :: "dir_entry \<Rightarrow> file_entry" where
  "to_entry d = \<lparr>fe_name = de_name d, fe_path = de_path d, fe_type = entry_type_of d\<rparr>"

definition is_hidden :: "rstr \<Rightarrow> bool" where
  "is_hidden name = (case name of c # _ \<Rightarrow> c = 46 | [] \<Rightarrow> False)"

definition parent_entries :: "fsys \<Rightarrow> explorer \<Rightarrow> file_entry list" where
  "parent_entries fs s =
     (case path_parent (current_dir s) of
        Some p \<Rightarrow> if is_within_jail fs s p then [\<lparr>fe_name = lit ''..'', fe_path = p, fe_type = ParentDir\<rparr>] else []
      | None \<Rightarrow> [])"

definition listing :: "(rstr \<Rightarrow> rstr) \<Rightarrow> bool \<Rightarrow> dir_entry option list \<Rightarrow> file_entry list" where
  "listing lower hidden ds =
     (let es = map to_entry (filter (\<lambda>d. hidden \<or> \<not> is_hidden (de_name d)) (concat (map (\<lambda>x. case x of Some d \<Rightarrow> [d] | None \<Rightarrow> []) ds))) in
      sort_key (\<lambda>e. lower (fe_name e)) (filter (\<lambda>e. fe_type e = Directory) es) @
      sort_key (\<lambda>e. lower (fe_name e)) (filter (\<lambda>e. fe_type e \<noteq> Directory) es))"

text \<open>When the directory cannot be read only the parent entry is left, and cursor and filter stay.\<close>

definition fe_refresh :: "(rstr \<Rightarrow> rstr) \<Rightarrow> fsys \<Rightarrow> explorer \<Rightarrow> (rstr + unit) \<times> explorer" where
  "fe_refresh lower fs s =
     (let s1 = s\<lparr>entries := parent_entries fs s, error := None\<rparr> in
      case fs_read_dir fs (current_dir s) of
        None \<Rightarrow> (Inl (lit ''Failed to read directory: '' @ show_path (current_dir s)), s1)
      | Some ds \<Rightarrow>
          let es = entries s1 @ listing lower (show_hidden s) ds in
          (Inr (), s1\<lparr>entries := es,
                      cursor_index := (if List.length es \<le> cursor_index s then List.length es - 1 else cursor_index s),
                      filtered_indices := None, search_query := []\<rparr>))"

definition fe_new :: "(rstr \<Rightarrow> rstr) \<Rightarrow> fsys \<Rightarrow> path \<Rightarrow> explorer" where
  "fe_new lower fs start =
     (let home = (case fs_home fs of Some h \<Rightarrow> h | None \<Rightarrow> []);
          canonical = (case fs_canon fs start of Some p \<Rightarrow> p | None \<Rightarrow> home);
          dir = (if is_allowed_path canonical home then canonical else home) in
      snd (fe_refresh lower fs
        \<lparr>current_dir = dir, root_jail = home, entries = [], cursor_index = 0, scroll = 0,
         selected_files = {}, mode = Browser, search_query = [], filtered_indices = None,
         error = None, show_hidden = False, history = []\<rparr>))"

section \<open>Navigation\<close>

definition go_to :: "(rstr \<Rightarrow> rstr) \<Rightarrow> fsys \<Rightarrow> path \<Rightarrow> explorer \<Rightarrow> (rstr + unit) \<times> explorer" where
  "go_to lower fs dir s = fe_refresh lower fs (s\<lparr>current_dir := dir, cursor_index := 0, scroll := 0\<rparr>)"

definition enter_directory :: "(rstr \<Rightarrow> rstr) \<Rightarrow> fsys \<Rightarrow> path \<Rightarrow> explorer \<Rightarrow> (rstr + unit) \<times> explorer" where
  "enter_directory lower fs p s =
     (case fs_canon fs p of
        None \<Rightarrow> (Inl (lit ''Cannot access directory: '' @ show_path p), s)
      | Some canonical \<Rightarrow>
          if \<not> is_allowed_path canonical (root_jail s)
          then (Inr (), s\<lparr>error := Some (lit ''Cannot navigate to this location'')\<rparr>)
          else if \<not> fs_is_dir fs canonical
          then (Inr (), s\<lparr>error := Some (lit ''Path is not a directory'')\<rparr>)
          else go_to lower fs canonical (s\<lparr>history := history s @ [current_dir s]\<rparr>))"

definition go_up :: "(rstr \<Rightarrow> rstr) \<Rightarrow> fsys \<Rightarrow> explorer \<Rightarrow> (rstr + unit) \<times> explorer" where
  "go_up lower fs s =
     (case path_parent (current_dir s) of
        Some parent \<Rightarrow>
          if \<not> is_within_jail fs s parent
          then (Inr (), s\<lparr>error := Some (lit ''Cannot navigate to parent directory'')\<rparr>)
          else go_to lower fs parent (s\<lparr>history := history s @ [current_dir s]\<rparr>)
      | None \<Rightarrow> (Inr (), s))"

definition go_back :: "(rstr \<Rightarrow> rstr) \<Rightarrow> fsys \<Rightarrow> explorer \<Rightarrow> explorer" where
  "go_back lower fs s =
     (if history s = [] then s
      else let prev = last (history s); s1 = s\<lparr>history := butlast (history s)\<rparr> in
           if is_within_jail fs s1 prev then snd (go_to lower fs prev s1)
           else s1\<lparr>error := Some (lit ''Cannot navigate to previous directory'')\<rparr>)"

section \<open>Cursor, filter and selection\<close>

definition visible_count :: "explorer \<Rightarrow> nat" where
  "visible_count s = (case filtered_indices s of Some is \<Rightarrow> List.length is | None \<Rightarrow> List.length (entries s))"

definition effective_cursor_index :: "explorer \<Rightarrow> nat" where
  "effective_cursor_index s =
     (case filtered_indices s of
        Some is \<Rightarrow> (case vec_get is (cursor_index s) of Some i \<Rightarrow> i | None \<Rightarrow> 0)
      | None \<Rightarrow> cursor_index s)"

definition current_entry :: "explorer \<Rightarrow> file_entry option" where
  "current_entry s = vec_get (entries s) (effective_cursor_index s)"

definition is_file :: "file_entry \<Rightarrow> bool" where
  "is_file e = (case fe_type e of File _ _ \<Rightarrow> True | _ \<Rightarrow> False)"

definition toggle_selection :: "explorer \<Rightarrow> explorer" where
  "toggle_selection s =
     (case current_entry s of
        Some e \<Rightarrow>
          if is_file e then
            (if fe_path e \<in> selected_files s then s\<lparr>selected_files := selected_files s - {fe_path e}\<rparr>
             else s\<lparr>selected_files := insert (fe_path e) (selected_files s)\<rparr>)
          else s
      | None \<Rightarrow> s)"

definition start_search :: "explorer \<Rightarrow> explorer" where
  "start_search s = s\<lparr>mode := Search, search_query := [], filtered_indices := None\<rparr>"

definition exit_search :: "explorer \<Rightarrow> explorer" where
  "exit_search s = s\<lparr>mode := Browser, search_query := [], filtered_indices := None\<rparr>"

definition name_matches :: "(rstr \<Rightarrow> rstr) \<Rightarrow> rstr \<Rightarrow> explorer \<Rightarrow> nat \<Rightarrow> bool" where
  "name_matches lower q s i = str_contains (lower (fe_name (entries s ! i))) (lower q)"

definition update_search :: "(rstr \<Rightarrow> rstr) \<Rightarrow> rstr \<Rightarrow> explorer \<Rightarrow> explorer" where
  "update_search lower q s =
     (if q = [] then s\<lparr>search_query := q, filtered_indices := None, cursor_index := 0\<rparr>
      else s\<lparr>search_query := q,
             filtered_indices := Some (filter (name_matches lower q s) [0..<List.length (entries s)]),
             cursor_index := 0\<rparr>)"

definition select_all_files :: "explorer \<Rightarrow> explorer" where
  "select_all_files s =
     s\<lparr>selected_files := fold (\<lambda>e acc. if is_file e then insert (fe_path e) acc else acc) (entries s) (selected_files s)\<rparr>"

definition clear_selection :: "explorer \<Rightarrow> explorer" where
  "clear_selection s = s\<lparr>selected_files := {}\<rparr>"

definition is_selected :: "path \<Rightarrow> explorer \<Rightarrow> bool" where
  "is_selected p s \<longleftrightarrow> p \<in> selected_files s"

definition toggle_hidden :: "(rstr \<Rightarrow> rstr) \<Rightarrow> fsys \<Rightarrow> explorer \<Rightarrow> explorer" where
  "toggle_hidden lower fs s = snd (fe_refresh lower fs (s\<lparr>show_hidden := \<not> show_hidden s\<rparr>))"

definition fe_adjust_scroll :: "explorer \<Rightarrow> explorer" where
  "fe_adjust_scroll s = s\<lparr>scroll := scroll_into_view 20 (cursor_index s) (scroll s)\<rparr>"

definition fe_cursor_up :: "explorer \<Rightarrow> explorer" where
  "fe_cursor_up s =
     fe_adjust_scroll (if 0 < cursor_index s then s\<lparr>cursor_index := cursor_index s - 1\<rparr> else s)"

definition fe_cursor_down :: "explorer \<Rightarrow> explorer" where
  "fe_cursor_down s =
     fe_adjust_scroll (if cursor_index s < visible_count s - 1 then s\<lparr>cursor_index := cursor_index s + 1\<rparr> else s)"

definition fe_page_up :: "nat \<Rightarrow> explorer \<Rightarrow> explorer" where
  "fe_page_up n s = fe_adjust_scroll (s\<lparr>cursor_index := cursor_index s - n\<rparr>)"

definition fe_page_down :: "nat \<Rightarrow> explorer \<Rightarrow> explorer" where
  "fe_page_down n s = fe_adjust_scroll (s\<lparr>cursor_index := min (cursor_index s + n) (visible_count s - 1)\<rparr>)"

section \<open>Cursor and paging\<close>

lemma adjust_scroll_keeps [simp]:
  "cursor_index (fe_adjust_scroll s) = cursor_index s"
  "visible_count (fe_adjust_scroll s) = visible_count s"
  "entries (fe_adjust_scroll s) = entries s"
  "filtered_indices (fe_adjust_scroll s) = filtered_indices s"
  "current_dir (fe_adjust_scroll s) = current_dir s"
  "root_jail (fe_adjust_scroll s) = root_jail s"
  "history (fe_adjust_scroll s) = history s"
  by (simp_all add: fe_adjust_scroll_def visible_count_def split: option.splits)

lemma visible_count_upd [simp]:
  "visible_count (s\<lparr>cursor_index := c\<rparr>) = visible_count s"
  "visible_count (s\<lparr>search_query := q\<rparr>) = visible_count s"
  "visible_count (s\<lparr>filtered_indices := Some is\<rparr>) = List.length is"
  "visible_count (s\<lparr>filtered_indices := None\<rparr>) = List.length (entries s)"
  by (simp_all add: visible_count_def split: option.splits)

interpretation fe: paged_cursor visible_count cursor_index fe_cursor_up fe_cursor_down fe_page_up fe_page_down
  by unfold_locales (auto simp: fe_cursor_up_def fe_cursor_down_def fe_page_up_def fe_page_down_def)

text \<open>The window of 20 rows the scroll offset stands for.\<close>

definition cursor_in_window :: "explorer \<Rightarrow> bool" where
  "cursor_in_window s \<longleftrightarrow> unat (scroll s) \<le> cursor_index s \<and> cursor_index s < unat (scroll s) + 20"

lemma adjust_scroll_window:
  assumes "unat (scroll s) < 65516" and "cursor_index s < 65536"
  shows "cursor_in_window (fe_adjust_scroll s)"
proof -
  have "unat (scroll_into_view 20 (cursor_index s) (scroll s)) \<le> cursor_index s
      \<and> cursor_index s < unat (scroll_into_view 20 (cursor_index s) (scroll s)) + unat (20 :: 16 word)"
    using assms by (intro scroll_into_view_visible) auto
  then show ?thesis by (simp add: cursor_in_window_def fe_adjust_scroll_def)
qed

text \<open>
  Paging is repeated stepping: with the cursor on a visible entry, \<^verbatim>\<open>page_down(n)\<close> and
  \<^verbatim>\<open>page_up(n)\<close> put it where \<open>n\<close> single steps would, on a visible entry again, and it is then in the
  20 rows of the view (for lists a \<^verbatim>\<open>u16\<close> can count).
\<close>

theorem paging_is_stepping:
  assumes "cursor_index s < visible_count s" and "visible_count s < 65536" and "unat (scroll s) < 65516"
  shows "cursor_index (fe_page_down n s) = cursor_index ((fe_cursor_down ^^ n) s) \<and>
    cursor_index (fe_page_up n s) = cursor_index ((fe_cursor_up ^^ n) s) \<and>
    cursor_index (fe_page_down n s) < visible_count s \<and> cursor_index (fe_page_up n s) < visible_count s \<and>
    cursor_in_window (fe_page_down n s) \<and> cursor_in_window (fe_page_up n s)"
proof -
  have "cursor_in_window (fe_page_down n s)" "cursor_in_window (fe_page_up n s)"
    unfolding fe_page_down_def fe_page_up_def using assms by (auto intro!: adjust_scroll_window)
  with assms fe.cursor_bound_page [OF assms(1), of n] show ?thesis
    by (simp add: fe.page_down_is_downs fe.page_up_is_ups fe.len_page_up fe.len_page_down)
qed

section \<open>Commands\<close>

datatype explorer_cmd =
    Enter path | Up | Back | ToggleSelection | StartSearch | ExitSearch | Filter rstr
  | SelectAll | ClearSelection | ToggleHidden | CursorUp | CursorDown | PageUp nat | PageDown nat

fun fe_exec :: "(rstr \<Rightarrow> rstr) \<Rightarrow> fsys \<Rightarrow> explorer_cmd \<Rightarrow> explorer \<Rightarrow> explorer" where
  "fe_exec lower fs (Enter p) s = snd (enter_directory lower fs p s)"
| "fe_exec lower fs Up s = snd (go_up lower fs s)"
| "fe_exec lower fs Back s = go_back lower fs s"
| "fe_exec lower fs ToggleSelection s = toggle_selection s"
| "fe_exec lower fs StartSearch s = start_search s"
| "fe_exec lower fs ExitSearch s = exit_search s"
| "fe_exec lower fs (Filter q) s = update_search lower q s"
| "fe_exec lower fs SelectAll s = select_all_files s"
| "fe_exec lower fs ClearSelection s = clear_selection s"
| "fe_exec lower fs ToggleHidden s = toggle_hidden lower fs s"
| "fe_exec lower fs CursorUp s = fe_cursor_up s"
| "fe_exec lower fs CursorDown s = fe_cursor_down s"
| "fe_exec lower fs (PageUp n) s = fe_page_up n s"
| "fe_exec lower fs (PageDown n) s = fe_page_down n s"

lemma refresh_keeps [simp]:
  "current_dir (snd (fe_refresh lower fs s)) = current_dir s"
  "root_jail (snd (fe_refresh lower fs s)) = root_jail s"
  "history (snd (fe_refresh lower fs s)) = history s"
  by (simp_all add: fe_refresh_def Let_def split: option.splits)

lemma go_to_keeps [simp]:
  "current_dir (snd (go_to lower fs d s)) = d"
  "root_jail (snd (go_to lower fs d s)) = root_jail s"
  "history (snd (go_to lower fs d s)) = history s"
  by (simp_all add: go_to_def)

lemma toggle_selection_keeps [simp]:
  "current_dir (toggle_selection s) = current_dir s"
  "root_jail (toggle_selection s) = root_jail s"
  "history (toggle_selection s) = history s"
  "entries (toggle_selection s) = entries s"
  "cursor_index (toggle_selection s) = cursor_index s"
  "filtered_indices (toggle_selection s) = filtered_indices s"
  by (simp_all add: toggle_selection_def split: option.splits)

lemmas fe_simple_defs = start_search_def exit_search_def update_search_def select_all_files_def
  clear_selection_def toggle_hidden_def fe_cursor_up_def fe_cursor_down_def fe_page_up_def fe_page_down_def

section \<open>The jail holds\<close>

text \<open>
  What \<^verbatim>\<open>canonicalize\<close> promises: its result is canonical, and so is the parent of a canonical path.
\<close>

definition fs_lawful :: "fsys \<Rightarrow> bool" where
  "fs_lawful fs \<longleftrightarrow>
     (\<forall>p q. fs_canon fs p = Some q \<longrightarrow> fs_canon fs q = Some q) \<and>
     (\<forall>q. fs_canon fs q = Some q \<longrightarrow> fs_canon fs (butlast q) = Some (butlast q))"

definition jailed :: "fsys \<Rightarrow> path \<Rightarrow> path \<Rightarrow> bool" where
  "jailed fs home p \<longleftrightarrow> fs_canon fs p = Some p \<and> is_allowed_path p home"

definition explorer_jailed :: "fsys \<Rightarrow> path \<Rightarrow> explorer \<Rightarrow> bool" where
  "explorer_jailed fs home s \<longleftrightarrow>
     root_jail s = home \<and> jailed fs home (current_dir s) \<and> (\<forall>h \<in> set (history s). jailed fs home h)"

lemma enter_jailed:
  "fs_lawful fs \<Longrightarrow> explorer_jailed fs home s \<Longrightarrow> explorer_jailed fs home (snd (enter_directory lower fs p s))"
  by (auto simp: enter_directory_def explorer_jailed_def jailed_def fs_lawful_def split: option.splits)

lemma up_jailed:
  "fs_lawful fs \<Longrightarrow> explorer_jailed fs home s \<Longrightarrow> explorer_jailed fs home (snd (go_up lower fs s))"
  by (auto simp: go_up_def explorer_jailed_def jailed_def fs_lawful_def path_parent_def is_within_jail_def
      split: option.splits)

lemma back_jailed: "explorer_jailed fs home s \<Longrightarrow> explorer_jailed fs home (go_back lower fs s)"
  by (auto simp: go_back_def Let_def explorer_jailed_def dest: in_set_butlastD)

lemma exec_jailed:
  "fs_lawful fs \<Longrightarrow> explorer_jailed fs home s \<Longrightarrow> explorer_jailed fs home (fe_exec lower fs c s)"
  by (cases c) (auto simp: enter_jailed up_jailed back_jailed, auto simp: explorer_jailed_def fe_simple_defs)

interpretation jail: invariant_machine "fe_exec lower fs" "\<lambda>s. fs_lawful fs \<and> explorer_jailed fs home s"
  for lower fs home
  by unfold_locales (auto intro: exec_jailed)

lemma new_jailed:
  assumes "fs_lawful fs" and "fs_home fs = Some home" and "fs_canon fs home = Some home"
  shows "explorer_jailed fs home (fe_new lower fs start)"
proof -
  have "path_starts_with home home" by (simp add: path_starts_with_def)
  with assms show ?thesis
    by (auto simp: fe_new_def Let_def explorer_jailed_def jailed_def fs_lawful_def is_allowed_path_def
        split: option.splits)
qed


text \<open>A file system with a link \<^verbatim>\<open>/home/u/out\<close> to \<^verbatim>\<open>/var\<close>; every other path is canonical or absent.\<close>

definition demo_home :: path where
  "demo_home = [lit ''home'', lit ''u'']"

definition demo_link :: path where
  "demo_link = demo_home @ [lit ''out'']"

definition demo_fs :: fsys where
  "demo_fs = \<lparr>fs_canon = (\<lambda>p. if p = demo_link then Some [lit ''var'']
                              else if path_starts_with p demo_link then None else Some p),
              fs_is_dir = (\<lambda>p. True),
              fs_read_dir = (\<lambda>p. Some [Some \<lparr>de_name = lit ''a.txt'', de_path = p @ [lit ''a.txt''],
                 de_metadata = Some \<lparr>md_is_dir = False, md_is_symlink = False, md_len = 1\<rparr>, de_link = None\<rparr>]),
              fs_home = Some demo_home\<rparr>"

lemma starts_with_butlast:
  assumes "path_starts_with (butlast q) base"
  shows "path_starts_with q base"
proof (cases q rule: rev_cases)
  case (snoc ys y)
  with assms have "take (List.length base) ys = base" by (simp add: path_starts_with_def)
  moreover from this have "List.length base \<le> List.length ys" by (metis length_take min.cobounded1)
  ultimately show ?thesis using snoc by (simp add: path_starts_with_def)
qed (use assms in simp)

lemma demo_fs_lawful: "fs_lawful demo_fs"
proof -
  have "\<not> path_starts_with [lit ''var''] demo_link"
    by (simp add: path_starts_with_def demo_link_def demo_home_def lit_def)
  moreover have "path_starts_with demo_link demo_link" by (simp add: path_starts_with_def)
  ultimately show ?thesis
    by (auto simp: fs_lawful_def demo_fs_def dest: starts_with_butlast)
qed


section \<open>The filter\<close>

lemma update_search_visible:
  "q \<noteq> [] \<Longrightarrow> filtered_indices (update_search lower q s) = Some is \<Longrightarrow>
     is = filter (name_matches lower q s) [0..<List.length (entries s)] \<and>
     entries (update_search lower q s) = entries s \<and> cursor_index (update_search lower q s) = 0"
  by (auto simp: update_search_def)

lemma toggle_selection_flips:
  "current_entry s = Some e \<Longrightarrow> is_file e \<Longrightarrow>
     is_selected (fe_path e) (toggle_selection s) = (\<not> is_selected (fe_path e) s)"
  by (simp add: toggle_selection_def is_selected_def)

lemma current_entry_filtered:
  "filtered_indices s = Some is \<Longrightarrow>
     current_entry s = vec_get (entries s) (case vec_get is (cursor_index s) of Some i \<Rightarrow> i | None \<Rightarrow> 0)"
  by (simp add: current_entry_def effective_cursor_index_def)

text \<open>
  A search shows exactly the entries whose name contains the query, in order, with the cursor on
  the first of them. When no name matches, nothing is visible, but the current entry, which a toggle
  selects and a return enters, is still the first entry of the directory.
\<close>

theorem search_current_entry:
  assumes "q \<noteq> []" and "s1 = update_search lower q s"
  shows "filtered_indices s1 = Some (filter (name_matches lower q s) [0..<List.length (entries s)]) \<and>
    (case filter (name_matches lower q s) [0..<List.length (entries s)] of
       i # is \<Rightarrow> current_entry s1 = Some (entries s ! i) \<and> name_matches lower q s i
     | [] \<Rightarrow> visible_count s1 = 0 \<and>
         (case entries s of
            e # es \<Rightarrow> current_entry s1 = Some e \<and>
              (if is_file e then is_selected (fe_path e) (toggle_selection s1) = (\<not> is_selected (fe_path e) s) else True)
          | [] \<Rightarrow> current_entry s1 = None))"
proof -
  have s1: "filtered_indices s1 = Some (filter (name_matches lower q s) [0..<List.length (entries s)])"
      "entries s1 = entries s" "cursor_index s1 = 0" "selected_files s1 = selected_files s"
    using assms by (auto simp: update_search_def)
  show ?thesis
  proof (cases "filter (name_matches lower q s) [0..<List.length (entries s)]")
    case Nil
    with s1 have cur: "current_entry s1 = vec_get (entries s) 0" and vis: "visible_count s1 = 0"
      by (simp_all add: current_entry_filtered visible_count_def vec_get_def)
    have "is_selected p s1 = is_selected p s" for p using s1(4) by (simp add: is_selected_def)
    with Nil s1(1) cur vis show ?thesis
      by (cases "entries s") (simp_all add: vec_get_def toggle_selection_flips)
  next
    case (Cons i rest)
    then have "i \<in> set (filter (name_matches lower q s) [0..<List.length (entries s)])" by simp
    then have "i < List.length (entries s)" "name_matches lower q s i" by auto
    with Cons s1 show ?thesis
      by (simp add: current_entry_filtered vec_get_def)
  qed
qed

definition demo_entry :: file_entry where
  "demo_entry = \<lparr>fe_name = lit ''a'', fe_path = [lit ''tmp'', lit ''a''], fe_type = File 1 None\<rparr>"

definition demo_explorer :: "nat \<Rightarrow> explorer" where
  "demo_explorer n =
     \<lparr>current_dir = [lit ''tmp''], root_jail = demo_home, entries = replicate n demo_entry, cursor_index = 0,
      scroll = 0, selected_files = {}, mode = Browser, search_query = [], filtered_indices = None,
      error = None, show_hidden = False, history = []\<rparr>"

theorem paging_is_stepping_witness:
  "cursor_index (fe_page_down 25 (demo_explorer 30)) = cursor_index ((fe_cursor_down ^^ 25) (demo_explorer 30)) \<and>
   cursor_index (fe_page_down 25 (demo_explorer 30)) = 25 \<and> cursor_in_window (fe_page_down 25 (demo_explorer 30))"
proof -
  have "cursor_index (demo_explorer 30) < visible_count (demo_explorer 30)"
    "visible_count (demo_explorer 30) < 65536" "unat (scroll (demo_explorer 30)) < 65516"
    by (simp_all add: demo_explorer_def visible_count_def)
  moreover have "cursor_index (fe_page_down 25 (demo_explorer 30)) = 25"
    by (simp add: fe_page_down_def demo_explorer_def visible_count_def)
  ultimately show ?thesis using paging_is_stepping [of "demo_explorer 30" 25] by simp
qed

theorem search_current_entry_witness:
  "visible_count (update_search id (lit ''z'') (demo_explorer 3)) = 0 \<and>
   current_entry (update_search id (lit ''z'') (demo_explorer 3)) = Some demo_entry \<and>
   is_selected (fe_path demo_entry) (toggle_selection (update_search id (lit ''z'') (demo_explorer 3)))"
proof -
  have no: "\<not> name_matches id (lit ''z'') (demo_explorer 3) i" if "i < 3" for i
    using that by (simp add: name_matches_def demo_explorer_def demo_entry_def lit_def str_contains_def)
  have es: "entries (demo_explorer 3) = [demo_entry, demo_entry, demo_entry]"
    by (simp add: demo_explorer_def numeral_3_eq_3)
  have f: "filter (name_matches id (lit ''z'') (demo_explorer 3)) [0..<List.length (entries (demo_explorer 3))] = []"
    using no es by (auto simp: filter_empty_conv)
  have q: "lit ''z'' \<noteq> []" by (simp add: lit_def)
  have "is_file demo_entry" "\<not> is_selected (fe_path demo_entry) (demo_explorer 3)"
    by (simp_all add: is_file_def demo_entry_def is_selected_def demo_explorer_def)
  with search_current_entry [OF q refl, where lower = id and s = "demo_explorer 3", unfolded f] es
  show ?thesis by simp
qed

end
