(* ===== verification/GitScm.thy ===== *)
theory GitScm
  imports Process
begin

text \<open>
  The git panel of the user interface, \<^verbatim>\<open>apps/cli/src/tui/app/git_scm.rs\<close>: the parsing of
  \<^verbatim>\<open>git status --porcelain=v1\<close> and of the branch information, cursor and selection in the three
  panels, and the git actions. The world (git, the clock, the files) is the record \<open>git_env\<close>; an
  operation is a computation over the pair of the panel's state and the world.
\<close>

section \<open>State\<close>

datatype git_file_status =
    Modified | Staged | StagedModified | Untracked | Deleted | StagedDeleted | Renamed | Copied | Conflict | Ignored

fun indicator :: "git_file_status \<Rightarrow> rstr" where
  "indicator Modified = lit '' M''"
| "indicator Staged = lit ''M ''"
| "indicator StagedModified = lit ''MM''"
| "indicator Untracked = lit ''??''"
| "indicator Deleted = lit '' D''"
| "indicator StagedDeleted = lit ''D ''"
| "indicator Renamed = lit ''R ''"
| "indicator Copied = lit ''C ''"
| "indicator Conflict = lit ''UU''"
| "indicator Ignored = lit ''!!''"

record git_file_entry =
  gf_path :: rstr
  gf_status :: git_file_status
  gf_original :: "rstr option"
  gf_selected :: bool

datatype scm_panel = PStaged | PChanges | PUntracked

datatype git_action = Push | Pull | Fetch | Commit | ResetHard | DiscardAll | Discard "rstr list"

datatype git_mode = Browse | CommitMessage | Confirm rstr git_action

record git_scm =
  repo_root :: rstr
  current_branch :: rstr
  upstream_branch :: "rstr option"
  ahead :: nat
  behind :: nat
  staged_files :: "git_file_entry list"
  changed_files :: "git_file_entry list"
  untracked_files :: "git_file_entry list"
  current_panel :: scm_panel
  cursor_index :: nat
  scroll :: "16 word"
  mode :: git_mode
  commit_message :: rstr
  status_message :: "rstr option"
  error_message :: "rstr option"
  last_refresh :: nat

section \<open>Commands over the state and the world\<close>

text \<open>A fault of an operation: an error it returns, or a panic.\<close>

datatype fault = Fail rstr | Panic

record 'w git_env =
  ge_run :: "rstr list \<Rightarrow> rstr option \<Rightarrow> 'w \<Rightarrow> (rstr + cmd_output) \<times> 'w"
  ge_now :: "'w \<Rightarrow> nat"
  ge_read :: "rstr \<Rightarrow> rstr \<Rightarrow> 'w \<Rightarrow> rstr + rstr"

type_synonym ('w, 'a) git_op = "git_scm \<times> 'w \<Rightarrow> (fault + 'a) \<times> (git_scm \<times> 'w)"

definition upd :: "(git_scm \<Rightarrow> git_scm) \<Rightarrow> ('w, unit) git_op" where
  "upd f sw = (Inr (), (f (fst sw), snd sw))"

definition get :: "('w, git_scm) git_op" where
  "get sw = (Inr (fst sw), sw)"

text \<open>\<^verbatim>\<open>Command::new("git").args(args).current_dir(&self.repo_root).output()?\<close>\<close>

definition git :: "'w git_env \<Rightarrow> rstr list \<Rightarrow> ('w, cmd_output) git_op" where
  "git E args sw =
     (case ge_run E args (Some (repo_root (fst sw))) (snd sw) of
        (Inl e, w) \<Rightarrow> (Inl (Fail e), (fst sw, w))
      | (Inr out, w) \<Rightarrow> (Inr out, (fst sw, w)))"

section \<open>Branch information\<close>

definition parse_usize :: "rstr \<Rightarrow> nat option" where
  "parse_usize = parse_decimal (2 ^ 64)"

definition or_zero :: "nat option \<Rightarrow> nat" where
  "or_zero x = (case x of Some n \<Rightarrow> n | None \<Rightarrow> 0)"

definition apply_counts :: "rstr \<Rightarrow> git_scm \<Rightarrow> git_scm" where
  "apply_counts out s =
     (case split_ws out of
        [b, a] \<Rightarrow> s\<lparr>behind := or_zero (parse_usize b), ahead := or_zero (parse_usize a)\<rparr>
      | _ \<Rightarrow> s)"

definition refresh_branch_info :: "'w git_env \<Rightarrow> ('w, unit) git_op" where
  "refresh_branch_info E =
     io_then (git E [lit ''branch'', lit ''--show-current'']) (\<lambda>out.
     io_then (upd (\<lambda>s. s\<lparr>current_branch := trim (co_stdout out)\<rparr>)) (\<lambda>_.
     io_then get (\<lambda>s.
     io_then
       (if current_branch s = [] then
          io_then (git E [lit ''rev-parse'', lit ''--short'', lit ''HEAD'']) (\<lambda>out2.
            upd (\<lambda>s. s\<lparr>current_branch := lit ''HEAD:'' @ trim (co_stdout out2)\<rparr>))
        else io_ret ()) (\<lambda>_.
     io_then (git E [lit ''rev-parse'', lit ''--abbrev-ref'', lit (''@'' @ ''{u}'')]) (\<lambda>up.
       if co_success up then
         io_then (upd (\<lambda>s. s\<lparr>upstream_branch := Some (trim (co_stdout up))\<rparr>)) (\<lambda>_.
         io_then (git E [lit ''rev-list'', lit ''--left-right'', lit ''--count'', lit (''@'' @ ''{u}...HEAD'')]) (\<lambda>counts.
           if co_success counts then upd (apply_counts (co_stdout counts)) else io_ret ()))
       else upd (\<lambda>s. s\<lparr>upstream_branch := None, ahead := 0, behind := 0\<rparr>))))))"

section \<open>File status\<close>

text \<open>
  The panels a status pair puts its file in, with the status shown there, in the order of the arms of
  the \<^verbatim>\<open>match\<close>; the codes are the letters of \<^verbatim>\<open>git status\<close>.
\<close>

abbreviation (input) cS :: rchar where "cS \<equiv> 32"
abbreviation (input) cM :: rchar where "cM \<equiv> 77"
abbreviation (input) cA :: rchar where "cA \<equiv> 65"
abbreviation (input) cD :: rchar where "cD \<equiv> 68"
abbreviation (input) cR :: rchar where "cR \<equiv> 82"
abbreviation (input) cC :: rchar where "cC \<equiv> 67"
abbreviation (input) cU :: rchar where "cU \<equiv> 85"
abbreviation (input) cT :: rchar where "cT \<equiv> 84"
abbreviation (input) cQ :: rchar where "cQ \<equiv> 63"
abbreviation (input) cX :: rchar where "cX \<equiv> 33"

definition placements :: "rchar \<Rightarrow> rchar \<Rightarrow> (scm_panel \<times> git_file_status) list" where
  "placements x y =
     (if (x, y) = (cQ, cQ) then [(PUntracked, Untracked)]
      else if (x, y) = (cX, cX) then []
      else if (x, y) \<in> {(cM, cS), (cA, cS)} then [(PStaged, Staged)]
      else if (x, y) = (cM, cM) then [(PStaged, StagedModified), (PChanges, Modified)]
      else if (x, y) = (cS, cM) then [(PChanges, Modified)]
      else if (x, y) = (cD, cS) then [(PStaged, StagedDeleted)]
      else if (x, y) = (cS, cD) then [(PChanges, Deleted)]
      else if (x, y) \<in> {(cR, cS), (cR, cM)} then [(PStaged, Renamed)]
      else if (x, y) = (cC, cS) then [(PStaged, Copied)]
      else if (x, y) \<in> {(cU, cU), (cA, cA), (cD, cD), (cA, cU), (cU, cA), (cD, cU), (cU, cD)}
      then [(PChanges, Conflict)]
      else if y \<noteq> cS then [(PChanges, Modified)] else [])"

fun push_entry :: "rstr \<Rightarrow> rstr option \<Rightarrow> scm_panel \<times> git_file_status \<Rightarrow> git_scm \<Rightarrow> git_scm" where
  "push_entry p orig (PStaged, st) s =
     s\<lparr>staged_files := staged_files s @ [\<lparr>gf_path = p, gf_status = st, gf_original = orig, gf_selected = False\<rparr>]\<rparr>"
| "push_entry p orig (PChanges, st) s =
     s\<lparr>changed_files := changed_files s @ [\<lparr>gf_path = p, gf_status = st, gf_original = orig, gf_selected = False\<rparr>]\<rparr>"
| "push_entry p orig (PUntracked, st) s =
     s\<lparr>untracked_files := untracked_files s @ [\<lparr>gf_path = p, gf_status = st, gf_original = orig, gf_selected = False\<rparr>]\<rparr>"

text \<open>\<^verbatim>\<open>old -> new\<close>: the first two pieces of the split at the arrow are the old and the new path.\<close>

definition arrow :: rstr where
  "arrow = lit '' -> ''"

definition split_paths :: "rstr \<Rightarrow> rstr \<times> rstr option" where
  "split_paths s =
     (case find_cut arrow s of
        Some (old, rest) \<Rightarrow> ((case find_cut arrow rest of Some (new, later) \<Rightarrow> new | None \<Rightarrow> rest), Some old)
      | None \<Rightarrow> (s, None))"

text \<open>One line of the status; \<open>None\<close> where the slice \<^verbatim>\<open>&line[3..]\<close> panics.\<close>

definition add_status_line :: "rstr \<Rightarrow> git_scm \<Rightarrow> git_scm option" where
  "add_status_line line s =
     (if blen line < 4 then Some s
      else let x = (case line of c # _ \<Rightarrow> c | [] \<Rightarrow> cS);
               y = (case line of _ # c # _ \<Rightarrow> c | _ \<Rightarrow> cS) in
           (case split_byte 3 line of
              None \<Rightarrow> None
            | Some (_, path_part) \<Rightarrow>
                (case split_paths path_part of
                   (p, orig) \<Rightarrow> Some (fold (push_entry p orig) (placements x y) s))))"

fun add_status_lines :: "rstr list \<Rightarrow> git_scm \<Rightarrow> git_scm option" where
  "add_status_lines [] s = Some s"
| "add_status_lines (l # ls) s =
     (case add_status_line l s of None \<Rightarrow> None | Some s1 \<Rightarrow> add_status_lines ls s1)"

fun panel_list :: "scm_panel \<Rightarrow> git_scm \<Rightarrow> git_file_entry list" where
  "panel_list PStaged s = staged_files s"
| "panel_list PChanges s = changed_files s"
| "panel_list PUntracked s = untracked_files s"

definition current_list :: "git_scm \<Rightarrow> git_file_entry list" where
  "current_list s = panel_list (current_panel s) s"

definition gs_adjust_cursor :: "git_scm \<Rightarrow> git_scm" where
  "gs_adjust_cursor s =
     (let len = List.length (current_list s) in
      if len = 0 then s\<lparr>cursor_index := 0\<rparr>
      else if len \<le> cursor_index s then s\<lparr>cursor_index := len - 1\<rparr>
      else s)"

definition refresh_file_status :: "'w git_env \<Rightarrow> ('w, unit) git_op" where
  "refresh_file_status E =
     io_then (upd (\<lambda>s. s\<lparr>staged_files := [], changed_files := [], untracked_files := []\<rparr>)) (\<lambda>_.
     io_then (git E [lit ''status'', lit ''--porcelain=v1'']) (\<lambda>out sw.
       case add_status_lines (str_lines (co_stdout out)) (fst sw) of
         None \<Rightarrow> (Inl Panic, sw)
       | Some s \<Rightarrow> (Inr (), (gs_adjust_cursor s, snd sw))))"

definition gs_refresh :: "'w git_env \<Rightarrow> ('w, unit) git_op" where
  "gs_refresh E =
     io_then (refresh_branch_info E) (\<lambda>_.
     io_then (refresh_file_status E) (\<lambda>_ sw.
       (Inr (), ((fst sw)\<lparr>last_refresh := ge_now E (snd sw), error_message := None\<rparr>, snd sw))))"

section \<open>Cursor, panels and selection\<close>

definition gs_adjust_scroll :: "git_scm \<Rightarrow> git_scm" where
  "gs_adjust_scroll s = s\<lparr>scroll := scroll_into_view 15 (cursor_index s) (scroll s)\<rparr>"

definition gs_cursor_up :: "git_scm \<Rightarrow> git_scm" where
  "gs_cursor_up s =
     gs_adjust_scroll (if 0 < cursor_index s then s\<lparr>cursor_index := cursor_index s - 1\<rparr> else s)"

definition gs_cursor_down :: "git_scm \<Rightarrow> git_scm" where
  "gs_cursor_down s =
     gs_adjust_scroll (if cursor_index s + 1 < List.length (current_list s)
                       then s\<lparr>cursor_index := cursor_index s + 1\<rparr> else s)"

definition gs_page_up :: "nat \<Rightarrow> git_scm \<Rightarrow> git_scm" where
  "gs_page_up n s = gs_adjust_scroll (s\<lparr>cursor_index := cursor_index s - n\<rparr>)"

definition gs_page_down :: "nat \<Rightarrow> git_scm \<Rightarrow> git_scm" where
  "gs_page_down n s =
     gs_adjust_scroll (s\<lparr>cursor_index := min (cursor_index s + n) (List.length (current_list s) - 1)\<rparr>)"

fun panel_next :: "scm_panel \<Rightarrow> scm_panel" where
  "panel_next PStaged = PChanges"
| "panel_next PChanges = PUntracked"
| "panel_next PUntracked = PStaged"

fun panel_prev :: "scm_panel \<Rightarrow> scm_panel" where
  "panel_prev PStaged = PUntracked"
| "panel_prev PChanges = PStaged"
| "panel_prev PUntracked = PChanges"

definition next_panel :: "git_scm \<Rightarrow> git_scm" where
  "next_panel s = s\<lparr>current_panel := panel_next (current_panel s), cursor_index := 0, scroll := 0\<rparr>"

definition prev_panel :: "git_scm \<Rightarrow> git_scm" where
  "prev_panel s = s\<lparr>current_panel := panel_prev (current_panel s), cursor_index := 0, scroll := 0\<rparr>"

text \<open>\<^verbatim>\<open>current_list_mut\<close>: the list of the current panel, updated in place.\<close>

definition map_current :: "(git_file_entry list \<Rightarrow> git_file_entry list) \<Rightarrow> git_scm \<Rightarrow> git_scm" where
  "map_current f s =
     (case current_panel s of
        PStaged \<Rightarrow> s\<lparr>staged_files := f (staged_files s)\<rparr>
      | PChanges \<Rightarrow> s\<lparr>changed_files := f (changed_files s)\<rparr>
      | PUntracked \<Rightarrow> s\<lparr>untracked_files := f (untracked_files s)\<rparr>)"

definition gs_toggle_selection :: "git_scm \<Rightarrow> git_scm" where
  "gs_toggle_selection s =
     map_current (\<lambda>l. if cursor_index s < List.length l
                      then l[cursor_index s := (l ! cursor_index s)\<lparr>gf_selected := \<not> gf_selected (l ! cursor_index s)\<rparr>]
                      else l) s"

definition gs_select_all :: "git_scm \<Rightarrow> git_scm" where
  "gs_select_all = map_current (map (\<lambda>e. e\<lparr>gf_selected := True\<rparr>))"

definition gs_clear_selection :: "git_scm \<Rightarrow> git_scm" where
  "gs_clear_selection = map_current (map (\<lambda>e. e\<lparr>gf_selected := False\<rparr>))"

definition gs_current_entry :: "git_scm \<Rightarrow> git_file_entry option" where
  "gs_current_entry s = vec_get (current_list s) (cursor_index s)"

definition clear_messages :: "git_scm \<Rightarrow> git_scm" where
  "clear_messages s = s\<lparr>status_message := None, error_message := None\<rparr>"

definition start_commit :: "git_scm \<Rightarrow> git_scm" where
  "start_commit s =
     (if staged_files s = [] then s\<lparr>error_message := Some (lit ''Nothing staged to commit'')\<rparr>
      else s\<lparr>mode := CommitMessage, commit_message := []\<rparr>)"

definition cancel_operation :: "git_scm \<Rightarrow> git_scm" where
  "cancel_operation s = s\<lparr>mode := Browse, commit_message := []\<rparr>"

section \<open>Actions\<close>

text \<open>
  The shape of every action: run git, store a message by its exit status, refresh. \<open>fail\<close> is the
  prefix of the error message, \<open>ok\<close> what a success does to the state.
\<close>

definition git_action_op :: "'w git_env \<Rightarrow> rstr list \<Rightarrow> rstr \<Rightarrow> (cmd_output \<Rightarrow> git_scm \<Rightarrow> git_scm) \<Rightarrow> ('w, unit) git_op" where
  "git_action_op E args fail ok =
     io_then (git E args) (\<lambda>out.
     io_then (upd (if \<not> co_success out then (\<lambda>s. s\<lparr>error_message := Some (fail @ co_stderr out)\<rparr>) else ok out)) (\<lambda>_.
     gs_refresh E))"

definition set_status :: "rstr \<Rightarrow> cmd_output \<Rightarrow> git_scm \<Rightarrow> git_scm" where
  "set_status msg out s = s\<lparr>status_message := Some msg\<rparr>"

definition count_files :: "string \<Rightarrow> 'a list \<Rightarrow> rstr" where
  "count_files verb fs = lit verb @ lit '' '' @ show_nat (List.length fs) @ lit '' file(s)''"

text \<open>The selected files of the current panel, or the one under the cursor when none is selected.\<close>

definition chosen_files :: "git_scm \<Rightarrow> rstr list" where
  "chosen_files s =
     (let sel = map gf_path (filter gf_selected (current_list s)) in
      if sel = [] then (case vec_get (current_list s) (cursor_index s) of Some e \<Rightarrow> [gf_path e] | None \<Rightarrow> [])
      else sel)"

definition stage_files :: "'w git_env \<Rightarrow> rstr list \<Rightarrow> ('w, unit) git_op" where
  "stage_files E files =
     (if files = [] then io_ret ()
      else git_action_op E ([lit ''add'', lit ''--''] @ files) (lit ''Failed to stage: '')
             (set_status (count_files ''Staged'' files)))"

definition unstage_files :: "'w git_env \<Rightarrow> rstr list \<Rightarrow> ('w, unit) git_op" where
  "unstage_files E files =
     (if files = [] then io_ret ()
      else git_action_op E ([lit ''reset'', lit ''HEAD'', lit ''--''] @ files) (lit ''Failed to unstage: '')
             (set_status (count_files ''Unstaged'' files)))"

definition discard_files :: "'w git_env \<Rightarrow> rstr list \<Rightarrow> ('w, unit) git_op" where
  "discard_files E files =
     (if files = [] then io_ret ()
      else git_action_op E ([lit ''checkout'', lit ''--''] @ files) (lit ''Failed to discard: '')
             (set_status (count_files ''Discarded'' files)))"

definition stage_current :: "'w git_env \<Rightarrow> ('w, unit) git_op" where
  "stage_current E =
     io_then get (\<lambda>s. if current_panel s = PStaged then io_ret () else stage_files E (chosen_files s))"

definition unstage_current :: "'w git_env \<Rightarrow> ('w, unit) git_op" where
  "unstage_current E =
     io_then get (\<lambda>s. if current_panel s = PStaged then unstage_files E (chosen_files s) else io_ret ())"

definition discard_current :: "'w git_env \<Rightarrow> ('w, unit) git_op" where
  "discard_current E =
     io_then get (\<lambda>s.
       case (if current_panel s = PChanges then gs_current_entry s else None) of
         None \<Rightarrow> io_ret ()
       | Some e \<Rightarrow> git_action_op E [lit ''checkout'', lit ''--'', gf_path e] (lit ''Failed to discard: '')
                     (set_status (lit ''Discarded changes to '' @ gf_path e)))"

definition stage_all :: "'w git_env \<Rightarrow> ('w, unit) git_op" where
  "stage_all E = git_action_op E [lit ''add'', lit ''-A''] (lit ''Failed to stage all: '') (set_status (lit ''Staged all changes''))"

definition unstage_all :: "'w git_env \<Rightarrow> ('w, unit) git_op" where
  "unstage_all E =
     git_action_op E [lit ''reset'', lit ''HEAD''] (lit ''Failed to unstage all: '') (set_status (lit ''Unstaged all changes''))"

definition git_push :: "'w git_env \<Rightarrow> ('w, unit) git_op" where
  "git_push E = git_action_op E [lit ''push''] (lit ''Push failed: '') (set_status (lit ''Pushed successfully''))"

definition git_pull :: "'w git_env \<Rightarrow> ('w, unit) git_op" where
  "git_pull E =
     git_action_op E [lit ''pull''] (lit ''Pull failed: '')
       (\<lambda>out. set_status (if str_contains (co_stdout out) (lit ''Already up to date'') then lit ''Already up to date''
                          else lit ''Pulled successfully'') out)"

definition git_fetch :: "'w git_env \<Rightarrow> ('w, unit) git_op" where
  "git_fetch E = git_action_op E [lit ''fetch''] (lit ''Fetch failed: '') (set_status (lit ''Fetched successfully''))"

definition do_commit :: "'w git_env \<Rightarrow> ('w, unit) git_op" where
  "do_commit E =
     io_then get (\<lambda>s.
       if trim (commit_message s) = [] then
         upd (\<lambda>s. s\<lparr>error_message := Some (lit ''Commit message cannot be empty'')\<rparr>)
       else
         io_then (git E [lit ''commit'', lit ''-m'', commit_message s]) (\<lambda>out.
         io_then (upd (if \<not> co_success out
                       then (\<lambda>s. s\<lparr>error_message := Some (lit ''Commit failed: '' @ co_stderr out)\<rparr>)
                       else (\<lambda>s. s\<lparr>status_message := Some (lit ''Committed successfully''), commit_message := []\<rparr>))) (\<lambda>_.
         io_then (upd (\<lambda>s. s\<lparr>mode := Browse\<rparr>)) (\<lambda>_.
         gs_refresh E))))"

definition execute_action :: "'w git_env \<Rightarrow> git_action \<Rightarrow> ('w, unit) git_op" where
  "execute_action E a =
     io_then
       (case a of
          Push \<Rightarrow> git_push E
        | Pull \<Rightarrow> git_pull E
        | Fetch \<Rightarrow> git_fetch E
        | Commit \<Rightarrow> do_commit E
        | Discard fs \<Rightarrow> discard_files E fs
        | ResetHard \<Rightarrow> upd (\<lambda>s. s\<lparr>error_message := Some (lit ''Operation not implemented'')\<rparr>)
        | DiscardAll \<Rightarrow> upd (\<lambda>s. s\<lparr>error_message := Some (lit ''Operation not implemented'')\<rparr>))
       (\<lambda>_. upd (\<lambda>s. s\<lparr>mode := Browse\<rparr>))"

definition find_repo_root :: "'w git_env \<Rightarrow> 'w \<Rightarrow> (fault + rstr) \<times> 'w" where
  "find_repo_root E w =
     (case ge_run E [lit ''rev-parse'', lit ''--show-toplevel''] None w of
        (Inl e, w1) \<Rightarrow> (Inl (Fail (lit ''Failed to run git rev-parse'')), w1)
      | (Inr out, w1) \<Rightarrow>
          (if \<not> co_success out then Inl (Fail (lit ''Not in a git repository'')) else Inr (trim (co_stdout out)), w1))"

definition gs_new :: "'w git_env \<Rightarrow> 'w \<Rightarrow> (fault + git_scm) \<times> 'w" where
  "gs_new E w =
     (case find_repo_root E w of
        (Inl e, w1) \<Rightarrow> (Inl e, w1)
      | (Inr root, w1) \<Rightarrow>
          (case gs_refresh E
             (\<lparr>repo_root = root, current_branch = [], upstream_branch = None, ahead = 0, behind = 0,
               staged_files = [], changed_files = [], untracked_files = [], current_panel = PChanges,
               cursor_index = 0, scroll = 0, mode = Browse, commit_message = [], status_message = None,
               error_message = None, last_refresh = ge_now E w1\<rparr>, w1) of
             (Inl e, (s, w2)) \<Rightarrow> (Inl e, w2)
           | (Inr _, (s, w2)) \<Rightarrow> (Inr s, w2)))"

definition get_current_diff :: "'w git_env \<Rightarrow> ('w, rstr) git_op" where
  "get_current_diff E =
     io_then get (\<lambda>s.
       case gs_current_entry s of
         None \<Rightarrow> io_ret []
       | Some e \<Rightarrow>
           (case current_panel s of
              PStaged \<Rightarrow> io_then (git E [lit ''diff'', lit ''--cached'', lit ''--'', gf_path e]) (\<lambda>out. io_ret (co_stdout out))
            | PChanges \<Rightarrow> io_then (git E [lit ''diff'', lit ''--'', gf_path e]) (\<lambda>out. io_ret (co_stdout out))
            | PUntracked \<Rightarrow> (\<lambda>sw. case ge_read E (repo_root s) (gf_path e) (snd sw) of
                                    Inl err \<Rightarrow> (Inl (Fail (lit ''Failed to read file: '' @ err)), sw)
                                  | Inr txt \<Rightarrow> (Inr txt, sw))))"

section \<open>Panels and cursor\<close>

lemma gs_adjust_scroll_keeps [simp]:
  "cursor_index (gs_adjust_scroll s) = cursor_index s"
  "current_list (gs_adjust_scroll s) = current_list s"
  by (cases "current_panel s"; simp add: gs_adjust_scroll_def current_list_def)+

lemma current_list_cursor [simp]: "current_list (s\<lparr>cursor_index := c\<rparr>) = current_list s"
  by (cases "current_panel s") (simp_all add: current_list_def)

interpretation gsc: paged_cursor "\<lambda>s. List.length (current_list s)" cursor_index gs_cursor_up gs_cursor_down gs_page_up gs_page_down
  by unfold_locales (auto simp: gs_cursor_up_def gs_cursor_down_def gs_page_up_def gs_page_down_def)

interpretation gsp: focus_ring panel_next panel_prev "\<lambda>p. True"
  by unfold_locales (auto elim: panel_next.elims panel_prev.elims, (case_tac f; simp)+)

lemma adjust_cursor_bound:
  "current_list (gs_adjust_cursor s) \<noteq> [] \<Longrightarrow> cursor_index (gs_adjust_cursor s) < List.length (current_list (gs_adjust_cursor s))"
  by (auto simp: gs_adjust_cursor_def Let_def split: if_splits)

section \<open>Status codes\<close>

text \<open>
  What the two letters mean in the documentation of \<^verbatim>\<open>git status\<close>: except for untracked, ignored and
  unmerged files, the first letter is the staged change and the second the change of the work tree,
  a space meaning none. \<open>status_pairs\<close> are the pairs version 1 of the format prints.
\<close>

definition unmerged :: "rchar \<Rightarrow> rchar \<Rightarrow> bool" where
  "unmerged x y \<longleftrightarrow> x = cU \<or> y = cU \<or> x = cA \<and> y = cA \<or> x = cD \<and> y = cD"

definition meaning :: "rchar \<times> rchar \<Rightarrow> scm_panel list" where
  "meaning = (\<lambda>(x, y).
     if (x, y) = (cQ, cQ) then [PUntracked]
     else if (x, y) = (cX, cX) then []
     else if unmerged x y then [PChanges]
     else (if x \<noteq> cS then [PStaged] else []) @ (if y \<noteq> cS then [PChanges] else []))"

definition status_pairs :: "(rchar \<times> rchar) list" where
  "status_pairs =
     [(cQ, cQ), (cX, cX), (cD, cD), (cA, cU), (cU, cD), (cU, cA), (cD, cU), (cA, cA), (cU, cU), (cD, cS),
      (cS, cA), (cS, cM), (cS, cT), (cS, cD), (cS, cR), (cS, cC)] @
     concat (map (\<lambda>x. map (\<lambda>y. (x, y)) [cS, cM, cT, cD]) [cM, cT, cA, cR, cC])"

definition misplaced :: "(rchar \<times> rchar) list" where
  "misplaced =
     [(cM, cT), (cM, cD), (cT, cS), (cT, cM), (cT, cT), (cT, cD), (cA, cM), (cA, cT), (cA, cD),
      (cR, cM), (cR, cT), (cR, cD), (cC, cM), (cC, cT), (cC, cD)]"

text \<open>
  The panels show a file where git says its changes are, for exactly the status pairs outside
  \<open>misplaced\<close>: for those, among them a new file edited after staging (\<^verbatim>\<open>AM\<close>) and a staged type change
  (\<^verbatim>\<open>T\<close>), a panel that should list the file does not.
\<close>

theorem placements_meaning:
  "filter (\<lambda>(x, y). map fst (placements x y) \<noteq> meaning (x, y)) status_pairs =
     filter (\<lambda>p. p \<in> set misplaced) status_pairs \<and>
   filter (\<lambda>(x, y). set (map fst (placements x y)) \<subseteq> set (meaning (x, y))) status_pairs = status_pairs \<and>
   (PStaged, Staged) \<notin> set (placements cA cM)"
  by code_simp

section \<open>Failed actions\<close>

definition same_prompt :: "git_scm \<Rightarrow> git_scm \<Rightarrow> bool" where
  "same_prompt s s1 \<longleftrightarrow> status_message s1 = status_message s \<and> commit_message s1 = commit_message s \<and>
     mode s1 = mode s \<and> repo_root s1 = repo_root s \<and> current_panel s1 = current_panel s"

lemma same_prompt_refl: "same_prompt s s"
  by (simp add: same_prompt_def)

lemma same_prompt_trans: "same_prompt s s1 \<Longrightarrow> same_prompt s1 s2 \<Longrightarrow> same_prompt s s2"
  by (simp add: same_prompt_def)

lemma git_Inr: "git E args (s, w) = (Inr out, (s1, w1)) \<longleftrightarrow> s1 = s \<and> ge_run E args (Some (repo_root s)) w = (Inr out, w1)"
  by (auto simp: git_def split: prod.splits sum.splits)

lemma upd_Inr: "upd f (s, w) = (Inr u, (s1, w1)) \<longleftrightarrow> s1 = f s \<and> w1 = w"
  by (auto simp: upd_def)

lemma get_Inr: "get (s, w) = (Inr x, (s1, w1)) \<longleftrightarrow> x = s \<and> s1 = s \<and> w1 = w"
  by (auto simp: get_def)

lemmas op_Inr = io_then_Inr_iff git_Inr upd_Inr get_Inr

lemma apply_counts_prompt: "same_prompt s (apply_counts out s)"
  by (auto simp: apply_counts_def same_prompt_def split: list.splits)

text \<open>Computations that leave the prompt alone, closed under sequencing.\<close>

definition keeps_prompt :: "('w, 'a) git_op \<Rightarrow> bool" where
  "keeps_prompt m \<longleftrightarrow> (\<forall>s w x s1 w1. m (s, w) = (Inr x, (s1, w1)) \<longrightarrow> same_prompt s s1)"

lemma keeps_promptD: "keeps_prompt m \<Longrightarrow> m (s, w) = (Inr x, (s1, w1)) \<Longrightarrow> same_prompt s s1"
  unfolding keeps_prompt_def by blast

named_theorems prompt_intros "introduction rules for computations that keep the prompt"

lemma keeps_then [prompt_intros]:
  assumes "keeps_prompt m" and "\<And>x. keeps_prompt (k x)"
  shows "keeps_prompt (io_then m k)"
  unfolding keeps_prompt_def
proof (intro allI impI)
  fix s w x s1 w1
  assume "io_then m k (s, w) = (Inr x, (s1, w1))"
  then obtain y s2 w2 where "m (s, w) = (Inr y, (s2, w2))" "k y (s2, w2) = (Inr x, (s1, w1))"
    by (auto simp: io_then_Inr_iff)
  with assms show "same_prompt s s1" unfolding keeps_prompt_def by (blast intro: same_prompt_trans)
qed

lemma keeps_git [prompt_intros]: "keeps_prompt (git E args)"
  by (auto simp: keeps_prompt_def git_Inr same_prompt_def)

lemma keeps_get [prompt_intros]: "keeps_prompt get"
  by (auto simp: keeps_prompt_def get_Inr same_prompt_def)

lemma keeps_ret [prompt_intros]: "keeps_prompt (io_ret x)"
  by (auto simp: keeps_prompt_def same_prompt_def)

lemma keeps_upd [prompt_intros]: "(\<And>s. same_prompt s (f s)) \<Longrightarrow> keeps_prompt (upd f)"
  by (auto simp: keeps_prompt_def upd_Inr)

lemma keeps_if [prompt_intros]:
  "(c \<Longrightarrow> keeps_prompt m) \<Longrightarrow> (\<not> c \<Longrightarrow> keeps_prompt n) \<Longrightarrow> keeps_prompt (if c then m else n)"
  by simp

lemma branch_info_prompt: "keeps_prompt (refresh_branch_info E)"
  unfolding refresh_branch_info_def
  by (intro prompt_intros apply_counts_prompt) (simp_all add: same_prompt_def)

lemma push_entry_prompt: "same_prompt s (push_entry p orig e s)"
  by (cases e; cases "fst e") (auto simp: same_prompt_def)

lemma push_entries_prompt: "same_prompt s (fold (push_entry p orig) es s)"
proof (induction es arbitrary: s)
  case (Cons e es)
  show ?case using same_prompt_trans [OF push_entry_prompt Cons.IH] by simp
qed (simp add: same_prompt_def)

lemma add_status_lines_prompt: "add_status_lines ls s = Some s1 \<Longrightarrow> same_prompt s s1"
proof (induction ls arbitrary: s)
  case (Cons l ls)
  then obtain s2 where s2: "add_status_line l s = Some s2" "add_status_lines ls s2 = Some s1"
    by (auto split: option.splits)
  from s2(1) have "same_prompt s s2"
    using push_entries_prompt same_prompt_refl
    by (auto simp: add_status_line_def Let_def split: if_splits option.splits prod.splits)
  from same_prompt_trans [OF this Cons.IH [OF s2(2)]] show ?case .
qed (simp add: same_prompt_def)

lemma file_status_prompt:
  assumes "refresh_file_status E (s, w) = (Inr (), (s1, w1))"
  shows "same_prompt s s1"
proof -
  obtain s2 out where "add_status_lines (str_lines out) (s\<lparr>staged_files := [], changed_files := [], untracked_files := []\<rparr>) = Some s2"
    and s1: "s1 = gs_adjust_cursor s2"
    using assms by (auto simp: refresh_file_status_def op_Inr split: option.splits)
  from add_status_lines_prompt [OF this(1)] show ?thesis
    by (auto simp: s1 same_prompt_def gs_adjust_cursor_def Let_def)
qed

lemma refresh_prompt:
  assumes "gs_refresh E (s, w) = (Inr (), (s1, w1))"
  shows "same_prompt s s1" and "error_message s1 = None"
proof -
  obtain s2 w2 s3 w3 where b: "refresh_branch_info E (s, w) = (Inr (), (s2, w2))"
    and f: "refresh_file_status E (s2, w2) = (Inr (), (s3, w3))"
    and s1: "s1 = s3\<lparr>last_refresh := ge_now E w3, error_message := None\<rparr>"
    using assms by (auto simp: gs_refresh_def op_Inr)
  from same_prompt_trans [OF keeps_promptD [OF branch_info_prompt b] file_status_prompt [OF f]]
  show "same_prompt s s1" by (simp add: s1 same_prompt_def)
  show "error_message s1 = None" by (simp add: s1)
qed

definition runs_git :: "git_action \<Rightarrow> git_scm \<Rightarrow> bool" where
  "runs_git a s =
     (case a of
        Push \<Rightarrow> True | Pull \<Rightarrow> True | Fetch \<Rightarrow> True
      | Commit \<Rightarrow> trim (commit_message s) \<noteq> []
      | Discard fs \<Rightarrow> fs \<noteq> []
      | ResetHard \<Rightarrow> False | DiscardAll \<Rightarrow> False)"

lemma action_op_outcome:
  assumes "git_action_op E args fl ok (s, w) = (Inr (), (s1, w1))"
  shows "error_message s1 = None \<and>
    (\<exists>out w2. ge_run E args (Some (repo_root s)) w = (Inr out, w2) \<and>
      (if co_success out then same_prompt (ok out s) s1 else same_prompt s s1))"
proof -
  obtain out w2 where run: "ge_run E args (Some (repo_root s)) w = (Inr out, w2)"
    and ref: "gs_refresh E ((if \<not> co_success out then (\<lambda>s. s\<lparr>error_message := Some (fl @ co_stderr out)\<rparr>) else ok out) s, w2)
      = (Inr (), (s1, w1))"
    using assms by (auto simp: git_action_op_def op_Inr split: if_splits)
  from refresh_prompt [OF ref] run show ?thesis
    by (auto simp: same_prompt_def split: if_splits)
qed

lemma do_commit_outcome:
  assumes "do_commit E (s, w) = (Inr (), (s1, w1))" and "trim (commit_message s) \<noteq> []"
  shows "error_message s1 = None \<and>
    (\<exists>out w2. ge_run E [lit ''commit'', lit ''-m'', commit_message s] (Some (repo_root s)) w = (Inr out, w2) \<and>
      (if co_success out then commit_message s1 = []
       else commit_message s1 = commit_message s \<and> status_message s1 = status_message s))"
proof -
  obtain out w2 where run: "ge_run E [lit ''commit'', lit ''-m'', commit_message s] (Some (repo_root s)) w = (Inr out, w2)"
    and ref: "gs_refresh E (((if \<not> co_success out
                       then (\<lambda>s. s\<lparr>error_message := Some (lit ''Commit failed: '' @ co_stderr out)\<rparr>)
                       else (\<lambda>s. s\<lparr>status_message := Some (lit ''Committed successfully''), commit_message := []\<rparr>)) s)
        \<lparr>mode := Browse\<rparr>, w2) = (Inr (), (s1, w1))"
    using assms by (auto simp: do_commit_def op_Inr split: if_splits)
  from refresh_prompt [OF ref] run show ?thesis
    by (auto simp: same_prompt_def split: if_splits)
qed

text \<open>
  An action whose git command fails is not reported: when the action returns normally, the panel
  has no error message, whatever the exit status, because the refresh that follows clears it; after a
  failure the status message is the old one, and a commit message is kept only then.
\<close>

theorem failed_action_silent:
  assumes "execute_action E a (s, w) = (Inr (), (s1, w1))" and "runs_git a s"
  shows "error_message s1 = None \<and> mode s1 = Browse \<and>
    (\<exists>args out w2. ge_run E args (Some (repo_root s)) w = (Inr out, w2) \<and>
      (co_success out \<or> status_message s1 = status_message s \<and> commit_message s1 = commit_message s) \<and>
      (if a = Commit then args = [lit ''commit'', lit ''-m'', commit_message s] else True))"
proof -
  obtain s2 where s1: "s1 = s2\<lparr>mode := Browse\<rparr>"
    and op: "(case a of Push \<Rightarrow> git_push E | Pull \<Rightarrow> git_pull E | Fetch \<Rightarrow> git_fetch E | Commit \<Rightarrow> do_commit E
        | Discard fs \<Rightarrow> discard_files E fs
        | _ \<Rightarrow> upd (\<lambda>s. s\<lparr>error_message := Some (lit ''Operation not implemented'')\<rparr>)) (s, w) = (Inr (), (s2, w1))"
    using assms(1) by (auto simp: execute_action_def op_Inr split: git_action.splits)
  have "error_message s2 = None \<and>
    (\<exists>args out w2. ge_run E args (Some (repo_root s)) w = (Inr out, w2) \<and>
      (co_success out \<or> status_message s2 = status_message s \<and> commit_message s2 = commit_message s) \<and>
      (if a = Commit then args = [lit ''commit'', lit ''-m'', commit_message s] else True))"
  proof (cases "a = Commit")
    case True
    with op assms(2) do_commit_outcome [of E s w s2 w1] show ?thesis
      by (fastforce simp: runs_git_def)
  next
    case False
    with op assms(2) obtain args fl ok where "git_action_op E args fl ok (s, w) = (Inr (), (s2, w1))"
      by (auto simp: runs_git_def git_push_def git_pull_def git_fetch_def discard_files_def split: git_action.splits)
    from action_op_outcome [OF this] False show ?thesis
      by (fastforce simp: same_prompt_def split: if_splits)
  qed
  with s1 show ?thesis by simp
qed

text \<open>A directory that is no longer a repository: every git command exits with an error.\<close>

definition demo_git :: "unit git_env" where
  "demo_git =
     \<lparr>ge_run = (\<lambda>args dir w. (Inr \<lparr>co_success = False, co_stdout = [], co_stderr = lit ''fatal''\<rparr>, w)),
      ge_now = (\<lambda>w. 0), ge_read = (\<lambda>r p w. Inl [])\<rparr>"

definition demo_scm :: git_scm where
  "demo_scm =
     \<lparr>repo_root = lit ''/r'', current_branch = [], upstream_branch = None, ahead = 0, behind = 0,
      staged_files = [], changed_files = [], untracked_files = [], current_panel = PStaged, cursor_index = 0,
      scroll = 0, mode = CommitMessage, commit_message = lit ''fix'', status_message = None, error_message = None,
      last_refresh = 0\<rparr>"

lemma demo_git_run: "git demo_git args (s, w) = (Inr \<lparr>co_success = False, co_stdout = [], co_stderr = lit ''fatal''\<rparr>, (s, w))"
  by (simp add: git_def demo_git_def)

lemma demo_refresh: "\<exists>s1. gs_refresh demo_git (s, ()) = (Inr (), (s1, ()))"
  by (simp add: gs_refresh_def refresh_branch_info_def refresh_file_status_def io_then_def io_ret_def demo_git_run
      upd_def get_def trim_def str_lines_def)

lemma demo_commit: "\<exists>s1. execute_action demo_git Commit (demo_scm, ()) = (Inr (), (s1, ()))"
proof -
  have "trim (commit_message demo_scm) \<noteq> []" by (simp add: demo_scm_def trim_def lit_def is_ws_def)
  moreover obtain s1 where "gs_refresh demo_git (demo_scm\<lparr>error_message := Some (lit ''Commit failed: '' @ lit ''fatal''),
      mode := Browse\<rparr>, ()) = (Inr (), (s1, ()))"
    using demo_refresh by blast
  ultimately show ?thesis
    by (simp add: execute_action_def do_commit_def io_then_def get_def upd_def demo_git_run)
qed

theorem failed_action_silent_witness:
  "\<exists>s1. execute_action demo_git Commit (demo_scm, ()) = (Inr (), (s1, ())) \<and>
     error_message s1 = None \<and> mode s1 = Browse \<and> status_message s1 = None"
proof -
  obtain s1 where run: "execute_action demo_git Commit (demo_scm, ()) = (Inr (), (s1, ()))"
    using demo_commit by blast
  have "runs_git Commit demo_scm" by (simp add: runs_git_def demo_scm_def trim_def lit_def is_ws_def)
  from failed_action_silent [OF run this] run show ?thesis
    by (auto simp: demo_git_def demo_scm_def)
qed

end
