(* ===== verification/TuiEvents.thy ===== *)
theory TuiEvents
  imports Prelude
begin

text \<open>
  Terminal events, \<^verbatim>\<open>apps/cli/src/tui/events.rs\<close>: the classification of keys and mouse events, and the
  task that turns what the terminal delivers into events, with its detection of pastes. A character is a
  code point, the modifiers of a key are a set. The task is a state machine over what its \<^verbatim>\<open>select!\<close> sees:
  terminal events, ticks and the timeout of the buffer; channels are the lists of what was sent.
\<close>

section \<open>Keys and events\<close>

datatype key_code =
  KChar rchar | KEnter | KEsc | KTab | KBackTab | KBackspace | KDelete | KUp | KDown | KLeft | KRight | KHome | KEnd
| KPageUp | KPageDown | KF nat | KOther nat

datatype modifier = Shift | Control | Alt | Super | Hyper | Meta

datatype mouse_kind = ScrollUp | ScrollDown | LeftDown | OtherMouse

datatype 'm event =
  Tick | Key key_code "modifier set" | Mouse mouse_kind "16 word" "16 word" | Resize "16 word" "16 word" | Paste rstr
| Ipc 'm | IpcDisconnected

fun keyed :: "(key_code \<Rightarrow> modifier set \<Rightarrow> bool) \<Rightarrow> 'm event \<Rightarrow> bool" where
  "keyed p (Key k ms) = p k ms"
| "keyed p e = False"

text \<open>A letter with Control and nothing else, a letter alone, and a key with any modifiers.\<close>

definition ctrl :: "string \<Rightarrow> 'm event \<Rightarrow> bool" where
  "ctrl c = keyed (\<lambda>k ms. k = KChar (hd (lit c)) \<and> ms = {Control})"

definition bare :: "key_code \<Rightarrow> 'm event \<Rightarrow> bool" where
  "bare key = keyed (\<lambda>k ms. k = key \<and> ms = {})"

definition any_mods :: "key_code \<Rightarrow> 'm event \<Rightarrow> bool" where
  "any_mods key = keyed (\<lambda>k ms. k = key)"

definition with_mods :: "key_code \<Rightarrow> (modifier set \<Rightarrow> bool) \<Rightarrow> 'm event \<Rightarrow> bool" where
  "with_mods key p = keyed (\<lambda>k ms. k = key \<and> p ms)"

section \<open>The bindings\<close>

definition is_quit :: "'m event \<Rightarrow> bool" where
  "is_quit = ctrl ''c''"

definition is_reverse_search :: "'m event \<Rightarrow> bool" where
  "is_reverse_search = ctrl ''r''"

definition is_session_picker :: "'m event \<Rightarrow> bool" where
  "is_session_picker = ctrl ''l''"

definition is_console_view :: "'m event \<Rightarrow> bool" where
  "is_console_view = ctrl ''d''"

definition is_task_viewer :: "'m event \<Rightarrow> bool" where
  "is_task_viewer = ctrl ''t''"

definition is_suspend :: "'m event \<Rightarrow> bool" where
  "is_suspend = ctrl ''z''"

definition is_plan_mode_toggle :: "'m event \<Rightarrow> bool" where
  "is_plan_mode_toggle = ctrl ''p''"

definition is_delete_to_start :: "'m event \<Rightarrow> bool" where
  "is_delete_to_start = ctrl ''u''"

definition is_delete_to_end :: "'m event \<Rightarrow> bool" where
  "is_delete_to_end = ctrl ''k''"

definition is_move_to_line_start :: "'m event \<Rightarrow> bool" where
  "is_move_to_line_start = ctrl ''a''"

definition is_move_to_line_end :: "'m event \<Rightarrow> bool" where
  "is_move_to_line_end = ctrl ''e''"

definition is_find :: "'m event \<Rightarrow> bool" where
  "is_find = ctrl ''f''"

definition is_replace :: "'m event \<Rightarrow> bool" where
  "is_replace = ctrl ''h''"

definition is_save :: "'m event \<Rightarrow> bool" where
  "is_save = ctrl ''s''"

definition is_ctrl_x :: "'m event \<Rightarrow> bool" where
  "is_ctrl_x = ctrl ''x''"

definition is_ctrl_o :: "'m event \<Rightarrow> bool" where
  "is_ctrl_o = ctrl ''o''"

definition is_git_scm :: "'m event \<Rightarrow> bool" where
  "is_git_scm = ctrl ''g''"

definition is_sub_agent_viewer :: "'m event \<Rightarrow> bool" where
  "is_sub_agent_viewer = ctrl ''b''"

definition is_copy :: "'m event \<Rightarrow> bool" where
  "is_copy = bare (KChar (hd (lit ''c'')))"

definition is_toggle_mouse :: "'m event \<Rightarrow> bool" where
  "is_toggle_mouse = bare (KChar (hd (lit ''m'')))"

definition is_journal_cursor_down :: "'m event \<Rightarrow> bool" where
  "is_journal_cursor_down = bare (KChar (hd (lit ''j'')))"

definition is_journal_cursor_up :: "'m event \<Rightarrow> bool" where
  "is_journal_cursor_up = bare (KChar (hd (lit ''k'')))"

definition is_escape :: "'m event \<Rightarrow> bool" where
  "is_escape = any_mods KEsc"

definition is_backspace :: "'m event \<Rightarrow> bool" where
  "is_backspace = any_mods KBackspace"

definition is_up :: "'m event \<Rightarrow> bool" where
  "is_up = any_mods KUp"

definition is_down :: "'m event \<Rightarrow> bool" where
  "is_down = any_mods KDown"

definition is_page_up :: "'m event \<Rightarrow> bool" where
  "is_page_up = any_mods KPageUp"

definition is_page_down :: "'m event \<Rightarrow> bool" where
  "is_page_down = any_mods KPageDown"

definition is_view_style_toggle :: "'m event \<Rightarrow> bool" where
  "is_view_style_toggle = any_mods (KF 9)"

definition is_help :: "'m event \<Rightarrow> bool" where
  "is_help = any_mods (KF 1)"

definition is_enter :: "'m event \<Rightarrow> bool" where
  "is_enter e \<longleftrightarrow> with_mods KEnter (\<lambda>ms. Shift \<notin> ms \<and> Alt \<notin> ms) e"

definition is_shift_enter :: "'m event \<Rightarrow> bool" where
  "is_shift_enter e \<longleftrightarrow> with_mods KEnter (\<lambda>ms. Shift \<in> ms \<or> Alt \<in> ms) e \<or> ctrl ''j'' e"

definition is_fullscreen_toggle :: "'m event \<Rightarrow> bool" where
  "is_fullscreen_toggle e \<longleftrightarrow> any_mods (KF 10) e \<or> with_mods (KChar (hd (lit ''f''))) (\<lambda>ms. Control \<in> ms \<and> Alt \<in> ms) e"

definition is_tab :: "'m event \<Rightarrow> bool" where
  "is_tab e \<longleftrightarrow> with_mods KTab (\<lambda>ms. Shift \<notin> ms) e"

definition is_shift_tab :: "'m event \<Rightarrow> bool" where
  "is_shift_tab e \<longleftrightarrow> any_mods KBackTab e \<or> with_mods KTab (\<lambda>ms. Shift \<in> ms) e"

definition is_delete_word_backward :: "'m event \<Rightarrow> bool" where
  "is_delete_word_backward e \<longleftrightarrow> with_mods KBackspace (\<lambda>ms. Alt \<in> ms) e \<or> ctrl ''w'' e"

definition is_delete_word_forward :: "'m event \<Rightarrow> bool" where
  "is_delete_word_forward e \<longleftrightarrow> with_mods KDelete (\<lambda>ms. Alt \<in> ms) e"

definition is_move_word_backward :: "'m event \<Rightarrow> bool" where
  "is_move_word_backward e \<longleftrightarrow> with_mods KLeft (\<lambda>ms. Alt \<in> ms \<or> Control \<in> ms) e"

definition is_move_word_forward :: "'m event \<Rightarrow> bool" where
  "is_move_word_forward e \<longleftrightarrow> with_mods KRight (\<lambda>ms. Alt \<in> ms \<or> Control \<in> ms) e"

definition is_move_to_document_start :: "'m event \<Rightarrow> bool" where
  "is_move_to_document_start e \<longleftrightarrow> with_mods KHome (\<lambda>ms. Control \<in> ms) e
     \<or> with_mods KUp (\<lambda>ms. Control \<in> ms \<or> Super \<in> ms \<or> Alt \<in> ms \<and> Shift \<in> ms) e"

definition is_move_to_document_end :: "'m event \<Rightarrow> bool" where
  "is_move_to_document_end e \<longleftrightarrow> with_mods KEnd (\<lambda>ms. Control \<in> ms) e
     \<or> with_mods KDown (\<lambda>ms. Control \<in> ms \<or> Super \<in> ms \<or> Alt \<in> ms \<and> Shift \<in> ms) e"

definition is_file_explorer :: "'m event \<Rightarrow> bool" where
  "is_file_explorer e \<longleftrightarrow> with_mods (KChar (hd (lit ''f''))) (\<lambda>ms. Control \<in> ms \<and> Alt \<in> ms) e"

definition is_find_next :: "'m event \<Rightarrow> bool" where
  "is_find_next e \<longleftrightarrow> with_mods (KF 3) (\<lambda>ms. Shift \<notin> ms) e"

definition is_find_prev :: "'m event \<Rightarrow> bool" where
  "is_find_prev e \<longleftrightarrow> with_mods (KF 3) (\<lambda>ms. Shift \<in> ms) e"

definition is_journal_expand :: "'m event \<Rightarrow> bool" where
  "is_journal_expand e \<longleftrightarrow> bare (KChar (hd (lit ''l''))) e \<or> bare KRight e"

definition is_journal_collapse :: "'m event \<Rightarrow> bool" where
  "is_journal_collapse e \<longleftrightarrow> bare (KChar (hd (lit ''h''))) e \<or> bare KLeft e"

fun event_char :: "'m event \<Rightarrow> rchar option" where
  "event_char (Key (KChar c) ms) = (if ms = {} \<or> ms = {Shift} then Some c else None)"
| "event_char e = None"

fun mouse_at :: "mouse_kind \<Rightarrow> 'm event \<Rightarrow> (16 word \<times> 16 word) option" where
  "mouse_at kind (Mouse k c r) = (if k = kind then Some (c, r) else None)"
| "mouse_at kind e = None"

definition mouse_scroll_up :: "'m event \<Rightarrow> (16 word \<times> 16 word) option" where
  "mouse_scroll_up = mouse_at ScrollUp"

definition mouse_scroll_down :: "'m event \<Rightarrow> (16 word \<times> 16 word) option" where
  "mouse_scroll_down = mouse_at ScrollDown"

definition mouse_click :: "'m event \<Rightarrow> (16 word \<times> 16 word) option" where
  "mouse_click = mouse_at LeftDown"

section \<open>The detection of pastes\<close>

datatype term_event =
  TKey key_code "modifier set" | TMouse mouse_kind "16 word" "16 word" | TResize "16 word" "16 word" | TPaste rstr
| TOther | TTick | TTimeout

definition MIN_PASTE_CHARS :: nat where
  "MIN_PASTE_CHARS = 10"

definition key_of_char :: "rchar \<Rightarrow> 'm event" where
  "key_of_char c = Key (if c = 10 then KEnter else KChar c) {}"

definition flush_paste_buffer :: "rstr \<Rightarrow> 'm event list" where
  "flush_paste_buffer b = (if MIN_PASTE_CHARS \<le> blen b then [Paste b] else map key_of_char b)"

definition flush_pending :: "rstr \<Rightarrow> 'm event list" where
  "flush_pending b = (if b = [] then [] else flush_paste_buffer b)"

text \<open>What is buffered: characters without Control and Alt, and Enter once something is buffered.\<close>

definition char_to_buffer :: "key_code \<Rightarrow> modifier set \<Rightarrow> rstr \<Rightarrow> rchar option" where
  "char_to_buffer k ms b =
     (case k of
        KChar c \<Rightarrow> if Control \<in> ms \<or> Alt \<in> ms then None else Some c
      | KEnter \<Rightarrow> if b = [] then None else Some 10
      | _ \<Rightarrow> None)"

text \<open>
  One turn of the loop: what is sent, and the buffer. The time of the last character decides nothing: the
  code buffers a character in both branches.
\<close>

definition read_event :: "term_event \<Rightarrow> rstr \<Rightarrow> 'm event list \<times> rstr" where
  "read_event t b =
     (case t of
        TKey k ms \<Rightarrow>
          (case char_to_buffer k ms b of
             Some c \<Rightarrow> ([], b @ [c])
           | None \<Rightarrow> (flush_pending b @ [Key k ms], []))
      | TMouse kind c r \<Rightarrow> (flush_pending b @ [Mouse kind c r], [])
      | TResize w h \<Rightarrow> ([Resize w h], b)
      | TPaste s \<Rightarrow> ([Paste s], [])
      | TOther \<Rightarrow> ([], b)
      | TTick \<Rightarrow> (if b = [] then [Tick] else [], b)
      | TTimeout \<Rightarrow> (flush_pending b, []))"

fun read_events :: "term_event list \<Rightarrow> rstr \<Rightarrow> 'm event list \<times> rstr" where
  "read_events [] b = ([], b)"
| "read_events (t # ts) b =
     (case read_event t b of (es, b1) \<Rightarrow> apfst (\<lambda>es'. es @ es') (read_events ts b1))"

section \<open>What is typed arrives\<close>

text \<open>The text of keys that carry text, as typed and as delivered; Enter stands for a line break.\<close>

definition key_text :: "key_code \<Rightarrow> modifier set \<Rightarrow> rstr" where
  "key_text k ms =
     (case k of KChar c \<Rightarrow> if Control \<in> ms \<or> Alt \<in> ms then [] else [c] | KEnter \<Rightarrow> [10] | _ \<Rightarrow> [])"

fun typed_text :: "term_event list \<Rightarrow> rstr" where
  "typed_text [] = []"
| "typed_text (TKey k ms # ts) = key_text k ms @ typed_text ts"
| "typed_text (TPaste s # ts) = s @ typed_text ts"
| "typed_text (t # ts) = typed_text ts"

fun event_text :: "'m event \<Rightarrow> rstr" where
  "event_text (Key k ms) = key_text k ms"
| "event_text (Paste s) = s"
| "event_text e = []"

definition delivered_text :: "'m event list \<Rightarrow> rstr" where
  "delivered_text es = concat (map event_text es)"

lemma delivered_simps [simp]:
  "delivered_text [] = []" "delivered_text (e # es) = event_text e @ delivered_text es"
  "delivered_text (es @ es') = delivered_text es @ delivered_text es'"
  by (simp_all add: delivered_text_def)

lemma delivered_keys [simp]: "delivered_text (map key_of_char b) = b"
  by (induction b) (simp_all add: key_of_char_def key_text_def)

lemma delivered_flush [simp]: "delivered_text (flush_pending b) = b"
  by (simp add: flush_pending_def flush_paste_buffer_def)

lemma read_event_text:
  "read_event t b = (es, b1) \<Longrightarrow> (\<forall>s. t \<noteq> TPaste s) \<Longrightarrow> delivered_text es @ b1 = b @ typed_text [t]"
  by (auto simp: read_event_def char_to_buffer_def key_text_def split: term_event.splits key_code.splits option.splits if_splits)

lemma typed_text_Cons: "typed_text (t # ts) = typed_text [t] @ typed_text ts"
  by (cases t) simp_all

lemma read_events_text:
  "read_events ts b = (es :: 'm event list, b1) \<Longrightarrow> \<forall>s. TPaste s \<notin> set ts \<Longrightarrow>
    delivered_text es @ b1 = b @ typed_text ts"
proof (induction ts arbitrary: b es)
  case (Cons t ts)
  obtain es1 :: "'m event list" and b2 where t: "read_event t b = (es1, b2)" by force
  obtain es2 :: "'m event list" where ts: "read_events ts b2 = (es2, b1)" "es = es1 @ es2"
    using Cons.prems(1) by (auto simp: t apfst_def map_prod_def split: prod.splits)
  from read_event_text [OF t] Cons.prems(2) have 1: "delivered_text es1 @ b2 = b @ typed_text [t]" by auto
  from Cons.IH [OF ts(1)] Cons.prems(2) have 2: "delivered_text es2 @ b1 = b2 @ typed_text ts" by auto
  have "delivered_text es @ b1 = delivered_text es1 @ b2 @ typed_text ts" by (simp add: ts(2) 2)
  also have "\<dots> = b @ typed_text [t] @ typed_text ts" using 1 by (metis append.assoc)
  finally show ?case by (simp add: typed_text_Cons [of t ts])
qed simp

text \<open>
  C29: As long as the terminal reports no paste of its own, everything typed is delivered once and in order,
  as keys or as pastes, except what is still buffered; the timeout delivers that.
\<close>

theorem typed_text_delivered:
  assumes "read_events ts [] = (es, b)" and "\<forall>s. TPaste s \<notin> set ts"
  shows "delivered_text es @ b = typed_text ts \<and> read_event TTimeout b = (flush_pending b, [])
    \<and> delivered_text (flush_pending b) = b"
  using read_events_text [OF assms] by (simp add: read_event_def)

definition line_keys :: "rstr \<Rightarrow> term_event list" where
  "line_keys s = map (\<lambda>c. TKey (KChar c) {}) s @ [TKey KEnter {}]"

lemma read_line_chars: "read_events (map (\<lambda>c. TKey (KChar c) {}) s @ ts) b = read_events ts (b @ s)"
  by (induction s arbitrary: b) (simp_all add: read_event_def char_to_buffer_def apfst_def map_prod_def split: prod.split)

text \<open>
  A line typed without a pause of a tenth of a second and its Enter become one paste once they are ten
  bytes long: no Enter key is delivered, so the line is not submitted.
\<close>

theorem fast_line_is_a_paste:
  assumes "MIN_PASTE_CHARS \<le> blen s + 1" and "s \<noteq> []"
  shows "read_events (line_keys s @ [TTimeout]) [] = ([Paste (s @ [10])], [])"
proof -
  have "utf8_len 10 = 1" by (simp add: utf8_len_def)
  with assms show ?thesis
    by (simp add: line_keys_def read_line_chars read_event_def char_to_buffer_def flush_pending_def flush_paste_buffer_def
        blen_def)
qed

text \<open>A paste the terminal reports itself throws away what was buffered.\<close>

lemma native_paste_drops_buffer:
  "read_events [TKey (KChar c) {}, TPaste s, TTimeout] [] = ([Paste s], [])"
  by (simp add: read_event_def char_to_buffer_def flush_pending_def)

lemma typed_text_delivered_witness:
  "\<exists>(es :: unit event list) b. read_events [TKey (KChar 97) {}, TKey KEnter {}, TKey KUp {}] [] = (es, b)
    \<and> delivered_text es @ b = [97, 10]"
proof -
  obtain es :: "unit event list" and b where r: "read_events [TKey (KChar 97) {}, TKey KEnter {}, TKey KUp {}] [] = (es, b)"
    by force
  have "\<forall>s. TPaste s \<notin> set [TKey (KChar 97) {}, TKey KEnter {}, TKey KUp {}]" by simp
  from conjunct1 [OF typed_text_delivered [OF r this]] have "delivered_text es @ b = [97, 10]" by (simp add: key_text_def)
  with r show ?thesis by blast
qed

lemma fast_line_is_a_paste_witness:
  "read_events (line_keys (lit ''hello you'') @ [TTimeout]) [] = ([Paste (lit ''hello you'' @ [10])], [])"
  by (rule fast_line_is_a_paste) (simp_all add: MIN_PASTE_CHARS_def lit_def blen_def utf8_len_def)

end
