(* ===== verification/TuiDialogs.thy ===== *)
theory TuiDialogs
  imports FindReplace
begin

text \<open>
  The dialogs of the terminal interface that ask before leaving, for a password and for help:
  \<^verbatim>\<open>exit_dialog.rs\<close>, \<^verbatim>\<open>suspend_dialog.rs\<close>, \<^verbatim>\<open>sudo_dialog.rs\<close> and \<^verbatim>\<open>help_dialog.rs\<close> under \<^verbatim>\<open>apps/cli/src/tui/app\<close>,
  with \<^verbatim>\<open>tui/help_content.rs\<close>. The check box is a widget of a library, given by its operations; lower case
  is a parameter. The channel of a password request is the list of the answers that were sent.
\<close>

section \<open>Check boxes and clickable regions\<close>

record 'c check_box =
  cb_new :: "bool \<Rightarrow> 'c"
  cb_set_focused :: "bool \<Rightarrow> 'c \<Rightarrow> 'c"
  cb_toggle :: "'c \<Rightarrow> 'c"
  cb_checked :: "'c \<Rightarrow> bool"

text \<open>What the widget documents.\<close>

definition check_box_laws :: "'c check_box \<Rightarrow> bool" where
  "check_box_laws B \<longleftrightarrow>
     (\<forall>b. cb_checked B (cb_new B b) = b) \<and>
     (\<forall>f c. cb_checked B (cb_set_focused B f c) = cb_checked B c) \<and>
     (\<forall>c. cb_checked B (cb_toggle B c) = (\<not> cb_checked B c))"

definition clicked :: "(rect \<times> 'e) list \<Rightarrow> 16 word \<Rightarrow> 16 word \<Rightarrow> 'e option" where
  "clicked regions col row = map_option snd (find (\<lambda>(r, e). in_rect col row r) regions)"

section \<open>The exit dialog\<close>

datatype exit_action = Exit | ExitBackground

datatype exit_focus = ExitButton | ExitBackgroundButton | PreserveChatCheckbox | ExitExitWhenDoneCheckbox

fun exit_focus_next :: "exit_focus \<Rightarrow> exit_focus" where
  "exit_focus_next ExitButton = ExitBackgroundButton"
| "exit_focus_next ExitBackgroundButton = PreserveChatCheckbox"
| "exit_focus_next PreserveChatCheckbox = ExitExitWhenDoneCheckbox"
| "exit_focus_next ExitExitWhenDoneCheckbox = ExitButton"

fun exit_focus_prev :: "exit_focus \<Rightarrow> exit_focus" where
  "exit_focus_prev ExitButton = ExitExitWhenDoneCheckbox"
| "exit_focus_prev ExitBackgroundButton = ExitButton"
| "exit_focus_prev PreserveChatCheckbox = ExitBackgroundButton"
| "exit_focus_prev ExitExitWhenDoneCheckbox = PreserveChatCheckbox"

record 'c exit_dialog =
  ed_focus :: exit_focus
  ed_click_regions :: "(rect \<times> exit_focus) list"
  ed_preserve_chat :: 'c
  ed_exit_when_done :: 'c

definition ed_with_preserve_chat :: "'c check_box \<Rightarrow> bool \<Rightarrow> 'c exit_dialog" where
  "ed_with_preserve_chat B b =
     \<lparr>ed_focus = ExitButton, ed_click_regions = [], ed_preserve_chat = cb_new B b, ed_exit_when_done = cb_new B False\<rparr>"

definition ed_new :: "'c check_box \<Rightarrow> 'c exit_dialog" where
  "ed_new B = ed_with_preserve_chat B True"

definition ed_update_checkbox_focus :: "'c check_box \<Rightarrow> 'c exit_dialog \<Rightarrow> 'c exit_dialog" where
  "ed_update_checkbox_focus B d =
     d\<lparr>ed_preserve_chat := cb_set_focused B (ed_focus d = PreserveChatCheckbox) (ed_preserve_chat d),
       ed_exit_when_done := cb_set_focused B (ed_focus d = ExitExitWhenDoneCheckbox) (ed_exit_when_done d)\<rparr>"

definition ed_set_focus :: "'c check_box \<Rightarrow> exit_focus \<Rightarrow> 'c exit_dialog \<Rightarrow> 'c exit_dialog" where
  "ed_set_focus B e d = ed_update_checkbox_focus B (d\<lparr>ed_focus := e\<rparr>)"

definition ed_focus_next :: "'c check_box \<Rightarrow> 'c exit_dialog \<Rightarrow> 'c exit_dialog" where
  "ed_focus_next B d = ed_update_checkbox_focus B (d\<lparr>ed_focus := exit_focus_next (ed_focus d)\<rparr>)"

definition ed_focus_prev :: "'c check_box \<Rightarrow> 'c exit_dialog \<Rightarrow> 'c exit_dialog" where
  "ed_focus_prev B d = ed_update_checkbox_focus B (d\<lparr>ed_focus := exit_focus_prev (ed_focus d)\<rparr>)"

definition ed_toggle_preserve_chat :: "'c check_box \<Rightarrow> 'c exit_dialog \<Rightarrow> 'c exit_dialog" where
  "ed_toggle_preserve_chat B d = d\<lparr>ed_preserve_chat := cb_toggle B (ed_preserve_chat d)\<rparr>"

definition ed_toggle_exit_when_done :: "'c check_box \<Rightarrow> 'c exit_dialog \<Rightarrow> 'c exit_dialog" where
  "ed_toggle_exit_when_done B d = d\<lparr>ed_exit_when_done := cb_toggle B (ed_exit_when_done d)\<rparr>"

definition ed_clear_click_regions :: "'c exit_dialog \<Rightarrow> 'c exit_dialog" where
  "ed_clear_click_regions d = d\<lparr>ed_click_regions := []\<rparr>"

definition ed_add_click_region :: "rect \<Rightarrow> exit_focus \<Rightarrow> 'c exit_dialog \<Rightarrow> 'c exit_dialog" where
  "ed_add_click_region r e d = d\<lparr>ed_click_regions := ed_click_regions d @ [(r, e)]\<rparr>"

definition ed_handle_click :: "16 word \<Rightarrow> 16 word \<Rightarrow> 'c exit_dialog \<Rightarrow> exit_focus option" where
  "ed_handle_click col row d = clicked (ed_click_regions d) col row"

definition ed_selected_action :: "'c exit_dialog \<Rightarrow> exit_action option" where
  "ed_selected_action d =
     (case ed_focus d of
        ExitButton \<Rightarrow> Some Exit
      | ExitBackgroundButton \<Rightarrow> Some ExitBackground
      | PreserveChatCheckbox \<Rightarrow> None
      | ExitExitWhenDoneCheckbox \<Rightarrow> None)"

section \<open>The suspend dialog\<close>

datatype suspend_action = SuspendBackground | Suspend

datatype suspend_focus = SuspendBackgroundButton | SuspendButton | SuspendExitWhenDoneCheckbox

fun suspend_focus_next :: "suspend_focus \<Rightarrow> suspend_focus" where
  "suspend_focus_next SuspendBackgroundButton = SuspendButton"
| "suspend_focus_next SuspendButton = SuspendExitWhenDoneCheckbox"
| "suspend_focus_next SuspendExitWhenDoneCheckbox = SuspendBackgroundButton"

fun suspend_focus_prev :: "suspend_focus \<Rightarrow> suspend_focus" where
  "suspend_focus_prev SuspendBackgroundButton = SuspendExitWhenDoneCheckbox"
| "suspend_focus_prev SuspendButton = SuspendBackgroundButton"
| "suspend_focus_prev SuspendExitWhenDoneCheckbox = SuspendButton"

record 'c suspend_dialog =
  sd_focus :: suspend_focus
  sd_click_regions :: "(rect \<times> suspend_focus) list"
  sd_exit_when_done :: 'c

definition sd_new :: "'c check_box \<Rightarrow> 'c suspend_dialog" where
  "sd_new B = \<lparr>sd_focus = SuspendBackgroundButton, sd_click_regions = [], sd_exit_when_done = cb_new B False\<rparr>"

definition sd_update_checkbox_focus :: "'c check_box \<Rightarrow> 'c suspend_dialog \<Rightarrow> 'c suspend_dialog" where
  "sd_update_checkbox_focus B d =
     d\<lparr>sd_exit_when_done := cb_set_focused B (sd_focus d = SuspendExitWhenDoneCheckbox) (sd_exit_when_done d)\<rparr>"

definition sd_set_focus :: "'c check_box \<Rightarrow> suspend_focus \<Rightarrow> 'c suspend_dialog \<Rightarrow> 'c suspend_dialog" where
  "sd_set_focus B e d = sd_update_checkbox_focus B (d\<lparr>sd_focus := e\<rparr>)"

definition sd_focus_next :: "'c check_box \<Rightarrow> 'c suspend_dialog \<Rightarrow> 'c suspend_dialog" where
  "sd_focus_next B d = sd_update_checkbox_focus B (d\<lparr>sd_focus := suspend_focus_next (sd_focus d)\<rparr>)"

definition sd_focus_prev :: "'c check_box \<Rightarrow> 'c suspend_dialog \<Rightarrow> 'c suspend_dialog" where
  "sd_focus_prev B d = sd_update_checkbox_focus B (d\<lparr>sd_focus := suspend_focus_prev (sd_focus d)\<rparr>)"

definition sd_toggle_exit_when_done :: "'c check_box \<Rightarrow> 'c suspend_dialog \<Rightarrow> 'c suspend_dialog" where
  "sd_toggle_exit_when_done B d = d\<lparr>sd_exit_when_done := cb_toggle B (sd_exit_when_done d)\<rparr>"

definition sd_clear_click_regions :: "'c suspend_dialog \<Rightarrow> 'c suspend_dialog" where
  "sd_clear_click_regions d = d\<lparr>sd_click_regions := []\<rparr>"

definition sd_add_click_region :: "rect \<Rightarrow> suspend_focus \<Rightarrow> 'c suspend_dialog \<Rightarrow> 'c suspend_dialog" where
  "sd_add_click_region r e d = d\<lparr>sd_click_regions := sd_click_regions d @ [(r, e)]\<rparr>"

definition sd_handle_click :: "16 word \<Rightarrow> 16 word \<Rightarrow> 'c suspend_dialog \<Rightarrow> suspend_focus option" where
  "sd_handle_click col row d = clicked (sd_click_regions d) col row"

definition sd_selected_action :: "'c suspend_dialog \<Rightarrow> suspend_action option" where
  "sd_selected_action d =
     (case sd_focus d of
        SuspendBackgroundButton \<Rightarrow> Some SuspendBackground
      | SuspendButton \<Rightarrow> Some Suspend
      | SuspendExitWhenDoneCheckbox \<Rightarrow> None)"

section \<open>The password dialog\<close>

datatype sudo_response = Password rstr | SudoCancelled

record sudo_request =
  sr_id :: rstr
  sr_command :: rstr

record sudo_dialog =
  pw_request :: "sudo_request option"
  pw_buffer :: rstr
  pw_cursor :: nat
  pw_answered :: "(rstr \<times> sudo_response) list"

definition pw_new :: sudo_dialog where
  "pw_new = \<lparr>pw_request = None, pw_buffer = [], pw_cursor = 0, pw_answered = []\<rparr>"

text \<open>A request that is still there is dropped with its channel.\<close>

definition pw_set_request :: "sudo_request \<Rightarrow> sudo_dialog \<Rightarrow> sudo_dialog" where
  "pw_set_request r d = d\<lparr>pw_request := Some r, pw_buffer := [], pw_cursor := 0\<rparr>"

text \<open>The cursor counts characters and is used as a byte offset: \<open>None\<close> is the panic between bytes of a character.\<close>

definition pw_insert_char :: "rchar \<Rightarrow> sudo_dialog \<Rightarrow> sudo_dialog option" where
  "pw_insert_char c d =
     map_option (\<lambda>b. d\<lparr>pw_buffer := b, pw_cursor := pw_cursor d + 1\<rparr>) (str_insert (pw_buffer d) (pw_cursor d) c)"

definition pw_delete_char :: "sudo_dialog \<Rightarrow> sudo_dialog option" where
  "pw_delete_char d =
     (if pw_cursor d > 0
      then map_option (\<lambda>b. d\<lparr>pw_buffer := b, pw_cursor := pw_cursor d - 1\<rparr>) (str_remove (pw_buffer d) (pw_cursor d - 1))
      else Some d)"

definition pw_len :: "sudo_dialog \<Rightarrow> nat" where
  "pw_len d = blen (pw_buffer d)"

definition pw_submit :: "sudo_dialog \<Rightarrow> bool \<times> sudo_dialog" where
  "pw_submit d =
     (if pw_buffer d = [] then (False, d)
      else
        case pw_request d of
          Some r \<Rightarrow>
            (True, d\<lparr>pw_request := None, pw_buffer := [], pw_cursor := 0,
                     pw_answered := pw_answered d @ [(sr_id r, Password (pw_buffer d))]\<rparr>)
        | None \<Rightarrow> (False, d))"

definition pw_cancel :: "sudo_dialog \<Rightarrow> bool \<times> sudo_dialog" where
  "pw_cancel d =
     (case pw_request d of
        Some r \<Rightarrow>
          (True, d\<lparr>pw_request := None, pw_buffer := [], pw_cursor := 0,
                   pw_answered := pw_answered d @ [(sr_id r, SudoCancelled)]\<rparr>)
      | None \<Rightarrow> (False, d))"

section \<open>The help dialog\<close>

datatype help_focus = SearchInput | CategoryList | ContentArea

fun help_focus_next :: "help_focus \<Rightarrow> help_focus" where
  "help_focus_next SearchInput = CategoryList"
| "help_focus_next CategoryList = ContentArea"
| "help_focus_next ContentArea = SearchInput"

fun help_focus_prev :: "help_focus \<Rightarrow> help_focus" where
  "help_focus_prev SearchInput = ContentArea"
| "help_focus_prev CategoryList = SearchInput"
| "help_focus_prev ContentArea = CategoryList"

datatype help_category =
  Navigation | TextEditing | ViewsModes | Dialogs | Commands | HelpFileExplorer | GitIntegration | TipsTricks

definition help_categories :: "help_category list" where
  "help_categories =
     [Navigation, TextEditing, ViewsModes, Dialogs, Commands, HelpFileExplorer, GitIntegration, TipsTricks]"

definition category_index :: "help_category \<Rightarrow> nat" where
  "category_index c = (case position (\<lambda>x. x = c) help_categories of Some i \<Rightarrow> i | None \<Rightarrow> 0)"

definition category_next :: "help_category \<Rightarrow> help_category" where
  "category_next c = help_categories ! ((category_index c + 1) mod length help_categories)"

definition category_prev :: "help_category \<Rightarrow> help_category" where
  "category_prev c =
     help_categories ! ((category_index c + length help_categories - 1) mod length help_categories)"

record help_entry =
  he_shortcut :: rstr
  he_description :: rstr

text \<open>The texts of the entries are a parameter, by category.\<close>

record help_env =
  hv_entries :: "help_category \<Rightarrow> help_entry list"
  hv_lower :: "rstr \<Rightarrow> rstr"

definition search_help :: "help_env \<Rightarrow> rstr \<Rightarrow> (help_category \<times> help_entry) list" where
  "search_help V q =
     (if q = [] then []
      else
        concat (map (\<lambda>c. map (Pair c) (filter (\<lambda>e. str_contains (hv_lower V (he_shortcut e)) (hv_lower V q)
            \<or> str_contains (hv_lower V (he_description e)) (hv_lower V q)) (hv_entries V c))) help_categories))"

record help_dialog =
  hd_query :: rstr
  hd_cursor :: nat
  hd_category :: help_category
  hd_category_scroll :: nat
  hd_content_scroll :: nat
  hd_focus :: help_focus
  hd_click_regions :: "(rect \<times> help_category) list"
  hd_cached :: "(help_category \<times> help_entry) list option"

definition hd_new :: help_dialog where
  "hd_new = \<lparr>hd_query = [], hd_cursor = 0, hd_category = Navigation, hd_category_scroll = 0, hd_content_scroll = 0,
     hd_focus = CategoryList, hd_click_regions = [], hd_cached = None\<rparr>"

definition hd_next_category :: "help_dialog \<Rightarrow> help_dialog" where
  "hd_next_category d = d\<lparr>hd_category := category_next (hd_category d), hd_content_scroll := 0\<rparr>"

definition hd_prev_category :: "help_dialog \<Rightarrow> help_dialog" where
  "hd_prev_category d = d\<lparr>hd_category := category_prev (hd_category d), hd_content_scroll := 0\<rparr>"

definition hd_is_searching :: "help_dialog \<Rightarrow> bool" where
  "hd_is_searching d \<longleftrightarrow> hd_query d \<noteq> []"

definition hd_search_results :: "help_env \<Rightarrow> help_dialog \<Rightarrow> (help_category \<times> help_entry) list" where
  "hd_search_results V d = (if hd_query d = [] then [] else search_help V (hd_query d))"

definition hd_current_entries :: "help_env \<Rightarrow> help_dialog \<Rightarrow> help_entry list" where
  "hd_current_entries V d =
     (if hd_is_searching d then map snd (hd_search_results V d) else hv_entries V (hd_category d))"

definition hd_max_content_scroll :: "help_env \<Rightarrow> help_dialog \<Rightarrow> nat" where
  "hd_max_content_scroll V d =
     (if hd_is_searching d then length (hd_search_results V d) else length (hv_entries V (hd_category d))) - 1"

definition hd_scroll_down :: "help_env \<Rightarrow> nat \<Rightarrow> help_dialog \<Rightarrow> help_dialog" where
  "hd_scroll_down V n d = d\<lparr>hd_content_scroll := min (hd_content_scroll d + n) (hd_max_content_scroll V d)\<rparr>"

definition hd_scroll_up :: "nat \<Rightarrow> help_dialog \<Rightarrow> help_dialog" where
  "hd_scroll_up n d = d\<lparr>hd_content_scroll := hd_content_scroll d - n\<rparr>"

definition hd_focus_next :: "help_dialog \<Rightarrow> help_dialog" where
  "hd_focus_next d = d\<lparr>hd_focus := help_focus_next (hd_focus d)\<rparr>"

definition hd_focus_prev :: "help_dialog \<Rightarrow> help_dialog" where
  "hd_focus_prev d = d\<lparr>hd_focus := help_focus_prev (hd_focus d)\<rparr>"

definition hd_insert_char :: "rchar \<Rightarrow> help_dialog \<Rightarrow> help_dialog option" where
  "hd_insert_char c d =
     map_option (\<lambda>q. d\<lparr>hd_query := q, hd_cursor := hd_cursor d + 1, hd_content_scroll := 0, hd_cached := None\<rparr>)
       (str_insert (hd_query d) (char_to_byte_index (hd_query d) (hd_cursor d)) c)"

text \<open>Taking out the character that starts at a byte offset, if there is one.\<close>

definition hd_take_char :: "help_dialog \<Rightarrow> (bool \<times> help_dialog) option" where
  "hd_take_char d =
     (case split_byte (char_to_byte_index (hd_query d) (hd_cursor d)) (hd_query d) of
        None \<Rightarrow> None
      | Some (a, []) \<Rightarrow> Some (False, d)
      | Some (a, c # b) \<Rightarrow> Some (True, d\<lparr>hd_query := a @ b, hd_cached := None\<rparr>))"

definition hd_delete_backward :: "help_dialog \<Rightarrow> (bool \<times> help_dialog) option" where
  "hd_delete_backward d =
     (if hd_cursor d = 0 then Some (False, d) else hd_take_char (d\<lparr>hd_cursor := hd_cursor d - 1\<rparr>))"

definition hd_delete_forward :: "help_dialog \<Rightarrow> (bool \<times> help_dialog) option" where
  "hd_delete_forward d =
     (if char_to_byte_index (hd_query d) (hd_cursor d) < blen (hd_query d) then hd_take_char d else Some (False, d))"

definition hd_move_left :: "help_dialog \<Rightarrow> help_dialog" where
  "hd_move_left d = (if hd_cursor d > 0 then d\<lparr>hd_cursor := hd_cursor d - 1\<rparr> else d)"

definition hd_move_right :: "help_dialog \<Rightarrow> help_dialog" where
  "hd_move_right d = (if hd_cursor d < length (hd_query d) then d\<lparr>hd_cursor := hd_cursor d + 1\<rparr> else d)"

definition hd_move_home :: "help_dialog \<Rightarrow> help_dialog" where
  "hd_move_home d = d\<lparr>hd_cursor := 0\<rparr>"

definition hd_move_end :: "help_dialog \<Rightarrow> help_dialog" where
  "hd_move_end d = d\<lparr>hd_cursor := length (hd_query d)\<rparr>"

definition hd_clear_search :: "help_dialog \<Rightarrow> help_dialog" where
  "hd_clear_search d = d\<lparr>hd_query := [], hd_cursor := 0, hd_content_scroll := 0, hd_cached := None\<rparr>"

definition hd_text_before :: "help_dialog \<Rightarrow> rstr option" where
  "hd_text_before d = map_option fst (split_byte (char_to_byte_index (hd_query d) (hd_cursor d)) (hd_query d))"

definition hd_text_after :: "help_dialog \<Rightarrow> rstr option" where
  "hd_text_after d = map_option snd (split_byte (char_to_byte_index (hd_query d) (hd_cursor d)) (hd_query d))"

definition hd_clear_click_regions :: "help_dialog \<Rightarrow> help_dialog" where
  "hd_clear_click_regions d = d\<lparr>hd_click_regions := []\<rparr>"

definition hd_add_click_region :: "rect \<Rightarrow> help_category \<Rightarrow> help_dialog \<Rightarrow> help_dialog" where
  "hd_add_click_region r c d = d\<lparr>hd_click_regions := hd_click_regions d @ [(r, c)]\<rparr>"

definition hd_handle_click :: "16 word \<Rightarrow> 16 word \<Rightarrow> help_dialog \<Rightarrow> bool \<times> help_dialog" where
  "hd_handle_click col row d =
     (case clicked (hd_click_regions d) col row of
        Some c \<Rightarrow> (True, d\<lparr>hd_category := c, hd_content_scroll := 0, hd_focus := CategoryList\<rparr>)
      | None \<Rightarrow> (False, d))"

section \<open>The rings\<close>

interpretation exit_ring: focus_ring exit_focus_next exit_focus_prev "\<lambda>f. True"
  proof unfold_locales
  fix f :: exit_focus
  show "exit_focus_prev (exit_focus_next f) = f" "exit_focus_next (exit_focus_prev f) = f"
    by (cases f; simp)+
qed simp_all

interpretation suspend_ring: focus_ring suspend_focus_next suspend_focus_prev "\<lambda>f. True"
  proof unfold_locales
  fix f :: suspend_focus
  show "suspend_focus_prev (suspend_focus_next f) = f" "suspend_focus_next (suspend_focus_prev f) = f"
    by (cases f; simp)+
qed simp_all

interpretation help_ring: focus_ring help_focus_next help_focus_prev "\<lambda>f. True"
  proof unfold_locales
  fix f :: help_focus
  show "help_focus_prev (help_focus_next f) = f" "help_focus_next (help_focus_prev f) = f"
    by (cases f; simp)+
qed simp_all

interpretation category_ring: focus_ring category_next category_prev "\<lambda>c. True"
proof unfold_locales
  fix c :: help_category
  show "category_prev (category_next c) = c" "category_next (category_prev c) = c"
    by (cases c; simp add: category_next_def category_prev_def category_index_def help_categories_def)+
qed simp_all

section \<open>Check boxes\<close>

text \<open>Moving the focus never changes what is ticked, and a toggle changes one box only.\<close>

lemma ed_ticks:
  assumes "check_box_laws B"
  shows "cb_checked B (ed_preserve_chat (ed_set_focus B e d)) = cb_checked B (ed_preserve_chat d)"
    and "cb_checked B (ed_exit_when_done (ed_set_focus B e d)) = cb_checked B (ed_exit_when_done d)"
    and "cb_checked B (ed_preserve_chat (ed_toggle_preserve_chat B d)) = (\<not> cb_checked B (ed_preserve_chat d))"
    and "ed_exit_when_done (ed_toggle_preserve_chat B d) = ed_exit_when_done d"
    and "cb_checked B (ed_preserve_chat (ed_with_preserve_chat B b)) = b"
  using assms
  by (auto simp: check_box_laws_def ed_set_focus_def ed_update_checkbox_focus_def ed_toggle_preserve_chat_def
      ed_with_preserve_chat_def)

section \<open>Passwords\<close>

text \<open>Typing a text into an open request.\<close>

definition pw_type :: "rstr \<Rightarrow> sudo_dialog \<Rightarrow> sudo_dialog option" where
  "pw_type = run_opt pw_insert_char"

lemma str_insert_end: "str_insert s (blen s) c = Some (s @ [c])"
  by (simp add: str_insert_def)

lemma pw_type_ascii:
  "ascii p \<Longrightarrow> pw_cursor d = blen (pw_buffer d) \<Longrightarrow>
     pw_type p d = Some (d\<lparr>pw_buffer := pw_buffer d @ p, pw_cursor := pw_cursor d + length p\<rparr>)"
proof (induction p arbitrary: d)
  case Nil
  then show ?case by (simp add: pw_type_def)
next
  case (Cons c p)
  then have "c < 128" "ascii p" by (simp_all add: ascii_def)
  with Cons.IH [of "d\<lparr>pw_buffer := pw_buffer d @ [c], pw_cursor := Suc (pw_cursor d)\<rparr>"] Cons.prems(2)
  show ?case by (simp add: pw_type_def pw_insert_char_def str_insert_end)
qed

text \<open>
  A password of ASCII characters reaches the request it was typed for, and only that one: after typing and
  submitting, the answer is exactly the text, the dialog is empty, and nothing more is sent by submitting or
  cancelling again.
\<close>

theorem password_answers_once:
  assumes "ascii p" and "p \<noteq> []"
  shows "\<exists>d1. pw_type p (pw_set_request r d) = Some d1 \<and> fst (pw_submit d1)
    \<and> pw_answered (snd (pw_submit d1)) = pw_answered d @ [(sr_id r, Password p)]
    \<and> pw_buffer (snd (pw_submit d1)) = [] \<and> pw_submit (snd (pw_submit d1)) = (False, snd (pw_submit d1))
    \<and> pw_cancel (snd (pw_submit d1)) = (False, snd (pw_submit d1))"
  using assms(2) pw_type_ascii [OF assms(1), of "pw_set_request r d"]
  by (simp add: pw_set_request_def pw_submit_def pw_cancel_def)

theorem password_answers_once_witness:
  "\<exists>d1. pw_type (lit ''pa'') (pw_set_request \<lparr>sr_id = lit ''7'', sr_command = lit ''sudo ls''\<rparr> pw_new) = Some d1
    \<and> pw_answered (snd (pw_submit d1)) = [(lit ''7'', Password (lit ''pa''))]"
  using password_answers_once [of "lit ''pa''" "\<lparr>sr_id = lit ''7'', sr_command = lit ''sudo ls''\<rparr>" pw_new]
  by (auto simp: ascii_def lit_def pw_new_def)

text \<open>
  A character outside ASCII can be typed, but the next key, a character or backspace, hits the middle of it: the
  interface panics.
\<close>

lemma password_panics:
  assumes "utf8_len c > 1" and "pw_buffer d = []" and "pw_cursor d = 0"
  shows "\<exists>d1. pw_insert_char c d = Some d1 \<and> pw_insert_char x d1 = None \<and> (pw_delete_char d1 = Some d2 \<longrightarrow> pw_buffer d2 = [])"
  using assms
  by (auto simp: pw_insert_char_def pw_delete_char_def str_insert_def str_remove_def split: option.splits list.splits)

text \<open>A second request takes the place of the first, which is never answered.\<close>

lemma second_password_request_drops_first:
  "pw_answered (snd (pw_submit (pw_set_request r2 (pw_set_request r1 d)))) = pw_answered d"
  "pw_request (pw_set_request r2 (pw_set_request r1 d)) = Some r2"
  by (simp_all add: pw_submit_def pw_set_request_def)

section \<open>The search field of the help dialog\<close>

text \<open>The text before and after the cursor, which is what the edits of a line of text are defined on.\<close>

datatype line_edit = Insert rchar | DeleteBackward | DeleteForward | GoLeft | GoRight | GoHome | GoEnd | ClearAll

fun line_edit_spec :: "line_edit \<Rightarrow> rstr \<times> rstr \<Rightarrow> rstr \<times> rstr" where
  "line_edit_spec (Insert c) (a, b) = (a @ [c], b)"
| "line_edit_spec DeleteBackward (a, b) = (butlast a, b)"
| "line_edit_spec DeleteForward (a, b) = (a, tl b)"
| "line_edit_spec GoLeft (a, b) = (if a = [] then (a, b) else (butlast a, last a # b))"
| "line_edit_spec GoRight (a, b) = (if b = [] then (a, b) else (a @ [hd b], tl b))"
| "line_edit_spec GoHome (a, b) = ([], a @ b)"
| "line_edit_spec GoEnd (a, b) = (a @ b, [])"
| "line_edit_spec ClearAll (a, b) = ([], [])"

fun hd_edit :: "line_edit \<Rightarrow> help_dialog \<Rightarrow> help_dialog option" where
  "hd_edit (Insert c) d = hd_insert_char c d"
| "hd_edit DeleteBackward d = map_option snd (hd_delete_backward d)"
| "hd_edit DeleteForward d = map_option snd (hd_delete_forward d)"
| "hd_edit GoLeft d = Some (hd_move_left d)"
| "hd_edit GoRight d = Some (hd_move_right d)"
| "hd_edit GoHome d = Some (hd_move_home d)"
| "hd_edit GoEnd d = Some (hd_move_end d)"
| "hd_edit ClearAll d = Some (hd_clear_search d)"

definition hd_line :: "help_dialog \<Rightarrow> rstr \<times> rstr" where
  "hd_line d = (take (hd_cursor d) (hd_query d), drop (hd_cursor d) (hd_query d))"

definition hd_ok :: "help_dialog \<Rightarrow> bool" where
  "hd_ok d \<longleftrightarrow> hd_cursor d \<le> length (hd_query d)"

lemma char_to_byte_before_end: "char_to_byte_index s i < blen s \<longleftrightarrow> i < length s"
proof -
  have "blen (take i s) + blen (drop i s) = blen s" by (simp flip: blen_append)
  moreover have "0 < blen (drop i s)" if "i < length s" using that by (simp add: neq0_conv [symmetric] del: neq0_conv)
  ultimately show ?thesis by (force simp: char_to_byte_index_def)
qed

lemma hd_take_char_eq:
  "hd_take_char d =
     (case drop (hd_cursor d) (hd_query d) of
        [] \<Rightarrow> Some (False, d)
      | c # b \<Rightarrow> Some (True, d\<lparr>hd_query := take (hd_cursor d) (hd_query d) @ b, hd_cached := None\<rparr>))"
  by (simp add: hd_take_char_def char_to_byte_boundary split: list.split)

lemma hd_edit_refines:
  assumes "hd_ok d"
  shows "\<exists>d1. hd_edit e d = Some d1 \<and> hd_ok d1 \<and> hd_line d1 = line_edit_spec e (hd_line d)"
proof (cases e)
  case (Insert c)
  with assms show ?thesis
    by (simp add: hd_insert_char_def str_insert_def char_to_byte_boundary hd_ok_def hd_line_def)
next
  case DeleteBackward
  show ?thesis
  proof (cases "hd_cursor d")
    case 0
    with DeleteBackward assms show ?thesis by (simp add: hd_delete_backward_def hd_line_def hd_ok_def)
  next
    case (Suc n)
    with assms have n: "n < length (hd_query d)" by (simp add: hd_ok_def)
    then have "drop n (hd_query d) = hd_query d ! n # drop (Suc n) (hd_query d)" by (simp add: Cons_nth_drop_Suc)
    with DeleteBackward Suc n show ?thesis
      by (simp add: hd_delete_backward_def hd_take_char_eq hd_line_def hd_ok_def butlast_take)
  qed
next
  case DeleteForward
  show ?thesis
  proof (cases "drop (hd_cursor d) (hd_query d)")
    case Nil
    with DeleteForward assms show ?thesis by (simp add: hd_delete_forward_def char_to_byte_before_end hd_line_def hd_ok_def)
  next
    case (Cons c b)
    then have "hd_cursor d < length (hd_query d)" by (metis drop_all linorder_not_le list.discI)
    with DeleteForward Cons assms show ?thesis
      by (simp add: hd_delete_forward_def char_to_byte_before_end hd_take_char_eq hd_line_def hd_ok_def)
  qed
next
  case GoLeft
  show ?thesis
  proof (cases "hd_cursor d")
    case 0
    with GoLeft assms show ?thesis by (simp add: hd_move_left_def hd_line_def hd_ok_def)
  next
    case (Suc n)
    with assms have n: "n < length (hd_query d)" by (simp add: hd_ok_def)
    then have "take (Suc n) (hd_query d) = take n (hd_query d) @ [hd_query d ! n]" by (simp add: take_Suc_conv_app_nth)
    with GoLeft Suc n show ?thesis
      by (simp add: hd_move_left_def hd_line_def hd_ok_def Cons_nth_drop_Suc)
  qed
next
  case GoRight
  show ?thesis
  proof (cases "hd_cursor d < length (hd_query d)")
    case True
    then have "take (Suc (hd_cursor d)) (hd_query d) = take (hd_cursor d) (hd_query d) @ [hd_query d ! hd_cursor d]"
      by (simp add: take_Suc_conv_app_nth)
    with GoRight True show ?thesis
      by (simp add: hd_move_right_def hd_line_def hd_ok_def hd_drop_conv_nth tl_drop drop_Suc)
  next
    case False
    with GoRight assms show ?thesis by (simp add: hd_move_right_def hd_line_def hd_ok_def)
  qed
qed (use assms in \<open>simp_all add: hd_move_home_def hd_move_end_def hd_clear_search_def hd_line_def hd_ok_def\<close>)

interpretation help_search: panic_machine hd_edit "\<lambda>e. True" hd_ok
  by unfold_locales (use hd_edit_refines in blast)

text \<open>
  In the search field of the help, in any script, no sequence of keys panics, and the text on either side of the
  cursor is what a line editor holds after the same keys.
\<close>

theorem help_search_refines_line_editor:
  "\<exists>d. run_opt hd_edit es hd_new = Some d \<and> hd_line d = fold line_edit_spec es ([], [])"
proof -
  have "\<exists>d1. run_opt hd_edit es d = Some d1 \<and> hd_ok d1 \<and> hd_line d1 = fold line_edit_spec es (hd_line d)"
    if "hd_ok d" for d
    using that
  proof (induction es arbitrary: d)
    case (Cons e es)
    obtain d1 where "hd_edit e d = Some d1" "hd_ok d1" "hd_line d1 = line_edit_spec e (hd_line d)"
      using hd_edit_refines [OF Cons.prems] by blast
    with Cons.IH [of d1] show ?case by simp
  qed simp
  from this [of hd_new] show ?thesis by (auto simp: hd_new_def hd_ok_def hd_line_def)
qed

section \<open>Scrolling the help\<close>

lemma hd_scroll_bounded: "hd_content_scroll (hd_scroll_down V n d) \<le> hd_max_content_scroll V d"
  by (simp add: hd_scroll_down_def)

text \<open>
  What is shown while searching are the entries that contain the query, by shortcut or description, from every
  category.
\<close>

lemma help_search_shows_matches:
  "hd_query d \<noteq> [] \<Longrightarrow> e \<in> set (hd_current_entries V d) \<longleftrightarrow>
     (\<exists>c. e \<in> set (hv_entries V c) \<and> (str_contains (hv_lower V (he_shortcut e)) (hv_lower V (hd_query d))
        \<or> str_contains (hv_lower V (he_description e)) (hv_lower V (hd_query d))))"
proof -
  assume q: "hd_query d \<noteq> []"
  have all: "c \<in> set help_categories" for c by (cases c) (simp_all add: help_categories_def)
  from q show ?thesis
    using all by (force simp: hd_current_entries_def hd_is_searching_def hd_search_results_def search_help_def)
qed

text \<open>Deleting does not bring the scroll position back into the shorter list of results.\<close>

lemma deleting_keeps_scroll:
  "hd_delete_backward d = Some (b, d1) \<Longrightarrow> hd_content_scroll d1 = hd_content_scroll d"
  by (auto simp: hd_delete_backward_def hd_take_char_def split: if_splits option.splits list.splits prod.splits)

end
