(* ===== verification/Keybindings.thy ===== *)
theory Keybindings
  imports TuiEvents WorkingSet "HOL-Library.AList"
begin

text \<open>
  Remappable keys, \<^verbatim>\<open>apps/cli/src/tui/keybindings.rs\<close>: the specification of a key is parsed, overrides of known
  actions replace the defaults, and an event is compared with the binding of an action. The hash maps are
  association lists in some order.
\<close>

type_synonym key_binding = "key_code \<times> modifier set"

definition default_bindings :: "(rstr \<times> key_binding) list" where
  "default_bindings =
     [(lit ''console_view'', (KChar 100, {Control})),
      (lit ''plan_mode_toggle'', (KChar 112, {Control})),
      (lit ''task_viewer'', (KChar 116, {Control})),
      (lit ''reverse_search'', (KChar 114, {Control})),
      (lit ''sub_agent_viewer'', (KChar 98, {Control})),
      (lit ''file_explorer'', (KChar 102, {Control, Alt}))]"

section \<open>Key specifications\<close>

definition eq_ignore_case :: "rstr \<Rightarrow> string \<Rightarrow> bool" where
  "eq_ignore_case s name \<longleftrightarrow> ascii_lower s = ascii_lower (lit name)"

fun parse_modifier :: "rstr \<Rightarrow> modifier option" where
  "parse_modifier m =
     (if eq_ignore_case m ''ctrl'' \<or> eq_ignore_case m ''control'' then Some Control
      else if eq_ignore_case m ''alt'' \<or> eq_ignore_case m ''meta'' then Some Alt
      else if eq_ignore_case m ''shift'' then Some Shift
      else None)"

fun parse_modifiers :: "rstr list \<Rightarrow> modifier set option" where
  "parse_modifiers [] = Some {}"
| "parse_modifiers (m # ms) =
     (case parse_modifier m of
        None \<Rightarrow> None
      | Some x \<Rightarrow> map_option (insert x) (parse_modifiers ms))"

definition named_keys :: "(string \<times> key_code) list" where
  "named_keys =
     [(''esc'', KEsc), (''escape'', KEsc), (''enter'', KEnter), (''return'', KEnter), (''tab'', KTab),
      (''space'', KChar 32), (''backspace'', KBackspace), (''delete'', KDelete), (''up'', KUp), (''down'', KDown),
      (''left'', KLeft), (''right'', KRight), (''home'', KHome), (''end'', KEnd), (''pageup'', KPageUp),
      (''pagedown'', KPageDown)]"

definition named_key :: "rstr \<Rightarrow> key_code option" where
  "named_key k = map_option snd (find (\<lambda>(n, c). eq_ignore_case k n) named_keys)"

definition parse_key :: "rstr \<Rightarrow> key_code option" where
  "parse_key k =
     (case named_key k of
        Some c \<Rightarrow> Some c
      | None \<Rightarrow>
          if blen k \<ge> 2 \<and> (hd k = 70 \<or> hd k = 102)
          then (case parse_decimal 256 (tl k) of
                  Some n \<Rightarrow> if 1 \<le> n \<and> n \<le> 24 then Some (KF n) else None
                | None \<Rightarrow> None)
          else (case k of [c] \<Rightarrow> Some (KChar (ascii_lower_char c)) | _ \<Rightarrow> None))"

definition parse_key_spec :: "rstr \<Rightarrow> key_binding option" where
  "parse_key_spec spec =
     (if trim spec = [] then None
      else
        let parts = map trim (split_on (\<lambda>c. c = 43) [] (trim spec)) in
        case parse_modifiers (butlast parts) of
          None \<Rightarrow> None
        | Some ms \<Rightarrow> map_option (\<lambda>c. (c, ms)) (parse_key (last parts)))"

section \<open>The table\<close>

type_synonym bindings = "rstr \<Rightarrow> key_binding option"

definition override :: "rstr \<times> rstr \<Rightarrow> bindings \<Rightarrow> bindings" where
  "override p B =
     (case p of
        (action, spec) \<Rightarrow>
          if B action = None then B
          else (case parse_key_spec spec of Some kb \<Rightarrow> B(action := Some kb) | None \<Rightarrow> B))"

definition bindings_from_settings :: "(rstr \<times> rstr) list option \<Rightarrow> bindings" where
  "bindings_from_settings cfg =
     (case cfg of
        None \<Rightarrow> map_of default_bindings
      | Some global \<Rightarrow> fold override global (map_of default_bindings))"

definition binding_matches :: "bindings \<Rightarrow> rstr \<Rightarrow> 'm event \<Rightarrow> bool" where
  "binding_matches B action e =
     (case B action of
        None \<Rightarrow> False
      | Some (code, ms) \<Rightarrow> keyed (\<lambda>k mods. k = code \<and> mods = ms) e)"

text \<open>Settings files are merged action by action, the later one wins.\<close>

definition merge_keybindings :: "(rstr \<times> rstr) list \<Rightarrow> (rstr \<times> rstr) list \<Rightarrow> (rstr \<times> rstr) list" where
  "merge_keybindings me them = fold (\<lambda>(k, v). AList.update k v) them me"

section \<open>What settings can change\<close>

lemma override_other: "a \<noteq> fst p \<Longrightarrow> override p B a = B a"
  by (auto simp: override_def split: prod.splits option.splits)

lemma override_dom: "dom (override p B) = dom B"
  by (auto simp: override_def split: prod.splits option.splits)

lemma fold_override_other: "a \<notin> fst ` set ps \<Longrightarrow> fold override ps B a = B a"
  by (induction ps arbitrary: B) (auto simp: override_other)

lemma fold_override_dom: "dom (fold override ps B) = dom B"
  by (induction ps arbitrary: B) (simp_all add: override_dom)

lemma fold_override_at:
  assumes "distinct (map fst ps)" and "(a, spec) \<in> set ps"
  shows "fold override ps B a = override (a, spec) B a"
  using assms
proof (induction ps arbitrary: B)
  case (Cons p ps)
  show ?case
  proof (cases "p = (a, spec)")
    case True
    with Cons.prems(1) show ?thesis by (simp add: fold_override_other)
  next
    case False
    with Cons.prems have m: "(a, spec) \<in> set ps" "a \<noteq> fst p" by (auto simp: rev_image_eqI)
    then have "override p B a = B a" by (simp add: override_other)
    then have "override (a, spec) (override p B) a = override (a, spec) B a"
      by (auto simp: override_def split: prod.splits option.splits)
    with Cons.IH [OF _ m(1)] Cons.prems(1) show ?thesis by simp
  qed
qed simp

text \<open>
  In whatever order the entries of the settings are visited, each known action is bound to the key its entry
  specifies, and to its default if there is no entry or it cannot be parsed; unknown actions stay unbound.
\<close>

theorem bindings_of_settings:
  assumes "distinct (map fst cfg)"
  shows "bindings_from_settings (Some cfg) a =
    (case map_of default_bindings a of
       None \<Rightarrow> None
     | Some d \<Rightarrow> Some (case Option.bind (map_of cfg a) parse_key_spec of Some kb \<Rightarrow> kb | None \<Rightarrow> d))"
proof (cases "map_of cfg a")
  case None
  then have "a \<notin> fst ` set cfg" by (simp add: map_of_eq_None_iff)
  with None show ?thesis by (simp add: bindings_from_settings_def fold_override_other split: option.split)
next
  case (Some spec)
  then have "fold override cfg (map_of default_bindings) a = override (a, spec) (map_of default_bindings) a"
    using assms by (intro fold_override_at) (auto intro: map_of_SomeD)
  with Some show ?thesis by (auto simp: bindings_from_settings_def override_def split: option.split)
qed

lemmas spec_evaluation = parse_key_spec_def trim_def is_ws_def eq_ignore_case_def ascii_lower_def ascii_lower_char_def lit_def
  parse_key_def named_key_def named_keys_def blen_def utf8_len_def

lemma parse_ctrl_k: "parse_key_spec (lit ''Ctrl+K'') = Some (KChar 107, {Control})"
  by (simp add: spec_evaluation)

theorem bindings_of_settings_witness:
  "bindings_from_settings (Some [(lit ''console_view'', lit ''Ctrl+K'')]) (lit ''console_view'') = Some (KChar 107, {Control})
    \<and> bindings_from_settings (Some [(lit ''console_view'', lit ''Ctrl+K'')]) (lit ''task_viewer'') = Some (KChar 116, {Control})"
  using bindings_of_settings [of "[(lit ''console_view'', lit ''Ctrl+K'')]" "lit ''console_view''"]
    bindings_of_settings [of "[(lit ''console_view'', lit ''Ctrl+K'')]" "lit ''task_viewer''"]
  by (simp add: default_bindings_def parse_ctrl_k) (simp add: lit_def)

text \<open>
  A letter is bound in lower case, also with Shift: the terminal reports the capital letter, so such a binding is
  never hit.
\<close>

lemma shift_letter_never_matches:
  "parse_key_spec (lit ''Ctrl+Shift+D'') = Some (KChar 100, {Control, Shift})"
  "binding_matches (\<lambda>a. parse_key_spec (lit ''Ctrl+Shift+D'')) a (Key (KChar 68) {Control, Shift} :: unit event) = False"
proof -
  show p: "parse_key_spec (lit ''Ctrl+Shift+D'') = Some (KChar 100, {Control, Shift})" by (simp add: spec_evaluation)
  show "binding_matches (\<lambda>a. parse_key_spec (lit ''Ctrl+Shift+D'')) a (Key (KChar 68) {Control, Shift} :: unit event) = False"
    by (simp add: binding_matches_def p)
qed

end
