(* ===== verification/UserQuestions.thy ===== *)
theory UserQuestions
  imports Questions TuiEvents
begin

text \<open>
  The questions a tool asks the user while it runs: \<^verbatim>\<open>ask/mod.rs\<close>, \<^verbatim>\<open>tui/app/user_question.rs\<close> and their event
  handler in \<^verbatim>\<open>tui/app/events/modals.rs\<close>. A question is shown as a block of one clarifying question. The one-shot
  channel of a request is a number, and the reply sent on it is part of the result of a step; a reply nobody waits for
  is dropped by the channel.
\<close>

section \<open>Requests and replies\<close>

record ask_request =
  aq_id :: rstr
  aq_question :: rstr
  aq_options :: "rstr list"
  aq_multi_select :: bool
  aq_reply_to :: nat

datatype ask_reply = Answered rstr | SelectedAnswers "rstr list" | AskCancelled

definition to_question_block :: "ask_request \<Rightarrow> question_block \<times> answer_state" where
  "to_question_block r =
     (let options = map (\<lambda>(i, l). \<lparr>qo_id = lit ''opt-'' @ show_nat i, qo_label = l, qo_description = None\<rparr>)
            (enumerate 0 (aq_options r));
          b = \<lparr>qb_analysis = None,
               qb_questions = [\<lparr>cq_id = aq_id r, cq_question = aq_question r, cq_header = lit ''Ask'', cq_options = options,
                 cq_multi_select = aq_options r \<noteq> [] \<and> aq_multi_select r, cq_ambiguity_type = None\<rparr>]\<rparr>
      in (b, qa_new b))"

definition ticked :: "clarifying_question \<Rightarrow> answer_state \<Rightarrow> rstr list" where
  "ticked q s =
     map (qo_label \<circ> snd) (filter (\<lambda>(i, x). get_or False (get_or [] (selected_options s) 0) i) (enumerate 0 (cq_options q)))"

definition typed_other :: "answer_state \<Rightarrow> rstr" where
  "typed_other s = trim (get_or [] (other_text s) 0)"

definition collect_response :: "ask_request \<Rightarrow> question_block \<Rightarrow> answer_state \<Rightarrow> ask_reply" where
  "collect_response r b s =
     (case qb_questions b of
        [] \<Rightarrow> AskCancelled
      | q # qs \<Rightarrow>
          let other = (if typed_other s = [] then AskCancelled else Answered (typed_other s)) in
          if aq_multi_select r \<and> aq_options r \<noteq> []
          then
            let picked = ticked q s @
                  (if get_or False (other_selected s) 0 \<and> typed_other s \<noteq> [] then [typed_other s] else [])
            in if picked = [] then AskCancelled else SelectedAnswers picked
          else if aq_options r \<noteq> []
          then (case ticked q s of
                  l # ls \<Rightarrow> Answered l
                | [] \<Rightarrow> if get_or False (other_selected s) 0 then other else AskCancelled)
          else other)"

record pending_question =
  pq_request :: ask_request
  pq_block :: question_block
  pq_state :: answer_state

definition pq_from_request :: "ask_request \<Rightarrow> pending_question" where
  "pq_from_request r = (case to_question_block r of (b, s) \<Rightarrow> \<lparr>pq_request = r, pq_block = b, pq_state = s\<rparr>)"

definition pq_collect :: "pending_question \<Rightarrow> ask_reply" where
  "pq_collect p = collect_response (pq_request p) (pq_block p) (pq_state p)"

section \<open>The event handler\<close>

text \<open>Nothing ticked when Enter is pressed: the item under the cursor is taken.\<close>

definition toggle_if_none :: "pending_question \<Rightarrow> pending_question" where
  "toggle_if_none p =
     (let s = pq_state p in
      if \<not> (True \<in> set (get_or [] (selected_options s) 0) \<or> get_or False (other_selected s) 0)
         \<and> qb_questions (pq_block p) \<noteq> []
      then p\<lparr>pq_state := toggle_current (pq_block p) s\<rparr> else p)"

definition start_other :: "question_block \<Rightarrow> answer_state \<Rightarrow> answer_state" where
  "start_other b s =
     (if is_cursor_on_other b s \<and> get_or False (other_selected s) (current_question_idx s)
      then s\<lparr>editing_other := True\<rparr> else s)"

definition type_on_other :: "question_block \<Rightarrow> rchar \<Rightarrow> answer_state \<Rightarrow> answer_state" where
  "type_on_other b c s =
     (if is_cursor_on_other b s
      then append_other_char c
        (s\<lparr>other_selected := modify_nth (current_question_idx s) (\<lambda>_. True) (other_selected s), editing_other := True\<rparr>)
      else s)"

definition question_key :: "question_block \<Rightarrow> key_code \<Rightarrow> answer_state \<Rightarrow> answer_state" where
  "question_key b k s =
     (if editing_other s
      then (case k of
              KChar c \<Rightarrow> append_other_char c s
            | KBackspace \<Rightarrow> backspace_other s
            | KTab \<Rightarrow> s\<lparr>editing_other := False\<rparr>
            | _ \<Rightarrow> s)
      else (case k of
              KUp \<Rightarrow> q_cursor_up s
            | KDown \<Rightarrow> q_cursor_down b s
            | KChar c \<Rightarrow> if c = 32 then start_other b (toggle_current b s) else type_on_other b c s
            | _ \<Rightarrow> s))"

definition question_event :: "'m event \<Rightarrow> pending_question \<Rightarrow> pending_question option \<times> (nat \<times> ask_reply) option" where
  "question_event e p =
     (let reply = aq_reply_to (pq_request p) in
      if is_escape e then (None, Some (reply, AskCancelled))
      else if is_enter e then (None, Some (reply, pq_collect (toggle_if_none p)))
      else
        (case e of
           Key k ms \<Rightarrow> (Some (p\<lparr>pq_state := question_key (pq_block p) k (pq_state p)\<rparr>), None)
         | _ \<Rightarrow> (Some p, None)))"

text \<open>A run of the dialog on a stream of events, with the replies it sends; once answered it leaves the mode.\<close>

fun question_run :: "'m event list \<Rightarrow> pending_question option \<Rightarrow> pending_question option \<times> (nat \<times> ask_reply) list" where
  "question_run [] p = (p, [])"
| "question_run (e # es) None = (None, [])"
| "question_run (e # es) (Some p) =
     (case question_event e p of
        (p', r) \<Rightarrow> (case question_run es p' of (p'', rs) \<Rightarrow> (p'', (case r of Some x \<Rightarrow> x # rs | None \<Rightarrow> rs))))"

section \<open>Properties\<close>

definition ask_inv :: "ask_request \<Rightarrow> pending_question \<Rightarrow> bool" where
  "ask_inv r p \<longleftrightarrow> pq_request p = r \<and> pq_block p = fst (to_question_block r)
     \<and> current_question_idx (pq_state p) = 0
     \<and> (\<exists>row. selected_options (pq_state p) = [row] \<and> length row = length (aq_options r))
     \<and> length (other_selected (pq_state p)) = 1 \<and> length (other_text (pq_state p)) = 1"

lemma ask_block_simps [simp]:
  "qb_questions (fst (to_question_block r)) =
     [\<lparr>cq_id = aq_id r, cq_question = aq_question r, cq_header = lit ''Ask'',
       cq_options = map (\<lambda>(i, l). \<lparr>qo_id = lit ''opt-'' @ show_nat i, qo_label = l, qo_description = None\<rparr>)
         (enumerate 0 (aq_options r)),
       cq_multi_select = aq_options r \<noteq> [] \<and> aq_multi_select r, cq_ambiguity_type = None\<rparr>]"
  by (simp add: to_question_block_def Let_def)

lemma trim_trim: "trim (trim s) = trim s"
proof -
  let ?t = "dropWhile is_ws s"
  let ?u = "rev (dropWhile is_ws (rev ?t))"
  have "dropWhile is_ws ?u = ?u"
  proof (cases "?u = []")
    case False
    obtain z where z: "?t = ?u @ z"
      by (metis rev_append rev_rev_ident takeWhile_dropWhile_id)
    with False have "hd ?u = hd ?t" by (metis hd_append2)
    moreover from z False have "?t \<noteq> []" by (metis append_is_Nil_conv)
    ultimately show ?thesis using hd_dropWhile [of is_ws s] by (metis dropWhile_eq_self_iff)
  next
    case True
    then show ?thesis by (metis dropWhile.simps(1))
  qed
  then show ?thesis by (simp add: trim_def dropWhile_idem)
qed

lemma ask_inv_new: "ask_inv r (pq_from_request r)"
  by (simp add: ask_inv_def pq_from_request_def to_question_block_def qa_new_def Let_def)

lemma toggle_keeps_shape:
  assumes "ask_inv r p"
  shows "ask_inv r (p\<lparr>pq_state := toggle_current (pq_block p) (pq_state p)\<rparr>)"
  using assms by (auto simp: ask_inv_def toggle_current_def Let_def vec_get_def modify_nth_def clear_all_def)

lemma start_other_fields [simp]:
  "current_question_idx (start_other b s) = current_question_idx s" "selected_options (start_other b s) = selected_options s"
  "other_selected (start_other b s) = other_selected s" "other_text (start_other b s) = other_text s"
  by (simp_all add: start_other_def)

lemma type_on_other_fields [simp]:
  "current_question_idx (type_on_other b c s) = current_question_idx s"
  "selected_options (type_on_other b c s) = selected_options s"
  "length (other_selected (type_on_other b c s)) = length (other_selected s)"
  "length (other_text (type_on_other b c s)) = length (other_text s)"
  by (simp_all add: type_on_other_def append_other_char_def)

lemma question_key_inv:
  assumes "ask_inv r p"
  shows "ask_inv r (p\<lparr>pq_state := question_key (pq_block p) k (pq_state p)\<rparr>)"
  using assms toggle_keeps_shape [OF assms]
  by (cases k) (auto simp: ask_inv_def question_key_def append_other_char_def backspace_other_def q_cursor_up_def q_cursor_down_def)

lemma toggle_if_none_inv: "ask_inv r p \<Longrightarrow> ask_inv r (toggle_if_none p)"
  by (auto simp: toggle_if_none_def Let_def intro: toggle_keeps_shape)

text \<open>What a reply may be: a choice among the options, or text that was typed.\<close>

definition reply_ok :: "ask_request \<Rightarrow> ask_reply \<Rightarrow> bool" where
  "reply_ok r x =
     (case x of
        Answered a \<Rightarrow> a \<in> set (aq_options r) \<or> a \<noteq> [] \<and> trim a = a
      | SelectedAnswers as \<Rightarrow> aq_multi_select r \<and> as \<noteq> [] \<and> set (butlast as) \<subseteq> set (aq_options r)
          \<and> (last as \<in> set (aq_options r) \<or> last as \<noteq> [] \<and> trim (last as) = last as)
      | AskCancelled \<Rightarrow> True)"

lemma ticked_are_options:
  "ask_inv r p \<Longrightarrow> set (ticked (hd (qb_questions (pq_block p))) (pq_state p)) \<subseteq> set (aq_options r)"
  by (auto simp: ask_inv_def ticked_def in_set_enumerate_eq nth_enumerate_eq)

lemma last_tick_ok: "xs \<noteq> [] \<Longrightarrow> set xs \<subseteq> A \<Longrightarrow> last xs \<in> A \<and> set (butlast xs) \<subseteq> A"
  by (auto dest: in_set_butlastD)

lemma collect_ok:
  assumes "ask_inv r p"
  shows "reply_ok r (pq_collect p)"
proof -
  obtain q where q: "qb_questions (pq_block p) = [q]" and r: "pq_request p = r"
    using assms by (auto simp: ask_inv_def)
  have t: "set (ticked q (pq_state p)) \<subseteq> set (aq_options r)"
    using ticked_are_options [OF assms] q by simp
  have o': "trim (typed_other (pq_state p)) = typed_other (pq_state p)"
    by (simp add: typed_other_def trim_trim)
  show ?thesis
    using t o' last_tick_ok [OF _ t]
    by (auto simp: pq_collect_def collect_response_def q r reply_ok_def Let_def split: list.split)
qed

text \<open>
  A question asked by a tool is answered at most once and on its own channel, by the first Escape or Enter;
  until then nothing is sent. The reply is a cancellation, one of the offered options, ticked options of a
  multiple choice, or trimmed text that is not empty.
\<close>

theorem question_answered_once:
  "case question_run es (Some (pq_from_request r)) of
     (p, rs) \<Rightarrow>
       (if list_ex (\<lambda>e. is_escape e \<or> is_enter e) es
        then p = None \<and> (\<exists>x. rs = [(aq_reply_to r, x)] \<and> reply_ok r x)
        else p \<noteq> None \<and> rs = [])"
proof -
  have "ask_inv r p \<Longrightarrow>
      (case question_run es (Some p) of
         (p', rs) \<Rightarrow>
           (if list_ex (\<lambda>e. is_escape e \<or> is_enter e) es
            then p' = None \<and> (\<exists>x. rs = [(aq_reply_to r, x)] \<and> reply_ok r x)
            else p' \<noteq> None \<and> rs = []))" for p
  proof (induction es arbitrary: p)
    case (Cons e es)
    have none: "question_run es None = (None, [])" by (cases es) simp_all
    have r: "aq_reply_to (pq_request p) = aq_reply_to r" using Cons.prems by (simp add: ask_inv_def)
    consider (esc) "is_escape e" | (enter) "\<not> is_escape e" "is_enter e" | (other) "\<not> is_escape e" "\<not> is_enter e" by blast
    then show ?case
    proof cases
      case esc
      then show ?thesis by (simp add: question_event_def none r reply_ok_def)
    next
      case enter
      then show ?thesis
        using collect_ok [OF toggle_if_none_inv [OF Cons.prems]] by (simp add: question_event_def none r)
    next
      case other
      then obtain p' where "question_event e p = (Some p', None)" "ask_inv r p'"
        using Cons.prems question_key_inv [OF Cons.prems] by (cases e) (auto simp: question_event_def)
      with Cons.IH [of p'] other show ?thesis by (auto split: prod.splits)
    qed
  qed simp
  from this [OF ask_inv_new] show ?thesis .
qed

text \<open>
  Enter without a choice takes the item under the cursor, so with options it never cancels at first. But ticking an
  option of a single choice and then typing another answer keeps the tick: the typed answer is lost.
\<close>

definition colour_request :: ask_request where
  "colour_request = \<lparr>aq_id = [], aq_question = lit ''Colour?'', aq_options = [lit ''r'', lit ''b''], aq_multi_select = False,
     aq_reply_to = 7\<rparr>"

lemma enter_takes_the_highlighted:
  "question_run [Key KDown {}, Key KEnter {}] (Some (pq_from_request colour_request)) = (None, [(7, Answered (lit ''b''))])"
  by code_simp

lemma typed_answer_after_tick_is_lost:
  "question_run [Key (KChar 32) {}, Key KDown {}, Key KDown {}, Key (KChar 103) {}, Key KEnter {}]
     (Some (pq_from_request colour_request)) = (None, [(7, Answered (lit ''r''))])"
  by code_simp

end
