(* ===== verification/Settings.thy ===== *)
theory Settings
  imports Prelude
begin

text \<open>
  The layered \<^verbatim>\<open>settings.json\<close> of the harness, \<^verbatim>\<open>apps/cli/src/config/settings.rs\<close>, and the merging
  of its files, \<^verbatim>\<open>apps/cli/src/config/settings_manager.rs\<close>: permission rules, their pattern language
  and the decision for a tool call. A tool input is seen through \<open>args :: rstr \<Rightarrow> rstr option\<close>, the
  string fields of the JSON object (\<^verbatim>\<open>get(k).and_then(as_str)\<close>). \<open>re_match\<close> is the regular expression
  engine: \<open>None\<close> for a pattern it rejects. Keybindings are a parameter with their own merge.
\<close>

section \<open>Settings and their merge\<close>

record permissions =
  allow_rules :: "rstr list"
  deny_rules :: "rstr list"
  ask_rules :: "rstr list"

record hook_command =
  hk_kind :: rstr
  hk_command :: rstr
  hk_timeout_ms :: "64 word option"

record hook_matcher =
  hm_matcher :: "rstr option"
  hm_hooks :: "hook_command list"

record hook_table =
  pre_tool_use :: "hook_matcher list"
  post_tool_use :: "hook_matcher list"
  user_prompt_submit :: "hook_matcher list"
  stop_hooks :: "hook_matcher list"

record 'k settings =
  set_permissions :: "permissions option"
  set_hooks :: "hook_table option"
  set_keybindings :: "'k option"
  set_env :: "rstr \<rightharpoonup> rstr"

definition settings_default :: "'k settings" where
  "settings_default = \<lparr>set_permissions = None, set_hooks = None, set_keybindings = None, set_env = Map.empty\<rparr>"

fun merge_option :: "('a \<Rightarrow> 'a \<Rightarrow> 'a) \<Rightarrow> 'a option \<Rightarrow> 'a option \<Rightarrow> 'a option" where
  "merge_option f (Some me) (Some them) = Some (f me them)"
| "merge_option f None (Some them) = Some them"
| "merge_option f me None = me"

definition merge_permissions :: "permissions \<Rightarrow> permissions \<Rightarrow> permissions" where
  "merge_permissions me them =
     \<lparr>allow_rules = allow_rules me @ allow_rules them, deny_rules = deny_rules me @ deny_rules them,
      ask_rules = ask_rules me @ ask_rules them\<rparr>"

definition merge_hooks :: "hook_table \<Rightarrow> hook_table \<Rightarrow> hook_table" where
  "merge_hooks me them =
     \<lparr>pre_tool_use = pre_tool_use me @ pre_tool_use them, post_tool_use = post_tool_use me @ post_tool_use them,
      user_prompt_submit = user_prompt_submit me @ user_prompt_submit them,
      stop_hooks = stop_hooks me @ stop_hooks them\<rparr>"

definition settings_merge :: "('k \<Rightarrow> 'k \<Rightarrow> 'k) \<Rightarrow> 'k settings \<Rightarrow> 'k settings \<Rightarrow> 'k settings" where
  "settings_merge kb a b =
     \<lparr>set_permissions = merge_option merge_permissions (set_permissions a) (set_permissions b),
      set_hooks = merge_option merge_hooks (set_hooks a) (set_hooks b),
      set_keybindings = merge_option kb (set_keybindings a) (set_keybindings b),
      set_env = set_env a ++ set_env b\<rparr>"

text \<open>
  Loading: \<open>read p\<close> is the parsed file at \<open>p\<close>, \<open>Inr None\<close> when it is missing or blank, \<open>Inl\<close> when it
  is malformed. The files merge in order, a malformed one is skipped.
\<close>

fun load_paths :: "('k \<Rightarrow> 'k \<Rightarrow> 'k) \<Rightarrow> ('p \<Rightarrow> rstr + 'k settings option) \<Rightarrow> 'p list \<Rightarrow> 'k settings \<times> 'p list \<Rightarrow>
    'k settings \<times> 'p list" where
  "load_paths kb read [] st = st"
| "load_paths kb read (p # ps) (merged, sources) =
     load_paths kb read ps
       (case read p of
          Inr (Some s) \<Rightarrow> (settings_merge kb merged s, sources @ [p])
        | Inr None \<Rightarrow> (merged, sources)
        | Inl e \<Rightarrow> (merged, sources))"

definition load_from_paths :: "('k \<Rightarrow> 'k \<Rightarrow> 'k) \<Rightarrow> ('p \<Rightarrow> rstr + 'k settings option) \<Rightarrow> 'p list \<Rightarrow> 'k settings \<times> 'p list" where
  "load_from_paths kb read ps = load_paths kb read ps (settings_default, [])"

section \<open>The rule language\<close>

text \<open>\<^verbatim>\<open>rfind(c)\<close>: the text before the last occurrence of a character.\<close>

definition before_last :: "rchar \<Rightarrow> rstr \<Rightarrow> rstr option" where
  "before_last c s = (if c \<in> set s then Some (rev (tl (dropWhile (\<lambda>x. x \<noteq> c) (rev s)))) else None)"

definition split_pattern :: "rstr \<Rightarrow> rstr \<times> rstr option" where
  "split_pattern raw =
     (case find_cut [40] raw of
        Some (name, rest) \<Rightarrow> (case before_last 41 rest of Some spec \<Rightarrow> (name, Some spec) | None \<Rightarrow> (raw, None))
      | None \<Rightarrow> (raw, None))"

definition canonical_tool_name :: "rstr \<Rightarrow> rstr" where
  "canonical_tool_name pat =
     (if pat = lit ''Bash'' then lit ''execute_command''
      else if pat = lit ''Read'' then lit ''read_file''
      else if pat = lit ''Write'' then lit ''write_file''
      else if pat = lit ''Edit'' then lit ''edit_file''
      else if pat = lit ''Glob'' then lit ''glob''
      else if pat = lit ''Grep'' then lit ''search''
      else if pat = lit ''WebFetch'' then lit ''web_fetch''
      else if pat = lit ''WebSearch'' then lit ''web_search''
      else pat)"

definition strip_suffix :: "rstr \<Rightarrow> rstr \<Rightarrow> rstr option" where
  "strip_suffix suf s = (if suffix suf s then Some (take (length s - length suf) s) else None)"

definition tool_name_matches :: "rstr \<Rightarrow> rstr \<Rightarrow> bool" where
  "tool_name_matches pattern tool =
     (let canon = canonical_tool_name pattern in
      case strip_suffix (lit ''*'') canon of
        Some pre \<Rightarrow> prefix pre tool
      | None \<Rightarrow> canon = tool)"

definition command_matches :: "rstr \<Rightarrow> rstr \<Rightarrow> bool" where
  "command_matches spec command =
     (if spec = lit ''*'' then True
      else case strip_suffix (lit '':*'') spec of
             Some pre \<Rightarrow> command = pre \<or> prefix (pre @ lit '' '') command
           | None \<Rightarrow> spec = command)"

text \<open>The regular expression of a glob, built character by character.\<close>

definition regex_specials :: rstr where
  "regex_specials = lit ''.+()|^$'' @ [123, 125] @ lit ''[]'' @ [92]"

fun glob_body :: "rstr \<Rightarrow> rstr" where
  "glob_body [] = []"
| "glob_body (c # cs) =
     (if c = 42 then
        (case cs of
           d # ds \<Rightarrow>
             if d = 42 then
               lit ''.*'' @ (case ds of e # es \<Rightarrow> if e = 47 then glob_body es else glob_body ds | [] \<Rightarrow> [])
             else lit ''[^/]*'' @ glob_body cs
         | [] \<Rightarrow> lit ''[^/]*'')
      else if c = 63 then lit ''[^/]'' @ glob_body cs
      else if c \<in> set regex_specials then [92, c] @ glob_body cs
      else c # glob_body cs)"

definition glob_matches :: "(rstr \<Rightarrow> rstr \<Rightarrow> bool option) \<Rightarrow> rstr \<Rightarrow> rstr \<Rightarrow> bool" where
  "glob_matches re_match pattern p =
     (if pattern = lit ''*'' then True
      else case re_match (lit ''^'' @ glob_body pattern @ lit ''$'') p of Some b \<Rightarrow> b | None \<Rightarrow> False)"

type_synonym tool_args = "rstr \<Rightarrow> rstr option"

definition path_arg :: "tool_args \<Rightarrow> rstr option" where
  "path_arg args = (case args (lit ''file_path'') of Some p \<Rightarrow> Some p | None \<Rightarrow> args (lit ''path''))"

definition arg_matches :: "(rstr \<Rightarrow> rstr \<Rightarrow> bool option) \<Rightarrow> rstr \<Rightarrow> rstr \<Rightarrow> tool_args \<Rightarrow> bool" where
  "arg_matches re_match tool spec args =
     (if tool \<in> {lit ''execute_command'', lit ''run_command''} then
        (case args (lit ''command'') of Some c \<Rightarrow> command_matches spec c | None \<Rightarrow> False)
      else if tool \<in> {lit ''read_file'', lit ''write_file'', lit ''edit_file'', lit ''delete_file''} then
        (case path_arg args of Some p \<Rightarrow> glob_matches re_match spec p | None \<Rightarrow> False)
      else False)"

definition rule_matches :: "(rstr \<Rightarrow> rstr \<Rightarrow> bool option) \<Rightarrow> rstr \<Rightarrow> tool_args \<Rightarrow> rstr \<Rightarrow> bool" where
  "rule_matches re_match tool args rule =
     (case split_pattern rule of
        (name, spec) \<Rightarrow>
          if \<not> tool_name_matches name tool then False
          else (case spec of None \<Rightarrow> True | Some sp \<Rightarrow> arg_matches re_match tool sp args))"

section \<open>The decision\<close>

datatype permission_decision = Unset | Allow | Ask | Deny rstr

definition decide :: "(rstr \<Rightarrow> rstr \<Rightarrow> bool option) \<Rightarrow> permissions \<Rightarrow> rstr \<Rightarrow> tool_args \<Rightarrow> permission_decision" where
  "decide re_match p tool args =
     (let m = rule_matches re_match tool args in
      case find m (deny_rules p) of
        Some rule \<Rightarrow> Deny (lit ''denied by settings rule '' @ [39] @ rule @ [39])
      | None \<Rightarrow> if list_ex m (ask_rules p) then Ask
               else if list_ex m (allow_rules p) then Allow else Unset)"

text \<open>\<^verbatim>\<open>settings.permissions.as_ref().map(decide).unwrap_or(Unset)\<close>, as the executor asks.\<close>

definition settings_decide :: "(rstr \<Rightarrow> rstr \<Rightarrow> bool option) \<Rightarrow> 'k settings \<Rightarrow> rstr \<Rightarrow> tool_args \<Rightarrow> permission_decision" where
  "settings_decide re_match s tool args =
     (case set_permissions s of Some p \<Rightarrow> decide re_match p tool args | None \<Rightarrow> Unset)"


section \<open>Layers\<close>

text \<open>\<^verbatim>\<open>deny\<close> over \<^verbatim>\<open>ask\<close> over \<^verbatim>\<open>allow\<close>: the strength of a decision.\<close>

fun strength :: "permission_decision \<Rightarrow> nat" where
  "strength Unset = 0"
| "strength Allow = 1"
| "strength Ask = 2"
| "strength (Deny r) = 3"

lemma strength_simps [simp]:
  "strength d = 0 \<longleftrightarrow> d = Unset" "strength d = 3 \<longleftrightarrow> (\<exists>r. d = Deny r)" "strength d \<le> 3"
  by (cases d; simp)+

text \<open>
  The interface of a layered policy: merging two layers is as strict as the stricter of the two.
\<close>

locale layered_policy =
  fixes merge :: "'s \<Rightarrow> 's \<Rightarrow> 's"
    and level :: "'s \<Rightarrow> nat"
  assumes level_merge: "level (merge a b) = max (level a) (level b)"
begin

lemma level_fold: "level (fold (\<lambda>l m. merge m l) ls base) = fold max (map level ls) (level base)"
  by (induction ls arbitrary: base) (simp_all add: level_merge max.commute)

lemma level_fold_ge: "l \<in> set ls \<Longrightarrow> level l \<le> level (fold (\<lambda>l m. merge m l) ls base)"
proof (induction ls arbitrary: base)
  case (Cons x ls)
  have mono: "level b \<le> level (fold (\<lambda>l m. merge m l) ls b)" for b
    by (induction ls arbitrary: b) (simp, metis fold_simps(2) level_merge max.bounded_iff)
  from Cons show ?case
    using mono [of "merge base x"] by (auto simp: level_merge)
qed simp

end

definition permissions_level :: "(rstr \<Rightarrow> rstr \<Rightarrow> bool option) \<Rightarrow> rstr \<Rightarrow> tool_args \<Rightarrow> permissions \<Rightarrow> nat" where
  "permissions_level re_match tool args p = strength (decide re_match p tool args)"

definition settings_level :: "(rstr \<Rightarrow> rstr \<Rightarrow> bool option) \<Rightarrow> rstr \<Rightarrow> tool_args \<Rightarrow> 'k settings \<Rightarrow> nat" where
  "settings_level re_match tool args s = strength (settings_decide re_match s tool args)"

lemma find_Some_iff_list_ex: "(\<exists>x. find m xs = Some x) \<longleftrightarrow> list_ex m xs"
  by (induction xs) auto

lemma permissions_level_eq:
  "permissions_level re_match tool args p =
    (let m = rule_matches re_match tool args in
     if list_ex m (deny_rules p) then 3 else if list_ex m (ask_rules p) then 2
     else if list_ex m (allow_rules p) then 1 else 0)"
  unfolding permissions_level_def decide_def Let_def
  by (auto simp: find_Some_iff_list_ex [symmetric] split: option.splits)

interpretation pl: layered_policy merge_permissions "permissions_level re_match tool args"
  by unfold_locales
    (simp add: permissions_level_eq merge_permissions_def Let_def)

lemma settings_level_eq:
  "settings_level re_match tool args s =
    (case set_permissions s of None \<Rightarrow> 0 | Some p \<Rightarrow> permissions_level re_match tool args p)"
  by (simp add: settings_level_def settings_decide_def permissions_level_def split: option.splits)

interpretation sl: layered_policy "settings_merge kb" "settings_level re_match tool args"
proof
  fix a b :: "'a settings"
  show "settings_level re_match tool args (settings_merge kb a b)
    = max (settings_level re_match tool args a) (settings_level re_match tool args b)"
    by (cases "set_permissions a"; cases "set_permissions b")
      (simp_all add: settings_level_eq settings_merge_def pl.level_merge)
qed

text \<open>The layers that take part: the files that parse, in order.\<close>

definition readable :: "('p \<Rightarrow> rstr + 'k settings option) \<Rightarrow> 'p list \<Rightarrow> 'k settings list" where
  "readable read ps = List.map_filter (\<lambda>p. case read p of Inr l \<Rightarrow> l | Inl e \<Rightarrow> None) ps"

lemma readable_simps [simp]:
  "readable read [] = []"
  "readable read (p # ps) =
     (case read p of Inr (Some s) \<Rightarrow> s # readable read ps | _ \<Rightarrow> readable read ps)"
  by (auto simp: readable_def List.map_filter_simps split: sum.splits option.splits)

lemma load_paths_merged:
  "fst (load_paths kb read ps (m, src)) = fold (\<lambda>l m. settings_merge kb m l) (readable read ps) m"
  by (induction ps arbitrary: m src) (auto split: sum.splits option.splits)

lemma settings_level_default [simp]: "settings_level re_match tool args settings_default = 0"
  by (simp add: settings_level_eq settings_default_def)

text \<open>
  C7: The merged settings are exactly as strict as the strictest file. Whatever the files, their
  order, and the malformed ones among them, the decision for a tool call on the merged settings has
  the maximal strength of the decisions of the single files (deny over ask over allow over unset). A
  deny in any file, the committed one or a local override, survives every merge; a later file can
  never relax an earlier one.
\<close>

theorem merged_as_strict_as_strictest:
  "strength (settings_decide re_match (fst (load_from_paths kb read ps)) tool args)
    = fold max (map (\<lambda>s. strength (settings_decide re_match s tool args)) (readable read ps)) 0"
  using sl.level_fold [of re_match tool args kb "readable read ps" settings_default]
  by (simp add: load_from_paths_def load_paths_merged settings_level_def [symmetric])

section \<open>Which argument a rule sees\<close>

lemma arg_matches_path:
  assumes "args (lit ''file_path'') \<noteq> None"
  shows "arg_matches re_match tool sp (args(lit ''path'' := x)) = arg_matches re_match tool sp args"
  using assms by (auto simp: arg_matches_def path_arg_def lit_def)

text \<open>
  A rule with an argument never sees the \<^verbatim>\<open>path\<close> field when the input also has a
  \<^verbatim>\<open>file_path\<close> field: the decision is the same for every value of \<^verbatim>\<open>path\<close>. The file
  tools read only \<^verbatim>\<open>path\<close>, so a call that names the denied file in \<^verbatim>\<open>path\<close> and a
  harmless one in \<^verbatim>\<open>file_path\<close> passes every deny rule on the file.
\<close>

theorem decision_ignores_path:
  assumes "args (lit ''file_path'') = Some f"
  shows "settings_decide re_match s tool (args(lit ''path'' := x)) = settings_decide re_match s tool args"
proof -
  have "rule_matches re_match tool (args(lit ''path'' := x)) r = rule_matches re_match tool args r" for r
    using assms by (auto simp: rule_matches_def arg_matches_path split: option.splits prod.splits)
  then have "rule_matches re_match tool (args(lit ''path'' := x)) = rule_matches re_match tool args"
    by (rule ext)
  then show ?thesis by (simp add: settings_decide_def decide_def split: option.splits)
qed

lemma decision_ignores_path_witness:
  "\<forall>x. settings_decide (\<lambda>re p. Some True)
      \<lparr>set_permissions = Some \<lparr>allow_rules = [], deny_rules = [lit ''Edit(k*)''], ask_rules = []\<rparr>,
       set_hooks = None, set_keybindings = None :: unit option, set_env = Map.empty\<rparr>
      (lit ''edit_file'') ([lit ''file_path'' \<mapsto> lit ''a'', lit ''path'' \<mapsto> lit ''k''](lit ''path'' := x))
    = settings_decide (\<lambda>re p. Some True)
      \<lparr>set_permissions = Some \<lparr>allow_rules = [], deny_rules = [lit ''Edit(k*)''], ask_rules = []\<rparr>,
       set_hooks = None, set_keybindings = None :: unit option, set_env = Map.empty\<rparr>
      (lit ''edit_file'') [lit ''file_path'' \<mapsto> lit ''a'', lit ''path'' \<mapsto> lit ''k'']"
  by (intro allI decision_ignores_path [where f = "lit ''a''"]) (simp add: lit_def)

section \<open>What a command rule accepts\<close>

text \<open>
  A rule \<^verbatim>\<open>Bash(cmd:*)\<close> matches a command exactly when it is \<^verbatim>\<open>cmd\<close> or starts with
  \<^verbatim>\<open>cmd\<close> and a space. What follows is free: the rule that allows \<^verbatim>\<open>ls\<close> also allows
  \<^verbatim>\<open>ls\<close> followed by any other shell command.
\<close>

theorem command_rule_prefix:
  assumes "cmd \<noteq> []"
  shows "command_matches (cmd @ lit '':*'') command \<longleftrightarrow> command = cmd \<or> (\<exists>rest. command = cmd @ lit '' '' @ rest)"
proof -
  have "cmd @ lit '':*'' \<noteq> lit ''*''" by (cases cmd) (simp_all add: lit_def)
  then show ?thesis
    by (auto simp: command_matches_def strip_suffix_def suffix_def prefix_def)
qed

lemma command_rule_prefix_witness:
  "command_matches (lit ''ls'' @ lit '':*'') (lit ''ls'' @ lit '' '' @ lit ''; rm -rf /'')"
  by (subst command_rule_prefix) (auto simp: lit_def)

end
