(* ===== verification/Hooks.thy ===== *)
theory Hooks
  imports Settings
begin

text \<open>
  The lifecycle hooks, \<^verbatim>\<open>apps/cli/src/hooks/mod.rs\<close>: user commands run at four points of a turn,
  with the meaning of their exit codes. Processes and the serialiser are the record \<open>shell\<close>, a
  parameter. Writing the payload to the child may never return: the pipe of a child that does not
  read fills up, and that write is outside the time limit. Such a run is the value \<open>None\<close>.
\<close>

section \<open>Outcomes and processes\<close>

datatype hook_outcome = Continue | Block rstr | SoftError rstr

fun is_block :: "hook_outcome \<Rightarrow> bool" where
  "is_block (Block r) = True"
| "is_block o1 = False"

datatype 'j hook_event =
  PreToolUse rstr 'j
| PostToolUse rstr 'j rstr bool
| UserPromptSubmit rstr
| StopEvent rstr

datatype wait_result = Exited "int option" rstr | WaitError rstr | TimedOut

record ('w, 'c, 'j) shell =
  sh_serialise :: "'j hook_event \<Rightarrow> rstr \<Rightarrow> rstr + rstr"
  sh_spawn :: "rstr \<Rightarrow> 'w \<Rightarrow> (rstr + 'c) \<times> 'w"
  sh_feed :: "'c \<Rightarrow> rstr \<Rightarrow> 'w \<Rightarrow> 'w option"
  sh_wait :: "64 word \<Rightarrow> 'c \<Rightarrow> 'w \<Rightarrow> wait_result \<times> 'w"

definition default_hook_timeout_ms :: "64 word" where
  "default_hook_timeout_ms = 5000"

definition show_int :: "int \<Rightarrow> rstr" where
  "show_int i = (if i < 0 then lit ''-'' @ show_nat (nat (- i)) else show_nat (nat i))"

definition exit_outcome :: "int option \<Rightarrow> rstr \<Rightarrow> hook_outcome" where
  "exit_outcome status err =
     (let code = (case status of Some c \<Rightarrow> c | None \<Rightarrow> - 1); stderr = trim err in
      if code = 0 then Continue
      else if code = 2 then Block (if stderr = [] then lit ''blocked by hook'' else stderr)
      else SoftError (lit ''hook exited with code '' @ show_int code @ lit '': ''
             @ (if stderr = [] then lit ''(no stderr)'' else stderr)))"

definition run_hook_command ::
  "('w, 'c, 'j) shell \<Rightarrow> rstr \<Rightarrow> hook_command \<Rightarrow> 'j hook_event \<Rightarrow> 'w \<Rightarrow> (hook_outcome \<times> 'w) option" where
  "run_hook_command sh cwd hook ev w =
     (if hk_kind hook \<noteq> lit ''command'' then Some (SoftError (lit ''unknown hook kind: '' @ hk_kind hook), w)
      else
        let timeout_ms = (case hk_timeout_ms hook of Some t \<Rightarrow> t | None \<Rightarrow> default_hook_timeout_ms) in
        case sh_serialise sh ev cwd of
          Inl e \<Rightarrow> Some (SoftError (lit ''failed to serialise payload: '' @ e), w)
        | Inr bytes \<Rightarrow>
            (case sh_spawn sh (hk_command hook) w of
               (Inl e, w1) \<Rightarrow> Some (SoftError (lit ''failed to spawn hook: '' @ e), w1)
             | (Inr child, w1) \<Rightarrow>
                 (case sh_feed sh child bytes w1 of
                    None \<Rightarrow> None
                  | Some w2 \<Rightarrow>
                      (case sh_wait sh timeout_ms child w2 of
                         (Exited status err, w3) \<Rightarrow> Some (exit_outcome status err, w3)
                       | (WaitError e, w3) \<Rightarrow> Some (SoftError (lit ''hook error: '' @ e), w3)
                       | (TimedOut, w3) \<Rightarrow>
                           Some (SoftError (lit ''hook timed out after '' @ show_nat (unat timeout_ms)
                             @ lit ''ms: '' @ hk_command hook), w3)))))"

section \<open>Matchers\<close>

definition matcher_applies :: "rstr option \<Rightarrow> rstr \<Rightarrow> bool" where
  "matcher_applies m tool =
     (case m of
        None \<Rightarrow> True
      | Some s \<Rightarrow>
          if s = lit ''*'' then True
          else
            let canon = canonical_tool_name s in
            case strip_suffix (lit ''*'') canon of Some pre \<Rightarrow> prefix pre tool | None \<Rightarrow> canon = tool)"

fun run_hooks ::
  "('w, 'c, 'j) shell \<Rightarrow> rstr \<Rightarrow> hook_command list \<Rightarrow> 'j hook_event \<Rightarrow> 'w \<Rightarrow> (hook_outcome \<times> 'w) option" where
  "run_hooks sh cwd [] ev w = Some (Continue, w)"
| "run_hooks sh cwd (h # hs) ev w =
     (case run_hook_command sh cwd h ev w of
        None \<Rightarrow> None
      | Some (Continue, w1) \<Rightarrow> run_hooks sh cwd hs ev w1
      | Some (blocking, w1) \<Rightarrow> Some (blocking, w1))"

fun run_matchers ::
  "('w, 'c, 'j) shell \<Rightarrow> rstr \<Rightarrow> hook_matcher list \<Rightarrow> rstr \<Rightarrow> 'j hook_event \<Rightarrow> 'w \<Rightarrow> (hook_outcome \<times> 'w) option" where
  "run_matchers sh cwd [] tool ev w = Some (Continue, w)"
| "run_matchers sh cwd (m # ms) tool ev w =
     (if \<not> matcher_applies (hm_matcher m) tool then run_matchers sh cwd ms tool ev w
      else
        case run_hooks sh cwd (hm_hooks m) ev w of
          None \<Rightarrow> None
        | Some (Continue, w1) \<Rightarrow> run_matchers sh cwd ms tool ev w1
        | Some (blocking, w1) \<Rightarrow> Some (blocking, w1))"

section \<open>The dispatcher\<close>

record dispatcher =
  hd_hooks :: hook_table
  hd_cwd :: rstr

definition hooks_default :: hook_table where
  "hooks_default = \<lparr>pre_tool_use = [], post_tool_use = [], user_prompt_submit = [], stop_hooks = []\<rparr>"

definition dispatcher_empty :: "rstr \<Rightarrow> dispatcher" where
  "dispatcher_empty cwd = \<lparr>hd_hooks = hooks_default, hd_cwd = cwd\<rparr>"

definition has_any :: "dispatcher \<Rightarrow> bool" where
  "has_any d \<longleftrightarrow> \<not> (pre_tool_use (hd_hooks d) = [] \<and> post_tool_use (hd_hooks d) = []
     \<and> user_prompt_submit (hd_hooks d) = [] \<and> stop_hooks (hd_hooks d) = [])"

definition load_for_cwd ::
  "('k \<Rightarrow> 'k \<Rightarrow> 'k) \<Rightarrow> ('p \<Rightarrow> rstr + 'k settings option) \<Rightarrow> 'p list \<Rightarrow> rstr \<Rightarrow> 'k settings \<times> dispatcher" where
  "load_for_cwd kb read candidates cwd =
     (let merged = fst (load_from_paths kb read candidates);
          hooks = (case set_hooks merged of Some h \<Rightarrow> h | None \<Rightarrow> hooks_default) in
      (merged, \<lparr>hd_hooks = hooks, hd_cwd = cwd\<rparr>))"

definition dispatch_pre_tool ::
  "('w, 'c, 'j) shell \<Rightarrow> dispatcher \<Rightarrow> rstr \<Rightarrow> 'j \<Rightarrow> 'w \<Rightarrow> (hook_outcome \<times> 'w) option" where
  "dispatch_pre_tool sh d tool args w =
     (let ms = pre_tool_use (hd_hooks d) in
      if ms = [] then Some (Continue, w)
      else run_matchers sh (hd_cwd d) ms tool (PreToolUse tool args) w)"

definition dispatch_post_tool ::
  "('w, 'c, 'j) shell \<Rightarrow> dispatcher \<Rightarrow> rstr \<Rightarrow> 'j \<Rightarrow> rstr \<Rightarrow> bool \<Rightarrow> 'w \<Rightarrow> (hook_outcome \<times> 'w) option" where
  "dispatch_post_tool sh d tool args content is_err w =
     (let ms = post_tool_use (hd_hooks d) in
      if ms = [] then Some (Continue, w)
      else run_matchers sh (hd_cwd d) ms tool (PostToolUse tool args content is_err) w)"

definition dispatch_user_prompt ::
  "('w, 'c, 'j) shell \<Rightarrow> dispatcher \<Rightarrow> rstr \<Rightarrow> 'w \<Rightarrow> (hook_outcome \<times> 'w) option" where
  "dispatch_user_prompt sh d prompt w =
     (let ms = user_prompt_submit (hd_hooks d) in
      if ms = [] then Some (Continue, w) else run_matchers sh (hd_cwd d) ms [] (UserPromptSubmit prompt) w)"

definition dispatch_stop ::
  "('w, 'c, 'j) shell \<Rightarrow> dispatcher \<Rightarrow> rstr \<Rightarrow> 'w \<Rightarrow> (hook_outcome \<times> 'w) option" where
  "dispatch_stop sh d final_message w =
     (let ms = stop_hooks (hd_hooks d) in
      if ms = [] then Some (Continue, w) else run_matchers sh (hd_cwd d) ms [] (StopEvent final_message) w)"

section \<open>The hooks of an event as one list\<close>

definition applicable :: "hook_matcher list \<Rightarrow> rstr \<Rightarrow> hook_command list" where
  "applicable ms tool = concat (map hm_hooks (filter (\<lambda>m. matcher_applies (hm_matcher m) tool) ms))"

lemma applicable_simps [simp]:
  "applicable [] tool = []"
  "applicable (m # ms) tool =
     (if matcher_applies (hm_matcher m) tool then hm_hooks m else []) @ applicable ms tool"
  by (simp_all add: applicable_def)

lemma run_hooks_append:
  "run_hooks sh cwd (hs @ hs') ev w =
    (case run_hooks sh cwd hs ev w of
       None \<Rightarrow> None
     | Some (Continue, w1) \<Rightarrow> run_hooks sh cwd hs' ev w1
     | Some (b, w1) \<Rightarrow> Some (b, w1))"
  by (induction hs arbitrary: w) (auto split: option.splits prod.splits hook_outcome.splits)

lemma run_matchers_applicable:
  "run_matchers sh cwd ms tool ev w = run_hooks sh cwd (applicable ms tool) ev w"
  by (induction ms arbitrary: w) (auto simp: run_hooks_append split: option.splits prod.splits hook_outcome.splits)

lemma dispatch_pre_tool_eq:
  "dispatch_pre_tool sh d tool args w =
    run_hooks sh (hd_cwd d) (applicable (pre_tool_use (hd_hooks d)) tool) (PreToolUse tool args) w"
  by (simp add: dispatch_pre_tool_def run_matchers_applicable Let_def)

lemma dispatch_post_tool_eq:
  "dispatch_post_tool sh d tool args c e w =
    run_hooks sh (hd_cwd d) (applicable (post_tool_use (hd_hooks d)) tool) (PostToolUse tool args c e) w"
  by (simp add: dispatch_post_tool_def run_matchers_applicable Let_def)

lemma run_hooks_stops:
  assumes "run_hooks sh cwd pre ev w = Some (Continue, w1)"
    and "run_hook_command sh cwd h ev w1 = Some (b, w2)" and "b \<noteq> Continue"
  shows "run_hooks sh cwd (pre @ h # post) ev w = Some (b, w2)"
  using assms by (cases b) (simp_all add: run_hooks_append)

lemma run_hooks_continue:
  assumes "run_hooks sh cwd pre ev w = Some (Continue, w1)"
    and "run_hook_command sh cwd h ev w1 = Some (Continue, w2)"
  shows "run_hooks sh cwd (pre @ [h]) ev w = Some (Continue, w2)"
  using assms by (simp add: run_hooks_append)

text \<open>When a run of hooks blocks, a hook of the list exited with code 2, and all before it with 0.\<close>

lemma run_hooks_Block:
  "run_hooks sh cwd hs ev w = Some (Block r, w2) \<Longrightarrow>
    \<exists>pre h post w1. hs = pre @ h # post \<and> run_hooks sh cwd pre ev w = Some (Continue, w1)
      \<and> run_hook_command sh cwd h ev w1 = Some (Block r, w2)"
proof (induction hs arbitrary: w)
  case (Cons h hs)
  from Cons.prems obtain o1 w1 where o1: "run_hook_command sh cwd h ev w = Some (o1, w1)"
    by (auto split: option.splits)
  show ?case
  proof (cases "o1 = Continue")
    case True
    with Cons o1 obtain pre h' post w' where "hs = pre @ h' # post"
      "run_hooks sh cwd pre ev w1 = Some (Continue, w')" "run_hook_command sh cwd h' ev w' = Some (Block r, w2)"
      by fastforce
    with True o1 show ?thesis
      by (intro exI [of _ "h # pre"] exI [of _ h'] exI [of _ post] exI [of _ w']) simp
  next
    case False
    with Cons.prems o1 have "o1 = Block r" "w1 = w2" by (cases o1; simp)+
    with o1 show ?thesis by (intro exI [of _ "[]"] exI [of _ h] exI [of _ hs] exI [of _ w]) simp
  qed
qed simp

lemma run_hook_command_returns:
  assumes "\<And>c b w. sh_feed sh c b w \<noteq> None"
  shows "run_hook_command sh cwd h ev w \<noteq> None"
  by (auto simp: run_hook_command_def Let_def split: sum.splits prod.splits wait_result.splits option.splits)
    (use assms in blast)+

lemma run_hooks_returns:
  assumes "\<And>c b w. sh_feed sh c b w \<noteq> None"
  shows "run_hooks sh cwd hs ev w \<noteq> None"
proof (induction hs arbitrary: w)
  case (Cons h hs)
  show ?case
    using run_hook_command_returns [OF assms, where cwd = cwd and h = h and ev = ev and w = w] Cons
    by (auto split: prod.splits hook_outcome.splits)
qed simp

lemma run_hook_command_Block:
  assumes "run_hook_command sh cwd h ev w = Some (Block r, w1)"
  shows "hk_kind h = lit ''command''
    \<and> (\<exists>c w2 err t. sh_wait sh t c w2 = (Exited (Some 2) err, w1)
        \<and> r = (if trim err = [] then lit ''blocked by hook'' else trim err))"
  using assms
  by (auto simp: run_hook_command_def exit_outcome_def Let_def
      split: sum.splits prod.splits wait_result.splits option.splits if_splits)

text \<open>
  A soft error hides every hook after it. If the hooks before \<open>h\<close> continue and \<open>h\<close> ends with
  a soft error (an exit code other than 0 and 2, a time-out, a spawn failure, an unknown kind), the
  dispatch returns that soft error and leaves the world as \<open>h\<close> left it: the hooks after \<open>h\<close> are not
  run, also those that would block the tool.
\<close>

theorem soft_error_hides_later_hooks:
  assumes "applicable (pre_tool_use (hd_hooks d)) tool = pre @ h # post"
    and "run_hooks sh (hd_cwd d) pre (PreToolUse tool args) w = Some (Continue, w1)"
    and "run_hook_command sh (hd_cwd d) h (PreToolUse tool args) w1 = Some (SoftError e, w2)"
  shows "dispatch_pre_tool sh d tool args w = Some (SoftError e, w2)"
  using run_hooks_stops [OF assms(2,3)] assms(1) by (simp add: dispatch_pre_tool_eq)

text \<open>A shell for the witness: every command exits with the code its text names, without output.\<close>

definition code_shell :: "(nat, int, unit) shell" where
  "code_shell = \<lparr>sh_serialise = \<lambda>ev cwd. Inr [], sh_spawn = \<lambda>c n. (Inr (int (hd c)), Suc n),
     sh_feed = \<lambda>c b n. Some n, sh_wait = \<lambda>t c n. (Exited (Some c) [], n)\<rparr>"

definition code_hook :: "nat \<Rightarrow> hook_command" where
  "code_hook n = \<lparr>hk_kind = lit ''command'', hk_command = [n], hk_timeout_ms = None\<rparr>"

lemma run_code_hook [simp]:
  "run_hook_command code_shell cwd (code_hook n) ev w = Some (exit_outcome (Some (int n)) [], Suc w)"
  by (simp add: run_hook_command_def code_shell_def code_hook_def)

lemma soft_error_hides_later_hooks_witness:
  "dispatch_pre_tool code_shell
     \<lparr>hd_hooks = \<lparr>pre_tool_use = [\<lparr>hm_matcher = None, hm_hooks = [code_hook 0, code_hook 1, code_hook 2]\<rparr>],
        post_tool_use = [], user_prompt_submit = [], stop_hooks = []\<rparr>, hd_cwd = []\<rparr> (lit ''bash'') () 0
    = Some (SoftError (lit ''hook exited with code 1: (no stderr)''), 2)"
  by (rule soft_error_hides_later_hooks [where pre = "[code_hook 0]" and h = "code_hook 1" and post = "[code_hook 2]"
        and ?w1.0 = 1])
    (simp_all add: matcher_applies_def exit_outcome_def trim_def show_int_def show_nat.simps lit_def)

end
