(* ===== verification/Approval.thy ===== *)
theory Approval
  imports Prelude
begin

text \<open>
  Approval of tool calls: the types of \<^verbatim>\<open>apps/cli/src/approval/types.rs\<close>, the decisions kept per
  session (\<^verbatim>\<open>approval/manager.rs\<close>), the dialog (\<^verbatim>\<open>tui/app/approval_dialog.rs\<close>), its key
  handler (\<^verbatim>\<open>tui/app/events/dialogs.rs\<close>) and the poll of the request channel in the main loop
  (\<^verbatim>\<open>tui/mod.rs\<close>). A one-shot response channel is its number; the state keeps what was sent on
  which channel and which senders were dropped unsent. \<open>'j\<close> is a JSON value.
\<close>

section \<open>Types\<close>

datatype approval_action =
  WriteFile rstr | EditFile rstr | DeleteFile rstr | CreateDirectory rstr
| ExecuteCommand rstr | GitModify rstr | NetworkAccess rstr | OtherAction rstr

datatype approval_severity = Low | Medium | High

text \<open>The description; the slice \<^verbatim>\<open>&command[..50]\<close> panics inside a character.\<close>

fun description :: "approval_action \<Rightarrow> rstr option" where
  "description (WriteFile p) = Some (lit ''Write file: '' @ p)"
| "description (EditFile p) = Some (lit ''Edit file: '' @ p)"
| "description (DeleteFile p) = Some (lit ''Delete: '' @ p)"
| "description (CreateDirectory p) = Some (lit ''Create directory: '' @ p)"
| "description (ExecuteCommand c) =
     (if 50 < blen c
      then (case split_byte 50 c of
              Some (a, b) \<Rightarrow> Some (lit ''Execute: '' @ a @ lit ''...'')
            | None \<Rightarrow> None)
      else Some (lit ''Execute: '' @ c))"
| "description (GitModify g) = Some (lit ''Git: '' @ g)"
| "description (NetworkAccess d) = Some (lit ''Network: '' @ d)"
| "description (OtherAction t) = Some t"

fun category :: "approval_action \<Rightarrow> rstr" where
  "category (WriteFile p) = lit ''File Write''"
| "category (EditFile p) = lit ''File Edit''"
| "category (DeleteFile p) = lit ''Delete''"
| "category (CreateDirectory p) = lit ''Create Directory''"
| "category (ExecuteCommand c) = lit ''Shell Command''"
| "category (GitModify g) = lit ''Git Operation''"
| "category (NetworkAccess d) = lit ''Network Access''"
| "category (OtherAction t) = lit ''Other''"

fun severity :: "approval_action \<Rightarrow> approval_severity" where
  "severity (DeleteFile p) = High"
| "severity (ExecuteCommand c) = High"
| "severity (GitModify g) = Medium"
| "severity (WriteFile p) = Medium"
| "severity (EditFile p) = Medium"
| "severity (CreateDirectory p) = Low"
| "severity (NetworkAccess d) = Low"
| "severity (OtherAction t) = Medium"

datatype approval_response = Approve | DenyOnce | ApproveForSession | DenyForSession

definition is_approved :: "approval_response \<Rightarrow> bool" where
  "is_approved r \<longleftrightarrow> r \<in> {Approve, ApproveForSession}"

definition is_session_persistent :: "approval_response \<Rightarrow> bool" where
  "is_session_persistent r \<longleftrightarrow> r \<in> {ApproveForSession, DenyForSession}"

record 'j approval_details =
  tool_description :: rstr
  parameters :: 'j

record 'j approval_request =
  ar_id :: rstr
  ar_tool_name :: rstr
  ar_action :: approval_action
  ar_details :: "'j approval_details"
  ar_response_tx :: nat

section \<open>Session decisions\<close>

type_synonym session_map = "rstr \<rightharpoonup> approval_response"

definition record_session_decision :: "rstr \<Rightarrow> approval_response \<Rightarrow> session_map \<Rightarrow> session_map" where
  "record_session_decision tool r m = (if is_session_persistent r then m(tool \<mapsto> r) else m)"

record 't approval_manager =
  session_approvals :: session_map
  am_tx :: "'t option"

definition am_new :: "'t approval_manager" where
  "am_new = \<lparr>session_approvals = Map.empty, am_tx = None\<rparr>"

definition am_with_channel :: "'t \<Rightarrow> 't approval_manager" where
  "am_with_channel t = \<lparr>session_approvals = Map.empty, am_tx = Some t\<rparr>"

definition am_set_channel :: "'t \<Rightarrow> 't approval_manager \<Rightarrow> 't approval_manager" where
  "am_set_channel t m = m\<lparr>am_tx := Some t\<rparr>"

definition am_get_session_decision :: "'t approval_manager \<Rightarrow> rstr \<Rightarrow> approval_response option" where
  "am_get_session_decision m tool = session_approvals m tool"

definition am_record :: "rstr \<Rightarrow> approval_response \<Rightarrow> 't approval_manager \<Rightarrow> 't approval_manager" where
  "am_record tool r m = m\<lparr>session_approvals := record_session_decision tool r (session_approvals m)\<rparr>"

definition am_clear :: "'t approval_manager \<Rightarrow> 't approval_manager" where
  "am_clear m = m\<lparr>session_approvals := Map.empty\<rparr>"

definition am_has_channel :: "'t approval_manager \<Rightarrow> bool" where
  "am_has_channel m \<longleftrightarrow> am_tx m \<noteq> None"

section \<open>The dialog\<close>

record 'j approval_dialog =
  current_request :: "'j approval_request option"
  session_decisions :: session_map

definition ad_new :: "'j approval_dialog" where
  "ad_new = \<lparr>current_request = None, session_decisions = Map.empty\<rparr>"

definition has_pending_request :: "'j approval_dialog \<Rightarrow> bool" where
  "has_pending_request d \<longleftrightarrow> current_request d \<noteq> None"

definition set_request :: "'j approval_request \<Rightarrow> 'j approval_dialog \<Rightarrow> 'j approval_dialog" where
  "set_request r d = d\<lparr>current_request := Some r\<rparr>"

text \<open>\<open>respond\<close> yields whether there was a request, the message it sends, and the dialog.\<close>

definition respond :: "approval_response \<Rightarrow> 'j approval_dialog \<Rightarrow>
    bool \<times> (nat \<times> approval_response) list \<times> 'j approval_dialog" where
  "respond r d =
     (case current_request d of
        Some p \<Rightarrow>
          (True, [(ar_response_tx p, r)],
           d\<lparr>current_request := None,
             session_decisions := record_session_decision (ar_tool_name p) r (session_decisions d)\<rparr>)
      | None \<Rightarrow> (False, [], d))"

record 'j display_info =
  di_tool_name :: rstr
  di_description :: rstr
  di_category :: rstr
  di_severity :: approval_severity
  di_tool_description :: rstr
  di_parameters :: 'j

text \<open>What the dialog draws: \<open>None\<close> is a panic, \<open>Some None\<close> no request.\<close>

definition get_display_info :: "'j approval_dialog \<Rightarrow> 'j display_info option option" where
  "get_display_info d =
     (case current_request d of
        None \<Rightarrow> Some None
      | Some r \<Rightarrow>
          (case description (ar_action r) of
             None \<Rightarrow> None
           | Some t \<Rightarrow>
               Some (Some \<lparr>di_tool_name = ar_tool_name r, di_description = t,
                 di_category = category (ar_action r), di_severity = severity (ar_action r),
                 di_tool_description = tool_description (ar_details r),
                 di_parameters = parameters (ar_details r)\<rparr>)))"

section \<open>The user interface\<close>

datatype app_mode = Normal | ApprovalDialogMode | OtherMode

record 'j approval_ui =
  ui_mode :: app_mode
  ui_dialog :: "'j approval_dialog option"
  ui_queue :: "'j approval_request list"
  ui_console :: "rstr list"
  ui_sent :: "(nat \<times> approval_response) list"
  ui_dropped :: "nat list"

definition ui_new :: "'j approval_ui" where
  "ui_new = \<lparr>ui_mode = Normal, ui_dialog = None, ui_queue = [], ui_console = [], ui_sent = [], ui_dropped = []\<rparr>"

definition add_console_message :: "rstr \<Rightarrow> 'j approval_ui \<Rightarrow> 'j approval_ui" where
  "add_console_message m u = u\<lparr>ui_console := ui_console u @ [m]\<rparr>"

text \<open>The response channel that is dropped with a dialog that is replaced.\<close>

definition undelivered :: "'j approval_dialog option \<Rightarrow> nat list" where
  "undelivered od =
     (case od of None \<Rightarrow> [] | Some d \<Rightarrow> (case current_request d of None \<Rightarrow> [] | Some r \<Rightarrow> [ar_response_tx r]))"

definition poll_approval :: "'j approval_ui \<Rightarrow> 'j approval_ui" where
  "poll_approval u =
     (case ui_queue u of
        [] \<Rightarrow> u
      | r # rs \<Rightarrow>
          add_console_message ([9888, 65039] @ lit '' Tool approval requested: '' @ ar_tool_name r)
            (u\<lparr>ui_queue := rs, ui_dialog := Some (set_request r ad_new), ui_mode := ApprovalDialogMode,
               ui_dropped := ui_dropped u @ undelivered (ui_dialog u)\<rparr>))"

definition close_with :: "approval_response \<Rightarrow> (rstr \<Rightarrow> rstr) \<Rightarrow> 'j approval_dialog \<Rightarrow> 'j approval_ui \<Rightarrow> 'j approval_ui" where
  "close_with r msg d u =
     (let tool_name = (case current_request d of Some p \<Rightarrow> ar_tool_name p | None \<Rightarrow> []) in
      case respond r d of
        (had, sent, d') \<Rightarrow>
          add_console_message (msg tool_name)
            (u\<lparr>ui_sent := ui_sent u @ sent, ui_dialog := None, ui_mode := Normal\<rparr>))"

datatype ui_key = Esc | KeyChar rchar | OtherKey

definition handle_approval_dialog_event :: "ui_key \<Rightarrow> 'j approval_ui \<Rightarrow> 'j approval_ui" where
  "handle_approval_dialog_event e u =
     (case ui_dialog u of
        None \<Rightarrow> u\<lparr>ui_mode := Normal\<rparr>
      | Some d \<Rightarrow>
          (case e of
             Esc \<Rightarrow> close_with DenyOnce (\<lambda>t. [10060] @ lit '' Tool approval denied'') d u
           | KeyChar c \<Rightarrow>
               if c \<in> {121, 89} then
                 close_with Approve (\<lambda>t. [9989] @ lit '' Tool '' @ [39] @ t @ [39] @ lit '' approved'') d u
               else if c \<in> {110, 78} then
                 close_with DenyOnce (\<lambda>t. [10060] @ lit '' Tool '' @ [39] @ t @ [39] @ lit '' denied'') d u
               else if c \<in> {97, 65} then
                 close_with ApproveForSession
                   (\<lambda>t. [9989] @ lit '' Tool '' @ [39] @ t @ [39] @ lit '' approved for session'') d u
               else if c \<in> {100, 68} then
                 close_with DenyForSession
                   (\<lambda>t. [10060] @ lit '' Tool '' @ [39] @ t @ [39] @ lit '' denied for session'') d u
               else u
           | OtherKey \<Rightarrow> u))"

text \<open>
  The steps of the main loop that touch approvals: a tool sends a request, the loop polls the
  channel, a key is pressed. Keys of another mode go to the handler of that mode.
\<close>

datatype 'j ui_event = Request "'j approval_request" | Poll | Press ui_key

fun ui_step :: "'j ui_event \<Rightarrow> 'j approval_ui \<Rightarrow> 'j approval_ui" where
  "ui_step (Request r) u = u\<lparr>ui_queue := ui_queue u @ [r]\<rparr>"
| "ui_step Poll u = poll_approval u"
| "ui_step (Press k) u =
     (if ui_mode u = ApprovalDialogMode then handle_approval_dialog_event k u else u)"

section \<open>Requests are neither lost nor doubled\<close>

text \<open>Where the requests are: answered, dropped, on the screen, or still in the channel.\<close>

definition tracked :: "'j approval_ui \<Rightarrow> nat multiset" where
  "tracked u = mset (map fst (ui_sent u)) + mset (ui_dropped u) + mset (undelivered (ui_dialog u))
     + mset (map ar_response_tx (ui_queue u))"

fun requested :: "'j ui_event \<Rightarrow> nat list" where
  "requested (Request r) = [ar_response_tx r]"
| "requested e = []"

lemma tracked_console [simp]: "tracked (add_console_message m u) = tracked u"
  by (simp add: tracked_def add_console_message_def)

lemma tracked_poll [simp]: "tracked (poll_approval u) = tracked u"
  unfolding poll_approval_def
  by (cases "ui_queue u") (simp_all add: tracked_def undelivered_def set_request_def ad_new_def add_console_message_def)

lemma tracked_close:
  assumes "ui_dialog u = Some d"
  shows "tracked (close_with r msg d u) = tracked u"
  using assms
  by (cases "current_request d")
    (simp_all add: close_with_def respond_def tracked_def undelivered_def add_console_message_def)

lemma tracked_handle [simp]: "tracked (handle_approval_dialog_event k u) = tracked u"
proof (cases "ui_dialog u")
  case None
  then show ?thesis by (simp add: handle_approval_dialog_event_def tracked_def)
next
  case (Some d)
  then show ?thesis
    by (cases k) (simp_all add: handle_approval_dialog_event_def tracked_close)
qed

lemma tracked_step: "tracked (ui_step e u) = tracked u + mset (requested e)"
proof (cases e)
  case (Request r)
  then show ?thesis by (simp add: tracked_def)
qed simp_all

text \<open>
  No approval request is lost or answered twice. After any sequence of requests, polls and keys,
  every response channel that was handed in is, as often as it was handed in, in exactly one place:
  answered, dropped unanswered (the tool then fails its approval), shown in the dialog, or waiting in
  the request channel.
\<close>

theorem requests_conserved:
  "tracked (fold ui_step es ui_new) = mset (concat (map requested es))"
proof -
  have "tracked (fold ui_step es u) = tracked u + mset (concat (map requested es))" for u :: "'a approval_ui"
    by (induction es arbitrary: u) (simp_all add: tracked_step)
  moreover have "tracked (ui_new :: 'a approval_ui) = {#}"
    by (simp add: tracked_def ui_new_def undelivered_def)
  ultimately show ?thesis by simp
qed

section \<open>What the dialog remembers\<close>

definition ui_inv :: "'j approval_ui \<Rightarrow> bool" where
  "ui_inv u \<longleftrightarrow>
     (case ui_dialog u of
        None \<Rightarrow> True
      | Some d \<Rightarrow> session_decisions d = Map.empty \<and> has_pending_request d)"

lemma ui_inv_new: "ui_inv ui_new"
  by (simp add: ui_inv_def ui_new_def)

lemma ui_dialog_close [simp]: "ui_dialog (close_with r msg d u) = None"
  by (simp add: close_with_def add_console_message_def split: prod.splits)

lemma ui_dialog_handle: "ui_dialog (handle_approval_dialog_event k u) \<in> {ui_dialog u, None}"
  by (cases k) (simp_all add: handle_approval_dialog_event_def split: option.splits)

lemma ui_inv_step: "ui_inv u \<Longrightarrow> ui_inv (ui_step e u)"
proof (cases e)
  case Poll
  assume "ui_inv u"
  with Poll show ?thesis
    by (cases "ui_queue u")
      (simp_all add: poll_approval_def ui_inv_def add_console_message_def set_request_def ad_new_def has_pending_request_def)
next
  case (Press k)
  assume "ui_inv u"
  with Press show ?thesis
    using ui_dialog_handle [of k u] by (auto simp: ui_inv_def)
qed (simp add: ui_inv_def)

interpretation approval_machine: invariant_machine ui_step ui_inv
  by unfold_locales (rule ui_inv_step)

text \<open>
  "For this session" is never remembered. Whatever was requested and pressed, the dialog on the
  screen has no session decision at all: every request opens a new dialog and every answer discards
  it. So \<^verbatim>\<open>a\<close> (approve for session) leaves the interface exactly as \<^verbatim>\<open>y\<close> (approve once)
  does, up to the message and the response it sends, and the same tool asks again.
\<close>

theorem session_decision_forgotten:
  "map_option session_decisions (ui_dialog (fold ui_step es ui_new)) \<in> {None, Some Map.empty}
   \<and> (let u = fold ui_step es ui_new in
      (ui_step (Press (KeyChar 97)) u)\<lparr>ui_sent := [], ui_console := []\<rparr>
      = (ui_step (Press (KeyChar 121)) u)\<lparr>ui_sent := [], ui_console := []\<rparr>)"
proof
  have "ui_inv (fold ui_step es (ui_new :: 'a approval_ui))"
    by (rule approval_machine.run_inv [OF ui_inv_new])
  then show "map_option session_decisions (ui_dialog (fold ui_step es (ui_new :: 'a approval_ui))) \<in> {None, Some Map.empty}"
    by (auto simp: ui_inv_def split: option.splits)
next
  have "(ui_step (Press (KeyChar 97)) u)\<lparr>ui_sent := [], ui_console := []\<rparr>
      = (ui_step (Press (KeyChar 121)) u)\<lparr>ui_sent := [], ui_console := []\<rparr>" for u :: "'a approval_ui"
    by (cases "ui_dialog u")
      (simp_all add: handle_approval_dialog_event_def close_with_def respond_def add_console_message_def split: option.splits)
  then show "let u = fold ui_step es (ui_new :: 'a approval_ui) in
      (ui_step (Press (KeyChar 97)) u)\<lparr>ui_sent := [], ui_console := []\<rparr>
      = (ui_step (Press (KeyChar 121)) u)\<lparr>ui_sent := [], ui_console := []\<rparr>"
    by (simp add: Let_def)
qed

text \<open>
  A second request drops the first. When a request is on the screen and another waits in the
  channel, the next poll replaces the dialog: the sender of the first is dropped unanswered, and no
  key pressed before the poll is needed for it. The tool that asked first is denied without an answer
  of the user.
\<close>

theorem second_request_drops_first:
  assumes "ui_dialog u = Some d" and "current_request d = Some r" and "ui_queue u = r2 # rs"
  shows "ui_dropped (ui_step Poll u) = ui_dropped u @ [ar_response_tx r]
    \<and> ui_sent (ui_step Poll u) = ui_sent u
    \<and> map_option current_request (ui_dialog (ui_step Poll u)) = Some (Some r2)"
  using assms by (simp add: poll_approval_def add_console_message_def undelivered_def set_request_def)

definition sample_request :: "nat \<Rightarrow> unit approval_request" where
  "sample_request n = \<lparr>ar_id = [n], ar_tool_name = lit ''bash'', ar_action = ExecuteCommand (lit ''ls''),
     ar_details = \<lparr>tool_description = [], parameters = ()\<rparr>, ar_response_tx = n\<rparr>"

lemma second_request_drops_first_witness:
  "let u = fold ui_step [Request (sample_request 1), Request (sample_request 2), Poll] ui_new in
   ui_dropped (ui_step Poll u) = ui_dropped u @ [ar_response_tx (sample_request 1)]
    \<and> ui_sent (ui_step Poll u) = ui_sent u
    \<and> map_option current_request (ui_dialog (ui_step Poll u)) = Some (Some (sample_request 2))"
  unfolding Let_def
  by (rule second_request_drops_first [where d = "set_request (sample_request 1) ad_new" and rs = "[]"])
    (simp_all add: ui_new_def poll_approval_def add_console_message_def set_request_def)

section \<open>Drawing\<close>

lemma get_display_info_panics_iff:
  "get_display_info d = None \<longleftrightarrow>
    (\<exists>r c. current_request d = Some r \<and> ar_action r = ExecuteCommand c \<and> 50 < blen c \<and> \<not> on_boundary c 50)"
proof (cases "current_request d")
  case (Some r)
  then show ?thesis
    by (cases "ar_action r") (auto simp: get_display_info_def on_boundary_def split: option.splits)
qed (simp add: get_display_info_def)

text \<open>
  Drawing the dialog panics exactly when the request is a shell command of more than 50 bytes
  whose 50th byte is not a character boundary, and then nothing has been answered: an agent that asks
  to run such a command takes the interface down.
\<close>

theorem approval_dialog_panics:
  "get_display_info (set_request r ad_new) = None \<longleftrightarrow>
    (\<exists>c. ar_action r = ExecuteCommand c \<and> 50 < blen c \<and> \<not> on_boundary c 50)"
  by (auto simp: get_display_info_panics_iff set_request_def)

end
