(* ===== verification/ToolExecutor.thy ===== *)
theory ToolExecutor
  imports Hooks Approval
begin

text \<open>
  The executor of tool calls, \<^verbatim>\<open>apps/cli/src/tools/executor.rs\<close>: the gates a call passes (registry,
  organisation policy, layered settings, capabilities, policy engine, permission mode, approval,
  locks, hooks), the routing to a tool family, and the retry loop. The framework crate behind it
  (registry, capability profile, policy engine, error taxonomy), the tools, the access control and
  the audit log are parameters: the fields of the record \<open>executor\<close>, over a world \<open>'w\<close>. \<open>None\<close> is a
  call that never returns: an approval nobody answers, a hook that does not read its input. The
  remote bridge is behind a feature that is off by default and is left out.
\<close>

section \<open>Text helpers\<close>

fun split_any :: "rchar set \<Rightarrow> rstr \<Rightarrow> rstr list" where
  "split_any cs [] = [[]]"
| "split_any cs (c # s) =
     (if c \<in> cs then [] # split_any cs s
      else (case split_any cs s of p # ps \<Rightarrow> (c # p) # ps | [] \<Rightarrow> [[c]]))"

lemma find_cut_shorter: "find_cut q s = Some (a, b) \<Longrightarrow> q \<noteq> [] \<Longrightarrow> length b < length s"
  by (drule find_cut_Some) auto

function split_str :: "rstr \<Rightarrow> rstr \<Rightarrow> rstr list" where
  "split_str q s =
     (if q = [] then [s] else case find_cut q s of None \<Rightarrow> [s] | Some (a, b) \<Rightarrow> a # split_str q b)"
  by pat_completeness auto
termination
  by (relation "measure (\<lambda>(q, s). length s)") (auto simp: find_cut_shorter)

declare split_str.simps [simp del]

lemma split_any_ne [simp]: "split_any cs s \<noteq> []"
  by (induction s) (auto split: list.splits)

text \<open>\<^verbatim>\<open>strip_prefix("https://").or_else(strip_prefix("http://"))\<close>, first \<^verbatim>\<open>/\<close>, first \<^verbatim>\<open>:\<close>, last \<open>64\<close>.\<close>

definition strip_protocol :: "rstr \<Rightarrow> rstr" where
  "strip_protocol url =
     (if prefix (lit ''https://'') url then drop 8 url
      else if prefix (lit ''http://'') url then drop 7 url else url)"

definition extract_domain_from_url :: "(rstr \<Rightarrow> rstr) \<Rightarrow> rstr \<Rightarrow> rstr option" where
  "extract_domain_from_url lower url =
     (let d = hd (split_any {47} (strip_protocol url));
          d = hd (split_any {58} d);
          d = (if 64 \<in> set d then last (split_any {64} d) else d) in
      if d = [] then None else Some (lower d))"

definition command_needs_sudo :: "rstr \<Rightarrow> bool" where
  "command_needs_sudo command \<longleftrightarrow>
     list_ex (\<lambda>segment. list_ex (\<lambda>part. let p = trim part in p = lit ''sudo'' \<or> prefix (lit ''sudo '') p)
         (split_str (lit ''&&'') (trim segment)))
       (split_any {124, 59} command)"

text \<open>\<^verbatim>\<open>str::parse::<u8>\<close>.\<close>

definition parse_u8 :: "rstr \<Rightarrow> 8 word option" where
  "parse_u8 s =
     (let d = (case s of c # cs \<Rightarrow> if c = 43 then cs else s | [] \<Rightarrow> s);
          v = fold (\<lambda>c n. 10 * n + (c - 48)) d 0 in
      if d \<noteq> [] \<and> list_all (\<lambda>c. 48 \<le> c \<and> c \<le> 57) d \<and> v \<le> (255 :: nat) then Some (of_nat v) else None)"

definition path_join :: "rstr \<Rightarrow> rstr \<Rightarrow> rstr" where
  "path_join wd p =
     (if prefix [47] p then p else if wd = [] \<or> last wd = 47 then wd @ p else wd @ [47] @ p)"

section \<open>Calls, results and the environment\<close>

datatype permission_mode = ReadOnly | Auto | Full

record 'j tool_use =
  tu_id :: rstr
  tu_name :: rstr
  tu_input :: 'j

record tool_result =
  tr_id :: rstr
  tr_content :: rstr
  tr_is_error :: bool

definition tool_error :: "rstr \<Rightarrow> rstr \<Rightarrow> tool_result" where
  "tool_error i m = \<lparr>tr_id = i, tr_content = m, tr_is_error = True\<rparr>"

record 'j tool_context =
  ctx_working_directory :: rstr
  ctx_metadata :: "rstr \<rightharpoonup> rstr"
  ctx_capabilities :: "'j option"

record tool_def =
  td_name :: rstr
  td_description :: rstr
  td_requires_approval :: bool

record capability_profile =
  allows_tool :: "rstr \<Rightarrow> bool"
  allows_write :: "rstr \<Rightarrow> bool"
  allows_read :: "rstr \<Rightarrow> bool"
  allows_domain :: "rstr \<Rightarrow> bool"

datatype policy_action =
  PolicyAllow | PolicyAllowWithAudit | PolicyDeny | PolicyDenyWithMessage rstr
| PolicyRequireApproval | PolicyEscalate

record policy_decision =
  pd_action :: policy_action
  pd_matched :: "rstr option"

record ('g, 'c) policy_request =
  pr_tool_name :: rstr
  pr_category :: 'c
  pr_file_path :: "rstr option"
  pr_domain :: "rstr option"
  pr_git_operation :: "'g option"
  pr_trust_level :: "8 word"
  pr_agent_id :: rstr

datatype audit_entry =
  AuditDenied rstr rstr "rstr option" rstr
| AuditExecuted rstr rstr rstr "8 word" bool

record ('w, 'j, 'l) access_control =
  ac_acquire :: "rstr \<Rightarrow> rstr \<Rightarrow> 'j \<Rightarrow> 'w \<Rightarrow> (rstr + 'l) \<times> 'w"
  ac_release :: "'l \<Rightarrow> 'w \<Rightarrow> 'w"
  ac_track_read :: "rstr \<Rightarrow> rstr \<Rightarrow> 'w \<Rightarrow> 'w"

datatype tool_family =
  FileOps | BashFamily | GitFamily | WebFamily | SearchFamily | SemanticSearch | McpFamily | PlanFamily
| ContextRecall | ToolSearch | OrchestratorFamily | CodeExec | AgentPoolFamily | MonitorFamily | MemoryFamily
| AskUser | SessionTaskFamily | TaskManagerFamily | CheckDuplicates | VerifyBuild | CheckSyntax | UnknownFamily

record ('w, 'j) tool_impls =
  ti_available :: "tool_family \<Rightarrow> bool"
  ti_run :: "tool_family \<Rightarrow> rstr \<Rightarrow> rstr \<Rightarrow> 'j \<Rightarrow> 'j tool_context \<Rightarrow> 'w \<Rightarrow> tool_result \<times> 'w"
  ti_sudo :: "rstr \<Rightarrow> rstr \<Rightarrow> 'j \<Rightarrow> 'j tool_context \<Rightarrow> rstr \<Rightarrow> 'w \<Rightarrow> tool_result \<times> 'w"
  ti_sudo_password :: "rstr \<Rightarrow> 'w \<Rightarrow> (rstr option \<times> 'w) option"
  ti_validate :: "tool_family \<Rightarrow> rstr list \<Rightarrow> 'w \<Rightarrow> (rstr + tool_result) \<times> 'w"

record ('w, 'j, 'g, 'cat) framework =
  fw_str :: "'j \<Rightarrow> tool_args"
  fw_lower :: "rstr \<Rightarrow> rstr"
  fw_regex :: "rstr \<Rightarrow> rstr \<Rightarrow> bool option"
  fw_parse_capabilities :: "'j \<Rightarrow> capability_profile option"
  fw_categorize :: "rstr \<Rightarrow> 'cat"
  fw_git_operation :: "rstr \<Rightarrow> 'g option"
  fw_medium_trust :: "8 word"
  fw_fresh :: "'w \<Rightarrow> (rstr \<times> nat) \<times> 'w"

record ('w, 'j, 'k, 'c, 'l, 'g, 'cat) executor =
  x_framework :: "('w, 'j, 'g, 'cat) framework"
  x_tools :: "('w, 'j) tool_impls"
  x_registry :: "rstr \<rightharpoonup> tool_def"
  x_mode :: permission_mode
  x_access_control :: "('w, 'j, 'l) access_control option"
  x_policy_engine :: "(('g, 'cat) policy_request \<Rightarrow> policy_decision) option"
  x_audit_logger :: "(audit_entry \<Rightarrow> 'w \<Rightarrow> 'w) option"
  x_approval_tx :: "('j approval_request \<Rightarrow> 'w \<Rightarrow> ((rstr + approval_response) \<times> 'w) option) option"
  x_session_approvals :: session_map
  x_org_blocked_tools :: "rstr list"
  x_org_relay_required :: bool
  x_settings :: "'k settings option"
  x_shell :: "('w, 'c, 'j) shell"
  x_hooks :: "dispatcher option"

text \<open>The string field \<open>k\<close> of the input.\<close>

definition input_str :: "('w, 'j, 'k, 'c, 'l, 'g, 'cat) executor \<Rightarrow> 'j tool_use \<Rightarrow> rstr \<Rightarrow> rstr option" where
  "input_str E tu k = fw_str (x_framework E) (tu_input tu) k"

definition agent_id :: "'j tool_context \<Rightarrow> rstr" where
  "agent_id ctx = (case ctx_metadata ctx (lit ''agent_id'') of Some a \<Rightarrow> a | None \<Rightarrow> lit ''main'')"

definition trust_level :: "('w, 'j, 'k, 'c, 'l, 'g, 'cat) executor \<Rightarrow> 'j tool_context \<Rightarrow> 8 word" where
  "trust_level E ctx =
     (case Option.bind (ctx_metadata ctx (lit ''trust_level'')) parse_u8 of
        Some t \<Rightarrow> t | None \<Rightarrow> fw_medium_trust (x_framework E))"

definition audit :: "('w, 'j, 'k, 'c, 'l, 'g, 'cat) executor \<Rightarrow> audit_entry option \<Rightarrow> 'w \<Rightarrow> 'w" where
  "audit E a w = (case x_audit_logger E of None \<Rightarrow> w | Some log \<Rightarrow> (case a of None \<Rightarrow> w | Some e \<Rightarrow> log e w))"


section \<open>Configuration\<close>

definition apply_org_policies :: "rstr list \<Rightarrow> bool \<Rightarrow> ('w, 'j, 'k, 'c, 'l, 'g, 'cat) executor \<Rightarrow>
    ('w, 'j, 'k, 'c, 'l, 'g, 'cat) executor" where
  "apply_org_policies blocked relay E = E\<lparr>x_org_blocked_tools := blocked, x_org_relay_required := relay\<rparr>"

definition set_permission_mode :: "permission_mode \<Rightarrow> ('w, 'j, 'k, 'c, 'l, 'g, 'cat) executor \<Rightarrow>
    ('w, 'j, 'k, 'c, 'l, 'g, 'cat) executor" where
  "set_permission_mode m E = E\<lparr>x_mode := m\<rparr>"

definition has_approval_channel :: "('w, 'j, 'k, 'c, 'l, 'g, 'cat) executor \<Rightarrow> bool" where
  "has_approval_channel E \<longleftrightarrow> x_approval_tx E \<noteq> None"

definition record_session_approval :: "rstr \<Rightarrow> approval_response \<Rightarrow> ('w, 'j, 'k, 'c, 'l, 'g, 'cat) executor \<Rightarrow>
    ('w, 'j, 'k, 'c, 'l, 'g, 'cat) executor" where
  "record_session_approval tool r E =
     E\<lparr>x_session_approvals := record_session_decision tool r (x_session_approvals E)\<rparr>"

definition tool_requires_approval :: "rstr \<Rightarrow> bool" where
  "tool_requires_approval tool \<longleftrightarrow>
     tool \<in> {lit ''write_file'', lit ''edit_file'', lit ''patch_file'', lit ''delete_file'',
       lit ''create_directory'', lit ''execute_command'', lit ''git_commit'', lit ''git_push'',
       lit ''git_reset'', lit ''git_checkout'', lit ''run_script'', lit ''shell'', lit ''bash''}"

definition create_approval_action :: "('w, 'j, 'k, 'c, 'l, 'g, 'cat) executor \<Rightarrow> 'j tool_use \<Rightarrow> approval_action" where
  "create_approval_action E tu =
     (let n = tu_name tu;
          field = (\<lambda>k. case input_str E tu k of Some v \<Rightarrow> v | None \<Rightarrow> lit ''<unknown>'') in
      if n = lit ''write_file'' then WriteFile (field (lit ''path''))
      else if n \<in> {lit ''edit_file'', lit ''patch_file''} then EditFile (field (lit ''path''))
      else if n = lit ''delete_file'' then DeleteFile (field (lit ''path''))
      else if n = lit ''create_directory'' then CreateDirectory (field (lit ''path''))
      else if n \<in> {lit ''execute_command'', lit ''run_script'', lit ''shell'', lit ''bash''} then
        ExecuteCommand (case input_str E tu (lit ''command'') of Some c \<Rightarrow> c | None \<Rightarrow> field (lit ''script''))
      else if n \<in> {lit ''git_commit'', lit ''git_push'', lit ''git_reset'', lit ''git_checkout''} then
        GitModify (drop 4 n)
      else OtherAction (lit ''Execute tool: '' @ n))"

definition quoted :: "rstr \<Rightarrow> rstr" where
  "quoted n = lit ''Tool '' @ [39] @ n @ [39]"

section \<open>The gates\<close>

text \<open>A gate refuses with a result and the audit entry it writes, or lets the call pass.\<close>

type_synonym refusal = "(tool_result \<times> audit_entry option) option"

definition org_gate :: "('w, 'j, 'k, 'c, 'l, 'g, 'cat) executor \<Rightarrow> 'j tool_use \<Rightarrow> refusal" where
  "org_gate E tu =
     (if tu_name tu \<in> set (x_org_blocked_tools E)
      then Some (tool_error (tu_id tu) (quoted (tu_name tu) @ lit '' is blocked by organization policy''), None)
      else None)"

definition settings_decision :: "('w, 'j, 'k, 'c, 'l, 'g, 'cat) executor \<Rightarrow> 'j tool_use \<Rightarrow> permission_decision" where
  "settings_decision E tu =
     (case x_settings E of
        None \<Rightarrow> Unset
      | Some s \<Rightarrow> settings_decide (fw_regex (x_framework E)) s (tu_name tu) (input_str E tu))"

definition denied_entry :: "('w, 'j, 'k, 'c, 'l, 'g, 'cat) executor \<Rightarrow> 'j tool_use \<Rightarrow> 'j tool_context \<Rightarrow> rstr \<Rightarrow> audit_entry" where
  "denied_entry E tu ctx reason =
     AuditDenied (agent_id ctx) (lit ''tool:'' @ tu_name tu) (input_str E tu (lit ''path'')) reason"

definition settings_gate :: "('w, 'j, 'k, 'c, 'l, 'g, 'cat) executor \<Rightarrow> 'j tool_use \<Rightarrow> 'j tool_context \<Rightarrow> refusal" where
  "settings_gate E tu ctx =
     (case settings_decision E tu of
        Deny reason \<Rightarrow>
          Some (tool_error (tu_id tu) (quoted (tu_name tu) @ lit '' '' @ reason), Some (denied_entry E tu ctx reason))
      | _ \<Rightarrow> None)"

definition is_write_tool :: "rstr \<Rightarrow> bool" where
  "is_write_tool n \<longleftrightarrow> n \<in> {lit ''write_file'', lit ''edit_file'', lit ''patch_file'', lit ''delete_file'', lit ''create_directory''}"

text \<open>The capability profile, when the context has one that parses: tool, path and domain.\<close>

definition context_capabilities :: "('w, 'j, 'k, 'c, 'l, 'g, 'cat) executor \<Rightarrow> 'j tool_context \<Rightarrow> capability_profile option" where
  "context_capabilities E ctx = Option.bind (ctx_capabilities ctx) (fw_parse_capabilities (x_framework E))"

definition path_refusal :: "capability_profile \<Rightarrow> rstr \<Rightarrow> rstr \<Rightarrow> rstr option" where
  "path_refusal c n p =
     (if is_write_tool n \<and> \<not> allows_write c p then
        Some (lit ''Write access to '' @ [39] @ p @ [39] @ lit '' is not permitted by agent capabilities'')
      else if \<not> is_write_tool n \<and> \<not> allows_read c p then
        Some (lit ''Read access to '' @ [39] @ p @ [39] @ lit '' is not permitted by agent capabilities'')
      else None)"

definition domain_refusal :: "('w, 'j, 'k, 'c, 'l, 'g, 'cat) executor \<Rightarrow> capability_profile \<Rightarrow> rstr \<Rightarrow> rstr option" where
  "domain_refusal E c url =
     (case extract_domain_from_url (fw_lower (x_framework E)) url of
        Some d \<Rightarrow>
          if \<not> allows_domain c d then
            Some (lit ''Network access to '' @ [39] @ d @ [39] @ lit '' is not permitted by agent capabilities'')
          else None
      | None \<Rightarrow> None)"

definition capability_refusal :: "('w, 'j, 'k, 'c, 'l, 'g, 'cat) executor \<Rightarrow> 'j tool_use \<Rightarrow> capability_profile \<Rightarrow> rstr option" where
  "capability_refusal E tu c =
     (if \<not> allows_tool c (tu_name tu) then Some (quoted (tu_name tu) @ lit '' is not permitted by agent capabilities'')
      else
        case Option.bind (input_str E tu (lit ''path'')) (path_refusal c (tu_name tu)) of
          Some m \<Rightarrow> Some m
        | None \<Rightarrow> Option.bind (input_str E tu (lit ''url'')) (domain_refusal E c))"

definition capability_gate :: "('w, 'j, 'k, 'c, 'l, 'g, 'cat) executor \<Rightarrow> 'j tool_use \<Rightarrow> 'j tool_context \<Rightarrow> refusal" where
  "capability_gate E tu ctx =
     map_option (\<lambda>m. (tool_error (tu_id tu) m, None))
       (Option.bind (context_capabilities E ctx) (capability_refusal E tu))"

definition policy_request_of :: "('w, 'j, 'k, 'c, 'l, 'g, 'cat) executor \<Rightarrow> 'j tool_use \<Rightarrow> 'j tool_context \<Rightarrow>
    ('g, 'cat) policy_request" where
  "policy_request_of E tu ctx =
     \<lparr>pr_tool_name = tu_name tu, pr_category = fw_categorize (x_framework E) (tu_name tu),
      pr_file_path = input_str E tu (lit ''path''),
      pr_domain = Option.bind (input_str E tu (lit ''url'')) (extract_domain_from_url (fw_lower (x_framework E))),
      pr_git_operation =
        (if prefix (lit ''git_'') (tu_name tu) then fw_git_operation (x_framework E) (tu_name tu) else None),
      pr_trust_level = trust_level E ctx, pr_agent_id = agent_id ctx\<rparr>"

text \<open>The entry of the matched policy, or a default.\<close>

definition matched_or :: "rstr \<Rightarrow> policy_decision \<Rightarrow> rstr" where
  "matched_or d p = (case pd_matched p of Some m \<Rightarrow> m | None \<Rightarrow> d)"

definition policy_gate :: "('w, 'j, 'k, 'c, 'l, 'g, 'cat) executor \<Rightarrow> 'j tool_use \<Rightarrow> 'j tool_context \<Rightarrow> refusal" where
  "policy_gate E tu ctx =
     (case x_policy_engine E of
        None \<Rightarrow> None
      | Some evaluate \<Rightarrow>
          let d = evaluate (policy_request_of E tu ctx) in
          case pd_action d of
            PolicyDeny \<Rightarrow>
              Some (tool_error (tu_id tu) (quoted (tu_name tu) @ lit '' denied by policy''),
                Some (denied_entry E tu ctx (matched_or (lit ''policy_denied'') d)))
          | PolicyDenyWithMessage m \<Rightarrow> Some (tool_error (tu_id tu) m, Some (denied_entry E tu ctx m))
          | PolicyRequireApproval \<Rightarrow>
              if x_mode E \<noteq> Auto then
                Some (tool_error (tu_id tu) (quoted (tu_name tu) @ lit '' requires approval''),
                  Some (denied_entry E tu ctx (lit ''approval_required_but_not_auto_mode'')))
              else None
          | PolicyEscalate \<Rightarrow>
              if x_mode E \<noteq> Auto then
                Some (tool_error (tu_id tu) (quoted (tu_name tu) @ lit '' escalated - requires higher authorization''), None)
              else None
          | PolicyAllowWithAudit \<Rightarrow> None
          | PolicyAllow \<Rightarrow> None)"

definition mode_gate :: "('w, 'j, 'k, 'c, 'l, 'g, 'cat) executor \<Rightarrow> tool_def \<Rightarrow> 'j tool_use \<Rightarrow> refusal" where
  "mode_gate E tool tu =
     (if td_requires_approval tool \<and> x_mode E = ReadOnly then
        Some (tool_error (tu_id tu)
          (quoted (tu_name tu) @ lit '' requires approval but permission mode is read-only''), None)
      else None)"

fun first_refusal :: "refusal list \<Rightarrow> refusal" where
  "first_refusal [] = None"
| "first_refusal (Some r # gs) = Some r"
| "first_refusal (None # gs) = first_refusal gs"

definition gates :: "('w, 'j, 'k, 'c, 'l, 'g, 'cat) executor \<Rightarrow> tool_def \<Rightarrow> 'j tool_use \<Rightarrow> 'j tool_context \<Rightarrow> refusal" where
  "gates E tool tu ctx =
     first_refusal [org_gate E tu, settings_gate E tu ctx, capability_gate E tu ctx, policy_gate E tu ctx,
       mode_gate E tool tu]"

section \<open>Approval\<close>

definition needs_approval :: "('w, 'j, 'k, 'c, 'l, 'g, 'cat) executor \<Rightarrow> tool_def \<Rightarrow> 'j tool_use \<Rightarrow> bool" where
  "needs_approval E tool tu =
     (let n1 = ((td_requires_approval tool \<or> tool_requires_approval (tu_name tu)) \<and> x_mode E = Auto \<and> has_approval_channel E);
          n2 = (if x_org_relay_required E \<and> tool_requires_approval (tu_name tu) then True else n1) in
      case settings_decision E tu of
        Allow \<Rightarrow> False
      | Ask \<Rightarrow> if has_approval_channel E then True else n2
      | _ \<Rightarrow> n2)"

definition request_approval :: "('w, 'j, 'k, 'c, 'l, 'g, 'cat) executor \<Rightarrow> tool_def \<Rightarrow> 'j tool_use \<Rightarrow> 'w \<Rightarrow>
    ((rstr + approval_response) \<times> 'w) option" where
  "request_approval E tool tu w =
     (case x_session_approvals E (tu_name tu) of
        Some r \<Rightarrow> Some (Inr r, w)
      | None \<Rightarrow>
          (case x_approval_tx E of
             None \<Rightarrow> Some (Inr Approve, w)
           | Some ask \<Rightarrow>
               (case fw_fresh (x_framework E) w of
                  ((i, tx), w1) \<Rightarrow>
                    ask \<lparr>ar_id = i, ar_tool_name = tu_name tu, ar_action = create_approval_action E tu,
                         ar_details = \<lparr>tool_description = td_description tool, parameters = tu_input tu\<rparr>,
                         ar_response_tx = tx\<rparr> w1)))"


section \<open>Routing\<close>

definition starts :: "string \<Rightarrow> rstr \<Rightarrow> bool" where
  "starts p n = prefix (lit p) n"

definition route_family :: "rstr \<Rightarrow> tool_family" where
  "route_family n =
     (if starts ''read_file'' n \<or> starts ''write_file'' n \<or> starts ''edit_file'' n \<or> starts ''patch_file'' n
         \<or> starts ''list_directory'' n \<or> starts ''search_files'' n \<or> starts ''delete_file'' n
         \<or> starts ''create_directory'' n then FileOps
      else if starts ''execute_command'' n then BashFamily
      else if starts ''git_'' n then GitFamily
      else if starts ''fetch_url'' n then WebFamily
      else if starts ''search_code'' n then SearchFamily
      else if n \<in> {lit ''index_codebase'', lit ''query_codebase'', lit ''search_with_filters'',
                  lit ''get_rag_statistics'', lit ''clear_rag_index'', lit ''search_git_history''} then SemanticSearch
      else if starts ''mcp_'' n then McpFamily
      else if n = lit ''plan_task'' then PlanFamily
      else if n = lit ''recall_context'' then ContextRecall
      else if n = lit ''search_tools'' then ToolSearch
      else if n = lit ''execute_script'' then OrchestratorFamily
      else if n = lit ''execute_code'' then CodeExec
      else if starts ''agent_'' n then AgentPoolFamily
      else if starts ''monitor_'' n then MonitorFamily
      else if starts ''memory_'' n then MemoryFamily
      else if n = lit ''ask_user_question'' then AskUser
      else if n = lit ''task_list_write'' then SessionTaskFamily
      else if starts ''task_'' n then TaskManagerFamily
      else if n = lit ''check_duplicates'' then CheckDuplicates
      else if n = lit ''verify_build'' then VerifyBuild
      else if n = lit ''check_syntax'' then CheckSyntax
      else UnknownFamily)"

definition unavailable_message :: "tool_family \<Rightarrow> rstr" where
  "unavailable_message f =
     (if f = PlanFamily then lit ''plan_task requires a provider to be configured. Use ToolExecutor::with_provider() or set_provider().''
      else if f = AgentPoolFamily then lit ''Agent pool tools require an agent pool to be configured. Use ToolExecutor::set_agent_pool().''
      else if f = SessionTaskFamily then lit ''Session task tool requires a session task list to be configured. Use ToolExecutor::set_session_task_list().''
      else lit ''Task manager tools require a task manager to be configured. Use ToolExecutor::set_task_manager().'')"

definition validation_args :: "('w, 'j, 'k, 'c, 'l, 'g, 'cat) executor \<Rightarrow> 'j tool_use \<Rightarrow> tool_family \<Rightarrow> rstr list" where
  "validation_args E tu f =
     (let get = (\<lambda>k d. case input_str E tu k of Some v \<Rightarrow> v | None \<Rightarrow> d) in
      if f = VerifyBuild then [get (lit ''working_directory'') (lit ''.''), get (lit ''build_type'') (lit ''npm'')]
      else [get (lit ''file_path'') []])"

definition run_bash :: "('w, 'j, 'k, 'c, 'l, 'g, 'cat) executor \<Rightarrow> 'j tool_use \<Rightarrow> 'j tool_context \<Rightarrow> 'w \<Rightarrow>
    (tool_result \<times> 'w) option" where
  "run_bash E tu ctx w =
     (let command = (case input_str E tu (lit ''command'') of Some c \<Rightarrow> c | None \<Rightarrow> []) in
      if command_needs_sudo command then
        (case ti_sudo_password (x_tools E) command w of
           None \<Rightarrow> None
         | Some (Some password, w1) \<Rightarrow> Some (ti_sudo (x_tools E) (tu_id tu) (tu_name tu) (tu_input tu) ctx password w1)
         | Some (None, w1) \<Rightarrow>
             Some (tool_error (tu_id tu) (lit ''Sudo command cancelled: password not provided.''), w1))
      else Some (ti_run (x_tools E) BashFamily (tu_id tu) (tu_name tu) (tu_input tu) ctx w))"

definition route_tool :: "('w, 'j, 'k, 'c, 'l, 'g, 'cat) executor \<Rightarrow> 'j tool_use \<Rightarrow> 'j tool_context \<Rightarrow> 'w \<Rightarrow>
    (tool_result \<times> 'w) option" where
  "route_tool E tu ctx w =
     (let f = route_family (tu_name tu) in
      if f = BashFamily then run_bash E tu ctx w
      else if f \<in> {PlanFamily, AgentPoolFamily, SessionTaskFamily, TaskManagerFamily} \<and> \<not> ti_available (x_tools E) f then
        Some (tool_error (tu_id tu) (unavailable_message f), w)
      else if f \<in> {CheckDuplicates, VerifyBuild, CheckSyntax} then
        (case ti_validate (x_tools E) f (validation_args E tu f) w of
           (Inr r, w1) \<Rightarrow> Some (r\<lparr>tr_id := tu_id tu\<rparr>, w1)
         | (Inl e, w1) \<Rightarrow> Some (tool_error (tu_id tu) e, w1))
      else if f = UnknownFamily then
        Some (tool_error (tu_id tu) (lit ''Unknown tool category for: '' @ tu_name tu), w)
      else Some (ti_run (x_tools E) f (tu_id tu) (tu_name tu) (tu_input tu) ctx w))"

section \<open>Running a call that passed\<close>

definition pre_hook :: "('w, 'j, 'k, 'c, 'l, 'g, 'cat) executor \<Rightarrow> 'j tool_use \<Rightarrow> 'w \<Rightarrow> (hook_outcome \<times> 'w) option" where
  "pre_hook E tu w =
     (case x_hooks E of None \<Rightarrow> Some (Continue, w)
      | Some d \<Rightarrow> dispatch_pre_tool (x_shell E) d (tu_name tu) (tu_input tu) w)"

definition post_hook :: "('w, 'j, 'k, 'c, 'l, 'g, 'cat) executor \<Rightarrow> 'j tool_use \<Rightarrow> tool_result \<Rightarrow> 'w \<Rightarrow>
    (hook_outcome \<times> 'w) option" where
  "post_hook E tu r w =
     (case x_hooks E of None \<Rightarrow> Some (Continue, w)
      | Some d \<Rightarrow> dispatch_post_tool (x_shell E) d (tu_name tu) (tu_input tu) (tr_content r) (tr_is_error r) w)"

definition track_read :: "('w, 'j, 'k, 'c, 'l, 'g, 'cat) executor \<Rightarrow> 'j tool_use \<Rightarrow> 'j tool_context \<Rightarrow> tool_result \<Rightarrow> 'w \<Rightarrow> 'w" where
  "track_read E tu ctx r w =
     (case x_access_control E of
        None \<Rightarrow> w
      | Some acm \<Rightarrow>
          if tu_name tu = lit ''read_file'' \<and> \<not> tr_is_error r then
            (case input_str E tu (lit ''path'') of
               Some p \<Rightarrow> ac_track_read acm (agent_id ctx) (path_join (ctx_working_directory ctx) p) w
             | None \<Rightarrow> w)
          else w)"

definition executed_entry :: "('w, 'j, 'k, 'c, 'l, 'g, 'cat) executor \<Rightarrow> 'j tool_use \<Rightarrow> 'j tool_context \<Rightarrow> tool_result \<Rightarrow> audit_entry" where
  "executed_entry E tu ctx r =
     AuditExecuted (agent_id ctx) (lit ''tool:'' @ tu_name tu)
       (case input_str E tu (lit ''path'') of Some p \<Rightarrow> p
        | None \<Rightarrow> (case input_str E tu (lit ''url'') of Some u \<Rightarrow> u | None \<Rightarrow> tu_name tu))
       (trust_level E ctx) (\<not> tr_is_error r)"

text \<open>Between the lock and its release: the hook before, the tool, the hook after, the records.\<close>

definition hooked_call :: "('w, 'j, 'k, 'c, 'l, 'g, 'cat) executor \<Rightarrow> 'j tool_use \<Rightarrow> 'j tool_context \<Rightarrow> 'w \<Rightarrow>
    (tool_result \<times> 'w) option" where
  "hooked_call E tu ctx w =
     (case pre_hook E tu w of
        None \<Rightarrow> None
      | Some (Block reason, w1) \<Rightarrow> Some (tool_error (tu_id tu) (lit ''Blocked by PreToolUse hook: '' @ reason), w1)
      | Some (_, w1) \<Rightarrow>
          (case route_tool E tu ctx w1 of
             None \<Rightarrow> None
           | Some (r, w2) \<Rightarrow>
               (case post_hook E tu r w2 of
                  None \<Rightarrow> None
                | Some (Block reason, w3) \<Rightarrow> Some (tool_error (tu_id tu) (lit ''PostToolUse hook: '' @ reason), w3)
                | Some (_, w3) \<Rightarrow> Some (r, audit E (Some (executed_entry E tu ctx r)) (track_read E tu ctx r w3)))))"

definition locked_call :: "('w, 'j, 'k, 'c, 'l, 'g, 'cat) executor \<Rightarrow> 'j tool_use \<Rightarrow> 'j tool_context \<Rightarrow> 'w \<Rightarrow>
    (tool_result \<times> 'w) option" where
  "locked_call E tu ctx w =
     (case x_access_control E of
        None \<Rightarrow> hooked_call E tu ctx w
      | Some acm \<Rightarrow>
          (case ac_acquire acm (agent_id ctx) (tu_name tu) (tu_input tu) w of
             (Inl e, w1) \<Rightarrow> Some (tool_error (tu_id tu) (lit ''Access control error: '' @ e), w1)
           | (Inr bundle, w1) \<Rightarrow> map_option (apsnd (ac_release acm bundle)) (hooked_call E tu ctx w1)))"

definition approved_call :: "('w, 'j, 'k, 'c, 'l, 'g, 'cat) executor \<Rightarrow> tool_def \<Rightarrow> 'j tool_use \<Rightarrow> 'j tool_context \<Rightarrow> 'w \<Rightarrow>
    (tool_result \<times> 'w) option" where
  "approved_call E tool tu ctx w =
     (if needs_approval E tool tu then
        (case request_approval E tool tu w of
           None \<Rightarrow> None
         | Some (Inr r, w1) \<Rightarrow>
             if is_approved r then locked_call E tu ctx w1
             else Some (tool_error (tu_id tu) (quoted (tu_name tu) @ lit '' was denied by user''), w1)
         | Some (Inl e, w1) \<Rightarrow>
             Some (tool_error (tu_id tu) (quoted (tu_name tu) @ lit '' approval failed: '' @ e), w1))
      else locked_call E tu ctx w)"

definition execute :: "('w, 'j, 'k, 'c, 'l, 'g, 'cat) executor \<Rightarrow> 'j tool_use \<Rightarrow> 'j tool_context \<Rightarrow> 'w \<Rightarrow>
    ((rstr + tool_result) \<times> 'w) option" where
  "execute E tu ctx w =
     (case x_registry E (tu_name tu) of
        None \<Rightarrow> Some (Inl (lit ''Unknown tool: '' @ tu_name tu), w)
      | Some tool \<Rightarrow>
          (case gates E tool tu ctx of
             Some (r, a) \<Rightarrow> Some (Inr r, audit E a w)
           | None \<Rightarrow> map_option (apfst Inr) (approved_call E tool tu ctx w)))"

section \<open>Retrying\<close>

datatype 'e tool_outcome = OutcomeSuccess rstr "32 word" nat | OutcomeFailure rstr "32 word" 'e nat

record ('w, 'e) taxonomy =
  tx_classify :: "rstr \<Rightarrow> rstr \<Rightarrow> 'e"
  tx_retryable :: "'e \<Rightarrow> bool"
  tx_delay :: "'e \<Rightarrow> 32 word \<Rightarrow> nat option"
  tx_sleep :: "nat \<Rightarrow> 'w \<Rightarrow> 'w"
  tx_elapsed :: "'w \<Rightarrow> nat"

partial_function (option) retry_loop :: "('w, 'j, 'k, 'c, 'l, 'g, 'cat) executor \<Rightarrow> ('w, 'e) taxonomy \<Rightarrow> 'j tool_use \<Rightarrow>
    'j tool_context \<Rightarrow> 32 word \<Rightarrow> tool_result option \<Rightarrow> 'w \<Rightarrow> ((rstr + tool_result \<times> 'e tool_outcome) \<times> 'w) option" where
  "retry_loop E X tu ctx attempt last_result w =
     (case execute E tu ctx w of
        None \<Rightarrow> None
      | Some (Inl e, w1) \<Rightarrow> Some (Inl e, w1)
      | Some (Inr r, w1) \<Rightarrow>
          if \<not> tr_is_error r then Some (Inr (r, OutcomeSuccess (tu_name tu) attempt (tx_elapsed X w1)), w1)
          else
            let c = tx_classify X (tu_name tu) (tr_content r) in
            if \<not> tx_retryable X c then
              Some (Inr (r, OutcomeFailure (tu_name tu) attempt c (tx_elapsed X w1)), w1)
            else
              (case tx_delay X c attempt of
                 Some d \<Rightarrow> retry_loop E X tu ctx (attempt + 1) (Some r) (if d = 0 then w1 else tx_sleep X d w1)
               | None \<Rightarrow>
                   Some (Inr (case last_result of Some l \<Rightarrow> l | None \<Rightarrow> r,
                     OutcomeFailure (tu_name tu) attempt c (tx_elapsed X w1)), w1)))"

definition execute_with_retry :: "('w, 'j, 'k, 'c, 'l, 'g, 'cat) executor \<Rightarrow> ('w, 'e) taxonomy \<Rightarrow> 'j tool_use \<Rightarrow>
    'j tool_context \<Rightarrow> 'w \<Rightarrow> ((rstr + tool_result \<times> 'e tool_outcome) \<times> 'w) option" where
  "execute_with_retry E X tu ctx w = retry_loop E X tu ctx 0 None w"


section \<open>What the parts depend on\<close>

lemmas gate_defs = gates_def org_gate_def settings_gate_def settings_decision_def denied_entry_def
  capability_gate_def context_capabilities_def capability_refusal_def [abs_def] domain_refusal_def [abs_def] policy_gate_def
  policy_request_of_def mode_gate_def input_str_def [abs_def] trust_level_def

lemmas approval_defs = needs_approval_def has_approval_channel_def request_approval_def create_approval_action_def Let_def

lemmas call_defs = locked_call_def hooked_call_def pre_hook_def post_hook_def route_tool_def run_bash_def
  validation_args_def track_read_def executed_entry_def audit_def

lemmas case_congs = if_cong option.case_cong sum.case_cong prod.case_cong permission_decision.case_cong
  hook_outcome.case_cong policy_action.case_cong

lemma first_refusal_None_iff: "first_refusal gs = None \<longleftrightarrow> (\<forall>g \<in> set gs. g = None)"
  by (induction gs rule: first_refusal.induct) auto

lemma gate_tools:
  "org_gate (E\<lparr>x_tools := t\<rparr>) = org_gate E"
  "settings_decision (E\<lparr>x_tools := t\<rparr>) = settings_decision E"
  "settings_gate (E\<lparr>x_tools := t\<rparr>) = settings_gate E"
  "capability_gate (E\<lparr>x_tools := t\<rparr>) = capability_gate E"
  "policy_gate (E\<lparr>x_tools := t\<rparr>) = policy_gate E"
  "mode_gate (E\<lparr>x_tools := t\<rparr>) = mode_gate E"
  by (simp_all add: gate_defs fun_eq_iff cong: case_congs)

lemma gates_tools [simp]: "gates (E\<lparr>x_tools := t\<rparr>) = gates E"
  by (simp add: gates_def gate_tools fun_eq_iff)

lemma needs_approval_tools [simp]: "needs_approval (E\<lparr>x_tools := t\<rparr>) = needs_approval E"
  by (simp add: approval_defs gate_defs fun_eq_iff cong: case_congs)

lemma request_approval_tools [simp]: "request_approval (E\<lparr>x_tools := t\<rparr>) = request_approval E"
  by (simp add: approval_defs gate_defs fun_eq_iff cong: case_congs)

lemma pre_hook_tools [simp]: "pre_hook (E\<lparr>x_tools := t\<rparr>) = pre_hook E"
  by (simp add: pre_hook_def fun_eq_iff cong: case_congs)

lemma audit_tools [simp]: "audit (E\<lparr>x_tools := t\<rparr>) = audit E"
  by (simp add: audit_def fun_eq_iff cong: case_congs)

section \<open>No tool runs past a gate\<close>

text \<open>What the gates of the code mean, stated on their own.\<close>

definition permitted :: "('w, 'j, 'k, 'c, 'l, 'g, 'cat) executor \<Rightarrow> tool_def \<Rightarrow> 'j tool_use \<Rightarrow> 'j tool_context \<Rightarrow> bool" where
  "permitted E tool tu ctx \<longleftrightarrow>
     tu_name tu \<notin> set (x_org_blocked_tools E)
     \<and> strength (settings_decision E tu) < 3
     \<and> (case context_capabilities E ctx of None \<Rightarrow> True
        | Some c \<Rightarrow>
            allows_tool c (tu_name tu)
            \<and> (case input_str E tu (lit ''path'') of None \<Rightarrow> True
               | Some p \<Rightarrow> if is_write_tool (tu_name tu) then allows_write c p else allows_read c p)
            \<and> (case input_str E tu (lit ''url'') of None \<Rightarrow> True
               | Some u \<Rightarrow>
                   (case extract_domain_from_url (fw_lower (x_framework E)) u of None \<Rightarrow> True
                    | Some d \<Rightarrow> allows_domain c d)))
     \<and> (case x_policy_engine E of None \<Rightarrow> True
        | Some ev \<Rightarrow>
            (case pd_action (ev (policy_request_of E tu ctx)) of
               PolicyAllow \<Rightarrow> True | PolicyAllowWithAudit \<Rightarrow> True
             | PolicyDeny \<Rightarrow> False | PolicyDenyWithMessage m \<Rightarrow> False
             | PolicyRequireApproval \<Rightarrow> x_mode E = Auto | PolicyEscalate \<Rightarrow> x_mode E = Auto))
     \<and> \<not> (td_requires_approval tool \<and> x_mode E = ReadOnly)"

lemma settings_gate_None_iff: "settings_gate E tu ctx = None \<longleftrightarrow> strength (settings_decision E tu) < 3"
  by (cases "settings_decision E tu") (simp_all add: settings_gate_def)

lemma path_refusal_None_iff:
  "path_refusal c n p = None \<longleftrightarrow> (if is_write_tool n then allows_write c p else allows_read c p)"
  by (simp add: path_refusal_def)

lemma domain_refusal_None_iff:
  "domain_refusal E c u = None \<longleftrightarrow>
    (case extract_domain_from_url (fw_lower (x_framework E)) u of None \<Rightarrow> True | Some d \<Rightarrow> allows_domain c d)"
  by (simp add: domain_refusal_def split: option.splits)

lemma capability_gate_None_iff:
  "capability_gate E tu ctx = None \<longleftrightarrow>
    (case context_capabilities E ctx of None \<Rightarrow> True
     | Some c \<Rightarrow>
         allows_tool c (tu_name tu)
         \<and> (case input_str E tu (lit ''path'') of None \<Rightarrow> True | Some p \<Rightarrow> path_refusal c (tu_name tu) p = None)
         \<and> (case input_str E tu (lit ''url'') of None \<Rightarrow> True | Some u \<Rightarrow> domain_refusal E c u = None))"
  by (simp add: capability_gate_def capability_refusal_def split: option.splits bind_splits)

lemma policy_gate_None_iff:
  "policy_gate E tu ctx = None \<longleftrightarrow>
    (case x_policy_engine E of None \<Rightarrow> True
     | Some ev \<Rightarrow>
         (case pd_action (ev (policy_request_of E tu ctx)) of
            PolicyAllow \<Rightarrow> True | PolicyAllowWithAudit \<Rightarrow> True
          | PolicyDeny \<Rightarrow> False | PolicyDenyWithMessage m \<Rightarrow> False
          | PolicyRequireApproval \<Rightarrow> x_mode E = Auto | PolicyEscalate \<Rightarrow> x_mode E = Auto))"
  by (simp add: policy_gate_def Let_def split: option.splits policy_action.splits)

lemma gates_None_iff: "gates E tool tu ctx = None \<longleftrightarrow> permitted E tool tu ctx"
  by (simp add: gates_def first_refusal_None_iff permitted_def settings_gate_None_iff capability_gate_None_iff
      path_refusal_None_iff domain_refusal_None_iff policy_gate_None_iff cong: case_congs)
    (simp add: org_gate_def mode_gate_def)

lemma locked_call_tools:
  assumes "\<And>w. hooked_call (E\<lparr>x_tools := t\<rparr>) tu ctx w = hooked_call E tu ctx w"
  shows "locked_call (E\<lparr>x_tools := t\<rparr>) tu ctx w = locked_call E tu ctx w"
  by (simp add: locked_call_def assms cong: case_congs)

text \<open>The tools matter for the outcome of a locked call only past the hook before it.\<close>

lemma hooked_call_tools:
  assumes "hooked_call (E\<lparr>x_tools := t\<rparr>) tu ctx w \<noteq> hooked_call E tu ctx w"
  shows "\<exists>o1 w1. pre_hook E tu w = Some (o1, w1) \<and> \<not> is_block o1"
proof (rule ccontr)
  assume "\<nexists>o1 w1. pre_hook E tu w = Some (o1, w1) \<and> \<not> is_block o1"
  then have "pre_hook E tu w = None \<or> (\<exists>r w1. pre_hook E tu w = Some (Block r, w1))"
    by (metis is_block.elims(2) old.prod.exhaust option.exhaust)
  with assms show False by (auto simp: hooked_call_def)
qed



text \<open>A small environment: one registered tool that writes nothing and answers its implementation's text.\<close>

definition sample_tools :: "rstr \<Rightarrow> (nat, unit) tool_impls" where
  "sample_tools t = \<lparr>ti_available = \<lambda>f. False, ti_run = \<lambda>f i n j ctx w. (\<lparr>tr_id = i, tr_content = t, tr_is_error = False\<rparr>, w),
     ti_sudo = \<lambda>i n j ctx pw w. (tool_error i [], w), ti_sudo_password = \<lambda>c w. Some (None, w),
     ti_validate = \<lambda>f xs w. (Inl [], w)\<rparr>"

definition sample_framework :: "(nat, unit, unit, unit) framework" where
  "sample_framework = \<lparr>fw_str = \<lambda>j k. None, fw_lower = ascii_lower, fw_regex = \<lambda>r p. None,
     fw_parse_capabilities = \<lambda>j. None, fw_categorize = \<lambda>n. (), fw_git_operation = \<lambda>n. None,
     fw_medium_trust = 2, fw_fresh = \<lambda>w. (([], w), Suc w)\<rparr>"

definition sample_executor :: "policy_action \<Rightarrow> (nat, unit, unit, int, unit, unit, unit) executor" where
  "sample_executor a = \<lparr>x_framework = sample_framework, x_tools = sample_tools (lit ''a''),
     x_registry = [lit ''git_x'' \<mapsto> \<lparr>td_name = lit ''git_x'', td_description = [], td_requires_approval = False\<rparr>],
     x_mode = Auto, x_access_control = None, x_policy_engine = Some (\<lambda>rq. \<lparr>pd_action = a, pd_matched = None\<rparr>),
     x_audit_logger = None, x_approval_tx = None, x_session_approvals = Map.empty, x_org_blocked_tools = [],
     x_org_relay_required = False, x_settings = None, x_shell = code_shell, x_hooks = None\<rparr>"

definition sample_call :: "unit tool_use" where
  "sample_call = \<lparr>tu_id = lit ''1'', tu_name = lit ''git_x'', tu_input = ()\<rparr>"

definition sample_context :: "unit tool_context" where
  "sample_context = \<lparr>ctx_working_directory = lit ''/'', ctx_metadata = Map.empty, ctx_capabilities = None\<rparr>"

lemmas sample_defs = sample_executor_def sample_framework_def sample_tools_def sample_call_def sample_context_def

lemma route_sample [simp]: "route_family (lit ''git_x'') = GitFamily"
  by (simp add: route_family_def starts_def lit_def)

lemma sample_locked:
  "locked_call ((sample_executor a)\<lparr>x_tools := sample_tools t\<rparr>) sample_call sample_context w
    = Some (\<lparr>tr_id = lit ''1'', tr_content = t, tr_is_error = False\<rparr>, w)"
  by (simp add: locked_call_def hooked_call_def pre_hook_def post_hook_def route_tool_def track_read_def audit_def
      sample_defs)

lemma sample_not_sensitive [simp]: "\<not> tool_requires_approval (lit ''git_x'')"
  by (simp add: tool_requires_approval_def lit_def)

lemma sample_execute:
  assumes "a \<in> {PolicyAllow, PolicyRequireApproval, PolicyEscalate}"
  shows "execute ((sample_executor a)\<lparr>x_tools := sample_tools t\<rparr>) sample_call sample_context w
    = Some (Inr \<lparr>tr_id = lit ''1'', tr_content = t, tr_is_error = False\<rparr>, w)"
proof -
  have "settings_decision (sample_executor a) sample_call = Unset"
    by (simp add: settings_decision_def sample_defs)
  then have "gates (sample_executor a) tool sample_call sample_context = None"
    if "\<not> td_requires_approval tool" for tool
    using that assms
    by (simp only: gates_None_iff permitted_def)
      (auto simp: context_capabilities_def sample_defs policy_request_of_def)
  moreover have "needs_approval (sample_executor a) tool sample_call = False"
    if "\<not> td_requires_approval tool" for tool
    using that by (simp add: needs_approval_def settings_decision_def sample_executor_def sample_call_def)
  moreover have "x_registry (sample_executor a) (tu_name sample_call)
      = Some \<lparr>td_name = lit ''git_x'', td_description = [], td_requires_approval = False\<rparr>"
    by (simp add: sample_executor_def sample_call_def)
  ultimately show ?thesis
    by (simp add: execute_def approved_call_def sample_locked)
qed

lemma sample_execute_plain:
  "a \<in> {PolicyAllow, PolicyRequireApproval, PolicyEscalate} \<Longrightarrow>
   execute (sample_executor a) sample_call sample_context w
    = Some (Inr \<lparr>tr_id = lit ''1'', tr_content = lit ''a'', tr_is_error = False\<rparr>, w)"
  using sample_execute [of a "lit ''a''" w]
  by (simp add: sample_executor_def)



section \<open>What the configuration does not enforce\<close>

lemma policy_irrelevant:
  "org_gate (E\<lparr>x_policy_engine := p\<rparr>) = org_gate E"
  "settings_decision (E\<lparr>x_policy_engine := p\<rparr>) = settings_decision E"
  "settings_gate (E\<lparr>x_policy_engine := p\<rparr>) = settings_gate E"
  "capability_gate (E\<lparr>x_policy_engine := p\<rparr>) = capability_gate E"
  "mode_gate (E\<lparr>x_policy_engine := p\<rparr>) = mode_gate E"
  "request_approval (E\<lparr>x_policy_engine := p\<rparr>) = request_approval E"
  "audit (E\<lparr>x_policy_engine := p\<rparr>) = audit E"
  "denied_entry (E\<lparr>x_policy_engine := p\<rparr>) = denied_entry E"
  "policy_request_of (E\<lparr>x_policy_engine := p\<rparr>) = policy_request_of E"
  by (simp_all add: gate_defs approval_defs audit_def fun_eq_iff cong: case_congs)

lemma needs_approval_policy [simp]: "needs_approval (E\<lparr>x_policy_engine := p\<rparr>) = needs_approval E"
  by (simp add: needs_approval_def policy_irrelevant has_approval_channel_def fun_eq_iff Let_def cong: case_congs)

lemma locked_call_policy [simp]: "locked_call (E\<lparr>x_policy_engine := p\<rparr>) = locked_call E"
  by (simp add: call_defs input_str_def trust_level_def Let_def fun_eq_iff cong: case_congs)

text \<open>A policy engine in which every decision but a denial is an allowance.\<close>

definition waive :: "policy_decision \<Rightarrow> policy_decision" where
  "waive d =
     (if pd_action d \<in> {PolicyRequireApproval, PolicyEscalate, PolicyAllowWithAudit} then d\<lparr>pd_action := PolicyAllow\<rparr>
      else d)"

lemma policy_gate_waive:
  assumes "x_mode E = Auto"
  shows "policy_gate (E\<lparr>x_policy_engine := map_option (\<lambda>ev rq. waive (ev rq)) (x_policy_engine E)\<rparr>) = policy_gate E"
proof (cases "x_policy_engine E")
  case (Some ev)
  have "policy_gate (E\<lparr>x_policy_engine := Some (\<lambda>rq. waive (ev rq))\<rparr>) tu ctx = policy_gate E tu ctx" for tu ctx
    using Some assms
    by (cases "pd_action (ev (policy_request_of E tu ctx))")
      (simp_all add: policy_gate_def policy_irrelevant waive_def matched_or_def)
  with Some show ?thesis by (simp add: fun_eq_iff)
qed (simp add: policy_gate_def fun_eq_iff)

text \<open>
  In auto mode a policy can only allow or deny. Every call behaves, in result and effects, as if
  each decision of the policy engine to require approval, to escalate or to audit were a plain
  allowance: the approval the code announces for later in the function never looks at the policy.
\<close>

theorem approval_policies_waived_in_auto_mode:
  assumes "x_mode E = Auto"
  shows "execute (E\<lparr>x_policy_engine := map_option (\<lambda>ev rq. waive (ev rq)) (x_policy_engine E)\<rparr>) tu ctx w
    = execute E tu ctx w"
proof -
  let ?E = "E\<lparr>x_policy_engine := map_option (\<lambda>ev rq. waive (ev rq)) (x_policy_engine E)\<rparr>"
  have "gates ?E = gates E"
    by (simp add: gates_def policy_irrelevant policy_gate_waive [OF assms] fun_eq_iff)
  moreover have "approved_call ?E = approved_call E"
    by (simp add: approved_call_def policy_irrelevant fun_eq_iff cong: case_congs)
  ultimately show ?thesis
    by (simp add: execute_def policy_irrelevant cong: case_congs)
qed

lemma approval_policies_waived_in_auto_mode_witness:
  "execute ((sample_executor PolicyEscalate)
      \<lparr>x_policy_engine := map_option (\<lambda>ev rq. waive (ev rq)) (x_policy_engine (sample_executor PolicyEscalate))\<rparr>)
    sample_call sample_context 0
   = Some (Inr \<lparr>tr_id = lit ''1'', tr_content = lit ''a'', tr_is_error = False\<rparr>, 0)"
  by (subst approval_policies_waived_in_auto_mode)
    (simp add: sample_executor_def, simp add: sample_execute_plain)

lemma relay_irrelevant:
  "gates (E\<lparr>x_org_relay_required := b\<rparr>) = gates E"
  "settings_decision (E\<lparr>x_org_relay_required := b\<rparr>) = settings_decision E"
  "request_approval (E\<lparr>x_org_relay_required := b\<rparr>) = request_approval E"
  "locked_call (E\<lparr>x_org_relay_required := b\<rparr>) = locked_call E"
  "audit (E\<lparr>x_org_relay_required := b\<rparr>) = audit E"
proof -
  have parts:
    "org_gate (E\<lparr>x_org_relay_required := b\<rparr>) = org_gate E"
    "settings_gate (E\<lparr>x_org_relay_required := b\<rparr>) = settings_gate E"
    "capability_gate (E\<lparr>x_org_relay_required := b\<rparr>) = capability_gate E"
    "policy_gate (E\<lparr>x_org_relay_required := b\<rparr>) = policy_gate E"
    "mode_gate (E\<lparr>x_org_relay_required := b\<rparr>) = mode_gate E"
    by (simp_all add: gate_defs fun_eq_iff cong: case_congs)
  then show "gates (E\<lparr>x_org_relay_required := b\<rparr>) = gates E"
    by (simp add: gates_def fun_eq_iff)
  show "settings_decision (E\<lparr>x_org_relay_required := b\<rparr>) = settings_decision E"
    "request_approval (E\<lparr>x_org_relay_required := b\<rparr>) = request_approval E"
    "audit (E\<lparr>x_org_relay_required := b\<rparr>) = audit E"
    by (simp_all add: gate_defs approval_defs audit_def fun_eq_iff cong: case_congs)
  show "locked_call (E\<lparr>x_org_relay_required := b\<rparr>) = locked_call E"
    by (simp add: call_defs input_str_def trust_level_def Let_def fun_eq_iff cong: case_congs)
qed

lemma approved_call_Allow:
  "settings_decision E tu = Allow \<Longrightarrow> approved_call E tool tu ctx w = locked_call E tu ctx w"
  by (simp add: approved_call_def needs_approval_def)

lemma approved_call_no_channel:
  "x_approval_tx E = None \<Longrightarrow> x_session_approvals E (tu_name tu) = None \<Longrightarrow>
   approved_call E tool tu ctx w = locked_call E tu ctx w"
  by (simp add: approved_call_def request_approval_def is_approved_def)

text \<open>
  The organisation's forced approval is not enforced without help. When a rule of the layered
  settings allows the tool, or when there is no approval channel and no decision for the session, a
  call behaves the same whether the organisation requires the relay of permissions or not: the rule
  clears the flag, and the missing channel approves.
\<close>

theorem org_relay_has_no_effect:
  assumes "settings_decision E tu = Allow
    \<or> (x_approval_tx E = None \<and> x_session_approvals E (tu_name tu) = None)"
  shows "execute (E\<lparr>x_org_relay_required := b\<rparr>) tu ctx w = execute E tu ctx w"
proof -
  have "approved_call (E\<lparr>x_org_relay_required := b\<rparr>) tool tu ctx w = approved_call E tool tu ctx w" for tool
    using assms
  proof
    assume "settings_decision E tu = Allow"
    then show ?thesis
      by (simp add: approved_call_Allow relay_irrelevant)
  next
    assume "x_approval_tx E = None \<and> x_session_approvals E (tu_name tu) = None"
    then show ?thesis
      by (simp add: approved_call_no_channel relay_irrelevant)
  qed
  then show ?thesis by (simp add: execute_def relay_irrelevant cong: case_congs)
qed

lemma org_relay_has_no_effect_witness:
  "execute ((sample_executor PolicyAllow)\<lparr>x_org_relay_required := True\<rparr>) sample_call sample_context 0
   = Some (Inr \<lparr>tr_id = lit ''1'', tr_content = lit ''a'', tr_is_error = False\<rparr>, 0)"
  by (subst org_relay_has_no_effect)
    (simp add: sample_executor_def, simp add: sample_execute_plain)


text \<open>
  A capability profile that does not parse restricts nothing. When the context carries
  capabilities the framework cannot read, the gates decide as if the context had none: the tool, path
  and domain checks are all skipped.
\<close>

theorem unreadable_capabilities_fail_open:
  assumes "ctx_capabilities ctx = Some j" and "fw_parse_capabilities (x_framework E) j = None"
  shows "gates E tool tu ctx = gates E tool tu (ctx\<lparr>ctx_capabilities := None\<rparr>)"
proof -
  have "agent_id (ctx\<lparr>ctx_capabilities := None\<rparr>) = agent_id ctx" by (simp add: agent_id_def)
  moreover have "trust_level E (ctx\<lparr>ctx_capabilities := None\<rparr>) = trust_level E ctx" by (simp add: trust_level_def)
  ultimately have "denied_entry E tu (ctx\<lparr>ctx_capabilities := None\<rparr>) = denied_entry E tu ctx"
    and "policy_request_of E tu (ctx\<lparr>ctx_capabilities := None\<rparr>) = policy_request_of E tu ctx"
    by (simp_all add: denied_entry_def policy_request_of_def fun_eq_iff)
  moreover have "capability_gate E tu ctx = None" and "capability_gate E tu (ctx\<lparr>ctx_capabilities := None\<rparr>) = None"
    using assms by (simp_all add: capability_gate_def context_capabilities_def)
  moreover have "settings_gate E tu (ctx\<lparr>ctx_capabilities := None\<rparr>) = settings_gate E tu ctx"
    "policy_gate E tu (ctx\<lparr>ctx_capabilities := None\<rparr>) = policy_gate E tu ctx"
    using calculation(1,2) by (simp_all add: settings_gate_def policy_gate_def cong: case_congs)
  ultimately show ?thesis
    by (simp add: gates_def)
qed

lemma unreadable_capabilities_fail_open_witness:
  "\<forall>tool. gates (sample_executor PolicyAllow) tool sample_call (sample_context\<lparr>ctx_capabilities := Some ()\<rparr>)
    = gates (sample_executor PolicyAllow) tool sample_call
        (sample_context\<lparr>ctx_capabilities := Some ()\<rparr>\<lparr>ctx_capabilities := None\<rparr>)"
  by (intro allI unreadable_capabilities_fail_open)
    (simp_all add: sample_executor_def sample_framework_def)

section \<open>Domains\<close>

lemma hd_split_any: "hd (split_any cs s) = takeWhile (\<lambda>c. c \<notin> cs) s"
  by (induction s) (auto split: list.splits)

lemma takeWhile_over: "x \<notin> set u \<Longrightarrow> takeWhile (\<lambda>c. c \<noteq> x) (u @ r) = u @ takeWhile (\<lambda>c. c \<noteq> x) r"
  by (induction u) auto

lemma takeWhile_until: "x \<notin> set u \<Longrightarrow> takeWhile (\<lambda>c. c \<noteq> x) (u @ x # r) = u"
  by (induction u) auto

lemma extract_domain_plain:
  assumes "47 \<notin> set h" and "58 \<notin> set h" and "64 \<notin> set h" and "h \<noteq> []"
  shows "extract_domain_from_url lower (lit ''https://'' @ h @ 47 # r) = Some (lower h)"
proof -
  have proto: "strip_protocol (lit ''https://'' @ h @ 47 # r) = h @ 47 # r"
    by (simp add: strip_protocol_def lit_def)
  have tw: "takeWhile (\<lambda>c. c \<noteq> 58) h = h"
    using takeWhile_over [OF assms(2), of "[]"] by simp
  show ?thesis
    using assms(1,3,4) by (simp add: extract_domain_from_url_def hd_split_any takeWhile_until proto tw)
qed

text \<open>
  The domain that is checked need not be the domain that is fetched. For a URL with user and
  password, \<^verbatim>\<open>https://user:password...\<close>, the extracted domain is the user name, whatever follows
  it: the port is cut off before the user information is, so the host after the at sign is never seen
  by the capability profile or the policy engine.
\<close>

theorem domain_of_userinfo_url:
  assumes "47 \<notin> set user" and "58 \<notin> set user" and "64 \<notin> set user" and "user \<noteq> []"
    and "47 \<notin> set password"
  shows "extract_domain_from_url lower (lit ''https://'' @ user @ [58] @ password @ [64] @ host) = Some (lower user)"
proof -
  have "strip_protocol (lit ''https://'' @ user @ [58] @ password @ [64] @ host) = user @ 58 # (password @ 64 # host)"
    by (simp add: strip_protocol_def lit_def)
  moreover have "takeWhile (\<lambda>c. c \<noteq> 47) (user @ 58 # (password @ 64 # host))
      = user @ 58 # password @ 64 # takeWhile (\<lambda>c. c \<noteq> 47) host"
    by (simp add: takeWhile_over [OF assms(1)] takeWhile_over [OF assms(5)])
  moreover have "takeWhile (\<lambda>c. c \<noteq> 58) (user @ 58 # password @ 64 # takeWhile (\<lambda>c. c \<noteq> 47) host) = user"
    by (rule takeWhile_until) (rule assms(2))
  ultimately show ?thesis
    using assms(3,4) by (simp add: extract_domain_from_url_def hd_split_any)
qed

lemma domain_of_userinfo_url_witness:
  "extract_domain_from_url ascii_lower
     (lit ''https://'' @ lit ''good.com'' @ [58] @ lit ''x'' @ [64] @ lit ''evil.com/'') = Some (lit ''good.com'')"
proof -
  have "ascii_lower (lit ''good.com'') = lit ''good.com''"
    by (simp add: ascii_lower_def ascii_lower_char_def lit_def)
  then show ?thesis
    by (subst domain_of_userinfo_url) (simp_all add: lit_def)
qed

section \<open>What is recorded\<close>

text \<open>
  A call whose PostToolUse hook blocks leaves no trace. The tool has run, its effects are in the
  world, but the result is replaced by an error and the world is the one the hook left: neither the
  audit log nor the record of files read sees the call.
\<close>

theorem blocked_result_not_recorded:
  assumes "pre_hook E tu w = Some (o1, w1)" and "\<not> is_block o1"
    and "route_tool E tu ctx w1 = Some (r, w2)"
    and "post_hook E tu r w2 = Some (Block reason, w3)"
  shows "hooked_call E tu ctx w = Some (tool_error (tu_id tu) (lit ''PostToolUse hook: '' @ reason), w3)"
  using assms by (cases o1) (simp_all add: hooked_call_def)

definition blocking_executor :: "(nat, unit, unit, int, unit, unit, unit) executor" where
  "blocking_executor = (sample_executor PolicyAllow)
     \<lparr>x_hooks := Some \<lparr>hd_hooks = hooks_default
        \<lparr>post_tool_use := [\<lparr>hm_matcher = None, hm_hooks = [code_hook 2]\<rparr>]\<rparr>, hd_cwd = []\<rparr>\<rparr>"

lemma blocked_result_not_recorded_witness:
  "hooked_call blocking_executor sample_call sample_context 0
    = Some (tool_error (tu_id sample_call) (lit ''PostToolUse hook: '' @ lit ''blocked by hook''), 1)"
  by (rule blocked_result_not_recorded [where ?o1.0 = Continue and ?w1.0 = 0 and ?w2.0 = 0
        and r = "\<lparr>tr_id = lit ''1'', tr_content = lit ''a'', tr_is_error = False\<rparr>"])
    (simp_all add: blocking_executor_def sample_defs pre_hook_def post_hook_def route_tool_def hooks_default_def
      dispatch_pre_tool_def dispatch_post_tool_def matcher_applies_def exit_outcome_def trim_def)

section \<open>Retries\<close>

text \<open>
  A retried call returns. If every attempt returns and the strategy of every error stops at some
  number of attempts below the range of the counter, the retry loop ends with a result.
\<close>

theorem retry_returns:
  assumes "\<And>w. execute E tu ctx w \<noteq> None"
    and "\<And>c n. m \<le> unat n \<Longrightarrow> tx_delay X c n = None" and "m < 2 ^ 32"
  shows "\<exists>y. execute_with_retry E X tu ctx w = Some y"
proof -
  have "\<exists>y. retry_loop E X tu ctx n l w = Some y" for n l w
  proof (induction "m - unat n" arbitrary: n l w rule: less_induct)
    case less
    obtain res w1 where ex: "execute E tu ctx w = Some (res, w1)"
      using assms(1) [of w] by auto
    show ?case
    proof (cases "m \<le> unat n")
      case True
      with ex assms(2) show ?thesis
        by (subst retry_loop.simps) (auto simp: Let_def split: sum.splits)
    next
      case False
      then have "unat (n + 1) = unat n + 1"
        using assms(3) by (simp add: unat_word_ariths)
      with False have "m - unat (n + 1) < m - unat n" by simp
      from less [OF this] ex show ?thesis
        by (subst retry_loop.simps) (auto simp: Let_def split: sum.splits option.splits)
    qed
  qed
  then show ?thesis by (simp add: execute_with_retry_def)
qed


text \<open>An environment whose only tool always fails, with a strategy of one retry.\<close>

definition failing_tools :: "(nat, unit) tool_impls" where
  "failing_tools = (sample_tools [])\<lparr>ti_run := \<lambda>f i n j ctx w. (\<lparr>tr_id = i, tr_content = [w], tr_is_error = True\<rparr>, Suc w)\<rparr>"

definition one_retry :: "(nat, nat) taxonomy" where
  "one_retry = \<lparr>tx_classify = \<lambda>n c. hd c, tx_retryable = \<lambda>e. True,
     tx_delay = \<lambda>e n. if n = 0 then Some 0 else None, tx_sleep = \<lambda>d w. w, tx_elapsed = \<lambda>w. 0\<rparr>"

lemma failing_execute:
  "execute ((sample_executor PolicyAllow)\<lparr>x_tools := failing_tools\<rparr>) sample_call sample_context w
    = Some (Inr \<lparr>tr_id = lit ''1'', tr_content = [w], tr_is_error = True\<rparr>, Suc w)"
proof -
  let ?F = "(sample_executor PolicyAllow)\<lparr>x_tools := failing_tools\<rparr>"
  have "gates ?F tool sample_call sample_context = None" if "\<not> td_requires_approval tool" for tool
    using that by (simp only: gates_tools gates_None_iff permitted_def)
      (auto simp: context_capabilities_def settings_decision_def sample_defs policy_request_of_def)
  moreover have "needs_approval ?F tool sample_call = False" if "\<not> td_requires_approval tool" for tool
    using that by (simp add: needs_approval_def settings_decision_def sample_executor_def sample_call_def)
  moreover have "locked_call ?F sample_call sample_context w
      = Some (\<lparr>tr_id = lit ''1'', tr_content = [w], tr_is_error = True\<rparr>, Suc w)"
    by (simp add: locked_call_def hooked_call_def pre_hook_def post_hook_def route_tool_def track_read_def audit_def
        sample_defs failing_tools_def)
  moreover have "x_registry ?F (tu_name sample_call)
      = Some \<lparr>td_name = lit ''git_x'', td_description = [], td_requires_approval = False\<rparr>"
    by (simp add: sample_executor_def sample_call_def)
  ultimately show ?thesis by (simp add: execute_def approved_call_def)
qed

lemma retry_returns_witness:
  "\<exists>y. execute_with_retry ((sample_executor PolicyAllow)\<lparr>x_tools := failing_tools\<rparr>) one_retry
      sample_call sample_context 5 = Some y"
  by (rule retry_returns [where m = 1])
    (auto simp: failing_execute one_retry_def)

text \<open>
  An exhausted retry reports the wrong attempt. When the first attempt fails with a retryable
  error and the second fails with one whose strategy is used up, the caller gets the result of the
  first attempt, paired with the error category of the second.
\<close>

theorem exhausted_retry_is_stale:
  assumes "execute E tu ctx w = Some (Inr r0, w1)" and "tr_is_error r0"
    and "tx_retryable X (tx_classify X (tu_name tu) (tr_content r0))"
    and "tx_delay X (tx_classify X (tu_name tu) (tr_content r0)) 0 = Some d"
    and "execute E tu ctx (if d = 0 then w1 else tx_sleep X d w1) = Some (Inr r1, w2)" and "tr_is_error r1"
    and "tx_retryable X (tx_classify X (tu_name tu) (tr_content r1))"
    and "tx_delay X (tx_classify X (tu_name tu) (tr_content r1)) 1 = None"
  shows "execute_with_retry E X tu ctx w
    = Some (Inr (r0, OutcomeFailure (tu_name tu) 1 (tx_classify X (tu_name tu) (tr_content r1)) (tx_elapsed X w2)), w2)"
proof -
  have "retry_loop E X tu ctx 1 (Some r0) (if d = 0 then w1 else tx_sleep X d w1)
    = Some (Inr (r0, OutcomeFailure (tu_name tu) 1 (tx_classify X (tu_name tu) (tr_content r1)) (tx_elapsed X w2)), w2)"
    using assms(5-8) by (subst retry_loop.simps) simp
  with assms(1-4) show ?thesis
    unfolding execute_with_retry_def by (subst retry_loop.simps) simp
qed

lemma exhausted_retry_is_stale_witness:
  "execute_with_retry ((sample_executor PolicyAllow)\<lparr>x_tools := failing_tools\<rparr>) one_retry
      sample_call sample_context 5
    = Some (Inr (\<lparr>tr_id = lit ''1'', tr_content = [5], tr_is_error = True\<rparr>,
        OutcomeFailure (tu_name sample_call) 1
          (tx_classify one_retry (tu_name sample_call) (tr_content \<lparr>tr_id = lit ''1'', tr_content = [6], tr_is_error = True\<rparr>))
          (tx_elapsed one_retry 7)), 7)"
  by (rule exhausted_retry_is_stale [where ?w1.0 = 6 and d = 0])
    (simp_all add: failing_execute one_retry_def)

end
