(* ===== verification/TaskAgent.thy ===== *)
theory TaskAgent
  imports ToolExecutor SessionBudget WorkingSet
begin

text \<open>
  The autonomous task agent, \<^verbatim>\<open>apps/cli/src/agents/task_agent.rs\<close>: the loop that asks the provider,
  runs the tools it names under file locks, enforces the budgets and completes through validation.
  What the agent owns (status, task, history, working set) and the world are one state \<open>agent_run\<close>.
  Provider, tool executor, communication hub, lock manager, checkpoint store, message store and the
  framework's task type are the fields of \<open>agent_env\<close>; a provider or tool call that never returns is
  \<open>None\<close>. The iteration counter is a \<open>nat\<close>: it stays within the \<^verbatim>\<open>u32\<close> limit it is compared with.
\<close>

section \<open>Messages, status, results\<close>

datatype role = UserRole | AssistantRole | SystemRole | ToolRole

datatype 'j content_block =
  TextBlock rstr | ToolUseBlock rstr rstr 'j | ToolResultBlock rstr rstr "bool option" | OtherBlock

datatype 'j message_content = TextContent rstr | Blocks "'j content_block list"

record 'j message =
  m_role :: role
  m_content :: "'j message_content"

datatype task_status =
  Idle | Working rstr | WaitingForLock rstr | Paused rstr | Completed rstr | Failed rstr

fun show_status :: "task_status \<Rightarrow> rstr" where
  "show_status Idle = lit ''Idle''"
| "show_status (Working d) = lit ''Working: '' @ d"
| "show_status (WaitingForLock p) = lit ''Waiting for lock: '' @ p"
| "show_status (Paused r) = lit ''Paused: '' @ r"
| "show_status (Completed s) = lit ''Completed: '' @ s"
| "show_status (Failed e) = lit ''Failed: '' @ e"

datatype agent_message =
  StatusUpdate rstr rstr | TaskResult rstr bool rstr | HelpResponse rstr rstr | OtherMessage

record agent_result =
  ar_agent_id :: rstr
  ar_task_id :: rstr
  ar_success :: bool
  ar_summary :: rstr
  ar_iterations :: nat

record 'j chat_response =
  cr_message :: "'j message"
  cr_finish_reason :: "rstr option"
  cr_total_tokens :: "64 word"

datatype lock_type = ReadLock | WriteLock

section \<open>The environment and the state\<close>

record ('w, 't) task_ops =
  to_id :: "'t \<Rightarrow> rstr"
  to_description :: "'t \<Rightarrow> rstr"
  to_start :: "'t \<Rightarrow> 't"
  to_increment :: "'t \<Rightarrow> 't"
  to_fail :: "rstr \<Rightarrow> 't \<Rightarrow> 't"
  to_complete :: "rstr \<Rightarrow> 't \<Rightarrow> 't"
  to_iterations :: "'t \<Rightarrow> nat"

record ('w, 'g) hub_ops =
  hub_is_registered :: "rstr \<Rightarrow> 'w \<Rightarrow> bool"
  hub_register :: "rstr \<Rightarrow> 'w \<Rightarrow> (rstr + unit) \<times> 'w"
  hub_unregister :: "rstr \<Rightarrow> 'w \<Rightarrow> 'w"
  hub_broadcast :: "rstr \<Rightarrow> agent_message \<Rightarrow> 'w \<Rightarrow> 'w"
  hub_try_receive :: "rstr \<Rightarrow> 'w \<Rightarrow> agent_message option \<times> 'w"
  fl_acquire :: "rstr \<Rightarrow> rstr \<Rightarrow> lock_type \<Rightarrow> 'w \<Rightarrow> (rstr + 'g) \<times> 'w"
  fl_drop :: "'g \<Rightarrow> 'w \<Rightarrow> 'w"
  fl_release_all :: "rstr \<Rightarrow> 'w \<Rightarrow> 'w"

record side_effect =
  se_tool_use_id :: rstr
  se_tool_name :: rstr
  se_target :: "rstr option"
  se_reversible :: bool

record 'w checkpoint_store =
  cs_load :: "rstr \<Rightarrow> 'w \<Rightarrow> rstr list option"
  cs_mark :: "rstr \<Rightarrow> rstr \<Rightarrow> side_effect \<Rightarrow> 'w \<Rightarrow> bool \<times> 'w"
  cs_delete :: "rstr \<Rightarrow> 'w \<Rightarrow> 'w"

record ('w, 'f) shared_budget =
  bl_get :: "'w \<Rightarrow> 'f session_budget"
  bl_put :: "'f session_budget \<Rightarrow> 'w \<Rightarrow> 'w"
  bl_ops :: "'f float_ops"
  bl_zero :: 'f
  bl_show :: "'f budget_error \<Rightarrow> rstr"

record 'w validation =
  vc_enabled :: bool
  vc_run :: "rstr list \<Rightarrow> 'w \<Rightarrow> (rstr + rstr option) \<times> 'w"

record ('w, 'j) message_store =
  ms_enhance :: "'j message list \<Rightarrow> rstr \<Rightarrow> 'w \<Rightarrow> 'j message list option"
  ms_add_batch :: "(role \<times> rstr) list \<Rightarrow> 'w \<Rightarrow> 'w"

record ('w, 'j, 't, 'g, 'f) agent_env =
  ae_id :: rstr
  ae_task :: "('w, 't) task_ops"
  ae_hub :: "('w, 'g) hub_ops"
  ae_str :: "'j \<Rightarrow> tool_args"
  ae_has :: "'j \<Rightarrow> rstr \<Rightarrow> bool"
  ae_text :: "'j message \<Rightarrow> rstr option"
  ae_chat :: "'j message list \<Rightarrow> 'w \<Rightarrow> ((rstr + 'j chat_response) \<times> 'w) option"
  ae_execute :: "'j tool_use \<Rightarrow> 'j tool_context \<Rightarrow> 'w \<Rightarrow> ((rstr + tool_result) \<times> 'w) option"
  ae_tool_context :: "(rstr \<rightharpoonup> rstr) \<Rightarrow> 'j tool_context"
  ae_elapsed :: "'w \<Rightarrow> nat"
  ae_trace_id :: "'w \<Rightarrow> rstr"
  ae_record_call :: "'j tool_use \<Rightarrow> bool \<Rightarrow> 'w \<Rightarrow> 'w"
  ae_file_size :: "rstr \<Rightarrow> 'w \<Rightarrow> nat option"
  ae_shuffle :: "ws_entries \<Rightarrow> ws_entries"
  ae_store :: "'w checkpoint_store option"
  ae_messages :: "('w, 'j) message_store option"
  ae_max_iterations :: nat
  ae_timeout_secs :: "nat option"
  ae_max_total_tokens :: "64 word option"
  ae_session_budget :: "('w, 'f) shared_budget option"
  ae_validation :: "'w validation option"

record ('w, 'j, 't) agent_run =
  r_status :: task_status
  r_task :: 't
  r_history :: "'j message list"
  r_metadata :: "rstr \<rightharpoonup> rstr"
  r_working_set :: working_set
  r_world :: 'w

type_synonym ('w, 'j, 't, 'a) outcome = "((rstr + 'a) \<times> ('w, 'j, 't) agent_run) option"

section \<open>Steps shared by the paths\<close>

definition on_world :: "('w \<Rightarrow> 'w) \<Rightarrow> ('w, 'j, 't) agent_run \<Rightarrow> ('w, 'j, 't) agent_run" where
  "on_world f s = s\<lparr>r_world := f (r_world s)\<rparr>"

definition on_task :: "('t \<Rightarrow> 't) \<Rightarrow> ('w, 'j, 't) agent_run \<Rightarrow> ('w, 'j, 't) agent_run" where
  "on_task f s = s\<lparr>r_task := f (r_task s)\<rparr>"

definition push :: "'j message \<Rightarrow> ('w, 'j, 't) agent_run \<Rightarrow> ('w, 'j, 't) agent_run" where
  "push m s = s\<lparr>r_history := r_history s @ [m]\<rparr>"

definition user_text :: "rstr \<Rightarrow> 'j message" where
  "user_text t = \<lparr>m_role = UserRole, m_content = TextContent t\<rparr>"

definition tool_result_message :: "rstr \<Rightarrow> rstr \<Rightarrow> bool \<Rightarrow> 'j message" where
  "tool_result_message i c e = \<lparr>m_role = UserRole, m_content = Blocks [ToolResultBlock i c (Some e)]\<rparr>"

definition set_agent_status :: "('w, 'j, 't, 'g, 'f) agent_env \<Rightarrow> task_status \<Rightarrow> ('w, 'j, 't) agent_run \<Rightarrow> ('w, 'j, 't) agent_run" where
  "set_agent_status A st s =
     on_world (hub_broadcast (ae_hub A) (ae_id A) (StatusUpdate (ae_id A) (show_status st))) (s\<lparr>r_status := st\<rparr>)"

definition is_file_operation :: "rstr \<Rightarrow> bool" where
  "is_file_operation n \<longleftrightarrow>
     n \<in> {lit ''read_file'', lit ''write_file'', lit ''edit_file'', lit ''append_to_file'', lit ''delete_file''}"

text \<open>\<^verbatim>\<open>get(a).or_else(get(b)).and_then(as_str)\<close>: a present field that is no string hides the other.\<close>

definition first_field :: "('w, 'j, 't, 'g, 'f) agent_env \<Rightarrow> rstr \<Rightarrow> rstr \<Rightarrow> 'j \<Rightarrow> rstr option" where
  "first_field A a b j = (if ae_has A j a then ae_str A j a else ae_str A j b)"

definition extract_file_path :: "('w, 'j, 't, 'g, 'f) agent_env \<Rightarrow> 'j tool_use \<Rightarrow> rstr option" where
  "extract_file_path A tu = first_field A (lit ''file_path'') (lit ''path'') (tu_input tu)"

definition get_lock_requirement :: "('w, 'j, 't, 'g, 'f) agent_env \<Rightarrow> 'j tool_use \<Rightarrow> (rstr \<times> lock_type) option" where
  "get_lock_requirement A tu =
     (case first_field A (lit ''path'') (lit ''file_path'') (tu_input tu) of
        None \<Rightarrow> None
      | Some p \<Rightarrow>
          if tu_name tu \<in> {lit ''read_file'', lit ''list_directory'', lit ''search_code''} then Some (p, ReadLock)
          else if tu_name tu \<in> {lit ''write_file'', lit ''edit_file'', lit ''patch_file'', lit ''delete_file'',
                              lit ''create_directory''} then Some (p, WriteLock)
          else None)"

definition extract_tool_uses :: "'j message \<Rightarrow> 'j tool_use list" where
  "extract_tool_uses m =
     (case m_content m of
        Blocks bs \<Rightarrow>
          List.map_filter (\<lambda>b. case b of
              ToolUseBlock i n j \<Rightarrow> Some \<lparr>tu_id = i, tu_name = n, tu_input = j\<rparr> | _ \<Rightarrow> None) bs
      | TextContent t \<Rightarrow> [])"

section \<open>Ending\<close>

text \<open>The last steps of every orderly end: status, result message, unregistering, locks.\<close>

definition close_out :: "('w, 'j, 't, 'g, 'f) agent_env \<Rightarrow> rstr \<Rightarrow> bool \<Rightarrow> rstr \<Rightarrow>
    ('w, 'j, 't) agent_run \<Rightarrow> ('w, 'j, 't) agent_run" where
  "close_out A task_id ok t s =
     on_world (fl_release_all (ae_hub A) (ae_id A))
      (on_world (hub_unregister (ae_hub A) (ae_id A))
       (on_world (hub_broadcast (ae_hub A) (ae_id A) (TaskResult task_id ok t))
        (set_agent_status A (if ok then Completed t else Failed t)
         (on_task (if ok then to_complete (ae_task A) t else to_fail (ae_task A) t) s))))"

definition fail_agent :: "('w, 'j, 't, 'g, 'f) agent_env \<Rightarrow> rstr \<Rightarrow> rstr \<Rightarrow> nat \<Rightarrow> ('w, 'j, 't) agent_run \<Rightarrow>
    agent_result \<times> ('w, 'j, 't) agent_run" where
  "fail_agent A task_id err n s =
     (\<lparr>ar_agent_id = ae_id A, ar_task_id = task_id, ar_success = False, ar_summary = err, ar_iterations = n\<rparr>,
      close_out A task_id False err s)"

definition complete_agent :: "('w, 'j, 't, 'g, 'f) agent_env \<Rightarrow> rstr \<Rightarrow> ('w, 'j, 't) agent_run \<Rightarrow>
    agent_result \<times> ('w, 'j, 't) agent_run" where
  "complete_agent A t s =
     (let task_id = to_id (ae_task A) (r_task s); s1 = close_out A task_id True t s in
      (\<lparr>ar_agent_id = ae_id A, ar_task_id = task_id, ar_success = True, ar_summary = t,
        ar_iterations = to_iterations (ae_task A) (r_task s1)\<rparr>, s1))"

definition attempt_validated_completion :: "('w, 'j, 't, 'g, 'f) agent_env \<Rightarrow> rstr \<Rightarrow> ('w, 'j, 't) agent_run \<Rightarrow>
    agent_result option \<times> ('w, 'j, 't) agent_run" where
  "attempt_validated_completion A t s =
     (case ae_validation A of
        None \<Rightarrow> apfst Some (complete_agent A t s)
      | Some v \<Rightarrow>
          if \<not> vc_enabled v then apfst Some (complete_agent A t s)
          else
            (case vc_run v (map (we_path \<circ> snd) (ws_entries (r_working_set s))) (r_world s) of
               (Inr (Some feedback), w1) \<Rightarrow> (None, push (user_text feedback) (s\<lparr>r_world := w1\<rparr>))
             | (Inr None, w1) \<Rightarrow> apfst Some (complete_agent A t (s\<lparr>r_world := w1\<rparr>))
             | (Inl e, w1) \<Rightarrow> apfst Some (complete_agent A t (s\<lparr>r_world := w1\<rparr>))))"


section \<open>Running the tools of a response\<close>

type_synonym checkpoint = "rstr list option"

definition add_to_working_set :: "('w, 'j, 't, 'g, 'f) agent_env \<Rightarrow> 'j tool_use \<Rightarrow> ('w, 'j, 't) agent_run \<Rightarrow> ('w, 'j, 't) agent_run" where
  "add_to_working_set A tu s =
     (if is_file_operation (tu_name tu) then
        (case extract_file_path A tu of
           None \<Rightarrow> s
         | Some p \<Rightarrow>
             let tokens = estimate_tokens_from_size (case ae_file_size A p (r_world s) of Some n \<Rightarrow> n | None \<Rightarrow> 0) in
             s\<lparr>r_working_set := snd (ws_add (ae_shuffle A) p tokens (r_working_set s))\<rparr>)
      else s)"

definition mark_checkpoint :: "('w, 'j, 't, 'g, 'f) agent_env \<Rightarrow> rstr \<Rightarrow> 'j tool_use \<Rightarrow> checkpoint \<Rightarrow>
    ('w, 'j, 't) agent_run \<Rightarrow> checkpoint \<times> ('w, 'j, 't) agent_run" where
  "mark_checkpoint A task_id tu cp s =
     (case ae_store A of
        None \<Rightarrow> (cp, s)
      | Some st \<Rightarrow>
          let effect = \<lparr>se_tool_use_id = tu_id tu, se_tool_name = tu_name tu, se_target = extract_file_path A tu,
                se_reversible = (tu_name tu \<in> {lit ''read_file'', lit ''list_directory'', lit ''search_code'', lit ''glob''})\<rparr> in
          (case cs_mark st task_id (tu_id tu) effect (r_world s) of
             (ok, w1) \<Rightarrow>
               (if ok then Some (tu_id tu # (case cp of Some ids \<Rightarrow> ids | None \<Rightarrow> [])) else cp, s\<lparr>r_world := w1\<rparr>)))"

text \<open>After a tool has returned: record, result message, working set, checkpoint.\<close>

definition settle_tool :: "('w, 'j, 't, 'g, 'f) agent_env \<Rightarrow> rstr \<Rightarrow> 'j tool_use \<Rightarrow> tool_result \<Rightarrow> checkpoint \<Rightarrow>
    ('w, 'j, 't) agent_run \<Rightarrow> checkpoint \<times> ('w, 'j, 't) agent_run" where
  "settle_tool A task_id tu r cp s =
     (let s1 = push (tool_result_message (tr_id r) (tr_content r) (tr_is_error r))
                (on_world (ae_record_call A tu (tr_is_error r)) s) in
      if tr_is_error r then (cp, s1) else mark_checkpoint A task_id tu cp (add_to_working_set A tu s1))"

definition call_tool :: "('w, 'j, 't, 'g, 'f) agent_env \<Rightarrow> rstr \<Rightarrow> 'j tool_context \<Rightarrow> 'j tool_use \<Rightarrow> checkpoint \<Rightarrow>
    ('w, 'j, 't) agent_run \<Rightarrow> ('w, 'j, 't, checkpoint) outcome" where
  "call_tool A task_id ctx tu cp s =
     (case ae_execute A tu ctx (r_world s) of
        None \<Rightarrow> None
      | Some (Inl e, w1) \<Rightarrow> Some (Inl e, s\<lparr>r_world := w1\<rparr>)
      | Some (Inr r, w1) \<Rightarrow> Some (apfst Inr (settle_tool A task_id tu r cp (s\<lparr>r_world := w1\<rparr>))))"

definition run_tool :: "('w, 'j, 't, 'g, 'f) agent_env \<Rightarrow> rstr \<Rightarrow> 'j tool_context \<Rightarrow> 'j tool_use \<Rightarrow> checkpoint \<Rightarrow>
    ('w, 'j, 't) agent_run \<Rightarrow> ('w, 'j, 't, checkpoint) outcome" where
  "run_tool A task_id ctx tu cp s =
     (case get_lock_requirement A tu of
        None \<Rightarrow>
          call_tool A task_id ctx tu cp (set_agent_status A (Working (lit ''Executing '' @ tu_name tu)) s)
      | Some (p, t) \<Rightarrow>
          let s1 = set_agent_status A (WaitingForLock p) s in
          (case fl_acquire (ae_hub A) (ae_id A) p t (r_world s1) of
             (Inr guard, w2) \<Rightarrow>
               map_option (apsnd (on_world (fl_drop (ae_hub A) guard)))
                 (call_tool A task_id ctx tu cp
                   (set_agent_status A (Working (lit ''Executing '' @ tu_name tu)) (s1\<lparr>r_world := w2\<rparr>)))
           | (Inl e, w2) \<Rightarrow>
               Some (Inr cp, push (tool_result_message (tu_id tu) (lit ''Could not acquire file lock: '' @ e) True)
                 (s1\<lparr>r_world := w2\<rparr>))))"

definition already_done :: "checkpoint \<Rightarrow> 'j tool_use \<Rightarrow> bool" where
  "already_done cp tu = (case cp of None \<Rightarrow> False | Some ids \<Rightarrow> tu_id tu \<in> set ids)"

fun run_tools :: "('w, 'j, 't, 'g, 'f) agent_env \<Rightarrow> rstr \<Rightarrow> 'j tool_context \<Rightarrow> 'j tool_use list \<Rightarrow> checkpoint \<Rightarrow>
    ('w, 'j, 't) agent_run \<Rightarrow> ('w, 'j, 't, checkpoint) outcome" where
  "run_tools A task_id ctx [] cp s = Some (Inr cp, s)"
| "run_tools A task_id ctx (tu # tus) cp s =
     (if already_done cp tu then run_tools A task_id ctx tus cp s
      else
        case run_tool A task_id ctx tu cp s of
          None \<Rightarrow> None
        | Some (Inl e, s1) \<Rightarrow> Some (Inl e, s1)
        | Some (Inr cp1, s1) \<Rightarrow> run_tools A task_id ctx tus cp1 s1)"

section \<open>Asking the provider\<close>

definition last_user_query :: "'j message list \<Rightarrow> rstr" where
  "last_user_query h =
     (case find (\<lambda>m. m_role m = UserRole) (rev h) of
        Some m \<Rightarrow> (case m_content m of TextContent t \<Rightarrow> t | Blocks bs \<Rightarrow> [])
      | None \<Rightarrow> [])"

definition call_provider :: "('w, 'j, 't, 'g, 'f) agent_env \<Rightarrow> ('w, 'j, 't) agent_run \<Rightarrow> ('w, 'j, 't, 'j chat_response) outcome" where
  "call_provider A s =
     (let h = r_history s;
          messages = (case ae_messages A of
              None \<Rightarrow> h
            | Some st \<Rightarrow>
                (case ms_enhance st h (last_user_query h) (r_world s) of Some m \<Rightarrow> m | None \<Rightarrow> h)) in
      map_option (apsnd (\<lambda>w. s\<lparr>r_world := w\<rparr>)) (ae_chat A messages (r_world s)))"

text \<open>Text messages that are not blank, with their role, go to the message store.\<close>

definition persistable :: "'j message list \<Rightarrow> (role \<times> rstr) list" where
  "persistable ms =
     List.map_filter (\<lambda>m. case m_content m of
         TextContent t \<Rightarrow> if trim t = [] then None else Some (m_role m, t)
       | Blocks bs \<Rightarrow> None) ms"

definition persist_messages :: "('w, 'j, 't, 'g, 'f) agent_env \<Rightarrow> nat \<Rightarrow> ('w, 'j, 't) agent_run \<Rightarrow> nat \<times> ('w, 'j, 't) agent_run" where
  "persist_messages A seen s =
     (case ae_messages A of
        None \<Rightarrow> (seen, s)
      | Some st \<Rightarrow>
          let new = drop seen (r_history s) in
          if new = [] then (seen, s)
          else
            let batch = persistable new in
            (length (r_history s), if batch = [] then s else on_world (ms_add_batch st batch) s))"

section \<open>Budgets\<close>

definition token_error :: "('w, 'j, 't, 'g, 'f) agent_env \<Rightarrow> 64 word \<Rightarrow> rstr option" where
  "token_error A used =
     (case ae_max_total_tokens A of
        Some limit \<Rightarrow>
          if limit < used then
            Some (lit ''Agent '' @ ae_id A @ lit '' exceeded token budget ('' @ show_nat (unat used) @ lit '' > ''
              @ show_nat (unat limit) @ lit '')'')
          else None
      | None \<Rightarrow> None)"

definition charge_session :: "('w, 'j, 't, 'g, 'f) agent_env \<Rightarrow> 64 word \<Rightarrow> ('w, 'j, 't) agent_run \<Rightarrow>
    rstr option \<times> ('w, 'j, 't) agent_run" where
  "charge_session A tokens s =
     (case ae_session_budget A of
        None \<Rightarrow> (None, s)
      | Some b \<Rightarrow>
          let sb = record_run (bl_ops b) tokens (bl_zero b) (bl_get b (r_world s));
              s1 = on_world (bl_put b sb) s in
          (case check_limits (bl_ops b) sb of
             Inr _ \<Rightarrow> (None, s1)
           | Inl e \<Rightarrow> (Some (lit ''Agent '' @ ae_id A @ lit '' stopped: session budget '' @ [8212] @ lit '' '' @ bl_show b e), s1)))"


section \<open>The loop\<close>

record progress =
  pg_total_tokens :: "64 word"
  pg_checkpoint :: checkpoint
  pg_persisted :: nat

datatype ('w, 'j, 't) step_end =
  Return "rstr + agent_result" "('w, 'j, 't) agent_run"
| Again progress "('w, 'j, 't) agent_run"

definition completion_text :: "('w, 'j, 't, 'g, 'f) agent_env \<Rightarrow> 'j message \<Rightarrow> rstr" where
  "completion_text A m = (case ae_text A m of Some t \<Rightarrow> t | None \<Rightarrow> lit ''Task completed'')"

definition finish :: "('w, 'j, 't, 'g, 'f) agent_env \<Rightarrow> rstr \<Rightarrow> 'j message \<Rightarrow> progress \<Rightarrow> ('w, 'j, 't) agent_run \<Rightarrow>
    ('w, 'j, 't) step_end" where
  "finish A task_id m pg s =
     (case attempt_validated_completion A (completion_text A m) s of
        (Some r, s1) \<Rightarrow>
          Return (Inr r) (case ae_store A of Some st \<Rightarrow> on_world (cs_delete st task_id) s1 | None \<Rightarrow> s1)
      | (None, s1) \<Rightarrow> Again pg s1)"

definition tools_phase :: "('w, 'j, 't, 'g, 'f) agent_env \<Rightarrow> rstr \<Rightarrow> 'j message \<Rightarrow> 'j tool_use list \<Rightarrow> progress \<Rightarrow>
    ('w, 'j, 't) agent_run \<Rightarrow> ('w, 'j, 't) step_end option" where
  "tools_phase A task_id m tus pg s =
     (case run_tools A task_id (ae_tool_context A (r_metadata s)) tus (pg_checkpoint pg) (push m s) of
        None \<Rightarrow> None
      | Some (Inl e, s1) \<Rightarrow> Some (Return (Inl e) s1)
      | Some (Inr cp, s1) \<Rightarrow>
          (case persist_messages A (pg_persisted pg) s1 of
             (n, s2) \<Rightarrow> Some (Again (pg\<lparr>pg_checkpoint := cp, pg_persisted := n\<rparr>) s2)))"

definition after_response :: "('w, 'j, 't, 'g, 'f) agent_env \<Rightarrow> rstr \<Rightarrow> nat \<Rightarrow> progress \<Rightarrow> 'j chat_response \<Rightarrow>
    ('w, 'j, 't) agent_run \<Rightarrow> ('w, 'j, 't) step_end option" where
  "after_response A task_id n pg resp s =
     (let used = pg_total_tokens pg + cr_total_tokens resp; pg1 = pg\<lparr>pg_total_tokens := used\<rparr> in
      case token_error A used of
        Some e \<Rightarrow> Some (case fail_agent A task_id e n s of (r, s1) \<Rightarrow> Return (Inr r) s1)
      | None \<Rightarrow>
          (case charge_session A (cr_total_tokens resp) s of
             (Some e, s1) \<Rightarrow> Some (case fail_agent A task_id e n s1 of (r, s2) \<Rightarrow> Return (Inr r) s2)
           | (None, s1) \<Rightarrow>
               if cr_finish_reason resp \<in> {Some (lit ''end_turn''), Some (lit ''stop'')}
               then Some (finish A task_id (cr_message resp) pg1 s1)
               else
                 let tus = extract_tool_uses (cr_message resp) in
                 if tus = [] then Some (finish A task_id (cr_message resp) pg1 s1)
                 else tools_phase A task_id (cr_message resp) tus pg1 s1))"

definition receive_message :: "('w, 'j, 't, 'g, 'f) agent_env \<Rightarrow> ('w, 'j, 't) agent_run \<Rightarrow> ('w, 'j, 't) agent_run" where
  "receive_message A s =
     (case hub_try_receive (ae_hub A) (ae_id A) (r_world s) of
        (Some (HelpResponse req resp), w1) \<Rightarrow>
          push (user_text (lit ''Response to help request '' @ req @ lit '': '' @ resp)) (s\<lparr>r_world := w1\<rparr>)
      | (_, w1) \<Rightarrow> s\<lparr>r_world := w1\<rparr>)"

definition timed_out :: "('w, 'j, 't, 'g, 'f) agent_env \<Rightarrow> ('w, 'j, 't) agent_run \<Rightarrow> nat option" where
  "timed_out A s =
     (case ae_timeout_secs A of Some t \<Rightarrow> if t \<le> ae_elapsed A (r_world s) then Some t else None | None \<Rightarrow> None)"

text \<open>One turn of the loop; \<open>n\<close> is the iteration counter after its increment.\<close>

definition iteration :: "('w, 'j, 't, 'g, 'f) agent_env \<Rightarrow> rstr \<Rightarrow> nat \<Rightarrow> progress \<Rightarrow> ('w, 'j, 't) agent_run \<Rightarrow>
    ('w, 'j, 't) step_end option" where
  "iteration A task_id n pg s =
     (let s1 = on_task (to_increment (ae_task A)) s in
      case timed_out A s1 of
        Some t \<Rightarrow>
          Some (case fail_agent A task_id (lit ''Agent '' @ ae_id A @ lit '' timed out after '' @ show_nat t @ lit ''s'') n s1 of
              (r, s2) \<Rightarrow> Return (Inr r) s2)
      | None \<Rightarrow>
          if ae_max_iterations A \<le> n then
            Some (case fail_agent A task_id
                (lit ''Agent '' @ ae_id A @ lit '' exceeded maximum iterations ('' @ show_nat (ae_max_iterations A) @ lit '')'')
                n s1 of (r, s2) \<Rightarrow> Return (Inr r) s2)
          else
            (case call_provider A (receive_message A s1) of
               None \<Rightarrow> None
             | Some (Inl e, s2) \<Rightarrow> Some (Return (Inl e) s2)
             | Some (Inr resp, s2) \<Rightarrow> after_response A task_id n pg resp s2))"

lemma iteration_Again: "iteration A task_id n pg s = Some (Again pg1 s1) \<Longrightarrow> n < ae_max_iterations A"
  by (auto simp: iteration_def Let_def fail_agent_def split: option.splits if_splits)

function agent_loop :: "('w, 'j, 't, 'g, 'f) agent_env \<Rightarrow> rstr \<Rightarrow> nat \<Rightarrow> progress \<Rightarrow> ('w, 'j, 't) agent_run \<Rightarrow>
    ('w, 'j, 't, agent_result) outcome" where
  "agent_loop A task_id n pg s =
     (case iteration A task_id (n + 1) pg s of
        None \<Rightarrow> None
      | Some (Return r s1) \<Rightarrow> Some (r, s1)
      | Some (Again pg1 s1) \<Rightarrow> agent_loop A task_id (n + 1) pg1 s1)"
  by pat_completeness auto
termination
  by (relation "measure (\<lambda>(A, task_id, n, pg, s). ae_max_iterations A - n)")
    (auto dest!: iteration_Again)

declare agent_loop.simps [simp del]

definition start_agent :: "('w, 'j, 't, 'g, 'f) agent_env \<Rightarrow> ('w, 'j, 't) agent_run \<Rightarrow> ('w, 'j, 't) agent_run" where
  "start_agent A s =
     (let d = to_description (ae_task A) (r_task s);
          s1 = push (user_text d) (set_agent_status A (Working d) (on_task (to_start (ae_task A)) s)) in
      case ae_session_budget A of
        Some b \<Rightarrow> on_world (\<lambda>w. bl_put b (increment_agent_count (bl_get b w)) w) s1
      | None \<Rightarrow> s1)"

definition load_checkpoint :: "('w, 'j, 't, 'g, 'f) agent_env \<Rightarrow> rstr \<Rightarrow> 'w \<Rightarrow> checkpoint" where
  "load_checkpoint A task_id w = (case ae_store A of Some st \<Rightarrow> cs_load st task_id w | None \<Rightarrow> None)"

definition execute_agent :: "('w, 'j, 't, 'g, 'f) agent_env \<Rightarrow> ('w, 'j, 't) agent_run \<Rightarrow> ('w, 'j, 't, agent_result) outcome" where
  "execute_agent A s =
     (let task_id = to_id (ae_task A) (r_task s);
          s1 = s\<lparr>r_metadata := (r_metadata s)(lit ''trace_id'' \<mapsto> ae_trace_id A (r_world s))\<rparr>;
          (reg, w1) = (if hub_is_registered (ae_hub A) (ae_id A) (r_world s1) then (Inr (), r_world s1)
                       else hub_register (ae_hub A) (ae_id A) (r_world s1)) in
      case reg of
        Inl e \<Rightarrow> Some (Inl e, s1\<lparr>r_world := w1\<rparr>)
      | Inr _ \<Rightarrow>
          let s2 = start_agent A (s1\<lparr>r_world := w1\<rparr>) in
          agent_loop A task_id 0
            \<lparr>pg_total_tokens = 0, pg_checkpoint = load_checkpoint A task_id (r_world s2), pg_persisted = 0\<rparr> s2)"


section \<open>A small agent\<close>

text \<open>An agent whose provider answers with a text and whose tools are those of an executor.\<close>

definition sample_task_ops :: "(nat, nat) task_ops" where
  "sample_task_ops = \<lparr>to_id = \<lambda>t. lit ''t'', to_description = \<lambda>t. lit ''d'', to_start = \<lambda>t. t, to_increment = Suc,
     to_fail = \<lambda>e t. t, to_complete = \<lambda>e t. t, to_iterations = \<lambda>t. t\<rparr>"

definition sample_hub :: "(nat, unit) hub_ops" where
  "sample_hub = \<lparr>hub_is_registered = \<lambda>i w. False, hub_register = \<lambda>i w. (Inr (), Suc w), hub_unregister = \<lambda>i w. Suc w,
     hub_broadcast = \<lambda>i m w. Suc w, hub_try_receive = \<lambda>i w. (None, w), fl_acquire = \<lambda>i p t w. (Inr (), w),
     fl_drop = \<lambda>g w. w, fl_release_all = \<lambda>i w. Suc w\<rparr>"

definition sample_response :: "unit chat_response" where
  "sample_response = \<lparr>cr_message = \<lparr>m_role = AssistantRole, m_content = TextContent (lit ''ok'')\<rparr>,
     cr_finish_reason = Some (lit ''stop''), cr_total_tokens = 7\<rparr>"

definition sample_agent :: "nat \<Rightarrow> (nat, unit, nat, unit, nat) agent_env" where
  "sample_agent limit = \<lparr>ae_id = lit ''a'', ae_task = sample_task_ops, ae_hub = sample_hub, ae_str = \<lambda>j k. None,
     ae_has = \<lambda>j k. False, ae_text = \<lambda>m. Some (lit ''ok''), ae_chat = \<lambda>m w. Some (Inr sample_response, w),
     ae_execute = execute (sample_executor PolicyAllow), ae_tool_context = \<lambda>m. sample_context, ae_elapsed = \<lambda>w. 0,
     ae_trace_id = \<lambda>w. [], ae_record_call = \<lambda>t e w. w, ae_file_size = \<lambda>p w. None, ae_shuffle = \<lambda>es. es,
     ae_store = None, ae_messages = None, ae_max_iterations = limit, ae_timeout_secs = None,
     ae_max_total_tokens = None, ae_session_budget = None, ae_validation = None\<rparr>"

definition sample_run :: "(nat, unit, nat) agent_run" where
  "sample_run = \<lparr>r_status = Idle, r_task = 0, r_history = [], r_metadata = Map.empty, r_working_set = ws_new, r_world = 0\<rparr>"

lemmas sample_agent_defs = sample_agent_def sample_task_ops_def sample_hub_def sample_response_def sample_run_def

lemma sample_executor_returns: "execute (sample_executor PolicyAllow) tu ctx w \<noteq> None"
proof -
  have "locked_call (sample_executor PolicyAllow) tu ctx w \<noteq> None" for w
    by (simp add: locked_call_def hooked_call_def pre_hook_def post_hook_def route_tool_def run_bash_def Let_def
        sample_executor_def sample_tools_def split: prod.splits sum.splits)
  moreover have "request_approval (sample_executor PolicyAllow) tool tu w = Some (Inr Approve, w)" for tool
    by (simp add: request_approval_def sample_executor_def)
  ultimately show ?thesis
    by (auto simp: execute_def approved_call_def is_approved_def split: option.splits) blast
qed

section \<open>The agent ends\<close>

text \<open>The failure results of an iteration carry its counter.\<close>

definition counted :: "nat \<Rightarrow> agent_result \<Rightarrow> bool" where
  "counted n r \<longleftrightarrow> ar_success r \<or> ar_iterations r \<le> n"

lemma fail_agent_counted: "fail_agent A task_id e n s = (r, s1) \<Longrightarrow> n \<le> k \<Longrightarrow> counted k r"
  by (auto simp: fail_agent_def counted_def)

lemma complete_agent_counted [simp]: "counted k (fst (complete_agent A t s))"
  by (simp add: complete_agent_def counted_def Let_def)

lemma attempt_counted:
  assumes "attempt_validated_completion A t s = (Some r, s1)"
  shows "counted k r"
proof -
  have "counted k r" if "apfst Some (complete_agent A t v) = (Some r, s1)" for v
    using that complete_agent_counted [of k A t v] by (cases "complete_agent A t v") simp
  with assms show ?thesis
    by (auto simp: attempt_validated_completion_def split: option.splits sum.splits prod.splits if_splits)
qed

lemma finish_counted: "finish A task_id m pg s = Return (Inr r) s1 \<Longrightarrow> counted k r"
  by (auto simp: finish_def attempt_counted split: prod.splits option.splits)

lemma tools_phase_Return: "tools_phase A task_id m tus pg s \<noteq> Some (Return (Inr r) s1)"
  by (auto simp: tools_phase_def split: option.splits sum.splits prod.splits)

lemma after_response_counted:
  "after_response A task_id n pg resp s = Some (Return (Inr r) s1) \<Longrightarrow> n \<le> k \<Longrightarrow> counted k r"
  by (auto simp: after_response_def Let_def tools_phase_Return finish_counted fail_agent_counted
      split: option.splits prod.splits if_splits)

lemma iteration_counted:
  "iteration A task_id n pg s = Some (Return (Inr r) s1) \<Longrightarrow> n \<le> k \<Longrightarrow> counted k r"
  by (auto simp: iteration_def Let_def after_response_counted fail_agent_counted
      split: option.splits sum.splits prod.splits if_splits)

lemma run_tool_returns:
  assumes "\<And>tu w. ae_execute A tu ctx w \<noteq> None"
  shows "run_tool A task_id ctx tu cp s \<noteq> None"
proof -
  have "call_tool A task_id ctx tu cp s \<noteq> None" for s
    using assms [of tu "r_world s"] by (auto simp: call_tool_def split: option.splits sum.splits)
  then show ?thesis
    by (auto simp: run_tool_def Let_def split: option.splits sum.splits prod.splits)
qed

lemma run_tools_returns:
  assumes "\<And>tu w. ae_execute A tu ctx w \<noteq> None"
  shows "run_tools A task_id ctx tus cp s \<noteq> None"
proof (induction tus arbitrary: cp s)
  case (Cons tu tus)
  then show ?case
    using run_tool_returns [OF assms, where task_id = task_id and tu = tu and cp = cp and s = s]
    by (auto split: option.splits sum.splits prod.splits)
qed simp

lemma call_provider_returns:
  assumes "\<And>m w. ae_chat A m w \<noteq> None"
  shows "call_provider A s \<noteq> None"
  using assms by (auto simp: call_provider_def Let_def)

lemma tools_phase_returns:
  assumes "\<And>tu ctx w. ae_execute A tu ctx w \<noteq> None"
  shows "tools_phase A task_id m tus pg s \<noteq> None"
  using run_tools_returns [OF assms]
  by (auto simp: tools_phase_def split: option.splits sum.splits prod.splits)

lemma after_response_returns:
  assumes "\<And>tu ctx w. ae_execute A tu ctx w \<noteq> None"
  shows "after_response A task_id n pg resp s \<noteq> None"
  using tools_phase_returns [OF assms]
  by (simp add: after_response_def Let_def split: option.splits prod.splits)

lemma iteration_returns:
  assumes "\<And>m w. ae_chat A m w \<noteq> None" and "\<And>tu ctx w. ae_execute A tu ctx w \<noteq> None"
  shows "iteration A task_id n pg s \<noteq> None"
  by (auto simp: iteration_def after_response_returns [OF assms(2), simplified] Let_def split: option.splits sum.splits prod.splits)
    (use call_provider_returns [OF assms(1)] in blast)

lemma agent_loop_returns:
  assumes "\<And>m w. ae_chat A m w \<noteq> None" and "\<And>tu ctx w. ae_execute A tu ctx w \<noteq> None"
    and "n < max 1 (ae_max_iterations A)"
  shows "\<exists>out s1. agent_loop A task_id n pg s = Some (out, s1)
    \<and> (\<forall>r. out = Inr r \<longrightarrow> counted (max 1 (ae_max_iterations A)) r)"
  using assms(3)
proof (induction "ae_max_iterations A - n" arbitrary: n pg s rule: less_induct)
  case less
  obtain e where e: "iteration A task_id (Suc n) pg s = Some e"
    using iteration_returns [OF assms(1,2)] by blast
  show ?case
  proof (cases e)
    case (Return out s1)
    then show ?thesis
      using e less.prems iteration_counted [of A task_id "Suc n" pg s _ s1]
      by (subst agent_loop.simps) auto
  next
    case (Again pg1 s1)
    with e have "Suc n < ae_max_iterations A" by (auto dest: iteration_Again)
    with less.hyps [of "Suc n" pg1 s1] e Again show ?thesis
      by (subst agent_loop.simps) auto
  qed
qed

text \<open>
  C23: The agent always ends. If the provider and the tools always return, so does the agent, within
  its iteration limit: a result that is not a success reports at most \<open>max_iterations\<close> iterations (or
  the first one, when the limit is zero), whatever the model answers, whichever tools it calls and
  however often validation sends it back.
\<close>

theorem agent_always_ends:
  assumes "\<And>m w. ae_chat A m w \<noteq> None" and "\<And>tu ctx w. ae_execute A tu ctx w \<noteq> None"
  shows "\<exists>out s1. execute_agent A s = Some (out, s1)
    \<and> (\<forall>r. out = Inr r \<longrightarrow> ar_success r \<or> ar_iterations r \<le> max 1 (ae_max_iterations A))"
  using agent_loop_returns [OF assms, of 0]
  by (auto simp: execute_agent_def Let_def counted_def split: prod.splits sum.splits)


lemma agent_always_ends_witness:
  "\<exists>out s1. execute_agent (sample_agent 5) sample_run = Some (out, s1)
    \<and> (\<forall>r. out = Inr r \<longrightarrow> ar_success r \<or> ar_iterations r \<le> max 1 (ae_max_iterations (sample_agent 5)))"
  by (rule agent_always_ends) (simp_all add: sample_agent_def sample_executor_returns)

section \<open>Every result is an orderly end\<close>

definition tidied :: "('w, 'j, 't, 'g, 'f) agent_env \<Rightarrow> rstr \<Rightarrow> bool \<Rightarrow> ('w, 'j, 't) agent_run \<Rightarrow> ('w, 'j, 't) agent_run" where
  "tidied A task_id ok s =
     (case ae_store A of Some st \<Rightarrow> if ok then on_world (cs_delete st task_id) s else s | None \<Rightarrow> s)"

text \<open>\<open>s\<close> is the state after the agent closed out with the result \<open>r\<close>.\<close>

definition ended :: "('w, 'j, 't, 'g, 'f) agent_env \<Rightarrow> rstr \<Rightarrow> agent_result \<Rightarrow> ('w, 'j, 't) agent_run \<Rightarrow> bool" where
  "ended A task_id r s \<longleftrightarrow>
     (\<exists>v. s = tidied A task_id (ar_success r)
         (on_world (fl_release_all (ae_hub A) (ae_id A))
           (on_world (hub_unregister (ae_hub A) (ae_id A))
             (on_world (hub_broadcast (ae_hub A) (ae_id A) (TaskResult (ar_task_id r) (ar_success r) (ar_summary r)))
               (set_agent_status A (if ar_success r then Completed (ar_summary r) else Failed (ar_summary r)) v))))
        \<and> ar_agent_id r = ae_id A)"

lemma on_world_status [simp]: "r_status (on_world f s) = r_status s"
  by (simp add: on_world_def)

lemma set_agent_status_status [simp]: "r_status (set_agent_status A st s) = st"
  by (simp add: set_agent_status_def)

lemma tidied_status [simp]: "r_status (tidied A tid ok s) = r_status s"
  by (simp add: tidied_def on_world_def split: option.splits)

lemma ended_fail: "fail_agent A task_id e n v = (r, s1) \<Longrightarrow> ended A task_id r s1"
  by (auto simp: fail_agent_def ended_def close_out_def tidied_def split: option.splits)

lemma attempt_completes:
  assumes "attempt_validated_completion A t s = (Some r, s1)"
  shows "\<exists>v. complete_agent A t v = (r, s1)"
proof -
  have *: "complete_agent A t v = (r, s1)" if "apfst Some (complete_agent A t v) = (Some r, s1)" for v
    using that by (cases "complete_agent A t v") simp
  with assms show ?thesis
    by (auto simp: attempt_validated_completion_def split: option.splits sum.splits prod.splits if_splits)
qed

lemma ended_finish: "finish A task_id m pg s = Return (Inr r) s1 \<Longrightarrow> ended A task_id r s1"
  by (auto simp: finish_def ended_def close_out_def tidied_def complete_agent_def Let_def
      dest!: attempt_completes split: prod.splits option.splits) blast+

lemma ended_after_response:
  "after_response A task_id n pg resp s = Some (Return (Inr r) s1) \<Longrightarrow> ended A task_id r s1"
  by (auto simp: after_response_def Let_def tools_phase_Return ended_finish ended_fail
      split: option.splits prod.splits if_splits)

lemma ended_iteration: "iteration A task_id n pg s = Some (Return (Inr r) s1) \<Longrightarrow> ended A task_id r s1"
  by (auto simp: iteration_def Let_def ended_after_response ended_fail
      split: option.splits sum.splits prod.splits if_splits)

lemma ended_loop: "agent_loop A task_id n pg s = Some (Inr r, s1) \<Longrightarrow> ended A task_id r s1"
proof (induction A task_id n pg s rule: agent_loop.induct)
  case (1 A task_id n pg s)
  then show ?case
    by (subst (asm) (2) agent_loop.simps)
      (auto simp: ended_iteration split: option.splits step_end.splits)
qed

text \<open>
  C2: A result is an orderly end. Whenever the agent returns a result, successful or not, the last
  things it did were, in this order: set its status to completed or failed with the summary of the
  result, broadcast the result, unregister from the hub, and release all its file locks; after a success
  it also deleted its checkpoint.
\<close>

theorem result_is_orderly_end:
  assumes "execute_agent A s = Some (Inr r, s1)"
  shows "ended A (to_id (ae_task A) (r_task s)) r s1
    \<and> r_status s1 = (if ar_success r then Completed (ar_summary r) else Failed (ar_summary r))"
proof -
  from assms have "ended A (to_id (ae_task A) (r_task s)) r s1"
    by (auto simp: execute_agent_def Let_def intro: ended_loop split: prod.splits sum.splits)
  then show ?thesis by (auto simp: ended_def)
qed

lemma sample_agent_succeeds:
  "\<exists>s1. execute_agent (sample_agent 5) sample_run
    = Some (Inr \<lparr>ar_agent_id = lit ''a'', ar_task_id = lit ''t'', ar_success = True, ar_summary = lit ''ok'',
        ar_iterations = 1\<rparr>, s1)"
  unfolding execute_agent_def
  by (subst agent_loop.simps)
    (simp add: sample_agent_defs start_agent_def load_checkpoint_def iteration_def timed_out_def call_provider_def
      receive_message_def after_response_def token_error_def charge_session_def finish_def completion_text_def
      attempt_validated_completion_def complete_agent_def close_out_def set_agent_status_def on_world_def on_task_def push_def
      user_text_def Let_def)

lemma result_is_orderly_end_witness:
  "\<exists>r s1. execute_agent (sample_agent 5) sample_run = Some (Inr r, s1) \<and> ended (sample_agent 5) (lit ''t'') r s1
    \<and> r_status s1 = Completed (lit ''ok'')"
proof -
  obtain s1 where s1: "execute_agent (sample_agent 5) sample_run
    = Some (Inr \<lparr>ar_agent_id = lit ''a'', ar_task_id = lit ''t'', ar_success = True, ar_summary = lit ''ok'',
        ar_iterations = 1\<rparr>, s1)" using sample_agent_succeeds by blast
  from s1 result_is_orderly_end [OF s1] show ?thesis
    by (simp add: sample_agent_def sample_task_ops_def)
qed

section \<open>What ends without an orderly end\<close>

text \<open>
  A tool name the model makes up kills the agent. With the executor of this program, a response
  that first calls an unregistered tool ends the agent with an error; the state is the one right after
  the status update: still working, still registered, the task still in progress, nothing released.
\<close>

theorem unknown_tool_aborts_agent:
  assumes "ae_execute A = execute E" and "x_registry E (tu_name tu) = None"
    and "get_lock_requirement A tu = None" and "\<not> already_done (pg_checkpoint pg) tu"
  shows "tools_phase A task_id m (tu # tus) pg s
    = Some (Return (Inl (lit ''Unknown tool: '' @ tu_name tu))
        (set_agent_status A (Working (lit ''Executing '' @ tu_name tu)) (push m s)))"
  using assms by (simp add: tools_phase_def run_tool_def call_tool_def execute_def)


lemma unknown_tool_aborts_agent_witness:
  "tools_phase (sample_agent 5) (lit ''t'') (cr_message sample_response)
     [\<lparr>tu_id = lit ''1'', tu_name = lit ''x'', tu_input = ()\<rparr>] \<lparr>pg_total_tokens = 0, pg_checkpoint = None, pg_persisted = 0\<rparr> sample_run
   = Some (Return (Inl (lit ''Unknown tool: '' @ tu_name \<lparr>tu_id = lit ''1'', tu_name = lit ''x'', tu_input = ()\<rparr>))
       (set_agent_status (sample_agent 5) (Working (lit ''Executing '' @ tu_name \<lparr>tu_id = lit ''1'', tu_name = lit ''x'', tu_input = ()\<rparr>))
         (push (cr_message sample_response) sample_run)))"
  by (rule unknown_tool_aborts_agent [where E = "sample_executor PolicyAllow"])
    (simp_all add: sample_agent_def sample_executor_def get_lock_requirement_def first_field_def already_done_def lit_def)

section \<open>The iteration limit\<close>

lemma iteration_at_limit:
  assumes "ae_max_iterations A \<le> n"
  shows "\<exists>r s1. iteration A task_id n pg s = Some (Return r s1)
    \<and> iteration (A\<lparr>ae_chat := c\<rparr>) task_id n pg s = Some (Return r s1)"
  using assms
  by (auto simp: iteration_def Let_def timed_out_def fail_agent_def close_out_def set_agent_status_def
      split: option.splits)

text \<open>
  A limit of one iteration never asks the provider. With \<open>max_iterations\<close> at most one the outcome of
  the agent is the same for every provider: the limit is tested before the first call, so a limit of
  \<open>n\<close> allows at most \<open>n - 1\<close> calls.
\<close>

theorem limit_one_never_asks:
  assumes "ae_max_iterations A \<le> 1"
  shows "execute_agent (A\<lparr>ae_chat := c\<rparr>) s = execute_agent A s"
proof -
  have loop: "agent_loop (A\<lparr>ae_chat := c\<rparr>) task_id 0 pg v = agent_loop A task_id 0 pg v" for task_id pg v
    using iteration_at_limit [of A 1 task_id pg v c] assms
    by (subst (1 2) agent_loop.simps) auto
  have start: "start_agent (A\<lparr>ae_chat := c\<rparr>) v = start_agent A v" for v
    by (simp add: start_agent_def set_agent_status_def Let_def cong: option.case_cong)
  have "load_checkpoint (A\<lparr>ae_chat := c\<rparr>) = load_checkpoint A"
    by (simp add: load_checkpoint_def fun_eq_iff)
  with loop start show ?thesis
    by (simp add: execute_agent_def Let_def cong: sum.case_cong prod.case_cong)
qed

lemma limit_one_never_asks_witness:
  "execute_agent ((sample_agent 1)\<lparr>ae_chat := \<lambda>m w. None\<rparr>) sample_run = execute_agent (sample_agent 1) sample_run"
  by (rule limit_one_never_asks) (simp add: sample_agent_def)

section \<open>Tool results\<close>

definition done_ids :: "checkpoint \<Rightarrow> rstr set" where
  "done_ids cp = (case cp of None \<Rightarrow> {} | Some ids \<Rightarrow> set ids)"

lemma already_done_iff: "already_done cp t \<longleftrightarrow> tu_id t \<in> done_ids cp"
  by (simp add: already_done_def done_ids_def split: option.splits)

definition is_tool_result :: "'j message \<Rightarrow> bool" where
  "is_tool_result m \<longleftrightarrow>
     (case m_content m of Blocks [ToolResultBlock i c e] \<Rightarrow> m_role m = UserRole | _ \<Rightarrow> False)"

lemma is_tool_result [simp]: "is_tool_result (tool_result_message i c e)"
  by (simp add: is_tool_result_def tool_result_message_def)

lemma history_on_world [simp]: "r_history (on_world f s) = r_history s"
  by (simp add: on_world_def)

lemma history_set_agent_status [simp]: "r_history (set_agent_status A st s) = r_history s"
  by (simp add: set_agent_status_def)

lemma history_push [simp]: "r_history (push m s) = r_history s @ [m]"
  by (simp add: push_def)

lemma history_add_ws [simp]: "r_history (add_to_working_set A tu s) = r_history s"
  by (simp add: add_to_working_set_def Let_def split: option.splits)

lemma mark_checkpoint_frame:
  "mark_checkpoint A task_id tu cp s = (cp1, s1) \<Longrightarrow>
    r_history s1 = r_history s \<and> (\<forall>i. i \<noteq> tu_id tu \<longrightarrow> i \<in> done_ids cp1 \<longleftrightarrow> i \<in> done_ids cp)"
  by (auto simp: mark_checkpoint_def done_ids_def Let_def split: option.splits prod.splits if_splits)

lemma settle_tool_frame:
  "settle_tool A task_id tu r cp s = (cp1, s1) \<Longrightarrow>
    (\<exists>m. is_tool_result m \<and> r_history s1 = r_history s @ [m])
    \<and> (\<forall>i. i \<noteq> tu_id tu \<longrightarrow> i \<in> done_ids cp1 \<longleftrightarrow> i \<in> done_ids cp)"
  by (auto simp: settle_tool_def Let_def split: if_splits dest!: mark_checkpoint_frame)

lemma call_tool_frame:
  "call_tool A task_id ctx tu cp s = Some (Inr cp1, s1) \<Longrightarrow>
    (\<exists>m. is_tool_result m \<and> r_history s1 = r_history s @ [m])
    \<and> (\<forall>i. i \<noteq> tu_id tu \<longrightarrow> i \<in> done_ids cp1 \<longleftrightarrow> i \<in> done_ids cp)"
  by (auto simp: call_tool_def apfst_def map_prod_def split: option.splits sum.splits prod.splits
      dest!: settle_tool_frame)

lemma run_tool_frame:
  "run_tool A task_id ctx tu cp s = Some (Inr cp1, s1) \<Longrightarrow>
    (\<exists>m. is_tool_result m \<and> r_history s1 = r_history s @ [m])
    \<and> (\<forall>i. i \<noteq> tu_id tu \<longrightarrow> i \<in> done_ids cp1 \<longleftrightarrow> i \<in> done_ids cp)"
  by (auto simp: run_tool_def Let_def split: option.splits sum.splits prod.splits dest!: call_tool_frame)


definition resumed_agent :: "(nat, unit, nat, unit, nat) agent_env" where
  "resumed_agent = (sample_agent 5)
     \<lparr>ae_execute := \<lambda>tu ctx w. Some (Inr \<lparr>tr_id = tu_id tu, tr_content = [], tr_is_error = False\<rparr>, w)\<rparr>"

definition named_call :: "nat \<Rightarrow> unit tool_use" where
  "named_call n = \<lparr>tu_id = [n], tu_name = lit ''x'', tu_input = ()\<rparr>"

lemma resumed_run:
  "\<exists>s1. run_tools resumed_agent [] sample_context [named_call 1, named_call 2] (Some [[1]]) sample_run = Some (Inr (Some [[1]]), s1)"
  by (simp add: already_done_def run_tool_def call_tool_def get_lock_requirement_def first_field_def settle_tool_def
      mark_checkpoint_def resumed_agent_def sample_agent_def named_call_def)


section \<open>What the session pays\<close>

text \<open>
  The session is never charged any cost. Charging a provider call adds its tokens to the shared
  budget and zero dollars: with a conversion that maps zero to zero, the recorded cost never changes,
  so the cost limit of the session cannot stop an agent.
\<close>

theorem session_cost_never_charged:
  assumes "ae_session_budget A = Some b" and "to_microcents (bl_ops b) (bl_zero b) = 0"
    and "\<And>x w. bl_get b (bl_put b x w) = x"
  shows "cost_used_microcents (bl_get b (r_world (snd (charge_session A tokens s))))
      = cost_used_microcents (bl_get b (r_world s))
    \<and> tokens_used (bl_get b (r_world (snd (charge_session A tokens s))))
      = tokens_used (bl_get b (r_world s)) + tokens"
  using assms by (simp add: charge_session_def Let_def on_world_def record_run_def split: sum.splits)


definition sample_budget :: "(nat session_budget, nat) shared_budget" where
  "sample_budget = \<lparr>bl_get = \<lambda>w. w, bl_put = \<lambda>x w. x,
     bl_ops = \<lparr>to_microcents = \<lambda>n. of_nat n, to_usd = unat, fge = \<lambda>a b. a \<ge> b, fgt = \<lambda>a b. a > b\<rparr>,
     bl_zero = 0, bl_show = \<lambda>e. []\<rparr>"

lemma session_cost_never_charged_witness:
  "\<forall>A :: (nat session_budget, unit, nat, unit, nat) agent_env. \<forall>s.
     let B = A\<lparr>ae_session_budget := Some sample_budget\<rparr> in
     cost_used_microcents (bl_get sample_budget (r_world (snd (charge_session B 9 s))))
      = cost_used_microcents (bl_get sample_budget (r_world s))
    \<and> tokens_used (bl_get sample_budget (r_world (snd (charge_session B 9 s))))
      = tokens_used (bl_get sample_budget (r_world s)) + 9"
  unfolding Let_def by (intro allI session_cost_never_charged) (simp_all add: sample_budget_def)

end
