(* ===== verification/AgentSession.thy ===== *)
theory AgentSession
  imports MessageQueue TaskAgent
begin

text \<open>
  The state of the background agent and its plan mode: \<^verbatim>\<open>agent/state.rs\<close>, \<^verbatim>\<open>agent/plan_mode.rs\<close>,
  \<^verbatim>\<open>types/plan_mode.rs\<close> and the queries of \<^verbatim>\<open>plan_mode_store.rs\<close> (all under \<^verbatim>\<open>apps/cli/src\<close>). What an
  operation sends on the broadcast channel is appended to \<open>as_sent\<close>. Clock, identifiers, correction
  detection, learning, SEAL, the provider's stream, the database table and the MCP client are
  parameters over the world \<open>as_world\<close>. The database's filter strings are the constructors of
  \<open>plan_filter\<close>, its rows plan states (\<^verbatim>\<open>serde\<close> encodes them). A slice off a character boundary is the
  ending \<open>Panics\<close>; a stream that never ends makes the run \<open>None\<close>.
\<close>

section \<open>Endings\<close>

datatype 'a ending = Returns 'a | Fails rstr | Panics

fun run_then :: "'a ending \<times> 's \<Rightarrow> ('a \<Rightarrow> 's \<Rightarrow> 'b ending \<times> 's) \<Rightarrow> 'b ending \<times> 's" where
  "run_then (Returns x, s) k = k x s"
| "run_then (Fails e, s) k = (Fails e, s)"
| "run_then (Panics, s) k = (Panics, s)"

lemma run_then_Returns:
  "run_then x k = (Returns y, s') \<longleftrightarrow> (\<exists>a s1. x = (Returns a, s1) \<and> k a s1 = (Returns y, s'))"
  by (cases x; cases "fst x") auto

section \<open>Plan mode state\<close>

record display_message =
  dm_role :: rstr
  dm_content :: rstr
  dm_created_at :: int

definition dm_new :: "rstr \<Rightarrow> rstr \<Rightarrow> int \<Rightarrow> display_message" where
  "dm_new r c t = \<lparr>dm_role = r, dm_content = c, dm_created_at = t\<rparr>"

record 'j plan_state =
  ps_plan_session_id :: rstr
  ps_main_session_id :: rstr
  ps_messages :: "display_message list"
  ps_history :: "'j message list"
  ps_started_at :: int
  ps_updated_at :: int
  ps_focus :: "rstr option"
  ps_active :: bool

definition ps_new :: "rstr \<Rightarrow> int \<Rightarrow> rstr \<Rightarrow> rstr option \<Rightarrow> 'j plan_state" where
  "ps_new uuid now main_session_id focus =
     \<lparr>ps_plan_session_id = lit ''plan-'' @ uuid, ps_main_session_id = main_session_id, ps_messages = [],
      ps_history = [], ps_started_at = now, ps_updated_at = now, ps_focus = focus, ps_active = True\<rparr>"

definition ps_touch :: "int \<Rightarrow> 'j plan_state \<Rightarrow> 'j plan_state" where
  "ps_touch now p = p\<lparr>ps_updated_at := now\<rparr>"

definition ps_add_message :: "int \<Rightarrow> display_message \<Rightarrow> 'j plan_state \<Rightarrow> 'j plan_state" where
  "ps_add_message now m p = ps_touch now (p\<lparr>ps_messages := ps_messages p @ [m]\<rparr>)"

definition ps_add_to_history :: "int \<Rightarrow> 'j message \<Rightarrow> 'j plan_state \<Rightarrow> 'j plan_state" where
  "ps_add_to_history now m p = ps_touch now (p\<lparr>ps_history := ps_history p @ [m]\<rparr>)"

definition ps_clear :: "int \<Rightarrow> 'j plan_state \<Rightarrow> 'j plan_state" where
  "ps_clear now p = ps_touch now (p\<lparr>ps_messages := [], ps_history := []\<rparr>)"

definition ps_message_count :: "'j plan_state \<Rightarrow> nat" where
  "ps_message_count p = length (ps_messages p)"

definition ps_deactivate :: "int \<Rightarrow> 'j plan_state \<Rightarrow> 'j plan_state" where
  "ps_deactivate now p = ps_touch now (p\<lparr>ps_active := False\<rparr>)"

definition ps_activate :: "int \<Rightarrow> 'j plan_state \<Rightarrow> 'j plan_state" where
  "ps_activate now p = ps_touch now (p\<lparr>ps_active := True\<rparr>)"

record 'j saved_context =
  sc_messages :: "display_message list"
  sc_history :: "'j message list"
  sc_scroll :: "16 word"
  sc_status :: rstr

section \<open>The store of plan mode sessions\<close>

datatype plan_filter = ByPlanSession rstr | ByMainSession rstr | ActiveOfMain rstr

fun matches_filter :: "plan_filter \<Rightarrow> 'j plan_state \<Rightarrow> bool" where
  "matches_filter (ByPlanSession i) p \<longleftrightarrow> ps_plan_session_id p = i"
| "matches_filter (ByMainSession i) p \<longleftrightarrow> ps_main_session_id p = i"
| "matches_filter (ActiveOfMain i) p \<longleftrightarrow> ps_main_session_id p = i \<and> ps_active p"

record ('w, 'j) plan_table =
  pt_open :: "'w \<Rightarrow> (rstr + unit) \<times> 'w"
  pt_query :: "plan_filter \<Rightarrow> 'w \<Rightarrow> (rstr + 'j plan_state list) \<times> 'w"
  pt_list :: "nat \<Rightarrow> 'w \<Rightarrow> (rstr + 'j plan_state list) \<times> 'w"
  pt_add :: "'j plan_state \<Rightarrow> 'w \<Rightarrow> (rstr + unit) \<times> 'w"
  pt_delete :: "plan_filter \<Rightarrow> 'w \<Rightarrow> (rstr + unit) \<times> 'w"

definition db_then :: "('e + 'a) \<times> 'w \<Rightarrow> ('a \<Rightarrow> 'w \<Rightarrow> ('e + 'b) \<times> 'w) \<Rightarrow> ('e + 'b) \<times> 'w" where
  "db_then r k = (case r of (Inl e, w) \<Rightarrow> (Inl e, w) | (Inr x, w) \<Rightarrow> k x w)"

definition pm_delete :: "('w, 'j) plan_table \<Rightarrow> rstr \<Rightarrow> 'w \<Rightarrow> (rstr + unit) \<times> 'w" where
  "pm_delete T i w = db_then (pt_open T w) (\<lambda>_. pt_delete T (ByPlanSession i))"

definition pm_delete_by_main_session :: "('w, 'j) plan_table \<Rightarrow> rstr \<Rightarrow> 'w \<Rightarrow> (rstr + unit) \<times> 'w" where
  "pm_delete_by_main_session T i w = db_then (pt_open T w) (\<lambda>_. pt_delete T (ByMainSession i))"

text \<open>Saving deletes the row of the same identifier first; its error is dropped.\<close>

definition pm_save :: "('w, 'j) plan_table \<Rightarrow> 'j plan_state \<Rightarrow> 'w \<Rightarrow> (rstr + unit) \<times> 'w" where
  "pm_save T p w = db_then (pt_open T (snd (pm_delete T (ps_plan_session_id p) w))) (\<lambda>_. pt_add T p)"

definition head_row :: "'a list \<Rightarrow> 'a option" where
  "head_row xs = (case xs of [] \<Rightarrow> None | x # _ \<Rightarrow> Some x)"

definition newest_first :: "'j plan_state list \<Rightarrow> 'j plan_state list" where
  "newest_first = sort_key (\<lambda>p. - ps_updated_at p)"

definition pm_get :: "('w, 'j) plan_table \<Rightarrow> rstr \<Rightarrow> 'w \<Rightarrow> (rstr + 'j plan_state option) \<times> 'w" where
  "pm_get T i w =
     db_then (pt_open T w) (\<lambda>_ w1. db_then (pt_query T (ByPlanSession i) w1) (\<lambda>ps w2. (Inr (head_row ps), w2)))"

definition pm_get_by_main_session :: "('w, 'j) plan_table \<Rightarrow> rstr \<Rightarrow> 'w \<Rightarrow> (rstr + 'j plan_state option) \<times> 'w" where
  "pm_get_by_main_session T i w =
     db_then (pt_open T w) (\<lambda>_ w1.
       db_then (pt_query T (ActiveOfMain i) w1) (\<lambda>ps w2. (Inr (head_row (newest_first ps)), w2)))"

definition pm_list :: "('w, 'j) plan_table \<Rightarrow> nat option \<Rightarrow> 'w \<Rightarrow> (rstr + 'j plan_state list) \<times> 'w" where
  "pm_list T limit w =
     db_then (pt_open T w) (\<lambda>_ w1.
       db_then (pt_list T (case limit of Some n \<Rightarrow> n | None \<Rightarrow> 100) w1) (\<lambda>ps w2. (Inr (newest_first ps), w2)))"

section \<open>The session\<close>

text \<open>What goes out on the broadcast channel; \<open>'m\<close> is the framework's tool mode, \<open>'j\<close> JSON.\<close>

datatype parent_signal = ParentExiting | Shutdown | Detached

record lock_info =
  li_agent_id :: rstr
  li_resource_type :: rstr
  li_scope :: rstr
  li_description :: rstr
  li_status :: rstr
  li_held_for_secs :: nat

datatype lock_change = LockAcquired | LockFreed

datatype ('j, 'm) ipc_message =
  Ack rstr
| MessageAdded display_message
| StatusUpdated rstr
| ErrorSent rstr bool
| StreamChunk rstr
| StreamEnd "rstr option"
| ToolCallStart rstr rstr "rstr option" 'j
| ToolResultSent rstr rstr "rstr option" "rstr option"
| ConversationSync rstr rstr "display_message list" rstr bool 'm "rstr list"
| TaskUpdate rstr nat nat
| SealStatus bool nat
| SlashCommandResult rstr bool "rstr option" "rstr option" "rstr option" bool
| LockChanged lock_change lock_info
| LockResult bool rstr rstr "rstr option" "rstr option"
| LockReleased rstr rstr
| LockStatus "lock_info list"
| AgentList "rstr list"
| AgentSpawned rstr rstr rstr rstr
| AgentExiting rstr rstr "rstr list"
| ParentSignalReceived parent_signal rstr
| PlanModeEntered rstr "display_message list" rstr
| PlanModeExited "rstr option"
| PlanModeSync rstr rstr "display_message list" rstr bool
| PlanModeMessageAdded display_message
| PlanModeStreamChunk rstr
| PlanModeStreamEnd "rstr option"

record ('w, 'j, 'm) session =
  as_session_id :: rstr
  as_messages :: "display_message list"
  as_history :: "'j message list"
  as_status :: rstr
  as_model :: rstr
  as_task_tree :: rstr
  as_task_count :: nat
  as_tools :: "tool_def list"
  as_mcp_tools :: "tool_def list"
  as_mcp_servers :: "rstr list"
  as_working_directory :: rstr
  as_tool_mode :: 'm
  as_cancellation_token :: "nat option"
  as_is_busy :: bool
  as_exit_when_done :: bool
  as_has_pending_request :: bool
  as_seal_enabled :: bool
  as_queue :: message_queue
  as_plan :: "'j plan_state option"
  as_saved :: "'j saved_context option"
  as_is_plan_mode :: bool
  as_sent :: "('j, 'm) ipc_message list"
  as_world :: 'w

datatype 'j chunk = ChunkText rstr | ChunkToolCall rstr rstr rstr 'j | ChunkDone | ChunkOther

record ('w, 'j, 'st, 'tr) session_env =
  sv_now_ms :: "'w \<Rightarrow> int"
  sv_now :: "'w \<Rightarrow> int"
  sv_fresh :: "'w \<Rightarrow> rstr \<times> 'w"
  sv_info :: bool
  sv_to_lower :: "rstr \<Rightarrow> rstr"
  sv_text :: "'j message \<Rightarrow> rstr option"
  sv_detect :: "rstr \<Rightarrow> (rstr \<times> rstr) option"
  sv_record_correction :: "rstr \<Rightarrow> rstr \<Rightarrow> rstr \<Rightarrow> 'w \<Rightarrow> 'w"
  sv_record_outcome :: "rstr \<Rightarrow> rstr \<Rightarrow> bool \<Rightarrow> rstr option \<Rightarrow> nat \<Rightarrow> 'w \<Rightarrow> 'w"
  sv_signals :: "'w \<Rightarrow> 'tr list \<times> 'w"
  sv_add_truth :: "('tr \<Rightarrow> 'w \<Rightarrow> 'w) option"
  sv_note_entities :: "rstr \<Rightarrow> 'w \<Rightarrow> 'w"
  sv_seal :: "(rstr \<Rightarrow> 'w \<Rightarrow> (rstr + rstr) \<times> 'w) option"
  sv_entity_count :: "'w \<Rightarrow> nat"
  sv_task_tree :: "'w \<Rightarrow> rstr \<times> nat"
  sv_open :: "'j message list \<Rightarrow> tool_def list \<Rightarrow> rstr option \<Rightarrow> 'w \<Rightarrow> 'st \<times> 'w"
  sv_next :: "'st \<Rightarrow> 'w \<Rightarrow> ((rstr + 'j chunk) option \<times> 'st \<times> 'w) option"
  sv_connect_db :: "'w \<Rightarrow> (rstr + unit) \<times> 'w"
  sv_table :: "('w, 'j) plan_table"
  sv_mcp_servers :: "'w \<Rightarrow> rstr + rstr list"
  sv_mcp_connect :: "rstr \<Rightarrow> 'w \<Rightarrow> (rstr + unit) \<times> 'w"
  sv_mcp_list :: "rstr \<Rightarrow> 'w \<Rightarrow> (rstr + nat) \<times> 'w"
  sv_mcp_tools :: "rstr \<Rightarrow> 'w \<Rightarrow> (rstr + tool_def list) \<times> 'w"

definition sending :: "('j, 'm) ipc_message \<Rightarrow> ('w, 'j, 'm) session \<Rightarrow> ('w, 'j, 'm) session" where
  "sending m s = s\<lparr>as_sent := as_sent s @ [m]\<rparr>"

definition in_world :: "('w \<Rightarrow> 'w) \<Rightarrow> ('w, 'j, 'm) session \<Rightarrow> ('w, 'j, 'm) session" where
  "in_world f s = s\<lparr>as_world := f (as_world s)\<rparr>"

definition assistant_text :: "rstr \<Rightarrow> 'j message" where
  "assistant_text t = \<lparr>m_role = AssistantRole, m_content = TextContent t\<rparr>"

definition system_prompt_message :: "rstr \<Rightarrow> 'j message" where
  "system_prompt_message t = \<lparr>m_role = SystemRole, m_content = TextContent t\<rparr>"

section \<open>Starting\<close>

text \<open>The stored messages of a session: what is shown, what the provider sees, and whether a request waits.\<close>

definition stored_role :: "rstr \<Rightarrow> role option" where
  "stored_role r =
     (if r = lit ''user'' then Some UserRole else if r = lit ''assistant'' then Some AssistantRole else None)"

definition load_stored :: "display_message list \<Rightarrow> 'j message list \<Rightarrow> display_message list \<times> 'j message list \<times> bool" where
  "load_stored stored history =
     (stored,
      history @ List.map_filter (\<lambda>d. map_option
          (\<lambda>r. \<lparr>m_role = r, m_content = TextContent (dm_content d)\<rparr>) (stored_role (dm_role d))) stored,
      stored \<noteq> [] \<and> dm_role (last stored) = lit ''user'')"

definition session_new :: "rstr \<Rightarrow> rstr \<Rightarrow> rstr \<Rightarrow> tool_def list \<Rightarrow> rstr \<Rightarrow> 'm \<Rightarrow> bool \<Rightarrow> message_queue \<Rightarrow>
    display_message list \<Rightarrow> 'w \<Rightarrow> ('w, 'j, 'm) session" where
  "session_new sid model prompt tools cwd mode seal q stored w =
     (case load_stored stored [system_prompt_message prompt] of
        (messages, history, pending) \<Rightarrow>
          \<lparr>as_session_id = sid, as_messages = messages, as_history = history,
           as_status = lit ''Ready - Model: '' @ model, as_model = model, as_task_tree = lit ''No tasks'',
           as_task_count = 0, as_tools = tools, as_mcp_tools = [], as_mcp_servers = [],
           as_working_directory = cwd, as_tool_mode = mode, as_cancellation_token = None, as_is_busy = False,
           as_exit_when_done = False, as_has_pending_request = pending, as_seal_enabled = seal, as_queue = q,
           as_plan = None, as_saved = None, as_is_plan_mode = False, as_sent = [], as_world = w\<rparr>)"

text \<open>One server after the other: a server counts as connected once its tools are converted.\<close>

fun mcp_loop :: "('w, 'j, 'st, 'tr) session_env \<Rightarrow> rstr list \<Rightarrow> ('w, 'j, 'm) session \<Rightarrow> ('w, 'j, 'm) session" where
  "mcp_loop V [] s = s"
| "mcp_loop V (n # ns) s =
     (case sv_mcp_connect V n (as_world s) of
        (Inl e, w1) \<Rightarrow> mcp_loop V ns (s\<lparr>as_world := w1\<rparr>)
      | (Inr _, w1) \<Rightarrow>
          (case sv_mcp_list V n w1 of
             (Inl e, w2) \<Rightarrow> mcp_loop V ns (s\<lparr>as_world := w2\<rparr>)
           | (Inr _, w2) \<Rightarrow>
               (case sv_mcp_tools V n w2 of
                  (Inl e, w3) \<Rightarrow> mcp_loop V ns (s\<lparr>as_world := w3\<rparr>)
                | (Inr ts, w3) \<Rightarrow>
                    mcp_loop V ns (s\<lparr>as_world := w3, as_mcp_tools := as_mcp_tools s @ ts,
                      as_mcp_servers := as_mcp_servers s @ [n]\<rparr>))))"

definition initialize_mcp :: "('w, 'j, 'st, 'tr) session_env \<Rightarrow> ('w, 'j, 'm) session \<Rightarrow> ('w, 'j, 'm) session" where
  "initialize_mcp V s = (case sv_mcp_servers V (as_world s) of Inl e \<Rightarrow> s | Inr ns \<Rightarrow> mcp_loop V ns s)"

section \<open>Messages and learning\<close>

definition process_learning_signals :: "('w, 'j, 'st, 'tr) session_env \<Rightarrow> 'w \<Rightarrow> 'w" where
  "process_learning_signals V w =
     (case sv_signals V w of
        (truths, w1) \<Rightarrow> (case sv_add_truth V of None \<Rightarrow> w1 | Some add \<Rightarrow> fold add truths w1))"

definition record_tool_outcome :: "('w, 'j, 'st, 'tr) session_env \<Rightarrow> rstr \<Rightarrow> rstr \<Rightarrow> bool \<Rightarrow> rstr option \<Rightarrow>
    ('w, 'j, 'm) session \<Rightarrow> ('w, 'j, 'm) session" where
  "record_tool_outcome V name command success err s =
     in_world (\<lambda>w. let w1 = sv_record_outcome V name command success err 0 w in
         if success then w1 else process_learning_signals V w1) s"

text \<open>The last answer is cut at byte 100; with info logging both halves of the correction at byte 30.\<close>

definition analyze_for_corrections :: "('w, 'j, 'st, 'tr) session_env \<Rightarrow> rstr \<Rightarrow> ('w, 'j, 'm) session \<Rightarrow>
    unit ending \<times> ('w, 'j, 'm) session" where
  "analyze_for_corrections V t s =
     (let last_assistant = (case find (\<lambda>m. dm_role m = lit ''assistant'') (rev (as_messages s)) of
              Some m \<Rightarrow> dm_content m | None \<Rightarrow> []) in
      case sv_detect V t of
        None \<Rightarrow> (Returns (), s)
      | Some (wrong, right) \<Rightarrow>
          (case (if 100 < blen last_assistant then map_option fst (split_byte 100 last_assistant)
                 else Some last_assistant) of
             None \<Rightarrow> (Panics, s)
           | Some context \<Rightarrow>
               let s1 = in_world (sv_record_correction V context wrong right) s in
               if sv_info V \<and> \<not> (on_boundary wrong (min (blen wrong) 30) \<and> on_boundary right (min (blen right) 30))
               then (Panics, s1)
               else (Returns (), in_world (process_learning_signals V) s1)))"

definition add_user_message :: "('w, 'j, 'st, 'tr) session_env \<Rightarrow> rstr \<Rightarrow> ('w, 'j, 'm) session \<Rightarrow>
    unit ending \<times> ('w, 'j, 'm) session" where
  "add_user_message V t s =
     (let now = sv_now_ms V (as_world s) in
      run_then (analyze_for_corrections V t s) (\<lambda>_ s1.
        (Returns (), s1\<lparr>as_messages := as_messages s1 @ [dm_new (lit ''user'') t now],
                       as_history := as_history s1 @ [user_text t]\<rparr>)))"

definition add_assistant_message :: "('w, 'j, 'st, 'tr) session_env \<Rightarrow> rstr \<Rightarrow> ('w, 'j, 'm) session \<Rightarrow>
    ('w, 'j, 'm) session" where
  "add_assistant_message V t s =
     s\<lparr>as_messages := as_messages s @ [dm_new (lit ''assistant'') t (sv_now_ms V (as_world s))],
       as_history := as_history s @ [assistant_text t]\<rparr>"

definition seal_preprocess :: "('w, 'j, 'st, 'tr) session_env \<Rightarrow> rstr \<Rightarrow> ('w, 'j, 'm) session \<Rightarrow>
    rstr \<times> ('w, 'j, 'm) session" where
  "seal_preprocess V t s =
     (let s1 = in_world (sv_note_entities V t) s in
      case sv_seal V of
        None \<Rightarrow> (t, s1)
      | Some process \<Rightarrow>
          (case process t (as_world s1) of
             (Inl e, w2) \<Rightarrow> (t, s1\<lparr>as_world := w2\<rparr>)
           | (Inr resolved, w2) \<Rightarrow> (resolved, s1\<lparr>as_world := w2\<rparr>)))"

definition update_task_cache :: "('w, 'j, 'st, 'tr) session_env \<Rightarrow> ('w, 'j, 'm) session \<Rightarrow> ('w, 'j, 'm) session" where
  "update_task_cache V s =
     (case sv_task_tree V (as_world s) of (tree, n) \<Rightarrow> s\<lparr>as_task_tree := tree, as_task_count := n\<rparr>)"

section \<open>Messages for a viewer\<close>

definition create_sync_message :: "('w, 'j, 'm) session \<Rightarrow> ('j, 'm) ipc_message" where
  "create_sync_message s =
     ConversationSync (as_session_id s) (as_model s) (as_messages s) (as_status s) (as_is_busy s) (as_tool_mode s)
       (as_mcp_servers s)"

text \<open>\<open>10003\<close> is the check mark.\<close>

definition create_task_update_message :: "('w, 'j, 'm) session \<Rightarrow> ('j, 'm) ipc_message" where
  "create_task_update_message s =
     TaskUpdate (as_task_tree s) (as_task_count s)
       (length (filter (\<lambda>l. str_contains l [10003]) (str_lines (as_task_tree s))))"

definition get_seal_status :: "('w, 'j, 'st, 'tr) session_env \<Rightarrow> ('w, 'j, 'm) session \<Rightarrow> ('j, 'm) ipc_message" where
  "get_seal_status V s = SealStatus (as_seal_enabled s) (sv_entity_count V (as_world s))"

section \<open>Plan mode\<close>

definition plan_mode_prompt :: "rstr \<Rightarrow> rstr" where
  "plan_mode_prompt focus = join [10]
     [lit ''You are in PLAN MODE - an isolated planning context.'', [],
      lit ''## Your Role'', lit ''You are a planning assistant focused on: '' @ focus, [],
      lit ''## Guidelines'',
      lit ''1. **Research & Explore**: Use read-only tools to understand the codebase and gather information.'',
      lit ''2. **No Modifications**: Do NOT create, edit, or delete files. Only read and search.'',
      lit ''3. **Think Through**: Consider multiple approaches and their trade-offs.'',
      lit ''4. **Document Your Plan**: Create a clear, actionable plan with:'',
      lit ''   - Summary of what needs to be done'', lit ''   - Key files that will be affected'',
      lit ''   - Step-by-step implementation approach'', lit ''   - Potential risks or considerations'', [],
      lit ''## Available Actions'', lit ''- Read files to understand existing code'',
      lit ''- Search for patterns and implementations'', lit ''- Ask clarifying questions'',
      lit ''- Propose implementation approaches'', [],
      lit ''## Output Format'',
      lit ''When you have a plan ready, format it clearly with headers and bullet points.'',
      lit ''The plan should be concrete enough that it can be directly executed.'', [],
      lit ''Remember: This is a PLANNING context. Your research and exploration here is isolated'',
      lit ''from the main conversation. Only the final plan will be shared with the main context.'']"

definition build_plan_mode_system_prompt :: "('w, 'j, 'm) session \<Rightarrow> rstr" where
  "build_plan_mode_system_prompt s =
     plan_mode_prompt (case Option.bind (as_plan s) ps_focus of Some f \<Rightarrow> f | None \<Rightarrow> lit ''the task at hand'')"

definition plan_tool_names :: "rstr list" where
  "plan_tool_names =
     [lit ''read_file'', lit ''list_directory'', lit ''search_files'', lit ''grep'', lit ''find_files'',
      lit ''get_file_info'', lit ''tree'', lit ''cat'', lit ''head'', lit ''tail'']"

definition get_plan_mode_tools :: "('w, 'j, 'st, 'tr) session_env \<Rightarrow> ('w, 'j, 'm) session \<Rightarrow> tool_def list" where
  "get_plan_mode_tools V s =
     filter (\<lambda>t. list_ex (\<lambda>n. str_contains (sv_to_lower V (td_name t)) n) plan_tool_names) (as_tools s)"

definition build_plan_mode_conversation_history :: "('w, 'j, 'm) session \<Rightarrow> 'j plan_state \<Rightarrow> 'j message list" where
  "build_plan_mode_conversation_history s p =
     system_prompt_message (build_plan_mode_system_prompt s) # ps_history p"

definition plan_status :: "rstr option \<Rightarrow> rstr" where
  "plan_status focus =
     lit ''Plan Mode - Focus: '' @ (case focus of Some f \<Rightarrow> f | None \<Rightarrow> lit ''general planning'')"

definition save_main_context :: "('w, 'j, 'm) session \<Rightarrow> ('w, 'j, 'm) session" where
  "save_main_context s =
     s\<lparr>as_saved := Some \<lparr>sc_messages = as_messages s, sc_history = as_history s, sc_scroll = 0,
                         sc_status = as_status s\<rparr>\<rparr>"

text \<open>The stored plan that is active, made active with the focus asked for, or a new one.\<close>

definition plan_to_enter :: "('w, 'j, 'st, 'tr) session_env \<Rightarrow> rstr \<Rightarrow> rstr option \<Rightarrow> 'w \<Rightarrow> 'j plan_state \<times> 'w" where
  "plan_to_enter V sid focus w =
     (case pm_get_by_main_session (sv_table V) sid w of
        (Inr (Some p), w1) \<Rightarrow>
          ((ps_activate (sv_now V w1) p)\<lparr>ps_focus := (case focus of Some f \<Rightarrow> Some f | None \<Rightarrow> ps_focus p)\<rparr>, w1)
      | (_, w1) \<Rightarrow> (case sv_fresh V w1 of (uuid, w2) \<Rightarrow> (ps_new uuid (sv_now V w2) sid focus, w2)))"

definition enter_plan_mode :: "('w, 'j, 'st, 'tr) session_env \<Rightarrow> rstr option \<Rightarrow> ('w, 'j, 'm) session \<Rightarrow>
    ('j, 'm) ipc_message ending \<times> ('w, 'j, 'm) session" where
  "enter_plan_mode V focus s =
     (if as_is_plan_mode s then (Returns (ErrorSent (lit ''Already in plan mode'') False), s)
      else
        let s1 = save_main_context s in
        case sv_connect_db V (as_world s1) of
          (Inl e, w1) \<Rightarrow> (Fails e, s1\<lparr>as_world := w1\<rparr>)
        | (Inr _, w1) \<Rightarrow>
            (case plan_to_enter V (as_session_id s1) focus w1 of
               (p, w2) \<Rightarrow>
                 let s2 = s1\<lparr>as_plan := Some p, as_is_plan_mode := True\<rparr>;
                     s3 = s2\<lparr>as_messages := ps_messages p,
                            as_history := build_plan_mode_conversation_history s2 p,
                            as_status := plan_status focus,
                            as_world := snd (pm_save (sv_table V) p w2)\<rparr> in
                 (Returns (PlanModeEntered (ps_plan_session_id p) (ps_messages p) (as_status s3)), s3)))"

definition generate_plan_summary :: "('w, 'j, 'm) session \<Rightarrow> rstr option ending" where
  "generate_plan_summary s =
     (case find (\<lambda>m. dm_role m = lit ''assistant'' \<and> 100 < blen (dm_content m)) (rev (as_messages s)) of
        None \<Rightarrow> Returns None
      | Some m \<Rightarrow>
          let content = dm_content m in
          if str_contains content (lit ''#'') \<or> str_contains content (lit ''- '') \<or> str_contains content (lit ''1.'')
          then
            (if 500 < blen content then
               (case split_byte 500 content of Some (a, b) \<Rightarrow> Returns (Some (a @ lit ''...'')) | None \<Rightarrow> Panics)
             else Returns (Some content))
          else Returns None)"

text \<open>The plan as it is stored at the end, and the main context put back.\<close>

definition plan_at_exit :: "('w, 'j, 'st, 'tr) session_env \<Rightarrow> ('w, 'j, 'm) session \<Rightarrow> 'j plan_state \<Rightarrow> 'j plan_state" where
  "plan_at_exit V s p =
     ps_deactivate (sv_now V (as_world s))
       (p\<lparr>ps_messages := as_messages s, ps_history := filter (\<lambda>m. m_role m \<noteq> SystemRole) (as_history s)\<rparr>)"

definition restore_main_context :: "('w, 'j, 'm) session \<Rightarrow> ('w, 'j, 'm) session" where
  "restore_main_context s =
     (case as_saved s of
        Some c \<Rightarrow> s\<lparr>as_saved := None, as_messages := sc_messages c, as_history := sc_history c,
                   as_status := sc_status c\<rparr>
      | None \<Rightarrow> s\<lparr>as_status := lit ''Ready - Model: '' @ as_model s\<rparr>)"

definition store_plan :: "('w, 'j, 'st, 'tr) session_env \<Rightarrow> 'j plan_state \<Rightarrow> ('w, 'j, 'm) session \<Rightarrow>
    unit ending \<times> ('w, 'j, 'm) session" where
  "store_plan V p s =
     (case sv_connect_db V (as_world s) of
        (Inl e, w1) \<Rightarrow> (Fails e, s\<lparr>as_world := w1\<rparr>)
      | (Inr _, w1) \<Rightarrow> (Returns (), s\<lparr>as_world := snd (pm_save (sv_table V) p w1)\<rparr>))"

definition exit_plan_mode :: "('w, 'j, 'st, 'tr) session_env \<Rightarrow> ('w, 'j, 'm) session \<Rightarrow>
    ('j, 'm) ipc_message ending \<times> ('w, 'j, 'm) session" where
  "exit_plan_mode V s =
     (if \<not> as_is_plan_mode s then (Returns (ErrorSent (lit ''Not in plan mode'') False), s)
      else
        run_then
          (case as_plan s of
             None \<Rightarrow> (Returns (), s)
           | Some p \<Rightarrow> let p1 = plan_at_exit V s p in store_plan V p1 (s\<lparr>as_plan := Some p1\<rparr>))
          (\<lambda>_ s1. run_then (generate_plan_summary s1, s1)
             (\<lambda>summary s2. (Returns (PlanModeExited summary), (restore_main_context s2)\<lparr>as_is_plan_mode := False\<rparr>))))"

section \<open>A turn of plan mode\<close>

text \<open>\<open>stream_plan\<close> reads to the end of the stream; only text counts, a tool call is skipped.\<close>

partial_function (option) stream_plan :: "('w, 'j, 'st, 'tr) session_env \<Rightarrow> 'st \<Rightarrow> rstr \<Rightarrow> ('w, 'j, 'm) session \<Rightarrow>
    (rstr \<times> ('w, 'j, 'm) session) option" where
  "stream_plan V st response s =
     (case sv_next V st (as_world s) of
        None \<Rightarrow> None
      | Some (item, st1, w1) \<Rightarrow>
          let s1 = s\<lparr>as_world := w1\<rparr> in
          (case item of
             None \<Rightarrow> Some (response, s1)
           | Some (Inl e) \<Rightarrow> Some (response, sending (ErrorSent e False) s1)
           | Some (Inr c) \<Rightarrow>
               (case c of
                  ChunkText t \<Rightarrow> stream_plan V st1 (response @ t) (sending (PlanModeStreamChunk t) s1)
                | ChunkDone \<Rightarrow> Some (response, sending (PlanModeStreamEnd (Some (lit ''stop''))) s1)
                | ChunkToolCall i n sv j \<Rightarrow> stream_plan V st1 response s1
                | ChunkOther \<Rightarrow> stream_plan V st1 response s1)))"

definition to_plan :: "(int \<Rightarrow> 'j plan_state \<Rightarrow> 'j plan_state) \<Rightarrow> int \<Rightarrow> ('w, 'j, 'm) session \<Rightarrow> ('w, 'j, 'm) session" where
  "to_plan f now s = s\<lparr>as_plan := map_option (f now) (as_plan s)\<rparr>"

text \<open>A message enters the session and, when there is one, the plan.\<close>

definition add_plan_message :: "('w, 'j, 'st, 'tr) session_env \<Rightarrow> display_message \<Rightarrow> 'j message \<Rightarrow>
    ('w, 'j, 'm) session \<Rightarrow> ('w, 'j, 'm) session" where
  "add_plan_message V d m s =
     sending (PlanModeMessageAdded d)
       (to_plan (\<lambda>now p. ps_add_to_history now m (ps_add_message now d p)) (sv_now V (as_world s))
         (s\<lparr>as_messages := as_messages s @ [d], as_history := as_history s @ [m]\<rparr>))"

definition process_plan_mode_input :: "('w, 'j, 'st, 'tr) session_env \<Rightarrow> rstr \<Rightarrow> ('w, 'j, 'm) session \<Rightarrow>
    (unit ending \<times> ('w, 'j, 'm) session) option" where
  "process_plan_mode_input V content s =
     (if \<not> as_is_plan_mode s then Some (Fails (lit ''Not in plan mode''), s)
      else
        let s1 = add_plan_message V (dm_new (lit ''user'') content (sv_now_ms V (as_world s))) (user_text content) s;
            s2 = sending (StatusUpdated (lit ''Plan Mode - Thinking...'')) (s1\<lparr>as_is_busy := True\<rparr>) in
        case sv_open V (as_history s2) (get_plan_mode_tools V s2) (Some (build_plan_mode_system_prompt s2)) (as_world s2) of
          (st, w3) \<Rightarrow>
            (case stream_plan V st [] (s2\<lparr>as_world := w3\<rparr>) of
               None \<Rightarrow> None
             | Some (response, s4) \<Rightarrow>
                 let s5 = (if response = [] then s4
                           else add_plan_message V (dm_new (lit ''assistant'') response (sv_now_ms V (as_world s4)))
                                  (assistant_text response) s4) in
                 Some (Returns (), sending (StatusUpdated (plan_status (Option.bind (as_plan s5) ps_focus)))
                   (s5\<lparr>as_is_busy := False\<rparr>))))"

definition create_plan_mode_sync_message :: "('w, 'j, 'm) session \<Rightarrow> ('j, 'm) ipc_message" where
  "create_plan_mode_sync_message s =
     (case as_plan s of
        Some p \<Rightarrow> PlanModeSync (ps_plan_session_id p) (as_session_id s) (as_messages s) (as_status s) (as_is_busy s)
      | None \<Rightarrow> create_sync_message s)"

definition clear_plan_mode :: "('w, 'j, 'st, 'tr) session_env \<Rightarrow> ('w, 'j, 'm) session \<Rightarrow> unit ending \<times> ('w, 'j, 'm) session" where
  "clear_plan_mode V s =
     run_then
       (case as_plan s of
          None \<Rightarrow> (Returns (), s)
        | Some p \<Rightarrow> let p1 = ps_clear (sv_now V (as_world s)) p in store_plan V p1 (s\<lparr>as_plan := Some p1\<rparr>))
       (\<lambda>_ s1. (Returns (),
          if as_is_plan_mode s1
          then s1\<lparr>as_messages := [], as_history := filter (\<lambda>m. m_role m = SystemRole) (as_history s1)\<rparr> else s1))"

definition plan_mode_status :: "('w, 'j, 'm) session \<Rightarrow> rstr" where
  "plan_mode_status s =
     (case as_plan s of
        Some p \<Rightarrow>
          lit ''Plan Mode: '' @ (if ps_active p then lit ''active'' else lit ''inactive'') @ [10] @
          lit ''Session: '' @ ps_plan_session_id p @ [10] @
          lit ''Focus: '' @ (case ps_focus p of Some f \<Rightarrow> f | None \<Rightarrow> lit ''general'') @ [10] @
          lit ''Messages: '' @ show_nat (ps_message_count p)
      | None \<Rightarrow> lit ''Plan mode not initialized'')"

section \<open>What a turn of plan mode leaves alone\<close>

definition only_sends :: "('w, 'j, 'm) session \<Rightarrow> ('w, 'j, 'm) session \<Rightarrow> bool" where
  "only_sends s s' \<longleftrightarrow> s' = s\<lparr>as_sent := as_sent s', as_world := as_world s'\<rparr>"

lemma only_sends_refl [simp]: "only_sends s s"
  by (simp add: only_sends_def)

lemma only_sends_step:
  "only_sends (sending m (s\<lparr>as_world := w\<rparr>)) s' \<Longrightarrow> only_sends s s'"
  "only_sends (s\<lparr>as_world := w\<rparr>) s' \<Longrightarrow> only_sends s s'"
  by (cases s; cases s'; simp add: only_sends_def sending_def)+

lemma only_sends_world [simp]:
  "only_sends s (s\<lparr>as_world := w\<rparr>)" "only_sends s (sending m (s\<lparr>as_world := w\<rparr>))" "only_sends s (sending m s)"
  by (cases s; simp add: only_sends_def sending_def)+

lemma stream_plan_only_sends:
  assumes "stream_plan V st r s = Some x"
  shows "only_sends s (snd x)"
proof (rule stream_plan.raw_induct [where P = "\<lambda>V st r s x. only_sends s (snd x)", OF _ assms], goal_cases)
  case (1 rec V st r s y)
  from 1(2) show ?case
    by (auto simp: Let_def split: option.splits prod.splits sum.splits chunk.splits
        intro: only_sends_step [OF 1(1)])
qed

text \<open>A turn of plan mode never touches the saved context, nor leaves plan mode.\<close>

lemma only_sendsD:
  assumes "only_sends s s'"
  shows "as_saved s' = as_saved s" "as_is_plan_mode s' = as_is_plan_mode s" "as_session_id s' = as_session_id s"
    "as_model s' = as_model s" "as_plan s' = as_plan s" "as_messages s' = as_messages s" "as_history s' = as_history s"
    "as_is_busy s' = as_is_busy s" "as_status s' = as_status s" "as_queue s' = as_queue s"
    "as_exit_when_done s' = as_exit_when_done s" "as_tools s' = as_tools s"
  by (subst assms [unfolded only_sends_def]; simp)+

lemma sending_simps [simp]:
  "as_saved (sending m s) = as_saved s" "as_is_plan_mode (sending m s) = as_is_plan_mode s"
  "as_session_id (sending m s) = as_session_id s" "as_model (sending m s) = as_model s"
  "as_plan (sending m s) = as_plan s" "as_messages (sending m s) = as_messages s"
  "as_history (sending m s) = as_history s" "as_is_busy (sending m s) = as_is_busy s"
  "as_status (sending m s) = as_status s" "as_queue (sending m s) = as_queue s"
  "as_exit_when_done (sending m s) = as_exit_when_done s" "as_tools (sending m s) = as_tools s"
  "as_mcp_tools (sending m s) = as_mcp_tools s" "as_working_directory (sending m s) = as_working_directory s"
  "as_has_pending_request (sending m s) = as_has_pending_request s" "as_world (sending m s) = as_world s"
  by (simp_all add: sending_def)

lemma add_plan_message_simps [simp]:
  "as_saved (add_plan_message V d m s) = as_saved s" "as_is_plan_mode (add_plan_message V d m s) = as_is_plan_mode s"
  "as_session_id (add_plan_message V d m s) = as_session_id s" "as_model (add_plan_message V d m s) = as_model s"
  by (simp_all add: add_plan_message_def to_plan_def)

lemma plan_turn_keeps_saved:
  assumes "process_plan_mode_input V c s = Some (Returns u, s')"
  shows "as_saved s' = as_saved s \<and> as_is_plan_mode s' \<and> \<not> as_is_busy s'
    \<and> as_session_id s' = as_session_id s \<and> as_model s' = as_model s"
proof -
  let ?s1 = "add_plan_message V (dm_new (lit ''user'') c (sv_now_ms V (as_world s))) (user_text c) s"
  let ?s2 = "sending (StatusUpdated (lit ''Plan Mode - Thinking...'')) (?s1\<lparr>as_is_busy := True\<rparr>)"
  from assms have pm: "as_is_plan_mode s"
    unfolding process_plan_mode_input_def by (auto split: if_splits)
  obtain st w3 where op: "sv_open V (as_history ?s2) (get_plan_mode_tools V ?s2)
      (Some (build_plan_mode_system_prompt ?s2)) (as_world ?s2) = (st, w3)" by force
  from assms pm op obtain r s4 where
    st: "stream_plan V st [] (?s2\<lparr>as_world := w3\<rparr>) = Some (r, s4)"
    unfolding process_plan_mode_input_def Let_def by (auto split: option.splits)
  have o: "only_sends (?s2\<lparr>as_world := w3\<rparr>) s4" using stream_plan_only_sends [OF st] by simp
  from assms pm op st show ?thesis
    unfolding process_plan_mode_input_def Let_def by (auto simp: only_sendsD [OF o])
qed

fun plan_turns :: "('w, 'j, 'st, 'tr) session_env \<Rightarrow> rstr list \<Rightarrow> ('w, 'j, 'm) session \<Rightarrow> ('w, 'j, 'm) session option" where
  "plan_turns V [] s = Some s"
| "plan_turns V (c # cs) s =
     (case process_plan_mode_input V c s of Some (Returns u, s1) \<Rightarrow> plan_turns V cs s1 | _ \<Rightarrow> None)"

lemma plan_turns_keep_saved:
  "plan_turns V cs s = Some s' \<Longrightarrow> as_is_plan_mode s \<Longrightarrow>
    as_saved s' = as_saved s \<and> as_is_plan_mode s' \<and> as_session_id s' = as_session_id s \<and> as_model s' = as_model s"
  by (induction cs arbitrary: s)
    (auto split: option.splits prod.splits ending.splits dest!: plan_turn_keeps_saved)

text \<open>Whatever leaves plan mode puts back the saved context.\<close>

lemma exit_structure:
  assumes "exit_plan_mode V s = (Returns m, s')" and "as_is_plan_mode s"
  obtains summary s1 where "m = PlanModeExited summary"
    and "s' = (restore_main_context s1)\<lparr>as_is_plan_mode := False\<rparr>"
    and "case as_plan s of None \<Rightarrow> s1 = s
      | Some p \<Rightarrow> store_plan V (plan_at_exit V s p) (s\<lparr>as_plan := Some (plan_at_exit V s p)\<rparr>) = (Returns (), s1)"
  using assms by (auto simp: exit_plan_mode_def run_then_Returns Let_def split: option.splits)

lemma store_plan_Returns:
  "store_plan V p s = (Returns u, s') \<longleftrightarrow>
     (\<exists>w1. sv_connect_db V (as_world s) = (Inr (), w1) \<and> s' = s\<lparr>as_world := snd (pm_save (sv_table V) p w1)\<rparr>)"
  by (auto simp: store_plan_def split: prod.splits sum.splits)

lemma exit_restores:
  assumes "exit_plan_mode V s = (Returns m, s')" and "as_is_plan_mode s" and "as_saved s = Some c"
  shows "as_messages s' = sc_messages c \<and> as_history s' = sc_history c \<and> as_status s' = sc_status c
    \<and> \<not> as_is_plan_mode s' \<and> as_saved s' = None \<and> as_session_id s' = as_session_id s"
  using assms(1,2)
  by (rule exit_structure) (auto simp: restore_main_context_def store_plan_Returns assms(3) split: option.splits)

lemma enter_structure:
  assumes "enter_plan_mode V f s = (Returns m, s')" and "\<not> as_is_plan_mode s"
  obtains w1 p w2 where "sv_connect_db V (as_world s) = (Inr (), w1)"
    and "plan_to_enter V (as_session_id s) f w1 = (p, w2)"
    and "s' = (save_main_context s)\<lparr>as_plan := Some p, as_is_plan_mode := True, as_messages := ps_messages p,
      as_history := build_plan_mode_conversation_history ((save_main_context s)\<lparr>as_plan := Some p, as_is_plan_mode := True\<rparr>) p,
      as_status := plan_status f, as_world := snd (pm_save (sv_table V) p w2)\<rparr>"
    and "m = PlanModeEntered (ps_plan_session_id p) (ps_messages p) (plan_status f)"
  using assms
  by (auto simp: enter_plan_mode_def Let_def save_main_context_def split: prod.splits sum.splits)

text \<open>
  C8: Plan mode is isolated: entering it, any number of turns and leaving it give back the messages, the
  history for the provider and the status from before.
\<close>

theorem plan_mode_isolates:
  assumes "enter_plan_mode V f s = (Returns m, s1)" and "\<not> as_is_plan_mode s"
    and "plan_turns V cs s1 = Some s2" and "exit_plan_mode V s2 = (Returns m', s3)"
  shows "as_messages s3 = as_messages s \<and> as_history s3 = as_history s \<and> as_status s3 = as_status s
    \<and> \<not> as_is_plan_mode s3 \<and> as_saved s3 = None"
proof -
  from assms(1,2) have s1: "as_is_plan_mode s1"
    "as_saved s1 = Some \<lparr>sc_messages = as_messages s, sc_history = as_history s, sc_scroll = 0, sc_status = as_status s\<rparr>"
    by (auto elim!: enter_structure simp: save_main_context_def)
  from plan_turns_keep_saved [OF assms(3) s1(1)] s1 have
    "as_is_plan_mode s2" "as_saved s2 = Some \<lparr>sc_messages = as_messages s, sc_history = as_history s, sc_scroll = 0,
      sc_status = as_status s\<rparr>" by simp_all
  from exit_restores [OF assms(4) this] show ?thesis by simp
qed

section \<open>A plan that was left is not found again\<close>

text \<open>What the database documents: a filter selects the rows it matches, deletes them, and adding appends.\<close>

definition plan_table_contract :: "('w, 'j) plan_table \<Rightarrow> ('w \<Rightarrow> 'j plan_state list) \<Rightarrow> bool" where
  "plan_table_contract T rows \<longleftrightarrow>
     (\<forall>w. pt_open T w = (Inr (), w)) \<and>
     (\<forall>f w. pt_query T f w = (Inr (filter (matches_filter f) (rows w)), w)) \<and>
     (\<forall>p w. fst (pt_add T p w) = Inr () \<and> rows (snd (pt_add T p w)) = rows w @ [p]) \<and>
     (\<forall>f w. fst (pt_delete T f w) = Inr () \<and>
        rows (snd (pt_delete T f w)) = filter (\<lambda>p. \<not> matches_filter f p) (rows w))"

lemma contractD:
  assumes "plan_table_contract T rows"
  shows "pt_open T w = (Inr (), w)" "pt_query T f w = (Inr (filter (matches_filter f) (rows w)), w)"
    "rows (snd (pt_add T p w)) = rows w @ [p]"
    "rows (snd (pt_delete T f w)) = filter (\<lambda>p. \<not> matches_filter f p) (rows w)"
  using assms by (simp_all add: plan_table_contract_def)

lemma rows_after_save:
  assumes "plan_table_contract T rows"
  shows "rows (snd (pm_save T p w)) = filter (\<lambda>q. ps_plan_session_id q \<noteq> ps_plan_session_id p) (rows w) @ [p]"
  by (simp add: pm_save_def pm_delete_def db_then_def contractD [OF assms] split: prod.splits)

lemma inactive_plans_not_found:
  assumes "plan_table_contract (sv_table V) rows" and "\<forall>q \<in> set (rows w). \<not> matches_filter (ActiveOfMain sid) q"
  shows "plan_to_enter V sid f w = (ps_new (fst (sv_fresh V w)) (sv_now V (snd (sv_fresh V w))) sid f, snd (sv_fresh V w))"
  using assms
  by (simp add: plan_to_enter_def pm_get_by_main_session_def db_then_def contractD [OF assms(1)]
      head_row_def newest_first_def filter_empty_conv split: prod.splits)

text \<open>
  After leaving plan mode its plan is stored as not active, and entering looks for active plans only:
  the next plan mode starts empty under a new identifier, although leaving is documented to keep the plan
  for resuming.
\<close>

theorem left_plan_never_resumed:
  assumes "plan_table_contract (sv_table V) rows" and "\<And>w. sv_connect_db V w = (Inr (), w)"
    and "as_is_plan_mode s" and "as_plan s = Some p"
    and "\<forall>q \<in> set (rows (as_world s)). matches_filter (ActiveOfMain (as_session_id s)) q \<longrightarrow>
      ps_plan_session_id q = ps_plan_session_id p"
    and "exit_plan_mode V s = (Returns m, s1)"
  shows "\<exists>s2. enter_plan_mode V f s1
      = (Returns (PlanModeEntered (lit ''plan-'' @ fst (sv_fresh V (as_world s1))) [] (plan_status f)), s2)
    \<and> as_messages s2 = [] \<and> length (as_history s2) = 1"
proof -
  from exit_structure [OF assms(6,3)] assms(2,4) obtain summary s0 where
    s1: "s1 = (restore_main_context s0)\<lparr>as_is_plan_mode := False\<rparr>"
    and s0: "s0 = s\<lparr>as_plan := Some (plan_at_exit V s p),
      as_world := snd (pm_save (sv_table V) (plan_at_exit V s p) (as_world s))\<rparr>"
    by (auto simp: store_plan_Returns)
  have keep: "as_world s1 = as_world s0" "as_session_id s1 = as_session_id s" "\<not> as_is_plan_mode s1"
    by (simp_all add: s1 s0 restore_main_context_def split: option.splits)
  have "\<forall>q \<in> set (rows (as_world s1)). \<not> matches_filter (ActiveOfMain (as_session_id s)) q"
    using assms(5)
    by (auto simp: keep s0 rows_after_save [OF assms(1)] plan_at_exit_def ps_deactivate_def ps_touch_def)
  note new = inactive_plans_not_found [OF assms(1) this, of f, unfolded keep(1)]
  show ?thesis
    by (simp add: enter_plan_mode_def keep assms(2) Let_def save_main_context_def new ps_new_def
        build_plan_mode_conversation_history_def)
qed

section \<open>A sample session\<close>

text \<open>The world is the plan table and a clock that is also the source of identifiers; the stream says one word.\<close>

definition sample_plan_table :: "(unit plan_state list \<times> nat, unit) plan_table" where
  "sample_plan_table =
     \<lparr>pt_open = \<lambda>w. (Inr (), w), pt_query = \<lambda>f w. (Inr (filter (matches_filter f) (fst w)), w),
      pt_list = \<lambda>n w. (Inr (take n (fst w)), w), pt_add = \<lambda>p w. (Inr (), apfst (\<lambda>ps. ps @ [p]) w),
      pt_delete = \<lambda>f w. (Inr (), apfst (filter (\<lambda>p. \<not> matches_filter f p)) w)\<rparr>"

definition sample_session_env :: "(unit plan_state list \<times> nat, unit, nat, unit) session_env" where
  "sample_session_env =
     \<lparr>sv_now_ms = \<lambda>w. int (snd w), sv_now = \<lambda>w. int (snd w), sv_fresh = \<lambda>w. ([48 + snd w], apsnd Suc w), sv_info = False,
      sv_to_lower = ascii_lower, sv_text = \<lambda>m. None, sv_detect = \<lambda>t. None, sv_record_correction = \<lambda>a b c w. w,
      sv_record_outcome = \<lambda>n c ok e t w. w, sv_signals = \<lambda>w. ([], w), sv_add_truth = None, sv_note_entities = \<lambda>t w. w,
      sv_seal = None, sv_entity_count = \<lambda>w. 0, sv_task_tree = \<lambda>w. ([], 0), sv_open = \<lambda>h ts p w. (0, w),
      sv_next = \<lambda>n w. Some (Some (Inr (if n = 0 then ChunkText (lit ''a'') else ChunkDone)), Suc n, w),
      sv_connect_db = \<lambda>w. (Inr (), w), sv_table = sample_plan_table, sv_mcp_servers = \<lambda>w. Inr [],
      sv_mcp_connect = \<lambda>n w. (Inr (), w), sv_mcp_list = \<lambda>n w. (Inr 0, w), sv_mcp_tools = \<lambda>n w. (Inr [], w)\<rparr>"

definition sample_session :: "(unit plan_state list \<times> nat, unit, unit) session" where
  "sample_session = session_new (lit ''s'') (lit ''m'') (lit ''p'') [] (lit ''/'') () False (mq_new 2)
     [dm_new (lit ''user'') (lit ''q'') 0] ([], 0)"

lemma sample_env_simps [simp]:
  "sv_connect_db sample_session_env w = (Inr (), w)" "sv_table sample_session_env = sample_plan_table"
  "sv_fresh sample_session_env w = ([48 + snd w], apsnd Suc w)" "sv_open sample_session_env h ts p w = (0, w)"
  "sv_next sample_session_env n w = Some (Some (Inr (if n = 0 then ChunkText (lit ''a'') else ChunkDone)), Suc n, w)"
  "sv_now sample_session_env w = int (snd w)" "sv_now_ms sample_session_env w = int (snd w)"
  "sv_detect sample_session_env t = None" "sv_note_entities sample_session_env t w = w" "sv_seal sample_session_env = None"
  by (simp_all add: sample_session_env_def)

lemma sample_table_contract: "plan_table_contract sample_plan_table fst"
  by (simp add: plan_table_contract_def sample_plan_table_def)

lemma sample_stream: "stream_plan sample_session_env 0 r s
    = Some (r @ lit ''a'', sending (PlanModeStreamEnd (Some (lit ''stop''))) (sending (PlanModeStreamChunk (lit ''a'')) s))"
  by (subst stream_plan.simps, subst stream_plan.simps) (simp add: sending_def)

lemma sample_session_simps [simp]:
  "as_is_plan_mode sample_session = False" "as_messages sample_session = [dm_new (lit ''user'') (lit ''q'') 0]"
  "as_session_id sample_session = lit ''s''" "as_world sample_session = ([], 0)" "as_plan sample_session = None"
  by (simp_all add: sample_session_def session_new_def load_stored_def)

definition entered :: "(unit plan_state list \<times> nat, unit, unit) session" where
  "entered = snd (enter_plan_mode sample_session_env None sample_session)"

lemma sample_enter: "\<exists>m. enter_plan_mode sample_session_env None sample_session = (Returns m, entered)"
  by (simp add: entered_def enter_plan_mode_def Let_def save_main_context_def split: prod.splits)

lemma entered_simps: "as_is_plan_mode entered" "as_session_id entered = lit ''s''"
  "as_plan entered = Some (ps_new (lit ''0'') 1 (lit ''s'') None)"
  "as_world entered = ([ps_new (lit ''0'') 1 (lit ''s'') None], 1)" "as_messages entered = []"
  by (simp_all add: entered_def enter_plan_mode_def Let_def save_main_context_def plan_to_enter_def pm_get_by_main_session_def
      db_then_def sample_plan_table_def newest_first_def head_row_def pm_save_def pm_delete_def lit_def ps_new_def)

lemma sample_turn: "\<exists>s2. plan_turns sample_session_env [lit ''hi''] entered = Some s2
    \<and> (\<exists>m s3. exit_plan_mode sample_session_env s2 = (Returns m, s3))"
  by (simp add: process_plan_mode_input_def entered_simps Let_def sample_stream exit_plan_mode_def store_plan_def
      generate_plan_summary_def add_plan_message_def to_plan_def run_then_Returns dm_new_def lit_def)

lemma plan_mode_isolates_witness:
  "\<exists>s2 m s3. plan_turns sample_session_env [lit ''hi''] entered = Some s2
    \<and> exit_plan_mode sample_session_env s2 = (Returns m, s3) \<and> as_messages s3 = [dm_new (lit ''user'') (lit ''q'') 0]"
proof -
  obtain m where e: "enter_plan_mode sample_session_env None sample_session = (Returns m, entered)"
    using sample_enter by blast
  obtain s2 m' s3 where t: "plan_turns sample_session_env [lit ''hi''] entered = Some s2"
    and x: "exit_plan_mode sample_session_env s2 = (Returns m', s3)" using sample_turn by blast
  from plan_mode_isolates [OF e _ t x] t x show ?thesis by auto
qed

lemma sample_exit: "\<exists>m s3. exit_plan_mode sample_session_env entered = (Returns m, s3)"
  by (simp add: entered_simps exit_plan_mode_def store_plan_def generate_plan_summary_def run_then_Returns Let_def)

lemma left_plan_never_resumed_witness:
  "\<exists>m s1 s2. exit_plan_mode sample_session_env entered = (Returns m, s1)
    \<and> enter_plan_mode sample_session_env None s1
      = (Returns (PlanModeEntered (lit ''plan-'' @ fst (sv_fresh sample_session_env (as_world s1))) [] (plan_status None)), s2)"
proof -
  obtain m s1 where x: "exit_plan_mode sample_session_env entered = (Returns m, s1)" using sample_exit by blast
  from left_plan_never_resumed [of sample_session_env fst entered, OF _ _ entered_simps(1,3) _ x] x show ?thesis
    by (auto simp: sample_table_contract entered_simps)
qed

end
