(* ===== verification/SlashCommands.thy ===== *)
theory SlashCommands
  imports Process "HOL-Library.AList"
begin

text \<open>
  The slash commands, \<^verbatim>\<open>apps/cli/src/commands\<close>: the registry with the built-in commands
  (\<^verbatim>\<open>builtin.rs\<close>, \<^verbatim>\<open>registry.rs\<close>), custom commands read from markdown files (\<^verbatim>\<open>parser.rs\<close>), and the executor
  that turns a command line into an action or a message (\<^verbatim>\<open>executor/\<close>, one group of handlers per file).
  The registry is a map; where its iteration order shows (help, template substitution) the order is an
  argument. The usage text of a failing command is abstracted to the constructor of \<open>command_error\<close>.
  YAML, git, the project instructions and \<^verbatim>\<open>f64\<close> are parameters.
\<close>

section \<open>The registry\<close>

record command_arg =
  arg_name :: rstr
  arg_description :: "rstr option"
  arg_required :: bool

record slash_command =
  sc_name :: rstr
  sc_description :: rstr
  sc_args :: "command_arg list"
  sc_content :: rstr
  sc_builtin :: bool
  sc_source_path :: "rstr option"

definition custom_cmd :: "rstr \<Rightarrow> rstr \<Rightarrow> rstr \<Rightarrow> slash_command" where
  "custom_cmd n d c =
     \<lparr>sc_name = n, sc_description = d, sc_args = [], sc_content = c, sc_builtin = False, sc_source_path = None\<rparr>"

definition builtin_cmd :: "rstr \<Rightarrow> rstr \<Rightarrow> rstr \<Rightarrow> slash_command" where
  "builtin_cmd n d c =
     \<lparr>sc_name = n, sc_description = d, sc_args = [], sc_content = c, sc_builtin = True, sc_source_path = None\<rparr>"

definition with_arg :: "rstr \<Rightarrow> rstr option \<Rightarrow> bool \<Rightarrow> slash_command \<Rightarrow> slash_command" where
  "with_arg n d r c = c\<lparr>sc_args := sc_args c @ [\<lparr>arg_name = n, arg_description = d, arg_required = r\<rparr>]\<rparr>"

definition with_source_path :: "rstr \<Rightarrow> slash_command \<Rightarrow> slash_command" where
  "with_source_path p c = c\<lparr>sc_source_path := Some p\<rparr>"

type_synonym registry = "rstr \<rightharpoonup> slash_command"

definition register :: "slash_command \<Rightarrow> registry \<Rightarrow> registry" where
  "register c R = R(sc_name c \<mapsto> c)"

section \<open>The built-in commands\<close>

definition builtins_from_help :: "slash_command list" where
  "builtins_from_help =
     [
      builtin_cmd (lit ''help'')
        (lit ''Show available slash commands'') [],
      builtin_cmd (lit ''clear'')
        (lit ''Clear conversation history'') [],
      builtin_cmd (lit ''status'')
        (lit ''Show current session status'') [],
      with_arg (lit ''name'') (Some (lit ''Model name to switch to (optional - omit to list models)'')) False
       (builtin_cmd (lit ''model'')
        (lit ''List available models or switch to a different model'') []),
      with_arg (lit ''name'') (Some (lit ''Provider name (e.g. anthropic, openai, ollama) '' @ [8212] @ lit '' omit to list providers'')) False
       (builtin_cmd (lit ''provider'')
        (lit ''List available providers or switch to a different provider'') []),
      with_arg (lit ''steps'') (Some (lit ''Number of steps to rewind'')) False
       (builtin_cmd (lit ''rewind'')
        (lit ''Rewind conversation to a previous checkpoint'') []),
      builtin_cmd (lit ''review'')
        (lit ''Enter code review mode for current changes'') (lit ''Please review the following code changes and provide feedback on:'' @ [10] @ lit ''- Code quality and best practices'' @ [10] @ lit ''- Potential bugs or issues'' @ [10] @ lit ''- Performance considerations'' @ [10] @ lit ''- Security concerns'' @ [10] @ lit ''- Suggestions for improvement''),
      builtin_cmd (lit ''commands'')
        (lit ''List all available commands'') [],
      with_arg (lit ''name'') (Some (lit ''Optional checkpoint name'')) False
       (builtin_cmd (lit ''checkpoint'')
        (lit ''Create a named checkpoint of the current conversation'') []),
      with_arg (lit ''id'') (Some (lit ''Checkpoint ID or index (1-based)'')) False
       (builtin_cmd (lit ''restore'')
        (lit ''Restore conversation from a checkpoint'') []),
      builtin_cmd (lit ''checkpoints'')
        (lit ''List all checkpoints for this conversation'') [],
      with_arg (lit ''conversation_id'') (Some (lit ''Optional: specific conversation ID to load'')) False
       (builtin_cmd (lit ''resume'')
        (lit ''Show conversation picker to resume a previous conversation'') []),
      builtin_cmd (lit ''exit'')
        (lit ''Exit the application'') []]"

definition builtins_from_plan :: "slash_command list" where
  "builtins_from_plan =
     [
      with_arg (lit ''task'') (Some (lit ''Description of the task to plan'')) True
       (builtin_cmd (lit ''plan'')
        (lit ''Create a plan using the planning agent (saved for later reference)'') []),
      with_arg (lit ''conversation_id'') (Some (lit ''Optional: filter by conversation ID'')) False
       (builtin_cmd (lit ''plans'')
        (lit ''List saved execution plans'') []),
      with_arg (lit ''plan_id'') (Some (lit ''Plan ID to display'')) True
       (builtin_cmd (lit ''plan:show'')
        (lit ''Display details of a saved plan'') []),
      with_arg (lit ''plan_id'') (Some (lit ''Plan ID to delete'')) True
       (builtin_cmd (lit ''plan:delete'')
        (lit ''Delete a saved plan'') []),
      with_arg (lit ''plan_id'') (Some (lit ''Plan ID to activate'')) True
       (builtin_cmd (lit ''plan:activate'')
        (lit ''Set a plan as the active working plan (agent will follow it)'') []),
      builtin_cmd (lit ''plan:deactivate'')
        (lit ''Clear the active plan'') [],
      builtin_cmd (lit ''plan:current'')
        (lit ''Show the currently active plan and progress'') [],
      builtin_cmd (lit ''plan:pause'')
        (lit ''Pause the current plan (task state is preserved)'') [],
      with_arg (lit ''plan_id'') (Some (lit ''Plan ID to resume'')) True
       (builtin_cmd (lit ''plan:resume'')
        (lit ''Resume a paused plan with its saved task state'') []),
      with_arg (lit ''mode'') (Some (lit ''Approval mode: suggest, auto-edit, or full-auto (default: full-auto)'')) False
       (with_arg (lit ''plan_id'') (Some (lit ''Plan ID to execute'')) True
       (builtin_cmd (lit ''plan:execute'')
        (lit ''Execute a plan with AI-driven task completion (modes: suggest, auto-edit, full-auto)'') [])),
      with_arg (lit ''query'') (Some (lit ''Search query'')) True
       (builtin_cmd (lit ''plan:search'')
        (lit ''Search plans by title, description, or content'') [])]"

definition builtins_from_plan_branch :: "slash_command list" where
  "builtins_from_plan_branch =
     [
      with_arg (lit ''task'') (Some (lit ''Task description for the branch'')) True
       (with_arg (lit ''name'') (Some (lit ''Branch name (e.g., 'auth-feature')'')) True
       (builtin_cmd (lit ''plan:branch'')
        (lit ''Create a sub-plan branch from the current active plan'') [])),
      with_arg (lit ''plan_id'') (Some (lit ''Branch plan ID to merge (optional, defaults to active plan)'')) False
       (builtin_cmd (lit ''plan:merge'')
        (lit ''Mark a branch plan as merged (completes the branch)'') []),
      with_arg (lit ''plan_id'') (Some (lit ''Plan ID to show hierarchy for (optional, defaults to active plan)'')) False
       (builtin_cmd (lit ''plan:tree'')
        (lit ''Show the plan hierarchy (parent and child plans)'') []),
      builtin_cmd (lit ''tasks'')
        (lit ''Show task list for the current active plan'') [],
      with_arg (lit ''task_id'') (Some (lit ''Task ID to complete (optional)'')) False
       (builtin_cmd (lit ''task:complete'')
        (lit ''Mark a task as complete (defaults to current in-progress task)'') []),
      with_arg (lit ''reason'') (Some (lit ''Reason for skipping'')) False
       (with_arg (lit ''task_id'') (Some (lit ''Task ID to skip (optional - defaults to current)'')) False
       (builtin_cmd (lit ''task:skip'')
        (lit ''Skip a task (mark as skipped)'') [])),
      with_arg (lit ''description'') (Some (lit ''Task description'')) True
       (builtin_cmd (lit ''task:add'')
        (lit ''Add a new task to the current plan'') []),
      with_arg (lit ''task_id'') (Some (lit ''Task ID to start'')) True
       (builtin_cmd (lit ''task:start'')
        (lit ''Start working on a specific task'') []),
      with_arg (lit ''reason'') (Some (lit ''Reason for blocking'')) False
       (with_arg (lit ''task_id'') (Some (lit ''Task ID to block'')) True
       (builtin_cmd (lit ''task:block'')
        (lit ''Mark a task as blocked'') []))]"

definition builtins_from_task_depends :: "slash_command list" where
  "builtins_from_task_depends =
     [
      with_arg (lit ''depends_on'') (Some (lit ''Task to depend on'')) True
       (with_arg (lit ''task_id'') (Some (lit ''Task that will depend on another'')) True
       (builtin_cmd (lit ''task:depends'')
        (lit ''Make a task depend on another task'') [])),
      builtin_cmd (lit ''task:ready'')
        (lit ''Show tasks that are ready to execute (all dependencies complete)'') [],
      with_arg (lit ''task_id'') (Some (lit ''Task ID (optional - shows all if omitted)'')) False
       (builtin_cmd (lit ''task:time'')
        (lit ''Show time tracking info for a task or all tasks'') []),
      builtin_cmd (lit ''task:list'')
        (lit ''Show enhanced task list with IDs and dependencies'') [],
      with_arg (lit ''mode'') (Some (lit ''Approval mode: suggest, auto-edit, or full-auto'')) False
       (builtin_cmd (lit ''approvals'')
        (lit ''Set approval mode: suggest (review all), auto-edit (auto file edits), or full-auto (auto everything)'') []),
      builtin_cmd (lit ''rullama'')
        (lit ''Load project-specific instructions from RULLAMA.md (supports @file.md imports)'') [],
      with_arg (lit ''command'') (Some (lit ''Shell command to execute'')) True
       (builtin_cmd (lit ''exec'')
        (lit ''Execute a shell command (requires user confirmation for safety)'') []),
      builtin_cmd (lit ''shells'')
        (lit ''View history of executed shell commands'') [],
      builtin_cmd (lit ''shell'')
        (lit ''Drop into an interactive shell (exit or Ctrl+D to return)'') [],
      builtin_cmd (lit ''hotkeys'')
        (lit ''View and configure keyboard shortcuts'') [],
      builtin_cmd (lit ''keys'')
        (lit ''View and configure keyboard shortcuts (alias for /hotkeys)'') [],
      with_arg (lit ''path'') (Some (lit ''Path to codebase directory'')) False
       (builtin_cmd (lit ''project:index'')
        (lit ''Index a codebase directory for semantic search using project RAG'') []),
      with_arg (lit ''query'') (Some (lit ''Search query'')) True
       (builtin_cmd (lit ''project:query'')
        (lit ''Search indexed codebase using semantic search'') []),
      builtin_cmd (lit ''project:stats'')
        (lit ''Show statistics about the indexed codebase'') []]"

definition builtins_from_project_search :: "slash_command list" where
  "builtins_from_project_search =
     [
      with_arg (lit ''languages'') (Some (lit ''Comma-separated languages (e.g., Rust,Python)'')) False
       (with_arg (lit ''extensions'') (Some (lit ''Comma-separated file extensions (e.g., rs,toml)'')) False
       (with_arg (lit ''query'') (Some (lit ''Search query'')) True
       (builtin_cmd (lit ''project:search'')
        (lit ''Advanced semantic search with file type and language filters'') []))),
      builtin_cmd (lit ''project:clear'')
        (lit ''Clear all indexed data from the vector database'') [],
      with_arg (lit ''max_commits'') (Some (lit ''Maximum commits to search (default: 10)'')) False
       (with_arg (lit ''query'') (Some (lit ''Search query for commit messages'')) True
       (builtin_cmd (lit ''project:git-search'')
        (lit ''Search git commit history using semantic search'') [])),
      with_arg (lit ''column'') (Some (lit ''Column number (0-based)'')) True
       (with_arg (lit ''line'') (Some (lit ''Line number (1-based)'')) True
       (with_arg (lit ''file'') (Some (lit ''File path containing the symbol'')) True
       (builtin_cmd (lit ''project:definition'')
        (lit ''Find where a symbol is defined (LSP-like go-to-definition)'') []))),
      with_arg (lit ''limit'') (Some (lit ''Maximum references to return (default: 100)'')) False
       (with_arg (lit ''column'') (Some (lit ''Column number (0-based)'')) True
       (with_arg (lit ''line'') (Some (lit ''Line number (1-based)'')) True
       (with_arg (lit ''file'') (Some (lit ''File path containing the symbol'')) True
       (builtin_cmd (lit ''project:references'')
        (lit ''Find all references to a symbol at a given location'') [])))),
      with_arg (lit ''depth'') (Some (lit ''Maximum traversal depth (default: 2)'')) False
       (with_arg (lit ''column'') (Some (lit ''Column number (0-based)'')) True
       (with_arg (lit ''line'') (Some (lit ''Line number (1-based)'')) True
       (with_arg (lit ''file'') (Some (lit ''File path containing the function'')) True
       (builtin_cmd (lit ''project:callgraph'')
        (lit ''Get call graph for a function (callers and callees)'') [])))),
      builtin_cmd (lit ''templates'')
        (lit ''List all saved plan templates'') []]"

definition builtins_from_template_save :: "slash_command list" where
  "builtins_from_template_save =
     [
      with_arg (lit ''description'') (Some (lit ''Template description'')) False
       (with_arg (lit ''name'') (Some (lit ''Template name'')) True
       (builtin_cmd (lit ''template:save'')
        (lit ''Save the current active plan as a reusable template'') [])),
      with_arg (lit ''name'') (Some (lit ''Template name or ID'')) True
       (builtin_cmd (lit ''template:show'')
        (lit ''Display a template's content and variables'') []),
      with_arg (lit ''vars'') (Some (lit ''Variable substitutions as key=value pairs'')) False
       (with_arg (lit ''name'') (Some (lit ''Template name or ID'')) True
       (builtin_cmd (lit ''template:use'')
        (lit ''Create a new plan from a template with variable substitutions'') [])),
      with_arg (lit ''name'') (Some (lit ''Template name or ID'')) True
       (builtin_cmd (lit ''template:delete'')
        (lit ''Delete a saved template'') []),
      builtin_cmd (lit ''context'')
        (lit ''Show files currently in the working set (agent's file context)'') [],
      with_arg (lit ''pinned'') (Some (lit ''Pin file to prevent eviction (true/false)'')) False
       (with_arg (lit ''path'') (Some (lit ''Path to file'')) True
       (builtin_cmd (lit ''context:add'')
        (lit ''Add a file to the working set (loads into context)'') [])),
      with_arg (lit ''path'') (Some (lit ''Path to file to remove'')) True
       (builtin_cmd (lit ''context:remove'')
        (lit ''Remove a file from the working set'') []),
      with_arg (lit ''path'') (Some (lit ''Path to file to pin'')) True
       (builtin_cmd (lit ''context:pin'')
        (lit ''Pin a file in the working set (prevents automatic eviction)'') []),
      with_arg (lit ''path'') (Some (lit ''Path to file to unpin'')) True
       (builtin_cmd (lit ''context:unpin'')
        (lit ''Unpin a file (allows automatic eviction when stale)'') []),
      with_arg (lit ''keep_pinned'') (Some (lit ''Keep pinned files (true/false, default: true)'')) False
       (builtin_cmd (lit ''context:clear'')
        (lit ''Clear all files from the working set'') [])]"

definition builtins_from_ask :: "slash_command list" where
  "builtins_from_ask =
     [
      with_arg (lit ''query'') (Some (lit ''Optional question to ask in read-only mode'')) False
       (builtin_cmd (lit ''ask'')
        (lit ''Switch to Ask mode (read-only). Optionally provide a question to ask immediately.'') []),
      with_arg (lit ''query'') (Some (lit ''Optional instruction to send in edit mode'')) False
       (builtin_cmd (lit ''edit'')
        (lit ''Switch to Edit mode (full tool access). Optionally provide an instruction to send immediately.'') []),
      with_arg (lit ''mode'') (Some (lit ''Tool mode: full, explicit, smart, core, or none'')) False
       (builtin_cmd (lit ''tools'')
        (lit ''Configure which tools are available: full, explicit, smart (default), core, or none'') []),
      with_arg (lit ''state'') (Some (lit ''on/off to enable/disable MDAP mode'')) False
       (builtin_cmd (lit ''mdap'')
        (lit ''Show MDAP status or toggle high-reliability mode (on/off)'') []),
      builtin_cmd (lit ''mdap:on'')
        (lit ''Enable MDAP high-reliability mode'') [],
      builtin_cmd (lit ''mdap:off'')
        (lit ''Disable MDAP mode'') [],
      with_arg (lit ''value'') (Some (lit ''Vote margin (1-10, default: 3)'')) True
       (builtin_cmd (lit ''mdap:k'')
        (lit ''Set MDAP vote margin (k) - higher values increase reliability and cost'') []),
      with_arg (lit ''rate'') (Some (lit ''Target rate as decimal (0.95) or percentage (95%)'')) True
       (builtin_cmd (lit ''mdap:target'')
        (lit ''Set MDAP target success rate (0.5-0.999)'') []),
      builtin_cmd (lit ''dream'')
        (lit ''Show the last dream consolidation cycle report'') [],
      builtin_cmd (lit ''dream:status'')
        (lit ''Show the last dream consolidation cycle report'') [],
      builtin_cmd (lit ''dream:run'')
        (lit ''Run a dream (sleep) consolidation cycle against the active conversation'') [],
      with_arg (lit ''rationale'') (Some (lit ''Why this is better (optional)'')) False
       (with_arg (lit ''rule'') (Some (lit ''The behavioral rule to learn (e.g., '' @ [34] @ lit ''pm2 logs requires --nostream'' @ [34] @ lit '')'')) True
       (builtin_cmd (lit ''learn'')
        (lit ''Teach the agent a behavioral truth (shared across all users)'') [])),
      builtin_cmd (lit ''knowledge'')
        (lit ''Show behavioral knowledge system status and statistics'') []]"

definition builtins_from_knowledge_list :: "slash_command list" where
  "builtins_from_knowledge_list =
     [
      with_arg (lit ''category'') (Some (lit ''Filter by category: command, strategy, tool, error, resource, pattern'')) False
       (builtin_cmd (lit ''knowledge:list'')
        (lit ''List all learned behavioral truths (optionally filtered by category)'') []),
      with_arg (lit ''query'') (Some (lit ''Search query'')) True
       (builtin_cmd (lit ''knowledge:search'')
        (lit ''Search learned truths by keyword'') []),
      builtin_cmd (lit ''knowledge:sync'')
        (lit ''Force synchronization with the remote knowledge server'') [],
      with_arg (lit ''reason'') (Some (lit ''Reason for contradiction (optional)'')) False
       (with_arg (lit ''id'') (Some (lit ''Truth ID to contradict'')) True
       (builtin_cmd (lit ''knowledge:contradict'')
        (lit ''Report a learned truth as incorrect (reduces its confidence)'') [])),
      with_arg (lit ''id'') (Some (lit ''Truth ID to delete'')) True
       (builtin_cmd (lit ''knowledge:delete'')
        (lit ''Delete a truth from local cache'') []),
      builtin_cmd (lit ''profile'')
        (lit ''Show your personal profile summary (facts learned about you)'') [],
      with_arg (lit ''local'') (Some (lit ''Set to 'true' to keep this fact local-only (never synced)'')) False
       (with_arg (lit ''value'') (Some (lit ''Fact value'')) True
       (with_arg (lit ''key'') (Some (lit ''Fact key (e.g., name, preferred_language, current_project)'')) True
       (builtin_cmd (lit ''profile:set'')
        (lit ''Set a personal fact (e.g., preferred_language, name, current_project)'') []))),
      with_arg (lit ''name'') (Some (lit ''Your name'')) True
       (builtin_cmd (lit ''profile:name'')
        (lit ''Set your name (shorthand for /profile:set name <name>)'') []),
      with_arg (lit ''category'') (Some (lit ''Filter by: identity, preference, capability, context, constraint, relationship'')) False
       (builtin_cmd (lit ''profile:list'')
        (lit ''List personal facts (optionally filtered by category)'') []),
      with_arg (lit ''query'') (Some (lit ''Search query'')) True
       (builtin_cmd (lit ''profile:search'')
        (lit ''Search personal facts by keyword'') []),
      with_arg (lit ''id'') (Some (lit ''Fact ID or key to delete'')) True
       (builtin_cmd (lit ''profile:delete'')
        (lit ''Delete a personal fact'') [])]"

definition builtins_from_profile_sync :: "slash_command list" where
  "builtins_from_profile_sync =
     [
      builtin_cmd (lit ''profile:sync'')
        (lit ''Force synchronization of personal facts with server'') [],
      with_arg (lit ''file'') (Some (lit ''Output file path (default: ~/rullama-profile.json)'')) False
       (builtin_cmd (lit ''profile:export'')
        (lit ''Export your profile as JSON file'') []),
      with_arg (lit ''file'') (Some (lit ''JSON file to import'')) True
       (builtin_cmd (lit ''profile:import'')
        (lit ''Import profile from a JSON file'') []),
      builtin_cmd (lit ''profile:stats'')
        (lit ''Show statistics about your personal knowledge base'') [],
      with_arg (lit ''fact'') (Some (lit ''The fact to remember (entire remaining text)'')) True
       (builtin_cmd (lit ''remember'')
        (lit ''Quick command to remember contextual facts (auto-generates key from content)'') []),
      with_arg (lit ''args'') (Some (lit ''Optional arguments as key=value pairs'')) False
       (with_arg (lit ''name'') (Some (lit ''Skill name to invoke'')) True
       (builtin_cmd (lit ''skill'')
        (lit ''Invoke a skill by name with optional arguments'') [])),
      builtin_cmd (lit ''skills'')
        (lit ''List all available skills from personal and project directories'') [],
      with_arg (lit ''name'') (Some (lit ''Skill name'')) True
       (builtin_cmd (lit ''skill:show'')
        (lit ''Display detailed information about a skill'') []),
      builtin_cmd (lit ''skill:reload'')
        (lit ''Reload skills from disk (useful after editing SKILL.md files)'') [],
      with_arg (lit ''location'') (Some (lit ''personal or project (default: personal)'')) False
       (with_arg (lit ''name'') (Some (lit ''Skill name (lowercase, hyphens only)'')) True
       (builtin_cmd (lit ''skill:create'')
        (lit ''Create a new skill from a template'') []))]"

definition builtin_commands :: "slash_command list" where
  "builtin_commands =
     builtins_from_help @ builtins_from_plan @ builtins_from_plan_branch @ builtins_from_task_depends @ builtins_from_project_search @ builtins_from_template_save @ builtins_from_ask @ builtins_from_knowledge_list @ builtins_from_profile_sync"

definition load_builtin :: "registry \<Rightarrow> registry" where
  "load_builtin = fold register builtin_commands"

section \<open>Custom commands\<close>

record ('w, 'f) command_env =
  cm_lower :: "rstr \<Rightarrow> rstr"
  cm_alphanumeric :: "rchar \<Rightarrow> bool"
  cm_frontmatter :: "rstr \<Rightarrow> (rstr \<times> rstr \<times> command_arg list) option"
  cm_read_dir :: "rstr \<Rightarrow> 'w \<Rightarrow> (rstr + (rstr + rstr) list) option"
  cm_read_file :: "rstr \<Rightarrow> 'w \<Rightarrow> rstr + rstr"
  cm_cwd :: "'w \<Rightarrow> rstr option"
  cm_git :: "rstr list \<Rightarrow> 'w \<Rightarrow> cmd_output option"
  cm_instructions :: "rstr \<Rightarrow> 'w \<Rightarrow> rstr + rstr"
  cm_parse_rate :: "rstr \<Rightarrow> 'f option"
  cm_above_one :: "'f \<Rightarrow> bool"
  cm_per_cent :: "'f \<Rightarrow> 'f"
  cm_at_most_half :: "'f \<Rightarrow> bool"
  cm_at_least_one :: "'f \<Rightarrow> bool"

datatype command_error =
  UnknownCommand rstr | UnknownBuiltin rstr | MissingArgument rstr | UsageOf rstr | InvalidArgument rstr
| InvalidCommandFile | FrontmatterError | ReadError rstr | NoWorkingDirectory | InstructionsError rstr

text \<open>\<^verbatim>\<open>content.splitn(3, "---")\<close>; the frontmatter is the second part.\<close>

definition parse_command :: "('w, 'f) command_env \<Rightarrow> rstr \<Rightarrow> rstr \<Rightarrow> command_error + slash_command" where
  "parse_command C content p =
     (case find_cut (lit ''---'') content of
        None \<Rightarrow> Inl InvalidCommandFile
      | Some (before, rest) \<Rightarrow>
          (case find_cut (lit ''---'') rest of
             None \<Rightarrow> Inl InvalidCommandFile
           | Some (front, body) \<Rightarrow>
               (case cm_frontmatter C (trim front) of
                  None \<Rightarrow> Inl FrontmatterError
                | Some (n, d, args) \<Rightarrow>
                    Inr (fold (\<lambda>a. with_arg (arg_name a) (arg_description a) (arg_required a)) args
                      (with_source_path p (custom_cmd n d (trim body)))))))"

definition parse_command_file :: "('w, 'f) command_env \<Rightarrow> rstr \<Rightarrow> 'w \<Rightarrow> command_error + slash_command" where
  "parse_command_file C p w =
     (case cm_read_file C p w of Inl e \<Rightarrow> Inl (ReadError e) | Inr content \<Rightarrow> parse_command C content p)"

text \<open>\<^verbatim>\<open>path.extension() == Some("md")\<close>: the last component ends in \<^verbatim>\<open>.md\<close> after at least one character.\<close>

definition has_md_extension :: "rstr \<Rightarrow> bool" where
  "has_md_extension p =
     (let n = rev (takeWhile (\<lambda>c. c \<noteq> 47) (rev p)) in
      length (lit ''.md'') < length n \<and> drop (length n - 3) n = lit ''.md'')"

fun load_entries :: "('w, 'f) command_env \<Rightarrow> (rstr + rstr) list \<Rightarrow> 'w \<Rightarrow> registry \<Rightarrow> (command_error + unit) \<times> registry" where
  "load_entries C [] w R = (Inr (), R)"
| "load_entries C (Inl e # xs) w R = (Inl (ReadError e), R)"
| "load_entries C (Inr p # xs) w R =
     load_entries C xs w
       (if has_md_extension p
        then (case parse_command_file C p w of Inr c \<Rightarrow> register c R | Inl e \<Rightarrow> R) else R)"

definition load_custom :: "('w, 'f) command_env \<Rightarrow> rstr \<Rightarrow> 'w \<Rightarrow> registry \<Rightarrow> (command_error + unit) \<times> registry" where
  "load_custom C d w R =
     (case cm_read_dir C d w of
        None \<Rightarrow> (Inr (), R)
      | Some (Inl e) \<Rightarrow> (Inl (ReadError e), R)
      | Some (Inr xs) \<Rightarrow> load_entries C xs w R)"

text \<open>A custom directory that cannot be read is a warning; what was registered before stays.\<close>

definition executor_new :: "('w, 'f) command_env \<Rightarrow> 'w \<Rightarrow> registry" where
  "executor_new C w =
     (let R = load_builtin Map.empty in
      case cm_cwd C w of
        None \<Rightarrow> R
      | Some d \<Rightarrow> snd (load_custom C (d @ lit ''/.rullama/commands'') w R))"

text \<open>\<^verbatim>\<open>str::replace\<close> for a pattern that is not empty.\<close>

function replace_str :: "rstr \<Rightarrow> rstr \<Rightarrow> rstr \<Rightarrow> rstr" where
  "replace_str p r s =
     (if p = [] then s
      else case find_cut p s of None \<Rightarrow> s | Some (a, b) \<Rightarrow> a @ r @ replace_str p r b)"
  by pat_completeness auto
termination
  by (relation "measure (\<lambda>(p, r, s). length s)") (auto dest!: find_cut_Some)

declare replace_str.simps [simp del]

definition render_template :: "rstr \<Rightarrow> (rstr \<times> rstr) list \<Rightarrow> rstr" where
  "render_template template args =
     fold (\<lambda>(k, v). replace_str (lit ''{{'' @ k @ lit ''}}'') v) args template"

section \<open>Actions and results\<close>

datatype tool_mode = ToolsFull | ToolsSmart | ToolsCore | ToolsNone | ToolsExplicit "rstr list"

text \<open>
  The variants of \<^verbatim>\<open>CommandAction\<close>, grouped by the category of the command that makes them (a flat datatype
  of eighty constructors is the same set).
\<close>

datatype conversation_action =
  ClearHistory | SwitchModel rstr | SwitchProvider rstr | ListProviders | ShowStatus | Rewind nat
| ResumeHistory "rstr option" | ExitApp

datatype misc_action =
  CreateCheckpoint "rstr option" | RestoreCheckpoint rstr | ListCheckpoints | SetApprovalMode rstr | ExecCommand rstr
| OpenShell | ShowShellHistory | OpenHotkeyDialog | SetPromptModeAsk | SetPromptModeEdit

datatype plan_action =
  ListPlans "rstr option" | ShowPlan rstr | DeletePlan rstr | ActivatePlan rstr | DeactivatePlan | PlanStatus
| PausePlan | ResumePlan rstr | ExecutePlan rstr "rstr option" | SearchPlans rstr | BranchPlan rstr rstr
| MergePlan "rstr option" | PlanTree "rstr option"

datatype plan_mode_action =
  EnterPlanMode "rstr option" | ExitPlanMode | PlanModeStatus | ClearPlanMode | ExportPlanMode "rstr option"

datatype task_action =
  ShowTasks | TaskComplete "rstr option" | TaskSkip "rstr option" "rstr option" | TaskAdd rstr | TaskStart rstr
| TaskBlock rstr "rstr option" | TaskDepends rstr rstr | TaskReady | TaskTime "rstr option" | TaskList

datatype template_action =
  ListTemplates | SaveTemplate rstr "rstr option" | ShowTemplate rstr | UseTemplate rstr "rstr list" | DeleteTemplate rstr

datatype context_action =
  ContextShow | ContextAdd rstr bool | ContextRemove rstr | ContextPin rstr | ContextUnpin rstr | ContextClear bool
| ShowToolMode | SetToolMode tool_mode | OpenToolPicker

datatype 'f mdap_action =
  MdapStatus | MdapEnable | MdapDisable | MdapSetK nat | MdapSetTarget 'f | DreamRun | DreamStatus

datatype knowledge_action =
  LearnTruth rstr "rstr option" | KnowledgeStatus | KnowledgeList "rstr option" | KnowledgeSearch rstr
| KnowledgeSync | KnowledgeContradict rstr "rstr option" | KnowledgeDelete rstr

datatype profile_action =
  ProfileShow | ProfileSet rstr rstr bool | ProfileList "rstr option" | ProfileSearch rstr | ProfileDelete rstr
| ProfileSync | ProfileExport "rstr option" | ProfileImport rstr | ProfileStats

datatype agent_action =
  ListAgents | SwitchAgent rstr | SpawnChildAgent "rstr option" "rstr option" | AgentTree | HibernateAgents | ResumeAgents

datatype skill_action =
  InvokeSkill rstr "rstr list" | ListSkills | ShowSkill rstr | ReloadSkills | CreateSkill rstr "rstr option"

datatype 'f command_action =
  ConversationAct conversation_action | MiscAct misc_action | PlanAct plan_action | PlanModeAct plan_mode_action
| TaskAct task_action | TemplateAct template_action | ContextAct context_action | MdapAct "'f mdap_action"
| KnowledgeAct knowledge_action | ProfileAct profile_action | AgentAct agent_action | SkillAct skill_action

datatype 'f command_result =
  CommandMessage rstr | CommandActs "'f command_action" | ActionWithMessage "'f command_action" rstr | Help "rstr list"

type_synonym 'f command_outcome = "command_error + 'f command_result"

definition acts :: "'f command_action \<Rightarrow> 'f command_outcome" where
  "acts a = Inr (CommandActs a)"

definition says :: "rstr \<Rightarrow> 'f command_outcome" where
  "says t = Inr (CommandMessage t)"

text \<open>Recurring shapes: a required first argument, all arguments joined, an optional first, the rest after the first.\<close>

definition need_first :: "rstr \<Rightarrow> rstr list \<Rightarrow> (rstr \<Rightarrow> 'f command_outcome) \<Rightarrow> 'f command_outcome" where
  "need_first n args k = (case args of [] \<Rightarrow> Inl (UsageOf n) | a # _ \<Rightarrow> k a)"

definition need_joined :: "rstr \<Rightarrow> rstr list \<Rightarrow> (rstr \<Rightarrow> 'f command_outcome) \<Rightarrow> 'f command_outcome" where
  "need_joined n args k = (if args = [] then Inl (UsageOf n) else k (join (lit '' '') args))"

definition first_arg :: "rstr list \<Rightarrow> rstr option" where
  "first_arg args = (case args of [] \<Rightarrow> None | a # _ \<Rightarrow> Some a)"

definition nth_arg :: "nat \<Rightarrow> rstr list \<Rightarrow> rstr option" where
  "nth_arg i args = (if i < length args then Some (args ! i) else None)"

definition rest_joined :: "rstr list \<Rightarrow> rstr option" where
  "rest_joined args = (if 1 < length args then Some (join (lit '' '') (drop 1 args)) else None)"

section \<open>Conversation commands\<close>

text \<open>\<open>order\<close> lists the names of the registry in the order of its iteration.\<close>

definition pad_to :: "nat \<Rightarrow> rstr \<Rightarrow> rstr" where
  "pad_to n s = s @ replicate (n - length s) 32"

definition help_line :: "rstr \<Rightarrow> slash_command \<Rightarrow> rstr" where
  "help_line n c = lit ''  /'' @ pad_to 15 n @ lit '' - '' @ sc_description c"

definition help_lines :: "bool \<Rightarrow> rstr list \<Rightarrow> registry \<Rightarrow> rstr list" where
  "help_lines builtin order R =
     List.map_filter (\<lambda>n. case R n of
         Some c \<Rightarrow> if sc_builtin c = builtin then Some (help_line n c) else None | None \<Rightarrow> None) order"

definition cmd_help :: "rstr list \<Rightarrow> registry \<Rightarrow> 'f command_outcome" where
  "cmd_help order R =
     Inr (Help ([lit ''Available Commands:'', [], lit ''Built-in Commands:''] @ help_lines True order R @
       (let custom = help_lines False order R in
        if custom = [] then [] else [[], lit ''Custom Commands:''] @ custom)))"

definition cmd_model :: "rstr list \<Rightarrow> 'f command_outcome" where
  "cmd_model args = need_first (lit ''model'') args (\<lambda>m. acts (ConversationAct (SwitchModel m)))"

definition cmd_provider :: "rstr list \<Rightarrow> 'f command_outcome" where
  "cmd_provider args = (case args of [] \<Rightarrow> acts (ConversationAct ListProviders) | n # _ \<Rightarrow> acts (ConversationAct (SwitchProvider n)))"

definition cmd_rewind :: "rstr list \<Rightarrow> 'f command_outcome" where
  "cmd_rewind args =
     (case args of
        [] \<Rightarrow> acts (ConversationAct (Rewind 1))
      | a # _ \<Rightarrow> (case parse_decimal (2 ^ 64) a of Some n \<Rightarrow> acts (ConversationAct (Rewind n)) | None \<Rightarrow> Inl (InvalidArgument a)))"

definition cmd_resume :: "rstr list \<Rightarrow> 'f command_outcome" where
  "cmd_resume args = acts (ConversationAct (ResumeHistory (first_arg args)))"

definition execute_conversation_command :: "rstr list \<Rightarrow> registry \<Rightarrow> rstr list \<Rightarrow> (rstr \<times> 'f command_outcome) list" where
  "execute_conversation_command order R args =
     [(lit ''help'', cmd_help order R), (lit ''commands'', cmd_help order R), (lit ''clear'', acts (ConversationAct ClearHistory)),
      (lit ''status'', acts (ConversationAct ShowStatus)), (lit ''model'', cmd_model args), (lit ''provider'', cmd_provider args),
      (lit ''rewind'', cmd_rewind args), (lit ''resume'', cmd_resume args), (lit ''exit'', acts (ConversationAct ExitApp))]"

section \<open>Plan and task commands\<close>

definition cmd_plan :: "rstr list \<Rightarrow> 'f command_outcome" where
  "cmd_plan args = need_joined (lit ''plan'') args (\<lambda>task.
     says (lit ''Please use the plan_task tool to create a detailed execution plan for: '' @ task @ [10, 10] @
       lit ''The planning agent will research the codebase and create a comprehensive plan.'' @ [10] @
       lit ''The plan will be automatically saved and can be retrieved later.''))"

definition cmd_plan_execute :: "rstr list \<Rightarrow> 'f command_outcome" where
  "cmd_plan_execute args = need_first (lit ''plan:execute'') args (\<lambda>i. acts (PlanAct (ExecutePlan i (nth_arg 1 args))))"

definition cmd_plan_branch :: "rstr list \<Rightarrow> 'f command_outcome" where
  "cmd_plan_branch args =
     (if length args < 2 then Inl (UsageOf (lit ''plan:branch''))
      else acts (PlanAct (BranchPlan (args ! 0) (join (lit '' '') (drop 1 args)))))"

definition cmd_plan_mode :: "rstr list \<Rightarrow> 'f command_outcome" where
  "cmd_plan_mode args = acts (PlanModeAct (EnterPlanMode (if args = [] then None else Some (join (lit '' '') args))))"

definition execute_plan_command :: "rstr list \<Rightarrow> (rstr \<times> 'f command_outcome) list" where
  "execute_plan_command args =
     [(lit ''plan'', cmd_plan args),
      (lit ''plans'', acts (PlanAct (ListPlans (first_arg args)))),
      (lit ''plan:show'', need_first (lit ''plan:show'') args (\<lambda>i. acts (PlanAct (ShowPlan i)))),
      (lit ''plan:delete'', need_first (lit ''plan:delete'') args (\<lambda>i. acts (PlanAct (DeletePlan i)))),
      (lit ''plan:activate'', need_first (lit ''plan:activate'') args (\<lambda>i. acts (PlanAct (ActivatePlan i)))),
      (lit ''plan:deactivate'', acts (PlanAct DeactivatePlan)), (lit ''plan:current'', acts (PlanAct PlanStatus)),
      (lit ''plan:pause'', acts (PlanAct PausePlan)),
      (lit ''plan:resume'', need_first (lit ''plan:resume'') args (\<lambda>i. acts (PlanAct (ResumePlan i)))),
      (lit ''plan:execute'', cmd_plan_execute args),
      (lit ''plan:search'', need_joined (lit ''plan:search'') args (\<lambda>q. acts (PlanAct (SearchPlans q)))),
      (lit ''plan:branch'', cmd_plan_branch args),
      (lit ''plan:merge'', acts (PlanAct (MergePlan (first_arg args)))),
      (lit ''plan:tree'', acts (PlanAct (PlanTree (first_arg args)))),
      (lit ''plan:mode'', cmd_plan_mode args), (lit ''plan:mode:exit'', acts (PlanModeAct ExitPlanMode)),
      (lit ''plan:mode:status'', acts (PlanModeAct PlanModeStatus)), (lit ''plan:mode:clear'', acts (PlanModeAct ClearPlanMode)),
      (lit ''plan:mode:export'', acts (PlanModeAct (ExportPlanMode (first_arg args))))]"

definition cmd_task_skip :: "rstr list \<Rightarrow> 'f command_outcome" where
  "cmd_task_skip args = acts (TaskAct (TaskSkip (first_arg args) (rest_joined args)))"

definition cmd_task_block :: "rstr list \<Rightarrow> 'f command_outcome" where
  "cmd_task_block args = need_first (lit ''task:block'') args (\<lambda>i. acts (TaskAct (TaskBlock i (rest_joined args))))"

definition cmd_task_depends :: "rstr list \<Rightarrow> 'f command_outcome" where
  "cmd_task_depends args =
     (if length args < 2 then Inl (UsageOf (lit ''task:depends'')) else acts (TaskAct (TaskDepends (args ! 0) (args ! 1))))"

definition execute_task_command :: "rstr list \<Rightarrow> (rstr \<times> 'f command_outcome) list" where
  "execute_task_command args =
     [(lit ''tasks'', acts (TaskAct ShowTasks)), (lit ''task:complete'', acts (TaskAct (TaskComplete (first_arg args)))),
      (lit ''task:skip'', cmd_task_skip args),
      (lit ''task:add'', need_joined (lit ''task:add'') args (\<lambda>d. acts (TaskAct (TaskAdd d)))),
      (lit ''task:start'', need_first (lit ''task:start'') args (\<lambda>i. acts (TaskAct (TaskStart i)))),
      (lit ''task:block'', cmd_task_block args), (lit ''task:depends'', cmd_task_depends args),
      (lit ''task:ready'', acts (TaskAct TaskReady)), (lit ''task:time'', acts (TaskAct (TaskTime (first_arg args)))),
      (lit ''task:list'', acts (TaskAct TaskList))]"

definition cmd_template_save :: "rstr list \<Rightarrow> 'f command_outcome" where
  "cmd_template_save args = need_first (lit ''template:save'') args (\<lambda>n. acts (TemplateAct (SaveTemplate n (rest_joined args))))"

definition cmd_template_use :: "rstr list \<Rightarrow> 'f command_outcome" where
  "cmd_template_use args = need_first (lit ''template:use'') args (\<lambda>n. acts (TemplateAct (UseTemplate n (drop 1 args))))"

definition execute_template_command :: "rstr list \<Rightarrow> (rstr \<times> 'f command_outcome) list" where
  "execute_template_command args =
     [(lit ''templates'', acts (TemplateAct ListTemplates)), (lit ''template:save'', cmd_template_save args),
      (lit ''template:show'', need_first (lit ''template:show'') args (\<lambda>n. acts (TemplateAct (ShowTemplate n)))),
      (lit ''template:use'', cmd_template_use args),
      (lit ''template:delete'', need_first (lit ''template:delete'') args (\<lambda>n. acts (TemplateAct (DeleteTemplate n))))]"

section \<open>Project commands\<close>

definition cmd_project_index :: "('w, 'f) command_env \<Rightarrow> rstr list \<Rightarrow> 'w \<Rightarrow> 'f command_outcome" where
  "cmd_project_index C args w =
     (let p = (case args of a # _ \<Rightarrow> a | [] \<Rightarrow> (case cm_cwd C w of Some d \<Rightarrow> d | None \<Rightarrow> lit ''.'')) in
      says (lit ''Please use the mcp__project__index_codebase tool to index the codebase at path: '' @ p @ [10, 10] @
        lit ''This will create embeddings for semantic search across the codebase.''))"

definition cmd_project_query :: "rstr list \<Rightarrow> 'f command_outcome" where
  "cmd_project_query args = need_joined (lit ''project:query'') args (\<lambda>q.
     says (lit ''Please use the mcp__project__query_codebase tool with the following query: '' @ q @ [10, 10] @
       lit ''This will search the indexed codebase using semantic embeddings.''))"

definition cmd_project_stats :: "'f command_outcome" where
  "cmd_project_stats =
     says (lit ''Please use the mcp__project__get_statistics tool to show index statistics.'' @ [10, 10] @
       lit ''This will display information about indexed files, chunks, and languages.'')"

definition cmd_project_search :: "rstr list \<Rightarrow> 'f command_outcome" where
  "cmd_project_search args = need_first (lit ''project:search'') args (\<lambda>q.
     says (lit ''Please use the mcp__project__search_by_filters tool with:'' @ [10] @ lit ''- query: '' @ q @ [10] @
       (case nth_arg 1 args of Some e \<Rightarrow> lit ''- file_extensions: ['' @ e @ lit '']'' @ [10] | None \<Rightarrow> []) @
       (case nth_arg 2 args of Some l \<Rightarrow> lit ''- languages: ['' @ l @ lit '']'' @ [10] | None \<Rightarrow> []) @
       [10] @ lit ''This will perform advanced semantic search with filters.''))"

definition cmd_project_clear :: "'f command_outcome" where
  "cmd_project_clear =
     says (lit ''Please use the mcp__project__clear_index tool to clear all indexed data.'' @ [10, 10] @
       lit ''WARNING: This will delete the entire index. You'' @ [39] @
       lit ''ll need to reindex to search again.'')"

text \<open>A number that does not parse is the default; a position that does not parse is an error.\<close>

definition number_or :: "nat \<Rightarrow> rstr option \<Rightarrow> nat" where
  "number_or d a = (case Option.bind a (parse_decimal (2 ^ 32)) of Some n \<Rightarrow> n | None \<Rightarrow> d)"

definition cmd_project_git_search :: "rstr list \<Rightarrow> 'f command_outcome" where
  "cmd_project_git_search args = need_first (lit ''project:git-search'') args (\<lambda>q.
     says (lit ''Please use the mcp__project__search_git_history tool with:'' @ [10] @ lit ''- query: '' @ q @ [10] @
       lit ''- max_commits: '' @ show_nat (number_or 10 (nth_arg 1 args)) @ [10, 10] @
       lit ''This will search git commit history semantically.''))"

definition need_position :: "rstr \<Rightarrow> rstr list \<Rightarrow> (nat \<Rightarrow> nat \<Rightarrow> 'f command_outcome) \<Rightarrow> 'f command_outcome" where
  "need_position n args k =
     (if length args < 3 then Inl (UsageOf n)
      else
        case parse_decimal (2 ^ 32) (args ! 1) of
          None \<Rightarrow> Inl (InvalidArgument (args ! 1))
        | Some line \<Rightarrow>
            (case parse_decimal (2 ^ 32) (args ! 2) of
               None \<Rightarrow> Inl (InvalidArgument (args ! 2))
             | Some column \<Rightarrow> k line column))"

definition position_lines :: "rstr \<Rightarrow> nat \<Rightarrow> nat \<Rightarrow> rstr" where
  "position_lines p line column =
     lit ''- file_path: '' @ p @ [10] @ lit ''- line: '' @ show_nat line @ [10] @ lit ''- column: '' @ show_nat column @ [10]"

definition cmd_project_definition :: "rstr list \<Rightarrow> 'f command_outcome" where
  "cmd_project_definition args = need_position (lit ''project:definition'') args (\<lambda>line column.
     says (lit ''Please use the mcp__project__find_definition tool with:'' @ [10] @
       position_lines (args ! 0) line column @ [10] @
       lit ''This will find where the symbol at the given location is defined.''))"

definition cmd_project_references :: "rstr list \<Rightarrow> 'f command_outcome" where
  "cmd_project_references args = need_position (lit ''project:references'') args (\<lambda>line column.
     says (lit ''Please use the mcp__project__find_references tool with:'' @ [10] @
       position_lines (args ! 0) line column @
       lit ''- limit: '' @ show_nat (number_or 100 (nth_arg 3 args)) @ [10, 10] @
       lit ''This will find all references to the symbol at the given location.''))"

definition cmd_project_callgraph :: "rstr list \<Rightarrow> 'f command_outcome" where
  "cmd_project_callgraph args = need_position (lit ''project:callgraph'') args (\<lambda>line column.
     says (lit ''Please use the mcp__project__get_call_graph tool with:'' @ [10] @
       position_lines (args ! 0) line column @
       lit ''- depth: '' @ show_nat (number_or 2 (nth_arg 3 args)) @ [10, 10] @
       lit ''This will return the call graph showing callers and callees of the function.''))"

definition execute_project_command :: "('w, 'f) command_env \<Rightarrow> rstr list \<Rightarrow> 'w \<Rightarrow> (rstr \<times> 'f command_outcome) list" where
  "execute_project_command C args w =
     [(lit ''project:index'', cmd_project_index C args w), (lit ''project:query'', cmd_project_query args),
      (lit ''project:stats'', cmd_project_stats), (lit ''project:search'', cmd_project_search args),
      (lit ''project:clear'', cmd_project_clear), (lit ''project:git-search'', cmd_project_git_search args),
      (lit ''project:definition'', cmd_project_definition args),
      (lit ''project:references'', cmd_project_references args),
      (lit ''project:callgraph'', cmd_project_callgraph args)]"

section \<open>Context, tools and MDAP commands\<close>

definition cmd_context_add :: "('w, 'f) command_env \<Rightarrow> rstr list \<Rightarrow> 'f command_outcome" where
  "cmd_context_add C args = need_first (lit ''context:add'') args (\<lambda>p.
     acts (ContextAct (ContextAdd p (case nth_arg 1 args of
        Some s \<Rightarrow> cm_lower C s = lit ''true'' \<or> s = lit ''1'' | None \<Rightarrow> False))))"

definition cmd_context_clear :: "('w, 'f) command_env \<Rightarrow> rstr list \<Rightarrow> 'f command_outcome" where
  "cmd_context_clear C args =
     acts (ContextAct (ContextClear (case first_arg args of
        Some s \<Rightarrow> cm_lower C s \<noteq> lit ''false'' \<and> s \<noteq> lit ''0'' | None \<Rightarrow> True)))"

definition execute_context_command :: "('w, 'f) command_env \<Rightarrow> rstr list \<Rightarrow> (rstr \<times> 'f command_outcome) list" where
  "execute_context_command C args =
     [(lit ''context'', acts (ContextAct ContextShow)), (lit ''context:add'', cmd_context_add C args),
      (lit ''context:remove'', need_first (lit ''context:remove'') args (\<lambda>p. acts (ContextAct (ContextRemove p)))),
      (lit ''context:pin'', need_first (lit ''context:pin'') args (\<lambda>p. acts (ContextAct (ContextPin p)))),
      (lit ''context:unpin'', need_first (lit ''context:unpin'') args (\<lambda>p. acts (ContextAct (ContextUnpin p)))),
      (lit ''context:clear'', cmd_context_clear C args)]"

definition cmd_tools :: "('w, 'f) command_env \<Rightarrow> rstr list \<Rightarrow> 'f command_outcome" where
  "cmd_tools C args =
     (case args of
        [] \<Rightarrow> acts (ContextAct ShowToolMode)
      | a # _ \<Rightarrow>
          (case map_of [(lit ''full'', ContextAct (SetToolMode ToolsFull)), (lit ''explicit'', ContextAct OpenToolPicker),
              (lit ''smart'', ContextAct (SetToolMode ToolsSmart)), (lit ''core'', ContextAct (SetToolMode ToolsCore)),
              (lit ''none'', ContextAct (SetToolMode ToolsNone))] (cm_lower C a) of
             Some x \<Rightarrow> acts x | None \<Rightarrow> Inl (InvalidArgument (cm_lower C a))))"

definition execute_tools_command :: "('w, 'f) command_env \<Rightarrow> rstr list \<Rightarrow> (rstr \<times> 'f command_outcome) list" where
  "execute_tools_command C args = [(lit ''tools'', cmd_tools C args)]"

definition cmd_mdap :: "('w, 'f) command_env \<Rightarrow> rstr list \<Rightarrow> 'f command_outcome" where
  "cmd_mdap C args =
     (case args of
        [] \<Rightarrow> acts (MdapAct MdapStatus)
      | a # _ \<Rightarrow>
          if cm_lower C a \<in> {lit ''on'', lit ''enable'', lit ''true'', lit ''1''} then acts (MdapAct MdapEnable)
          else if cm_lower C a \<in> {lit ''off'', lit ''disable'', lit ''false'', lit ''0''} then acts (MdapAct MdapDisable)
          else Inl (UsageOf (lit ''mdap'')))"

definition cmd_mdap_k :: "rstr list \<Rightarrow> 'f command_outcome" where
  "cmd_mdap_k args = need_first (lit ''mdap:k'') args (\<lambda>a.
     case parse_decimal (2 ^ 32) a of
       None \<Rightarrow> Inl (InvalidArgument a)
     | Some k \<Rightarrow> if k = 0 \<or> 10 < k then Inl (InvalidArgument a) else acts (MdapAct (MdapSetK k)))"

definition cmd_mdap_target :: "('w, 'f) command_env \<Rightarrow> rstr list \<Rightarrow> 'f command_outcome" where
  "cmd_mdap_target C args = need_first (lit ''mdap:target'') args (\<lambda>a.
     case cm_parse_rate C (rev (dropWhile (\<lambda>c. c = 37) (rev a))) of
       None \<Rightarrow> Inl (InvalidArgument a)
     | Some x \<Rightarrow>
         let target = (if cm_above_one C x then cm_per_cent C x else x) in
         if cm_at_most_half C target \<or> cm_at_least_one C target then Inl (InvalidArgument a)
         else acts (MdapAct (MdapSetTarget target)))"

definition execute_mdap_command :: "('w, 'f) command_env \<Rightarrow> rstr list \<Rightarrow> (rstr \<times> 'f command_outcome) list" where
  "execute_mdap_command C args =
     [(lit ''mdap'', cmd_mdap C args), (lit ''mdap:on'', acts (MdapAct MdapEnable)), (lit ''mdap:off'', acts (MdapAct MdapDisable)),
      (lit ''mdap:k'', cmd_mdap_k args), (lit ''mdap:target'', cmd_mdap_target C args)]"

definition execute_dream_command :: "(rstr \<times> 'f command_outcome) list" where
  "execute_dream_command =
     [(lit ''dream'', acts (MdapAct DreamStatus)), (lit ''dream:status'', acts (MdapAct DreamStatus)), (lit ''dream:run'', acts (MdapAct DreamRun))]"

section \<open>Knowledge, profile, agent, skill and mode commands\<close>

definition knowledge_categories :: "rstr list" where
  "knowledge_categories =
     [lit ''command'', lit ''strategy'', lit ''tool'', lit ''error'', lit ''resource'', lit ''pattern'']"

definition profile_categories :: "rstr list" where
  "profile_categories =
     [lit ''identity'', lit ''preference'', lit ''capability'', lit ''context'', lit ''constraint'', lit ''relationship'']"

definition in_category :: "('w, 'f) command_env \<Rightarrow> rstr list \<Rightarrow> rstr list \<Rightarrow> (rstr option \<Rightarrow> 'f command_action) \<Rightarrow> 'f command_outcome" where
  "in_category C categories args k =
     (case first_arg args of
        Some c \<Rightarrow> if cm_lower C c \<in> set categories then acts (k (Some c)) else Inl (InvalidArgument c)
      | None \<Rightarrow> acts (k None))"

definition cmd_learn :: "rstr list \<Rightarrow> 'f command_outcome" where
  "cmd_learn args = need_first (lit ''learn'') args (\<lambda>rule. acts (KnowledgeAct (LearnTruth rule (nth_arg 1 args))))"

definition cmd_knowledge_contradict :: "rstr list \<Rightarrow> 'f command_outcome" where
  "cmd_knowledge_contradict args =
     need_first (lit ''knowledge:contradict'') args (\<lambda>i. acts (KnowledgeAct (KnowledgeContradict i (rest_joined args))))"

definition execute_knowledge_command :: "('w, 'f) command_env \<Rightarrow> rstr list \<Rightarrow> (rstr \<times> 'f command_outcome) list" where
  "execute_knowledge_command C args =
     [(lit ''learn'', cmd_learn args), (lit ''knowledge'', acts (KnowledgeAct KnowledgeStatus)),
      (lit ''knowledge:list'', in_category C knowledge_categories args (\<lambda>c. KnowledgeAct (KnowledgeList c))),
      (lit ''knowledge:search'', need_joined (lit ''knowledge:search'') args (\<lambda>q. acts (KnowledgeAct (KnowledgeSearch q)))),
      (lit ''knowledge:sync'', acts (KnowledgeAct KnowledgeSync)), (lit ''knowledge:contradict'', cmd_knowledge_contradict args),
      (lit ''knowledge:delete'', need_first (lit ''knowledge:delete'') args (\<lambda>i. acts (KnowledgeAct (KnowledgeDelete i))))]"

definition cmd_profile_set :: "rstr list \<Rightarrow> 'f command_outcome" where
  "cmd_profile_set args =
     (if args = [] then Inl (UsageOf (lit ''profile:set''))
      else
        let local = (first_arg args = Some (lit ''--local''));
            remaining = (if local then drop 1 args else args) in
        if length remaining < 2 then Inl (UsageOf (lit ''profile:set''))
        else acts (ProfileAct (ProfileSet (remaining ! 0) (join (lit '' '') (drop 1 remaining)) local)))"

definition cmd_profile_name :: "rstr list \<Rightarrow> 'f command_outcome" where
  "cmd_profile_name args = need_joined (lit ''profile:name'') args (\<lambda>n. acts (ProfileAct (ProfileSet (lit ''name'') n False)))"

definition cmd_remember :: "('w, 'f) command_env \<Rightarrow> rstr list \<Rightarrow> 'f command_outcome" where
  "cmd_remember C args = need_joined (lit ''remember'') args (\<lambda>fact.
     acts (ProfileAct (ProfileSet
       (lit ''context_'' @ filter (\<lambda>c. cm_alphanumeric C c \<or> c = 95) (cm_lower C (join (lit ''_'') (take 3 (split_ws fact)))))
       fact False)))"

definition execute_personal_command :: "('w, 'f) command_env \<Rightarrow> rstr list \<Rightarrow> (rstr \<times> 'f command_outcome) list" where
  "execute_personal_command C args =
     [(lit ''profile'', acts (ProfileAct ProfileShow)), (lit ''profile:set'', cmd_profile_set args),
      (lit ''profile:name'', cmd_profile_name args),
      (lit ''profile:list'', in_category C profile_categories args (\<lambda>c. ProfileAct (ProfileList c))),
      (lit ''profile:search'', need_joined (lit ''profile:search'') args (\<lambda>q. acts (ProfileAct (ProfileSearch q)))),
      (lit ''profile:delete'', need_first (lit ''profile:delete'') args (\<lambda>i. acts (ProfileAct (ProfileDelete i)))),
      (lit ''profile:sync'', acts (ProfileAct ProfileSync)), (lit ''profile:export'', acts (ProfileAct (ProfileExport (first_arg args)))),
      (lit ''profile:import'', need_first (lit ''profile:import'') args (\<lambda>p. acts (ProfileAct (ProfileImport p)))),
      (lit ''profile:stats'', acts (ProfileAct ProfileStats)), (lit ''remember'', cmd_remember C args)]"

definition cmd_switch :: "rstr list \<Rightarrow> 'f command_outcome" where
  "cmd_switch args = (case args of [] \<Rightarrow> acts (AgentAct ListAgents) | i # _ \<Rightarrow> acts (AgentAct (SwitchAgent i)))"

text \<open>The options of \<^verbatim>\<open>/spawn\<close>, read from the left; the first word that is none ends the loop.\<close>

function spawn_options :: "rstr list \<Rightarrow> rstr option \<Rightarrow> rstr option \<Rightarrow> 'f command_outcome" where
  "spawn_options args model reason =
     (case args of
        [] \<Rightarrow> acts (AgentAct (SpawnChildAgent model reason))
      | a # rest \<Rightarrow>
          if a \<in> {lit ''--model'', lit ''-m''} then
            (case rest of [] \<Rightarrow> Inl (UsageOf (lit ''--model'')) | v # rest' \<Rightarrow> spawn_options rest' (Some v) reason)
          else if a \<in> {lit ''--reason'', lit ''-r''} then
            (case rest of [] \<Rightarrow> Inl (UsageOf (lit ''--reason'')) | v # rest' \<Rightarrow> spawn_options rest' model (Some v))
          else acts (AgentAct (SpawnChildAgent model (case reason of None \<Rightarrow> Some (join (lit '' '') args) | Some r \<Rightarrow> Some r))))"
  by pat_completeness auto
termination by (relation "measure (\<lambda>(args, m, r). length args)") auto

definition cmd_spawn :: "rstr list \<Rightarrow> 'f command_outcome" where
  "cmd_spawn args = spawn_options args None None"

definition execute_agent_command :: "rstr list \<Rightarrow> (rstr \<times> 'f command_outcome) list" where
  "execute_agent_command args =
     [(lit ''agents'', acts (AgentAct ListAgents)), (lit ''agent:tree'', acts (AgentAct AgentTree)), (lit ''tree'', acts (AgentAct AgentTree)),
      (lit ''switch'', cmd_switch args), (lit ''spawn'', cmd_spawn args), (lit ''hibernate'', acts (AgentAct HibernateAgents)),
      (lit ''resume:agents'', acts (AgentAct ResumeAgents))]"

definition cmd_skill :: "rstr list \<Rightarrow> 'f command_outcome" where
  "cmd_skill args = need_first (lit ''skill'') args (\<lambda>n. acts (SkillAct (InvokeSkill n (drop 1 args))))"

definition execute_skill_command :: "rstr list \<Rightarrow> (rstr \<times> 'f command_outcome) list" where
  "execute_skill_command args =
     [(lit ''skill'', cmd_skill args), (lit ''skills'', acts (SkillAct ListSkills)),
      (lit ''skill:show'', need_first (lit ''skill:show'') args (\<lambda>n. acts (SkillAct (ShowSkill n)))),
      (lit ''skill:reload'', acts (SkillAct ReloadSkills)),
      (lit ''skill:create'', need_first (lit ''skill:create'') args (\<lambda>n. acts (SkillAct (CreateSkill n (nth_arg 1 args)))))]"

definition mode_with_query :: "'f command_action \<Rightarrow> rstr list \<Rightarrow> 'f command_outcome" where
  "mode_with_query a args = (if args = [] then acts a else Inr (ActionWithMessage a (join (lit '' '') args)))"

definition execute_prompt_mode_command :: "rstr list \<Rightarrow> (rstr \<times> 'f command_outcome) list" where
  "execute_prompt_mode_command args =
     [(lit ''ask'', mode_with_query (MiscAct SetPromptModeAsk) args), (lit ''edit'', mode_with_query (MiscAct SetPromptModeEdit) args)]"

section \<open>Other commands\<close>

definition git_stdout :: "('w, 'f) command_env \<Rightarrow> rstr list \<Rightarrow> 'w \<Rightarrow> rstr" where
  "git_stdout C args w =
     (case cm_git C args w of Some out \<Rightarrow> if co_success out then co_stdout out else [] | None \<Rightarrow> [])"

text \<open>The content of the command comes from the registry: \<^verbatim>\<open>unwrap\<close> panics when there is no such entry.\<close>

definition cmd_review :: "('w, 'f) command_env \<Rightarrow> registry \<Rightarrow> 'w \<Rightarrow> 'f command_outcome option" where
  "cmd_review C R w =
     (let staged = git_stdout C [lit ''diff'', lit ''--staged''] w;
          diff = (if trim staged = [] then git_stdout C [lit ''diff''] w else staged) in
      map_option (\<lambda>c. says (sc_content c @
          (if trim diff = []
           then [10, 10] @ lit ''No git changes found. Please stage or modify some files first.''
           else [10, 10] @ lit ''Here are the code changes:'' @ [10, 10] @ lit ''```diff'' @ [10] @ trim diff @ [10] @ lit ''```'')))
        (R (lit ''review'')))"

definition cmd_rullama :: "('w, 'f) command_env \<Rightarrow> 'w \<Rightarrow> 'f command_outcome" where
  "cmd_rullama C w =
     (case cm_cwd C w of
        None \<Rightarrow> Inl NoWorkingDirectory
      | Some d \<Rightarrow>
          (case cm_instructions C d w of
             Inl e \<Rightarrow> Inl (InstructionsError e)
           | Inr content \<Rightarrow>
               says (if content = []
                 then lit ''No RULLAMA.md file found in current directory.'' @ [10, 10] @
                   lit ''Create a RULLAMA.md file to add project-specific instructions.'' @ [10] @
                   lit ''You can use @'' @ lit ''file.md syntax to import other markdown files.''
                 else lit ''Loaded project instructions from RULLAMA.md:'' @ [10, 10] @ trim content @ [10, 10] @
                   lit ''These instructions will guide my responses for this project.'')))"

definition cmd_approvals :: "('w, 'f) command_env \<Rightarrow> rstr list \<Rightarrow> 'f command_outcome" where
  "cmd_approvals C args = need_first (lit ''approvals'') args (\<lambda>a.
     if cm_lower C a \<in> {lit ''suggest'', lit ''auto-edit'', lit ''full-auto''} then acts (MiscAct (SetApprovalMode (cm_lower C a)))
     else Inl (InvalidArgument (cm_lower C a)))"

definition execute_misc_command :: "('w, 'f) command_env \<Rightarrow> registry \<Rightarrow> rstr list \<Rightarrow> 'w \<Rightarrow> (rstr \<times> 'f command_outcome option) list" where
  "execute_misc_command C R args w =
     [(lit ''checkpoint'', Some (acts (MiscAct (CreateCheckpoint (first_arg args))))),
      (lit ''restore'', Some (need_first (lit ''restore'') args (\<lambda>i. acts (MiscAct (RestoreCheckpoint i))))),
      (lit ''checkpoints'', Some (acts (MiscAct ListCheckpoints))), (lit ''review'', cmd_review C R w),
      (lit ''rullama'', Some (cmd_rullama C w)),
      (lit ''exec'', Some (need_joined (lit ''exec'') args (\<lambda>c. acts (MiscAct (ExecCommand c))))),
      (lit ''shell'', Some (acts (MiscAct OpenShell))), (lit ''shells'', Some (acts (MiscAct ShowShellHistory))),
      (lit ''hotkeys'', Some (acts (MiscAct OpenHotkeyDialog))), (lit ''keys'', Some (acts (MiscAct OpenHotkeyDialog))),
      (lit ''approvals'', Some (cmd_approvals C args))]"

section \<open>Dispatch\<close>

text \<open>The categories are asked in turn; the first that knows the name answers. \<open>None\<close> is a panic.\<close>

definition builtin_handlers :: "('w, 'f) command_env \<Rightarrow> rstr list \<Rightarrow> registry \<Rightarrow> rstr list \<Rightarrow> 'w \<Rightarrow>
    (rstr \<times> 'f command_outcome option) list" where
  "builtin_handlers C order R args w =
     map (apsnd Some)
       (execute_conversation_command order R args @ execute_plan_command args @ execute_task_command args @
        execute_template_command args @ execute_project_command C args w @ execute_context_command C args @
        execute_tools_command C args @ execute_mdap_command C args @ execute_dream_command @
        execute_knowledge_command C args @ execute_personal_command C args @ execute_agent_command args @
        execute_skill_command args @ execute_prompt_mode_command args) @
     execute_misc_command C R args w"

definition execute_builtin :: "('w, 'f) command_env \<Rightarrow> rstr list \<Rightarrow> registry \<Rightarrow> rstr \<Rightarrow> rstr list \<Rightarrow> 'w \<Rightarrow>
    'f command_outcome option" where
  "execute_builtin C order R name args w =
     (case map_of (builtin_handlers C order R args w) name of
        Some r \<Rightarrow> r | None \<Rightarrow> Some (Inl (UnknownBuiltin name)))"

text \<open>The values of the declared arguments, as far as they are given; a required one may not be missing.\<close>

fun bind_args :: "command_arg list \<Rightarrow> rstr list \<Rightarrow> command_error + (rstr \<times> rstr) list" where
  "bind_args [] vs = Inr []"
| "bind_args (a # as) (v # vs) = and_then (bind_args as vs) (\<lambda>m. Inr ((arg_name a, v) # m))"
| "bind_args (a # as) [] = (if arg_required a then Inl (MissingArgument (arg_name a)) else bind_args as [])"

definition execute_custom :: "((rstr \<times> rstr) list \<Rightarrow> (rstr \<times> rstr) list) \<Rightarrow> slash_command \<Rightarrow> rstr list \<Rightarrow> 'f command_outcome" where
  "execute_custom shuffle c args =
     and_then (bind_args (sc_args c) args) (\<lambda>m.
       says (render_template (sc_content c) (shuffle (fold (\<lambda>(k, v). AList.update k v) m []))))"

definition execute_slash :: "('w, 'f) command_env \<Rightarrow> ((rstr \<times> rstr) list \<Rightarrow> (rstr \<times> rstr) list) \<Rightarrow> rstr list \<Rightarrow> registry \<Rightarrow>
    rstr \<Rightarrow> rstr list \<Rightarrow> 'w \<Rightarrow> 'f command_outcome option" where
  "execute_slash C shuffle order R name args w =
     (case R name of
        None \<Rightarrow> Some (Inl (UnknownCommand name))
      | Some c \<Rightarrow> if sc_builtin c then execute_builtin C order R name args w else Some (execute_custom shuffle c args))"

definition parse_input :: "rstr \<Rightarrow> (rstr \<times> rstr list) option" where
  "parse_input input =
     (case trim input of
        c # rest \<Rightarrow> if c = 47 then (case split_ws rest of [] \<Rightarrow> None | n # args \<Rightarrow> Some (n, args)) else None
      | [] \<Rightarrow> None)"

section \<open>Which commands can be reached\<close>

text \<open>The names the handlers know, those of the registry, and the names no registration has.\<close>

definition handler_names :: "string list" where
  "handler_names =
     [''help'', ''commands'', ''clear'', ''status'', ''model'', ''provider'', ''rewind'', ''resume'', ''exit'',
      ''plan'', ''plans'', ''plan:show'', ''plan:delete'', ''plan:activate'', ''plan:deactivate'',
      ''plan:current'', ''plan:pause'', ''plan:resume'', ''plan:execute'', ''plan:search'', ''plan:branch'',
      ''plan:merge'', ''plan:tree'', ''plan:mode'', ''plan:mode:exit'', ''plan:mode:status'',
      ''plan:mode:clear'', ''plan:mode:export'', ''tasks'', ''task:complete'', ''task:skip'', ''task:add'',
      ''task:start'', ''task:block'', ''task:depends'', ''task:ready'', ''task:time'', ''task:list'',
      ''templates'', ''template:save'', ''template:show'', ''template:use'', ''template:delete'',
      ''project:index'', ''project:query'', ''project:stats'', ''project:search'', ''project:clear'',
      ''project:git-search'', ''project:definition'', ''project:references'', ''project:callgraph'', ''context'',
      ''context:add'', ''context:remove'', ''context:pin'', ''context:unpin'', ''context:clear'', ''tools'',
      ''mdap'', ''mdap:on'', ''mdap:off'', ''mdap:k'', ''mdap:target'', ''dream'', ''dream:status'',
      ''dream:run'', ''learn'', ''knowledge'', ''knowledge:list'', ''knowledge:search'', ''knowledge:sync'',
      ''knowledge:contradict'', ''knowledge:delete'', ''profile'', ''profile:set'', ''profile:name'',
      ''profile:list'', ''profile:search'', ''profile:delete'', ''profile:sync'', ''profile:export'',
      ''profile:import'', ''profile:stats'', ''remember'', ''agents'', ''agent:tree'', ''tree'', ''switch'',
      ''spawn'', ''hibernate'', ''resume:agents'', ''skill'', ''skills'', ''skill:show'', ''skill:reload'',
      ''skill:create'', ''ask'', ''edit'', ''checkpoint'', ''restore'', ''checkpoints'', ''review'', ''rullama'',
      ''exec'', ''shell'', ''shells'', ''hotkeys'', ''keys'', ''approvals'']"

definition registered_names :: "string list" where
  "registered_names =
     [''help'', ''clear'', ''status'', ''model'', ''provider'', ''rewind'', ''review'', ''commands'',
      ''checkpoint'', ''restore'', ''checkpoints'', ''resume'', ''exit'', ''plan'', ''plans'', ''plan:show'',
      ''plan:delete'', ''plan:activate'', ''plan:deactivate'', ''plan:current'', ''plan:pause'', ''plan:resume'',
      ''plan:execute'', ''plan:search'', ''plan:branch'', ''plan:merge'', ''plan:tree'', ''tasks'',
      ''task:complete'', ''task:skip'', ''task:add'', ''task:start'', ''task:block'', ''task:depends'',
      ''task:ready'', ''task:time'', ''task:list'', ''approvals'', ''rullama'', ''exec'', ''shells'', ''shell'',
      ''hotkeys'', ''keys'', ''project:index'', ''project:query'', ''project:stats'', ''project:search'',
      ''project:clear'', ''project:git-search'', ''project:definition'', ''project:references'',
      ''project:callgraph'', ''templates'', ''template:save'', ''template:show'', ''template:use'',
      ''template:delete'', ''context'', ''context:add'', ''context:remove'', ''context:pin'', ''context:unpin'',
      ''context:clear'', ''ask'', ''edit'', ''tools'', ''mdap'', ''mdap:on'', ''mdap:off'', ''mdap:k'',
      ''mdap:target'', ''dream'', ''dream:status'', ''dream:run'', ''learn'', ''knowledge'', ''knowledge:list'',
      ''knowledge:search'', ''knowledge:sync'', ''knowledge:contradict'', ''knowledge:delete'', ''profile'',
      ''profile:set'', ''profile:name'', ''profile:list'', ''profile:search'', ''profile:delete'',
      ''profile:sync'', ''profile:export'', ''profile:import'', ''profile:stats'', ''remember'', ''skill'',
      ''skills'', ''skill:show'', ''skill:reload'', ''skill:create'']"

definition unregistered_names :: "string list" where
  "unregistered_names =
     [''plan:mode'', ''plan:mode:exit'', ''plan:mode:status'', ''plan:mode:clear'', ''plan:mode:export'',
      ''agents'', ''agent:tree'', ''tree'', ''switch'', ''spawn'', ''hibernate'', ''resume:agents'']"

lemmas handler_tables = execute_conversation_command_def execute_plan_command_def execute_task_command_def
  execute_template_command_def execute_project_command_def execute_context_command_def execute_tools_command_def
  execute_mdap_command_def execute_dream_command_def execute_knowledge_command_def execute_personal_command_def
  execute_agent_command_def execute_skill_command_def execute_prompt_mode_command_def execute_misc_command_def

lemma names_of_handlers: "map fst (builtin_handlers C order R args w) = map lit handler_names"
  by (simp add: builtin_handlers_def handler_tables handler_names_def)

lemma with_arg_simps [simp]: "sc_name (with_arg n d r c) = sc_name c" "sc_builtin (with_arg n d r c) = sc_builtin c"
  by (simp_all add: with_arg_def)

lemma builtin_cmd_simps [simp]: "sc_name (builtin_cmd n d c) = n" "sc_builtin (builtin_cmd n d c)"
  by (simp_all add: builtin_cmd_def)

lemmas builtin_tables = builtin_commands_def builtins_from_help_def builtins_from_plan_def builtins_from_plan_branch_def builtins_from_task_depends_def builtins_from_project_search_def builtins_from_template_save_def builtins_from_ask_def builtins_from_knowledge_list_def builtins_from_profile_sync_def

lemma names_of_registry: "map sc_name builtin_commands = map lit registered_names"
  by (simp add: builtin_tables registered_names_def)

lemma builtin_commands_builtin: "list_all sc_builtin builtin_commands"
  by (simp add: builtin_tables)

lemma registered_are_handled: "list_all (\<lambda>n. n \<in> set handler_names) registered_names"
  by (simp add: handler_names_def registered_names_def)

lemma handled_names_split: "list_all (\<lambda>n. n \<in> set registered_names \<or> n \<in> set unregistered_names) handler_names"
  by (simp add: handler_names_def registered_names_def unregistered_names_def)

lemma unregistered_are_handled:
  "list_all (\<lambda>n. n \<in> set handler_names \<and> n \<notin> set registered_names) unregistered_names"
  by (simp add: handler_names_def registered_names_def unregistered_names_def)

lemma lit_eq_iff [simp]: "lit a = lit b \<longleftrightarrow> a = b"
  by (simp add: lit_def inj_map_eq_map inj_def)

lemma register_fold:
  "dom (fold register cs R) = sc_name ` set cs \<union> dom R"
  "(\<And>c. c \<in> ran R \<Longrightarrow> P c) \<Longrightarrow> list_all P cs \<Longrightarrow> fold register cs R n = Some c \<Longrightarrow> P c"
proof -
  show "dom (fold register cs R) = sc_name ` set cs \<union> dom R"
    by (induction cs arbitrary: R) (auto simp: register_def)
  show "(\<And>c. c \<in> ran R \<Longrightarrow> P c) \<Longrightarrow> list_all P cs \<Longrightarrow> fold register cs R n = Some c \<Longrightarrow> P c"
  proof (induction cs arbitrary: R)
    case (Cons a cs)
    have new: "P c" if "c \<in> ran (register a R)" for c
      using Cons.prems(1,2) that by (auto simp: register_def ran_def split: if_splits)
    show ?case using Cons.IH [of "register a R", OF new] Cons.prems by simp
  qed (auto simp: ran_def)
qed

lemma builtin_registry: "dom (load_builtin Map.empty) = lit ` set registered_names"
  "load_builtin Map.empty n = Some c \<Longrightarrow> sc_builtin c"
proof -
  have "sc_name ` set builtin_commands = set (map lit registered_names)"
    by (metis names_of_registry set_map)
  then show "dom (load_builtin Map.empty) = lit ` set registered_names"
    by (simp add: load_builtin_def register_fold)
  show "load_builtin Map.empty n = Some c \<Longrightarrow> sc_builtin c"
    unfolding load_builtin_def by (rule register_fold(2) [OF _ builtin_commands_builtin]) simp_all
qed

lemma handled_iff: "map_of (builtin_handlers C order R args w) n = None \<longleftrightarrow> n \<notin> lit ` set handler_names"
  using names_of_handlers [of C order R args w] by (metis list.set_map map_of_eq_None_iff)

text \<open>
  C9: With the built-in registry a command gets the answer of its handler, unless it is one of the twelve
  names of the multi-agent and plan mode commands, which have a handler but are rejected as unknown because
  nothing registers them; \<^verbatim>\<open>Unknown built-in command\<close> never occurs.
\<close>

theorem dispatch_of_builtins:
  "execute_slash C shuffle order (load_builtin Map.empty) n args w =
     (case map_of (builtin_handlers C order (load_builtin Map.empty) args w) n of
        Some r \<Rightarrow> if n \<in> lit ` set unregistered_names then Some (Inl (UnknownCommand n)) else r
      | None \<Rightarrow> Some (Inl (UnknownCommand n)))"
proof (cases "n \<in> lit ` set registered_names")
  case True
  then obtain m where n: "n = lit m" "m \<in> set registered_names" by blast
  from True builtin_registry(1) obtain c where c: "load_builtin Map.empty n = Some c" by fast
  with builtin_registry(2) have b: "sc_builtin c" by blast
  from n registered_are_handled have "n \<in> lit ` set handler_names" by (auto simp: list_all_iff)
  then obtain r where r: "map_of (builtin_handlers C order (load_builtin Map.empty) args w) n = Some r"
    using handled_iff [of C order "load_builtin Map.empty" args w n] by auto
  from n unregistered_are_handled have "n \<notin> lit ` set unregistered_names" by (auto simp: list_all_iff)
  with c b r show ?thesis by (simp add: execute_slash_def execute_builtin_def)
next
  case False
  with builtin_registry(1) have none: "load_builtin Map.empty n = None" by (metis domIff)
  have "n \<in> lit ` set handler_names \<Longrightarrow> n \<in> lit ` set unregistered_names"
    using False handled_names_split by (auto simp: list_all_iff)
  with none handled_iff [of C order "load_builtin Map.empty" args w n] show ?thesis
    by (auto simp: execute_slash_def split: option.split)
qed

section \<open>No command line panics\<close>

lemma load_entries_dom: "dom R \<subseteq> dom (snd (load_entries C xs w R))"
  by (induction C xs w R rule: load_entries.induct) (auto simp: register_def split: sum.splits if_splits)

lemma executor_has_review: "executor_new C w (lit ''review'') \<noteq> None"
proof -
  have "lit ''review'' \<in> dom (load_builtin Map.empty)"
    by (simp add: builtin_registry registered_names_def)
  moreover have "dom (load_builtin Map.empty) \<subseteq> dom (executor_new C w)"
    using load_entries_dom [of "load_builtin Map.empty" C _ w]
    by (simp add: executor_new_def load_custom_def Let_def split: option.splits sum.splits)
  ultimately show ?thesis by blast
qed


section \<open>The words of a command line\<close>

lemma words_aux_words: "list_all (\<lambda>c. \<not> is_ws c) acc \<Longrightarrow> a \<in> set (words_aux acc s) \<Longrightarrow> list_all (\<lambda>c. \<not> is_ws c) a"
  by (induction acc s rule: words_aux.induct) (auto split: if_splits)

lemma parse_input_words: "parse_input s = Some (n, args) \<Longrightarrow> a \<in> set args \<Longrightarrow> list_all (\<lambda>c. \<not> is_ws c) a"
  using words_aux_words [of "[]" a "drop 1 (trim s)"]
  by (auto simp: parse_input_def split_ws_def split: list.splits if_splits)

text \<open>
  What \<^verbatim>\<open>/learn\<close> takes as the rule is one word: quotes do not group, so a rule in quotes, as its usage
  text shows, is cut at its first space and the second word becomes the rationale.
\<close>

theorem learn_takes_one_word:
  assumes "parse_input s = Some (lit ''learn'', a # args)"
  shows "execute_slash C shuffle order (load_builtin Map.empty) (lit ''learn'') (a # args) w
      = Some (acts (KnowledgeAct (LearnTruth a (first_arg args)))) \<and> list_all (\<lambda>c. \<not> is_ws c) a"
proof -
  have m: "map_of (builtin_handlers C order (load_builtin Map.empty) (a # args) w) (lit ''learn'')
      = Some (Some (cmd_learn (a # args)))"
    by (simp add: builtin_handlers_def handler_tables)
  have "''learn'' \<notin> set unregistered_names" by (simp add: unregistered_names_def)
  with m parse_input_words [OF assms, of a] show ?thesis
    by (auto simp: dispatch_of_builtins cmd_learn_def need_first_def nth_arg_def first_arg_def split: list.split)
qed

lemma learn_takes_one_word_witness:
  "execute_slash C shuffle order (load_builtin Map.empty) (lit ''learn'') [lit ''use'', lit ''x''] w
      = Some (acts (KnowledgeAct (LearnTruth (lit ''use'') (Some (lit ''x'')))))"
proof -
  have "parse_input (lit ''/learn use x'') = Some (lit ''learn'', [lit ''use'', lit ''x''])"
    by (simp add: parse_input_def lit_def trim_def is_ws_def split_ws_def)
  from learn_takes_one_word [OF this, of C shuffle order w] show ?thesis by (simp add: first_arg_def)
qed

end
