(* ===== verification/AgentProcess.thy ===== *)
theory AgentProcess
  imports AgentSession SlashCommands
begin

text \<open>
  The background agent process, \<^verbatim>\<open>apps/cli/src/agent/process.rs\<close>: the handshake with a viewer, the handler
  of each viewer message, the streaming of an answer with its tool calls, the pending request and the
  draining of the message queue. A message handler runs on its connection; what it spawns is a \<open>job\<close>, and
  \<open>proc_step\<close> interleaves messages and jobs at the points where the code gives up the state lock between
  two parts of a job (a stream is one part: it only sends, and records tool outcomes). Sockets, tokens, lock store,
  tool executor, child agents and the framework's message constructors are parameters; a resource lock type
  is its lock type string. An answer that never ends is \<open>None\<close>; a panic ends the task it happens in.
\<close>

section \<open>Messages and environment\<close>

record handshake =
  hk_version :: nat
  hk_is_reattach :: bool
  hk_session_id :: "rstr option"
  hk_session_token :: "rstr option"

record handshake_response =
  hr_accepted :: bool
  hr_session_id :: rstr
  hr_session_token :: "rstr option"
  hr_error :: "rstr option"

datatype child_notify_action = ShutdownIfIdle | ForceShutdown | DetachChildren

datatype 'm viewer_message =
  UserInput rstr "rstr list"
| Cancel
| SyncRequest
| Detach bool
| ExitAgent
| SlashCommand rstr "rstr list"
| ChooseToolMode 'm
| QueueMessage rstr
| AcquireLock rstr rstr rstr
| ReleaseLock rstr rstr
| QueryLocks "rstr option"
| UpdateLockStatus rstr rstr rstr
| ListAgentSessions
| SpawnAgent "rstr option" "rstr option" "rstr option"
| NotifyChildren child_notify_action
| ParentSignal parent_signal rstr
| Disconnect
| EnterPlan "rstr option"
| ExitPlan
| PlanInput rstr "rstr list"
| PlanSyncRequest

record lock_record =
  lr_agent_id :: rstr
  lr_lock_type :: rstr
  lr_resource_path :: rstr
  lr_acquired_at :: int

record ('w, 'j, 'm, 'f) process_env =
  pv_protocol_version :: nat
  pv_read_token :: "rstr \<Rightarrow> 'w \<Rightarrow> rstr + rstr option"
  pv_validate_token :: "rstr \<Rightarrow> rstr \<Rightarrow> 'w \<Rightarrow> bool"
  pv_reattach :: "rstr \<Rightarrow> rstr \<Rightarrow> handshake"
  pv_read_file :: "rstr \<Rightarrow> 'w \<Rightarrow> rstr + rstr"
  pv_execute :: "'j tool_use \<Rightarrow> 'j tool_context \<Rightarrow> 'w \<Rightarrow> ((rstr + tool_result) \<times> 'w) option"
  pv_full_access :: "'j option"
  pv_show_json :: "'j \<Rightarrow> rstr"
  pv_tool_result :: "rstr \<Rightarrow> rstr \<Rightarrow> 'j message"
  pv_save_message :: "rstr \<Rightarrow> rstr \<Rightarrow> rstr \<Rightarrow> 'w \<Rightarrow> 'w"
  pv_warn :: bool
  pv_blocked :: "'w \<Rightarrow> rstr list"
  pv_command :: "rstr \<Rightarrow> rstr list \<Rightarrow> 'w \<Rightarrow> 'f command_outcome option"
  pv_show_error :: "command_error \<Rightarrow> rstr"
  pv_debug :: "'f command_action \<Rightarrow> rstr"
  pv_mode_name :: "'m \<Rightarrow> rstr"
  pv_try_acquire :: "rstr \<Rightarrow> rstr \<Rightarrow> rstr \<Rightarrow> 'w \<Rightarrow> (rstr + bool) \<times> 'w"
  pv_is_locked :: "rstr \<Rightarrow> rstr \<Rightarrow> 'w \<Rightarrow> rstr + lock_record option"
  pv_release :: "rstr \<Rightarrow> rstr \<Rightarrow> rstr \<Rightarrow> 'w \<Rightarrow> (rstr + bool) \<times> 'w"
  pv_list_locks :: "'w \<Rightarrow> rstr + lock_record list"
  pv_known_lock_type :: "rstr \<Rightarrow> bool"
  pv_now_ms :: "'w \<Rightarrow> int"
  pv_sessions :: "'w \<Rightarrow> rstr + rstr list"
  pv_children :: "rstr \<Rightarrow> 'w \<Rightarrow> rstr + rstr list"
  pv_alive :: "rstr \<Rightarrow> 'w \<Rightarrow> bool"
  pv_connect :: "rstr \<Rightarrow> 'w \<Rightarrow> bool \<times> 'w"
  pv_send_handshake :: "rstr \<Rightarrow> handshake \<Rightarrow> 'w \<Rightarrow> bool \<times> 'w"
  pv_read_response :: "rstr \<Rightarrow> 'w \<Rightarrow> handshake_response option \<times> 'w"
  pv_send_message :: "rstr \<Rightarrow> 'm viewer_message \<Rightarrow> 'w \<Rightarrow> bool \<times> 'w"
  pv_spawn_child :: "rstr \<Rightarrow> rstr \<Rightarrow> rstr option \<Rightarrow> rstr option \<Rightarrow> 'w \<Rightarrow> (rstr + rstr) \<times> 'w"
  pv_cleanup :: "rstr \<Rightarrow> 'w \<Rightarrow> 'w"

section \<open>The handshake\<close>

definition refuse :: "rstr \<Rightarrow> handshake_response" where
  "refuse e = \<lparr>hr_accepted = False, hr_session_id = [], hr_session_token = None, hr_error = Some e\<rparr>"

definition shake_hands :: "('w, 'j, 'm, 'f) process_env \<Rightarrow> handshake \<Rightarrow> ('w, 'j, 'm) session \<Rightarrow> handshake_response" where
  "shake_hands P hk s =
     (if hk_version hk \<noteq> pv_protocol_version P \<and> hk_version hk \<noteq> 1
      then refuse (lit ''Protocol version mismatch: expected '' @ show_nat (pv_protocol_version P) @ lit '', got '' @
             show_nat (hk_version hk))
      else
        let provided = (case hk_session_token hk of Some t \<Rightarrow> t | None \<Rightarrow> []) in
        if hk_is_reattach hk \<and> provided = [] then refuse (lit ''Session token required for reattachment'')
        else if hk_is_reattach hk \<and> \<not> pv_validate_token P (as_session_id s) provided (as_world s)
        then refuse (lit ''Invalid session token'')
        else
          \<lparr>hr_accepted = True, hr_session_id = as_session_id s,
           hr_session_token =
             (if hk_is_reattach hk then None
              else case pv_read_token P (as_session_id s) (as_world s) of Inr t \<Rightarrow> t | Inl e \<Rightarrow> None),
           hr_error = None\<rparr>)"

text \<open>What an accepted viewer is sent first.\<close>

definition initial_sync :: "('w, 'j, 'st, 'tr) session_env \<Rightarrow> ('w, 'j, 'm) session \<Rightarrow> ('j, 'm) ipc_message list" where
  "initial_sync V s = [create_sync_message s, create_task_update_message s, get_seal_status V s]"

section \<open>Streaming an answer with its tool calls\<close>

definition system_prompt_of :: "('w, 'j, 'st, 'tr) session_env \<Rightarrow> 'j message list \<Rightarrow> rstr option" where
  "system_prompt_of V h =
     (case find (\<lambda>m. m_role m = SystemRole) h of Some m \<Rightarrow> sv_text V m | None \<Rightarrow> None)"

definition agent_tool_context :: "('w, 'j, 'm, 'f) process_env \<Rightarrow> rstr \<Rightarrow> 'j tool_context" where
  "agent_tool_context P wd =
     \<lparr>ctx_working_directory = wd, ctx_metadata = Map.empty, ctx_capabilities = pv_full_access P\<rparr>"

definition limit_output :: "rstr \<Rightarrow> rstr" where
  "limit_output c =
     (if 10000 < blen c
      then truncate_on_char_boundary c 10000 @ [10, 10] @ lit ''[Output truncated: 10000 of '' @ show_nat (blen c) @
        lit '' characters]''
      else c)"

definition preview_output :: "rstr \<Rightarrow> rstr" where
  "preview_output t = (if 200 < blen t then truncate_on_char_boundary t 200 @ lit ''...'' else t)"

text \<open>A local tool call: \<open>None\<close> inside is an error of the executor, else the output for the provider.\<close>

definition run_local_tool :: "('w, 'j, 'st, 'tr) session_env \<Rightarrow> ('w, 'j, 'm, 'f) process_env \<Rightarrow> rstr \<Rightarrow> rstr \<Rightarrow> rstr \<Rightarrow> 'j \<Rightarrow>
    ('w, 'j, 'm) session \<Rightarrow> (rstr option \<times> ('w, 'j, 'm) session) option" where
  "run_local_tool V P wd i n j s =
     (let s1 = sending (StatusUpdated ([9881, 65039] @ lit '' Executing: '' @ n @ lit ''...''))
                (sending (ToolCallStart i n (Some (lit ''cli-local'')) j) s) in
      case pv_execute P \<lparr>tu_id = i, tu_name = n, tu_input = j\<rparr> (agent_tool_context P wd) (as_world s1) of
        None \<Rightarrow> None
      | Some (Inl e, w2) \<Rightarrow>
          Some (None, sending (ToolResultSent i n None (Some (lit ''Error: '' @ e)))
            (record_tool_outcome V n (pv_show_json P j) False (Some e) (s1\<lparr>as_world := w2\<rparr>)))
      | Some (Inr r, w2) \<Rightarrow>
          let output = limit_output (tr_content r);
              s2 = sending (ToolResultSent i n (if tr_is_error r then None else Some (preview_output output))
                     (if tr_is_error r then Some output else None)) (s1\<lparr>as_world := w2\<rparr>) in
          Some (Some output,
            record_tool_outcome V n (pv_show_json P j) (\<not> tr_is_error r) (if tr_is_error r then Some output else None) s2))"

definition tool_call_message :: "rstr \<Rightarrow> rstr \<Rightarrow> 'j \<Rightarrow> 'j message" where
  "tool_call_message i n j = \<lparr>m_role = AssistantRole, m_content = Blocks [ToolUseBlock i n j]\<rparr>"

definition stream_stop :: "('j, 'm) ipc_message" where
  "stream_stop = StreamEnd (Some (lit ''stop''))"

text \<open>What is made of the answer to a continuation; a long answer is cut at byte 100 for the log line.\<close>

definition after_continuation :: "('w, 'j, 'st, 'tr) session_env \<Rightarrow> rstr \<Rightarrow> rstr ending \<Rightarrow> ('w, 'j, 'm) session \<Rightarrow>
    rstr ending \<times> ('w, 'j, 'm) session" where
  "after_continuation V response r s =
     (case r of
        Returns t \<Rightarrow>
          if sv_info V \<and> 100 < blen t \<and> \<not> on_boundary t 100 then (Panics, s)
          else (Returns (response @ t), sending stream_stop s)
      | Fails e \<Rightarrow>
          (Returns response, sending stream_stop (sending (ErrorSent (lit ''Continuation failed: '' @ e) False) s))
      | Panics \<Rightarrow> (Panics, s))"

partial_function (option) stream_tools :: "('w, 'j, 'st, 'tr) session_env \<Rightarrow> ('w, 'j, 'm, 'f) process_env \<Rightarrow>
    tool_def list \<Rightarrow> rstr \<Rightarrow> 'j message list \<Rightarrow> 'st \<Rightarrow> rstr \<Rightarrow> ('w, 'j, 'm) session \<Rightarrow>
    (rstr ending \<times> ('w, 'j, 'm) session) option" where
  "stream_tools V E tools wd h st response s =
     (case sv_next V st (as_world s) of
        None \<Rightarrow> None
      | Some (item, st1, w1) \<Rightarrow>
          let s1 = s\<lparr>as_world := w1\<rparr> in
          (case item of
             None \<Rightarrow> Some (Returns response, sending stream_stop s1)
           | Some (Inl e) \<Rightarrow> Some (Fails e, sending (ErrorSent e False) s1)
           | Some (Inr c) \<Rightarrow>
               (case c of
                  ChunkText t \<Rightarrow> stream_tools V E tools wd h st1 (response @ t) (sending (StreamChunk t) s1)
                | ChunkDone \<Rightarrow> Some (Returns response, sending stream_stop (sending stream_stop s1))
                | ChunkOther \<Rightarrow> stream_tools V E tools wd h st1 response s1
                | ChunkToolCall i n server j \<Rightarrow>
                    if server \<noteq> lit ''cli-local'' then stream_tools V E tools wd h st1 response s1
                    else
                      (case run_local_tool V E wd i n j s1 of
                         None \<Rightarrow> None
                       | Some (None, s2) \<Rightarrow> stream_tools V E tools wd h st1 response s2
                       | Some (Some output, s2) \<Rightarrow>
                           (let h1 = h @ [tool_call_message i n j, pv_tool_result E i output];
                                s3 = sending (StatusUpdated (lit ''Processing tool result...'')) s2;
                                q = sv_open V h1 tools (system_prompt_of V h1) (as_world s3) in
                            Option.bind (stream_tools V E tools wd h1 (fst q) [] (s3\<lparr>as_world := snd q\<rparr>))
                              (\<lambda>(r, s4). Some (after_continuation V response r s4)))))))"

record 'j run_request =
  rq_history :: "'j message list"
  rq_tools :: "tool_def list"
  rq_model :: rstr
  rq_working_directory :: rstr

definition request_of :: "('w, 'j, 'm) session \<Rightarrow> 'j run_request" where
  "request_of s =
     \<lparr>rq_history = as_history s, rq_tools = as_tools s @ as_mcp_tools s, rq_model = as_model s,
      rq_working_directory = as_working_directory s\<rparr>"

definition stream_with_tool_execution :: "('w, 'j, 'st, 'tr) session_env \<Rightarrow> ('w, 'j, 'm, 'f) process_env \<Rightarrow> 'j run_request \<Rightarrow>
    ('w, 'j, 'm) session \<Rightarrow> (rstr ending \<times> ('w, 'j, 'm) session) option" where
  "stream_with_tool_execution V P rq s =
     (case sv_open V (rq_history rq) (rq_tools rq) (system_prompt_of V (rq_history rq)) (as_world s) of
        (st, w) \<Rightarrow>
          stream_tools V P (rq_tools rq) (rq_working_directory rq) (rq_history rq) st [] (s\<lparr>as_world := w\<rparr>))"

section \<open>Jobs\<close>

text \<open>
  What handlers spawn. A job is waiting for the state lock or for its stream: the pending request before and
  after it took its request, a user's run, the drain of the queue between two messages and within one, and a
  turn of plan mode.
\<close>

datatype 'j job =
  PendingStart | PendingRun "'j run_request" | UserRun "'j run_request" | Draining
| QueuedRun queued_message "'j run_request" | PlanTurn rstr

definition ready_status :: "rstr \<Rightarrow> rstr" where
  "ready_status model = lit ''Ready - Model: '' @ model"

definition announce_last :: "('w, 'j, 'm) session \<Rightarrow> ('w, 'j, 'm) session" where
  "announce_last s =
     sending (StatusUpdated (as_status s))
       (if as_messages s = [] then s else sending (MessageAdded (last (as_messages s))) s)"

text \<open>The end of a run that returned: the answer becomes a message, the session is idle again.\<close>

definition settle_answer :: "('w, 'j, 'st, 'tr) session_env \<Rightarrow> rstr \<Rightarrow> rstr \<Rightarrow> ('w, 'j, 'm) session \<Rightarrow> ('w, 'j, 'm) session" where
  "settle_answer V model answer s =
     (add_assistant_message V answer s)\<lparr>as_is_busy := False, as_status := ready_status model\<rparr>"

definition announce_failure :: "rstr \<Rightarrow> rstr \<Rightarrow> ('w, 'j, 'm) session \<Rightarrow> ('w, 'j, 'm) session" where
  "announce_failure intro e s =
     (let s1 = s\<lparr>as_is_busy := False, as_status := intro @ e\<rparr> in
      sending (StatusUpdated (as_status s1)) (sending (ErrorSent e False) s1))"

text \<open>A user message is preprocessed and added; the session is busy with its request.\<close>

definition take_input :: "('w, 'j, 'st, 'tr) session_env \<Rightarrow> rstr \<Rightarrow> rstr \<Rightarrow> ('w, 'j, 'm) session \<Rightarrow>
    'j run_request ending \<times> ('w, 'j, 'm) session" where
  "take_input V status t s =
     (case seal_preprocess V t s of
        (resolved, s1) \<Rightarrow>
          run_then (add_user_message V resolved s1) (\<lambda>_ s2.
            let s3 = s2\<lparr>as_is_busy := True, as_status := status\<rparr> in (Returns (request_of s3), s3)))"

definition pending_status :: rstr where
  "pending_status = lit ''Processing pending request...''"

definition queued_status :: rstr where
  "queued_status = lit ''Processing queued message...''"

definition begin_pending :: "('w, 'j, 'm) session \<Rightarrow> 'j job list \<times> ('w, 'j, 'm) session" where
  "begin_pending s =
     (let s1 = s\<lparr>as_has_pending_request := False, as_is_busy := True, as_status := pending_status\<rparr> in
      ([PendingRun (request_of s1)], sending (StatusUpdated pending_status) s1))"

text \<open>\<^verbatim>\<open>?\<close> leaves before the session is idle again.\<close>

definition finish_pending :: "('w, 'j, 'st, 'tr) session_env \<Rightarrow> ('w, 'j, 'm, 'f) process_env \<Rightarrow> 'j run_request \<Rightarrow>
    rstr ending \<Rightarrow> ('w, 'j, 'm) session \<Rightarrow> 'j job list \<times> ('w, 'j, 'm) session" where
  "finish_pending V P rq r s =
     (case r of
        Returns answer \<Rightarrow>
          ([], announce_last (in_world (pv_save_message P (as_session_id s) answer (rq_model rq))
                 (settle_answer V (rq_model rq) answer s)))
      | Fails e \<Rightarrow> ([], s)
      | Panics \<Rightarrow> ([], s))"

definition finish_user :: "('w, 'j, 'st, 'tr) session_env \<Rightarrow> 'j run_request \<Rightarrow> rstr ending \<Rightarrow> ('w, 'j, 'm) session \<Rightarrow>
    'j job list \<times> ('w, 'j, 'm) session" where
  "finish_user V rq r s =
     (case r of
        Returns answer \<Rightarrow>
          let s1 = announce_last (settle_answer V (rq_model rq) answer s) in
          (if mq_queue (as_queue s1) = [] then [] else [Draining], s1)
      | Fails e \<Rightarrow> ([], announce_failure (lit ''Error: '') e s)
      | Panics \<Rightarrow> ([], s))"

definition next_queued :: "('w, 'j, 'st, 'tr) session_env \<Rightarrow> ('w, 'j, 'm) session \<Rightarrow> 'j job list \<times> ('w, 'j, 'm) session" where
  "next_queued V s =
     (case mq_pop SaveOk (as_queue s) Absent of
        (None, q, d) \<Rightarrow> ([], s)
      | (Some m, q, d) \<Rightarrow>
          (case take_input V queued_status (qm_content m) (s\<lparr>as_queue := q\<rparr>) of
             (Returns rq, s1) \<Rightarrow> ([QueuedRun m rq], sending (StatusUpdated queued_status) s1)
           | (_, s1) \<Rightarrow> ([], s1)))"

definition finish_queued :: "('w, 'j, 'st, 'tr) session_env \<Rightarrow> ('w, 'j, 'm, 'f) process_env \<Rightarrow> queued_message \<Rightarrow>
    'j run_request \<Rightarrow> rstr ending \<Rightarrow> ('w, 'j, 'm) session \<Rightarrow> 'j job list \<times> ('w, 'j, 'm) session" where
  "finish_queued V P m rq r s =
     (case r of
        Returns answer \<Rightarrow> ([Draining], announce_last (settle_answer V (rq_model rq) answer s))
      | Fails e \<Rightarrow>
          (case requeue (pv_warn P) SaveOk m (as_queue s) Absent of
             None \<Rightarrow> ([], s)
           | Some (res, q, d) \<Rightarrow>
               ([], announce_failure (lit ''Error processing queued message: '') e (s\<lparr>as_queue := q\<rparr>)))
      | Panics \<Rightarrow> ([], s))"

definition job_step :: "('w, 'j, 'st, 'tr) session_env \<Rightarrow> ('w, 'j, 'm, 'f) process_env \<Rightarrow> 'j job \<Rightarrow> ('w, 'j, 'm) session \<Rightarrow>
    ('j job list \<times> ('w, 'j, 'm) session) option" where
  "job_step V P j s =
     (case j of
        PendingStart \<Rightarrow> Some (begin_pending s)
      | PendingRun rq \<Rightarrow>
          map_option (\<lambda>(r, s1). finish_pending V P rq r s1) (stream_with_tool_execution V P rq s)
      | UserRun rq \<Rightarrow> map_option (\<lambda>(r, s1). finish_user V rq r s1) (stream_with_tool_execution V P rq s)
      | Draining \<Rightarrow> Some (next_queued V s)
      | QueuedRun m rq \<Rightarrow>
          map_option (\<lambda>(r, s1). finish_queued V P m rq r s1) (stream_with_tool_execution V P rq s)
      | PlanTurn t \<Rightarrow>
          map_option (\<lambda>(r, s1). ([], case r of
              Fails e \<Rightarrow> sending (ErrorSent (lit ''Plan mode error: '' @ e) False) s1 | _ \<Rightarrow> s1))
            (process_plan_mode_input V t s))"

section \<open>The handlers of viewer messages\<close>

text \<open>A handler ends with whether the connection is to close, or an error; it leaves jobs and the session.\<close>

type_synonym ('w, 'j, 'm) handled = "bool ending \<times> 'j job list \<times> ('w, 'j, 'm) session"

definition going_on :: "('w, 'j, 'm) session \<Rightarrow> ('w, 'j, 'm) handled" where
  "going_on s = (Returns False, [], s)"

definition context_block :: "rstr \<Rightarrow> rstr \<Rightarrow> rstr" where
  "context_block p t =
     [10] @ lit ''--- Context File: '' @ p @ lit '' ---'' @ [10] @ t @ [10] @ lit ''--- End of '' @ p @ lit '' ---'' @ [10]"

definition with_context_files :: "('w, 'j, 'm, 'f) process_env \<Rightarrow> rstr \<Rightarrow> rstr list \<Rightarrow> 'w \<Rightarrow> rstr" where
  "with_context_files P content files w =
     (let blocks = concat (map (\<lambda>p. case pv_read_file P p w of Inr t \<Rightarrow> context_block p t | Inl e \<Rightarrow> []) files) in
      if blocks = [] then content else content @ [10, 10] @ lit ''# Referenced Files'' @ [10] @ blocks)"

definition streaming_status :: rstr where
  "streaming_status = lit ''Streaming response...''"

definition handle_user_input :: "('w, 'j, 'st, 'tr) session_env \<Rightarrow> ('w, 'j, 'm, 'f) process_env \<Rightarrow> rstr \<Rightarrow> rstr list \<Rightarrow>
    ('w, 'j, 'm) session \<Rightarrow> ('w, 'j, 'm) handled" where
  "handle_user_input V P content files s =
     (case take_input V streaming_status (with_context_files P content files (as_world s)) s of
        (Returns rq, s1) \<Rightarrow>
          (Returns False, [UserRun rq],
           sending (StatusUpdated streaming_status)
             (sending (MessageAdded (last (as_messages s1))) (sending (Ack (lit ''user_input'')) s1)))
      | (Fails e, s1) \<Rightarrow> (Fails e, [], s1)
      | (Panics, s1) \<Rightarrow> (Panics, [], s1))"

definition handle_cancel :: "('w, 'j, 'm) session \<Rightarrow> ('w, 'j, 'm) handled" where
  "handle_cancel s =
     going_on (sending (Ack (lit ''cancel''))
       (s\<lparr>as_cancellation_token := None, as_is_busy := False, as_status := lit ''Cancelled''\<rparr>))"

definition handle_exit :: "('w, 'j, 'm) session \<Rightarrow> ('w, 'j, 'm) handled" where
  "handle_exit s =
     (Returns True, [], (sending (Ack (lit ''exit'')) s)\<lparr>as_exit_when_done := True, as_is_busy := False\<rparr>)"

text \<open>Slash commands.\<close>

definition is_command_blocked :: "rstr list \<Rightarrow> rstr \<Rightarrow> bool" where
  "is_command_blocked blocked c \<longleftrightarrow> list_ex (\<lambda>b. ascii_lower b = ascii_lower c) blocked"

definition to_history :: "rstr \<Rightarrow> ('w, 'j, 'm) session \<Rightarrow> ('w, 'j, 'm) session" where
  "to_history t s = s\<lparr>as_history := as_history s @ [user_text t]\<rparr>"

definition status_text :: "('w, 'j, 'm) session \<Rightarrow> rstr" where
  "status_text s =
     lit ''Session: '' @ as_session_id s @ [10] @ lit ''Model: '' @ as_model s @ [10] @
     lit ''Messages: '' @ show_nat (length (as_messages s)) @ [10] @ lit ''Status: '' @ as_status s"

text \<open>Success, the action taken, an error, and the session.\<close>

fun remote_action :: "rstr \<Rightarrow> 'f command_action \<Rightarrow> ('w, 'j, 'm) session \<Rightarrow>
    (bool \<times> rstr option \<times> rstr option) \<times> ('w, 'j, 'm) session" where
  "remote_action shown (ConversationAct ClearHistory) s =
     ((True, Some (lit ''history_cleared''), None), s\<lparr>as_messages := [], as_history := []\<rparr>)"
| "remote_action shown (ConversationAct ShowStatus) s =
     ((True, Some (lit ''status_shown: '' @ status_text s), None), sending (StatusUpdated (status_text s)) s)"
| "remote_action shown (ConversationAct ExitApp) s =
     ((True, Some (lit ''exit_requested''), None), s\<lparr>as_exit_when_done := True, as_is_busy := False\<rparr>)"
| "remote_action shown (ConversationAct (SwitchModel m)) s =
     ((True, Some (lit ''model_switched: '' @ m), None), s\<lparr>as_model := m\<rparr>)"
| "remote_action shown (MiscAct (ExecCommand c)) s =
     ((False, None, Some (lit ''ExecCommand is blocked for remote execution'')), s)"
| "remote_action shown a s = ((True, Some shown, None), s)"

definition handle_command_result :: "('w, 'j, 'st, 'tr) session_env \<Rightarrow> ('w, 'j, 'm, 'f) process_env \<Rightarrow> rstr \<Rightarrow>
    'f command_outcome \<Rightarrow> ('w, 'j, 'm) session \<Rightarrow> ('w, 'j, 'm) handled" where
  "handle_command_result V P command r s =
     (case r of
        Inr (CommandMessage t) \<Rightarrow>
          if sv_info V \<and> \<not> on_boundary t (min (blen t) 100) then (Panics, [], s)
          else going_on (sending (SlashCommandResult command True (Some t) (Some (lit ''message_added'')) None False)
                 (to_history t s))
      | Inr (Help lines) \<Rightarrow>
          going_on (sending (SlashCommandResult command True (Some (join [10] lines)) (Some (lit ''help_displayed'')) None False) s)
      | Inr (ActionWithMessage a t) \<Rightarrow>
          going_on (sending (SlashCommandResult command True (Some t)
            (Some (lit ''action_with_message: '' @ pv_debug P a)) None False) (to_history t s))
      | Inr (CommandActs a) \<Rightarrow>
          (case remote_action (pv_debug P a) a s of
             ((ok, taken, err), s1) \<Rightarrow> going_on (sending (SlashCommandResult command ok None taken err False) s1))
      | Inl e \<Rightarrow> going_on (sending (SlashCommandResult command False None None (Some (pv_show_error P e)) False) s))"

definition handle_slash_command :: "('w, 'j, 'st, 'tr) session_env \<Rightarrow> ('w, 'j, 'm, 'f) process_env \<Rightarrow> rstr \<Rightarrow> rstr list \<Rightarrow>
    ('w, 'j, 'm) session \<Rightarrow> ('w, 'j, 'm) handled" where
  "handle_slash_command V P command args s =
     (if is_command_blocked (pv_blocked P (as_world s)) command
      then going_on (sending (SlashCommandResult command False None None
             (Some (lit ''Command '' @ [39] @ command @ [39] @ lit '' is blocked for remote execution'')) True) s)
      else
        case pv_command P command args (as_world s) of
          None \<Rightarrow> (Panics, [], s)
        | Some r \<Rightarrow> handle_command_result V P command r s)"

definition queue_full_text :: "nat \<Rightarrow> rstr" where
  "queue_full_text n = lit ''Message queue is full (max '' @ show_nat n @ lit '')''"

definition handle_queue_message :: "('w, 'j, 'st, 'tr) session_env \<Rightarrow> rstr \<Rightarrow> ('w, 'j, 'm) session \<Rightarrow> ('w, 'j, 'm) handled" where
  "handle_queue_message V content s =
     (case sv_fresh V (as_world s) of
        (uuid, w1) \<Rightarrow>
          (case push_content SaveOk uuid (sv_now V w1) content (as_queue s) Absent of
             (Inr u, q, d) \<Rightarrow>
               let s1 = s\<lparr>as_queue := q, as_world := w1\<rparr> in
               if sv_info V \<and> \<not> on_boundary content (min (blen content) 50) then (Panics, [], s1)
               else going_on (sending (Ack (lit ''queue_message'')) s1)
           | (Inl e, q, d) \<Rightarrow>
               going_on (sending (ErrorSent (lit ''Failed to queue message: '' @ queue_full_text (mq_max_size q)) False)
                 (s\<lparr>as_queue := q, as_world := w1\<rparr>))))"


definition handle_sync_request :: "('w, 'j, 'm) session \<Rightarrow> ('w, 'j, 'm) handled" where
  "handle_sync_request s = going_on (sending (create_task_update_message s) (sending (create_sync_message s) s))"

definition handle_detach :: "bool \<Rightarrow> ('w, 'j, 'm) session \<Rightarrow> ('w, 'j, 'm) handled" where
  "handle_detach exit_when_done s =
     going_on (sending (Ack (lit ''detach'')) (s\<lparr>as_exit_when_done := exit_when_done\<rparr>))"

definition handle_tool_mode :: "('w, 'j, 'm, 'f) process_env \<Rightarrow> 'm \<Rightarrow> ('w, 'j, 'm) session \<Rightarrow> ('w, 'j, 'm) handled" where
  "handle_tool_mode P mode s =
     (let status = lit ''Tool mode: '' @ pv_mode_name P mode in
      going_on (sending (StatusUpdated status) (sending (Ack (lit ''set_tool_mode''))
        (s\<lparr>as_tool_mode := mode, as_status := status\<rparr>))))"

text \<open>Locks.\<close>

definition this_lock :: "('w, 'j, 'm) session \<Rightarrow> rstr \<Rightarrow> rstr \<Rightarrow> rstr \<Rightarrow> rstr \<Rightarrow> lock_info" where
  "this_lock s resource scope descr status =
     \<lparr>li_agent_id = as_session_id s, li_resource_type = resource, li_scope = scope, li_description = descr,
      li_status = status, li_held_for_secs = 0\<rparr>"

definition handle_acquire_lock :: "('w, 'j, 'm, 'f) process_env \<Rightarrow> rstr \<Rightarrow> rstr \<Rightarrow> rstr \<Rightarrow> ('w, 'j, 'm) session \<Rightarrow>
    ('w, 'j, 'm) handled" where
  "handle_acquire_lock P resource scope descr s =
     (case pv_try_acquire P resource scope (as_session_id s) (as_world s) of
        (Inr True, w1) \<Rightarrow>
          going_on (sending (LockResult True resource scope None None)
            (sending (LockChanged LockAcquired (this_lock s resource scope descr (lit ''active'')))
              (s\<lparr>as_world := w1\<rparr>)))
      | (Inr False, w1) \<Rightarrow>
          let holder = (case pv_is_locked P resource scope w1 of Inr (Some r) \<Rightarrow> Some (lr_agent_id r) | _ \<Rightarrow> None) in
          going_on (sending (LockResult False resource scope (Some (lit ''Lock held by another agent'')) holder)
            (s\<lparr>as_world := w1\<rparr>))
      | (Inl e, w1) \<Rightarrow>
          going_on (sending (LockResult False resource scope (Some (lit ''Lock acquisition failed: '' @ e)) None)
            (s\<lparr>as_world := w1\<rparr>)))"

definition handle_release_lock :: "('w, 'j, 'm, 'f) process_env \<Rightarrow> rstr \<Rightarrow> rstr \<Rightarrow> ('w, 'j, 'm) session \<Rightarrow>
    ('w, 'j, 'm) handled" where
  "handle_release_lock P resource scope s =
     (case pv_release P resource scope (as_session_id s) (as_world s) of
        (r, w1) \<Rightarrow>
          let s1 = s\<lparr>as_world := w1\<rparr>;
              s2 = (if r = Inr True
                    then sending (LockChanged LockFreed (this_lock s resource scope [] (lit ''released''))) s1 else s1) in
          going_on (sending (LockReleased resource scope) s2))"

definition lock_view :: "('w, 'j, 'm, 'f) process_env \<Rightarrow> int \<Rightarrow> lock_record \<Rightarrow> lock_info option" where
  "lock_view P now r =
     (if pv_known_lock_type P (lr_lock_type r)
      then Some \<lparr>li_agent_id = lr_agent_id r, li_resource_type = lr_lock_type r, li_scope = lr_resource_path r,
             li_description = [], li_status = lit ''active'', li_held_for_secs = nat ((now - lr_acquired_at r) div 1000)\<rparr>
      else None)"

definition handle_query_locks :: "('w, 'j, 'm, 'f) process_env \<Rightarrow> rstr option \<Rightarrow> ('w, 'j, 'm) session \<Rightarrow>
    ('w, 'j, 'm) handled" where
  "handle_query_locks P scope s =
     (let locks = (case pv_list_locks P (as_world s) of
            Inl e \<Rightarrow> []
          | Inr rs \<Rightarrow>
              List.map_filter (lock_view P (pv_now_ms P (as_world s)))
                (filter (\<lambda>r. case scope of None \<Rightarrow> True | Some p \<Rightarrow> take (length p) (lr_resource_path r) = p) rs)) in
      going_on (sending (LockStatus locks) s))"

definition handle_update_lock_status :: "rstr \<Rightarrow> rstr \<Rightarrow> rstr \<Rightarrow> ('w, 'j, 'm) session \<Rightarrow> ('w, 'j, 'm) handled" where
  "handle_update_lock_status resource scope status s = going_on (sending (Ack (lit ''update_lock_status'')) s)"

text \<open>Other agents.\<close>

definition handle_list_agents :: "('w, 'j, 'm, 'f) process_env \<Rightarrow> ('w, 'j, 'm) session \<Rightarrow> ('w, 'j, 'm) handled" where
  "handle_list_agents P s =
     going_on (sending (AgentList (case pv_sessions P (as_world s) of Inr agents \<Rightarrow> agents | Inl e \<Rightarrow> [])) s)"

definition handle_spawn_agent :: "('w, 'j, 'm, 'f) process_env \<Rightarrow> rstr option \<Rightarrow> rstr option \<Rightarrow> rstr option \<Rightarrow>
    ('w, 'j, 'm) session \<Rightarrow> ('w, 'j, 'm) handled" where
  "handle_spawn_agent P model reason wd s =
     (let why = (case reason of Some r \<Rightarrow> r | None \<Rightarrow> lit ''Child agent'') in
      case pv_spawn_child P (as_session_id s) why model wd (as_world s) of
        (Inr child, w1) \<Rightarrow>
          going_on (sending (AgentSpawned child (as_session_id s) why
              (case model of Some m \<Rightarrow> m | None \<Rightarrow> lit ''default''))
            (s\<lparr>as_world := w1\<rparr>))
      | (Inl e, w1) \<Rightarrow>
          going_on (sending (ErrorSent (lit ''Failed to spawn child agent: '' @ e) False) (s\<lparr>as_world := w1\<rparr>)))"

text \<open>Another agent is told something over an authenticated connection; the flag says whether it was sent.\<close>

definition tell_agent :: "('w, 'j, 'm, 'f) process_env \<Rightarrow> 'm viewer_message \<Rightarrow> rstr \<Rightarrow> 'w \<Rightarrow> bool \<times> 'w" where
  "tell_agent P m agent w =
     (case pv_read_token P agent w of
        Inr (Some t) \<Rightarrow>
          (case pv_connect P agent w of
             (False, w1) \<Rightarrow> (False, w1)
           | (True, w1) \<Rightarrow>
               (case pv_send_handshake P agent (pv_reattach P agent t) w1 of
                  (False, w2) \<Rightarrow> (False, w2)
                | (True, w2) \<Rightarrow>
                    (case pv_read_response P agent w2 of
                       (Some r, w3) \<Rightarrow> if hr_accepted r then pv_send_message P agent m w3 else (False, w3)
                     | (None, w3) \<Rightarrow> (False, w3))))
      | _ \<Rightarrow> (False, w))"

definition notify_child :: "('w, 'j, 'm, 'f) process_env \<Rightarrow> parent_signal \<Rightarrow> rstr \<Rightarrow> rstr \<Rightarrow> 'w \<Rightarrow> bool \<times> 'w" where
  "notify_child P signal parent child w =
     (if pv_alive P child w then tell_agent P (ParentSignal signal parent) child w else (False, w))"

fun notify_all :: "('w, 'j, 'm, 'f) process_env \<Rightarrow> parent_signal \<Rightarrow> rstr \<Rightarrow> rstr list \<Rightarrow> 'w \<Rightarrow> rstr list \<times> 'w" where
  "notify_all P signal parent [] w = ([], w)"
| "notify_all P signal parent (c # cs) w =
     (case notify_child P signal parent c w of
        (told, w1) \<Rightarrow> apfst (\<lambda>ns. if told then c # ns else ns) (notify_all P signal parent cs w1))"

fun child_signal :: "child_notify_action \<Rightarrow> parent_signal" where
  "child_signal ShutdownIfIdle = ParentExiting"
| "child_signal ForceShutdown = Shutdown"
| "child_signal DetachChildren = Detached"

fun show_notify_action :: "child_notify_action \<Rightarrow> rstr" where
  "show_notify_action ShutdownIfIdle = lit ''ShutdownIfIdle''"
| "show_notify_action ForceShutdown = lit ''ForceShutdown''"
| "show_notify_action DetachChildren = lit ''Detach''"

definition handle_notify_children :: "('w, 'j, 'm, 'f) process_env \<Rightarrow> child_notify_action \<Rightarrow> ('w, 'j, 'm) session \<Rightarrow>
    ('w, 'j, 'm) handled" where
  "handle_notify_children P action s =
     (case pv_children P (as_session_id s) (as_world s) of
        Inl e \<Rightarrow> going_on (sending (Ack (lit ''notify_children'')) s)
      | Inr children \<Rightarrow>
          (case notify_all P (child_signal action) (as_session_id s) children (as_world s) of
             (told, w1) \<Rightarrow>
               going_on (sending (Ack (lit ''notify_children''))
                 (sending (AgentExiting (as_session_id s) (lit ''NotifyChildren action: '' @ show_notify_action action) told)
                   (s\<lparr>as_world := w1\<rparr>)))))"

definition handle_parent_signal :: "parent_signal \<Rightarrow> rstr \<Rightarrow> ('w, 'j, 'm) session \<Rightarrow> ('w, 'j, 'm) handled" where
  "handle_parent_signal signal parent s =
     (case signal of
        Shutdown \<Rightarrow> (Returns True, [], s)
      | ParentExiting \<Rightarrow>
          going_on (sending (ParentSignalReceived signal parent) (s\<lparr>as_exit_when_done := True\<rparr>))
      | Detached \<Rightarrow> going_on (sending (ParentSignalReceived signal parent) s))"

text \<open>Plan mode.\<close>

definition answer_plan :: "rstr \<Rightarrow> ('j, 'm) ipc_message ending \<times> ('w, 'j, 'm) session \<Rightarrow> ('w, 'j, 'm) handled" where
  "answer_plan what r =
     (case r of
        (Returns m, s1) \<Rightarrow> going_on (sending m s1)
      | (Fails e, s1) \<Rightarrow> going_on (sending (ErrorSent (lit ''Failed to '' @ what @ lit '' plan mode: '' @ e) False) s1)
      | (Panics, s1) \<Rightarrow> (Panics, [], s1))"

definition handle_plan_input :: "('w, 'j, 'm, 'f) process_env \<Rightarrow> rstr \<Rightarrow> rstr list \<Rightarrow> ('w, 'j, 'm) session \<Rightarrow>
    ('w, 'j, 'm) handled" where
  "handle_plan_input P content files s = (Returns False, [PlanTurn (with_context_files P content files (as_world s))], s)"

definition handle_plan_sync_request :: "('w, 'j, 'm) session \<Rightarrow> ('w, 'j, 'm) handled" where
  "handle_plan_sync_request s =
     going_on (sending (if as_is_plan_mode s then create_plan_mode_sync_message s else create_sync_message s) s)"

definition handle_viewer_message :: "('w, 'j, 'st, 'tr) session_env \<Rightarrow> ('w, 'j, 'm, 'f) process_env \<Rightarrow>
    'm viewer_message \<Rightarrow> ('w, 'j, 'm) session \<Rightarrow> ('w, 'j, 'm) handled" where
  "handle_viewer_message V P m s =
     (case m of
        UserInput content files \<Rightarrow> handle_user_input V P content files s
      | Cancel \<Rightarrow> handle_cancel s
      | SyncRequest \<Rightarrow> handle_sync_request s
      | Detach e \<Rightarrow> handle_detach e s
      | ExitAgent \<Rightarrow> handle_exit s
      | SlashCommand command args \<Rightarrow> handle_slash_command V P command args s
      | ChooseToolMode mode \<Rightarrow> handle_tool_mode P mode s
      | QueueMessage content \<Rightarrow> handle_queue_message V content s
      | AcquireLock resource scope descr \<Rightarrow> handle_acquire_lock P resource scope descr s
      | ReleaseLock resource scope \<Rightarrow> handle_release_lock P resource scope s
      | QueryLocks scope \<Rightarrow> handle_query_locks P scope s
      | UpdateLockStatus resource scope status \<Rightarrow> handle_update_lock_status resource scope status s
      | ListAgentSessions \<Rightarrow> handle_list_agents P s
      | SpawnAgent model reason wd \<Rightarrow> handle_spawn_agent P model reason wd s
      | NotifyChildren action \<Rightarrow> handle_notify_children P action s
      | ParentSignal signal parent \<Rightarrow> handle_parent_signal signal parent s
      | Disconnect \<Rightarrow> going_on (sending (Ack (lit ''disconnect'')) s)
      | EnterPlan focus \<Rightarrow> answer_plan (lit ''enter'') (enter_plan_mode V focus s)
      | ExitPlan \<Rightarrow> answer_plan (lit ''exit'') (exit_plan_mode V s)
      | PlanInput content files \<Rightarrow> handle_plan_input P content files s
      | PlanSyncRequest \<Rightarrow> handle_plan_sync_request s)"

section \<open>The process\<close>

definition check_exit_condition :: "('w, 'j, 'm) session \<Rightarrow> bool" where
  "check_exit_condition s \<longleftrightarrow> as_exit_when_done s \<and> \<not> as_is_busy s"

definition start_process :: "('w, 'j, 'st, 'tr) session_env \<Rightarrow> ('w, 'j, 'm) session \<Rightarrow> ('w, 'j, 'm) session \<times> 'j job list" where
  "start_process V s =
     (let s1 = initialize_mcp V s in (s1, if as_has_pending_request s1 then [PendingStart] else []))"

definition stop_process :: "('w, 'j, 'm, 'f) process_env \<Rightarrow> ('w, 'j, 'm) session \<Rightarrow> ('w, 'j, 'm) session" where
  "stop_process P s =
     in_world (\<lambda>w. pv_cleanup P (as_session_id s)
       (case pv_children P (as_session_id s) w of
          Inl e \<Rightarrow> w | Inr cs \<Rightarrow> snd (notify_all P ParentExiting (as_session_id s) cs w))) s"

inductive proc_step :: "('w, 'j, 'st, 'tr) session_env \<Rightarrow> ('w, 'j, 'm, 'f) process_env \<Rightarrow>
    ('w, 'j, 'm) session \<times> 'j job list \<Rightarrow> ('w, 'j, 'm) session \<times> 'j job list \<Rightarrow> bool" for V P where
  viewer: "handle_viewer_message V P m s = (r, js, s') \<Longrightarrow> proc_step V P (s, jobs) (s', jobs @ js)"
| working: "job_step V P j s = Some (js, s') \<Longrightarrow> proc_step V P (s, before @ j # after) (s', before @ after @ js)"

inductive_cases proc_stepE: "proc_step V P (s, jobs) y"

text \<open>The oldest job first, for as many steps as given.\<close>

fun work_off :: "nat \<Rightarrow> ('w, 'j, 'st, 'tr) session_env \<Rightarrow> ('w, 'j, 'm, 'f) process_env \<Rightarrow> 'j job list \<Rightarrow>
    ('w, 'j, 'm) session \<Rightarrow> ('j job list \<times> ('w, 'j, 'm) session) option" where
  "work_off 0 V P jobs s = Some (jobs, s)"
| "work_off (Suc n) V P [] s = Some ([], s)"
| "work_off (Suc n) V P (j # jobs) s =
     (case job_step V P j s of None \<Rightarrow> None | Some (js, s1) \<Rightarrow> work_off n V P (jobs @ js) s1)"

section \<open>Who is let in\<close>

definition known_version :: "('w, 'j, 'm, 'f) process_env \<Rightarrow> handshake \<Rightarrow> bool" where
  "known_version P hk \<longleftrightarrow> hk_version hk \<in> {1, pv_protocol_version P}"

text \<open>
  C28: A viewer of a known protocol version that reattaches is let in exactly when it shows a token that is
  valid for the session; one that does not say it reattaches is let in without any, and is handed the token.
\<close>

theorem handshake_authentication:
  assumes "known_version P hk"
  shows "hr_accepted (shake_hands P hk s) =
      (hk_is_reattach hk \<longrightarrow>
        (\<exists>t. hk_session_token hk = Some t \<and> t \<noteq> [] \<and> pv_validate_token P (as_session_id s) t (as_world s)))
    \<and> (hr_session_token (shake_hands P hk s) = Some t \<longleftrightarrow>
        \<not> hk_is_reattach hk \<and> pv_read_token P (as_session_id s) (as_world s) = Inr (Some t))"
  using assms
  by (auto simp: known_version_def shake_hands_def refuse_def Let_def split: option.splits sum.splits)

section \<open>A stream leaves the session alone\<close>

text \<open>The session up to what was sent and the world.\<close>

definition session_core :: "('w, 'j, 'm) session \<Rightarrow> ('w, 'j, 'm) session" where
  "session_core s = s\<lparr>as_sent := [], as_world := undefined\<rparr>"

lemma only_sends_core: "only_sends s s' \<longleftrightarrow> session_core s' = session_core s"
  by (cases s; cases s'; auto simp: only_sends_def session_core_def)

lemma session_core_simps [simp]:
  "session_core (sending m s) = session_core s" "session_core (s\<lparr>as_world := w\<rparr>) = session_core s" "session_core (in_world f s) = session_core s"
  "session_core (record_tool_outcome V n c ok e s) = session_core s"
  by (simp_all add: session_core_def sending_def in_world_def record_tool_outcome_def)

lemma run_local_tool_core: "run_local_tool V P wd i n j s = Some (r, s') \<Longrightarrow> session_core s' = session_core s"
  by (auto simp: run_local_tool_def Let_def split: option.splits prod.splits sum.splits)

lemma after_continuation_core [simp]: "session_core (snd (after_continuation V a r s)) = session_core s"
  by (simp add: after_continuation_def split: ending.splits)

lemma stream_tools_core:
  assumes "stream_tools V P ts wd h st r s = Some x"
  shows "session_core (snd x) = session_core s"
proof (rule stream_tools.raw_induct [where P = "\<lambda>V P ts wd h st r s x. session_core (snd x) = session_core s", OF _ assms], goal_cases)
  case (1 rec V P ts wd h st r s y)
  from 1(2) show ?case
    by (auto simp: Let_def bind_eq_Some_conv split: option.splits prod.splits sum.splits chunk.splits if_splits
        dest!: 1(1) run_local_tool_core)
qed

lemma stream_only_sends:
  "stream_with_tool_execution V P rq s = Some (r, s') \<Longrightarrow> only_sends s s'"
  by (auto simp: stream_with_tool_execution_def split: prod.splits
      simp: only_sends_core dest!: stream_tools_core)

section \<open>The main conversation is safe while a plan is made\<close>

definition main_kept :: "('w, 'j, 'm) session \<Rightarrow> bool" where
  "main_kept s \<longleftrightarrow> (as_is_plan_mode s \<longrightarrow> as_saved s \<noteq> None \<and> as_plan s \<noteq> None)"

text \<open>What all but entering and leaving plan mode leave alone.\<close>

definition mode_of :: "('w, 'j, 'm) session \<Rightarrow> bool \<times> 'j saved_context option \<times> bool" where
  "mode_of s = (as_is_plan_mode s, as_saved s, as_plan s = None)"

lemma same_mode_keeps: "mode_of s' = mode_of s \<Longrightarrow> main_kept s \<Longrightarrow> main_kept s'"
  by (auto simp: mode_of_def main_kept_def)

lemma mode_of_core: "session_core s' = session_core s \<Longrightarrow> mode_of s' = mode_of s"
  by (cases s; cases s'; simp add: session_core_def mode_of_def)

lemma mode_of_simps [simp]:
  "mode_of (sending m s) = mode_of s" "mode_of (in_world f s) = mode_of s"
  "mode_of (record_tool_outcome V n c ok e s) = mode_of s"
  by (rule mode_of_core, simp)+

lemma mode_of_updates [simp]:
  "mode_of (s\<lparr>as_world := w\<rparr>) = mode_of s" "mode_of (s\<lparr>as_is_busy := b\<rparr>) = mode_of s"
  "mode_of (s\<lparr>as_status := t\<rparr>) = mode_of s" "mode_of (s\<lparr>as_queue := q\<rparr>) = mode_of s"
  "mode_of (s\<lparr>as_messages := ms\<rparr>) = mode_of s" "mode_of (s\<lparr>as_history := h\<rparr>) = mode_of s"
  "mode_of (s\<lparr>as_exit_when_done := b\<rparr>) = mode_of s" "mode_of (s\<lparr>as_has_pending_request := b\<rparr>) = mode_of s"
  "mode_of (s\<lparr>as_model := t\<rparr>) = mode_of s" "mode_of (s\<lparr>as_tool_mode := tm\<rparr>) = mode_of s"
  "mode_of (s\<lparr>as_cancellation_token := ct\<rparr>) = mode_of s"
  by (simp_all add: mode_of_def)

lemma mode_of_add_user_message [simp]: "mode_of (snd (add_user_message V t s)) = mode_of s"
  by (auto simp: add_user_message_def analyze_for_corrections_def Let_def split: option.splits)

lemma mode_of_seal [simp]: "mode_of (snd (seal_preprocess V t s)) = mode_of s"
  by (auto simp: seal_preprocess_def Let_def split: option.splits prod.splits sum.splits)

lemma mode_of_take_input [simp]: "mode_of (snd (take_input V st t s)) = mode_of s"
proof -
  obtain t1 s1 where p: "seal_preprocess V t s = (t1, s1)" by force
  obtain r s2 where a: "add_user_message V t1 s1 = (r, s2)" by force
  have "mode_of s1 = mode_of s" "mode_of s2 = mode_of s1"
    using mode_of_seal [of V t s] mode_of_add_user_message [of V t1 s1] by (simp_all add: p a)
  then show ?thesis by (cases r) (simp_all add: take_input_def p a Let_def)
qed

lemma mode_after_input: "take_input V st t s = (r, s') \<Longrightarrow> mode_of s' = mode_of s"
  by (metis mode_of_take_input snd_conv)

lemma mode_of_answer [simp]:
  "mode_of (add_assistant_message V a s) = mode_of s" "mode_of (settle_answer V model a s) = mode_of s"
  "mode_of (announce_last s) = mode_of s" "mode_of (announce_failure t e s) = mode_of s"
  by (simp_all add: add_assistant_message_def settle_answer_def announce_last_def announce_failure_def Let_def)

lemma mode_of_remote_action [simp]: "mode_of (snd (remote_action shown a s)) = mode_of s"
  by (induction shown a s rule: remote_action.induct) simp_all

lemma mode_of_slash_command: "mode_of (snd (snd (handle_slash_command V P c args s))) = mode_of s"
proof -
  have r: "mode_of (snd (snd (handle_command_result V P c r s))) = mode_of s" for r
    using mode_of_remote_action [of "pv_debug P a" a s for a]
    by (auto simp: handle_command_result_def going_on_def to_history_def split: sum.splits command_result.splits prod.splits)
       (metis mode_of_remote_action snd_conv)
  show ?thesis
    by (auto simp: handle_slash_command_def going_on_def r split: option.splits)
qed

lemma mode_of_user_input: "mode_of (snd (snd (handle_user_input V P c fs s))) = mode_of s"
  by (auto simp: handle_user_input_def split: prod.splits ending.splits dest!: mode_after_input)

lemma mode_of_queue_message: "mode_of (snd (snd (handle_queue_message V c s))) = mode_of s"
  by (auto simp: handle_queue_message_def going_on_def Let_def split: prod.splits sum.splits)

lemmas small_handlers = handle_cancel_def handle_exit_def handle_sync_request_def handle_detach_def handle_tool_mode_def
  handle_update_lock_status_def handle_query_locks_def handle_list_agents_def handle_parent_signal_def
  handle_plan_input_def handle_plan_sync_request_def

lemmas world_handlers = handle_acquire_lock_def handle_release_lock_def handle_spawn_agent_def handle_notify_children_def

lemma mode_of_small_handlers:
  "mode_of (snd (snd (handle_cancel s))) = mode_of s" "mode_of (snd (snd (handle_exit s))) = mode_of s"
  "mode_of (snd (snd (handle_sync_request s))) = mode_of s" "mode_of (snd (snd (handle_detach e s))) = mode_of s"
  "mode_of (snd (snd (handle_tool_mode P tm s))) = mode_of s"
  "mode_of (snd (snd (handle_update_lock_status a b c s))) = mode_of s"
  "mode_of (snd (snd (handle_query_locks P sc s))) = mode_of s" "mode_of (snd (snd (handle_list_agents P s))) = mode_of s"
  "mode_of (snd (snd (handle_parent_signal sg p s))) = mode_of s"
  "mode_of (snd (snd (handle_plan_input P t fs s))) = mode_of s"
  "mode_of (snd (snd (handle_plan_sync_request s))) = mode_of s"
  by (simp_all add: small_handlers going_on_def Let_def split: parent_signal.split)

lemma mode_of_world_handlers:
  "mode_of (snd (snd (handle_acquire_lock P a b c s))) = mode_of s"
  "mode_of (snd (snd (handle_release_lock P a b s))) = mode_of s"
  "mode_of (snd (snd (handle_spawn_agent P o1 o2 o3 s))) = mode_of s"
  "mode_of (snd (snd (handle_notify_children P act s))) = mode_of s"
  by (auto simp: world_handlers going_on_def Let_def split: prod.split sum.split bool.split)

lemmas mode_of_handlers = mode_of_slash_command mode_of_user_input mode_of_queue_message mode_of_small_handlers
  mode_of_world_handlers

text \<open>Entering and leaving, also when they fail halfway.\<close>

lemma enter_main_kept:
  assumes "enter_plan_mode V f s = (r, s')" and "main_kept s"
  shows "main_kept s'"
  using assms
  by (auto simp: enter_plan_mode_def main_kept_def save_main_context_def Let_def split: if_splits prod.splits sum.splits)

lemma mode_of_store_plan: "mode_of (snd (store_plan V p s)) = mode_of s"
  by (auto simp: store_plan_def split: prod.splits sum.splits)

lemma exit_main_kept:
  assumes "exit_plan_mode V s = (r, s')" and "main_kept s"
  shows "main_kept s'"
proof (cases "as_is_plan_mode s")
  case True
  with assms(2) obtain p where p: "as_plan s = Some p" by (auto simp: main_kept_def)
  let ?p = "plan_at_exit V s p"
  obtain r1 s1 where st: "store_plan V ?p (s\<lparr>as_plan := Some ?p\<rparr>) = (r1, s1)" by force
  have "mode_of s1 = mode_of (s\<lparr>as_plan := Some ?p\<rparr>)" using mode_of_store_plan [of V ?p "s\<lparr>as_plan := Some ?p\<rparr>"] st by simp
  then have "mode_of s1 = mode_of s" using p by (simp add: mode_of_def)
  with assms True p st show ?thesis
    by (cases r1; cases "generate_plan_summary s1")
      (auto simp: exit_plan_mode_def Let_def main_kept_def mode_of_def)
next
  case False
  with assms show ?thesis by (auto simp: exit_plan_mode_def)
qed

lemma answer_main_kept: "main_kept (snd x) \<Longrightarrow> main_kept (snd (snd (answer_plan w x)))"
  by (cases x; cases "fst x") (auto simp: answer_plan_def going_on_def main_kept_def)

lemma handler_main_kept:
  assumes "handle_viewer_message V P m s = (r, js, s')" and "main_kept s"
  shows "main_kept s'"
proof -
  have s': "s' = snd (snd (handle_viewer_message V P m s))" by (simp add: assms(1))
  have enter: "main_kept (snd (enter_plan_mode V f s))" for f using enter_main_kept [OF _ assms(2)] by (metis prod.collapse)
  have exit: "main_kept (snd (exit_plan_mode V s))" using exit_main_kept [OF _ assms(2)] by (metis prod.collapse)
  show ?thesis
    unfolding s' handle_viewer_message_def
    by (cases m) (simp_all add: answer_main_kept enter exit same_mode_keeps [OF mode_of_handlers(1) assms(2)]
      same_mode_keeps [OF _ assms(2)] mode_of_handlers going_on_def)
qed

lemma mode_of_add_plan_message [simp]: "mode_of (add_plan_message V d m s) = mode_of s"
  by (simp add: add_plan_message_def to_plan_def mode_of_def)

lemma mode_of_only_sends: "only_sends s s' \<Longrightarrow> mode_of s' = mode_of s"
  by (rule mode_of_core) (simp only: only_sends_core)

lemma mode_of_plan_turn: "process_plan_mode_input V t s = Some (r, s') \<Longrightarrow> mode_of s' = mode_of s"
  by (auto simp: process_plan_mode_input_def Let_def split: if_splits option.splits prod.splits
      dest!: stream_plan_only_sends mode_of_only_sends)

lemma mode_of_begin_pending [simp]: "mode_of (snd (begin_pending s)) = mode_of s"
  by (simp add: begin_pending_def Let_def mode_of_def)

lemma mode_of_finish_pending [simp]: "mode_of (snd (finish_pending V P rq r s)) = mode_of s"
  by (cases r) (simp_all add: finish_pending_def)

lemma mode_of_finish_user [simp]: "mode_of (snd (finish_user V rq r s)) = mode_of s"
  by (cases r) (simp_all add: finish_user_def Let_def)

lemma mode_of_finish_queued [simp]: "mode_of (snd (finish_queued V P m rq r s)) = mode_of s"
  by (cases r) (auto simp: finish_queued_def split: option.split)

lemmas mode_of_finish = mode_of_begin_pending mode_of_finish_pending mode_of_finish_user mode_of_finish_queued

lemma mode_of_next_queued [simp]: "mode_of (snd (next_queued V s)) = mode_of s"
  by (auto simp: next_queued_def split: prod.split option.split ending.split dest!: mode_after_input)

lemma mode_of_job: "job_step V P j s = Some x \<Longrightarrow> mode_of (snd x) = mode_of s"
  by (cases j)
    (auto simp: job_step_def split: ending.split dest!: stream_only_sends mode_of_only_sends mode_of_plan_turn)

lemma job_main_kept: "job_step V P j s = Some (js, s') \<Longrightarrow> main_kept s \<Longrightarrow> main_kept s'"
  using mode_of_job same_mode_keeps by fastforce

lemma step_main_kept: "proc_step V P x y \<Longrightarrow> main_kept (fst x) \<Longrightarrow> main_kept (fst y)"
  by (induction rule: proc_step.induct) (auto dest: handler_main_kept job_main_kept)

text \<open>
  C10: However messages and jobs interleave, an agent in plan mode has its main conversation saved and a plan.
\<close>

theorem main_conversation_saved:
  assumes "(proc_step V P)\<^sup>*\<^sup>* (start_process V s) (s', jobs)" and "\<not> as_is_plan_mode s" and "as_is_plan_mode s'"
  shows "\<exists>c p. as_saved s' = Some c \<and> as_plan s' = Some p"
proof -
  have l: "as_is_plan_mode (mcp_loop V ns s) = as_is_plan_mode s" for ns
    by (induction ns arbitrary: s) (auto split: prod.split sum.split)
  have "main_kept (fst (start_process V s))"
    using assms(2) by (simp add: start_process_def Let_def main_kept_def initialize_mcp_def l split: sum.splits)
  from assms(1) this have "main_kept (fst (s', jobs))"
    by (induction rule: rtranclp_induct) (auto dest: step_main_kept)
  with assms(3) show ?thesis by (auto simp: main_kept_def)
qed

section \<open>What runs do to each other and to the end of the process\<close>

text \<open>
  An answer that arrives while the session is in plan mode joins the plan's messages: when plan mode is left
  the main conversation is what it was on entering, the user's question still unanswered.
\<close>

theorem answer_lost_in_plan_mode:
  assumes "enter_plan_mode V f s = (Returns m, s1)" and "\<not> as_is_plan_mode s"
    and "stream_with_tool_execution V P rq s1 = Some (Returns answer, s2)"
    and "job_step V P (UserRun rq) s1 = Some (js, s3)" and "exit_plan_mode V s3 = (Returns m', s4)"
  shows "dm_content (last (as_messages s3)) = answer \<and> as_messages s4 = as_messages s \<and> as_history s4 = as_history s"
proof -
  from assms(1,2) have s1: "as_is_plan_mode s1"
    "as_saved s1 = Some \<lparr>sc_messages = as_messages s, sc_history = as_history s, sc_scroll = 0, sc_status = as_status s\<rparr>"
    by (auto elim!: enter_structure simp: save_main_context_def)
  have "mode_of s3 = mode_of s1" using mode_of_job [OF assms(4)] by simp
  with s1 have s3: "as_is_plan_mode s3" "as_saved s3 = as_saved s1" by (auto simp: mode_of_def)
  have "dm_content (last (as_messages s3)) = answer"
    using assms(3,4)
    by (auto simp: job_step_def finish_user_def Let_def announce_last_def settle_answer_def add_assistant_message_def dm_new_def)
  with exit_restores [OF assms(5) s3(1)] s1(2) s3(2) show ?thesis by simp
qed

text \<open>
  A run that ends makes the session idle whatever else is running: with \<^verbatim>\<open>exit_when_done\<close> set the process
  meets its exit condition while another run, and the messages still queued, wait for it.
\<close>

theorem finished_run_ends_the_others:
  assumes "stream_with_tool_execution V P rq s = Some (r, s1)" and "r \<noteq> Panics" and "as_exit_when_done s"
    and "job_step V P (UserRun rq) s = Some (js, s')"
  shows "proc_step V P (s, before @ UserRun rq # after) (s', before @ after @ js) \<and> check_exit_condition s'
    \<and> (r = Returns answer \<and> mq_queue (as_queue s) \<noteq> [] \<longrightarrow> Draining \<in> set js)"
proof -
  have "check_exit_condition s'" and "r = Returns answer \<Longrightarrow> mq_queue (as_queue s) \<noteq> [] \<Longrightarrow> Draining \<in> set js"
    using assms only_sendsD [OF stream_only_sends [OF assms(1)]]
    by (cases r; auto simp: job_step_def finish_user_def Let_def announce_last_def announce_failure_def
        settle_answer_def add_assistant_message_def check_exit_condition_def split: if_splits)+
  with assms(4) show ?thesis by (auto intro: proc_step.working)
qed

text \<open>
  When the request that was pending at the start fails, its job ends with the session still busy: the
  process does not exit, although it is told to, until another run or a viewer makes the session idle.
\<close>

theorem failed_pending_request_stays_busy:
  assumes "job_step V P PendingStart s = Some (js, s1)"
    and "stream_with_tool_execution V P (request_of s1) s1 = Some (Fails e, s2)"
    and "handle_viewer_message V P (Detach True) s2 = (r, js', s3)"
  shows "js = [PendingRun (request_of s1)] \<and> job_step V P (PendingRun (request_of s1)) s1 = Some ([], s2)
    \<and> js' = [] \<and> \<not> check_exit_condition s3 \<and> as_status s3 = pending_status"
  using assms only_sendsD [OF stream_only_sends [OF assms(2)]]
  by (auto simp: job_step_def begin_pending_def finish_pending_def Let_def handle_viewer_message_def handle_detach_def
      going_on_def check_exit_condition_def request_of_def)

section \<open>The queue is drained\<close>

text \<open>A provider that always answers, and a session without the optional preprocessing.\<close>

definition always_answers :: "('w, 'j, 'st, 'tr) session_env \<Rightarrow> ('w, 'j, 'm, 'f) process_env \<Rightarrow> bool" where
  "always_answers V P \<longleftrightarrow>
     (\<forall>rq (s :: ('w, 'j, 'm) session). \<exists>a s'. stream_with_tool_execution V P rq s = Some (Returns a, s'))"

definition plain_input :: "('w, 'j, 'st, 'tr) session_env \<Rightarrow> bool" where
  "plain_input V \<longleftrightarrow> sv_seal V = None \<and> (\<forall>t. sv_detect V t = None)"

lemma plain_take_input:
  assumes "plain_input V"
  shows "\<exists>w now. take_input V st t s =
    (let s1 = s\<lparr>as_world := w, as_messages := as_messages s @ [dm_new (lit ''user'') t now],
       as_history := as_history s @ [user_text t], as_is_busy := True, as_status := st\<rparr> in (Returns (request_of s1), s1))"
  using assms
  by (auto simp: take_input_def seal_preprocess_def plain_input_def add_user_message_def analyze_for_corrections_def
      Let_def in_world_def)

lemma drain_step:
  assumes "plain_input V" and "mq_queue (as_queue s) = m # ms"
  obtains rq s1 now where "job_step V P Draining s = Some ([QueuedRun m rq], s1)"
    and "as_messages s1 = as_messages s @ [dm_new (lit ''user'') (qm_content m) now]" and "mq_queue (as_queue s1) = ms"
proof -
  let ?s = "s\<lparr>as_queue := as_queue s\<lparr>mq_queue := ms\<rparr>\<rparr>"
  obtain w now where t: "take_input V queued_status (qm_content m) ?s =
    (let s1 = ?s\<lparr>as_world := w, as_messages := as_messages s @ [dm_new (lit ''user'') (qm_content m) now],
       as_history := as_history s @ [user_text (qm_content m)], as_is_busy := True, as_status := queued_status\<rparr>
     in (Returns (request_of s1), s1))"
    using plain_take_input [OF assms(1), of queued_status "qm_content m" ?s] by auto
  show ?thesis
    by (rule that, (simp add: job_step_def next_queued_def mq_pop_def assms(2) Let_def t)+)
qed

lemma queued_run_step:
  assumes "always_answers V P"
  obtains a s2 now where "job_step V P (QueuedRun m rq) s = Some ([Draining], s2)"
    and "as_messages s2 = as_messages s @ [dm_new (lit ''assistant'') a now]"
    and "as_queue s2 = as_queue s" and "\<not> as_is_busy s2"
proof -
  obtain a s1 where st: "stream_with_tool_execution V P rq s = Some (Returns a, s1)"
    using assms unfolding always_answers_def by blast
  note o = only_sendsD [OF stream_only_sends [OF st]]
  show ?thesis
    by (rule that, (simp add: job_step_def st finish_queued_def settle_answer_def announce_last_def
      add_assistant_message_def o)+)
qed

lemma drain_all:
  assumes "plain_input V" and "always_answers V P" and "mq_queue (as_queue s) = ms"
  shows "\<exists>s' new. work_off (2 * length ms + 1) V P [Draining] s = Some ([], s') \<and> as_messages s' = as_messages s @ new
    \<and> map dm_role new = concat (replicate (length ms) [lit ''user'', lit ''assistant''])
    \<and> map dm_content (filter (\<lambda>d. dm_role d = lit ''user'') new) = map qm_content ms
    \<and> mq_queue (as_queue s') = [] \<and> (ms \<noteq> [] \<longrightarrow> \<not> as_is_busy s')"
  using assms(3)
proof (induction ms arbitrary: s)
  case Nil
  then show ?case by (simp add: job_step_def next_queued_def mq_pop_def)
next
  case (Cons m ms)
  obtain rq s1 now where d: "job_step V P Draining s = Some ([QueuedRun m rq], s1)"
    and m1: "as_messages s1 = as_messages s @ [dm_new (lit ''user'') (qm_content m) now]" and q1: "mq_queue (as_queue s1) = ms"
    using drain_step [OF assms(1) Cons.prems] by blast
  obtain a s2 now' where r: "job_step V P (QueuedRun m rq) s1 = Some ([Draining], s2)"
    and m2: "as_messages s2 = as_messages s1 @ [dm_new (lit ''assistant'') a now']"
    and q2: "as_queue s2 = as_queue s1" and b2: "\<not> as_is_busy s2"
    using queued_run_step [OF assms(2)] by blast
  from Cons.IH [of s2] q1 q2 obtain s' new where
    IH: "work_off (2 * length ms + 1) V P [Draining] s2 = Some ([], s')" "as_messages s' = as_messages s2 @ new"
      "map dm_role new = concat (replicate (length ms) [lit ''user'', lit ''assistant''])"
      "map dm_content (filter (\<lambda>d. dm_role d = lit ''user'') new) = map qm_content ms"
      "mq_queue (as_queue s') = []" "ms \<noteq> [] \<longrightarrow> \<not> as_is_busy s'" by auto
  have "ms = [] \<Longrightarrow> s' = s2" using IH(1) q1 q2 by (simp add: job_step_def next_queued_def mq_pop_def)
  with IH b2 have "\<not> as_is_busy s'" by auto
  moreover have "work_off (2 * length (m # ms) + 1) V P [Draining] s = Some ([], s')"
    using IH(1) by (simp add: d r)
  moreover have "lit ''assistant'' \<noteq> lit ''user''" by (simp add: lit_def)
  ultimately show ?case
    using IH(2-5) m1 m2
    by (intro exI [of _ s'] exI [of _ "dm_new (lit ''user'') (qm_content m) now # dm_new (lit ''assistant'') a now' # new"])
      (simp add: dm_new_def)
qed


section \<open>A sample process\<close>

definition sample_process_env :: "(unit plan_state list \<times> nat, unit, unit, unit) process_env" where
  "sample_process_env =
     \<lparr>pv_protocol_version = 2, pv_read_token = \<lambda>i w. Inr (Some (lit ''t'')), pv_validate_token = \<lambda>i t w. t = lit ''t'',
      pv_reattach = \<lambda>i t. \<lparr>hk_version = 2, hk_is_reattach = True, hk_session_id = Some i, hk_session_token = Some t\<rparr>,
      pv_read_file = \<lambda>p w. Inl [], pv_execute = \<lambda>u c w. Some (Inl [], w), pv_full_access = None, pv_show_json = \<lambda>j. [],
      pv_tool_result = \<lambda>i r. user_text r, pv_save_message = \<lambda>i t m w. w, pv_warn = False, pv_blocked = \<lambda>w. [],
      pv_command = \<lambda>c a w. None, pv_show_error = \<lambda>e. [], pv_debug = \<lambda>a. [], pv_mode_name = \<lambda>m. [],
      pv_try_acquire = \<lambda>t sc a w. (Inr True, w), pv_is_locked = \<lambda>t sc w. Inr None, pv_release = \<lambda>t sc a w. (Inr True, w),
      pv_list_locks = \<lambda>w. Inr [], pv_known_lock_type = \<lambda>t. True, pv_now_ms = \<lambda>w. 0, pv_sessions = \<lambda>w. Inr [],
      pv_children = \<lambda>i w. Inr [], pv_alive = \<lambda>i w. False, pv_connect = \<lambda>i w. (False, w),
      pv_send_handshake = \<lambda>i h w. (False, w), pv_read_response = \<lambda>i w. (None, w), pv_send_message = \<lambda>i m w. (False, w),
      pv_spawn_child = \<lambda>p r m d w. (Inl [], w), pv_cleanup = \<lambda>i w. w\<rparr>"

lemma handshake_authentication_witness:
  "hr_accepted (shake_hands sample_process_env (pv_reattach sample_process_env (lit ''s'') (lit ''t'')) sample_session)
    \<and> \<not> hr_accepted (shake_hands sample_process_env (pv_reattach sample_process_env (lit ''s'') (lit ''x'')) sample_session)"
proof -
  have k: "known_version sample_process_env (pv_reattach sample_process_env i t)" for i t
    by (simp add: known_version_def sample_process_env_def)
  show ?thesis
    using handshake_authentication [OF k, of "lit ''s''" "lit ''t''" sample_session]
      handshake_authentication [OF k, of "lit ''s''" "lit ''x''" sample_session]
    by (simp add: sample_process_env_def lit_def)
qed

lemma sample_stream_tools: "stream_tools sample_session_env P ts wd h 0 r s = Some (Returns (r @ lit ''a''),
    sending stream_stop (sending stream_stop (sending (StreamChunk (lit ''a'')) s)))"
  by (subst stream_tools.simps, subst stream_tools.simps) (simp add: sending_def)

lemma sample_run: "stream_with_tool_execution sample_session_env P rq s = Some (Returns (lit ''a''),
    sending stream_stop (sending stream_stop (sending (StreamChunk (lit ''a'')) s)))"
  by (simp add: stream_with_tool_execution_def sample_stream_tools)

definition queued_session :: "(unit plan_state list \<times> nat, unit, unit) session" where
  "queued_session = sample_session\<lparr>as_queue := (mq_new 2)\<lparr>mq_queue := [qm_new [] 0 (lit ''hi'')]\<rparr>\<rparr>"


definition one_run :: "unit run_request" where
  "one_run = request_of sample_session"

lemma finished_run_ends_the_others_witness:
  "\<exists>js s'. job_step sample_session_env sample_process_env (UserRun one_run) (sample_session\<lparr>as_exit_when_done := True\<rparr>) = Some (js, s')
    \<and> proc_step sample_session_env sample_process_env
      (sample_session\<lparr>as_exit_when_done := True\<rparr>, [] @ UserRun one_run # [UserRun one_run]) (s', [] @ [UserRun one_run] @ js)
    \<and> check_exit_condition s'"
proof -
  let ?s = "sample_session\<lparr>as_exit_when_done := True\<rparr>"
  obtain js s' where j: "job_step sample_session_env sample_process_env (UserRun one_run) ?s = Some (js, s')"
    by (cases "job_step sample_session_env sample_process_env (UserRun one_run) ?s") (auto simp: job_step_def sample_run)
  from finished_run_ends_the_others [OF sample_run _ _ j, where before = "[]" and after = "[UserRun one_run]"] j show ?thesis by auto
qed

definition broken_env :: "(unit plan_state list \<times> nat, unit, nat, unit) session_env" where
  "broken_env = sample_session_env\<lparr>sv_next := \<lambda>n w. Some (Some (Inl (lit ''e'')), n, w)\<rparr>"

lemma failed_pending_request_stays_busy_witness:
  "\<exists>s1 s2 r js s3. job_step broken_env sample_process_env PendingStart sample_session = Some ([PendingRun (request_of s1)], s1)
    \<and> handle_viewer_message broken_env sample_process_env (Detach True) s2 = (r, js, s3) \<and> \<not> check_exit_condition s3"
proof -
  have st: "stream_with_tool_execution broken_env P rq s = Some (Fails (lit ''e''), sending (ErrorSent (lit ''e'') False) s)"
    for P rq and s :: "(unit plan_state list \<times> nat, unit, unit) session"
    by (simp add: stream_with_tool_execution_def broken_env_def stream_tools.simps)
  obtain js s1 where p: "job_step broken_env sample_process_env PendingStart sample_session = Some (js, s1)"
    by (simp add: job_step_def begin_pending_def Let_def)
  obtain r js' s3 where h: "handle_viewer_message broken_env sample_process_env (Detach True)
      (sending (ErrorSent (lit ''e'') False) s1) = (r, js', s3)" by (rule prod_cases3)
  from failed_pending_request_stays_busy [OF p st h] p h show ?thesis by blast
qed

lemma main_conversation_saved_witness:
  "\<exists>s' jobs c p. (proc_step sample_session_env sample_process_env)\<^sup>*\<^sup>* (start_process sample_session_env sample_session) (s', jobs)
    \<and> as_is_plan_mode s' \<and> as_saved s' = Some c \<and> as_plan s' = Some p"
proof -
  obtain m where e: "enter_plan_mode sample_session_env None sample_session = (Returns m, entered)"
    using sample_enter by blast
  have "start_process sample_session_env sample_session = (sample_session, snd (start_process sample_session_env sample_session))"
    by (simp add: start_process_def initialize_mcp_def sample_session_env_def)
  moreover have "handle_viewer_message sample_session_env sample_process_env (EnterPlan None) sample_session
    = (Returns False, [], sending m entered)"
    by (simp add: handle_viewer_message_def e answer_plan_def going_on_def)
  ultimately have r: "(proc_step sample_session_env sample_process_env)\<^sup>*\<^sup>* (start_process sample_session_env sample_session)
      (sending m entered, snd (start_process sample_session_env sample_session) @ [])"
    by (metis proc_step.viewer r_into_rtranclp)
  have "as_is_plan_mode (sending m entered)" by (simp add: entered_simps)
  from main_conversation_saved [OF r _ this] r this show ?thesis by auto
qed

lemma answer_lost_in_plan_mode_witness:
  "\<exists>js s3 m s4. job_step sample_session_env sample_process_env (UserRun (request_of sample_session)) entered = Some (js, s3)
    \<and> exit_plan_mode sample_session_env s3 = (Returns m, s4) \<and> dm_content (last (as_messages s3)) = lit ''a''
    \<and> as_messages s4 = [dm_new (lit ''user'') (lit ''q'') 0]"
proof -
  obtain m where e: "enter_plan_mode sample_session_env None sample_session = (Returns m, entered)"
    using sample_enter by blast
  obtain js s3 where j: "job_step sample_session_env sample_process_env (UserRun (request_of sample_session)) entered = Some (js, s3)"
    by (cases "job_step sample_session_env sample_process_env (UserRun (request_of sample_session)) entered")
      (auto simp: job_step_def sample_run)
  have "\<exists>m' s4. exit_plan_mode sample_session_env s3 = (Returns m', s4)"
    using j by (auto simp: job_step_def sample_run finish_user_def settle_answer_def announce_last_def add_assistant_message_def
        entered_simps exit_plan_mode_def store_plan_def generate_plan_summary_def run_then_Returns Let_def dm_new_def lit_def)
  then obtain m' s4 where x: "exit_plan_mode sample_session_env s3 = (Returns m', s4)" by blast
  from answer_lost_in_plan_mode [OF e _ sample_run j x] j x show ?thesis by auto
qed

end
