(* ===== verification/TuiApp.thy ===== *)
theory TuiApp
  imports AgentProcess PromptHistory JournalTree UserQuestions Keybindings TuiDialogs Approval
begin

text \<open>
  The state of the terminal interface and what it does to it outside its event handlers: \<^verbatim>\<open>state.rs\<close>,
  \<^verbatim>\<open>history.rs\<close> and \<^verbatim>\<open>autocomplete.rs\<close> under \<^verbatim>\<open>apps/cli/src/tui/app\<close>. The text area,
  the scrollable console and the check box are widgets of a library and are given by their operations; clock, stores,
  caches and the connection to the agent are parameters over the world \<open>tu_world\<close>. The lists of a part of the interface are grouped in records. What was written to the
  agent is logged in \<open>tu_sent\<close>.
\<close>

section \<open>Modes and parts\<close>

datatype tui_mode =
  NormalView | ReverseSearch | SessionPicker | ConsoleView | ShellViewer | Waiting | ConversationFullscreen
| InputFullscreen | ToolPicker | TaskViewer | ExplorerView | NanoView | GitView | CancelConfirm | QuestionAnswer
| UserQuestion | FindDialog | FindReplaceDialog | HelpDialog | SuspendDialog | ExitDialog | HotkeyDialog
| ApprovalView | SudoPasswordDialog | PlanView | SubAgentViewer

datatype log_level = LogDebug | LogInfo | LogWarn | LogError

fun level_label :: "log_level \<Rightarrow> rstr" where
  "level_label LogDebug = lit ''DEBUG''"
| "level_label LogInfo = lit ''INFO ''"
| "level_label LogWarn = lit ''WARN ''"
| "level_label LogError = lit ''ERROR''"

datatype focused_panel = ConversationPanel | InputPanel | StatusBarPanel

datatype view_style = JournalStyle | ClassicStyle

datatype prompt_mode = AskPrompt | EditPrompt | PlanPrompt

datatype text_op =
  EdInsert rchar | EdInsertText rstr | EdNewline | EdBackspace | EdDelete | EdWordBackspace | EdWordDelete
| EdDeleteToStart | EdDeleteToEnd | EdLeft | EdRight | EdUp | EdDown | EdPageUp | EdPageDown | EdLineStart | EdLineEnd
| EdStart | EdEnd | EdWordLeft | EdWordRight

record 'i text_area =
  ti_text :: "'i \<Rightarrow> rstr"
  ti_set_text :: "rstr \<Rightarrow> 'i \<Rightarrow> 'i"
  ti_clear :: "'i \<Rightarrow> 'i"
  ti_is_empty :: "'i \<Rightarrow> bool"
  ti_lines :: "'i \<Rightarrow> rstr list"
  ti_cursor_line :: "'i \<Rightarrow> nat"
  ti_edit :: "text_op \<Rightarrow> 'i \<Rightarrow> bool \<times> 'i"
  ti_place :: "nat \<Rightarrow> nat \<Rightarrow> 'i \<Rightarrow> 'i"

text \<open>What the text area documents.\<close>

definition text_area_laws :: "'i text_area \<Rightarrow> bool" where
  "text_area_laws T \<longleftrightarrow>
     (\<forall>t i. ti_text T (ti_set_text T t i) = t) \<and> (\<forall>i. ti_text T (ti_clear T i) = []) \<and>
     (\<forall>i. ti_is_empty T i = (ti_text T i = [])) \<and> (\<forall>i. ti_text T (snd (ti_edit T EdStart i)) = ti_text T i)"

record 's console =
  co_push :: "rstr \<Rightarrow> 's \<Rightarrow> 's"
  co_scroll_up :: "nat \<Rightarrow> 's \<Rightarrow> 's"
  co_scroll_down :: "nat \<Rightarrow> nat \<Rightarrow> 's \<Rightarrow> 's"
  co_text :: "'s \<Rightarrow> rstr"
  co_count :: "'s \<Rightarrow> nat"

record search_part =
  se_query :: rstr
  se_results :: "rstr list"
  se_index :: nat

record completion =
  cm_suggestions :: "rstr list"
  cm_index :: nat
  cm_shown :: bool
  cm_title :: rstr
  cm_models :: "rstr list"

record view_part =
  vw_line_count :: nat
  vw_conversation_area :: "rect option"
  vw_input_area :: "rect option"
  vw_exit_button :: "rect option"
  vw_status_bar_visible :: bool
  vw_last_click :: "(int \<times> 16 word \<times> 16 word) option"
  vw_mouse_disabled :: bool
  vw_pending_bottom :: bool
  vw_bottom_on_resize :: bool
  vw_style :: view_style
  vw_toast :: "rstr option"
  vw_toast_expires :: "int option"

record ('c, 'j) dialog_part =
  dg_help :: "help_dialog option"
  dg_suspend :: "'c suspend_dialog option"
  dg_exit :: "'c exit_dialog option"
  dg_sudo :: "sudo_dialog option"
  dg_approval :: "'j approval_dialog option"
  dg_find :: "fr_state option"
  dg_questions :: "question_block option"
  dg_answers :: answer_state
  dg_approved :: "(nat \<times> approval_response) list"
  dg_passwords :: "(rstr \<times> sudo_response) list"

record leave_part =
  lv_background :: bool
  lv_suspend :: bool
  lv_resume_ai :: bool
  lv_exit_when_done :: bool
  lv_preserve_on_exit :: bool
  lv_last_preserve :: bool

datatype 'j stream_event =
  SText rstr
| SToolCall rstr rstr "rstr option" rstr rstr 'j
| SToolResult rstr "rstr option" "rstr option"
| SProgress rstr rstr "rstr option"
| SDone
| SError rstr

record 'j pending_tool =
  pe_call_id :: rstr
  pe_response_id :: rstr
  pe_chat_id :: "rstr option"
  pe_tool_name :: rstr
  pe_parameters :: 'j
  pe_conversation :: "'j message list"

text \<open>A receiver is the events that wait in it and whether its sender is gone.\<close>

record 'j stream_part =
  st_rx :: "('j stream_event list \<times> bool) option"
  st_content :: rstr
  st_msg_idx :: "nat option"
  st_conversation :: "'j message list option"
  st_user_content :: "rstr option"
  st_tool_rx :: "('j stream_event list \<times> bool) option"
  st_pending :: "'j pending_tool option"
  st_token :: "nat option"
  st_stream_task :: "nat option"
  st_tool_task :: "nat option"
  st_cancelled :: "nat list"
  st_aborted :: "nat list"

record picker_part =
  pk_sessions :: "rstr list"
  pk_index :: nat
  pk_scroll :: "16 word"

record task_part =
  tk_tree :: rstr
  tk_count :: nat
  tk_visible :: "(rstr \<times> nat \<times> bool) list"
  tk_index :: nat
  tk_scroll :: "16 word"
  tk_collapsed :: "rstr set"

record plan_info =
  pi_title :: rstr
  pi_task :: rstr
  pi_content :: rstr

text \<open>The quality is the bits of its \<^verbatim>\<open>f32\<close>; it is only stored.\<close>

record seal_view =
  sl_enabled :: bool
  sl_resolution :: "rstr option"
  sl_entities :: nat
  sl_pattern :: "rstr option"
  sl_quality :: "32 word"
  sl_shown :: bool

record sub_agent_summary =
  sb_agent_id :: rstr
  sb_task_desc :: rstr
  sb_status :: task_status
  sb_iterations :: nat
  sb_session :: "rstr option"
  sb_socket :: bool

record sub_agent_viewer =
  sw_agents :: "sub_agent_summary list"
  sw_index :: nat
  sw_list_scroll :: "16 word"
  sw_detail_scroll :: "16 word"
  sw_input :: rstr
  sw_focus_left :: bool

record extra_part =
  ex_plan :: "plan_info option"
  ex_progress :: "(nat \<times> nat) option"
  ex_seal :: seal_view
  ex_line_command :: "rstr option"
  ex_line_cache :: "(int \<times> rstr) option"
  ex_shells :: nat
  ex_shell_index :: nat
  ex_shell_scroll :: "16 word"
  ex_sub_agents :: "sub_agent_viewer option"
  ex_tools :: "tool_def list"
  ex_mcp_tools :: "tool_def list"
  ex_mdap :: "nat option"
  ex_question :: "pending_question option"
  ex_replies :: "(nat \<times> ask_reply) list"

record ('w, 'i, 's, 'c, 'j, 'm) tui_app =
  tu_session_id :: rstr
  tu_messages :: "tui_message list"
  tu_history :: "'j message list"
  tu_input_state :: 'i
  tu_draft :: "rstr option"
  tu_scroll :: "16 word"
  tu_mode :: tui_mode
  tu_prompts :: prompt_history
  tu_search :: search_part
  tu_status :: rstr
  tu_model :: rstr
  tu_should_quit :: bool
  tu_console :: 's
  tu_unread :: nat
  tu_complete :: completion
  tu_panel :: focused_panel
  tu_view :: view_part
  tu_prompt_mode :: prompt_mode
  tu_pre_plan_mode :: "prompt_mode option"
  tu_plan :: "'j plan_state option"
  tu_saved_main :: "'j saved_context option"
  tu_queued :: "rstr list"
  tu_is_ipc :: bool
  tu_connected :: bool
  tu_needs_respawn :: bool
  tu_dialogs :: "('c, 'j) dialog_part"
  tu_leave :: leave_part
  tu_stream :: "'j stream_part"
  tu_journal :: journal
  tu_tool_log :: "tool_entry list"
  tu_picker :: picker_part
  tu_tasks :: task_part
  tu_tool_mode :: 'm
  tu_mcp_servers :: "rstr list"
  tu_working_set :: working_set
  tu_tool_scope :: "rstr list option"
  tu_extra :: extra_part
  tu_sent :: "'m viewer_message list"
  tu_world :: 'w

record ('w, 'i, 's, 'c, 'j, 'm) tui_env =
  tv_area :: "'i text_area"
  tv_console :: "'s console"
  tv_box :: "'c check_box"
  tv_help :: help_env
  tv_bindings :: bindings
  tv_lower :: "rstr \<Rightarrow> rstr"
  tv_sort :: "rstr list \<Rightarrow> rstr list"
  tv_now_ms :: "'w \<Rightarrow> int"
  tv_now :: "'w \<Rightarrow> int"
  tv_clock :: "'w \<Rightarrow> rstr"
  tv_uuid :: "'w \<Rightarrow> rstr \<times> 'w"
  tv_write :: "'m viewer_message \<Rightarrow> 'w \<Rightarrow> bool \<times> 'w"
  tv_stored :: "rstr \<Rightarrow> 'w \<Rightarrow> rstr + display_message list"
  tv_add_message :: "rstr \<Rightarrow> rstr \<Rightarrow> display_message \<Rightarrow> 'w \<Rightarrow> bool \<times> 'w"
  tv_create_conversation :: "rstr \<Rightarrow> rstr \<Rightarrow> rstr \<Rightarrow> nat \<Rightarrow> 'w \<Rightarrow> (rstr + unit) \<times> 'w"
  tv_update_conversation :: "rstr \<Rightarrow> nat \<Rightarrow> 'w \<Rightarrow> (rstr + unit) \<times> 'w"
  tv_list_conversations :: "'w \<Rightarrow> rstr + rstr list"
  tv_count_tasks :: "rstr \<Rightarrow> 'w \<Rightarrow> rstr + nat"
  tv_load_tasks :: "rstr \<Rightarrow> 'w \<Rightarrow> rstr \<times> 'w"
  tv_clear_tasks :: "'w \<Rightarrow> 'w"
  tv_task_tree :: "'w \<Rightarrow> rstr \<times> nat"
  tv_commands :: "rstr list"
  tv_skills :: "rstr list option"
  tv_model_cache :: "'w \<Rightarrow> (rstr \<times> rstr) list option"
  tv_add_prompt :: "rstr \<Rightarrow> prompt_history \<Rightarrow> 'w \<Rightarrow> prompt_history \<times> 'w"

section \<open>Status, console, toasts\<close>

definition on_tui_view :: "(view_part \<Rightarrow> view_part) \<Rightarrow> ('w, 'i, 's, 'c, 'j, 'm) tui_app \<Rightarrow> ('w, 'i, 's, 'c, 'j, 'm) tui_app" where
  "on_tui_view f a = a\<lparr>tu_view := f (tu_view a)\<rparr>"

definition on_dialogs :: "(('c, 'j) dialog_part \<Rightarrow> ('c, 'j) dialog_part) \<Rightarrow> ('w, 'i, 's, 'c, 'j, 'm) tui_app \<Rightarrow>
    ('w, 'i, 's, 'c, 'j, 'm) tui_app" where
  "on_dialogs f a = a\<lparr>tu_dialogs := f (tu_dialogs a)\<rparr>"

definition on_leave :: "(leave_part \<Rightarrow> leave_part) \<Rightarrow> ('w, 'i, 's, 'c, 'j, 'm) tui_app \<Rightarrow> ('w, 'i, 's, 'c, 'j, 'm) tui_app" where
  "on_leave f a = a\<lparr>tu_leave := f (tu_leave a)\<rparr>"

definition on_stream :: "('j stream_part \<Rightarrow> 'j stream_part) \<Rightarrow> ('w, 'i, 's, 'c, 'j, 'm) tui_app \<Rightarrow> ('w, 'i, 's, 'c, 'j, 'm) tui_app" where
  "on_stream f a = a\<lparr>tu_stream := f (tu_stream a)\<rparr>"

definition on_extra :: "(extra_part \<Rightarrow> extra_part) \<Rightarrow> ('w, 'i, 's, 'c, 'j, 'm) tui_app \<Rightarrow> ('w, 'i, 's, 'c, 'j, 'm) tui_app" where
  "on_extra f a = a\<lparr>tu_extra := f (tu_extra a)\<rparr>"

definition log_console :: "('w, 'i, 's, 'c, 'j, 'm) tui_env \<Rightarrow> rstr \<Rightarrow> ('w, 'i, 's, 'c, 'j, 'm) tui_app \<Rightarrow>
    ('w, 'i, 's, 'c, 'j, 'm) tui_app" where
  "log_console V m a = a\<lparr>tu_console := co_push (tv_console V) m (tu_console a)\<rparr>"

definition set_tui_status :: "('w, 'i, 's, 'c, 'j, 'm) tui_env \<Rightarrow> log_level \<Rightarrow> rstr \<Rightarrow> ('w, 'i, 's, 'c, 'j, 'm) tui_app \<Rightarrow>
    ('w, 'i, 's, 'c, 'j, 'm) tui_app" where
  "set_tui_status V l m a =
     (let a1 = log_console V (tv_clock V (tu_world a) @ lit '' ['' @ level_label l @ lit ''] '' @ m) (a\<lparr>tu_status := m\<rparr>) in
      if l = LogWarn \<or> l = LogError then a1\<lparr>tu_unread := tu_unread a1 + 1\<rparr> else a1)"

definition clear_unread_errors :: "('w, 'i, 's, 'c, 'j, 'm) tui_app \<Rightarrow> ('w, 'i, 's, 'c, 'j, 'm) tui_app" where
  "clear_unread_errors a = a\<lparr>tu_unread := 0\<rparr>"

definition show_toast :: "('w, 'i, 's, 'c, 'j, 'm) tui_env \<Rightarrow> rstr \<Rightarrow> int \<Rightarrow> ('w, 'i, 's, 'c, 'j, 'm) tui_app \<Rightarrow>
    ('w, 'i, 's, 'c, 'j, 'm) tui_app" where
  "show_toast V m ms a =
     on_tui_view (\<lambda>v. v\<lparr>vw_toast := Some m, vw_toast_expires := Some (tv_now_ms V (tu_world a) + ms)\<rparr>) a"

definition get_toast :: "int \<Rightarrow> view_part \<Rightarrow> rstr option" where
  "get_toast now v =
     (case (vw_toast v, vw_toast_expires v) of
        (Some m, Some t) \<Rightarrow> if now < t then Some m else None
      | _ \<Rightarrow> None)"

definition clear_expired_toast :: "int \<Rightarrow> view_part \<Rightarrow> view_part" where
  "clear_expired_toast now v =
     (case vw_toast_expires v of
        Some t \<Rightarrow> if t \<le> now then v\<lparr>vw_toast := None, vw_toast_expires := None\<rparr> else v
      | None \<Rightarrow> v)"

definition to_normal_after_streaming :: "('w, 'i, 's, 'c, 'j, 'm) tui_app \<Rightarrow> ('w, 'i, 's, 'c, 'j, 'm) tui_app" where
  "to_normal_after_streaming a =
     (if tu_mode a = Waiting \<or> tu_mode a = CancelConfirm then a\<lparr>tu_mode := NormalView\<rparr> else a)"

section \<open>Areas and scrolling\<close>

definition in_conversation_area :: "16 word \<Rightarrow> 16 word \<Rightarrow> view_part \<Rightarrow> bool" where
  "in_conversation_area col row v = (case vw_conversation_area v of Some r \<Rightarrow> in_rect col row r | None \<Rightarrow> True)"

definition in_input_area :: "16 word \<Rightarrow> 16 word \<Rightarrow> view_part \<Rightarrow> bool" where
  "in_input_area col row v = (case vw_input_area v of Some r \<Rightarrow> in_rect col row r | None \<Rightarrow> False)"

definition in_exit_button :: "16 word \<Rightarrow> 16 word \<Rightarrow> view_part \<Rightarrow> bool" where
  "in_exit_button col row v = (case vw_exit_button v of Some r \<Rightarrow> in_rect col row r | None \<Rightarrow> False)"

text \<open>The time and the position of the last click are set and cleared together.\<close>

definition check_double_click :: "int \<Rightarrow> 16 word \<Rightarrow> 16 word \<Rightarrow> view_part \<Rightarrow> bool \<times> view_part" where
  "check_double_click now col row v =
     (let double = (case vw_last_click v of
            Some (t, c, r) \<Rightarrow>
              now - t \<le> 500 \<and> \<bar>int (unat col) - int (unat c)\<bar> \<le> 3 \<and> \<bar>int (unat row) - int (unat r)\<bar> \<le> 3
          | None \<Rightarrow> False)
      in (double, v\<lparr>vw_last_click := if double then None else Some (now, col, row)\<rparr>))"

definition visible_height :: "view_part \<Rightarrow> 16 word" where
  "visible_height v = (case vw_conversation_area v of Some r \<Rightarrow> if rheight r < 2 then 0 else rheight r - 2 | None \<Rightarrow> 20)"

definition max_scroll :: "view_part \<Rightarrow> 16 word" where
  "max_scroll v =
     (let h = unat (visible_height v) in
      if vw_line_count v \<le> h then 0 else of_nat (vw_line_count v - h - 1))"

definition scroll_to_bottom :: "('w, 'i, 's, 'c, 'j, 'm) tui_app \<Rightarrow> ('w, 'i, 's, 'c, 'j, 'm) tui_app" where
  "scroll_to_bottom a = a\<lparr>tu_scroll := max_scroll (tu_view a)\<rparr>"

definition scroll_up :: "16 word \<Rightarrow> ('w, 'i, 's, 'c, 'j, 'm) tui_app \<Rightarrow> ('w, 'i, 's, 'c, 'j, 'm) tui_app" where
  "scroll_up n a = a\<lparr>tu_scroll := if tu_scroll a < n then 0 else tu_scroll a - n\<rparr>"

definition scroll_down :: "16 word \<Rightarrow> ('w, 'i, 's, 'c, 'j, 'm) tui_app \<Rightarrow> ('w, 'i, 's, 'c, 'j, 'm) tui_app" where
  "scroll_down n a =
     a\<lparr>tu_scroll := min (if unat (tu_scroll a) + unat n < 2 ^ 16 then tu_scroll a + n else - 1) (max_scroll (tu_view a))\<rparr>"

section \<open>Input\<close>

definition input_text :: "('w, 'i, 's, 'c, 'j, 'm) tui_env \<Rightarrow> ('w, 'i, 's, 'c, 'j, 'm) tui_app \<Rightarrow> rstr" where
  "input_text V a = ti_text (tv_area V) (tu_input_state a)"

definition input_is_empty :: "('w, 'i, 's, 'c, 'j, 'm) tui_env \<Rightarrow> ('w, 'i, 's, 'c, 'j, 'm) tui_app \<Rightarrow> bool" where
  "input_is_empty V a = ti_is_empty (tv_area V) (tu_input_state a)"

definition is_multiline_input :: "('w, 'i, 's, 'c, 'j, 'm) tui_env \<Rightarrow> ('w, 'i, 's, 'c, 'j, 'm) tui_app \<Rightarrow> bool" where
  "is_multiline_input V a \<longleftrightarrow> length (ti_lines (tv_area V) (tu_input_state a)) > 1"

definition cursor_on_first_line :: "('w, 'i, 's, 'c, 'j, 'm) tui_env \<Rightarrow> ('w, 'i, 's, 'c, 'j, 'm) tui_app \<Rightarrow> bool" where
  "cursor_on_first_line V a \<longleftrightarrow> ti_cursor_line (tv_area V) (tu_input_state a) = 0"

definition cursor_on_last_line :: "('w, 'i, 's, 'c, 'j, 'm) tui_env \<Rightarrow> ('w, 'i, 's, 'c, 'j, 'm) tui_app \<Rightarrow> bool" where
  "cursor_on_last_line V a \<longleftrightarrow>
     ti_cursor_line (tv_area V) (tu_input_state a) = length (ti_lines (tv_area V) (tu_input_state a)) - 1"

definition set_input :: "('w, 'i, 's, 'c, 'j, 'm) tui_env \<Rightarrow> rstr \<Rightarrow> ('w, 'i, 's, 'c, 'j, 'm) tui_app \<Rightarrow>
    ('w, 'i, 's, 'c, 'j, 'm) tui_app" where
  "set_input V t a = a\<lparr>tu_input_state := ti_set_text (tv_area V) t (tu_input_state a)\<rparr>"

definition clear_input :: "('w, 'i, 's, 'c, 'j, 'm) tui_env \<Rightarrow> ('w, 'i, 's, 'c, 'j, 'm) tui_app \<Rightarrow>
    ('w, 'i, 's, 'c, 'j, 'm) tui_app" where
  "clear_input V a = a\<lparr>tu_input_state := ti_clear (tv_area V) (tu_input_state a)\<rparr>"

definition edit_input :: "('w, 'i, 's, 'c, 'j, 'm) tui_env \<Rightarrow> text_op \<Rightarrow> ('w, 'i, 's, 'c, 'j, 'm) tui_app \<Rightarrow>
    ('w, 'i, 's, 'c, 'j, 'm) tui_app" where
  "edit_input V e a = a\<lparr>tu_input_state := snd (ti_edit (tv_area V) e (tu_input_state a))\<rparr>"

text \<open>Carriage returns, alone or before a line feed, become line feeds.\<close>

fun normalize_newlines :: "rstr \<Rightarrow> rstr" where
  "normalize_newlines [] = []"
| "normalize_newlines (c # cs) =
     (if c = 13 then 10 # normalize_newlines (if take 1 cs = [10] then tl cs else cs)
      else c # normalize_newlines cs)"

definition handle_paste :: "('w, 'i, 's, 'c, 'j, 'm) tui_env \<Rightarrow> rstr \<Rightarrow> ('w, 'i, 's, 'c, 'j, 'm) tui_app \<Rightarrow>
    ('w, 'i, 's, 'c, 'j, 'm) tui_app" where
  "handle_paste V t a =
     (if t = [] then a
      else
        let n = normalize_newlines t; lines = max (length (str_lines n)) 1; a1 = edit_input V (EdInsertText n) a in
        if lines > 1 then show_toast V (lit ''Pasted '' @ show_nat lines @ lit '' lines'') 2000 a1
        else if length n > 50 then show_toast V (lit ''Pasted '' @ show_nat (length n) @ lit '' chars'') 1500 a1
        else a1)"

section \<open>Prompt history\<close>

definition navigate_history_up :: "('w, 'i, 's, 'c, 'j, 'm) tui_env \<Rightarrow> ('w, 'i, 's, 'c, 'j, 'm) tui_app \<Rightarrow>
    ('w, 'i, 's, 'c, 'j, 'm) tui_app" where
  "navigate_history_up V a =
     (case (ph_is_navigating (tu_prompts a), tu_draft a) of
        (False, Some d) \<Rightarrow> set_input V d (a\<lparr>tu_draft := None\<rparr>)
      | _ \<Rightarrow>
          let a1 = (if tu_draft a = None \<and> \<not> input_is_empty V a then a\<lparr>tu_draft := Some (input_text V a)\<rparr> else a) in
          case ph_previous (tu_prompts a1) of
            (Some p, h) \<Rightarrow> set_input V p (a1\<lparr>tu_prompts := h\<rparr>)
          | (None, h) \<Rightarrow> a1\<lparr>tu_prompts := h\<rparr>)"

definition navigate_history_down :: "('w, 'i, 's, 'c, 'j, 'm) tui_env \<Rightarrow> ('w, 'i, 's, 'c, 'j, 'm) tui_app \<Rightarrow>
    ('w, 'i, 's, 'c, 'j, 'm) tui_app" where
  "navigate_history_down V a =
     (if \<not> ph_is_navigating (tu_prompts a)
      then if input_is_empty V a then a else clear_input V (a\<lparr>tu_draft := Some (input_text V a)\<rparr>)
      else
        case ph_next (tu_prompts a) of
          (Some p, h) \<Rightarrow> set_input V p (a\<lparr>tu_prompts := h\<rparr>)
        | (None, h) \<Rightarrow>
            (case tu_draft a of
               Some d \<Rightarrow> edit_input V EdStart (set_input V d (a\<lparr>tu_prompts := ph_reset h, tu_draft := None\<rparr>))
             | None \<Rightarrow> clear_input V (a\<lparr>tu_prompts := ph_reset h\<rparr>)))"

definition update_search_results :: "('w, 'i, 's, 'c, 'j, 'm) tui_env \<Rightarrow> ('w, 'i, 's, 'c, 'j, 'm) tui_app \<Rightarrow>
    ('w, 'i, 's, 'c, 'j, 'm) tui_app" where
  "update_search_results V a =
     a\<lparr>tu_search := (tu_search a)\<lparr>se_results := ph_search (tv_lower V) (se_query (tu_search a)) (tu_prompts a), se_index := 0\<rparr>\<rparr>"

definition current_search_result :: "search_part \<Rightarrow> rstr option" where
  "current_search_result s = vec_get (se_results s) (se_index s)"

section \<open>Completion\<close>

definition chat_with_tools :: "('w, 'i, 's, 'c, 'j, 'm) tui_env \<Rightarrow> rstr \<Rightarrow> bool" where
  "chat_with_tools V abilities \<longleftrightarrow>
     (let l = tv_lower V abilities in
      str_contains l (lit ''chat'') \<and> (str_contains l (lit ''tools'') \<or> str_contains l (lit ''tool use'')))"

definition load_model_cache :: "('w, 'i, 's, 'c, 'j, 'm) tui_env \<Rightarrow> 'w \<Rightarrow> rstr list option" where
  "load_model_cache V w =
     (case tv_model_cache V w of
        None \<Rightarrow> None
      | Some ms \<Rightarrow>
          (case map fst (filter (\<lambda>(i, ab). chat_with_tools V ab) ms) of [] \<Rightarrow> None | ids \<Rightarrow> Some ids))"

definition fallback_models :: "rstr list" where
  "fallback_models =
     [lit ''claude-haiku-4-5-20251001'', lit ''claude-sonnet-4-5-20250929'', lit ''claude-opus-4-1-20250805'',
      lit ''gemini-2.5-pro'', lit ''llama-3.3-70b-versatile'']"

definition refresh_model_cache :: "('w, 'i, 's, 'c, 'j, 'm) tui_env \<Rightarrow> 'w \<Rightarrow> completion \<Rightarrow> completion" where
  "refresh_model_cache V w c =
     c\<lparr>cm_models := (case load_model_cache V w of Some ms \<Rightarrow> ms | None \<Rightarrow> fallback_models)\<rparr>"

definition hide_completion :: "completion \<Rightarrow> completion" where
  "hide_completion c = c\<lparr>cm_shown := False, cm_suggestions := [], cm_index := 0\<rparr>"

definition suggest :: "rstr \<Rightarrow> rstr list \<Rightarrow> completion \<Rightarrow> completion" where
  "suggest title ss c =
     (if ss = [] then hide_completion c
      else c\<lparr>cm_shown := True, cm_suggestions := ss, cm_title := title,
             cm_index := if length ss \<le> cm_index c then 0 else cm_index c\<rparr>)"

definition starts_with :: "rstr \<Rightarrow> rstr \<Rightarrow> bool" where
  "starts_with s p \<longleftrightarrow> take (length p) s = p"

definition matching_commands :: "('w, 'i, 's, 'c, 'j, 'm) tui_env \<Rightarrow> rstr \<Rightarrow> rstr list" where
  "matching_commands V p =
     (let cs = filter (\<lambda>c. starts_with c p) (tv_commands V) in
      case tv_skills V of
        None \<Rightarrow> tv_sort V cs
      | Some ns \<Rightarrow>
          tv_sort V (fold (\<lambda>n cs. if starts_with n p \<and> n \<notin> set cs then cs @ [n] else cs) ns cs))"

text \<open>
  The text after \<^verbatim>\<open>/model\<close> is cut at the seventh byte; no character whose lower case is a letter of it takes more
  than one byte, so with a lower case that keeps ASCII apart the cut is on a boundary. \<open>None\<close> is the panic.
\<close>

definition update_completion :: "('w, 'i, 's, 'c, 'j, 'm) tui_env \<Rightarrow> 'w \<Rightarrow> rstr \<Rightarrow> completion \<Rightarrow> completion option" where
  "update_completion V w input c =
     (if \<not> starts_with input (lit ''/'') then Some ((hide_completion c)\<lparr>cm_title := lit ''Slash Commands''\<rparr>)
      else if starts_with (tv_lower V input) (lit ''/model '')
      then
        (case split_byte 7 input of
           None \<Rightarrow> None
         | Some (_, partial) \<Rightarrow>
             let c1 = (if cm_models c = [] then refresh_model_cache V w c else c) in
             Some (suggest (lit ''Models'')
               (tv_sort V (filter (\<lambda>m. str_contains (tv_lower V m) (tv_lower V partial)) (cm_models c1))) c1))
      else Some (suggest (lit ''Slash Commands'') (matching_commands V (tl input)) c))"

definition update_autocomplete :: "('w, 'i, 's, 'c, 'j, 'm) tui_env \<Rightarrow> ('w, 'i, 's, 'c, 'j, 'm) tui_app \<Rightarrow>
    ('w, 'i, 's, 'c, 'j, 'm) tui_app option" where
  "update_autocomplete V a =
     map_option (\<lambda>c. a\<lparr>tu_complete := c\<rparr>) (update_completion V (tu_world a) (input_text V a) (tu_complete a))"

definition autocomplete_next :: "completion \<Rightarrow> completion" where
  "autocomplete_next c =
     (if cm_suggestions c = [] then c else c\<lparr>cm_index := (cm_index c + 1) mod length (cm_suggestions c)\<rparr>)"

definition autocomplete_prev :: "completion \<Rightarrow> completion" where
  "autocomplete_prev c =
     (if cm_suggestions c = [] then c
      else c\<lparr>cm_index := if cm_index c = 0 then length (cm_suggestions c) - 1 else cm_index c - 1\<rparr>)"

definition autocomplete_accept :: "('w, 'i, 's, 'c, 'j, 'm) tui_env \<Rightarrow> bool \<Rightarrow> ('w, 'i, 's, 'c, 'j, 'm) tui_app \<Rightarrow>
    ('w, 'i, 's, 'c, 'j, 'm) tui_app option" where
  "autocomplete_accept V add_space a =
     (let c = tu_complete a in
      if \<not> cm_shown c \<or> cm_suggestions c = [] then Some a
      else
        case vec_get (cm_suggestions c) (cm_index c) of
          None \<Rightarrow> None
        | Some selected \<Rightarrow>
            let closed = (hide_completion c)\<lparr>cm_title := lit ''Slash Commands''\<rparr> in
            if cm_title c = lit ''Models''
            then Some (set_input V (lit ''/model '' @ selected) (a\<lparr>tu_complete := closed\<rparr>))
            else
              let space = (add_space \<or> selected = lit ''model'');
                  a1 = set_input V (lit ''/'' @ selected @ (if space then lit '' '' else [])) (a\<lparr>tu_complete := closed\<rparr>) in
              if selected = lit ''model'' then update_autocomplete V a1 else Some a1)"

section \<open>Starting\<close>

text \<open>
  The fields both constructors set alike. The empty text area, the console with its first lines, the settings of
  SEAL, the configured command and the loaded prompt history are arguments; the connection of a viewer is set by the caller.
\<close>

definition fresh_view :: view_part where
  "fresh_view = \<lparr>vw_line_count = 0, vw_conversation_area = None, vw_input_area = None, vw_exit_button = None,
     vw_status_bar_visible = True, vw_last_click = None, vw_mouse_disabled = False, vw_pending_bottom = False,
     vw_bottom_on_resize = False, vw_style = JournalStyle, vw_toast = None, vw_toast_expires = None\<rparr>"

definition no_dialogs :: "('c, 'j) dialog_part" where
  "no_dialogs = \<lparr>dg_help = None, dg_suspend = None, dg_exit = None, dg_sudo = None, dg_approval = None, dg_find = None,
     dg_questions = None,
     dg_answers = \<lparr>current_question_idx = 0, selected_options = [], other_selected = [], other_text = [], cursor_idx = 0,
       editing_other = False\<rparr>,
     dg_approved = [], dg_passwords = []\<rparr>"

definition no_stream :: "'j stream_part" where
  "no_stream = \<lparr>st_rx = None, st_content = [], st_msg_idx = None, st_conversation = None, st_user_content = None,
     st_tool_rx = None, st_pending = None, st_token = None, st_stream_task = None, st_tool_task = None, st_cancelled = [],
     st_aborted = []\<rparr>"

definition fresh_extra :: "bool \<Rightarrow> bool \<Rightarrow> rstr option \<Rightarrow> tool_def list \<Rightarrow> nat option \<Rightarrow> extra_part" where
  "fresh_extra seal seal_shown line_command tools mdap =
     \<lparr>ex_plan = None, ex_progress = None,
      ex_seal = \<lparr>sl_enabled = seal, sl_resolution = None, sl_entities = 0, sl_pattern = None, sl_quality = 0x3F800000,
        sl_shown = seal_shown\<rparr>,
      ex_line_command = line_command, ex_line_cache = None, ex_shells = 0, ex_shell_index = 0, ex_shell_scroll = 0,
      ex_sub_agents = None, ex_tools = tools, ex_mcp_tools = [], ex_mdap = mdap, ex_question = None, ex_replies = []\<rparr>"

definition fresh_app :: "rstr \<Rightarrow> rstr \<Rightarrow> rstr \<Rightarrow> 'j message list \<Rightarrow> 'i \<Rightarrow> 's \<Rightarrow> prompt_history \<Rightarrow> 'm \<Rightarrow> bool \<Rightarrow> extra_part \<Rightarrow>
    'w \<Rightarrow> ('w, 'i, 's, 'c, 'j, 'm) tui_app" where
  "fresh_app sid model st history input con prompts smart ipc ex w =
     \<lparr>tu_session_id = sid, tu_messages = [], tu_history = history, tu_input_state = input, tu_draft = None, tu_scroll = 0,
      tu_mode = NormalView, tu_prompts = prompts, tu_search = \<lparr>se_query = [], se_results = [], se_index = 0\<rparr>, tu_status = st,
      tu_model = model, tu_should_quit = False, tu_console = con, tu_unread = 0,
      tu_complete = \<lparr>cm_suggestions = [], cm_index = 0, cm_shown = False, cm_title = lit ''Slash Commands'', cm_models = []\<rparr>,
      tu_panel = InputPanel, tu_view = fresh_view, tu_prompt_mode = EditPrompt, tu_pre_plan_mode = None, tu_plan = None,
      tu_saved_main = None, tu_queued = [], tu_is_ipc = ipc, tu_connected = False, tu_needs_respawn = False,
      tu_dialogs = no_dialogs,
      tu_leave = \<lparr>lv_background = False, lv_suspend = False, lv_resume_ai = False, lv_exit_when_done = False,
        lv_preserve_on_exit = True, lv_last_preserve = True\<rparr>,
      tu_stream = no_stream, tu_journal = jt_new, tu_tool_log = [],
      tu_picker = \<lparr>pk_sessions = [], pk_index = 0, pk_scroll = 0\<rparr>,
      tu_tasks = \<lparr>tk_tree = lit ''No tasks'', tk_count = 0, tk_visible = [], tk_index = 0, tk_scroll = 0, tk_collapsed = {}\<rparr>,
      tu_tool_mode = smart, tu_mcp_servers = [], tu_working_set = ws_new, tu_tool_scope = None, tu_extra = ex, tu_sent = [],
      tu_world = w\<rparr>"

definition new_viewer_app :: "rstr \<Rightarrow> rstr \<Rightarrow> 'i \<Rightarrow> 's \<Rightarrow> prompt_history \<Rightarrow> 'm \<Rightarrow> bool \<Rightarrow> bool \<Rightarrow> rstr option \<Rightarrow> 'w \<Rightarrow>
    ('w, 'i, 's, 'c, 'j, 'm) tui_app" where
  "new_viewer_app sid model input con prompts smart seal seal_shown line_command w =
     fresh_app sid model (lit ''Connecting to session... Model: '' @ model) [] input con prompts smart True
       (fresh_extra seal seal_shown line_command [] None) w"

definition new_direct_app :: "rstr \<Rightarrow> rstr \<Rightarrow> rstr \<Rightarrow> tool_def list \<Rightarrow> nat option \<Rightarrow> 'i \<Rightarrow> 's \<Rightarrow> prompt_history \<Rightarrow> 'm \<Rightarrow> bool \<Rightarrow>
    bool \<Rightarrow> rstr option \<Rightarrow> 'w \<Rightarrow> ('w, 'i, 's, 'c, 'j, 'm) tui_app" where
  "new_direct_app sid model prompt tools mdap input con prompts smart seal seal_shown line_command w =
     fresh_app sid model
       (lit ''Ready - Model: '' @ model @ (if mdap = None then [] else lit '' [MDAP]'')
          @ lit '' (Ctrl+C to quit, Ctrl+R to search history)'')
       [system_prompt_message prompt] input con prompts smart False (fresh_extra seal seal_shown line_command tools mdap) w"

section \<open>A sample\<close>

text \<open>A text area that holds its text with the cursor at the end, a console that is the list of its lines, and no store.\<close>

definition sample_area :: "rstr text_area" where
  "sample_area = \<lparr>ti_text = (\<lambda>t. t), ti_set_text = (\<lambda>t i. t), ti_clear = (\<lambda>i. []), ti_is_empty = (\<lambda>t. t = []),
     ti_lines = (\<lambda>t. [t]), ti_cursor_line = (\<lambda>t. 0),
     ti_edit = (\<lambda>e t. case e of EdInsert c \<Rightarrow> (True, t @ [c]) | EdInsertText s \<Rightarrow> (True, t @ s) | EdNewline \<Rightarrow> (True, t @ [10])
       | EdBackspace \<Rightarrow> (t \<noteq> [], butlast t) | _ \<Rightarrow> (False, t)),
     ti_place = (\<lambda>x y t. t)\<rparr>"

definition sample_console :: "rstr list console" where
  "sample_console = \<lparr>co_push = (\<lambda>l ls. ls @ [l]), co_scroll_up = (\<lambda>n ls. ls), co_scroll_down = (\<lambda>n h ls. ls),
     co_text = concat, co_count = length\<rparr>"

definition sample_box :: "(bool \<times> bool) check_box" where
  "sample_box = \<lparr>cb_new = (\<lambda>b. (b, False)), cb_set_focused = (\<lambda>f (b, g). (b, f)), cb_toggle = (\<lambda>(b, g). (\<not> b, g)),
     cb_checked = fst\<rparr>"

text \<open>Its world counts the identifiers given out and keeps the stored messages.\<close>

type_synonym sample_world = "nat \<times> (rstr \<times> display_message) list"

definition sample_tui_env :: "(sample_world, rstr, rstr list, bool \<times> bool, unit, unit) tui_env" where
  "sample_tui_env = \<lparr>tv_area = sample_area, tv_console = sample_console, tv_box = sample_box,
     tv_help = \<lparr>hv_entries = (\<lambda>c. []), hv_lower = ascii_lower\<rparr>, tv_bindings = map_of default_bindings, tv_lower = ascii_lower,
     tv_sort = (\<lambda>xs. xs), tv_now_ms = (\<lambda>w. 0), tv_now = (\<lambda>w. 0), tv_clock = (\<lambda>w. []),
     tv_uuid = (\<lambda>(n, ms). (show_nat n, (n + 1, ms))), tv_write = (\<lambda>m w. (True, w)),
     tv_stored = (\<lambda>c (n, ms). Inr (map snd (filter (\<lambda>(d, m). d = c) ms))),
     tv_add_message = (\<lambda>i c m (n, ms). (True, (n, ms @ [(c, m)]))),
     tv_create_conversation = (\<lambda>c t m k w. (Inr (), w)), tv_update_conversation = (\<lambda>c k w. (Inr (), w)),
     tv_list_conversations = (\<lambda>w. Inr []), tv_count_tasks = (\<lambda>c w. Inr 0), tv_load_tasks = (\<lambda>c w. ([], w)),
     tv_clear_tasks = (\<lambda>w. w), tv_task_tree = (\<lambda>w. ([], 0)), tv_commands = [lit ''help'', lit ''model''], tv_skills = None,
     tv_model_cache = (\<lambda>w. None), tv_add_prompt = (\<lambda>p h w. (h, w))\<rparr>"

definition sample_prompts :: prompt_history where
  "sample_prompts = \<lparr>ph_prompts = [lit ''a'', lit ''b''], ph_current_index = None, ph_max_size = 1000\<rparr>"

definition sample_tui :: "(sample_world, rstr, rstr list, bool \<times> bool, unit, unit) tui_app" where
  "sample_tui = new_viewer_app (lit ''s'') (lit ''m'') (lit ''x'') [] sample_prompts () True True None (0, [])"

lemma sample_area_laws: "text_area_laws sample_area"
  by (simp add: text_area_laws_def sample_area_def)

section \<open>Properties\<close>

text \<open>The operations on the parts of the interface that the lemmas on navigation need.\<close>

lemma set_input_simps [simp]:
  "tu_prompts (set_input V t a) = tu_prompts a" "tu_draft (set_input V t a) = tu_draft a"
  "tu_prompts (clear_input V a) = tu_prompts a" "tu_draft (clear_input V a) = tu_draft a"
  "tu_prompts (edit_input V e a) = tu_prompts a" "tu_draft (edit_input V e a) = tu_draft a"
  by (simp_all add: set_input_def clear_input_def edit_input_def)

lemma input_text_simps:
  assumes "text_area_laws (tv_area V)"
  shows "input_text V (set_input V t a) = t" "input_text V (clear_input V a) = []"
    "input_is_empty V a \<longleftrightarrow> input_text V a = []" "input_text V (edit_input V EdStart a) = input_text V a"
  using assms by (simp_all add: text_area_laws_def input_text_def set_input_def clear_input_def edit_input_def input_is_empty_def)

lemma input_text_update [simp]:
  "input_text V (a\<lparr>tu_prompts := h\<rparr>) = input_text V a" "input_text V (a\<lparr>tu_draft := d\<rparr>) = input_text V a"
  by (simp_all add: input_text_def)

lemma ups:
  assumes "text_area_laws (tv_area V)" and "ph_prompts (tu_prompts a) \<noteq> []" and "ph_current_index (tu_prompts a) = None"
    and "tu_draft a = None" and "input_text V a \<noteq> []" and "k < length (ph_prompts (tu_prompts a))"
  shows "tu_draft ((navigate_history_up V ^^ Suc k) a) = Some (input_text V a)
    \<and> tu_prompts ((navigate_history_up V ^^ Suc k) a) =
        (tu_prompts a)\<lparr>ph_current_index := Some (length (ph_prompts (tu_prompts a)) - 1 - k)\<rparr>"
  using assms(6)
proof (induction k)
  case 0
  with assms show ?case
    by (auto simp: navigate_history_up_def ph_is_navigating_def ph_previous_def Let_def input_text_simps ph_at_def vec_get_def
        split: option.split)
next
  case (Suc k)
  let ?b = "(navigate_history_up V ^^ Suc k) a"
  from Suc have "tu_draft ?b = Some (input_text V a)"
    "tu_prompts ?b = (tu_prompts a)\<lparr>ph_current_index := Some (length (ph_prompts (tu_prompts a)) - 1 - k)\<rparr>" by auto
  then have "tu_draft (navigate_history_up V ?b) = Some (input_text V a)
    \<and> tu_prompts (navigate_history_up V ?b) =
        (tu_prompts a)\<lparr>ph_current_index := Some (length (ph_prompts (tu_prompts a)) - 1 - Suc k)\<rparr>"
    using Suc.prems by (auto simp: navigate_history_up_def ph_is_navigating_def ph_previous_def Let_def ph_at_def vec_get_def split: option.split)
  then show ?case by simp
qed

lemma downs:
  assumes "ph_current_index (tu_prompts b) = Some i" and "i + k < length (ph_prompts (tu_prompts b))"
  shows "tu_draft ((navigate_history_down V ^^ k) b) = tu_draft b
    \<and> tu_prompts ((navigate_history_down V ^^ k) b) = (tu_prompts b)\<lparr>ph_current_index := Some (i + k)\<rparr>"
  using assms(2)
proof (induction k)
  case (Suc k)
  then show ?case
    by (auto simp: navigate_history_down_def ph_is_navigating_def ph_next_def Let_def ph_at_def vec_get_def split: option.split)
qed (use assms(1) in simp)

lemma last_down:
  assumes "text_area_laws (tv_area V)" and "tu_prompts b = h\<lparr>ph_current_index := Some (length (ph_prompts h) - 1)\<rparr>"
    and "ph_prompts h \<noteq> []" and "tu_draft b = Some d"
  shows "input_text V (navigate_history_down V b) = d \<and> tu_draft (navigate_history_down V b) = None
    \<and> tu_prompts (navigate_history_down V b) = h\<lparr>ph_current_index := None\<rparr>"
  using assms by (auto simp: navigate_history_down_def ph_is_navigating_def ph_next_def Let_def ph_at_def ph_reset_def
      input_text_simps split: option.split)


text \<open>Text typed while a draft is kept aside is lost when the draft comes back.\<close>

lemma typed_text_lost_to_draft:
  assumes "text_area_laws (tv_area V)" and "\<not> ph_is_navigating (tu_prompts a)" and "tu_draft a = Some d"
  shows "input_text V (navigate_history_up V a) = d \<and> tu_draft (navigate_history_up V a) = None"
  using assms by (simp add: navigate_history_up_def input_text_simps)

definition completion_ok :: "completion \<Rightarrow> bool" where
  "completion_ok c \<longleftrightarrow> cm_suggestions c = [] \<or> cm_index c < length (cm_suggestions c)"

datatype completion_op = CompletionUpdate | CompletionNext | CompletionPrev | CompletionAccept bool | InputChange rstr

fun completion_exec :: "('w, 'i, 's, 'c, 'j, 'm) tui_env \<Rightarrow> completion_op \<Rightarrow> ('w, 'i, 's, 'c, 'j, 'm) tui_app \<Rightarrow>
    ('w, 'i, 's, 'c, 'j, 'm) tui_app option" where
  "completion_exec V CompletionUpdate a = update_autocomplete V a"
| "completion_exec V CompletionNext a = Some (a\<lparr>tu_complete := autocomplete_next (tu_complete a)\<rparr>)"
| "completion_exec V CompletionPrev a = Some (a\<lparr>tu_complete := autocomplete_prev (tu_complete a)\<rparr>)"
| "completion_exec V (CompletionAccept space) a = autocomplete_accept V space a"
| "completion_exec V (InputChange t) a = Some (set_input V t a)"

text \<open>Lower case leaves ASCII alone: what is \<^verbatim>\<open>/model\<close> and a space in lower case was ASCII before.\<close>

definition lower_keeps_ascii :: "(rstr \<Rightarrow> rstr) \<Rightarrow> bool" where
  "lower_keeps_ascii lo \<longleftrightarrow>
     (\<forall>s. starts_with (lo s) (lit ''/model '') \<longrightarrow> 7 \<le> length s \<and> ascii (take 7 s))"

lemma completion_ok_simps [simp]:
  "completion_ok (hide_completion c)" "completion_ok (suggest t ss c)"
  "completion_ok (c\<lparr>cm_title := t\<rparr>) = completion_ok c"
  by (auto simp: completion_ok_def hide_completion_def suggest_def)

lemma hidden_ok [simp]: "completion_ok ((hide_completion c)\<lparr>cm_title := t\<rparr>)"
  by simp

lemma update_completion_ok:
  assumes "lower_keeps_ascii (tv_lower V)"
  shows "\<exists>c'. update_completion V w t c = Some c' \<and> completion_ok c'"
proof (cases "starts_with (tv_lower V t) (lit ''/model '')")
  case True
  with assms have a: "7 \<le> length t" "ascii (take 7 t)" by (auto simp: lower_keeps_ascii_def)
  have "split_byte 7 t = Some (take 7 t, drop 7 t)"
    using a by (simp add: split_byte_Some_iff ascii_blen)
  then show ?thesis by (simp add: update_completion_def Let_def)
qed (simp add: update_completion_def)

lemma update_autocomplete_ok:
  assumes "lower_keeps_ascii (tv_lower V)"
  shows "\<exists>a'. update_autocomplete V a = Some a' \<and> completion_ok (tu_complete a')"
  using update_completion_ok [OF assms, of "tu_world a" "input_text V a" "tu_complete a"]
  by (auto simp: update_autocomplete_def)

lemma set_input_complete [simp]: "tu_complete (set_input V t a) = tu_complete a"
  by (simp add: set_input_def)

lemma completion_exec_ok:
  assumes "lower_keeps_ascii (tv_lower V)" and "completion_ok (tu_complete a)"
  shows "\<exists>a'. completion_exec V op a = Some a' \<and> completion_ok (tu_complete a')"
proof (cases op)
  case (CompletionAccept space)
  with assms update_autocomplete_ok [OF assms(1)] show ?thesis
    by (auto simp: autocomplete_accept_def Let_def vec_get_def completion_ok_def [of "tu_complete a"])
next
  case CompletionNext
  with assms(2) show ?thesis by (auto simp: autocomplete_next_def completion_ok_def)
next
  case CompletionPrev
  with assms(2) show ?thesis by (auto simp: autocomplete_prev_def completion_ok_def)
qed (use assms update_autocomplete_ok [OF assms(1)] in simp_all)

interpretation cmp: panic_machine "completion_exec V" "\<lambda>_. True" "\<lambda>a. completion_ok (tu_complete a) \<and> lower_keeps_ascii (tv_lower V)" for V
  by unfold_locales (use completion_exec_ok in blast)

text \<open>
  Whatever is typed, completed, selected and accepted in whatever order, the selected suggestion exists and no
  access to the list of suggestions or slice of the input panics.
\<close>

theorem completion_never_panics:
  assumes "lower_keeps_ascii (tv_lower V)" and "cm_suggestions (tu_complete a) = []"
  shows "\<exists>a'. run_opt (completion_exec V) ops a = Some a' \<and>
    (cm_suggestions (tu_complete a') \<noteq> [] \<longrightarrow> vec_get (cm_suggestions (tu_complete a')) (cm_index (tu_complete a')) \<noteq> None)"
proof -
  have "completion_ok (tu_complete a)" using assms(2) by (simp add: completion_ok_def)
  then obtain a' where "run_opt (completion_exec V) ops a = Some a'" "completion_ok (tu_complete a')"
    using cmp.run_safe [of a V ops] assms(1) by auto
  then show ?thesis by (auto simp: completion_ok_def vec_get_def)
qed

lemma model_command [simp]: "length (lit ''/model '') = 7" "ascii (lit ''/model '')"
  by (simp_all add: lit_def ascii_def)

lemma ascii_lower_ascii: "ascii (ascii_lower s) \<Longrightarrow> ascii s"
  by (induction s) (auto simp: ascii_lower_def ascii_lower_char_def ascii_def split: if_splits)

lemma ascii_lower_keeps_ascii: "lower_keeps_ascii ascii_lower"
  unfolding lower_keeps_ascii_def
proof (intro allI impI)
  fix s
  assume "starts_with (ascii_lower s) (lit ''/model '')"
  then have t: "ascii_lower (take 7 s) = lit ''/model ''" by (simp add: starts_with_def ascii_lower_def take_map)
  then have "length (take 7 s) = 7" by (metis ascii_lower_def length_map model_command(1))
  with t show "7 \<le> length s \<and> ascii (take 7 s)" using ascii_lower_ascii [of "take 7 s"] by simp
qed

theorem completion_never_panics_witness:
  "\<exists>a'. run_opt (completion_exec sample_tui_env) [InputChange (lit ''/''), CompletionUpdate, CompletionNext, CompletionAccept True]
      sample_tui = Some a'"
  using completion_never_panics [of sample_tui_env sample_tui
      "[InputChange (lit ''/''), CompletionUpdate, CompletionNext, CompletionAccept True]"] ascii_lower_keeps_ascii
  by (auto simp: sample_tui_env_def sample_tui_def new_viewer_app_def fresh_app_def)


text \<open>The offset of the last screen is cut to sixteen bits: a very long conversation is shown from its beginning.\<close>

lemma max_scroll_wraps: "max_scroll (fresh_view\<lparr>vw_line_count := 2 ^ 16 + 21\<rparr>) = 0"
  by (simp add: max_scroll_def visible_height_def fresh_view_def)

end
