(* ===== verification/TuiPlan.thy ===== *)
theory TuiPlan
  imports TuiApp
begin

text \<open>
  Plan mode, prompt modes and stored sessions of the terminal interface: \<^verbatim>\<open>plan_mode.rs\<close>, \<^verbatim>\<open>prompt_mode.rs\<close> and
  \<^verbatim>\<open>session_management.rs\<close> under \<^verbatim>\<open>apps/cli/src/tui/app\<close>. Entering plan mode keeps the main conversation aside,
  leaving it puts it back. A panic is \<open>None\<close>, or the ending \<open>Panics\<close> where an error is possible as well.
\<close>

section \<open>Messages on both sides\<close>

definition to_display :: "tui_message \<Rightarrow> display_message" where
  "to_display m = dm_new (msg_role m) (msg_content m) (msg_created_at m)"

definition of_display :: "display_message \<Rightarrow> tui_message" where
  "of_display d = \<lparr>msg_role = dm_role d, msg_content = dm_content d, msg_created_at = dm_created_at d\<rparr>"

text \<open>Errors of the connection are dropped by these callers; what was written is logged.\<close>

definition write_ipc :: "('w, 'i, 's, 'c, 'j, 'm) tui_env \<Rightarrow> 'm viewer_message \<Rightarrow> ('w, 'i, 's, 'c, 'j, 'm) tui_app \<Rightarrow>
    bool \<times> ('w, 'i, 's, 'c, 'j, 'm) tui_app" where
  "write_ipc V m a =
     (case tv_write V m (tu_world a) of
        (ok, w) \<Rightarrow> (ok, a\<lparr>tu_sent := (if ok then tu_sent a @ [m] else tu_sent a), tu_world := w\<rparr>))"

definition tell_session :: "('w, 'i, 's, 'c, 'j, 'm) tui_env \<Rightarrow> 'm viewer_message \<Rightarrow> ('w, 'i, 's, 'c, 'j, 'm) tui_app \<Rightarrow>
    ('w, 'i, 's, 'c, 'j, 'm) tui_app" where
  "tell_session V m a = (if tu_is_ipc a \<and> tu_connected a then snd (write_ipc V m a) else a)"

section \<open>Plan mode\<close>

definition plan_at_entry :: "('w, 'i, 's, 'c, 'j, 'm) tui_env \<Rightarrow> rstr option \<Rightarrow> ('w, 'i, 's, 'c, 'j, 'm) tui_app \<Rightarrow>
    'j plan_state \<times> 'w" where
  "plan_at_entry V focus a =
     (case (case tu_plan a of
              Some p \<Rightarrow> (ps_activate (tv_now V (tu_world a)) p, tu_world a)
            | None \<Rightarrow> (case tv_uuid V (tu_world a) of (u, w) \<Rightarrow> (ps_new u (tv_now V w) (tu_session_id a) focus, w))) of
        (p, w) \<Rightarrow> (if focus = None then p else p\<lparr>ps_focus := focus\<rparr>, w))"

definition tui_enter_plan_mode :: "('w, 'i, 's, 'c, 'j, 'm) tui_env \<Rightarrow> rstr option \<Rightarrow> ('w, 'i, 's, 'c, 'j, 'm) tui_app \<Rightarrow>
    ('w, 'i, 's, 'c, 'j, 'm) tui_app" where
  "tui_enter_plan_mode V focus a =
     (if tu_mode a = PlanView then log_console V (lit ''Already in plan mode'') a
      else
        case plan_at_entry V focus a of
          (p, w) \<Rightarrow>
            let goal = (case focus of Some f \<Rightarrow> f | None \<Rightarrow> lit ''general planning'');
                a1 = a\<lparr>tu_saved_main := Some \<lparr>sc_messages = map to_display (tu_messages a), sc_history = tu_history a,
                         sc_scroll = tu_scroll a, sc_status = tu_status a\<rparr>,
                       tu_pre_plan_mode := Some (tu_prompt_mode a), tu_prompt_mode := PlanPrompt, tu_plan := Some p,
                       tu_mode := PlanView, tu_messages := map of_display (ps_messages p), tu_history := ps_history p,
                       tu_scroll := 0, tu_world := w\<rparr>;
                a2 = set_tui_status V LogInfo (lit ''Plan Mode - Focus: '' @ goal @ lit '' (Ctrl+P to exit)'') a1;
                a3 = log_console V (lit ''Entered plan mode: '' @ goal) a2
            in tell_session V (EnterPlan (ps_focus p)) a3)"

definition keep_plan :: "('w, 'i, 's, 'c, 'j, 'm) tui_env \<Rightarrow> ('w, 'i, 's, 'c, 'j, 'm) tui_app \<Rightarrow> 'j plan_state \<Rightarrow> 'j plan_state" where
  "keep_plan V a p =
     ps_deactivate (tv_now V (tu_world a))
       (p\<lparr>ps_messages := map to_display (tu_messages a), ps_history := tu_history a\<rparr>)"

definition put_back :: "'j saved_context \<Rightarrow> ('w, 'i, 's, 'c, 'j, 'm) tui_app \<Rightarrow> ('w, 'i, 's, 'c, 'j, 'm) tui_app" where
  "put_back c a =
     a\<lparr>tu_saved_main := None, tu_messages := map of_display (sc_messages c), tu_history := sc_history c, tu_scroll := sc_scroll c\<rparr>"

definition tui_exit_plan_mode :: "('w, 'i, 's, 'c, 'j, 'm) tui_env \<Rightarrow> ('w, 'i, 's, 'c, 'j, 'm) tui_app \<Rightarrow>
    ('w, 'i, 's, 'c, 'j, 'm) tui_app" where
  "tui_exit_plan_mode V a =
     (if tu_mode a \<noteq> PlanView then a
      else
        let a1 = a\<lparr>tu_plan := map_option (keep_plan V a) (tu_plan a)\<rparr>;
            a2 = (case tu_saved_main a1 of
                    Some c \<Rightarrow> set_tui_status V LogInfo (sc_status c) (put_back c a1)
                  | None \<Rightarrow> set_tui_status V LogInfo (lit ''Ready - Model: '' @ tu_model a1) a1);
            a3 = a2\<lparr>tu_mode := NormalView,
                    tu_prompt_mode := (case tu_pre_plan_mode a2 of Some p \<Rightarrow> p | None \<Rightarrow> EditPrompt), tu_pre_plan_mode := None\<rparr>
        in tell_session V ExitPlan (log_console V (lit ''Exited plan mode'') a3))"

definition user_entry :: "rstr \<Rightarrow> int \<Rightarrow> tui_message" where
  "user_entry t now = \<lparr>msg_role = lit ''user'', msg_content = t, msg_created_at = now\<rparr>"

definition assistant_entry :: "rstr \<Rightarrow> int \<Rightarrow> tui_message" where
  "assistant_entry t now = \<lparr>msg_role = lit ''assistant'', msg_content = t, msg_created_at = now\<rparr>"

definition submit_plan_input :: "('w, 'i, 's, 'c, 'j, 'm) tui_env \<Rightarrow> ('w, 'i, 's, 'c, 'j, 'm) tui_app \<Rightarrow>
    ('w, 'i, 's, 'c, 'j, 'm) tui_app" where
  "submit_plan_input V a =
     (let t = input_text V a; ms = tv_now_ms V (tu_world a); now = tv_now V (tu_world a);
          a1 = clear_input V a;
          a2 = a1\<lparr>tu_messages := tu_messages a1 @ [user_entry t ms],
                  tu_plan := map_option (ps_add_message now (dm_new (lit ''user'') t ms)) (tu_plan a1)\<rparr>
      in on_tui_view (\<lambda>v. v\<lparr>vw_pending_bottom := True\<rparr>) (tell_session V (PlanInput t []) a2))"

definition is_control :: "rchar \<Rightarrow> bool" where
  "is_control c \<longleftrightarrow> c < 32 \<or> 127 \<le> c \<and> c < 160"

definition submit_plan_if_text :: "('w, 'i, 's, 'c, 'j, 'm) tui_env \<Rightarrow> ('w, 'i, 's, 'c, 'j, 'm) tui_app \<Rightarrow>
    ('w, 'i, 's, 'c, 'j, 'm) tui_app" where
  "submit_plan_if_text V a = (if trim (input_text V a) \<noteq> [] then submit_plan_input V a else a)"

definition backspace_and_complete :: "('w, 'i, 's, 'c, 'j, 'm) tui_env \<Rightarrow> ('w, 'i, 's, 'c, 'j, 'm) tui_app \<Rightarrow>
    ('w, 'i, 's, 'c, 'j, 'm) tui_app option" where
  "backspace_and_complete V a =
     (case ti_edit (tv_area V) EdBackspace (tu_input_state a) of
        (deleted, i) \<Rightarrow> let a1 = a\<lparr>tu_input_state := i\<rparr> in if deleted then update_autocomplete V a1 else Some a1)"

definition type_and_complete :: "('w, 'i, 's, 'c, 'j, 'm) tui_env \<Rightarrow> key_code \<Rightarrow> ('w, 'i, 's, 'c, 'j, 'm) tui_app \<Rightarrow>
    ('w, 'i, 's, 'c, 'j, 'm) tui_app option" where
  "type_and_complete V k a =
     (case k of
        KChar c \<Rightarrow> if is_control c then Some a else update_autocomplete V (edit_input V (EdInsert c) a)
      | KLeft \<Rightarrow> Some (edit_input V EdLeft a)
      | KRight \<Rightarrow> Some (edit_input V EdRight a)
      | KHome \<Rightarrow> Some (edit_input V EdLineStart a)
      | KEnd \<Rightarrow> Some (edit_input V EdLineEnd a)
      | KTab \<Rightarrow> autocomplete_accept V True a
      | _ \<Rightarrow> Some a)"

definition plan_mode_event :: "('w, 'i, 's, 'c, 'j, 'm) tui_env \<Rightarrow> 'e event \<Rightarrow> ('w, 'i, 's, 'c, 'j, 'm) tui_app \<Rightarrow>
    ('w, 'i, 's, 'c, 'j, 'm) tui_app option" where
  "plan_mode_event V e a =
     (let shown = cm_shown (tu_complete a) in
      case e of
        Paste t \<Rightarrow> Some (handle_paste V t a)
      | _ \<Rightarrow>
          if is_escape e then Some (tui_exit_plan_mode V a)
          else if is_enter e
          then map_option (submit_plan_if_text V) (if shown then autocomplete_accept V False a else Some a)
          else if is_tab e \<and> \<not> shown
          then Some (a\<lparr>tu_panel := if tu_panel a = InputPanel then ConversationPanel else InputPanel\<rparr>)
          else if is_up e \<and> shown then Some (a\<lparr>tu_complete := autocomplete_prev (tu_complete a)\<rparr>)
          else if is_down e \<and> shown then Some (a\<lparr>tu_complete := autocomplete_next (tu_complete a)\<rparr>)
          else if is_up e \<and> tu_panel a = ConversationPanel then Some (scroll_up 1 a)
          else if is_down e \<and> tu_panel a = ConversationPanel then Some (scroll_down 1 a)
          else if is_page_up e then Some (scroll_up 10 a)
          else if is_page_down e then Some (scroll_down 10 a)
          else if is_backspace e then backspace_and_complete V a
          else (case e of Key k ms \<Rightarrow> type_and_complete V k a | _ \<Rightarrow> Some a))"

text \<open>What the agent answers in plan mode. No caller of the interface passes such a message on to it.\<close>

definition append_to_last :: "rstr \<Rightarrow> tui_message list \<Rightarrow> tui_message list" where
  "append_to_last t ms =
     (if msg_role (last ms) = lit ''assistant'' then butlast ms @ [(last ms)\<lparr>msg_content := msg_content (last ms) @ t\<rparr>] else ms)"

fun handle_plan_mode_ipc :: "('w, 'i, 's, 'c, 'j, 'm) tui_env \<Rightarrow> ('j, 'm) ipc_message \<Rightarrow> ('w, 'i, 's, 'c, 'j, 'm) tui_app \<Rightarrow>
    ('w, 'i, 's, 'c, 'j, 'm) tui_app" where
  "handle_plan_mode_ipc V (PlanModeEntered i ms st) a =
     (set_tui_status V LogInfo st
       (a\<lparr>tu_plan := map_option (\<lambda>p. p\<lparr>ps_plan_session_id := i, ps_messages := ms\<rparr>) (tu_plan a),
          tu_messages := map of_display ms\<rparr>))\<lparr>tu_mode := PlanView\<rparr>"
| "handle_plan_mode_ipc V (PlanModeExited summary) a =
     (let a1 = (case summary of Some s \<Rightarrow> log_console V (lit ''Plan mode summary: '' @ s) a | None \<Rightarrow> a);
          a2 = (case tu_saved_main a1 of
                  Some c \<Rightarrow> set_tui_status V LogInfo (sc_status c) (put_back c a1)
                | None \<Rightarrow> a1)
      in a2\<lparr>tu_mode := NormalView\<rparr>)"
| "handle_plan_mode_ipc V (PlanModeSync i m ms st busy) a =
     set_tui_status V LogInfo st
       (a\<lparr>tu_plan := map_option (\<lambda>p. p\<lparr>ps_plan_session_id := i, ps_messages := ms\<rparr>) (tu_plan a),
          tu_messages := map of_display ms\<rparr>)"
| "handle_plan_mode_ipc V (PlanModeMessageAdded d) a =
     on_tui_view (\<lambda>v. v\<lparr>vw_pending_bottom := True\<rparr>)
       (a\<lparr>tu_messages := tu_messages a @ [of_display d],
          tu_plan := map_option (ps_add_message (tv_now V (tu_world a)) d) (tu_plan a)\<rparr>)"
| "handle_plan_mode_ipc V (PlanModeStreamChunk t) a =
     a\<lparr>tu_messages := (if tu_messages a = [] then [assistant_entry t (tv_now_ms V (tu_world a))]
          else append_to_last t (tu_messages a))\<rparr>"
| "handle_plan_mode_ipc V (PlanModeStreamEnd r) a =
     a\<lparr>tu_plan := map_option (\<lambda>p. p\<lparr>ps_messages := map to_display (tu_messages a)\<rparr>) (tu_plan a)\<rparr>"
| "handle_plan_mode_ipc V m a = a"

definition tui_clear_plan_mode :: "('w, 'i, 's, 'c, 'j, 'm) tui_env \<Rightarrow> ('w, 'i, 's, 'c, 'j, 'm) tui_app \<Rightarrow>
    ('w, 'i, 's, 'c, 'j, 'm) tui_app" where
  "tui_clear_plan_mode V a =
     (let a1 = a\<lparr>tu_plan := map_option (ps_clear (tv_now V (tu_world a))) (tu_plan a)\<rparr>;
          a2 = (if tu_mode a1 = PlanView then a1\<lparr>tu_messages := [], tu_history := [], tu_scroll := 0\<rparr> else a1)
      in log_console V (lit ''Plan mode history cleared'') a2)"

definition tui_plan_mode_status :: "('w, 'i, 's, 'c, 'j, 'm) tui_app \<Rightarrow> rstr" where
  "tui_plan_mode_status a =
     (case tu_plan a of
        None \<Rightarrow> lit ''Plan mode not initialized''
      | Some p \<Rightarrow>
          lit ''Plan Mode: '' @ (if ps_active p then lit ''active'' else lit ''inactive'') @ [10] @ lit ''Session: ''
          @ ps_plan_session_id p @ [10] @ lit ''Focus: ''
          @ (case ps_focus p of Some f \<Rightarrow> f | None \<Rightarrow> lit ''general'') @ [10] @ lit ''Messages: '' @ show_nat (ps_message_count p))"

section \<open>Prompt modes\<close>

definition ask_mode_excluded :: "rstr list" where
  "ask_mode_excluded =
     [lit ''write_file'', lit ''edit_file'', lit ''delete_file'', lit ''patch_file'', lit ''create_directory'',
      lit ''execute_command'', lit ''git_commit'', lit ''git_push'', lit ''git_reset'', lit ''git_checkout'', lit ''git_stage'',
      lit ''git_discard'']"

definition filter_tools_for_prompt_mode :: "prompt_mode \<Rightarrow> tool_def list \<Rightarrow> tool_def list" where
  "filter_tools_for_prompt_mode p ts =
     (if p = AskPrompt then filter (\<lambda>t. td_name t \<notin> set ask_mode_excluded) ts else ts)"

definition ends_with :: "rstr \<Rightarrow> rstr \<Rightarrow> bool" where
  "ends_with s p \<longleftrightarrow> length p \<le> length s \<and> drop (length s - length p) s = p"

text \<open>The scope of a skill is used up by the turn that applies it.\<close>

definition apply_tool_scope :: "tool_def list \<Rightarrow> ('w, 'i, 's, 'c, 'j, 'm) tui_app \<Rightarrow>
    tool_def list \<times> ('w, 'i, 's, 'c, 'j, 'm) tui_app" where
  "apply_tool_scope ts a =
     (case tu_tool_scope a of
        None \<Rightarrow> (ts, a)
      | Some allowed \<Rightarrow>
          (filter (\<lambda>t. td_name t \<in> set allowed \<or> list_ex (\<lambda>n. ends_with (td_name t) (lit ''__'' @ n)) allowed) ts,
           a\<lparr>tu_tool_scope := None\<rparr>))"

text \<open>The texts of the system prompts are built elsewhere: \<open>build\<close> gets whether the mode is read-only and the working set.\<close>

fun replace_system :: "rstr \<Rightarrow> 'j message list \<Rightarrow> 'j message list option" where
  "replace_system p [] = None"
| "replace_system p (m # ms) =
     (if m_role m = SystemRole then Some (m\<lparr>m_content := TextContent p\<rparr> # ms)
      else map_option (Cons m) (replace_system p ms))"

definition rebuild_system_prompt :: "(bool \<Rightarrow> working_set \<Rightarrow> rstr option) \<Rightarrow> ('w, 'i, 's, 'c, 'j, 'm) tui_app \<Rightarrow>
    ('w, 'i, 's, 'c, 'j, 'm) tui_app" where
  "rebuild_system_prompt build a =
     (let ask = tu_prompt_mode a = AskPrompt;
          p = (case build ask (tu_working_set a) of
                 Some t \<Rightarrow> t
               | None \<Rightarrow> if ask then lit ''You are a helpful read-only coding assistant.''
                         else lit ''You are a helpful coding assistant.'')
      in a\<lparr>tu_history := (case replace_system p (tu_history a) of
             Some h \<Rightarrow> h | None \<Rightarrow> system_prompt_message p # tu_history a)\<rparr>)"

definition set_prompt_mode :: "('w, 'i, 's, 'c, 'j, 'm) tui_env \<Rightarrow> (bool \<Rightarrow> working_set \<Rightarrow> rstr option) \<Rightarrow> bool \<Rightarrow>
    ('w, 'i, 's, 'c, 'j, 'm) tui_app \<Rightarrow> ('w, 'i, 's, 'c, 'j, 'm) tui_app" where
  "set_prompt_mode V build ask a =
     (let a1 = (if tu_mode a = PlanView then tui_exit_plan_mode V a else a);
          a2 = rebuild_system_prompt build (a1\<lparr>tu_prompt_mode := if ask then AskPrompt else EditPrompt\<rparr>)
      in show_toast V (if ask then lit ''Switched to Ask mode (read-only)'' else lit ''Switched to Edit mode (full tools)'') 3000 a2)"

section \<open>Stored sessions\<close>

definition shown_role :: "rstr \<Rightarrow> role" where
  "shown_role r =
     (if r = lit ''user'' then UserRole else if r = lit ''assistant'' then AssistantRole
      else if r = lit ''system'' then SystemRole else if r = lit ''tool'' then ToolRole else UserRole)"

definition load_tasks_of :: "('w, 'i, 's, 'c, 'j, 'm) tui_env \<Rightarrow> rstr \<Rightarrow> ('w, 'i, 's, 'c, 'j, 'm) tui_app \<Rightarrow>
    nat \<times> ('w, 'i, 's, 'c, 'j, 'm) tui_app" where
  "load_tasks_of V cid a =
     (let none = (0, a\<lparr>tu_tasks := (tu_tasks a)\<lparr>tk_tree := lit ''No tasks'', tk_count := 0\<rparr>,
                       tu_world := tv_clear_tasks V (tu_world a)\<rparr>) in
      case tv_count_tasks V cid (tu_world a) of
        Inl e \<Rightarrow> none
      | Inr n \<Rightarrow>
          if n = 0 then none
          else (case tv_load_tasks V cid (tu_world a) of
                  (tree, w) \<Rightarrow> (n, a\<lparr>tu_tasks := (tu_tasks a)\<lparr>tk_tree := tree, tk_count := n\<rparr>, tu_world := w\<rparr>)))"

definition load_session :: "('w, 'i, 's, 'c, 'j, 'm) tui_env \<Rightarrow> rstr \<Rightarrow> ('w, 'i, 's, 'c, 'j, 'm) tui_app \<Rightarrow>
    unit ending \<times> ('w, 'i, 's, 'c, 'j, 'm) tui_app" where
  "load_session V cid a =
     (case tv_stored V cid (tu_world a) of
        Inl e \<Rightarrow> (Fails e, a)
      | Inr rows \<Rightarrow>
          let a1 = on_tui_view (\<lambda>v. v\<lparr>vw_line_count := 0\<rparr>) (clear_input V a);
              a2 = a1\<lparr>tu_scroll := 0, tu_messages := map of_display rows,
                      tu_history := map (\<lambda>d. \<lparr>m_role = shown_role (dm_role d), m_content = TextContent (dm_content d)\<rparr>) rows,
                      tu_session_id := cid\<rparr>
          in (case load_tasks_of V cid a2 of
                (n, a3) \<Rightarrow>
                  (case split_byte (min 8 (blen cid)) cid of
                     None \<Rightarrow> (Panics, a3)
                   | Some (short, _) \<Rightarrow>
                       let a4 = set_tui_status V LogInfo
                             (lit ''Loaded session: '' @ short @ lit '' ('' @ show_nat (length (tu_messages a3)) @ lit '' messages''
                               @ (if n > 0 then lit '', '' @ show_nat n @ lit '' tasks'' else []) @ lit '')'') a3;
                           a5 = (if tu_messages a4 \<noteq> [] \<and> msg_role (last (tu_messages a4)) = lit ''user''
                                 then on_leave (\<lambda>l. l\<lparr>lv_resume_ai := True\<rparr>) a4 else a4)
                       in (Returns (), on_tui_view (\<lambda>v. v\<lparr>vw_pending_bottom := True\<rparr>) a5))))"

definition session_title :: "rstr \<Rightarrow> rstr option" where
  "session_title t =
     (if blen t > 50 then map_option (\<lambda>(x, y). x @ lit ''...'') (split_byte 47 t) else Some t)"

text \<open>The messages that are not stored yet, without the one that is still being streamed.\<close>

definition unsaved :: "nat \<Rightarrow> nat option \<Rightarrow> tui_message list \<Rightarrow> tui_message list" where
  "unsaved stored streaming ms = map snd (filter (\<lambda>(i, m). streaming \<noteq> Some i) (drop stored (enumerate 0 ms)))"

fun save_rows :: "('w, 'i, 's, 'c, 'j, 'm) tui_env \<Rightarrow> rstr \<Rightarrow> tui_message list \<Rightarrow> 'w \<Rightarrow> nat \<times> 'w" where
  "save_rows V cid [] w = (0, w)"
| "save_rows V cid (m # ms) w =
     (case tv_uuid V w of
        (u, w1) \<Rightarrow>
          (case tv_add_message V u cid (to_display m) w1 of
             (ok, w2) \<Rightarrow> (case save_rows V cid ms w2 of (n, w3) \<Rightarrow> ((if ok then n + 1 else n), w3))))"

text \<open>
  \<open>None\<close> is the panic of the title, which is cut at byte 47. The errors of creating and updating the row of the
  conversation are dropped.
\<close>

definition force_save :: "('w, 'i, 's, 'c, 'j, 'm) tui_env \<Rightarrow> ('w, 'i, 's, 'c, 'j, 'm) tui_app \<Rightarrow>
    ('w, 'i, 's, 'c, 'j, 'm) tui_app option" where
  "force_save V a =
     (case tu_messages a of
        [] \<Rightarrow> Some a
      | m # _ \<Rightarrow>
          (case session_title (msg_content m) of
             None \<Rightarrow> None
           | Some title \<Rightarrow>
               (case tv_create_conversation V (tu_session_id a) title (tu_model a) (length (tu_messages a)) (tu_world a) of
                  (_, w1) \<Rightarrow>
                    let n = (case tv_stored V (tu_session_id a) w1 of Inr rows \<Rightarrow> length rows | Inl e \<Rightarrow> 0);
                        rows = unsaved n (st_msg_idx (tu_stream a)) (tu_messages a)
                    in if rows = [] then Some (a\<lparr>tu_world := w1\<rparr>)
                       else
                         (case save_rows V (tu_session_id a) rows w1 of
                            (k, w2) \<Rightarrow>
                              Some (a\<lparr>tu_world := if k > 0
                                then snd (tv_update_conversation V (tu_session_id a) (length (tu_messages a)) w2) else w2\<rparr>)))))"

section \<open>Plan mode gives the main conversation back\<close>

lemma display_inverse [simp]: "of_display (to_display m) = m" "to_display (of_display d) = d"
  by (simp_all add: of_display_def to_display_def dm_new_def)

lemma map_display_inverse [simp]: "map of_display (map to_display ms) = ms" "of_display \<circ> to_display = id"
  by (simp_all add: o_def id_def)

text \<open>What no event of plan mode but Escape changes.\<close>

definition aside :: "('w, 'i, 's, 'c, 'j, 'm) tui_app \<Rightarrow>
    tui_mode \<times> 'j saved_context option \<times> prompt_mode option \<times> bool \<times> rstr" where
  "aside a = (tu_mode a, tu_saved_main a, tu_pre_plan_mode a, tu_plan a = None, tu_session_id a)"

lemma aside_on [simp]:
  "aside (on_tui_view f a) = aside a" "aside (log_console V m a) = aside a" "aside (set_tui_status V l m a) = aside a"
  "aside (show_toast V m k a) = aside a" "aside (set_input V t a) = aside a" "aside (clear_input V a) = aside a"
  "aside (edit_input V e a) = aside a" "aside (scroll_up n a) = aside a" "aside (scroll_down n a) = aside a"
  "aside (a\<lparr>tu_complete := c\<rparr>) = aside a" "aside (a\<lparr>tu_panel := p\<rparr>) = aside a" "aside (a\<lparr>tu_input_state := i\<rparr>) = aside a"
  "aside (a\<lparr>tu_messages := ms\<rparr>) = aside a" "aside (snd (write_ipc V m' a)) = aside a" "aside (tell_session V m' a) = aside a"
  "aside (a\<lparr>tu_plan := map_option g (tu_plan a)\<rparr>) = aside a"
  by (simp_all add: aside_def on_tui_view_def log_console_def set_tui_status_def show_toast_def set_input_def clear_input_def
      edit_input_def scroll_up_def scroll_down_def write_ipc_def tell_session_def Let_def split: prod.split)

lemma aside_paste [simp]: "aside (handle_paste V t a) = aside a"
  by (simp add: handle_paste_def Let_def)

lemma aside_autocomplete: "update_autocomplete V a = Some b \<Longrightarrow> aside b = aside a"
  by (auto simp: update_autocomplete_def)

lemma aside_accept: "autocomplete_accept V s a = Some b \<Longrightarrow> aside b = aside a"
  by (auto simp: autocomplete_accept_def Let_def split: if_splits option.splits dest!: aside_autocomplete)

lemma aside_submit [simp]: "aside (submit_plan_if_text V a) = aside a"
  by (simp add: submit_plan_if_text_def submit_plan_input_def Let_def) (simp add: aside_def clear_input_def)

lemma aside_keys: "type_and_complete V k a = Some b \<Longrightarrow> aside b = aside a"
  by (cases k) (auto simp: type_and_complete_def split: if_splits dest!: aside_accept aside_autocomplete)

lemma aside_backspace: "backspace_and_complete V a = Some b \<Longrightarrow> aside b = aside a"
  by (auto simp: backspace_and_complete_def Let_def split: if_splits prod.splits dest!: aside_autocomplete)

lemma aside_event: "plan_mode_event V e a = Some b \<Longrightarrow> \<not> is_escape e \<Longrightarrow> aside b = aside a"
  by (cases e)
    (auto simp: plan_mode_event_def Let_def split: if_splits dest: aside_accept aside_keys aside_backspace)

lemma aside_run: "run_opt (plan_mode_event V) es a = Some b \<Longrightarrow> \<forall>e\<in>set es. \<not> is_escape e \<Longrightarrow> aside b = aside a"
  proof (induction es arbitrary: a)
  case (Cons e es)
  then obtain a1 where "plan_mode_event V e a = Some a1" "run_opt (plan_mode_event V) es a1 = Some b"
    by (auto split: bind_splits)
  with Cons aside_event [of V e a a1] show ?case by simp
qed simp

lemma aside_enter:
  assumes "tu_mode a \<noteq> PlanView"
  shows "aside (tui_enter_plan_mode V focus a) =
    (PlanView, Some \<lparr>sc_messages = map to_display (tu_messages a), sc_history = tu_history a,
       sc_scroll = tu_scroll a, sc_status = tu_status a\<rparr>, Some (tu_prompt_mode a), False, tu_session_id a)"
  using assms by (simp add: tui_enter_plan_mode_def Let_def split: prod.split) (simp add: aside_def)

lemma tell_session_fields [simp]:
  "tu_mode (tell_session V m a) = tu_mode a" "tu_messages (tell_session V m a) = tu_messages a"
  "tu_history (tell_session V m a) = tu_history a" "tu_scroll (tell_session V m a) = tu_scroll a"
  "tu_status (tell_session V m a) = tu_status a" "tu_prompt_mode (tell_session V m a) = tu_prompt_mode a"
  "tu_plan (tell_session V m a) = tu_plan a" "tu_saved_main (tell_session V m a) = tu_saved_main a"
  by (simp_all add: tell_session_def write_ipc_def split: prod.split)

lemma status_fields [simp]:
  "tu_mode (set_tui_status V l m a) = tu_mode a" "tu_messages (set_tui_status V l m a) = tu_messages a"
  "tu_history (set_tui_status V l m a) = tu_history a" "tu_scroll (set_tui_status V l m a) = tu_scroll a"
  "tu_status (set_tui_status V l m a) = m" "tu_prompt_mode (set_tui_status V l m a) = tu_prompt_mode a"
  "tu_plan (set_tui_status V l m a) = tu_plan a" "tu_pre_plan_mode (set_tui_status V l m a) = tu_pre_plan_mode a"
  "tu_saved_main (set_tui_status V l m a) = tu_saved_main a" "tu_world (set_tui_status V l m a) = tu_world a"
  "tu_stream (set_tui_status V l m a) = tu_stream a" "tu_sent (set_tui_status V l m a) = tu_sent a"
  by (simp_all add: set_tui_status_def log_console_def Let_def)

lemma log_fields [simp]:
  "tu_mode (log_console V m a) = tu_mode a" "tu_messages (log_console V m a) = tu_messages a"
  "tu_history (log_console V m a) = tu_history a" "tu_scroll (log_console V m a) = tu_scroll a"
  "tu_status (log_console V m a) = tu_status a" "tu_prompt_mode (log_console V m a) = tu_prompt_mode a"
  "tu_plan (log_console V m a) = tu_plan a" "tu_saved_main (log_console V m a) = tu_saved_main a"
  "tu_stream (log_console V m a) = tu_stream a" "tu_sent (log_console V m a) = tu_sent a"
  "tu_world (log_console V m a) = tu_world a" "tu_pre_plan_mode (log_console V m a) = tu_pre_plan_mode a"
  by (simp_all add: log_console_def)



section \<open>What is saved is loaded\<close>

text \<open>What the stores document: rows of a conversation come back in the order they were added.\<close>

definition store_contract :: "('w, 'i, 's, 'c, 'j, 'm) tui_env \<Rightarrow> (rstr \<Rightarrow> 'w \<Rightarrow> display_message list) \<Rightarrow> bool" where
  "store_contract V rows \<longleftrightarrow>
     (\<forall>c w. tv_stored V c w = Inr (rows c w)) \<and>
     (\<forall>u c m w. fst (tv_add_message V u c m w) \<and> rows c (snd (tv_add_message V u c m w)) = rows c w @ [m]) \<and>
     (\<forall>c w. rows c (snd (tv_uuid V w)) = rows c w) \<and>
     (\<forall>c d t m k w. rows c (snd (tv_create_conversation V d t m k w)) = rows c w) \<and>
     (\<forall>c d k w. rows c (snd (tv_update_conversation V d k w)) = rows c w)"

lemma save_rows_rows:
  assumes "store_contract V rows"
  shows "fst (save_rows V c ms w) = length ms \<and> rows c (snd (save_rows V c ms w)) = rows c w @ map to_display ms"
proof (induction ms arbitrary: w)
  case (Cons m ms)
  obtain u w1 where u: "tv_uuid V w = (u, w1)" by fastforce
  obtain ok w2 where m: "tv_add_message V u c (to_display m) w1 = (ok, w2)" by fastforce
  have "ok" "rows c w2 = rows c w @ [to_display m]"
    using assms u m unfolding store_contract_def by (metis fst_conv, metis snd_conv)
  with u m Cons.IH [of w2] show ?case by (cases "save_rows V c ms w2") simp
qed simp

lemma unsaved_all: "unsaved n None ms = drop n ms"
  by (simp add: unsaved_def drop_map [symmetric])

definition title_fits :: "rstr \<Rightarrow> bool" where
  "title_fits t \<longleftrightarrow> blen t \<le> 50 \<or> on_boundary t 47"

lemma title_fits_Some: "title_fits t \<Longrightarrow> session_title t \<noteq> None"
  by (auto simp: title_fits_def session_title_def on_boundary_def)

lemma force_save_rows:
  assumes "store_contract V rows" and "tu_messages a = m # ms" and "title_fits (msg_content m)"
  shows "\<exists>w. force_save V a = Some (a\<lparr>tu_world := w\<rparr>) \<and>
    rows (tu_session_id a) w = rows (tu_session_id a) (tu_world a)
      @ map to_display (unsaved (length (rows (tu_session_id a) (tu_world a))) (st_msg_idx (tu_stream a)) (tu_messages a))"
proof -
  obtain t where t: "session_title (msg_content m) = Some t" using title_fits_Some [OF assms(3)] by auto
  obtain r w1 where w1: "tv_create_conversation V (tu_session_id a) t (tu_model a) (length (tu_messages a)) (tu_world a) = (r, w1)"
    by fastforce
  have s: "tv_stored V (tu_session_id a) w1 = Inr (rows (tu_session_id a) (tu_world a))"
    "rows (tu_session_id a) w1 = rows (tu_session_id a) (tu_world a)"
    using assms(1) w1 unfolding store_contract_def by (metis snd_conv)+
  let ?u = "unsaved (length (rows (tu_session_id a) (tu_world a))) (st_msg_idx (tu_stream a)) (tu_messages a)"
  obtain k w2 where k: "save_rows V (tu_session_id a) ?u w1 = (k, w2)" by fastforce
  have r: "k = length ?u" "rows (tu_session_id a) w2 = rows (tu_session_id a) (tu_world a) @ map to_display ?u"
    using save_rows_rows [OF assms(1), of "tu_session_id a" ?u w1] k s(2) by auto
  have up: "rows (tu_session_id a) (snd (tv_update_conversation V (tu_session_id a) n w2)) = rows (tu_session_id a) w2" for n
    using assms(1) unfolding store_contract_def by blast
  show ?thesis
  proof (cases "?u = []")
    case True
    with assms(2) t w1 s show ?thesis by (intro exI [of _ w1]) (simp add: force_save_def)
  next
    case False
    let ?w = "snd (tv_update_conversation V (tu_session_id a) (length (tu_messages a)) w2)"
    have "force_save V a = Some (a\<lparr>tu_world := ?w\<rparr>)"
      using False assms(2) t w1 s(1) k r(1) by (simp add: force_save_def Let_def)
    with up r(2) show ?thesis by auto
  qed
qed

lemma load_tasks_fields:
  "load_tasks_of V c a = (n, b) \<Longrightarrow> tu_messages b = tu_messages a \<and> tu_history b = tu_history a \<and> tu_session_id b = tu_session_id a
     \<and> tu_leave b = tu_leave a"
  by (auto simp: load_tasks_of_def Let_def split: sum.splits if_splits prod.splits)

lemma load_session_messages:
  assumes "tv_stored V cid (tu_world a) = Inr ds" and "on_boundary cid (min 8 (blen cid))"
  shows "\<exists>b. load_session V cid a = (Returns (), b) \<and> tu_messages b = map of_display ds \<and> tu_session_id b = cid
    \<and> (ds \<noteq> [] \<longrightarrow> dm_role (last ds) = lit ''user'' \<longrightarrow> lv_resume_ai (tu_leave b))"
proof -
  let ?a = "(on_tui_view (\<lambda>v. v\<lparr>vw_line_count := 0\<rparr>) (clear_input V a))
    \<lparr>tu_scroll := 0, tu_messages := map of_display ds,
     tu_history := map (\<lambda>d. \<lparr>m_role = shown_role (dm_role d), m_content = TextContent (dm_content d)\<rparr>) ds, tu_session_id := cid\<rparr>"
  obtain n b where l: "load_tasks_of V cid ?a = (n, b)" by fastforce
  obtain s r where s: "split_byte (min 8 (blen cid)) cid = Some (s, r)"
    using assms(2) by (auto simp: on_boundary_def)
  have b: "tu_messages b = map of_display ds" "tu_session_id b = cid" using load_tasks_fields [OF l] by simp_all
  show ?thesis
    using assms(1) l s b
    by (simp add: load_session_def Let_def on_tui_view_def on_leave_def set_tui_status_def log_console_def last_map of_display_def)
qed


text \<open>
  The first messages on the screen are taken for the stored ones. With a message of a command before, which no turn
  stores, an answer is stored twice and the command's message not at all.
\<close>

definition sample_rows :: "rstr \<Rightarrow> sample_world \<Rightarrow> display_message list" where
  "sample_rows c w = map snd (filter (\<lambda>(d, m). d = c) (snd w))"

lemma sample_store: "store_contract sample_tui_env sample_rows"
  by (auto simp: store_contract_def sample_tui_env_def sample_rows_def split: prod.splits)

definition spoken :: "(sample_world, rstr, rstr list, bool \<times> bool, unit, unit) tui_app" where
  "spoken = sample_tui\<lparr>tu_messages := [user_entry (lit ''hi'') 1, assistant_entry (lit ''ho'') 2, user_entry (lit ''so?'') 3],
     tu_world := (0, [(lit ''s'', dm_new (lit ''user'') (lit ''hi'') 1), (lit ''s'', dm_new (lit ''assistant'') (lit ''ho'') 2)])\<rparr>"


lemma command_output_breaks_saving:
  assumes "a = spoken\<lparr>tu_messages := [\<lparr>msg_role = lit ''system'', msg_content = lit ''list'', msg_created_at = 0\<rparr>,
    user_entry (lit ''hi'') 1, assistant_entry (lit ''ho'') 2]\<rparr>"
  shows "\<exists>w. force_save sample_tui_env a = Some (a\<lparr>tu_world := w\<rparr>)
    \<and> map dm_content (sample_rows (lit ''s'') w) = [lit ''hi'', lit ''ho'', lit ''ho'']"
proof -
  have a: "tu_messages a = [\<lparr>msg_role = lit ''system'', msg_content = lit ''list'', msg_created_at = 0\<rparr>,
      user_entry (lit ''hi'') 1, assistant_entry (lit ''ho'') 2]" "tu_session_id a = lit ''s''" "st_msg_idx (tu_stream a) = None"
    "map dm_content (sample_rows (lit ''s'') (tu_world a)) = [lit ''hi'', lit ''ho'']" "length (sample_rows (lit ''s'') (tu_world a)) = 2"
    by (simp_all add: assms spoken_def sample_tui_def new_viewer_app_def fresh_app_def no_stream_def sample_rows_def dm_new_def)
  have "title_fits (lit ''list'')" by (simp add: title_fits_def lit_def blen_def utf8_len_def)
  then obtain w where "force_save sample_tui_env a = Some (a\<lparr>tu_world := w\<rparr>)"
    "sample_rows (lit ''s'') w = sample_rows (lit ''s'') (tu_world a) @ map to_display (unsaved 2 None (tu_messages a))"
    using force_save_rows [OF sample_store a(1)] a(2,3,5) by auto
  with a(1,4) show ?thesis by (intro exI [of _ w]) (simp add: unsaved_all to_display_def dm_new_def assistant_entry_def)
qed

text \<open>Entering plan mode again from another view drops the main conversation that was kept.\<close>

lemma entering_again_drops_main:
  assumes "tu_mode b \<noteq> PlanView"
  shows "map_option (\<lambda>c. map of_display (sc_messages c)) (tu_saved_main (tui_enter_plan_mode V f b)) = Some (tu_messages b)"
  using aside_enter [OF assms, of V f] by (auto simp: aside_def)

end
