(* ===== verification/TuiStatus.thy ===== *)
theory TuiStatus
  imports TuiPlan
begin

text \<open>
  What the terminal interface shows besides the conversation: the log of tool executions, the status line with SEAL and
  the user's command, the sub-agent viewer and the connection to MCP servers (\<^verbatim>\<open>state.rs\<close> and the viewer's event handler of
  \<^verbatim>\<open>events/modals.rs\<close>, all under \<^verbatim>\<open>apps/cli/src/tui/app\<close>). JSON is read through accessors; the task manager, SEAL, the user's
  command, sockets and the MCP client are parameters. Symbols are code points.
\<close>

section \<open>The log of tools\<close>

definition truncate_for_display :: "rstr \<Rightarrow> nat \<Rightarrow> rstr" where
  "truncate_for_display s n =
     (let t = map (\<lambda>c. if c = 10 \<or> c = 13 then 32 else c) s in
      if blen t \<le> n then t else truncate_on_char_boundary t (n - 3) @ lit ''...'')"

record 'j json_view =
  jv_str :: "rstr \<Rightarrow> 'j \<Rightarrow> rstr option"
  jv_object :: "'j \<Rightarrow> (rstr \<times> 'j) list option"
  jv_as_str :: "'j \<Rightarrow> rstr option"
  jv_show :: "'j \<Rightarrow> rstr"
  jv_null :: 'j

definition short_field :: "'j json_view \<Rightarrow> rstr \<Rightarrow> nat \<Rightarrow> rstr \<Rightarrow> 'j \<Rightarrow> rstr" where
  "short_field J k n d p = (case jv_str J k p of Some s \<Rightarrow> truncate_for_display s n | None \<Rightarrow> d)"

definition summarize_tool_params :: "'j json_view \<Rightarrow> rstr \<Rightarrow> 'j \<Rightarrow> rstr" where
  "summarize_tool_params J n p =
     (if n \<in> {lit ''read_file'', lit ''write_file'', lit ''edit_file'', lit ''delete_file''}
      then short_field J (lit ''path'') 60 (lit ''(unknown path)'') p
      else if n \<in> {lit ''bash'', lit ''execute_command''} then short_field J (lit ''command'') 80 (lit ''(command)'') p
      else if n \<in> {lit ''glob'', lit ''search'', lit ''grep''}
      then (case jv_str J (lit ''pattern'') p of
              Some s \<Rightarrow> lit ''pattern: '' @ truncate_for_display s 50 | None \<Rightarrow> lit ''(search)'')
      else if n \<in> {lit ''web_fetch'', lit ''fetch_url''} then short_field J (lit ''url'') 60 (lit ''(url)'') p
      else
        case jv_object J p of
          None \<Rightarrow> truncate_for_display (jv_show J p) 50
        | Some [] \<Rightarrow> lit ''(no params)''
        | Some [(k, v)] \<Rightarrow>
            k @ lit '': '' @ truncate_for_display (case jv_as_str J v of Some s \<Rightarrow> s | None \<Rightarrow> jv_show J v) 40
        | Some kvs \<Rightarrow> show_nat (length kvs) @ lit '' params'')"

definition record_tool_execution :: "('w, 'i, 's, 'c, 'j, 'm) tui_env \<Rightarrow> 'j json_view \<Rightarrow> rstr \<Rightarrow> 'j \<Rightarrow> rstr option \<Rightarrow> bool \<Rightarrow>
    nat option \<Rightarrow> ('w, 'i, 's, 'c, 'j, 'm) tui_app \<Rightarrow> ('w, 'i, 's, 'c, 'j, 'm) tui_app" where
  "record_tool_execution V J n p r ok ms a =
     a\<lparr>tu_tool_log := tu_tool_log a @
        [\<lparr>tool_name = n, parameters_summary = summarize_tool_params J n p,
          result_summary = (case r of Some s \<Rightarrow> truncate_for_display s 150 | None \<Rightarrow> lit ''(no output)''),
          tool_success = ok, executed_at = tv_now V (tu_world a), duration_ms = ms\<rparr>]\<rparr>"

section \<open>SEAL\<close>

record tui_seal_result =
  sr_resolved_query :: rstr
  sr_resolutions :: "(rstr \<times> rstr) list"
  sr_pattern :: "rstr option"
  sr_quality :: "32 word"

definition on_seal :: "(seal_view \<Rightarrow> seal_view) \<Rightarrow> ('w, 'i, 's, 'c, 'j, 'm) tui_app \<Rightarrow> ('w, 'i, 's, 'c, 'j, 'm) tui_app" where
  "on_seal f a = on_extra (\<lambda>x. x\<lparr>ex_seal := f (ex_seal x)\<rparr>) a"

definition update_seal_status :: "tui_seal_result \<Rightarrow> seal_view \<Rightarrow> seal_view" where
  "update_seal_status r v =
     (if \<not> sl_shown v then v
      else v\<lparr>sl_resolution := (case sr_resolutions r of
                 (t, x) # _ \<Rightarrow> Some ([34] @ t @ [34, 32, 8594, 32] @ x) | [] \<Rightarrow> sl_resolution v),
             sl_pattern := sr_pattern r, sl_quality := sr_quality r\<rparr>)"

text \<open>
  \<open>note\<close> extracts and counts the entities, \<open>turn\<close> counts the dialog turn; \<open>process\<close> is the processor of SEAL if it is enabled.
\<close>

definition tui_seal_preprocess :: "(rstr \<Rightarrow> 'w \<Rightarrow> nat \<times> 'w) \<Rightarrow> ('w \<Rightarrow> 'w) \<Rightarrow> (rstr \<Rightarrow> 'w \<Rightarrow> (rstr + tui_seal_result) \<times> 'w) option \<Rightarrow>
    rstr \<Rightarrow> ('w, 'i, 's, 'c, 'j, 'm) tui_app \<Rightarrow> rstr \<times> ('w, 'i, 's, 'c, 'j, 'm) tui_app" where
  "tui_seal_preprocess note turn process t a =
     (case note t (tu_world a) of
        (n, w1) \<Rightarrow>
          let a1 = on_seal (\<lambda>v. v\<lparr>sl_entities := n\<rparr>) (a\<lparr>tu_world := turn w1\<rparr>) in
          case process of
            None \<Rightarrow> (t, a1)
          | Some f \<Rightarrow>
              (case f t (tu_world a1) of
                 (Inl e, w2) \<Rightarrow> (t, a1\<lparr>tu_world := w2\<rparr>)
               | (Inr r, w2) \<Rightarrow> (sr_resolved_query r, on_seal (update_seal_status r) (a1\<lparr>tu_world := w2\<rparr>))))"

definition get_seal_status_line :: "seal_view \<Rightarrow> rstr" where
  "get_seal_status_line v =
     (if \<not> sl_enabled v \<or> \<not> sl_shown v then []
      else
        let parts = (if sl_entities v > 0 then [show_nat (sl_entities v) @ [128230]] else [])
              @ (case sl_resolution v of Some r \<Rightarrow> [[128302] @ r] | None \<Rightarrow> [])
              @ (case sl_pattern v of Some p \<Rightarrow> [[128218] @ p] | None \<Rightarrow> [])
        in if parts = [] then [] else lit ''[SEAL: '' @ join (lit '' | '') parts @ lit '']'')"

section \<open>The status line\<close>

text \<open>
  \<open>run\<close> runs the command with a timeout of 200 ms and returns its trimmed output, or nothing when it fails or is late.
\<close>

definition refresh_status_line :: "('w, 'i, 's, 'c, 'j, 'm) tui_env \<Rightarrow> (rstr \<Rightarrow> 'w \<Rightarrow> rstr \<times> 'w) \<Rightarrow>
    ('w, 'i, 's, 'c, 'j, 'm) tui_app \<Rightarrow> ('w, 'i, 's, 'c, 'j, 'm) tui_app" where
  "refresh_status_line V run a =
     (case ex_line_command (tu_extra a) of
        None \<Rightarrow> a
      | Some c \<Rightarrow>
          if trim c = [] then a
          else if (case ex_line_cache (tu_extra a) of
                     Some (t, _) \<Rightarrow> tv_now_ms V (tu_world a) - t < 1000 | None \<Rightarrow> False) then a
          else
            (case run c (tu_world a) of
               (out, w) \<Rightarrow>
                 let a1 = a\<lparr>tu_world := w\<rparr> in
                 if out = [] then a1 else on_extra (\<lambda>x. x\<lparr>ex_line_cache := Some (tv_now_ms V w, out)\<rparr>) a1))"

definition custom_status_line :: "extra_part \<Rightarrow> rstr" where
  "custom_status_line x = (case ex_line_cache x of Some (_, t) \<Rightarrow> t | None \<Rightarrow> [])"

definition normal_status :: "('w, 'i, 's, 'c, 'j, 'm) tui_app \<Rightarrow> rstr" where
  "normal_status a =
     (let x = tu_extra a;
          base = (case ex_plan x of
                    None \<Rightarrow> tu_status a
                  | Some p \<Rightarrow>
                      (case ex_progress x of
                         Some (d, t) \<Rightarrow> lit ''Plan: '' @ take 30 (pi_title p) @ lit '' ('' @ show_nat d @ lit ''/'' @ show_nat t
                           @ lit '' tasks, '' @ show_nat (if t > 0 then d * 100 div t else 0) @ lit ''%)''
                       | None \<Rightarrow> lit ''Plan: '' @ take 40 (pi_title p)));
          seal = get_seal_status_line (ex_seal x);
          custom = custom_status_line x
      in base @ (if seal = [] then [] else [32] @ seal) @ (if custom = [] then [] else [32] @ custom))"

definition find_status :: "string \<Rightarrow> string \<Rightarrow> string \<Rightarrow> ('w, 'i, 's, 'c, 'j, 'm) tui_app \<Rightarrow> rstr" where
  "find_status none pre post a =
     (case dg_find (tu_dialogs a) of
        Some s \<Rightarrow> lit pre @ (case fr_status s of Some m \<Rightarrow> m | None \<Rightarrow> []) @ lit post
      | None \<Rightarrow> lit none)"

definition question_status :: "('w, 'i, 's, 'c, 'j, 'm) tui_app \<Rightarrow> rstr" where
  "question_status a =
     (case dg_questions (tu_dialogs a) of
        Some b \<Rightarrow> lit ''Clarifying Questions ('' @ show_nat (current_question_idx (dg_answers (tu_dialogs a)) + 1) @ lit ''/''
          @ show_nat (length (qb_questions b)) @ lit '') - '' @ [8593, 8595]
          @ lit '': Navigate, Space: Select, Tab: Next, Esc: Skip''
      | None \<Rightarrow> lit ''Clarifying Questions'')"

definition search_status :: "search_part \<Rightarrow> rstr" where
  "search_status s =
     lit ''(reverse-i-search)`'' @ se_query s @ [39]
     @ (if se_results s = [] then []
        else lit '' ['' @ show_nat (se_index s + 1) @ lit ''/'' @ show_nat (length (se_results s)) @ lit '']'')
     @ lit '':  '' @ (case current_search_result s of Some r \<Rightarrow> r | None \<Rightarrow> [])"

fun get_status :: "('w, 'i, 's, 'c, 'j, 'm) tui_env \<Rightarrow> tui_mode \<Rightarrow> ('w, 'i, 's, 'c, 'j, 'm) tui_app \<Rightarrow> rstr" where
  "get_status V NormalView a = normal_status a"
| "get_status V ReverseSearch a = search_status (tu_search a)"
| "get_status V SessionPicker a = lit ''Select session...''"
| "get_status V ConsoleView a =
     lit ''Console - '' @ show_nat (co_count (tv_console V) (tu_console a)) @ lit '' messages (Esc to exit)''"
| "get_status V ShellViewer a = lit ''Shell History - '' @ show_nat (ex_shells (tu_extra a)) @ lit '' commands (Esc to exit)''"
| "get_status V ConversationFullscreen a =
     lit ''Conversation - '' @ show_nat (length (tu_messages a)) @ lit '' messages (Esc to exit)''"
| "get_status V InputFullscreen a = lit ''Input (Fullscreen) - Esc to exit''"
| "get_status V Waiting a =
     (case ex_progress (tu_extra a) of
        Some (d, t) \<Rightarrow> lit ''Working on plan... ('' @ show_nat d @ lit ''/'' @ show_nat t @ lit '' tasks)''
      | None \<Rightarrow> if ex_plan (tu_extra a) \<noteq> None then lit ''Working on plan...'' else lit ''Waiting for response...'')"
| "get_status V ToolPicker a = lit ''Select tools... (Space: toggle, Enter: confirm, Esc: cancel)''"
| "get_status V TaskViewer a = lit ''Task Tree - '' @ show_nat (tk_count (tu_tasks a)) @ lit '' tasks (Esc to close)''"
| "get_status V ExplorerView a = lit ''File Explorer (Esc to close, Enter to open, Space to select)''"
| "get_status V NanoView a = lit ''Nano Editor (Ctrl+S to save, Ctrl+X to exit)''"
| "get_status V GitView a = lit ''Git SCM (Tab: panels, s: stage, u: unstage, c: commit, Esc: close)''"
| "get_status V CancelConfirm a = lit ''Cancel operation? (y/n)''"
| "get_status V QuestionAnswer a = question_status a"
| "get_status V FindDialog a = find_status ''Find'' ''Find: '' '' (F3/Shift+F3: next/prev, Esc: close)'' a"
| "get_status V FindReplaceDialog a =
     find_status ''Find & Replace'' ''Find & Replace: '' '' (Tab: switch, Enter: replace, Esc: close)'' a"
| "get_status V HelpDialog a = lit ''Help (F1/Esc to close, Tab: switch panel, '' @ [8593, 47, 8595] @ lit '': navigate)''"
| "get_status V SuspendDialog a = lit ''Ctrl+Z: Background or Suspend? (Tab: switch, Enter: select, Esc: cancel)''"
| "get_status V ExitDialog a = lit ''Ctrl+C: Exit or Background? (Tab: switch, Enter: select, Esc: cancel)''"
| "get_status V HotkeyDialog a =
     lit ''Hotkey Configuration (Tab: switch panel, '' @ [8593, 47, 8595] @ lit '': navigate, Esc: close)''"
| "get_status V ApprovalView a = lit ''Tool Approval ([Y]es / [N]o / [A]lways / [D]eny always)''"
| "get_status V SudoPasswordDialog a = lit ''Sudo Password (Enter: submit, Esc: cancel)''"
| "get_status V UserQuestion a =
     lit ''Agent Question ('' @ [8593, 8595] @ lit '': navigate, Space: select, Enter: submit, Esc: cancel)''"
| "get_status V PlanView a =
     lit ''Plan Mode - '' @ show_nat (case tu_plan a of Some p \<Rightarrow> ps_message_count p | None \<Rightarrow> 0)
     @ lit '' messages (Ctrl+P to exit)''"
| "get_status V SubAgentViewer a = lit ''Sub-Agent Viewer (Tab: switch panel, Esc: close)''"

section \<open>Tasks and sub-agents\<close>

text \<open>The tree and the number of the task manager, and how many tasks are completed of how many.\<close>

definition tui_update_task_cache :: "(rstr \<times> nat) \<Rightarrow> (nat \<times> nat) \<Rightarrow> ('w, 'i, 's, 'c, 'j, 'm) tui_app \<Rightarrow>
    ('w, 'i, 's, 'c, 'j, 'm) tui_app" where
  "tui_update_task_cache tree stats a =
     on_extra (\<lambda>x. if snd stats > 0 then x\<lparr>ex_progress := Some stats\<rparr> else x)
       (a\<lparr>tu_tasks := (tu_tasks a)\<lparr>tk_tree := fst tree, tk_count := snd tree\<rparr>\<rparr>)"

datatype listed_status = TaskPending | TaskInProgress | TaskCompleted | TaskFailed | TaskBlocked | TaskSkipped

record listed_task =
  lt_assigned_to :: "rstr option"
  lt_description :: rstr
  lt_status :: listed_status
  lt_summary :: "rstr option"
  lt_iterations :: nat

text \<open>The description of a long task is cut at byte 57; \<open>None\<close> is the panic off a boundary.\<close>

definition short_description :: "rstr \<Rightarrow> rstr option" where
  "short_description s = (if blen s > 60 then map_option (\<lambda>(x, y). x @ [8230]) (split_byte 57 s) else Some s)"

fun sub_agent_status :: "listed_status \<Rightarrow> rstr \<Rightarrow> rstr option \<Rightarrow> task_status" where
  "sub_agent_status TaskInProgress d s = Working d"
| "sub_agent_status TaskCompleted d s = Completed (case s of Some x \<Rightarrow> x | None \<Rightarrow> lit ''Done'')"
| "sub_agent_status TaskFailed d s = Failed (lit ''Task failed'')"
| "sub_agent_status TaskBlocked d s = Paused (lit ''Blocked on dependency'')"
| "sub_agent_status TaskSkipped d s = Completed (lit ''Skipped'')"
| "sub_agent_status TaskPending d s = Idle"

fun list_sub_agents :: "(rstr \<Rightarrow> bool) \<Rightarrow> listed_task list \<Rightarrow> sub_agent_summary list option" where
  "list_sub_agents sock [] = Some []"
| "list_sub_agents sock (t # ts) =
     (case lt_assigned_to t of
        None \<Rightarrow> list_sub_agents sock ts
      | Some i \<Rightarrow>
          (case short_description (lt_description t) of
             None \<Rightarrow> None
           | Some d \<Rightarrow>
               map_option (Cons \<lparr>sb_agent_id = i, sb_task_desc = d, sb_status = sub_agent_status (lt_status t) d (lt_summary t),
                 sb_iterations = lt_iterations t, sb_session = None, sb_socket = sock i\<rparr>) (list_sub_agents sock ts)))"

definition refresh_sub_agent_list :: "listed_task list \<Rightarrow> (rstr \<Rightarrow> bool) \<Rightarrow> ('w, 'i, 's, 'c, 'j, 'm) tui_app \<Rightarrow>
    ('w, 'i, 's, 'c, 'j, 'm) tui_app option" where
  "refresh_sub_agent_list ts sock a =
     map_option (\<lambda>l. on_extra (\<lambda>x. x\<lparr>ex_sub_agents := Some (case ex_sub_agents x of
            Some s \<Rightarrow> s\<lparr>sw_agents := l\<rparr>
          | None \<Rightarrow> \<lparr>sw_agents = l, sw_index = 0, sw_list_scroll = 0, sw_detail_scroll = 0, sw_input = [], sw_focus_left = True\<rparr>)\<rparr>) a)
       (list_sub_agents sock ts)"

text \<open>
  Sending to a sub-agent: \<open>dir\<close> is whether the directory of the sockets is known, \<open>connect\<close> the error of connecting;
  the message is written without a handshake. What was written is the third component.
\<close>

record 'w socket_env =
  so_dir :: bool
  so_exists :: "rstr \<Rightarrow> 'w \<Rightarrow> bool"
  so_connect :: "rstr \<Rightarrow> 'w \<Rightarrow> rstr option \<times> 'w"
  so_write :: "rstr \<Rightarrow> rstr \<Rightarrow> 'w \<Rightarrow> rstr option \<times> 'w"

definition send_to_sub_agent :: "('w, 'i, 's, 'c, 'j, 'm) tui_env \<Rightarrow> 'w socket_env \<Rightarrow> rstr \<Rightarrow> rstr \<Rightarrow>
    ('w, 'i, 's, 'c, 'j, 'm) tui_app \<Rightarrow> ('w, 'i, 's, 'c, 'j, 'm) tui_app" where
  "send_to_sub_agent V K i t a =
     (if \<not> so_dir K then show_toast V (lit ''Could not locate sessions directory'') 2000 a
      else if \<not> so_exists K i (tu_world a) then show_toast V (lit ''Agent socket unavailable: '' @ i) 2000 a
      else
        (case so_connect K i (tu_world a) of
           (Some e, w) \<Rightarrow> show_toast V (lit ''Could not connect to agent: '' @ e) 2000 (a\<lparr>tu_world := w\<rparr>)
         | (None, w) \<Rightarrow>
             (case so_write K i t w of
                (None, w2) \<Rightarrow> show_toast V (lit ''Message sent to '' @ i) 1500 (a\<lparr>tu_world := w2\<rparr>)
              | (Some e, w2) \<Rightarrow> show_toast V (lit ''Send failed: '' @ e) 2000 (a\<lparr>tu_world := w2\<rparr>))))"

definition on_sub_agents :: "(sub_agent_viewer \<Rightarrow> sub_agent_viewer) \<Rightarrow> ('w, 'i, 's, 'c, 'j, 'm) tui_app \<Rightarrow>
    ('w, 'i, 's, 'c, 'j, 'm) tui_app" where
  "on_sub_agents f a = on_extra (\<lambda>x. x\<lparr>ex_sub_agents := map_option f (ex_sub_agents x)\<rparr>) a"

definition sub_agent_left_key :: "key_code \<Rightarrow> sub_agent_viewer \<Rightarrow> sub_agent_viewer" where
  "sub_agent_left_key k s =
     (case k of
        KUp \<Rightarrow>
          if sw_index s > 0
          then let i = sw_index s - 1 in
               s\<lparr>sw_index := i, sw_list_scroll := if of_nat i < sw_list_scroll s then of_nat i else sw_list_scroll s\<rparr>
          else s
      | KDown \<Rightarrow> if sw_index s < length (sw_agents s) - 1 then s\<lparr>sw_index := sw_index s + 1\<rparr> else s
      | KEnter \<Rightarrow> s\<lparr>sw_focus_left := False\<rparr>
      | _ \<Rightarrow> s)"

definition addressee :: "sub_agent_viewer \<Rightarrow> rstr option" where
  "addressee s =
     (case vec_get (sw_agents s) (sw_index s) of
        Some b \<Rightarrow> if sb_socket b \<and> sw_input s \<noteq> [] then Some (sb_agent_id b) else None
      | None \<Rightarrow> None)"

definition sub_agent_right_key :: "('w, 'i, 's, 'c, 'j, 'm) tui_env \<Rightarrow> 'w socket_env \<Rightarrow> key_code \<Rightarrow>
    ('w, 'i, 's, 'c, 'j, 'm) tui_app \<Rightarrow> ('w, 'i, 's, 'c, 'j, 'm) tui_app" where
  "sub_agent_right_key V K k a =
     (case k of
        KUp \<Rightarrow> on_sub_agents (\<lambda>s. s\<lparr>sw_detail_scroll := if sw_detail_scroll s = 0 then 0 else sw_detail_scroll s - 1\<rparr>) a
      | KDown \<Rightarrow> on_sub_agents (\<lambda>s. s\<lparr>sw_detail_scroll := if sw_detail_scroll s = - 1 then - 1 else sw_detail_scroll s + 1\<rparr>) a
      | KBackspace \<Rightarrow> on_sub_agents (\<lambda>s. s\<lparr>sw_input := butlast (sw_input s)\<rparr>) a
      | KChar c \<Rightarrow> on_sub_agents (\<lambda>s. s\<lparr>sw_input := sw_input s @ [c]\<rparr>) a
      | KEnter \<Rightarrow>
          (case ex_sub_agents (tu_extra a) of
             None \<Rightarrow> a
           | Some s \<Rightarrow>
               (case addressee s of
                  None \<Rightarrow> a
                | Some i \<Rightarrow> on_sub_agents (\<lambda>s. s\<lparr>sw_input := []\<rparr>) (send_to_sub_agent V K i (sw_input s) a)))
      | _ \<Rightarrow> a)"

definition sub_agent_event :: "('w, 'i, 's, 'c, 'j, 'm) tui_env \<Rightarrow> 'w socket_env \<Rightarrow> 'e event \<Rightarrow>
    ('w, 'i, 's, 'c, 'j, 'm) tui_app \<Rightarrow> ('w, 'i, 's, 'c, 'j, 'm) tui_app" where
  "sub_agent_event V K e a =
     (if is_escape e \<or> is_sub_agent_viewer e
      then on_extra (\<lambda>x. x\<lparr>ex_sub_agents := None\<rparr>) (a\<lparr>tu_mode := NormalView\<rparr>)
      else if is_tab e then on_sub_agents (\<lambda>s. s\<lparr>sw_focus_left := \<not> sw_focus_left s\<rparr>) a
      else
        (case e of
           Key k ms \<Rightarrow>
             if (case ex_sub_agents (tu_extra a) of Some s \<Rightarrow> sw_focus_left s | None \<Rightarrow> True)
             then on_sub_agents (sub_agent_left_key k) a
             else sub_agent_right_key V K k a
         | _ \<Rightarrow> a))"

section \<open>MCP servers\<close>

record 'w mcp_env =
  mc_servers :: "'w \<Rightarrow> rstr + rstr list"
  mc_connect :: "rstr \<Rightarrow> 'w \<Rightarrow> rstr option \<times> 'w"
  mc_list :: "rstr \<Rightarrow> 'w \<Rightarrow> (rstr + nat) \<times> 'w"
  mc_tools :: "rstr \<Rightarrow> 'w \<Rightarrow> (rstr + tool_def list) \<times> 'w"

definition mcp_failure :: "string \<Rightarrow> rstr \<Rightarrow> rstr \<Rightarrow> rstr" where
  "mcp_failure what n e = [9888, 65039, 32] @ lit what @ lit '' '' @ [39] @ n @ [39] @ lit '': '' @ e"

definition connect_mcp :: "('w, 'i, 's, 'c, 'j, 'm) tui_env \<Rightarrow> 'w mcp_env \<Rightarrow> rstr \<Rightarrow> ('w, 'i, 's, 'c, 'j, 'm) tui_app \<Rightarrow>
    ('w, 'i, 's, 'c, 'j, 'm) tui_app" where
  "connect_mcp V M n a =
     (case mc_connect M n (tu_world a) of
        (Some e, w1) \<Rightarrow> log_console V (mcp_failure ''Failed to connect to MCP server'' n e) (a\<lparr>tu_world := w1\<rparr>)
      | (None, w1) \<Rightarrow>
          (case mc_list M n w1 of
             (Inl e, w2) \<Rightarrow> log_console V (mcp_failure ''Failed to list tools from'' n e) (a\<lparr>tu_world := w2\<rparr>)
           | (Inr k, w2) \<Rightarrow>
               (case mc_tools M n w2 of
                  (Inl e, w3) \<Rightarrow> log_console V (mcp_failure ''Failed to convert tools from'' n e) (a\<lparr>tu_world := w3\<rparr>)
                | (Inr ts, w3) \<Rightarrow>
                    log_console V
                      ([9989] @ lit '' MCP server '' @ [39] @ n @ [39] @ lit '' connected ('' @ show_nat k @ lit '' tools)'')
                      (on_extra (\<lambda>x. x\<lparr>ex_mcp_tools := ex_mcp_tools x @ ts\<rparr>)
                        (a\<lparr>tu_mcp_servers := tu_mcp_servers a @ [n], tu_world := w3\<rparr>)))))"

definition tui_initialize_mcp :: "('w, 'i, 's, 'c, 'j, 'm) tui_env \<Rightarrow> 'w mcp_env \<Rightarrow> ('w, 'i, 's, 'c, 'j, 'm) tui_app \<Rightarrow>
    ('w, 'i, 's, 'c, 'j, 'm) tui_app" where
  "tui_initialize_mcp V M a =
     (case mc_servers M (tu_world a) of
        Inl e \<Rightarrow> log_console V ([9888, 65039, 32] @ lit ''Failed to load MCP config: '' @ e) a
      | Inr [] \<Rightarrow> a
      | Inr ns \<Rightarrow>
          let a1 = log_console V ([128268] @ lit '' Connecting to '' @ show_nat (length ns) @ lit '' MCP server(s)...'') a;
              a2 = fold (connect_mcp V M) ns a1
          in if tu_mcp_servers a2 = [] then a2
             else log_console V ([128230] @ lit '' MCP initialized: '' @ show_nat (length (tu_mcp_servers a2))
                    @ lit '' server(s), '' @ show_nat (length (ex_mcp_tools (tu_extra a2))) @ lit '' tool(s) available'') a2)"

section \<open>Properties\<close>

text \<open>
  Whatever a tool got and returned, its entry in the log is one line of at most the given number of bytes, and never
  cut inside a character.
\<close>

theorem display_text_fits:
  assumes "3 \<le> n"
  shows "blen (truncate_for_display s n) \<le> n \<and> 10 \<notin> set (truncate_for_display s n) \<and> 13 \<notin> set (truncate_for_display s n)"
proof -
  define t where "t = map (\<lambda>c. if c = 10 \<or> c = 13 then 32 else c) s"
  define u where "u = truncate_on_char_boundary t (n - 3)"
  define d where "d = lit ''...''"
  obtain r where r: "t = u @ r" "blen u \<le> n - 3"
    using truncate_on_char_boundary_prefix [of t "n - 3"] unfolding u_def by blast
  have t: "10 \<notin> set t" "13 \<notin> set t" by (auto simp: t_def)
  have u: "10 \<notin> set u" "13 \<notin> set u" using t by (auto simp: r(1))
  have d: "blen d = 3" "10 \<notin> set d" "13 \<notin> set d" by (simp_all add: d_def lit_def blen_def utf8_len_def)
  have "truncate_for_display s n = (if blen t \<le> n then t else u @ d)"
    by (simp only: truncate_for_display_def Let_def t_def u_def d_def)
  moreover have "blen (u @ d) \<le> n" using r(2) d(1) assms by simp
  ultimately show ?thesis using t u d by simp
qed

theorem display_text_fits_witness: "blen (truncate_for_display (replicate 100 233) 60) \<le> 60"
  using display_text_fits [of 60 "replicate 100 233"] by simp

lemma short_description_fits: "short_description s = Some d \<Longrightarrow> blen d \<le> 60"
  by (auto simp: short_description_def split_byte_Some_iff split: if_splits) (simp add: blen_def utf8_len_def)

text \<open>
  The viewer lists the tasks that have an agent, in their order and with short descriptions, unless a long description
  has a character across byte 57.
\<close>

lemma sub_agents_of_tasks:
  assumes "list_sub_agents sock ts = Some l"
  shows "map sb_agent_id l = List.map_filter lt_assigned_to ts \<and> (\<forall>b\<in>set l. blen (sb_task_desc b) \<le> 60 \<and> sb_socket b = sock (sb_agent_id b))"
  using assms by (induction ts arbitrary: l) (auto simp: map_filter_simps short_description_fits split: option.splits)

lemma long_description_panics:
  "list_sub_agents sock [\<lparr>lt_assigned_to = Some i, lt_description = replicate 40 233, lt_status = TaskPending, lt_summary = None,
     lt_iterations = 0\<rparr>] = None"
  by (simp add: short_description_def numeral_eq_Suc blen_def utf8_len_def)

definition viewer_ok :: "sub_agent_viewer \<Rightarrow> bool" where
  "viewer_ok s \<longleftrightarrow> sw_agents s = [] \<or> sw_index s < length (sw_agents s)"

definition app_viewer_ok :: "('w, 'i, 's, 'c, 'j, 'm) tui_app \<Rightarrow> bool" where
  "app_viewer_ok a \<longleftrightarrow> (case ex_sub_agents (tu_extra a) of Some s \<Rightarrow> viewer_ok s | None \<Rightarrow> True)"

lemma left_key_ok: "viewer_ok s \<Longrightarrow> viewer_ok (sub_agent_left_key k s)"
  by (cases k) (auto simp: viewer_ok_def sub_agent_left_key_def Let_def)

lemma on_sub_agents_ok: "app_viewer_ok a \<Longrightarrow> (\<And>s. viewer_ok s \<Longrightarrow> viewer_ok (f s)) \<Longrightarrow> app_viewer_ok (on_sub_agents f a)"
  by (auto simp: app_viewer_ok_def on_sub_agents_def on_extra_def split: option.splits)

lemma send_extra [simp]: "tu_extra (send_to_sub_agent V K i t a) = tu_extra a"
  by (simp add: send_to_sub_agent_def show_toast_def on_tui_view_def split: prod.split option.split)

lemma send_ok: "app_viewer_ok a \<Longrightarrow> app_viewer_ok (send_to_sub_agent V K i t a)"
  by (simp add: app_viewer_ok_def)

lemma right_key_ok: "app_viewer_ok a \<Longrightarrow> app_viewer_ok (sub_agent_right_key V K k a)"
  by (cases k) (auto simp: sub_agent_right_key_def viewer_ok_def intro!: on_sub_agents_ok send_ok split: option.splits)

interpretation sav: invariant_machine "sub_agent_event V K" app_viewer_ok for V :: "('w, 'i, 's, 'c, 'j, 'm) tui_env" and K
proof
  fix e :: "'e event" and a :: "('w, 'i, 's, 'c, 'j, 'm) tui_app"
  assume a: "app_viewer_ok a"
  then have "app_viewer_ok (on_sub_agents (\<lambda>s. s\<lparr>sw_focus_left := \<not> sw_focus_left s\<rparr>) a)"
    by (rule on_sub_agents_ok) (simp add: viewer_ok_def)
  moreover have "app_viewer_ok (on_extra (\<lambda>x. x\<lparr>ex_sub_agents := None\<rparr>) (a\<lparr>tu_mode := NormalView\<rparr>))"
    by (simp add: app_viewer_ok_def on_extra_def)
  moreover have "app_viewer_ok (on_sub_agents (sub_agent_left_key k) a)" for k
    using a left_key_ok by (rule on_sub_agents_ok)
  ultimately show "app_viewer_ok (sub_agent_event V K e a)"
    using a right_key_ok [OF a] by (cases e) (simp_all add: sub_agent_event_def)
qed

text \<open>After any events the selected entry exists, and what is sent goes to it and only if its socket was there.\<close>

lemma selected_agent_exists:
  assumes "refresh_sub_agent_list ts sock a = Some b" and "ex_sub_agents (tu_extra a) = None"
    and "ex_sub_agents (tu_extra (fold (sub_agent_event V K) es b)) = Some s" and "addressee s = Some i"
  shows "viewer_ok s \<and> (\<exists>x\<in>set (sw_agents s). sb_agent_id x = i \<and> sb_socket x)"
proof -
  have "app_viewer_ok b"
    using assms(1,2) by (auto simp: refresh_sub_agent_list_def app_viewer_ok_def on_extra_def viewer_ok_def)
  from sav.run_inv [OF this, of V K es] assms(3,4) show ?thesis
    by (auto simp: app_viewer_ok_def addressee_def vec_get_def split: if_splits option.splits)
qed

text \<open>The user's command runs at most once a second, and a failing run keeps the text that is shown.\<close>

lemma status_line_kept:
  "custom_status_line (tu_extra (refresh_status_line V (\<lambda>c w. ([], f w)) a)) = custom_status_line (tu_extra a)"
  "ex_line_cache (tu_extra a) = Some (t, s) \<Longrightarrow> tv_now_ms V (tu_world a) - t < 1000 \<Longrightarrow> refresh_status_line V run a = a"
  by (auto simp: refresh_status_line_def Let_def split: option.split)

text \<open>A server is listed if it connects, lists its tools and these convert; the others do not matter.\<close>

lemma connect_mcp_servers:
  "tu_mcp_servers (connect_mcp V M n a) = tu_mcp_servers a \<or> tu_mcp_servers (connect_mcp V M n a) = tu_mcp_servers a @ [n]"
  by (auto simp: connect_mcp_def log_console_def on_extra_def split: prod.split option.split sum.split)

end
