(* ===== verification/TuiMessages.thy ===== *)
theory TuiMessages
  imports TuiStatus
begin

text \<open>
  What the terminal interface sends and receives, \<^verbatim>\<open>tui/app/message_processing/mod.rs\<close>: a submitted message goes to the
  provider itself or over the connection to the session; the events of a stream, of a running tool and of the connection
  are taken in turn by the main loop. Background tasks are not run here: starting one is part of the result of a step, as
  a value of \<open>background\<close>, and what it sends later is an event in its channel. Slash commands are a parameter, so are the
  provider's answers, SEAL, personal knowledge, the completion detector and the task manager. A panic is the ending
  \<open>Panics\<close> or \<open>None\<close>.
\<close>

datatype ('j, 'm) agent_event = FromAgent "('j, 'm) ipc_message" | SessionExiting rstr

record 'j provider_request =
  rq_messages :: "'j message list"
  rq_tools :: "tool_def list"
  rq_system :: "rstr option"

datatype 'j background =
  StreamAnswer "'j provider_request"
| RunTool bool "'j tool_use"
| ContinueAfterTool "'j pending_tool" "tool_def list" rstr

record detected =
  de_task_id :: rstr
  de_confident :: bool
  de_percent :: rstr
  de_summary :: "rstr option"

record ('w, 'j, 'm) ai_env =
  ai_json :: "'j json_view"
  ai_command :: "rstr \<Rightarrow> (rstr \<times> rstr list) option"
  ai_facts :: "rstr \<Rightarrow> 'w \<Rightarrow> 'w"
  ai_hint :: "rstr \<Rightarrow> rstr option"
  ai_note :: "rstr \<Rightarrow> 'w \<Rightarrow> nat \<times> 'w"
  ai_turn :: "'w \<Rightarrow> 'w"
  ai_seal :: "(rstr \<Rightarrow> 'w \<Rightarrow> (rstr + tui_seal_result) \<times> 'w) option"
  ai_stats :: "'w \<Rightarrow> nat \<times> nat"
  ai_question_text :: rstr
  ai_read :: "rstr \<Rightarrow> 'w \<Rightarrow> rstr + rstr"
  ai_text :: "'j message \<Rightarrow> rstr option"
  ai_smart :: "'m \<Rightarrow> bool"
  ai_smart_tools :: "'j message list \<Rightarrow> tool_def list"
  ai_fresh :: "'w \<Rightarrow> nat \<times> 'w"
  ai_percent :: "rstr option \<Rightarrow> rstr"
  ai_error :: "'w \<Rightarrow> rstr"
  ai_decode :: "rstr \<Rightarrow> question_block option"
  ai_mdap :: "nat \<Rightarrow> rstr \<Rightarrow> 'j message list \<Rightarrow> tool_def list \<Rightarrow> 'w \<Rightarrow> (rstr + rstr \<times> rstr) \<times> 'w"
  ai_active_tasks :: "'w \<Rightarrow> (rstr \<times> rstr) list"
  ai_detect :: "rstr \<Rightarrow> (rstr \<times> rstr) list \<Rightarrow> detected list"
  ai_complete :: "rstr \<Rightarrow> rstr \<Rightarrow> 'w \<Rightarrow> bool \<times> 'w"
  ai_persist :: "rstr \<Rightarrow> rstr \<Rightarrow> 'w \<Rightarrow> 'w"

section \<open>The request to the provider\<close>

definition insert_after_system :: "'j message \<Rightarrow> 'j message list \<Rightarrow> 'j message list" where
  "insert_after_system m ms =
     takeWhile (\<lambda>x. m_role x = SystemRole) ms @ m # dropWhile (\<lambda>x. m_role x = SystemRole) ms"

definition last_text :: "'j message list \<Rightarrow> rstr" where
  "last_text ms =
     (if ms = [] then [] else case m_content (last ms) of TextContent t \<Rightarrow> t | Blocks b \<Rightarrow> [])"

definition plan_context :: "('w, 'j, 'm) ai_env \<Rightarrow> ('w, 'i, 's, 'c, 'j, 'm) tui_env \<Rightarrow> ('w, 'i, 's, 'c, 'j, 'm) tui_app \<Rightarrow>
    rstr option" where
  "plan_context A V a =
     (case ex_plan (tu_extra a) of
        None \<Rightarrow> None
      | Some p \<Rightarrow>
          (case ai_stats A (tu_world a) of
             (d, t) \<Rightarrow>
               Some (lit ''## Active Execution Plan'' @ [10, 10] @ lit ''**Task:** '' @ pi_task p @ [10] @ lit ''**Progress:** ''
                 @ show_nat d @ lit ''/'' @ show_nat t @ lit '' tasks completed'' @ [10, 10] @ lit ''**Current Tasks:**'' @ [10]
                 @ fst (tv_task_tree V (tu_world a)) @ [10, 10] @ lit ''**Plan:**'' @ [10] @ pi_content p @ [10, 10]
                 @ lit ''Continue working through the plan. Mark tasks complete as you finish them.'')))"

text \<open>The conversation that is sent: the plan with the instructions for questions, then the files of the working set.\<close>

definition with_plan :: "('w, 'j, 'm) ai_env \<Rightarrow> rstr option \<Rightarrow> 'j message list \<Rightarrow> 'j message list" where
  "with_plan A plan ms =
     (case plan of
        None \<Rightarrow> ms
      | Some t \<Rightarrow>
          insert_after_system (system_prompt_message (ai_question_text A))
            (insert_after_system (system_prompt_message t) ms))"

definition request_messages :: "('w, 'j, 'm) ai_env \<Rightarrow> ('w, 'i, 's, 'c, 'j, 'm) tui_env \<Rightarrow> ('w, 'i, 's, 'c, 'j, 'm) tui_app \<Rightarrow>
    'j message list \<times> ('w, 'i, 's, 'c, 'j, 'm) tui_app" where
  "request_messages A V a =
     (let ms = with_plan A (plan_context A V a) (tu_history a) in
      case build_context_injection (\<lambda>p. ai_read A p (tu_world a)) (tu_working_set a) of
        None \<Rightarrow> (ms, a)
      | Some t \<Rightarrow> (insert_after_system (system_prompt_message t) ms, a\<lparr>tu_working_set := next_turn (tu_working_set a)\<rparr>))"

definition first_50 :: "rstr \<Rightarrow> rstr option" where
  "first_50 t = (if blen t > 50 then map_option (\<lambda>(x, y). x @ lit ''...'') (split_byte 50 t) else Some t)"

text \<open>The resolved query is shown, it is not what is sent.\<close>

definition log_resolution :: "('w, 'i, 's, 'c, 'j, 'm) tui_env \<Rightarrow> rstr \<Rightarrow> rstr \<Rightarrow> ('w, 'i, 's, 'c, 'j, 'm) tui_app \<Rightarrow>
    ('w, 'i, 's, 'c, 'j, 'm) tui_app option" where
  "log_resolution V t r a =
     (if r \<noteq> t \<and> sl_shown (ex_seal (tu_extra a))
      then do {
        x \<leftarrow> first_50 t;
        y \<leftarrow> first_50 r;
        Some (log_console V (lit ''SEAL: '' @ [34] @ x @ [34, 32, 8594, 32, 34] @ y @ [34]) a)
      }
      else Some a)"

definition placeholder :: "('w, 'i, 's, 'c, 'j, 'm) tui_env \<Rightarrow> rstr \<Rightarrow> ('w, 'i, 's, 'c, 'j, 'm) tui_app \<Rightarrow>
    ('w, 'i, 's, 'c, 'j, 'm) tui_app" where
  "placeholder V t a = a\<lparr>tu_messages := tu_messages a @ [assistant_entry t (tv_now V (tu_world a))]\<rparr>"

definition tools_of_turn :: "('w, 'j, 'm) ai_env \<Rightarrow> 'j message list \<Rightarrow> ('w, 'i, 's, 'c, 'j, 'm) tui_app \<Rightarrow> tool_def list" where
  "tools_of_turn A ms a =
     filter_tools_for_prompt_mode (tu_prompt_mode a) (if ai_smart A (tu_tool_mode a) then ai_smart_tools A ms else ex_tools (tu_extra a))"

definition begin_stream :: "('w, 'j, 'm) ai_env \<Rightarrow> nat \<Rightarrow> rstr \<Rightarrow> 'j message list \<Rightarrow> ('w, 'i, 's, 'c, 'j, 'm) tui_app \<Rightarrow>
    ('w, 'i, 's, 'c, 'j, 'm) tui_app" where
  "begin_stream A i t ms a =
     (case ai_fresh A (tu_world a) of
        (tok, w1) \<Rightarrow>
          (case ai_fresh A w1 of
             (task, w2) \<Rightarrow>
               on_stream (\<lambda>s. s\<lparr>st_content := [], st_msg_idx := Some i, st_conversation := Some ms, st_user_content := Some t,
                   st_rx := Some ([], False), st_token := Some tok, st_stream_task := Some task\<rparr>) (a\<lparr>tu_world := w2\<rparr>)))"

definition call_ai_provider_stream :: "('w, 'j, 'm) ai_env \<Rightarrow> ('w, 'i, 's, 'c, 'j, 'm) tui_env \<Rightarrow> ('w, 'i, 's, 'c, 'j, 'm) tui_app \<Rightarrow>
    ('j background list \<times> ('w, 'i, 's, 'c, 'j, 'm) tui_app) option" where
  "call_ai_provider_stream A V a =
     (let a1 = set_tui_status V LogInfo
            (if ex_plan (tu_extra a) \<noteq> None then lit ''Working on plan...'' else lit ''Streaming response...'')
            (a\<lparr>tu_mode := Waiting\<rparr>);
          t = last_text (tu_history a1)
      in
      case tui_seal_preprocess (ai_note A) (ai_turn A) (ai_seal A) t a1 of
        (r, a2) \<Rightarrow>
          do {
            a3 \<leftarrow> log_resolution V t r a2;
            (case request_messages A V a3 of
               (ms, a4) \<Rightarrow>
                 let sys = Option.bind (find (\<lambda>m. m_role m = SystemRole) ms) (ai_text A);
                     i = length (tu_messages a4);
                     a5 = begin_stream A i t ms (placeholder V [] a4)
                 in (case apply_tool_scope (tools_of_turn A ms a5) a5 of
                       (ts, a6) \<Rightarrow> Some ([StreamAnswer \<lparr>rq_messages = ms, rq_tools = ts, rq_system = sys\<rparr>], a6)))
          })"

section \<open>After an answer\<close>

fun complete_detected :: "('w, 'j, 'm) ai_env \<Rightarrow> rstr \<Rightarrow> (rstr \<times> rstr) list \<Rightarrow> detected list \<Rightarrow> 'w \<Rightarrow> rstr list \<times> 'w" where
  "complete_detected A sid active [] w = ([], w)"
| "complete_detected A sid active (d # ds) w =
     (if \<not> de_confident d then complete_detected A sid active ds w
      else
        case ai_complete A (de_task_id d) (case de_summary d of Some s \<Rightarrow> s | None \<Rightarrow> lit ''Detected complete'') w of
          (False, w1) \<Rightarrow> complete_detected A sid active ds w1
        | (True, w1) \<Rightarrow>
            (case complete_detected A sid active ds (ai_persist A (de_task_id d) sid w1) of
               (ls, w2) \<Rightarrow>
                 ((case map_of active (de_task_id d) of
                     Some x \<Rightarrow> [[10003] @ lit '' Auto-completed: '' @ x @ lit '' (confidence: '' @ de_percent d @ lit '')'']
                   | None \<Rightarrow> []) @ ls, w2)))"

definition detect_and_complete_tasks :: "('w, 'j, 'm) ai_env \<Rightarrow> ('w, 'i, 's, 'c, 'j, 'm) tui_env \<Rightarrow> rstr \<Rightarrow>
    ('w, 'i, 's, 'c, 'j, 'm) tui_app \<Rightarrow> ('w, 'i, 's, 'c, 'j, 'm) tui_app" where
  "detect_and_complete_tasks A V t a =
     (let active = ai_active_tasks A (tu_world a) in
      if active = [] then a
      else
        case complete_detected A (tu_session_id a) active (ai_detect A t active) (tu_world a) of
          (ls, w) \<Rightarrow> tui_update_task_cache (tv_task_tree V w) (ai_stats A w) (fold (log_console V) ls (a\<lparr>tu_world := w\<rparr>)))"

definition store_message :: "('w, 'j, 'm) ai_env \<Rightarrow> ('w, 'i, 's, 'c, 'j, 'm) tui_env \<Rightarrow> string \<Rightarrow> rstr \<Rightarrow> rstr \<Rightarrow> int \<Rightarrow>
    ('w, 'i, 's, 'c, 'j, 'm) tui_app \<Rightarrow> ('w, 'i, 's, 'c, 'j, 'm) tui_app" where
  "store_message A V what r t now a =
     (case tv_uuid V (tu_world a) of
        (u, w1) \<Rightarrow>
          (case tv_add_message V u (tu_session_id a) (dm_new r t now) w1 of
             (True, w2) \<Rightarrow> a\<lparr>tu_world := w2\<rparr>
           | (False, w2) \<Rightarrow> log_console V (lit ''Failed to save '' @ lit what @ lit '' message: '' @ ai_error A w2) (a\<lparr>tu_world := w2\<rparr>)))"

definition save_conversation_to_storage :: "('w, 'j, 'm) ai_env \<Rightarrow> ('w, 'i, 's, 'c, 'j, 'm) tui_env \<Rightarrow> rstr \<Rightarrow> rstr \<Rightarrow>
    ('w, 'i, 's, 'c, 'j, 'm) tui_app \<Rightarrow> ('w, 'i, 's, 'c, 'j, 'm) tui_app option" where
  "save_conversation_to_storage A V user answer a =
     (if answer = [] then Some a
      else
        let now = tv_now V (tu_world a);
            a2 = store_message A V ''assistant'' (lit ''assistant'') answer now
                   (store_message A V ''user'' (lit ''user'') user now a);
            n = length (tu_messages a2)
        in
        if length (tu_history a) = 3
        then do {
          title \<leftarrow> (case tu_messages a2 of m # _ \<Rightarrow> session_title (msg_content m) | [] \<Rightarrow> Some (lit ''New conversation''));
          (case tv_create_conversation V (tu_session_id a2) title (tu_model a2) n (tu_world a2) of
             (Inr _, w) \<Rightarrow> Some (a2\<lparr>tu_world := w\<rparr>)
           | (Inl e, w) \<Rightarrow> Some (log_console V (lit ''Failed to save conversation: '' @ e) (a2\<lparr>tu_world := w\<rparr>)))
        }
        else
          (case tv_update_conversation V (tu_session_id a2) n (tu_world a2) of
             (Inr _, w) \<Rightarrow> Some (a2\<lparr>tu_world := w\<rparr>)
           | (Inl e, w) \<Rightarrow>
               Some (if str_contains e (lit ''not found'') then a2\<lparr>tu_world := w\<rparr>
                     else log_console V (lit ''Failed to update conversation: '' @ e) (a2\<lparr>tu_world := w\<rparr>))))"

definition show_in :: "nat option \<Rightarrow> rstr \<Rightarrow> tui_message list \<Rightarrow> tui_message list" where
  "show_in i t ms = (case i of Some k \<Rightarrow> modify_nth k (\<lambda>m. m\<lparr>msg_content := t\<rparr>) ms | None \<Rightarrow> ms)"

definition ready_line :: "('w, 'i, 's, 'c, 'j, 'm) tui_app \<Rightarrow> rstr" where
  "ready_line a =
     lit ''Ready - Model: '' @ tu_model a @ (if ex_mdap (tu_extra a) \<noteq> None then lit '' [MDAP]'' else [])
     @ lit '' (Ctrl+C to quit)''"

definition finalize_stream :: "('w, 'j, 'm) ai_env \<Rightarrow> ('w, 'i, 's, 'c, 'j, 'm) tui_env \<Rightarrow> ('w, 'i, 's, 'c, 'j, 'm) tui_app \<Rightarrow>
    ('w, 'i, 's, 'c, 'j, 'm) tui_app option" where
  "finalize_stream A V a =
     (let p = parse_response (ai_decode A) (st_content (tu_stream a));
          t = pr_content p;
          a1 = a\<lparr>tu_messages := show_in (st_msg_idx (tu_stream a)) t (tu_messages a),
                 tu_history := tu_history a @ [assistant_text t]\<rparr>;
          a2 = (if ex_plan (tu_extra a1) \<noteq> None then detect_and_complete_tasks A V t a1 else a1);
          user = (case st_user_content (tu_stream a2) of Some u \<Rightarrow> u | None \<Rightarrow> [])
      in do {
        a3 \<leftarrow> save_conversation_to_storage A V user t (on_stream (\<lambda>s. s\<lparr>st_user_content := None\<rparr>) a2);
        let a4 = on_stream (\<lambda>s. s\<lparr>st_rx := None, st_content := [], st_msg_idx := None, st_conversation := None\<rparr>) a3;
        (case pr_questions p of
           Some b \<Rightarrow>
             Some (set_tui_status V LogInfo
               (lit ''Clarifying Questions - '' @ show_nat (length (qb_questions b)) @ lit '' question(s)'')
               (on_dialogs (\<lambda>d. d\<lparr>dg_questions := Some b, dg_answers := qa_new b\<rparr>) (a4\<lparr>tu_mode := QuestionAnswer\<rparr>)))
         | None \<Rightarrow>
             let a5 = to_normal_after_streaming a4 in
             Some (set_tui_status V LogInfo
               (if tu_queued a5 \<noteq> [] then lit ''Ready - '' @ show_nat (length (tu_queued a5)) @ lit '' queued messages''
                else ready_line a5) a5))
      })"

section \<open>The path with voting\<close>

text \<open>
  The whole vote is one call: its answer with the report on the samples, or its error.
\<close>

definition call_ai_provider_mdap :: "('w, 'j, 'm) ai_env \<Rightarrow> ('w, 'i, 's, 'c, 'j, 'm) tui_env \<Rightarrow> nat \<Rightarrow>
    ('w, 'i, 's, 'c, 'j, 'm) tui_app \<Rightarrow> ('w, 'i, 's, 'c, 'j, 'm) tui_app option" where
  "call_ai_provider_mdap A V k a =
     (let a1 = set_tui_status V LogInfo (lit ''MDAP Processing (k='' @ show_nat k @ lit '')...'') (a\<lparr>tu_mode := Waiting\<rparr>);
          t = last_text (tu_history a1)
      in
      case request_messages A V a1 of
        (ms, a2) \<Rightarrow>
          let i = length (tu_messages a2) in
          (case apply_tool_scope (ex_tools (tu_extra a2)) (placeholder V (lit ''Processing with MDAP...'') a2) of
             (ts, a3) \<Rightarrow>
               (case ai_mdap A k t ms ts (tu_world a3) of
                  (Inr (answer, report), w) \<Rightarrow>
                    let a4 = a3\<lparr>tu_world := w, tu_messages := show_in (Some i) answer (tu_messages a3),
                               tu_history := tu_history a3 @ [assistant_text answer]\<rparr>;
                        a5 = (if ex_plan (tu_extra a4) \<noteq> None then detect_and_complete_tasks A V answer a4 else a4)
                    in do {
                      a6 \<leftarrow> save_conversation_to_storage A V t answer a5;
                      Some (to_normal_after_streaming
                        (set_tui_status V LogInfo (ready_line a6) (log_console V ([9989] @ lit '' MDAP completed: '' @ report) a6)))
                    }
                | (Inl e, w) \<Rightarrow>
                    let a4 = a3\<lparr>tu_world := w, tu_messages := show_in (Some i) (lit ''MDAP Error: '' @ e) (tu_messages a3)\<rparr>
                    in Some (to_normal_after_streaming
                         (set_tui_status V LogError (lit ''MDAP Error: '' @ e)
                           (log_console V ([10060] @ lit '' MDAP error: '' @ e) a4))))))"

section \<open>The path over the connection\<close>

definition call_ai_provider_ipc :: "('w, 'j, 'm) ai_env \<Rightarrow> ('w, 'i, 's, 'c, 'j, 'm) tui_env \<Rightarrow> ('w, 'i, 's, 'c, 'j, 'm) tui_app \<Rightarrow>
    unit ending \<times> ('w, 'i, 's, 'c, 'j, 'm) tui_app" where
  "call_ai_provider_ipc A V a =
     (let a1 = (if tu_tool_scope a \<noteq> None
            then log_console V ([9888, 65039, 32, 32] @ lit ''Skill allowed_tools is not yet enforced over IPC '' @ [8212]
                   @ lit '' tool scope skipped'') (a\<lparr>tu_tool_scope := None\<rparr>)
            else a);
          t = last_text (tu_history a1);
          files = map (we_path \<circ> snd) (ws_entries (tu_working_set a1));
          a2 = placeholder V [] (set_tui_status V LogInfo (lit ''Sending to session...'') (a1\<lparr>tu_mode := Waiting\<rparr>));
          a3 = on_stream (\<lambda>s. s\<lparr>st_msg_idx := Some (length (tu_messages a2) - 1), st_content := []\<rparr>) a2
      in
      if \<not> tu_connected a3 then (Fails (lit ''No IPC connection in IPC mode''), a3)
      else
        case write_ipc V (UserInput t files) a3 of
          (False, a4) \<Rightarrow> (Fails (ai_error A (tu_world a4)), a4)
        | (True, a4) \<Rightarrow>
            (Returns (),
             log_console V ([128228] @ lit '' Sent input to session via IPC'')
               (set_tui_status V LogInfo (lit ''Streaming from session...'') a4)))"

definition call_ai_provider :: "('w, 'j, 'm) ai_env \<Rightarrow> ('w, 'i, 's, 'c, 'j, 'm) tui_env \<Rightarrow> ('w, 'i, 's, 'c, 'j, 'm) tui_app \<Rightarrow>
    'j background list ending \<times> ('w, 'i, 's, 'c, 'j, 'm) tui_app" where
  "call_ai_provider A V a =
     (if tu_is_ipc a then run_then (call_ai_provider_ipc A V a) (\<lambda>_ a1. (Returns [], a1))
      else
        case ex_mdap (tu_extra a) of
          Some k \<Rightarrow> (case call_ai_provider_mdap A V k a of Some a1 \<Rightarrow> (Returns [], a1) | None \<Rightarrow> (Panics, a))
        | None \<Rightarrow> (case call_ai_provider_stream A V a of Some (bs, a1) \<Rightarrow> (Returns bs, a1) | None \<Rightarrow> (Panics, a)))"

text \<open>
  A submitted message. \<open>C\<close> handles slash commands: its answer is whether the provider is skipped.
\<close>

type_synonym ('w, 'i, 's, 'c, 'j, 'm) command_handler =
  "rstr \<Rightarrow> rstr list \<Rightarrow> rstr \<Rightarrow> ('w, 'i, 's, 'c, 'j, 'm) tui_app \<Rightarrow> bool ending \<times> ('w, 'i, 's, 'c, 'j, 'm) tui_app"

definition take_user_message :: "('w, 'j, 'm) ai_env \<Rightarrow> ('w, 'i, 's, 'c, 'j, 'm) tui_env \<Rightarrow> rstr \<Rightarrow>
    ('w, 'i, 's, 'c, 'j, 'm) tui_app \<Rightarrow> ('w, 'i, 's, 'c, 'j, 'm) tui_app" where
  "take_user_message A V t a =
     (let a1 = a\<lparr>tu_messages := tu_messages a @ [user_entry t (tv_now V (tu_world a))],
                 tu_history := tu_history a @ [\<lparr>m_role = UserRole, m_content = TextContent t\<rparr>],
                 tu_world := ai_facts A t (tu_world a)\<rparr>
      in (case ai_hint A t of Some h \<Rightarrow> log_console V h a1 | None \<Rightarrow> a1))"

definition process_message :: "('w, 'j, 'm) ai_env \<Rightarrow> ('w, 'i, 's, 'c, 'j, 'm) tui_env \<Rightarrow> ('w, 'i, 's, 'c, 'j, 'm) command_handler \<Rightarrow>
    ('w, 'i, 's, 'c, 'j, 'm) tui_app \<Rightarrow> 'j background list ending \<times> ('w, 'i, 's, 'c, 'j, 'm) tui_app" where
  "process_message A V C a =
     (let t = input_text V a in
      case tv_add_prompt V t (tu_prompts a) (tu_world a) of
        (h, w) \<Rightarrow>
          let a1 = a\<lparr>tu_prompts := h, tu_world := w\<rparr> in
          run_then (case ai_command A t of
                      Some (n, args) \<Rightarrow> C n args t a1
                    | None \<Rightarrow> (Returns False, take_user_message A V t a1))
            (\<lambda>skip a2.
               if \<not> skip \<and> tu_history a2 \<noteq> []
               then call_ai_provider A V ((clear_input V a2)\<lparr>tu_draft := None\<rparr>)
               else (Returns [], a2)))"

definition process_queued_message :: "('w, 'j, 'm) ai_env \<Rightarrow> ('w, 'i, 's, 'c, 'j, 'm) tui_env \<Rightarrow>
    ('w, 'i, 's, 'c, 'j, 'm) command_handler \<Rightarrow> ('w, 'i, 's, 'c, 'j, 'm) tui_app \<Rightarrow>
    (bool \<times> 'j background list) ending \<times> ('w, 'i, 's, 'c, 'j, 'm) tui_app" where
  "process_queued_message A V C a =
     (case tu_queued a of
        [] \<Rightarrow> (Returns (False, []), a)
      | t # ts \<Rightarrow>
          let a1 = set_tui_status V LogInfo
                (if ts \<noteq> [] then lit ''Processing queued message ('' @ show_nat (length ts) @ lit '' remaining)''
                 else lit ''Processing queued message'') (a\<lparr>tu_queued := ts\<rparr>)
          in run_then (process_message A V C (set_input V t a1)) (\<lambda>bs a2. (Returns (True, bs), a2)))"

section \<open>Events of the connection\<close>

definition shown_already :: "display_message \<Rightarrow> tui_message list \<Rightarrow> bool" where
  "shown_already d ms \<longleftrightarrow>
     (if dm_role d = lit ''user''
      then list_ex (\<lambda>m. msg_role m = lit ''user'' \<and> msg_content m = dm_content d) (take 3 (rev ms))
      else dm_role d = lit ''assistant'' \<and> ms \<noteq> [] \<and> msg_role (last ms) = lit ''assistant'')"

definition take_message_added :: "('w, 'i, 's, 'c, 'j, 'm) tui_env \<Rightarrow> display_message \<Rightarrow> ('w, 'i, 's, 'c, 'j, 'm) tui_app \<Rightarrow>
    ('w, 'i, 's, 'c, 'j, 'm) tui_app" where
  "take_message_added V d a =
     (if shown_already d (tu_messages a) then a
      else
        let a1 = a\<lparr>tu_messages := tu_messages a @ [of_display d]\<rparr> in
        if dm_role d \<noteq> lit ''user'' then a1
        else
          let a2 = placeholder V [] (on_stream (\<lambda>s. s\<lparr>st_content := []\<rparr>)
                     ((set_tui_status V LogInfo (lit ''Working...'') a1)\<lparr>tu_mode := Waiting\<rparr>))
          in on_stream (\<lambda>s. s\<lparr>st_msg_idx := Some (length (tu_messages a2) - 1)\<rparr>) a2)"

fun handle_ipc_event :: "('w, 'j, 'm) ai_env \<Rightarrow> ('w, 'i, 's, 'c, 'j, 'm) tui_env \<Rightarrow> ('j, 'm) agent_event \<Rightarrow>
    ('w, 'i, 's, 'c, 'j, 'm) tui_app \<Rightarrow> ('w, 'i, 's, 'c, 'j, 'm) tui_app" where
  "handle_ipc_event A V (FromAgent (StreamChunk t)) a =
     (let t' = st_content (tu_stream a) @ t in
      on_stream (\<lambda>s. s\<lparr>st_content := t'\<rparr>) (a\<lparr>tu_messages := show_in (st_msg_idx (tu_stream a)) t' (tu_messages a)\<rparr>))"
| "handle_ipc_event A V (FromAgent (StreamEnd r)) a =
     on_stream (\<lambda>s. s\<lparr>st_msg_idx := None\<rparr>) (to_normal_after_streaming (set_tui_status V LogInfo (lit ''Ready'') a))"
| "handle_ipc_event A V (FromAgent (ToolCallStart i n srv j)) a =
     set_tui_status V LogInfo (lit ''Tool: '' @ n @ lit '' (executing...)'') a"
| "handle_ipc_event A V (FromAgent (ToolResultSent i n out err)) a =
     record_tool_execution V (ai_json A) n (jv_null (ai_json A)) (case out of Some x \<Rightarrow> Some x | None \<Rightarrow> err) (err = None) None
       (log_console V ([if err = None then 9989 else 10060] @ lit '' Tool: '' @ n) a)"
| "handle_ipc_event A V (FromAgent (StatusUpdated st)) a = set_tui_status V LogInfo st a"
| "handle_ipc_event A V (FromAgent (ErrorSent e fatal)) a =
     to_normal_after_streaming (set_tui_status V LogError (lit ''Error: '' @ e) a)"
| "handle_ipc_event A V (FromAgent (ConversationSync i model ms st busy mode servers)) a =
     (set_tui_status V LogInfo st (a\<lparr>tu_messages := map of_display ms\<rparr>))\<lparr>tu_tool_mode := mode, tu_mcp_servers := servers\<rparr>"
| "handle_ipc_event A V (FromAgent (MessageAdded d)) a = take_message_added V d a"
| "handle_ipc_event A V (SessionExiting reason) a =
     (set_tui_status V LogWarn (lit ''Session ended'')
       (log_console V ([9888, 65039, 32] @ lit ''Session exiting: '' @ reason) a))\<lparr>tu_needs_respawn := True\<rparr>"
| "handle_ipc_event A V (FromAgent m) a = a"

text \<open>
  A lost session is started again. \<open>spawn\<close> starts the process and gives its socket, \<open>connect\<close> connects and sends the
  handshake, \<open>answer\<close> is the answer to it, \<open>first\<close> the first message after it; where a read gives nothing the session has closed.
\<close>

record ('w, 'j, 'm) respawn_env =
  re_spawn :: "rstr \<Rightarrow> rstr \<Rightarrow> 'w \<Rightarrow> (rstr + rstr) \<times> 'w"
  re_connect :: "rstr \<Rightarrow> 'w \<Rightarrow> (rstr + unit) \<times> 'w"
  re_answer :: "'w \<Rightarrow> (rstr + (bool \<times> rstr option) option) \<times> 'w"
  re_first :: "'w \<Rightarrow> (rstr + ('j, 'm) agent_event option) \<times> 'w"

definition adopt_sync :: "('w, 'i, 's, 'c, 'j, 'm) tui_env \<Rightarrow> ('j, 'm) agent_event \<Rightarrow> ('w, 'i, 's, 'c, 'j, 'm) tui_app \<Rightarrow>
    ('w, 'i, 's, 'c, 'j, 'm) tui_app" where
  "adopt_sync V e a =
     (case e of
        FromAgent (ConversationSync i model ms st busy mode servers) \<Rightarrow>
          (set_tui_status V LogInfo st (a\<lparr>tu_messages := map of_display ms\<rparr>))
            \<lparr>tu_model := model, tu_tool_mode := mode, tu_mcp_servers := servers\<rparr>
      | _ \<Rightarrow> a)"

definition respawn_session :: "('w, 'j, 'm) respawn_env \<Rightarrow> ('w, 'i, 's, 'c, 'j, 'm) tui_env \<Rightarrow> ('w, 'i, 's, 'c, 'j, 'm) tui_app \<Rightarrow>
    unit ending \<times> ('w, 'i, 's, 'c, 'j, 'm) tui_app" where
  "respawn_session R V a =
     (let a1 = set_tui_status V LogWarn (lit ''Respawning session...'')
            (log_console V ([128260] @ lit '' Respawning session...'') a)
      in
      case re_spawn R (tu_session_id a1) (tu_model a1) (tu_world a1) of
        (Inl e, w) \<Rightarrow> (Fails e, a1\<lparr>tu_world := w\<rparr>)
      | (Inr path, w) \<Rightarrow>
          let a2 = log_console V ([9989] @ lit '' Session respawned at: '' @ path) (a1\<lparr>tu_world := w\<rparr>) in
          (case re_connect R (tu_session_id a2) (tu_world a2) of
             (Inl e, w) \<Rightarrow> (Fails e, a2\<lparr>tu_world := w\<rparr>)
           | (Inr _, w) \<Rightarrow>
               (case re_answer R w of
                  (Inl e, w) \<Rightarrow> (Fails e, a2\<lparr>tu_world := w\<rparr>)
                | (Inr None, w) \<Rightarrow> (Fails (lit ''Session closed during handshake''), a2\<lparr>tu_world := w\<rparr>)
                | (Inr (Some (False, e)), w) \<Rightarrow>
                    (Fails (lit ''Session rejected reconnection: '' @ (case e of Some x \<Rightarrow> x | None \<Rightarrow> [])), a2\<lparr>tu_world := w\<rparr>)
                | (Inr (Some (True, e)), w) \<Rightarrow>
                    (case re_first R w of
                       (Inl e, w) \<Rightarrow> (Fails e, a2\<lparr>tu_world := w\<rparr>)
                     | (Inr None, w) \<Rightarrow> (Fails (lit ''Session closed before sync''), a2\<lparr>tu_world := w\<rparr>)
                     | (Inr (Some m), w) \<Rightarrow>
                         (Returns (),
                          log_console V ([9989] @ lit '' Reconnected to session'')
                            ((adopt_sync V m (a2\<lparr>tu_world := w\<rparr>))
                              \<lparr>tu_connected := True, tu_mode := NormalView, tu_needs_respawn := False\<rparr>))))))"

section \<open>Events of a stream\<close>

definition progress_line :: "('w, 'j, 'm) ai_env \<Rightarrow> rstr \<Rightarrow> rstr \<Rightarrow> rstr option \<Rightarrow> rstr" where
  "progress_line A n m p = [9203, 32] @ n @ lit '' - '' @ m @ ai_percent A p"

text \<open>
  One event of the stream: the state, the tool that was asked for last, whether the stream is done, and the lines for the
  console, which are written after the batch.
\<close>

type_synonym ('w, 'i, 's, 'c, 'j, 'm) batch =
  "('w, 'i, 's, 'c, 'j, 'm) tui_app \<times> 'j pending_tool option \<times> bool \<times> rstr list"

fun take_stream_event :: "('w, 'j, 'm) ai_env \<Rightarrow> ('w, 'i, 's, 'c, 'j, 'm) tui_env \<Rightarrow> 'j stream_event \<Rightarrow>
    ('w, 'i, 's, 'c, 'j, 'm) batch \<Rightarrow> ('w, 'i, 's, 'c, 'j, 'm) batch" where
  "take_stream_event A V (SText t) (a, p, d, ls) =
     (let t' = st_content (tu_stream a) @ t in
      (on_stream (\<lambda>s. s\<lparr>st_content := t'\<rparr>) (a\<lparr>tu_messages := show_in (st_msg_idx (tu_stream a)) t' (tu_messages a)\<rparr>), p, d, ls))"
| "take_stream_event A V (SToolCall ci ri chat n srv j) (a, p, d, ls) =
     (if srv = lit ''cli-local''
      then (set_tui_status V LogInfo (lit ''Tool: '' @ n @ lit '' (executing...)'') a,
            Some \<lparr>pe_call_id = ci, pe_response_id = ri, pe_chat_id = chat, pe_tool_name = n, pe_parameters = j,
              pe_conversation = (case st_conversation (tu_stream a) of Some ms \<Rightarrow> ms | None \<Rightarrow> [])\<rparr>,
            d, ls @ [[128295] @ lit '' Tool requested: '' @ n])
      else (a, p, d, ls @ [[9888, 65039, 32] @ lit ''Ignoring tool from unknown server: '' @ srv]))"
| "take_stream_event A V (SProgress n m pr) (a, p, d, ls) = (a\<lparr>tu_status := progress_line A n m pr\<rparr>, p, d, ls)"
| "take_stream_event A V SDone (a, p, d, ls) = (a, p, True, ls)"
| "take_stream_event A V (SError e) (a, p, d, ls) =
     (set_tui_status V LogError (lit ''Error: '' @ e) a, p, True, ls @ [[10060] @ lit '' Stream error: '' @ e])"
| "take_stream_event A V (SToolResult n r e) b = b"

text \<open>A tool that was asked for starts in the background; \<open>None\<close> is the panic of the short call id.\<close>

definition start_tool :: "('w, 'j, 'm) ai_env \<Rightarrow> ('w, 'i, 's, 'c, 'j, 'm) tui_env \<Rightarrow> 'j pending_tool \<Rightarrow>
    ('w, 'i, 's, 'c, 'j, 'm) tui_app \<Rightarrow> ('j background list \<times> ('w, 'i, 's, 'c, 'j, 'm) tui_app) option" where
  "start_tool A V p a = do {
     (short, rest) \<leftarrow> split_byte (min 8 (blen (pe_call_id p))) (pe_call_id p);
     let a1 = log_console V ([128295] @ lit '' Spawning background tool: '' @ pe_tool_name p @ lit '' (call_id: '' @ short @ lit '')'') a;
     (case ai_fresh A (tu_world a1) of
        (tok, w1) \<Rightarrow>
          (case ai_fresh A w1 of
             (task, w2) \<Rightarrow>
               Some ([RunTool (starts_with (pe_tool_name p) (lit ''mcp_''))
                        \<lparr>tu_id = pe_call_id p, tu_name = pe_tool_name p, tu_input = pe_parameters p\<rparr>],
                     on_stream (\<lambda>s. s\<lparr>st_pending := Some p, st_tool_rx := Some ([], False), st_token := Some tok,
                       st_tool_task := Some task\<rparr>) (a1\<lparr>tu_world := w2\<rparr>))))
   }"

definition poll_stream_events :: "('w, 'j, 'm) ai_env \<Rightarrow> ('w, 'i, 's, 'c, 'j, 'm) tui_env \<Rightarrow> ('w, 'i, 's, 'c, 'j, 'm) tui_app \<Rightarrow>
    (bool \<times> 'j background list \<times> ('w, 'i, 's, 'c, 'j, 'm) tui_app) option" where
  "poll_stream_events A V a =
     (case st_rx (tu_stream a) of
        None \<Rightarrow> Some (False, [], a)
      | Some (es, closed) \<Rightarrow>
          let a1 = on_stream (\<lambda>s. s\<lparr>st_rx := None\<rparr>) a in
          (case fold (take_stream_event A V) (es @ (if closed then [SDone] else [])) (a1, None, False, []) of
             (a2, tool, finished, ls) \<Rightarrow>
               let a3 = fold (log_console V) ls a2;
                   a4 = (if finished then a3 else on_stream (\<lambda>s. s\<lparr>st_rx := Some ([], False)\<rparr>) a3)
               in (case tool of
                     Some p \<Rightarrow> map_option (\<lambda>(bs, a5). (True, bs, a5)) (start_tool A V p a4)
                   | None \<Rightarrow>
                       if finished then map_option (\<lambda>a5. (False, [], a5)) (finalize_stream A V a4)
                       else Some (True, [], a4))))"

section \<open>Events of a tool\<close>

fun tool_event :: "('w, 'j, 'm) ai_env \<Rightarrow> 'j stream_event \<Rightarrow>
    ('w, 'i, 's, 'c, 'j, 'm) tui_app \<times> (rstr \<times> rstr option \<times> rstr option) option \<Rightarrow>
    ('w, 'i, 's, 'c, 'j, 'm) tui_app \<times> (rstr \<times> rstr option \<times> rstr option) option" where
  "tool_event A (SProgress n m pr) (a, r) = (a\<lparr>tu_status := progress_line A n m pr\<rparr>, r)"
| "tool_event A (SToolResult n r e) (a, r0) = (a, Some (n, r, e))"
| "tool_event A e (a, r) = (a, r)"

text \<open>
  The output goes back to the provider in a new stream, with all tools whatever the prompt mode; the channel of the
  tool is given up.
\<close>

definition spawn_continuation_request :: "('w, 'j, 'm) ai_env \<Rightarrow> 'j pending_tool \<Rightarrow> rstr \<Rightarrow> ('w, 'i, 's, 'c, 'j, 'm) tui_app \<Rightarrow>
    'j background list \<times> ('w, 'i, 's, 'c, 'j, 'm) tui_app" where
  "spawn_continuation_request A p out a =
     (case ai_fresh A (tu_world a) of
        (task, w) \<Rightarrow>
          ([ContinueAfterTool p (ex_tools (tu_extra a)) out],
           on_stream (\<lambda>s. s\<lparr>st_rx := Some ([], False), st_stream_task := Some task, st_tool_rx := None\<rparr>) (a\<lparr>tu_world := w\<rparr>)))"

definition tool_preview :: "rstr \<Rightarrow> rstr option" where
  "tool_preview t = (if blen t > 200 then map_option (\<lambda>(x, y). x @ lit ''...'') (split_byte 200 t) else Some t)"

definition finish_tool :: "('w, 'j, 'm) ai_env \<Rightarrow> ('w, 'i, 's, 'c, 'j, 'm) tui_env \<Rightarrow> ('w, 'i, 's, 'c, 'j, 'm) tui_app \<Rightarrow>
    (bool \<times> 'j background list \<times> ('w, 'i, 's, 'c, 'j, 'm) tui_app) option" where
  "finish_tool A V a = map_option (\<lambda>a1. (False, [], a1)) (finalize_stream A V (on_stream (\<lambda>s. s\<lparr>st_tool_rx := None\<rparr>) a))"

definition take_tool_result :: "('w, 'j, 'm) ai_env \<Rightarrow> ('w, 'i, 's, 'c, 'j, 'm) tui_env \<Rightarrow> 'j pending_tool \<Rightarrow>
    rstr \<Rightarrow> rstr option \<Rightarrow> rstr option \<Rightarrow> ('w, 'i, 's, 'c, 'j, 'm) tui_app \<Rightarrow>
    (bool \<times> 'j background list \<times> ('w, 'i, 's, 'c, 'j, 'm) tui_app) option" where
  "take_tool_result A V p n r e a =
     (case (e, r) of
        (Some err, _) \<Rightarrow>
          finish_tool A V
            (record_tool_execution V (ai_json A) n (pe_parameters p) (Some err) False None
              (set_tui_status V LogError (lit ''Tool error: '' @ err)
                (log_console V ([10060] @ lit '' Tool '' @ n @ lit '' failed: '' @ err) a)))
      | (None, Some out) \<Rightarrow>
          let t = limit_output out in
          map_option (\<lambda>preview.
              case spawn_continuation_request A p t
                     (set_tui_status V LogInfo (lit ''Processing tool result...'')
                       (record_tool_execution V (ai_json A) n (pe_parameters p) (Some t) True None
                         (log_console V ([9989] @ lit '' Tool '' @ n @ lit '' completed: '' @ preview) a))) of
                (bs, a1) \<Rightarrow> (True, bs, a1)) (tool_preview t)
      | (None, None) \<Rightarrow> finish_tool A V a)"

definition poll_tool_events :: "('w, 'j, 'm) ai_env \<Rightarrow> ('w, 'i, 's, 'c, 'j, 'm) tui_env \<Rightarrow> ('w, 'i, 's, 'c, 'j, 'm) tui_app \<Rightarrow>
    (bool \<times> 'j background list \<times> ('w, 'i, 's, 'c, 'j, 'm) tui_app) option" where
  "poll_tool_events A V a =
     (case st_tool_rx (tu_stream a) of
        None \<Rightarrow> Some (False, [], a)
      | Some (es, closed) \<Rightarrow>
          (case fold (tool_event A) es (on_stream (\<lambda>s. s\<lparr>st_tool_rx := None\<rparr>) a, None) of
             (a1, None) \<Rightarrow> Some (True, [], on_stream (\<lambda>s. s\<lparr>st_tool_rx := Some ([], closed)\<rparr>) a1)
           | (a1, Some (n, r, e)) \<Rightarrow>
               (case st_pending (tu_stream a1) of
                  None \<Rightarrow> finish_tool A V a1
                | Some p \<Rightarrow> take_tool_result A V p n r e (on_stream (\<lambda>s. s\<lparr>st_pending := None\<rparr>) a1))))"

section \<open>Cancelling\<close>

definition tui_cancel_operation :: "('w, 'i, 's, 'c, 'j, 'm) tui_env \<Rightarrow> ('w, 'i, 's, 'c, 'j, 'm) tui_app \<Rightarrow>
    ('w, 'i, 's, 'c, 'j, 'm) tui_app" where
  "tui_cancel_operation V a =
     (let opt = (\<lambda>x. case x of Some n \<Rightarrow> [n] | None \<Rightarrow> []);
          a1 = on_stream (\<lambda>s. s\<lparr>st_cancelled := st_cancelled s @ opt (st_token s), st_token := None,
                 st_aborted := st_aborted s @ opt (st_stream_task s) @ opt (st_tool_task s), st_stream_task := None,
                 st_tool_task := None, st_rx := None, st_tool_rx := None, st_pending := None, st_content := [],
                 st_msg_idx := None, st_conversation := None, st_user_content := None\<rparr>) a
      in (set_tui_status V LogInfo (lit ''Operation cancelled'')
           (log_console V (lit ''Operation cancelled by user'') a1))\<lparr>tu_mode := NormalView\<rparr>)"

definition cancel_confirm_event :: "('w, 'i, 's, 'c, 'j, 'm) tui_env \<Rightarrow> 'e event \<Rightarrow> ('w, 'i, 's, 'c, 'j, 'm) tui_app \<Rightarrow>
    ('w, 'i, 's, 'c, 'j, 'm) tui_app" where
  "cancel_confirm_event V e a =
     (case e of
        Key (KChar c) ms \<Rightarrow>
          if c = 121 \<or> c = 89 then tui_cancel_operation V a
          else if c = 110 \<or> c = 78 then set_tui_status V LogInfo (lit ''Continuing...'') (a\<lparr>tu_mode := Waiting\<rparr>)
          else a
      | Key KEsc ms \<Rightarrow> set_tui_status V LogInfo (lit ''Continuing...'') (a\<lparr>tu_mode := Waiting\<rparr>)
      | _ \<Rightarrow> a)"

section \<open>Tools in Ask mode\<close>

lemma apply_tool_scope_subset: "apply_tool_scope ts a = (us, b) \<Longrightarrow> set us \<subseteq> set ts"
  by (auto simp: apply_tool_scope_def split: option.splits)

lemma request_messages_fields:
  "request_messages A V a = (ms, b) \<Longrightarrow> tu_prompt_mode b = tu_prompt_mode a \<and> tu_messages b = tu_messages a \<and> tu_mode b = tu_mode a
     \<and> tu_world b = tu_world a \<and> tu_extra b = tu_extra a"
  by (auto simp: request_messages_def Let_def split: option.splits)

lemma seal_preprocess_fields:
  "tui_seal_preprocess f g h t a = (r, b) \<Longrightarrow> tu_prompt_mode b = tu_prompt_mode a \<and> tu_messages b = tu_messages a \<and> tu_mode b = tu_mode a"
  by (auto simp: tui_seal_preprocess_def Let_def on_seal_def on_extra_def split: prod.splits option.splits sum.splits)

lemma log_resolution_fields:
  "log_resolution V t r a = Some b \<Longrightarrow> tu_prompt_mode b = tu_prompt_mode a \<and> tu_messages b = tu_messages a \<and> tu_mode b = tu_mode a"
  by (auto simp: log_resolution_def log_console_def bind_eq_Some_conv split: if_splits)

lemma begin_stream_fields [simp]:
  "tu_prompt_mode (begin_stream A i t ms a) = tu_prompt_mode a" "tu_messages (begin_stream A i t ms a) = tu_messages a"
  "tu_tool_mode (begin_stream A i t ms a) = tu_tool_mode a" "tu_extra (begin_stream A i t ms a) = tu_extra a"
  by (simp_all add: begin_stream_def on_stream_def split: prod.split)

text \<open>
  C34: A request that the interface itself sends to the provider in Ask mode offers none of the tools that change
  anything, whatever the tool mode and the scope of a skill. This holds for the first request of a turn only: the request
  that carries a tool's result back offers all tools again.
\<close>

theorem ask_mode_first_request_read_only:
  assumes "call_ai_provider_stream A V a = Some (bs, b)" and "tu_prompt_mode a = AskPrompt"
  shows "\<exists>rq. bs = [StreamAnswer rq] \<and> (\<forall>t\<in>set (rq_tools rq). td_name t \<notin> set ask_mode_excluded)"
proof -
  obtain r a2 where s: "tui_seal_preprocess (ai_note A) (ai_turn A) (ai_seal A) (last_text (tu_history a))
      (set_tui_status V LogInfo (if ex_plan (tu_extra a) \<noteq> None then lit ''Working on plan...'' else lit ''Streaming response...'')
        (a\<lparr>tu_mode := Waiting\<rparr>)) = (r, a2)" by fastforce
  from assms(1) s obtain a3 where a3: "log_resolution V (last_text (tu_history a)) r a2 = Some a3"
    by (auto simp: call_ai_provider_stream_def Let_def bind_eq_Some_conv)
  obtain ms a4 where ms: "request_messages A V a3 = (ms, a4)" by fastforce
  let ?b = "begin_stream A (length (tu_messages a4)) (last_text (tu_history a)) ms (placeholder V [] a4)"
  obtain ts a6 where ts: "apply_tool_scope (tools_of_turn A ms ?b) ?b = (ts, a6)" by fastforce
  have bs: "bs = [StreamAnswer \<lparr>rq_messages = ms, rq_tools = ts, rq_system = Option.bind (find (\<lambda>m. m_role m = SystemRole) ms) (ai_text A)\<rparr>]"
    using assms(1) s a3 ms ts by (simp add: call_ai_provider_stream_def Let_def)
  note l = a3 ms ts bs
  have "tu_prompt_mode a4 = AskPrompt"
    using seal_preprocess_fields [OF s] log_resolution_fields [OF l(1)] request_messages_fields [OF l(2)] assms(2) by simp
  then have "set (tools_of_turn A ms (begin_stream A i t ms (placeholder V [] a4))) \<subseteq> {t. td_name t \<notin> set ask_mode_excluded}" for i t
    by (auto simp: tools_of_turn_def filter_tools_for_prompt_mode_def placeholder_def)
  with apply_tool_scope_subset [OF l(3)] l(4) show ?thesis by fastforce
qed

text \<open>The request that carries the results of a tool on offers the full list of tools again.\<close>

lemma continuation_offers_all_tools:
  "fst (spawn_continuation_request A p out c) = [ContinueAfterTool p (ex_tools (tu_extra c)) out]"
  by (simp add: spawn_continuation_request_def split: prod.split)

section \<open>An answer over the connection\<close>

fun chunk_text :: "('j, 'm) agent_event \<Rightarrow> rstr" where
  "chunk_text (FromAgent (StreamChunk t)) = t"
| "chunk_text e = []"

text \<open>What comes while an answer is streamed: its chunks, calls of tools with their results, and changes of the status.\<close>

fun during_answer :: "('j, 'm) agent_event \<Rightarrow> bool" where
  "during_answer (FromAgent (StreamChunk t)) = True"
| "during_answer (FromAgent (StatusUpdated s)) = True"
| "during_answer (FromAgent (ToolCallStart i n s j)) = True"
| "during_answer (FromAgent (ToolResultSent i n r e)) = True"
| "during_answer e = False"

lemma record_tool_fields [simp]:
  "tu_messages (record_tool_execution V J n p r ok ms a) = tu_messages a" "tu_mode (record_tool_execution V J n p r ok ms a) = tu_mode a"
  "tu_stream (record_tool_execution V J n p r ok ms a) = tu_stream a"
  "tu_history (record_tool_execution V J n p r ok ms a) = tu_history a"
  by (simp_all add: record_tool_execution_def)

lemma on_stream_fields [simp]:
  "tu_messages (on_stream f a) = tu_messages a" "tu_mode (on_stream f a) = tu_mode a" "tu_stream (on_stream f a) = f (tu_stream a)"
  "tu_history (on_stream f a) = tu_history a" "tu_world (on_stream f a) = tu_world a" "tu_sent (on_stream f a) = tu_sent a"
  "tu_extra (on_stream f a) = tu_extra a" "tu_session_id (on_stream f a) = tu_session_id a"
  by (simp_all add: on_stream_def)

lemma show_in_last: "show_in (Some (length ms)) t (ms @ [m]) = ms @ [m\<lparr>msg_content := t\<rparr>]"
  by (simp add: show_in_def modify_nth_def)

lemma answer_streams:
  assumes "\<forall>e\<in>set es. during_answer e" and "tu_messages a = ms @ [assistant_entry x now]"
    and "st_msg_idx (tu_stream a) = Some (length ms)" and "st_content (tu_stream a) = x"
  shows "let b = fold (handle_ipc_event A V) es a in
     tu_messages b = ms @ [assistant_entry (x @ concat (map chunk_text es)) now] \<and> tu_mode b = tu_mode a
     \<and> st_msg_idx (tu_stream b) = Some (length ms)"
  using assms
proof (induction es arbitrary: a x)
  case (Cons e es)
  show ?case
  proof (cases "\<exists>t. e = FromAgent (StreamChunk t)")
    case True
    then obtain t where e: "e = FromAgent (StreamChunk t)" by blast
    let ?a = "handle_ipc_event A V e a"
    have "tu_messages ?a = ms @ [assistant_entry (x @ t) now]" "st_msg_idx (tu_stream ?a) = Some (length ms)"
      "st_content (tu_stream ?a) = x @ t" "tu_mode ?a = tu_mode a"
      using Cons.prems by (simp_all add: e Let_def show_in_last) (simp add: assistant_entry_def)
    with Cons.IH [of ?a "x @ t"] Cons.prems(1) show ?thesis by (simp add: e Let_def)
  next
    case False
    let ?a = "handle_ipc_event A V e a"
    have k: "chunk_text e = []" using False by (cases e rule: chunk_text.cases) auto
    have "tu_messages ?a = tu_messages a \<and> tu_stream ?a = tu_stream a \<and> tu_mode ?a = tu_mode a"
      using False Cons.prems(1) by (cases e rule: during_answer.cases) auto
    with Cons.IH [of ?a x] Cons.prems k show ?thesis by (simp add: Let_def)
  qed
qed simp

lemma write_ipc_fields [simp]:
  "tu_messages (snd (write_ipc V m a)) = tu_messages a" "tu_mode (snd (write_ipc V m a)) = tu_mode a"
  "tu_stream (snd (write_ipc V m a)) = tu_stream a"
  by (simp_all add: write_ipc_def split: prod.split)

lemma ipc_request_sent:
  assumes "call_ai_provider_ipc A V a = (Returns (), b)"
  shows "\<exists>now files. tu_messages b = tu_messages a @ [assistant_entry [] now] \<and> tu_mode b = Waiting
    \<and> st_msg_idx (tu_stream b) = Some (length (tu_messages a)) \<and> st_content (tu_stream b) = []
    \<and> tu_sent b = tu_sent a @ [UserInput (last_text (tu_history a)) files]"
  using assms
  by (auto simp: call_ai_provider_ipc_def Let_def placeholder_def write_ipc_def split: if_splits prod.splits bool.splits)


text \<open>
  Cancelling tells the session nothing; it goes on, and neither its further chunks nor its finished message are shown.
\<close>

lemma cancel_tells_nobody: "tu_sent (cancel_confirm_event V e a) = tu_sent a"
  by (auto simp: cancel_confirm_event_def tui_cancel_operation_def Let_def split: event.splits key_code.splits)

lemma cancelled_answer_stays_hidden:
  assumes "tu_messages a = ms @ [assistant_entry x now]" and "\<forall>e\<in>set es. during_answer e" and "dm_role d = lit ''assistant''"
  shows "tu_messages (handle_ipc_event A V (FromAgent (MessageAdded d)) (fold (handle_ipc_event A V) es (tui_cancel_operation V a)))
    = tu_messages a"
proof -
  have s: "tu_messages (fold (handle_ipc_event A V) es b) = tu_messages b \<and> st_msg_idx (tu_stream (fold (handle_ipc_event A V) es b)) = None"
    if "st_msg_idx (tu_stream b) = None" for b
    using assms(2) that
  proof (induction es arbitrary: b)
    case (Cons e es)
    have "tu_messages (handle_ipc_event A V e b) = tu_messages b \<and> st_msg_idx (tu_stream (handle_ipc_event A V e b)) = None"
      using Cons.prems by (cases e rule: during_answer.cases) (auto simp: Let_def show_in_def)
    with Cons.IH [of "handle_ipc_event A V e b"] Cons.prems(1) show ?case by simp
  qed simp
  have c: "st_msg_idx (tu_stream (tui_cancel_operation V a)) = None" "tu_messages (tui_cancel_operation V a) = tu_messages a"
    by (simp_all add: tui_cancel_operation_def Let_def)
  have "lit ''assistant'' \<noteq> lit ''user''" by (simp add: lit_def)
  with s [OF c(1)] c(2) assms(1,3) show ?thesis
    by (simp add: take_message_added_def shown_already_def assistant_entry_def)
qed

text \<open>No answer of the session in plan mode is shown: the messages it sends there are not looked at.\<close>

lemma plan_messages_ignored:
  "handle_ipc_event A V (FromAgent (PlanModeMessageAdded d)) a = a"
  "handle_ipc_event A V (FromAgent (PlanModeStreamChunk t)) a = a"
  "handle_ipc_event A V (FromAgent (PlanModeEntered i ms s)) a = a"
  "handle_ipc_event A V (FromAgent (PlanModeExited r)) a = a"
  by simp_all

section \<open>An answer of the provider itself\<close>

lemma texts_accumulate:
  assumes "st_content (tu_stream a) = x" and "st_msg_idx (tu_stream a) = Some i" and "i < length (tu_messages a)"
    and "msg_content (tu_messages a ! i) = x"
  shows "\<exists>b. fold (take_stream_event A V) (map SText ts) (a, p, d, ls) = (b, p, d, ls)
    \<and> b = a\<lparr>tu_messages := show_in (Some i) (x @ concat ts) (tu_messages a),
            tu_stream := (tu_stream a)\<lparr>st_content := x @ concat ts\<rparr>\<rparr>"
  using assms
proof (induction ts arbitrary: a x)
  case Nil
  then have "show_in (Some i) x (tu_messages a) = tu_messages a"
    by (simp add: show_in_def modify_nth_def) (metis list_update_id tui_message.surjective tui_message.update_convs(2))
  with Nil.prems(1) show ?case by simp
next
  case (Cons t ts)
  let ?a = "on_stream (\<lambda>s. s\<lparr>st_content := x @ t\<rparr>) (a\<lparr>tu_messages := show_in (Some i) (x @ t) (tu_messages a)\<rparr>)"
  have step: "fold (take_stream_event A V) (map SText (t # ts)) (a, p, d, ls) = fold (take_stream_event A V) (map SText ts) (?a, p, d, ls)"
    using Cons.prems(1,2) by (simp add: Let_def)
  have sh: "show_in (Some i) u (show_in (Some i) v ms) = show_in (Some i) u ms" for u v ms
    by (simp add: show_in_def modify_nth_def)
  have "\<exists>b. fold (take_stream_event A V) (map SText ts) (?a, p, d, ls) = (b, p, d, ls)
    \<and> b = ?a\<lparr>tu_messages := show_in (Some i) ((x @ t) @ concat ts) (tu_messages ?a),
            tu_stream := (tu_stream ?a)\<lparr>st_content := (x @ t) @ concat ts\<rparr>\<rparr>"
    using Cons.prems by (intro Cons.IH) (simp_all add: show_in_def modify_nth_def)
  then show ?case unfolding step by (simp add: sh on_stream_def)
qed

lemma store_message_rows:
  assumes "store_contract V rows"
  shows "\<exists>w. store_message A V what r t now a = a\<lparr>tu_world := w\<rparr> \<and> rows c w = rows c (tu_world a) @ [dm_new r t now]
    \<or> tu_session_id a \<noteq> c"
proof (cases "tu_session_id a = c")
  case True
  obtain u w1 where u: "tv_uuid V (tu_world a) = (u, w1)" by fastforce
  obtain ok w2 where w2: "tv_add_message V u (tu_session_id a) (dm_new r t now) w1 = (ok, w2)" by fastforce
  have "ok" "rows c w2 = rows c (tu_world a) @ [dm_new r t now]"
    using assms u w2 True unfolding store_contract_def by (metis fst_conv, metis snd_conv)
  with u w2 show ?thesis by (auto simp: store_message_def)
qed blast

text \<open>The rows of the other conversations and the errors of the row of the conversation do not matter here.\<close>

lemma saved_pair:
  assumes "store_contract V rows" and "answer \<noteq> []" and "tu_messages a = m # ms" and "title_fits (msg_content m)"
  shows "\<exists>b. save_conversation_to_storage A V user answer a = Some b \<and> tu_messages b = tu_messages a \<and> tu_history b = tu_history a
    \<and> tu_mode b = tu_mode a \<and> tu_stream b = tu_stream a
    \<and> rows (tu_session_id a) (tu_world b) = rows (tu_session_id a) (tu_world a)
        @ [dm_new (lit ''user'') user (tv_now V (tu_world a)), dm_new (lit ''assistant'') answer (tv_now V (tu_world a))]"
proof -
  let ?now = "tv_now V (tu_world a)"
  obtain w1 where w1: "store_message A V ''user'' (lit ''user'') user ?now a = a\<lparr>tu_world := w1\<rparr>"
    "rows (tu_session_id a) w1 = rows (tu_session_id a) (tu_world a) @ [dm_new (lit ''user'') user ?now]"
    using store_message_rows [OF assms(1), of A "''user''" "lit ''user''" user ?now a "tu_session_id a"] by blast
  obtain w2 where w2: "store_message A V ''assistant'' (lit ''assistant'') answer ?now (a\<lparr>tu_world := w1\<rparr>) = a\<lparr>tu_world := w2\<rparr>"
    "rows (tu_session_id a) w2 = rows (tu_session_id a) w1 @ [dm_new (lit ''assistant'') answer ?now]"
    using store_message_rows [OF assms(1), of A "''assistant''" "lit ''assistant''" answer ?now "a\<lparr>tu_world := w1\<rparr>" "tu_session_id a"]
    by fastforce
  have create: "rows (tu_session_id a) (snd (tv_create_conversation V d t m k w)) = rows (tu_session_id a) w"
    and update: "rows (tu_session_id a) (snd (tv_update_conversation V d k w)) = rows (tu_session_id a) w" for d t m k w
    using assms(1) unfolding store_contract_def by blast+
  obtain t where t: "session_title (msg_content m) = Some t" using title_fits_Some [OF assms(4)] by auto
  show ?thesis
  proof (cases "length (tu_history a) = 3")
    case True
    obtain r w3 where w3: "tv_create_conversation V (tu_session_id a) t (tu_model a) (length (tu_messages a)) w2 = (r, w3)" by fastforce
    with create have "rows (tu_session_id a) w3 = rows (tu_session_id a) w2" by (metis snd_conv)
    with True w1 w2 w3 t assms(2,3) show ?thesis
      by (cases r) (auto simp: save_conversation_to_storage_def Let_def log_console_def)
  next
    case False
    obtain r w3 where w3: "tv_update_conversation V (tu_session_id a) (length (tu_messages a)) w2 = (r, w3)" by fastforce
    with update have "rows (tu_session_id a) w3 = rows (tu_session_id a) w2" by (metis snd_conv)
    with False w1 w2 w3 assms(2,3) show ?thesis
      by (cases r) (auto simp: save_conversation_to_storage_def Let_def log_console_def)
  qed
qed

lemma after_save_fields [simp]:
  "tu_messages (to_normal_after_streaming a) = tu_messages a" "tu_history (to_normal_after_streaming a) = tu_history a"
  "tu_world (to_normal_after_streaming a) = tu_world a" "tu_stream (to_normal_after_streaming a) = tu_stream a"
  "tu_messages (on_dialogs f a) = tu_messages a" "tu_history (on_dialogs f a) = tu_history a" "tu_world (on_dialogs f a) = tu_world a"
  "tu_mode (on_dialogs f a) = tu_mode a" "tu_stream (on_dialogs f a) = tu_stream a"
  by (simp_all add: to_normal_after_streaming_def on_dialogs_def)

lemma finalize_result:
  assumes "store_contract V rows" and "ex_plan (tu_extra a) = None" and "tu_messages a = m # ms" and "title_fits (msg_content m)"
    and "p = parse_response (ai_decode A) (st_content (tu_stream a))" and "pr_content p \<noteq> []"
    and "st_msg_idx (tu_stream a) = Some i" and "0 < i" and "st_user_content (tu_stream a) = Some u" and "tu_mode a = Waiting"
  shows "\<exists>b. finalize_stream A V a = Some b \<and> tu_messages b = show_in (Some i) (pr_content p) (tu_messages a)
    \<and> tu_history b = tu_history a @ [assistant_text (pr_content p)]
    \<and> tu_mode b = (if pr_questions p = None then NormalView else QuestionAnswer)
    \<and> rows (tu_session_id a) (tu_world b) = rows (tu_session_id a) (tu_world a)
        @ [dm_new (lit ''user'') u (tv_now V (tu_world a)), dm_new (lit ''assistant'') (pr_content p) (tv_now V (tu_world a))]"
proof -
  let ?a = "on_stream (\<lambda>s. s\<lparr>st_user_content := None\<rparr>) (a\<lparr>tu_messages := show_in (Some i) (pr_content p) (tu_messages a),
      tu_history := tu_history a @ [assistant_text (pr_content p)]\<rparr>)"
  have "tu_messages ?a = m # tl (tu_messages ?a)" using assms(3,8) by (cases i) (auto simp: show_in_def modify_nth_def)
  from saved_pair [OF assms(1,6) this assms(4), of A u] obtain b where
    "save_conversation_to_storage A V u (pr_content p) ?a = Some b" "tu_messages b = show_in (Some i) (pr_content p) (tu_messages a)"
    "tu_history b = tu_history a @ [assistant_text (pr_content p)]" "tu_mode b = Waiting"
    "rows (tu_session_id a) (tu_world b) = rows (tu_session_id a) (tu_world a)
        @ [dm_new (lit ''user'') u (tv_now V (tu_world a)), dm_new (lit ''assistant'') (pr_content p) (tv_now V (tu_world a))]"
    using assms(10) by auto
  then show ?thesis
    using assms(2,5,7,9) by (cases "pr_questions p") (simp_all add: finalize_stream_def Let_def to_normal_after_streaming_def)
qed


text \<open>
  If the end of the stream arrives after the poll that saw the call of a tool, the stream is finished while the tool runs.
  The answer that follows the tool is then added to the conversation but never shown: there is no message for it.
\<close>

lemma stream_event_without_message:
  "st_msg_idx (tu_stream a) = None \<Longrightarrow> take_stream_event A V e (a, p, d, ls) = (b, p', d', ls') \<Longrightarrow>
   tu_messages b = tu_messages a \<and> st_msg_idx (tu_stream b) = None"
  by (cases e) (auto simp: Let_def show_in_def split: if_splits)

lemma stream_events_without_message:
  "st_msg_idx (tu_stream a) = None \<Longrightarrow> fold (take_stream_event A V) es (a, p, d, ls) = (b, p', d', ls') \<Longrightarrow>
   tu_messages b = tu_messages a \<and> st_msg_idx (tu_stream b) = None"
proof (induction es arbitrary: a p d ls)
  case (Cons e es)
  obtain a1 p1 d1 ls1 where e: "take_stream_event A V e (a, p, d, ls) = (a1, p1, d1, ls1)" by (metis prod_cases4)
  with stream_event_without_message [OF Cons.prems(1) this] Cons.IH [of a1 p1 d1 ls1] Cons.prems(2) show ?case by simp
qed simp

lemma logs_keep:
  "tu_messages (fold (log_console V) ls a) = tu_messages a \<and> tu_stream (fold (log_console V) ls a) = tu_stream a
     \<and> tu_history (fold (log_console V) ls a) = tu_history a \<and> tu_extra (fold (log_console V) ls a) = tu_extra a"
proof (induction ls arbitrary: a)
  case (Cons l ls)
  have "tu_extra (log_console V l a) = tu_extra a" by (simp add: log_console_def)
  with Cons [of "log_console V l a"] show ?case by simp
qed simp

lemma store_message_keeps:
  "tu_messages (store_message A V w r t n a) = tu_messages a \<and> tu_history (store_message A V w r t n a) = tu_history a
     \<and> tu_stream (store_message A V w r t n a) = tu_stream a"
  by (auto simp: store_message_def split: prod.split bool.split)

lemma saving_keeps:
  assumes "save_conversation_to_storage A V u t a = Some b"
  shows "tu_messages b = tu_messages a \<and> tu_history b = tu_history a \<and> tu_stream b = tu_stream a"
proof (cases "t = []")
  case False
  let ?s = "store_message A V ''assistant'' (lit ''assistant'') t (tv_now V (tu_world a))
      (store_message A V ''user'' (lit ''user'') u (tv_now V (tu_world a)) a)"
  have k: "tu_messages ?s = tu_messages a" "tu_history ?s = tu_history a" "tu_stream ?s = tu_stream a"
    by (simp_all add: store_message_keeps)
  show ?thesis
  proof (cases "length (tu_history a) = 3")
    case True
    with assms False obtain title where
      "(case tv_create_conversation V (tu_session_id ?s) title (tu_model ?s) (length (tu_messages ?s)) (tu_world ?s) of
         (Inr _, w) \<Rightarrow> Some (?s\<lparr>tu_world := w\<rparr>)
       | (Inl e, w) \<Rightarrow> Some (log_console V (lit ''Failed to save conversation: '' @ e) (?s\<lparr>tu_world := w\<rparr>))) = Some b"
      by (simp add: save_conversation_to_storage_def Let_def bind_eq_Some_conv) blast
    with k show ?thesis by (auto split: prod.split_asm sum.split_asm)
  next
    case False
    with assms \<open>t \<noteq> []\<close> k show ?thesis
      by (auto simp: save_conversation_to_storage_def Let_def split: prod.split_asm sum.split_asm if_split_asm)
  qed
qed (use assms in \<open>simp add: save_conversation_to_storage_def\<close>)

lemma hidden_answer:
  assumes "st_msg_idx (tu_stream a) = None" and "ex_plan (tu_extra a) = None" and "finalize_stream A V a = Some b"
  shows "tu_messages b = tu_messages a \<and> length (tu_history b) = length (tu_history a) + 1 \<and> st_msg_idx (tu_stream b) = None"
  using assms
  by (auto simp: finalize_stream_def Let_def bind_eq_Some_conv show_in_def split: option.splits dest!: saving_keeps)

lemma tool_call_then_end:
  assumes "st_rx (tu_stream a) = Some ([SDone], False)" and "st_pending (tu_stream a) = Some p" and "ex_plan (tu_extra a) = None"
    and "poll_stream_events A V a = Some r"
  shows "\<exists>b. r = (False, [], b) \<and> st_msg_idx (tu_stream b) = None \<and> st_pending (tu_stream b) = Some p
    \<and> st_tool_rx (tu_stream b) = st_tool_rx (tu_stream a)"
  using assms
  by (auto simp: poll_stream_events_def finalize_stream_def Let_def bind_eq_Some_conv split: option.splits dest!: saving_keeps)

text \<open>A tool whose task has died leaves the interface waiting: no event ever comes, and none is made up.\<close>

lemma dead_tool_waits:
  "st_tool_rx (tu_stream a) = Some ([], closed) \<Longrightarrow> \<exists>b. poll_tool_events A V a = Some (True, [], b) \<and> st_tool_rx (tu_stream b) = Some ([], closed)"
  by (simp add: poll_tool_events_def)

text \<open>The queue is worked off in order, and what is not submitted yet stays in it.\<close>

lemma queue_in_order:
  assumes "tu_queued a = t # ts" and "text_area_laws (tv_area V)"
  shows "\<exists>a1. process_queued_message A V C a = run_then (process_message A V C a1) (\<lambda>bs a2. (Returns (True, bs), a2))
    \<and> tu_queued a1 = ts \<and> input_text V a1 = t"
  using assms
  by (auto simp: process_queued_message_def Let_def input_text_simps intro!: exI [of _ "set_input V t (set_tui_status V LogInfo _ (a\<lparr>tu_queued := ts\<rparr>))"])
    (auto simp: set_input_def set_tui_status_def log_console_def Let_def)

section \<open>A sample run\<close>

definition sample_ai_env :: "(sample_world, unit, unit) ai_env" where
  "sample_ai_env = \<lparr>ai_json = \<lparr>jv_str = (\<lambda>k j. None), jv_object = (\<lambda>j. None), jv_as_str = (\<lambda>j. None), jv_show = (\<lambda>j. []), jv_null = ()\<rparr>,
     ai_command = (\<lambda>t. None), ai_facts = (\<lambda>t w. w), ai_hint = (\<lambda>t. None), ai_note = (\<lambda>t w. (0, w)), ai_turn = (\<lambda>w. w),
     ai_seal = None, ai_stats = (\<lambda>w. (0, 0)), ai_question_text = [], ai_read = (\<lambda>p w. Inl []), ai_text = (\<lambda>m. None),
     ai_smart = (\<lambda>m. False), ai_smart_tools = (\<lambda>ms. []), ai_fresh = (\<lambda>(n, r). (n, (n + 1, r))), ai_percent = (\<lambda>p. []),
     ai_error = (\<lambda>w. []), ai_decode = (\<lambda>t. None), ai_mdap = (\<lambda>k t ms ts w. (Inl [], w)), ai_active_tasks = (\<lambda>w. []),
     ai_detect = (\<lambda>t ts. []), ai_complete = (\<lambda>i s w. (True, w)), ai_persist = (\<lambda>i s w. w)\<rparr>"

definition connected_tui :: "(sample_world, rstr, rstr list, bool \<times> bool, unit, unit) tui_app" where
  "connected_tui = take_user_message sample_ai_env sample_tui_env (lit ''hi'') (sample_tui\<lparr>tu_connected := True\<rparr>)"

definition streaming_tui :: "(sample_world, rstr, rstr list, bool \<times> bool, unit, unit) tui_app" where
  "streaming_tui = sample_tui\<lparr>tu_mode := Waiting, tu_messages := [user_entry (lit ''hi'') 0, assistant_entry [] 0],
     tu_stream := no_stream\<lparr>st_rx := Some ([SText (lit ''h''), SText (lit ''o''), SDone], False), st_msg_idx := Some 1,
       st_user_content := Some (lit ''hi'')\<rparr>\<rparr>"



theorem ask_mode_first_request_read_only_witness:
  "\<exists>bs b rq. call_ai_provider_stream sample_ai_env sample_tui_env (sample_tui\<lparr>tu_prompt_mode := AskPrompt\<rparr>) = Some (bs, b)
    \<and> bs = [StreamAnswer rq] \<and> (\<forall>t\<in>set (rq_tools rq). td_name t \<notin> set ask_mode_excluded)"
proof -
  let ?a = "sample_tui\<lparr>tu_prompt_mode := AskPrompt\<rparr>"
  have "call_ai_provider_stream sample_ai_env sample_tui_env ?a \<noteq> None"
    by (simp add: call_ai_provider_stream_def Let_def tui_seal_preprocess_def sample_ai_env_def log_resolution_def split: prod.split)
  then obtain bs b where c: "call_ai_provider_stream sample_ai_env sample_tui_env ?a = Some (bs, b)" by auto
  then show ?thesis using ask_mode_first_request_read_only [OF c] by auto
qed

end
