(* ===== verification/TuiHandlers.thy ===== *)
theory TuiHandlers
  imports TuiMessages
begin

text \<open>
  The event handlers of the terminal's dialogs, pickers and viewers: \<^verbatim>\<open>dialogs.rs\<close>, \<^verbatim>\<open>pickers.rs\<close>, \<^verbatim>\<open>viewers.rs\<close>
  and parts of \<^verbatim>\<open>modals.rs\<close> under \<^verbatim>\<open>apps/cli/src/tui/app/events\<close>. A handler that slices or indexes yields \<open>None\<close> where that
  panics; one that reaches the provider ends like \<open>call_ai_provider\<close> does, with what it started in the background.
  The clipboard, regular expressions and the task manager are parameters.
\<close>

section \<open>Searching the prompts, choosing a session\<close>

definition open_exit_dialog :: "('w, 'i, 's, 'c, 'j, 'm) tui_env \<Rightarrow> ('w, 'i, 's, 'c, 'j, 'm) tui_app \<Rightarrow>
    ('w, 'i, 's, 'c, 'j, 'm) tui_app" where
  "open_exit_dialog V a =
     on_dialogs (\<lambda>d. d\<lparr>dg_exit := Some (ed_with_preserve_chat (tv_box V) (lv_last_preserve (tu_leave a)))\<rparr>)
       (a\<lparr>tu_mode := ExitDialog\<rparr>)"

definition on_search :: "(search_part \<Rightarrow> search_part) \<Rightarrow> ('w, 'i, 's, 'c, 'j, 'm) tui_app \<Rightarrow> ('w, 'i, 's, 'c, 'j, 'm) tui_app" where
  "on_search f a = a\<lparr>tu_search := f (tu_search a)\<rparr>"

definition leave_search :: "('w, 'i, 's, 'c, 'j, 'm) tui_app \<Rightarrow> ('w, 'i, 's, 'c, 'j, 'm) tui_app" where
  "leave_search a = on_search (\<lambda>s. s\<lparr>se_query := [], se_results := []\<rparr>) (a\<lparr>tu_mode := NormalView\<rparr>)"

definition search_event :: "('w, 'i, 's, 'c, 'j, 'm) tui_env \<Rightarrow> 'e event \<Rightarrow> ('w, 'i, 's, 'c, 'j, 'm) tui_app \<Rightarrow>
    ('w, 'i, 's, 'c, 'j, 'm) tui_app" where
  "search_event V e a =
     (if is_escape e then leave_search a
      else if is_enter e
      then leave_search (case current_search_result (tu_search a) of Some t \<Rightarrow> set_input V t a | None \<Rightarrow> a)
      else if is_up e
      then on_search (\<lambda>s. if se_results s \<noteq> [] \<and> se_index s < length (se_results s) - 1
                          then s\<lparr>se_index := se_index s + 1\<rparr> else s) a
      else if is_down e then on_search (\<lambda>s. if se_index s > 0 then s\<lparr>se_index := se_index s - 1\<rparr> else s) a
      else if is_backspace e then update_search_results V (on_search (\<lambda>s. s\<lparr>se_query := butlast (se_query s)\<rparr>) a)
      else
        case event_char e of
          Some c \<Rightarrow> update_search_results V (on_search (\<lambda>s. s\<lparr>se_query := se_query s @ [c]\<rparr>) a)
        | None \<Rightarrow> a)"

definition on_picker :: "(picker_part \<Rightarrow> picker_part) \<Rightarrow> ('w, 'i, 's, 'c, 'j, 'm) tui_app \<Rightarrow> ('w, 'i, 's, 'c, 'j, 'm) tui_app" where
  "on_picker f a = a\<lparr>tu_picker := f (tu_picker a)\<rparr>"

text \<open>The first line of the selected entry is a 16 bit number, after a header of two lines.\<close>

definition picked_line :: "nat \<Rightarrow> 16 word" where
  "picked_line i = of_nat (i * 2) + 2"

definition picker_up :: "picker_part \<Rightarrow> picker_part" where
  "picker_up p =
     (if pk_index p > 0
      then let i = pk_index p - 1 in
           p\<lparr>pk_index := i, pk_scroll := if picked_line i < pk_scroll p then picked_line i else pk_scroll p\<rparr>
      else p)"

definition picker_down :: "picker_part \<Rightarrow> picker_part" where
  "picker_down p =
     (if pk_index p < length (pk_sessions p) - 1
      then let i = pk_index p + 1; l = picked_line i in
           p\<lparr>pk_index := i,
             pk_scroll := if l + 1 \<ge> pk_scroll p + 20 then (if l < 17 then 0 else l - 17) else pk_scroll p\<rparr>
      else p)"

definition picker_event :: "('w, 'i, 's, 'c, 'j, 'm) tui_env \<Rightarrow> 'e event \<Rightarrow> ('w, 'i, 's, 'c, 'j, 'm) tui_app \<Rightarrow>
    unit ending \<times> ('w, 'i, 's, 'c, 'j, 'm) tui_app" where
  "picker_event V e a =
     (case e of
        Key KEsc ms \<Rightarrow> (Returns (), set_tui_status V LogInfo (lit ''Session picker cancelled'') (a\<lparr>tu_mode := NormalView\<rparr>))
      | Key KUp ms \<Rightarrow> (Returns (), on_picker picker_up a)
      | Key KDown ms \<Rightarrow> (Returns (), on_picker picker_down a)
      | Key KEnter ms \<Rightarrow>
          run_then (case vec_get (pk_sessions (tu_picker a)) (pk_index (tu_picker a)) of
                      Some i \<Rightarrow> load_session V i a
                    | None \<Rightarrow> (Returns (), a))
            (\<lambda>_ b. (Returns (), b\<lparr>tu_mode := NormalView\<rparr>))
      | _ \<Rightarrow> (Returns (), a))"

section \<open>Viewers\<close>

datatype clipboard_result = Copied | CopyError rstr | NoClipboard

definition copy_out :: "('w, 'i, 's, 'c, 'j, 'm) tui_env \<Rightarrow> (rstr \<Rightarrow> 'w \<Rightarrow> clipboard_result \<times> 'w) \<Rightarrow> rstr \<Rightarrow> rstr \<Rightarrow>
    ('w, 'i, 's, 'c, 'j, 'm) tui_app \<Rightarrow> ('w, 'i, 's, 'c, 'j, 'm) tui_app" where
  "copy_out V clip t done a =
     (case clip t (tu_world a) of
        (Copied, w) \<Rightarrow> show_toast V done 2000 (a\<lparr>tu_world := w\<rparr>)
      | (CopyError e, w) \<Rightarrow> show_toast V (lit ''Failed to copy: '' @ e) 3000 (a\<lparr>tu_world := w\<rparr>)
      | (NoClipboard, w) \<Rightarrow> show_toast V (lit ''Clipboard not available'') 3000 (a\<lparr>tu_world := w\<rparr>))"

definition copy_console :: "('w, 'i, 's, 'c, 'j, 'm) tui_env \<Rightarrow> (rstr \<Rightarrow> 'w \<Rightarrow> clipboard_result \<times> 'w) \<Rightarrow>
    ('w, 'i, 's, 'c, 'j, 'm) tui_app \<Rightarrow> ('w, 'i, 's, 'c, 'j, 'm) tui_app" where
  "copy_console V clip a =
     copy_out V clip (co_text (tv_console V) (tu_console a))
       (lit ''Copied '' @ show_nat (co_count (tv_console V) (tu_console a)) @ lit '' lines to clipboard'') a"

definition copy_conversation :: "('w, 'i, 's, 'c, 'j, 'm) tui_env \<Rightarrow> (rstr \<Rightarrow> rstr) \<Rightarrow> (rstr \<Rightarrow> 'w \<Rightarrow> clipboard_result \<times> 'w) \<Rightarrow>
    ('w, 'i, 's, 'c, 'j, 'm) tui_app \<Rightarrow> ('w, 'i, 's, 'c, 'j, 'm) tui_app" where
  "copy_conversation V upper clip a =
     copy_out V clip
       (join [10, 10] (map (\<lambda>m. lit ''['' @ upper (msg_role m) @ lit ''] '' @ msg_content m) (tu_messages a)))
       (lit ''Copied '' @ show_nat (length (tu_messages a)) @ lit '' messages to clipboard'') a"

definition toggle_mouse :: "('w, 'i, 's, 'c, 'j, 'm) tui_env \<Rightarrow> ('w, 'i, 's, 'c, 'j, 'm) tui_app \<Rightarrow> ('w, 'i, 's, 'c, 'j, 'm) tui_app" where
  "toggle_mouse V a =
     (let b = on_tui_view (\<lambda>v. v\<lparr>vw_mouse_disabled := \<not> vw_mouse_disabled v\<rparr>) a in
      if vw_mouse_disabled (tu_view b) then show_toast V (lit ''Mouse disabled - select text with terminal'') 2000 b
      else show_toast V (lit ''Mouse enabled'') 1500 b)"

definition on_console :: "('s \<Rightarrow> 's) \<Rightarrow> ('w, 'i, 's, 'c, 'j, 'm) tui_app \<Rightarrow> ('w, 'i, 's, 'c, 'j, 'm) tui_app" where
  "on_console f a = a\<lparr>tu_console := f (tu_console a)\<rparr>"

definition leave_viewer :: "('w, 'i, 's, 'c, 'j, 'm) tui_app \<Rightarrow> ('w, 'i, 's, 'c, 'j, 'm) tui_app" where
  "leave_viewer a = on_tui_view (\<lambda>v. v\<lparr>vw_mouse_disabled := False\<rparr>) (a\<lparr>tu_mode := NormalView\<rparr>)"

definition console_event :: "('w, 'i, 's, 'c, 'j, 'm) tui_env \<Rightarrow> (rstr \<Rightarrow> 'w \<Rightarrow> clipboard_result \<times> 'w) \<Rightarrow> 'e event \<Rightarrow>
    ('w, 'i, 's, 'c, 'j, 'm) tui_app \<Rightarrow> ('w, 'i, 's, 'c, 'j, 'm) tui_app" where
  "console_event V clip e a =
     (if mouse_scroll_up e \<noteq> None then on_console (co_scroll_up (tv_console V) 3) a
      else if mouse_scroll_down e \<noteq> None then on_console (co_scroll_down (tv_console V) 3 20) a
      else if is_escape e then leave_viewer a
      else if is_copy e then copy_console V clip a
      else if is_toggle_mouse e then toggle_mouse V a
      else if is_page_up e then on_console (co_scroll_up (tv_console V) 10) a
      else if is_page_down e then on_console (co_scroll_down (tv_console V) 10 20) a
      else a)"

definition u16_sub :: "16 word \<Rightarrow> 16 word \<Rightarrow> 16 word" where
  "u16_sub x n = (if x < n then 0 else x - n)"

definition u16_add :: "16 word \<Rightarrow> 16 word \<Rightarrow> 16 word" where
  "u16_add x n = (if unat x + unat n < 2 ^ 16 then x + n else - 1)"

definition scroll_shell :: "(16 word \<Rightarrow> 16 word) \<Rightarrow> ('w, 'i, 's, 'c, 'j, 'm) tui_app \<Rightarrow> ('w, 'i, 's, 'c, 'j, 'm) tui_app" where
  "scroll_shell f a = on_extra (\<lambda>x. x\<lparr>ex_shell_scroll := f (ex_shell_scroll x)\<rparr>) a"

definition shell_viewer_event :: "'e event \<Rightarrow> ('w, 'i, 's, 'c, 'j, 'm) tui_app \<Rightarrow> ('w, 'i, 's, 'c, 'j, 'm) tui_app" where
  "shell_viewer_event e a =
     (if mouse_scroll_up e \<noteq> None then scroll_shell (\<lambda>x. u16_sub x 3) a
      else if mouse_scroll_down e \<noteq> None then scroll_shell (\<lambda>x. u16_add x 3) a
      else if is_escape e then a\<lparr>tu_mode := NormalView\<rparr>
      else if is_up e then on_extra (\<lambda>x. x\<lparr>ex_shell_index := ex_shell_index x - 1, ex_shell_scroll := 0\<rparr>) a
      else if is_down e
      then on_extra (\<lambda>x. if ex_shells x > 0
             then x\<lparr>ex_shell_index := min (ex_shell_index x + 1) (ex_shells x - 1), ex_shell_scroll := 0\<rparr> else x) a
      else if is_page_up e then scroll_shell (\<lambda>x. u16_sub x 10) a
      else if is_page_down e then scroll_shell (\<lambda>x. u16_add x 10) a
      else a)"

definition toggle_view_style :: "('w, 'i, 's, 'c, 'j, 'm) tui_env \<Rightarrow> ('w, 'i, 's, 'c, 'j, 'm) tui_app \<Rightarrow>
    ('w, 'i, 's, 'c, 'j, 'm) tui_app" where
  "toggle_view_style V a =
     (if vw_style (tu_view a) = JournalStyle
      then show_toast V (lit ''View: Classic'') 1500 (on_tui_view (\<lambda>v. v\<lparr>vw_style := ClassicStyle\<rparr>) a)
      else show_toast V (lit ''View: Journal'') 1500 (on_tui_view (\<lambda>v. v\<lparr>vw_style := JournalStyle\<rparr>) a))"

section \<open>Find and replace\<close>

definition searched_text :: "('w, 'i, 's, 'c, 'j, 'm) tui_env \<Rightarrow> fr_context \<Rightarrow> ('w, 'i, 's, 'c, 'j, 'm) tui_app \<Rightarrow> rstr" where
  "searched_text V c a = (if c = InputView then input_text V a else join [10, 10] (map msg_content (tu_messages a)))"

definition set_find :: "fr_state option \<Rightarrow> ('w, 'i, 's, 'c, 'j, 'm) tui_app \<Rightarrow> ('w, 'i, 's, 'c, 'j, 'm) tui_app" where
  "set_find s a = on_dialogs (\<lambda>d. d\<lparr>dg_find := s\<rparr>) a"

definition refresh_find :: "('w, 'i, 's, 'c, 'j, 'm) tui_env \<Rightarrow> regex_engine \<Rightarrow> fr_state \<Rightarrow> ('w, 'i, 's, 'c, 'j, 'm) tui_app \<Rightarrow>
    ('w, 'i, 's, 'c, 'j, 'm) tui_app option" where
  "refresh_find V R s a =
     map_option (\<lambda>s'. set_find (Some s') a) (update_matches (tv_lower V) R (searched_text V (fr_context s) a) s)"

definition open_find :: "('w, 'i, 's, 'c, 'j, 'm) tui_env \<Rightarrow> regex_engine \<Rightarrow> fr_state \<Rightarrow> ('w, 'i, 's, 'c, 'j, 'm) tui_app \<Rightarrow>
    ('w, 'i, 's, 'c, 'j, 'm) tui_app option" where
  "open_find V R s a =
     map_option (\<lambda>b. b\<lparr>tu_mode := if fr_mode s = Replace then FindReplaceDialog else FindDialog\<rparr>) (refresh_find V R s a)"

text \<open>The line and column of a character position.\<close>

fun place_of :: "nat \<Rightarrow> nat \<Rightarrow> rstr list \<Rightarrow> (nat \<times> nat) option" where
  "place_of i r [] = None"
| "place_of i r (l # ls) = (if r \<le> length l then Some (i, r) else place_of (i + 1) (r - (length l + 1)) ls)"

definition find_next :: "('w, 'i, 's, 'c, 'j, 'm) tui_env \<Rightarrow> fr_state \<Rightarrow> ('w, 'i, 's, 'c, 'j, 'm) tui_app \<Rightarrow>
    ('w, 'i, 's, 'c, 'j, 'm) tui_app" where
  "find_next V s a =
     (let s' = fr_next_match s; b = set_find (Some s') a in
      case (fr_context s', current_match_position s') of
        (InputView, Some (p, _)) \<Rightarrow>
          (case place_of 0 (byte_to_char_index (input_text V b) p) (ti_lines (tv_area V) (tu_input_state b)) of
             Some (l, c) \<Rightarrow> b\<lparr>tu_input_state := ti_place (tv_area V) l c (tu_input_state b)\<rparr>
           | None \<Rightarrow> b)
      | _ \<Rightarrow> b)"

definition replace_message :: "replace_error \<Rightarrow> string \<Rightarrow> rstr" where
  "replace_message e none = (case e of OutOfBounds \<Rightarrow> lit ''Match position out of bounds'' | NoMatch \<Rightarrow> lit none)"

definition take_replacement :: "('w, 'i, 's, 'c, 'j, 'm) tui_env \<Rightarrow> string \<Rightarrow> (replace_error + 'n) \<times> fr_state \<times> rstr \<Rightarrow>
    ('w, 'i, 's, 'c, 'j, 'm) tui_app \<Rightarrow> ('w, 'i, 's, 'c, 'j, 'm) tui_app" where
  "take_replacement V none r a =
     (case r of
        (Inr n, s, t) \<Rightarrow> set_input V t (set_find (Some s) a)
      | (Inl x, s, t) \<Rightarrow> set_find (Some (s\<lparr>fr_status := Some (replace_message x none)\<rparr>)) a)"

definition do_replace :: "('w, 'i, 's, 'c, 'j, 'm) tui_env \<Rightarrow> regex_engine \<Rightarrow> fr_state \<Rightarrow> ('w, 'i, 's, 'c, 'j, 'm) tui_app \<Rightarrow>
    ('w, 'i, 's, 'c, 'j, 'm) tui_app option" where
  "do_replace V R s a =
     (if fr_mode s = Replace \<and> fr_context s = InputView
      then map_option (\<lambda>r. take_replacement V ''No match to replace'' r a) (replace_current (tv_lower V) R s (input_text V a))
      else Some (set_find (Some s) a))"

definition do_replace_all :: "('w, 'i, 's, 'c, 'j, 'm) tui_env \<Rightarrow> regex_engine \<Rightarrow> fr_state \<Rightarrow> ('w, 'i, 's, 'c, 'j, 'm) tui_app \<Rightarrow>
    ('w, 'i, 's, 'c, 'j, 'm) tui_app option" where
  "do_replace_all V R s a =
     (if fr_mode s = Replace \<and> fr_context s = InputView
      then map_option (\<lambda>r. take_replacement V ''No matches to replace'' r a) (replace_all (tv_lower V) R s (input_text V a))
      else Some (set_find (Some s) a))"

definition find_clicked :: "('w, 'i, 's, 'c, 'j, 'm) tui_env \<Rightarrow> regex_engine \<Rightarrow> dialog_focus \<Rightarrow> fr_state \<Rightarrow>
    ('w, 'i, 's, 'c, 'j, 'm) tui_app \<Rightarrow> ('w, 'i, 's, 'c, 'j, 'm) tui_app option" where
  "find_clicked V R f s a =
     (let s' = fr_set_focus f s in
      case f of
        CaseCheckbox \<Rightarrow> refresh_find V R (toggle_case_sensitive s') a
      | RegexCheckbox \<Rightarrow> refresh_find V R (toggle_regex s') a
      | NextButton \<Rightarrow> Some (find_next V s' a)
      | ReplaceButton \<Rightarrow> do_replace V R s' a
      | ReplaceAllButton \<Rightarrow> do_replace_all V R s' a
      | _ \<Rightarrow> Some (set_find (Some s') a))"

definition find_entered :: "('w, 'i, 's, 'c, 'j, 'm) tui_env \<Rightarrow> regex_engine \<Rightarrow> fr_state \<Rightarrow>
    ('w, 'i, 's, 'c, 'j, 'm) tui_app \<Rightarrow> ('w, 'i, 's, 'c, 'j, 'm) tui_app option" where
  "find_entered V R s a =
     (case fr_focus s of
        FindInput \<Rightarrow> Some (find_next V s a)
      | ReplaceInput \<Rightarrow> do_replace V R s a
      | CaseCheckbox \<Rightarrow> refresh_find V R (toggle_case_sensitive s) a
      | RegexCheckbox \<Rightarrow> refresh_find V R (toggle_regex s) a
      | NextButton \<Rightarrow> Some (find_next V s a)
      | ReplaceButton \<Rightarrow> do_replace V R s a
      | ReplaceAllButton \<Rightarrow> do_replace_all V R s a)"

text \<open>After an edit of the query the matches are looked for again; an edit of the replacement leaves them.\<close>

definition edited_find :: "('w, 'i, 's, 'c, 'j, 'm) tui_env \<Rightarrow> regex_engine \<Rightarrow> fr_state option \<Rightarrow>
    ('w, 'i, 's, 'c, 'j, 'm) tui_app \<Rightarrow> ('w, 'i, 's, 'c, 'j, 'm) tui_app option" where
  "edited_find V R os a =
     (case os of
        None \<Rightarrow> None
      | Some s \<Rightarrow> if fr_focus s = FindInput then refresh_find V R s a else Some (set_find (Some s) a))"

definition find_key :: "('w, 'i, 's, 'c, 'j, 'm) tui_env \<Rightarrow> regex_engine \<Rightarrow> key_code \<Rightarrow> modifier set \<Rightarrow> fr_state \<Rightarrow>
    ('w, 'i, 's, 'c, 'j, 'm) tui_app \<Rightarrow> ('w, 'i, 's, 'c, 'j, 'm) tui_app option" where
  "find_key V R k ms s a =
     (if \<not> is_input_focused s then Some a
      else
        (case k of
           KChar c \<Rightarrow> if Control \<notin> ms \<and> Alt \<notin> ms then edited_find V R (fr_insert_char c s) a else Some a
         | KBackspace \<Rightarrow> edited_find V R (delete_char_backward s) a
         | KLeft \<Rightarrow> Some (set_find (Some (move_cursor_left s)) a)
         | KRight \<Rightarrow> Some (set_find (Some (move_cursor_right s)) a)
         | _ \<Rightarrow> Some a))"

definition find_rest :: "('w, 'i, 's, 'c, 'j, 'm) tui_env \<Rightarrow> regex_engine \<Rightarrow> 'e event \<Rightarrow> fr_state \<Rightarrow>
    ('w, 'i, 's, 'c, 'j, 'm) tui_app \<Rightarrow> ('w, 'i, 's, 'c, 'j, 'm) tui_app option" where
  "find_rest V R e s a =
     (if is_escape e
      then Some ((set_find None a)\<lparr>tu_mode := if fr_context s = ConversationView then ConversationFullscreen else InputFullscreen\<rparr>)
      else if is_tab e then Some (set_find (Some (focus_next s)) a)
      else if is_shift_tab e then Some (set_find (Some (focus_prev s)) a)
      else if is_enter e then find_entered V R s a
      else
        (case e of
           Key k ms \<Rightarrow>
             if k = KChar 32 \<and> Control \<notin> ms \<and> fr_focus s = CaseCheckbox then refresh_find V R (toggle_case_sensitive s) a
             else if k = KChar 32 \<and> Control \<notin> ms \<and> fr_focus s = RegexCheckbox then refresh_find V R (toggle_regex s) a
             else find_key V R k ms s a
         | _ \<Rightarrow> Some a))"

definition find_replace_event :: "('w, 'i, 's, 'c, 'j, 'm) tui_env \<Rightarrow> regex_engine \<Rightarrow> 'e event \<Rightarrow>
    ('w, 'i, 's, 'c, 'j, 'm) tui_app \<Rightarrow> ('w, 'i, 's, 'c, 'j, 'm) tui_app option" where
  "find_replace_event V R e a =
     (case dg_find (tu_dialogs a) of
        None \<Rightarrow> Some (a\<lparr>tu_mode := NormalView\<rparr>)
      | Some s \<Rightarrow>
          (case e of
             Mouse LeftDown x y \<Rightarrow>
               (case fr_handle_click x y s of Some f \<Rightarrow> find_clicked V R f s a | None \<Rightarrow> Some a)
           | _ \<Rightarrow> find_rest V R e s a))"

section \<open>Help\<close>

definition set_help :: "help_dialog option \<Rightarrow> ('w, 'i, 's, 'c, 'j, 'm) tui_app \<Rightarrow> ('w, 'i, 's, 'c, 'j, 'm) tui_app" where
  "set_help h a = on_dialogs (\<lambda>d. d\<lparr>dg_help := h\<rparr>) a"

definition help_search_key :: "'e event \<Rightarrow> help_dialog \<Rightarrow> help_dialog option" where
  "help_search_key e h =
     (if is_backspace e then map_option snd (hd_delete_backward h)
      else
        case e of
          Key (KChar c) ms \<Rightarrow> hd_insert_char c h
        | Key KLeft ms \<Rightarrow> Some (hd_move_left h)
        | Key KRight ms \<Rightarrow> Some (hd_move_right h)
        | Key KHome ms \<Rightarrow> Some (hd_move_home h)
        | Key KEnd ms \<Rightarrow> Some (hd_move_end h)
        | Key KDelete ms \<Rightarrow> map_option snd (hd_delete_forward h)
        | Key KEnter ms \<Rightarrow> Some (h\<lparr>hd_focus := ContentArea\<rparr>)
        | _ \<Rightarrow> Some h)"

definition help_list_key :: "'e event \<Rightarrow> help_dialog \<Rightarrow> help_dialog" where
  "help_list_key e h =
     (if is_up e then hd_prev_category h
      else if is_down e then hd_next_category h
      else if is_enter e then h\<lparr>hd_focus := ContentArea\<rparr>
      else h)"

definition help_content_key :: "help_env \<Rightarrow> 'e event \<Rightarrow> help_dialog \<Rightarrow> help_dialog" where
  "help_content_key H e h =
     (if is_up e then hd_scroll_up 1 h
      else if is_down e then hd_scroll_down H 1 h
      else if is_page_up e then hd_scroll_up 10 h
      else if is_page_down e then hd_scroll_down H 10 h
      else h)"

definition help_key :: "help_env \<Rightarrow> 'e event \<Rightarrow> help_dialog \<Rightarrow> help_dialog option" where
  "help_key H e h =
     (if is_tab e then Some (hd_focus_next h)
      else if is_shift_tab e then Some (hd_focus_prev h)
      else
        (case hd_focus h of
           SearchInput \<Rightarrow> help_search_key e h
         | CategoryList \<Rightarrow> Some (help_list_key e h)
         | ContentArea \<Rightarrow> Some (help_content_key H e h)))"

definition help_event :: "('w, 'i, 's, 'c, 'j, 'm) tui_env \<Rightarrow> 'e event \<Rightarrow> ('w, 'i, 's, 'c, 'j, 'm) tui_app \<Rightarrow>
    ('w, 'i, 's, 'c, 'j, 'm) tui_app option" where
  "help_event V e a =
     (case dg_help (tu_dialogs a) of
        None \<Rightarrow> Some (a\<lparr>tu_mode := NormalView\<rparr>)
      | Some h \<Rightarrow>
          if mouse_scroll_up e \<noteq> None then Some (set_help (Some (hd_scroll_up 3 h)) a)
          else if mouse_scroll_down e \<noteq> None then Some (set_help (Some (hd_scroll_down (tv_help V) 3 h)) a)
          else
            (case e of
               Mouse LeftDown x y \<Rightarrow> Some (set_help (Some (snd (hd_handle_click x y h))) a)
             | _ \<Rightarrow>
                 if is_escape e \<or> is_help e
                 then Some (if hd_focus h = SearchInput \<and> hd_query h \<noteq> [] then set_help (Some (hd_clear_search h)) a
                            else (set_help None a)\<lparr>tu_mode := NormalView\<rparr>)
                 else map_option (\<lambda>h'. set_help (Some h') a) (help_key (tv_help V) e h)))"

section \<open>Suspending and leaving\<close>

definition set_suspend :: "'c suspend_dialog option \<Rightarrow> ('w, 'i, 's, 'c, 'j, 'm) tui_app \<Rightarrow> ('w, 'i, 's, 'c, 'j, 'm) tui_app" where
  "set_suspend s a = on_dialogs (\<lambda>d. d\<lparr>dg_suspend := s\<rparr>) a"

definition set_exit :: "'c exit_dialog option \<Rightarrow> ('w, 'i, 's, 'c, 'j, 'm) tui_app \<Rightarrow> ('w, 'i, 's, 'c, 'j, 'm) tui_app" where
  "set_exit s a = on_dialogs (\<lambda>d. d\<lparr>dg_exit := s\<rparr>) a"

definition execute_suspend :: "('w, 'i, 's, 'c, 'j, 'm) tui_env \<Rightarrow> 'c suspend_dialog \<Rightarrow> suspend_action \<Rightarrow>
    ('w, 'i, 's, 'c, 'j, 'm) tui_app \<Rightarrow> ('w, 'i, 's, 'c, 'j, 'm) tui_app" where
  "execute_suspend V s x a =
     (case x of
        SuspendBackground \<Rightarrow>
          on_leave (\<lambda>l. l\<lparr>lv_background := True, lv_exit_when_done := cb_checked (tv_box V) (sd_exit_when_done s)\<rparr>) (set_suspend None a)
      | Suspend \<Rightarrow> on_leave (\<lambda>l. l\<lparr>lv_suspend := True\<rparr>) (set_suspend None a))"

definition suspend_chosen :: "('w, 'i, 's, 'c, 'j, 'm) tui_env \<Rightarrow> 'c suspend_dialog \<Rightarrow> ('w, 'i, 's, 'c, 'j, 'm) tui_app \<Rightarrow>
    ('w, 'i, 's, 'c, 'j, 'm) tui_app" where
  "suspend_chosen V s a = (case sd_selected_action s of Some x \<Rightarrow> execute_suspend V s x a | None \<Rightarrow> set_suspend (Some s) a)"

definition suspend_key :: "('w, 'i, 's, 'c, 'j, 'm) tui_env \<Rightarrow> 'e event \<Rightarrow> 'c suspend_dialog \<Rightarrow>
    ('w, 'i, 's, 'c, 'j, 'm) tui_app \<Rightarrow> ('w, 'i, 's, 'c, 'j, 'm) tui_app" where
  "suspend_key V e s a =
     (case e of
        Key KLeft ms \<Rightarrow> set_suspend (Some (sd_focus_prev (tv_box V) s)) a
      | Key KRight ms \<Rightarrow> set_suspend (Some (sd_focus_next (tv_box V) s)) a
      | Key (KChar c) ms \<Rightarrow>
          if c = 98 \<or> c = 66 then execute_suspend V s SuspendBackground a
          else if c = 115 \<or> c = 83 then execute_suspend V s Suspend a
          else if c = 32 \<and> sd_focus s = SuspendExitWhenDoneCheckbox
          then set_suspend (Some (sd_toggle_exit_when_done (tv_box V) s)) a
          else a
      | _ \<Rightarrow> if is_enter e then suspend_chosen V s a else a)"

definition suspend_event :: "('w, 'i, 's, 'c, 'j, 'm) tui_env \<Rightarrow> 'e event \<Rightarrow> ('w, 'i, 's, 'c, 'j, 'm) tui_app \<Rightarrow>
    ('w, 'i, 's, 'c, 'j, 'm) tui_app" where
  "suspend_event V e a =
     (if is_quit e then open_exit_dialog V (set_suspend None a)
      else
        case dg_suspend (tu_dialogs a) of
          None \<Rightarrow> a\<lparr>tu_mode := NormalView\<rparr>
        | Some s \<Rightarrow>
            (case e of
               Mouse LeftDown x y \<Rightarrow>
                 (case sd_handle_click x y s of
                    Some f \<Rightarrow>
                      let s' = sd_set_focus (tv_box V) f s in
                      if f = SuspendExitWhenDoneCheckbox then set_suspend (Some (sd_toggle_exit_when_done (tv_box V) s')) a
                      else suspend_chosen V s' a
                  | None \<Rightarrow> a)
             | _ \<Rightarrow>
                 if is_escape e then (set_suspend None a)\<lparr>tu_mode := NormalView\<rparr>
                 else if is_tab e then set_suspend (Some (sd_focus_next (tv_box V) s)) a
                 else if is_shift_tab e then set_suspend (Some (sd_focus_prev (tv_box V) s)) a
                 else suspend_key V e s a))"

definition execute_exit :: "('w, 'i, 's, 'c, 'j, 'm) tui_env \<Rightarrow> 'c exit_dialog \<Rightarrow> exit_action \<Rightarrow>
    ('w, 'i, 's, 'c, 'j, 'm) tui_app \<Rightarrow> ('w, 'i, 's, 'c, 'j, 'm) tui_app" where
  "execute_exit V s x a =
     (let keep = cb_checked (tv_box V) (ed_preserve_chat s);
          b = on_leave (\<lambda>l. l\<lparr>lv_last_preserve := keep, lv_preserve_on_exit := keep\<rparr>) (set_exit None a)
      in case x of
           Exit \<Rightarrow> b\<lparr>tu_should_quit := True, tu_mode := NormalView\<rparr>
         | ExitBackground \<Rightarrow>
             on_leave (\<lambda>l. l\<lparr>lv_background := True, lv_exit_when_done := cb_checked (tv_box V) (ed_exit_when_done s)\<rparr>) b)"

definition exit_chosen :: "('w, 'i, 's, 'c, 'j, 'm) tui_env \<Rightarrow> 'c exit_dialog \<Rightarrow> ('w, 'i, 's, 'c, 'j, 'm) tui_app \<Rightarrow>
    ('w, 'i, 's, 'c, 'j, 'm) tui_app" where
  "exit_chosen V s a = (case ed_selected_action s of Some x \<Rightarrow> execute_exit V s x a | None \<Rightarrow> set_exit (Some s) a)"

definition exit_toggled :: "('w, 'i, 's, 'c, 'j, 'm) tui_env \<Rightarrow> exit_focus \<Rightarrow> 'c exit_dialog \<Rightarrow> 'c exit_dialog option" where
  "exit_toggled V f s =
     (case f of
        PreserveChatCheckbox \<Rightarrow> Some (ed_toggle_preserve_chat (tv_box V) s)
      | ExitExitWhenDoneCheckbox \<Rightarrow> Some (ed_toggle_exit_when_done (tv_box V) s)
      | _ \<Rightarrow> None)"

definition exit_key :: "('w, 'i, 's, 'c, 'j, 'm) tui_env \<Rightarrow> 'e event \<Rightarrow> 'c exit_dialog \<Rightarrow>
    ('w, 'i, 's, 'c, 'j, 'm) tui_app \<Rightarrow> ('w, 'i, 's, 'c, 'j, 'm) tui_app" where
  "exit_key V e s a =
     (case e of
        Key KLeft ms \<Rightarrow> set_exit (Some (ed_focus_prev (tv_box V) s)) a
      | Key KRight ms \<Rightarrow> set_exit (Some (ed_focus_next (tv_box V) s)) a
      | Key (KChar c) ms \<Rightarrow>
          if c = 101 \<or> c = 69 then execute_exit V s Exit a
          else if c = 98 \<or> c = 66 then execute_exit V s ExitBackground a
          else if c = 32 then (case exit_toggled V (ed_focus s) s of Some s' \<Rightarrow> set_exit (Some s') a | None \<Rightarrow> a)
          else a
      | _ \<Rightarrow> if is_enter e then exit_chosen V s a else a)"

definition exit_event :: "('w, 'i, 's, 'c, 'j, 'm) tui_env \<Rightarrow> 'e event \<Rightarrow> ('w, 'i, 's, 'c, 'j, 'm) tui_app \<Rightarrow>
    ('w, 'i, 's, 'c, 'j, 'm) tui_app" where
  "exit_event V e a =
     (if is_suspend e
      then
        let keep = (case dg_exit (tu_dialogs a) of Some s \<Rightarrow> cb_checked (tv_box V) (ed_preserve_chat s) | None \<Rightarrow> True) in
        (set_suspend (Some (sd_new (tv_box V))) (set_exit None (on_leave (\<lambda>l. l\<lparr>lv_last_preserve := keep\<rparr>) a)))
          \<lparr>tu_mode := SuspendDialog\<rparr>
      else
        case dg_exit (tu_dialogs a) of
          None \<Rightarrow> a\<lparr>tu_mode := NormalView\<rparr>
        | Some s \<Rightarrow>
            (case e of
               Mouse LeftDown x y \<Rightarrow>
                 (case ed_handle_click x y s of
                    Some f \<Rightarrow>
                      let s' = ed_set_focus (tv_box V) f s in
                      (case exit_toggled V f s' of Some s2 \<Rightarrow> set_exit (Some s2) a | None \<Rightarrow> exit_chosen V s' a)
                  | None \<Rightarrow> a)
             | _ \<Rightarrow>
                 if is_escape e then (set_exit None a)\<lparr>tu_mode := NormalView\<rparr>
                 else if is_tab e then set_exit (Some (ed_focus_next (tv_box V) s)) a
                 else if is_shift_tab e then set_exit (Some (ed_focus_prev (tv_box V) s)) a
                 else exit_key V e s a))"

section \<open>Passwords and approvals\<close>

definition set_sudo :: "sudo_dialog option \<Rightarrow> ('w, 'i, 's, 'c, 'j, 'm) tui_app \<Rightarrow> ('w, 'i, 's, 'c, 'j, 'm) tui_app" where
  "set_sudo s a = on_dialogs (\<lambda>d. d\<lparr>dg_sudo := s\<rparr>) a"

definition close_sudo :: "('w, 'i, 's, 'c, 'j, 'm) tui_env \<Rightarrow> string \<Rightarrow> sudo_dialog \<Rightarrow> ('w, 'i, 's, 'c, 'j, 'm) tui_app \<Rightarrow>
    ('w, 'i, 's, 'c, 'j, 'm) tui_app" where
  "close_sudo V how s a =
     log_console V ([128274] @ lit '' Sudo password '' @ lit how)
       ((on_dialogs (\<lambda>d. d\<lparr>dg_sudo := None, dg_passwords := dg_passwords d @ pw_answered s\<rparr>) a)\<lparr>tu_mode := NormalView\<rparr>)"

definition sudo_event :: "('w, 'i, 's, 'c, 'j, 'm) tui_env \<Rightarrow> 'e event \<Rightarrow> ('w, 'i, 's, 'c, 'j, 'm) tui_app \<Rightarrow>
    ('w, 'i, 's, 'c, 'j, 'm) tui_app option" where
  "sudo_event V e a =
     (case dg_sudo (tu_dialogs a) of
        None \<Rightarrow> Some (a\<lparr>tu_mode := NormalView\<rparr>)
      | Some s \<Rightarrow>
          if is_escape e then Some (close_sudo V ''prompt cancelled'' (snd (pw_cancel s)) a)
          else
            (case e of
               Key KEnter ms \<Rightarrow> Some (if pw_len s > 0 then close_sudo V ''submitted'' (snd (pw_submit s)) a else a)
             | Key (KChar c) ms \<Rightarrow> map_option (\<lambda>s'. set_sudo (Some s') a) (pw_insert_char c s)
             | Key KBackspace ms \<Rightarrow> map_option (\<lambda>s'. set_sudo (Some s') a) (pw_delete_char s)
             | _ \<Rightarrow> Some a))"

definition close_approval :: "('w, 'i, 's, 'c, 'j, 'm) tui_env \<Rightarrow> approval_response \<Rightarrow> (rstr \<Rightarrow> rstr) \<Rightarrow> 'j approval_dialog \<Rightarrow>
    ('w, 'i, 's, 'c, 'j, 'm) tui_app \<Rightarrow> ('w, 'i, 's, 'c, 'j, 'm) tui_app" where
  "close_approval V r msg d a =
     (let name = (case current_request d of Some p \<Rightarrow> ar_tool_name p | None \<Rightarrow> []) in
      case respond r d of
        (had, sent, d') \<Rightarrow>
          log_console V (msg name)
            ((on_dialogs (\<lambda>x. x\<lparr>dg_approval := None, dg_approved := dg_approved x @ sent\<rparr>) a)\<lparr>tu_mode := NormalView\<rparr>))"

definition approval_line :: "nat \<Rightarrow> string \<Rightarrow> rstr \<Rightarrow> rstr" where
  "approval_line icon what name = [icon] @ lit '' Tool '' @ [39] @ name @ [39] @ lit '' '' @ lit what"

definition approval_event :: "('w, 'i, 's, 'c, 'j, 'm) tui_env \<Rightarrow> 'e event \<Rightarrow> ('w, 'i, 's, 'c, 'j, 'm) tui_app \<Rightarrow>
    ('w, 'i, 's, 'c, 'j, 'm) tui_app" where
  "approval_event V e a =
     (case dg_approval (tu_dialogs a) of
        None \<Rightarrow> a\<lparr>tu_mode := NormalView\<rparr>
      | Some d \<Rightarrow>
          if is_escape e then close_approval V DenyOnce (\<lambda>n. [10060] @ lit '' Tool approval denied'') d a
          else
            (case e of
               Key (KChar c) ms \<Rightarrow>
                 if c = 121 \<or> c = 89 then close_approval V Approve (approval_line 9989 ''approved'') d a
                 else if c = 110 \<or> c = 78 then close_approval V DenyOnce (approval_line 10060 ''denied'') d a
                 else if c = 97 \<or> c = 65 then close_approval V ApproveForSession (approval_line 9989 ''approved for session'') d a
                 else if c = 100 \<or> c = 68 then close_approval V DenyForSession (approval_line 10060 ''denied for session'') d a
                 else a
             | _ \<Rightarrow> a))"

section \<open>The task viewer\<close>

record 'w task_env =
  te_status :: "rstr \<Rightarrow> 'w \<Rightarrow> listed_status option"
  te_start :: "rstr \<Rightarrow> 'w \<Rightarrow> 'w"
  te_complete :: "rstr \<Rightarrow> rstr \<Rightarrow> 'w \<Rightarrow> 'w"

definition on_tasks :: "(task_part \<Rightarrow> task_part) \<Rightarrow> ('w, 'i, 's, 'c, 'j, 'm) tui_app \<Rightarrow> ('w, 'i, 's, 'c, 'j, 'm) tui_app" where
  "on_tasks f a = a\<lparr>tu_tasks := f (tu_tasks a)\<rparr>"

definition refresh_task_tree :: "('w, 'i, 's, 'c, 'j, 'm) tui_env \<Rightarrow> ('w, 'i, 's, 'c, 'j, 'm) tui_app \<Rightarrow>
    ('w, 'i, 's, 'c, 'j, 'm) tui_app" where
  "refresh_task_tree V a =
     (case tv_task_tree V (tu_world a) of (t, n) \<Rightarrow> on_tasks (\<lambda>p. p\<lparr>tk_tree := t, tk_count := n\<rparr>) a)"

definition task_up :: "task_part \<Rightarrow> task_part" where
  "task_up p =
     (let i = tk_index p - 1 in
      p\<lparr>tk_index := i, tk_scroll := if of_nat i < tk_scroll p then of_nat i else tk_scroll p\<rparr>)"

definition task_down :: "task_part \<Rightarrow> task_part" where
  "task_down p =
     (let n = (if tk_visible p = [] then length (str_lines (tk_tree p)) else length (tk_visible p)) in
      if tk_index p < n - 1 then p\<lparr>tk_index := tk_index p + 1\<rparr> else p)"

definition task_fold :: "task_part \<Rightarrow> task_part" where
  "task_fold p =
     (case vec_get (tk_visible p) (tk_index p) of
        Some (i, _) \<Rightarrow> p\<lparr>tk_collapsed := if i \<in> tk_collapsed p then tk_collapsed p - {i} else insert i (tk_collapsed p)\<rparr>
      | None \<Rightarrow> p)"

text \<open>A task goes on to its next status; what should go back to pending stays as it is.\<close>

definition task_toggle :: "('w, 'i, 's, 'c, 'j, 'm) tui_env \<Rightarrow> 'w task_env \<Rightarrow> ('w, 'i, 's, 'c, 'j, 'm) tui_app \<Rightarrow>
    ('w, 'i, 's, 'c, 'j, 'm) tui_app" where
  "task_toggle V T a =
     (case vec_get (tk_visible (tu_tasks a)) (tk_index (tu_tasks a)) of
        None \<Rightarrow> a
      | Some (i, _) \<Rightarrow>
          refresh_task_tree V
            (case te_status T i (tu_world a) of
               Some TaskPending \<Rightarrow> a\<lparr>tu_world := te_start T i (tu_world a)\<rparr>
             | Some TaskInProgress \<Rightarrow> a\<lparr>tu_world := te_complete T i (lit ''Manually completed'') (tu_world a)\<rparr>
             | _ \<Rightarrow> a))"

definition task_viewer_event :: "('w, 'i, 's, 'c, 'j, 'm) tui_env \<Rightarrow> 'w task_env \<Rightarrow> 'e event \<Rightarrow> ('w, 'i, 's, 'c, 'j, 'm) tui_app \<Rightarrow>
    ('w, 'i, 's, 'c, 'j, 'm) tui_app" where
  "task_viewer_event V T e a =
     (if is_escape e then a\<lparr>tu_mode := NormalView\<rparr>
      else
        case e of
          Key KUp ms \<Rightarrow> on_tasks task_up a
        | Key KDown ms \<Rightarrow> on_tasks task_down a
        | Key KEnter ms \<Rightarrow> on_tasks task_fold a
        | Key KLeft ms \<Rightarrow> on_tasks task_fold a
        | Key KRight ms \<Rightarrow> on_tasks task_fold a
        | Key (KChar c) ms \<Rightarrow> if c = 32 then task_toggle V T a else a
        | Key KPageUp ms \<Rightarrow> on_tasks (\<lambda>p. p\<lparr>tk_scroll := u16_sub (tk_scroll p) 10\<rparr>) a
        | Key KPageDown ms \<Rightarrow> on_tasks (\<lambda>p. p\<lparr>tk_scroll := u16_add (tk_scroll p) 10\<rparr>) a
        | _ \<Rightarrow> a)"

section \<open>Clarifying questions\<close>

definition no_answers :: answer_state where
  "no_answers = \<lparr>current_question_idx = 0, selected_options = [], other_selected = [], other_text = [], cursor_idx = 0,
     editing_other = False\<rparr>"

text \<open>What the user says to the questions is a message of the user, and the conversation goes on.\<close>

definition reply_to_questions :: "('w, 'j, 'm) ai_env \<Rightarrow> ('w, 'i, 's, 'c, 'j, 'm) tui_env \<Rightarrow> rstr \<Rightarrow>
    ('w, 'i, 's, 'c, 'j, 'm) tui_app \<Rightarrow> 'j background list ending \<times> ('w, 'i, 's, 'c, 'j, 'm) tui_app" where
  "reply_to_questions A V t a =
     call_ai_provider A V
       (on_dialogs (\<lambda>d. d\<lparr>dg_questions := None, dg_answers := no_answers\<rparr>)
         (a\<lparr>tu_messages := tu_messages a @ [user_entry t (tv_now V (tu_world a))],
            tu_history := tu_history a @ [\<lparr>m_role = UserRole, m_content = TextContent t\<rparr>], tu_mode := NormalView\<rparr>))"

definition on_answers :: "(answer_state \<Rightarrow> answer_state) \<Rightarrow> ('w, 'i, 's, 'c, 'j, 'm) tui_app \<Rightarrow> ('w, 'i, 's, 'c, 'j, 'm) tui_app" where
  "on_answers f a = on_dialogs (\<lambda>d. d\<lparr>dg_answers := f (dg_answers d)\<rparr>) a"

definition questions_tab :: "question_block \<Rightarrow> answer_state \<Rightarrow> answer_state" where
  "questions_tab b s =
     (if editing_other s then snd (next_question b (s\<lparr>editing_other := False\<rparr>))
      else if is_cursor_on_other b s then toggle_current b (s\<lparr>editing_other := True\<rparr>)
      else snd (next_question b s))"

text \<open>Keys are as in the dialog of a tool's question, but Tab does not end the typing of another answer here.\<close>

definition questions_key :: "question_block \<Rightarrow> key_code \<Rightarrow> answer_state \<Rightarrow> answer_state" where
  "questions_key b k s = (if editing_other s \<and> k = KTab then s else question_key b k s)"

definition questions_event :: "('w, 'j, 'm) ai_env \<Rightarrow> ('w, 'i, 's, 'c, 'j, 'm) tui_env \<Rightarrow> 'e event \<Rightarrow>
    ('w, 'i, 's, 'c, 'j, 'm) tui_app \<Rightarrow> 'j background list ending \<times> ('w, 'i, 's, 'c, 'j, 'm) tui_app" where
  "questions_event A V e a =
     (case dg_questions (tu_dialogs a) of
        None \<Rightarrow> (Returns [], a\<lparr>tu_mode := NormalView\<rparr>)
      | Some b \<Rightarrow>
          let s = dg_answers (tu_dialogs a) in
          if is_escape e then reply_to_questions A V format_declined_message a
          else if is_enter e
          then
            if is_last_question b s
            then (case format_answers_natural b s of
                    Some t \<Rightarrow> reply_to_questions A V t a
                  | None \<Rightarrow> (Panics, a))
            else (Returns [], on_answers (\<lambda>s. snd (next_question b (toggle_current b s))) a)
          else if is_tab e then (Returns [], on_answers (questions_tab b) a)
          else if is_shift_tab e then (Returns [], on_answers (\<lambda>s. snd (prev_question (s\<lparr>editing_other := False\<rparr>))) a)
          else (case e of Key k ms \<Rightarrow> (Returns [], on_answers (questions_key b k) a) | _ \<Rightarrow> (Returns [], a)))"

end
