(* ===== verification/TuiEditors.thy ===== *)
theory TuiEditors
  imports TuiHandlers FileExplorer NanoEditor
begin

text \<open>
  The event handlers of the file explorer and of the built-in editor (\<^verbatim>\<open>pickers.rs\<close> and \<^verbatim>\<open>modals.rs\<close> under
  \<^verbatim>\<open>apps/cli/src/tui/app/events\<close>), over the pair of the panels and the interface. The file system is a function of the world;
  a selection is a set of paths, given to the working set in the order the parameter lists it.
\<close>

record editors =
  pn_explorer :: "explorer option"
  pn_nano :: "(path \<times> nano) option"

record 'w file_env =
  fv_fs :: "'w \<Rightarrow> fsys"
  fv_cwd :: "'w \<Rightarrow> path"
  fv_list :: "path set \<Rightarrow> path list"
  fv_len :: "path \<Rightarrow> 'w \<Rightarrow> nat option"
  fv_read :: "path \<Rightarrow> 'w \<Rightarrow> rstr option"
  fv_write :: "path \<Rightarrow> rstr \<Rightarrow> 'w \<Rightarrow> bool \<times> 'w"
  fv_megabytes :: "nat \<Rightarrow> rstr"
  fv_error :: "ne_error \<Rightarrow> rstr"
  fv_shuffle :: "ws_entries \<Rightarrow> ws_entries"

type_synonym ('w, 'i, 's, 'c, 'j, 'm) editing = "editors \<times> ('w, 'i, 's, 'c, 'j, 'm) tui_app"

section \<open>The file explorer\<close>

definition open_editor :: "('w, 'i, 's, 'c, 'j, 'm) tui_env \<Rightarrow> 'w file_env \<Rightarrow> path \<Rightarrow> ('w, 'i, 's, 'c, 'j, 'm) editing \<Rightarrow>
    ('w, 'i, 's, 'c, 'j, 'm) editing" where
  "open_editor V F p = (\<lambda>(x, a).
     case ne_open (fv_megabytes F) (fv_len F p (tu_world a)) (fv_read F p (tu_world a)) of
       Inr n \<Rightarrow> (x\<lparr>pn_nano := Some (p, n)\<rparr>, a\<lparr>tu_mode := NanoView\<rparr>)
     | Inl e \<Rightarrow> (x, show_toast V (lit ''Failed to open: '' @ fv_error F e) 3000 a))"

definition explorer_search_key :: "(rstr \<Rightarrow> rstr) \<Rightarrow> 'e event \<Rightarrow> explorer \<Rightarrow> explorer" where
  "explorer_search_key lower e s =
     (if is_escape e \<or> is_enter e then exit_search s
      else if is_backspace e then update_search lower (butlast (search_query s)) s
      else case event_char e of Some c \<Rightarrow> update_search lower (search_query s @ [c]) s | None \<Rightarrow> s)"

definition on_explorer :: "explorer \<Rightarrow> ('w, 'i, 's, 'c, 'j, 'm) editing \<Rightarrow> ('w, 'i, 's, 'c, 'j, 'm) editing" where
  "on_explorer s = (\<lambda>(x, a). (x\<lparr>pn_explorer := Some s\<rparr>, a))"

definition explorer_enter :: "('w, 'i, 's, 'c, 'j, 'm) tui_env \<Rightarrow> 'w file_env \<Rightarrow> explorer \<Rightarrow> ('w, 'i, 's, 'c, 'j, 'm) editing \<Rightarrow>
    ('w, 'i, 's, 'c, 'j, 'm) editing" where
  "explorer_enter V F s xa =
     (let fs = fv_fs F (tu_world (snd xa)); go = (\<lambda>p. on_explorer (snd (enter_directory (tv_lower V) fs p s)) xa) in
      case current_entry s of
        None \<Rightarrow> xa
      | Some n \<Rightarrow>
          (case fe_type n of
             Directory \<Rightarrow> go (fe_path n)
           | ParentDir \<Rightarrow> go (fe_path n)
           | File k ext \<Rightarrow> open_editor V F (fe_path n) xa
           | Symlink t \<Rightarrow> if fs_is_dir fs t then go t else open_editor V F t xa))"

text \<open>The files that can be read are added to the working set with a guess of their tokens.\<close>

fun add_files :: "'w file_env \<Rightarrow> 'w \<Rightarrow> path list \<Rightarrow> working_set \<Rightarrow> nat \<times> working_set" where
  "add_files F w [] ws = (0, ws)"
| "add_files F w (p # ps) ws =
     (case fv_read F p w of
        None \<Rightarrow> add_files F w ps ws
      | Some t \<Rightarrow>
          (case add_files F w ps (snd (ws_add (fv_shuffle F) (show_path p) (blen t div 4) ws)) of (n, ws') \<Rightarrow> (n + 1, ws')))"

definition add_selection :: "('w, 'i, 's, 'c, 'j, 'm) tui_env \<Rightarrow> 'w file_env \<Rightarrow> explorer \<Rightarrow> ('w, 'i, 's, 'c, 'j, 'm) editing \<Rightarrow>
    ('w, 'i, 's, 'c, 'j, 'm) editing" where
  "add_selection V F s = (\<lambda>(x, a).
     case add_files F (tu_world a) (fv_list F (selected_files s)) (tu_working_set a) of
       (n, ws) \<Rightarrow>
         if n > 0
         then (x\<lparr>pn_explorer := Some (clear_selection s)\<rparr>,
               show_toast V (lit ''Added '' @ show_nat n @ lit '' file(s) to context'') 2000 (a\<lparr>tu_working_set := ws\<rparr>))
         else (x, show_toast V (lit ''No files selected (use Space to select)'') 2000 (a\<lparr>tu_working_set := ws\<rparr>)))"

definition explorer_char :: "('w, 'i, 's, 'c, 'j, 'm) tui_env \<Rightarrow> 'w file_env \<Rightarrow> rchar \<Rightarrow> explorer \<Rightarrow>
    ('w, 'i, 's, 'c, 'j, 'm) editing \<Rightarrow> ('w, 'i, 's, 'c, 'j, 'm) editing" where
  "explorer_char V F c s xa =
     (let fs = fv_fs F (tu_world (snd xa)) in
      if c = 32 then on_explorer (toggle_selection s) xa
      else if c = 47 then on_explorer (start_search s) xa
      else if c = 101
      then (case current_entry s of
              Some n \<Rightarrow> if is_file n then open_editor V F (fe_path n) xa else xa
            | None \<Rightarrow> xa)
      else if c = 97 then on_explorer (select_all_files s) xa
      else if c = 110 then on_explorer (clear_selection s) xa
      else if c = 46 then on_explorer (toggle_hidden (tv_lower V) fs s) xa
      else if c = 114 then on_explorer (snd (fe_refresh (tv_lower V) fs s)) xa
      else if c = 105 then add_selection V F s xa
      else xa)"

definition explorer_key :: "('w, 'i, 's, 'c, 'j, 'm) tui_env \<Rightarrow> 'w file_env \<Rightarrow> key_code \<Rightarrow> explorer \<Rightarrow>
    ('w, 'i, 's, 'c, 'j, 'm) editing \<Rightarrow> ('w, 'i, 's, 'c, 'j, 'm) editing" where
  "explorer_key V F k s xa =
     (let fs = fv_fs F (tu_world (snd xa)) in
      case k of
        KUp \<Rightarrow> on_explorer (fe_cursor_up s) xa
      | KDown \<Rightarrow> on_explorer (fe_cursor_down s) xa
      | KPageUp \<Rightarrow> on_explorer (fe_page_up 20 s) xa
      | KPageDown \<Rightarrow> on_explorer (fe_page_down 20 s) xa
      | KLeft \<Rightarrow> on_explorer (snd (go_up (tv_lower V) fs s)) xa
      | KBackspace \<Rightarrow> on_explorer (snd (go_up (tv_lower V) fs s)) xa
      | KRight \<Rightarrow>
          (case current_entry s of
             Some n \<Rightarrow>
               if fe_type n = Directory \<or> fe_type n = ParentDir
               then on_explorer (snd (enter_directory (tv_lower V) fs (fe_path n) s)) xa else xa
           | None \<Rightarrow> xa)
      | KChar c \<Rightarrow> explorer_char V F c s xa
      | _ \<Rightarrow> xa)"

definition explorer_event :: "('w, 'i, 's, 'c, 'j, 'm) tui_env \<Rightarrow> 'w file_env \<Rightarrow> 'e event \<Rightarrow> ('w, 'i, 's, 'c, 'j, 'm) editing \<Rightarrow>
    ('w, 'i, 's, 'c, 'j, 'm) editing" where
  "explorer_event V F e xa =
     (case pn_explorer (fst xa) of
        None \<Rightarrow> xa
      | Some s \<Rightarrow>
          if explorer.mode s = explorer_mode.Search then on_explorer (explorer_search_key (tv_lower V) e s) xa
          else if is_escape e then ((fst xa)\<lparr>pn_explorer := None\<rparr>, (snd xa)\<lparr>tu_mode := ConversationFullscreen\<rparr>)
          else if is_enter e then explorer_enter V F s xa
          else (case e of Key k ms \<Rightarrow> explorer_key V F k s xa | _ \<Rightarrow> xa))"

section \<open>The editor\<close>

definition leave_nano :: "('w, 'i, 's, 'c, 'j, 'm) editing \<Rightarrow> ('w, 'i, 's, 'c, 'j, 'm) editing" where
  "leave_nano = (\<lambda>(x, a). (x\<lparr>pn_nano := None\<rparr>, a\<lparr>tu_mode := ExplorerView\<rparr>))"

definition save_nano :: "('w, 'i, 's, 'c, 'j, 'm) tui_env \<Rightarrow> 'w file_env \<Rightarrow> path \<Rightarrow> nano \<Rightarrow> ('w, 'i, 's, 'c, 'j, 'm) editing \<Rightarrow>
    ('w, 'i, 's, 'c, 'j, 'm) editing" where
  "save_nano V F p n = (\<lambda>(x, a).
     if ne_read_only n then (x, show_toast V (lit ''Error saving: '' @ fv_error F FileIsReadOnly) 3000 a)
     else
       case fv_write F p (join [10] (ne_lines n)) (tu_world a) of
         (ok, w) \<Rightarrow>
           (case ne_save ok n of
              (Inr t, n') \<Rightarrow> (x\<lparr>pn_nano := Some (p, n')\<rparr>, show_toast V (lit ''File saved'') 2000 (a\<lparr>tu_world := w\<rparr>))
            | (Inl r, n') \<Rightarrow>
                (x\<lparr>pn_nano := Some (p, n')\<rparr>, show_toast V (lit ''Error saving: '' @ fv_error F r) 3000 (a\<lparr>tu_world := w\<rparr>))))"

text \<open>What a key does to the text; nothing for a key that is no edit.\<close>

definition nano_key :: "key_code \<Rightarrow> modifier set \<Rightarrow> nano \<Rightarrow> nano option" where
  "nano_key k ms n =
     (case k of
        KUp \<Rightarrow> ne_move_cursor cursor_direction.Up n
      | KDown \<Rightarrow> ne_move_cursor cursor_direction.Down n
      | KLeft \<Rightarrow> ne_move_cursor cursor_direction.Left n
      | KRight \<Rightarrow> ne_move_cursor cursor_direction.Right n
      | KHome \<Rightarrow> ne_line_boundary True n
      | KEnd \<Rightarrow> ne_line_boundary False n
      | KPageUp \<Rightarrow> ne_page_move True 20 n
      | KPageDown \<Rightarrow> ne_page_move False 20 n
      | KBackspace \<Rightarrow> ne_delete_backward n
      | KDelete \<Rightarrow> ne_delete_forward n
      | KEnter \<Rightarrow> ne_insert_newline n
      | KTab \<Rightarrow> ne_insert_char 9 n
      | KChar c \<Rightarrow> if Control \<in> ms then Some n else ne_insert_char c n
      | _ \<Rightarrow> Some n)"

definition nano_event :: "('w, 'i, 's, 'c, 'j, 'm) tui_env \<Rightarrow> 'w file_env \<Rightarrow> 'e event \<Rightarrow> ('w, 'i, 's, 'c, 'j, 'm) editing \<Rightarrow>
    ('w, 'i, 's, 'c, 'j, 'm) editing option" where
  "nano_event V F e xa =
     (case pn_nano (fst xa) of
        None \<Rightarrow> Some xa
      | Some (p, n) \<Rightarrow>
          let edit = map_option (\<lambda>n'. ((fst xa)\<lparr>pn_nano := Some (p, n')\<rparr>, snd xa)) in
          if is_ctrl_x e
          then Some (leave_nano (if ne_modified n then (fst xa, show_toast V (lit ''Discarded unsaved changes'') 2000 (snd xa)) else xa))
          else if is_save e \<or> is_ctrl_o e then Some (save_nano V F p n xa)
          else if is_delete_to_end e then edit (ne_cut_line n)
          else if is_delete_to_start e then edit (ne_paste n)
          else
            (case e of
               Key KEsc ms \<Rightarrow>
                 Some (if ne_modified n
                       then (fst xa, show_toast V (lit ''Unsaved changes (Ctrl+X to exit, Ctrl+S to save)'') 2000 (snd xa))
                       else leave_nano xa)
             | Key k ms \<Rightarrow> edit (nano_key k ms n)
             | _ \<Rightarrow> Some xa))"

section \<open>Properties\<close>

text \<open>
  Escape never loses an edit of the file; Control and X does.
\<close>

lemma escape_keeps_edits:
  assumes "pn_nano (fst xa) = Some (p, n)" and "ne_modified n"
  shows "nano_event V F (Key KEsc {}) xa = Some (fst xa, show_toast V (lit ''Unsaved changes (Ctrl+X to exit, Ctrl+S to save)'') 2000 (snd xa))"
  using assms by (simp add: nano_event_def is_ctrl_x_def is_save_def is_ctrl_o_def is_delete_to_end_def is_delete_to_start_def ctrl_def)

lemma control_x_discards_edits:
  assumes "pn_nano (fst xa) = Some (p, n)" and "is_ctrl_x e"
  shows "\<exists>a. nano_event V F e xa = Some ((fst xa)\<lparr>pn_nano := None\<rparr>, a) \<and> tu_mode a = ExplorerView \<and> tu_world a = tu_world (snd xa)"
  using assms by (cases xa) (auto simp: nano_event_def leave_nano_def show_toast_def on_tui_view_def)

text \<open>Leaving the search with Enter keeps the number of the chosen row, which then counts the rows of the whole list.\<close>

lemma search_enter_moves_cursor:
  assumes "filtered_indices s = Some is" and "explorer.cursor_index s < length is" and "is ! explorer.cursor_index s \<noteq> explorer.cursor_index s"
  shows "effective_cursor_index (explorer_search_key lower (Key KEnter {}) s) \<noteq> effective_cursor_index s"
  using assms by (simp add: explorer_search_key_def is_escape_def is_enter_def any_mods_def with_mods_def exit_search_def
      effective_cursor_index_def vec_get_def)

end
