(* ===== verification/TuiGit.thy ===== *)
theory TuiGit
  imports TuiHandlers GitScm
begin

text \<open>
  The event handler of the git panel, \<^verbatim>\<open>handle_git_scm_event\<close> of \<^verbatim>\<open>apps/cli/src/tui/app/events/modals.rs\<close>, over the
  pair of the panel, if it is open, and the interface; the world of git is the interface's. \<open>None\<close> is a panic of the panel.
\<close>

type_synonym ('w, 'i, 's, 'c, 'j, 'm) git_view = "git_scm option \<times> ('w, 'i, 's, 'c, 'j, 'm) tui_app"

definition run_git :: "('w, 'i, 's, 'c, 'j, 'm) tui_env \<Rightarrow> ('w, unit) git_op \<Rightarrow> rstr \<Rightarrow> int \<Rightarrow> string \<Rightarrow> git_scm \<Rightarrow>
    ('w, 'i, 's, 'c, 'j, 'm) tui_app \<Rightarrow> ('w, 'i, 's, 'c, 'j, 'm) git_view option" where
  "run_git V op done ms bad s a =
     (case op (s, tu_world a) of
        (Inr _, (s', w)) \<Rightarrow> Some (Some s', show_toast V done ms (a\<lparr>tu_world := w\<rparr>))
      | (Inl (Fail e), (s', w)) \<Rightarrow> Some (Some s', show_toast V (lit bad @ e) 3000 (a\<lparr>tu_world := w\<rparr>))
      | (Inl Panic, _) \<Rightarrow> None)"

definition commit_prompt :: "('w, 'i, 's, 'c, 'j, 'm) tui_env \<Rightarrow> 'w git_env \<Rightarrow> 'e event \<Rightarrow> git_scm \<Rightarrow>
    ('w, 'i, 's, 'c, 'j, 'm) tui_app \<Rightarrow> ('w, 'i, 's, 'c, 'j, 'm) git_view option" where
  "commit_prompt V G e s a =
     (if is_escape e then Some (Some (s\<lparr>mode := Browse, commit_message := []\<rparr>), a)
      else if is_enter e
      then if commit_message s = [] then Some (Some s, a)
           else run_git V (execute_action G Commit) (lit ''Changes committed'') 2000 ''Commit failed: '' s a
      else if is_backspace e then Some (Some (s\<lparr>commit_message := butlast (commit_message s)\<rparr>), a)
      else
        case event_char e of
          Some c \<Rightarrow> Some (Some (s\<lparr>commit_message := commit_message s @ [c]\<rparr>), a)
        | None \<Rightarrow> Some (Some s, a))"

definition confirm_prompt :: "('w, 'i, 's, 'c, 'j, 'm) tui_env \<Rightarrow> 'w git_env \<Rightarrow> 'e event \<Rightarrow> git_action \<Rightarrow> git_scm \<Rightarrow>
    ('w, 'i, 's, 'c, 'j, 'm) tui_app \<Rightarrow> ('w, 'i, 's, 'c, 'j, 'm) git_view option" where
  "confirm_prompt V G e x s a =
     (let back = Some (Some (clear_messages (s\<lparr>mode := Browse\<rparr>)), a) in
      case e of
        Key (KChar c) ms \<Rightarrow>
          if c = 121 \<or> c = 89
          then run_git V (execute_action G x) (lit ''Action completed'') 2000 ''Action failed: '' s a
          else if c = 110 \<or> c = 78 then back
          else Some (Some s, a)
      | Key KEsc ms \<Rightarrow> back
      | _ \<Rightarrow> Some (Some s, a))"

text \<open>The selected files and the one under the cursor.\<close>

definition marked_files :: "git_file_entry list \<Rightarrow> git_scm \<Rightarrow> rstr list" where
  "marked_files fs s =
     map gf_path (filter (\<lambda>f. gf_selected f \<or> position (\<lambda>x. gf_path x = gf_path f) fs = Some (cursor_index s)) fs)"

definition stage_marked :: "('w, 'i, 's, 'c, 'j, 'm) tui_env \<Rightarrow> 'w git_env \<Rightarrow> git_scm \<Rightarrow>
    ('w, 'i, 's, 'c, 'j, 'm) tui_app \<Rightarrow> ('w, 'i, 's, 'c, 'j, 'm) git_view option" where
  "stage_marked V G s a =
     (let fs = (case current_panel s of
            PChanges \<Rightarrow> marked_files (changed_files s) s
          | PUntracked \<Rightarrow> marked_files (untracked_files s) s
          | PStaged \<Rightarrow> [])
      in if fs = [] then Some (Some s, a)
         else run_git V (stage_files G fs) (lit ''Staged '' @ show_nat (length fs) @ lit '' file(s)'') 1500 ''Stage failed: '' s a)"

definition unstage_marked :: "('w, 'i, 's, 'c, 'j, 'm) tui_env \<Rightarrow> 'w git_env \<Rightarrow> git_scm \<Rightarrow>
    ('w, 'i, 's, 'c, 'j, 'm) tui_app \<Rightarrow> ('w, 'i, 's, 'c, 'j, 'm) git_view option" where
  "unstage_marked V G s a =
     (let fs = (if current_panel s = PStaged then marked_files (staged_files s) s else [])
      in if fs = [] then Some (Some s, a)
         else run_git V (unstage_files G fs) (lit ''Unstaged '' @ show_nat (length fs) @ lit '' file(s)'') 1500 ''Unstage failed: '' s a)"

definition discard_marked :: "git_scm \<Rightarrow> git_scm" where
  "discard_marked s =
     (let fs = (if current_panel s = PChanges then marked_files (changed_files s) s else [])
      in if fs = [] then s
         else s\<lparr>mode := Confirm (lit ''Discard changes to '' @ show_nat (length fs) @ lit '' file(s)? (y/n)'') (Discard fs)\<rparr>)"

definition git_char :: "('w, 'i, 's, 'c, 'j, 'm) tui_env \<Rightarrow> 'w git_env \<Rightarrow> rchar \<Rightarrow> git_scm \<Rightarrow>
    ('w, 'i, 's, 'c, 'j, 'm) tui_app \<Rightarrow> ('w, 'i, 's, 'c, 'j, 'm) git_view option" where
  "git_char V G c s a =
     (if c = 32 then Some (Some (gs_toggle_selection s), a)
      else if c = 115 then stage_marked V G s a
      else if c = 117 then unstage_marked V G s a
      else if c = 100 then Some (Some (discard_marked s), a)
      else if c = 99
      then (if staged_files s \<noteq> [] then Some (Some (s\<lparr>mode := CommitMessage, commit_message := []\<rparr>), a)
            else Some (Some s, show_toast V (lit ''No files staged for commit'') 2000 a))
      else if c = 80 then run_git V (execute_action G Push) (lit ''Pushed to remote'') 2000 ''Push failed: '' s a
      else if c = 112 then run_git V (execute_action G Pull) (lit ''Pulled from remote'') 2000 ''Pull failed: '' s a
      else if c = 102 then run_git V (execute_action G Fetch) (lit ''Fetched from remote'') 2000 ''Fetch failed: '' s a
      else if c = 114
      then (case gs_refresh G (s, tu_world a) of
              (Inr _, (s', w)) \<Rightarrow> Some (Some s', a\<lparr>tu_world := w\<rparr>)
            | (Inl (Fail e), (s', w)) \<Rightarrow> Some (Some s', show_toast V (lit ''Refresh failed: '' @ e) 3000 (a\<lparr>tu_world := w\<rparr>))
            | (Inl Panic, _) \<Rightarrow> None)
      else Some (Some s, a))"

definition git_key :: "('w, 'i, 's, 'c, 'j, 'm) tui_env \<Rightarrow> 'w git_env \<Rightarrow> key_code \<Rightarrow> git_scm \<Rightarrow>
    ('w, 'i, 's, 'c, 'j, 'm) tui_app \<Rightarrow> ('w, 'i, 's, 'c, 'j, 'm) git_view option" where
  "git_key V G k s a =
     (case k of
        KUp \<Rightarrow> Some (Some (gs_cursor_up s), a)
      | KDown \<Rightarrow> Some (Some (gs_cursor_down s), a)
      | KPageUp \<Rightarrow> Some (Some (gs_page_up 10 s), a)
      | KPageDown \<Rightarrow> Some (Some (gs_page_down 10 s), a)
      | KEnter \<Rightarrow> stage_marked V G s a
      | KChar c \<Rightarrow> git_char V G c s a
      | _ \<Rightarrow> Some (Some s, a))"

definition git_event :: "('w, 'i, 's, 'c, 'j, 'm) tui_env \<Rightarrow> 'w git_env \<Rightarrow> 'e event \<Rightarrow> ('w, 'i, 's, 'c, 'j, 'm) git_view \<Rightarrow>
    ('w, 'i, 's, 'c, 'j, 'm) git_view option" where
  "git_event V G e = (\<lambda>(g, a).
     case g of
       None \<Rightarrow> Some (None, a)
     | Some s \<Rightarrow>
         (case mode s of
            CommitMessage \<Rightarrow> commit_prompt V G e s a
          | Confirm msg x \<Rightarrow> confirm_prompt V G e x s a
          | Browse \<Rightarrow>
              if is_escape e then Some (None, a\<lparr>tu_mode := ConversationFullscreen\<rparr>)
              else if is_tab e then Some (Some (next_panel s), a)
              else (case e of Key k ms \<Rightarrow> git_key V G k s a | _ \<Rightarrow> Some (Some s, a))))"

section \<open>Properties\<close>

text \<open>
  Discarding needs two keys: no event changes the world while the panel is being browsed and the key is \<open>d\<close>, and what is
  confirmed is what was marked.
\<close>

lemma discard_asks:
  assumes "mode s = Browse"
  shows "git_event V G (Key (KChar 100) {}) (Some s, a) = Some (Some (discard_marked s), a)"
  using assms by (simp add: git_event_def is_escape_def is_tab_def any_mods_def with_mods_def git_key_def git_char_def)

lemma confirmed_is_marked:
  assumes "mode s = Browse" and "mode (discard_marked s) = Confirm msg x"
  shows "x = Discard (marked_files (changed_files s) s) \<and> current_panel s = PChanges"
  using assms by (auto simp: discard_marked_def Let_def split: if_splits)

text \<open>Staging takes the marked files of the panel that is shown and nothing when none is.\<close>

lemma marked_files_subset: "set (marked_files fs s) \<subseteq> gf_path ` set fs"
  by (auto simp: marked_files_def)

end
