(* ===== verification/TuiPicker.thy ===== *)
theory TuiPicker
  imports TuiHandlers SlashCommands
begin

text \<open>
  The picker of tools: opening it and confirming a choice (\<^verbatim>\<open>command_handler/mod.rs\<close> under
  \<^verbatim>\<open>apps/cli/src/tui/app/message_processing\<close>) and its event handler (\<^verbatim>\<open>tui/app/events/pickers.rs\<close>), over the pair of
  the picker, if it is open, and the interface. The registry of built-in tools and the type of the tool mode belong to a
  library: the mode is given by the view the code has of it.
\<close>

record 'm tool_modes =
  tm_of :: "tool_mode \<Rightarrow> 'm"
  tm_view :: "'m \<Rightarrow> tool_mode"
  tm_name :: "'m \<Rightarrow> rstr"

record tool_registry =
  rg_get :: "rstr \<Rightarrow> tool_def option"
  rg_category :: "rstr \<Rightarrow> tool_def list"
  rg_all :: "tool_def list"
  rg_with_mcp :: "tool_def list \<Rightarrow> tool_def list"
  rg_core :: "tool_def list"

text \<open>A row is the name of a tool, its description and whether it is chosen.\<close>

type_synonym picker_row = "rstr \<times> rstr \<times> bool"

record tool_picker =
  tp_categories :: "(rstr \<times> picker_row list) list"
  tp_category :: nat
  tp_tool :: "nat option"
  tp_scroll :: "16 word"
  tp_filter :: rstr
  tp_collapsed :: "nat set"

type_synonym ('w, 'i, 's, 'c, 'j, 'm) picking = "tool_picker option \<times> ('w, 'i, 's, 'c, 'j, 'm) tui_app"

section \<open>Opening and confirming\<close>

definition picker_headings :: "rstr list" where
  "picker_headings = map lit
     [''File Operations'', ''Search'', ''Semantic Search'', ''Git'', ''Web Search'', ''Web/HTTP'', ''Bash/Shell'',
      ''Task Manager'', ''Agent Pool'', ''Planning'', ''Context'']"

definition extract_mcp_server_name :: "rstr \<Rightarrow> rstr option" where
  "extract_mcp_server_name t =
     (if starts_with t (lit ''mcp_'') \<and> 95 \<in> set (drop 4 t) then Some (takeWhile (\<lambda>c. c \<noteq> 95) (drop 4 t)) else None)"

definition tool_row :: "rstr set \<Rightarrow> tool_def \<Rightarrow> picker_row" where
  "tool_row chosen t = (td_name t, td_description t, td_name t \<in> chosen)"

definition builtin_rows :: "tool_registry \<Rightarrow> rstr set \<Rightarrow> (rstr \<times> picker_row list) list" where
  "builtin_rows R chosen =
     filter (\<lambda>(h, ts). ts \<noteq> []) (map (\<lambda>h. (h, map (tool_row chosen) (rg_category R h))) picker_headings)"

text \<open>The tools of the servers, in groups by the name of the server, which are sorted.\<close>

definition mcp_rows :: "(rstr list \<Rightarrow> rstr list) \<Rightarrow> rstr set \<Rightarrow> tool_def list \<Rightarrow> (rstr \<times> picker_row list) list" where
  "mcp_rows srt chosen ts =
     map (\<lambda>s. (lit ''MCP: '' @ s, map (tool_row chosen) (filter (\<lambda>t. extract_mcp_server_name (td_name t) = Some s) ts)))
       (srt (remdups (List.map_filter (\<lambda>t. extract_mcp_server_name (td_name t)) ts)))"

definition chosen_names :: "tool_mode \<Rightarrow> rstr set" where
  "chosen_names c = (case c of ToolsExplicit ns \<Rightarrow> set ns | _ \<Rightarrow> {})"

definition handle_open_tool_picker :: "('w, 'i, 's, 'c, 'j, 'm) tui_env \<Rightarrow> 'm tool_modes \<Rightarrow> tool_registry \<Rightarrow>
    ('w, 'i, 's, 'c, 'j, 'm) picking \<Rightarrow> ('w, 'i, 's, 'c, 'j, 'm) picking" where
  "handle_open_tool_picker V M R = (\<lambda>(p, a).
     let chosen = chosen_names (tm_view M (tu_tool_mode a)) in
     (Some \<lparr>tp_categories = builtin_rows R chosen @ mcp_rows (tv_sort V) chosen (ex_mcp_tools (tu_extra a)),
        tp_category = 0, tp_tool = None, tp_scroll = 0, tp_filter = [], tp_collapsed = {}\<rparr>,
      clear_input V (set_tui_status V LogInfo
        (lit ''Select tools (Space: toggle, Enter: confirm, A: all, N: none, Esc: cancel)'') (a\<lparr>tu_mode := ToolPicker\<rparr>))))"

definition picked_rows :: "(rstr \<times> picker_row list) list \<Rightarrow> rstr list" where
  "picked_rows cs = map fst (filter (\<lambda>(n, d, s). s) (concat (map snd cs)))"

definition tools_named :: "tool_registry \<Rightarrow> tool_def list \<Rightarrow> rstr list \<Rightarrow> tool_def list" where
  "tools_named R mcp ns = List.map_filter (rg_get R) ns @ filter (\<lambda>t. td_name t \<in> set ns) mcp"

definition confirm_tool_selection :: "('w, 'i, 's, 'c, 'j, 'm) tui_env \<Rightarrow> 'm tool_modes \<Rightarrow> tool_registry \<Rightarrow>
    ('w, 'i, 's, 'c, 'j, 'm) picking \<Rightarrow> ('w, 'i, 's, 'c, 'j, 'm) picking" where
  "confirm_tool_selection V M R = (\<lambda>(p, a).
     let a1 = (case p of
            None \<Rightarrow> a
          | Some s \<Rightarrow>
              let ns = picked_rows (tp_categories s); ts = tools_named R (ex_mcp_tools (tu_extra a)) ns in
              log_console V ([9989] @ lit '' Selected '' @ show_nat (length ts) @ lit '' tools'')
                (set_tui_status V LogInfo (lit ''Tool mode: explicit ('' @ show_nat (length ts) @ lit '' tools selected)'')
                  (on_extra (\<lambda>x. x\<lparr>ex_tools := ts\<rparr>) (a\<lparr>tu_tool_mode := tm_of M (ToolsExplicit ns)\<rparr>))))
     in (None, a1\<lparr>tu_mode := NormalView\<rparr>))"

section \<open>Moving and choosing\<close>

definition rows_of :: "tool_picker \<Rightarrow> nat \<Rightarrow> picker_row list" where
  "rows_of p i = (case vec_get (tp_categories p) i of Some (h, ts) \<Rightarrow> ts | None \<Rightarrow> [])"

definition tool_picker_move_up :: "tool_picker \<Rightarrow> tool_picker" where
  "tool_picker_move_up p =
     (case tp_tool p of
        Some i \<Rightarrow> p\<lparr>tp_tool := if i > 0 then Some (i - 1) else None\<rparr>
      | None \<Rightarrow>
          if tp_category p > 0
          then
            let c = tp_category p - 1; n = length (rows_of p c) in
            p\<lparr>tp_category := c, tp_tool := if c \<in> tp_collapsed p then None else if n > 0 then Some (n - 1) else None\<rparr>
          else p)"

definition next_category :: "tool_picker \<Rightarrow> tool_picker" where
  "next_category p =
     (if tp_category p + 1 < length (tp_categories p) then p\<lparr>tp_category := tp_category p + 1, tp_tool := None\<rparr> else p)"

definition tool_picker_move_down :: "tool_picker \<Rightarrow> tool_picker" where
  "tool_picker_move_down p =
     (let n = length (rows_of p (tp_category p)) in
      case tp_tool p of
        Some i \<Rightarrow> if i + 1 < n then p\<lparr>tp_tool := Some (i + 1)\<rparr> else next_category p
      | None \<Rightarrow> if tp_category p \<notin> tp_collapsed p \<and> n > 0 then p\<lparr>tp_tool := Some 0\<rparr> else next_category p)"

definition set_row :: "bool \<Rightarrow> picker_row \<Rightarrow> picker_row" where
  "set_row b = (\<lambda>(n, d, s). (n, d, b))"

definition tool_picker_toggle :: "tool_picker \<Rightarrow> tool_picker" where
  "tool_picker_toggle p =
     p\<lparr>tp_categories := modify_nth (tp_category p)
         (\<lambda>(h, ts). (h, case tp_tool p of
              Some i \<Rightarrow> modify_nth i (\<lambda>(n, d, s). (n, d, \<not> s)) ts
            | None \<Rightarrow> map (set_row (\<not> list_all (\<lambda>(n, d, s). s) ts)) ts)) (tp_categories p)\<rparr>"

definition tool_picker_select :: "bool \<Rightarrow> tool_picker \<Rightarrow> tool_picker" where
  "tool_picker_select b p = p\<lparr>tp_categories := map (\<lambda>(h, ts). (h, map (set_row b) ts)) (tp_categories p)\<rparr>"

definition tool_picker_key :: "key_code \<Rightarrow> tool_picker \<Rightarrow> tool_picker" where
  "tool_picker_key k p =
     (case k of
        KUp \<Rightarrow> tool_picker_move_up p
      | KDown \<Rightarrow> tool_picker_move_down p
      | KChar c \<Rightarrow>
          if c = 32 then tool_picker_toggle p
          else if c = 97 \<or> c = 65 then tool_picker_select True p
          else if c = 110 \<or> c = 78 then tool_picker_select False p
          else p
      | KLeft \<Rightarrow> p\<lparr>tp_collapsed := insert (tp_category p) (tp_collapsed p), tp_tool := None\<rparr>
      | KRight \<Rightarrow> p\<lparr>tp_collapsed := tp_collapsed p - {tp_category p}\<rparr>
      | _ \<Rightarrow> p)"

definition tool_picker_event :: "('w, 'i, 's, 'c, 'j, 'm) tui_env \<Rightarrow> 'm tool_modes \<Rightarrow> tool_registry \<Rightarrow> 'e event \<Rightarrow>
    ('w, 'i, 's, 'c, 'j, 'm) picking \<Rightarrow> ('w, 'i, 's, 'c, 'j, 'm) picking" where
  "tool_picker_event V M R e pa =
     (if is_escape e then (None, set_tui_status V LogInfo (lit ''Tool picker cancelled'') ((snd pa)\<lparr>tu_mode := NormalView\<rparr>))
      else if is_enter e then confirm_tool_selection V M R pa
      else (case e of Key k ms \<Rightarrow> (map_option (tool_picker_key k) (fst pa), snd pa) | _ \<Rightarrow> pa))"


section \<open>The cursor stays on a row\<close>

definition picker_ok :: "tool_picker \<Rightarrow> bool" where
  "picker_ok p \<longleftrightarrow> (tp_category p = 0 \<or> tp_category p < length (tp_categories p))
     \<and> (\<forall>i. tp_tool p = Some i \<longrightarrow> i < length (rows_of p (tp_category p)) \<and> tp_category p \<notin> tp_collapsed p)"

definition titles :: "(rstr \<times> picker_row list) list \<Rightarrow> (rstr \<times> (rstr \<times> rstr) list) list" where
  "titles cs = map (\<lambda>(h, ts). (h, map (\<lambda>(n, d, s). (n, d)) ts)) cs"

lemma titles_modify:
  assumes "\<And>x. titles [f x] = titles [x]"
  shows "titles (modify_nth i f cs) = titles cs"
proof -
  have "(\<lambda>(h, ts). (h, map (\<lambda>(n, d, s). (n, d)) ts)) (f x) = (\<lambda>(h, ts). (h, map (\<lambda>(n, d, s). (n, d)) ts)) x" for x
    using assms [of x] by (simp add: titles_def)
  then show ?thesis by (auto simp: titles_def modify_nth_def map_update intro!: list_update_same_conv [THEN iffD2])
qed

lemma row_titles_modify: "map (\<lambda>(n, d, s). (n, d)) (modify_nth i (\<lambda>(n, d, s). (n, d, \<not> s)) ts) = map (\<lambda>(n, d, s). (n, d)) ts"
  by (auto simp: modify_nth_def map_update split_beta intro!: list_update_same_conv [THEN iffD2])

lemma row_titles_set: "map (\<lambda>(n, d, s). (n, d)) (map (set_row b) ts) = map (\<lambda>(n, d, s). (n, d)) ts"
  by (simp add: set_row_def split_beta)

lemma titles_toggle: "titles (tp_categories (tool_picker_toggle p)) = titles (tp_categories p)"
  unfolding tool_picker_toggle_def
  by (simp, rule titles_modify)
     (auto simp: titles_def row_titles_modify set_row_def split_beta split: option.split)

lemma titles_select: "titles (tp_categories (tool_picker_select b p)) = titles (tp_categories p)"
  by (auto simp: tool_picker_select_def titles_def set_row_def split_beta)

lemma titles_key [simp]: "titles (tp_categories (tool_picker_key k p)) = titles (tp_categories p)"
  by (auto simp: tool_picker_key_def titles_toggle titles_select tool_picker_move_up_def tool_picker_move_down_def
      next_category_def Let_def split: key_code.split option.split)

lemma titles_keys [simp]: "titles (tp_categories (fold tool_picker_key ks p)) = titles (tp_categories p)"
  by (induction ks arbitrary: p) simp_all

lemma length_rows_of: "length (rows_of p i) = (case vec_get (titles (tp_categories p)) i of Some (h, ts) \<Rightarrow> length ts | None \<Rightarrow> 0)"
  by (auto simp: rows_of_def titles_def vec_get_def split_beta)

lemma length_titles: "length (tp_categories p) = length (titles (tp_categories p))"
  by (simp add: titles_def)

text \<open>A key that only ticks rows moves neither the cursor nor what is folded.\<close>

lemma picker_ok_ticks:
  assumes "picker_ok p" and "titles (tp_categories q) = titles (tp_categories p)" and "tp_category q = tp_category p"
    and "tp_tool q = tp_tool p" and "tp_collapsed q = tp_collapsed p"
  shows "picker_ok q"
  using assms by (simp add: picker_ok_def length_rows_of length_titles)

lemma tool_picker_key_ok:
  assumes "picker_ok p"
  shows "picker_ok (tool_picker_key k p)"
proof (cases k)
  case (KChar c)
  have "picker_ok (tool_picker_toggle p)"
    by (rule picker_ok_ticks [OF assms titles_toggle]) (simp_all add: tool_picker_toggle_def)
  moreover have "picker_ok (tool_picker_select b p)" for b
    by (rule picker_ok_ticks [OF assms titles_select]) (simp_all add: tool_picker_select_def)
  ultimately show ?thesis using KChar assms by (simp add: tool_picker_key_def)
next
  case KUp
  with assms show ?thesis
    by (cases "tp_category p") (auto simp: picker_ok_def tool_picker_key_def tool_picker_move_up_def rows_of_def vec_get_def Let_def
        split: option.splits if_splits)
next
  case KDown
  with assms show ?thesis
    by (auto simp: picker_ok_def tool_picker_key_def tool_picker_move_down_def next_category_def rows_of_def Let_def split: option.splits)
qed (use assms in \<open>auto simp: picker_ok_def tool_picker_key_def rows_of_def\<close>)

interpretation tpk: invariant_machine tool_picker_key picker_ok
  by unfold_locales (rule tool_picker_key_ok)

lemma opened_picker_ok: "fst (handle_open_tool_picker V M R pa) = Some p \<Longrightarrow> picker_ok p"
  by (auto simp: handle_open_tool_picker_def picker_ok_def Let_def split: prod.splits)

section \<open>What is ticked is what is offered\<close>

definition registry_lawful :: "tool_registry \<Rightarrow> bool" where
  "registry_lawful R \<longleftrightarrow>
     (\<forall>n t. rg_get R n = Some t \<longrightarrow> td_name t = n) \<and> (\<forall>h. \<forall>t\<in>set (rg_category R h). rg_get R (td_name t) \<noteq> None)"

definition titled :: "(rstr \<times> (rstr \<times> rstr) list) list \<Rightarrow> rstr set" where
  "titled ts = fst ` set (concat (map snd ts))"

lemma picked_titled: "set (picked_rows cs) \<subseteq> titled (titles cs)"
  by (force simp: picked_rows_def titled_def titles_def)

lemma opened_titled:
  assumes "registry_lawful R"
  shows "titled (titles (builtin_rows R ch @ mcp_rows srt ch mcp)) \<subseteq> {n. rg_get R n \<noteq> None} \<union> td_name ` set mcp"
  using assms by (fastforce simp: titled_def titles_def builtin_rows_def mcp_rows_def tool_row_def registry_lawful_def)

lemma opened_ticks:
  assumes "(n, d, s) \<in> set (concat (map snd (builtin_rows R ch @ mcp_rows srt ch mcp)))"
  shows "s \<longleftrightarrow> n \<in> ch"
  using assms by (auto simp: builtin_rows_def mcp_rows_def tool_row_def)

lemma tools_named_names:
  assumes "registry_lawful R" and "set ns \<subseteq> {n. rg_get R n \<noteq> None} \<union> td_name ` set mcp"
  shows "td_name ` set (tools_named R mcp ns) = set ns"
proof
  show "td_name ` set (tools_named R mcp ns) \<subseteq> set ns"
    using assms(1) by (auto simp: tools_named_def registry_lawful_def List.map_filter_def)
  show "set ns \<subseteq> td_name ` set (tools_named R mcp ns)"
  proof
    fix n assume n: "n \<in> set ns"
    show "n \<in> td_name ` set (tools_named R mcp ns)"
    proof (cases "rg_get R n")
      case None
      with n assms(2) obtain t where "t \<in> set mcp" "td_name t = n" by auto
      with n show ?thesis by (auto simp: tools_named_def)
    next
      case (Some t)
      with assms(1) have "td_name t = n" by (simp add: registry_lawful_def)
      with n Some show ?thesis by (force simp: tools_named_def List.map_filter_def)
    qed
  qed
qed

lemma log_status_extra [simp]:
  "tu_extra (log_console V m a) = tu_extra a" "tu_tool_mode (log_console V m a) = tu_tool_mode a"
  "tu_extra (set_tui_status V l m a) = tu_extra a" "tu_tool_mode (set_tui_status V l m a) = tu_tool_mode a"
  "tu_extra (clear_input V a) = tu_extra a" "tu_tool_mode (clear_input V a) = tu_tool_mode a"
  by (simp_all add: log_console_def set_tui_status_def clear_input_def Let_def)

text \<open>
  C37: Whatever the user ticks in the picker of tools and then confirms, the tools offered to the provider bear exactly the
  ticked names, and opening the picker again shows a row ticked exactly if its name was: no tool is lost, added or shown
  wrongly on the way through the tool mode.
\<close>

theorem picker_round_trip:
  assumes "registry_lawful R" and "\<And>c. tm_view M (tm_of M c) = c"
    and "handle_open_tool_picker V M R (q, a) = (Some p0, a0)" and "p = fold tool_picker_key ks p0"
    and "confirm_tool_selection V M R (Some p, a0) = (q1, b)" and "handle_open_tool_picker V M R (q1, b) = (Some p2, c)"
  shows "td_name ` set (ex_tools (tu_extra b)) = set (picked_rows (tp_categories p))
    \<and> (\<forall>(n, d, s)\<in>set (concat (map snd (tp_categories p2))). s \<longleftrightarrow> n \<in> set (picked_rows (tp_categories p)))"
proof -
  let ?mcp = "ex_mcp_tools (tu_extra a)"
  let ?ns = "picked_rows (tp_categories p)"
  from assms(3) obtain ch where p0: "tp_categories p0 = builtin_rows R ch @ mcp_rows (tv_sort V) ch ?mcp"
    and a0: "tu_extra a0 = tu_extra a"
    by (auto simp: handle_open_tool_picker_def Let_def)
  have "titles (tp_categories p) = titles (tp_categories p0)" using assms(4) by simp
  then have "set ?ns \<subseteq> {n. rg_get R n \<noteq> None} \<union> td_name ` set ?mcp"
    using picked_titled [of "tp_categories p"] opened_titled [OF assms(1), of ch "tv_sort V" ?mcp] p0 by auto
  moreover have b: "ex_tools (tu_extra b) = tools_named R ?mcp ?ns" "tu_tool_mode b = tm_of M (ToolsExplicit ?ns)"
    using assms(5) a0 by (auto simp: confirm_tool_selection_def Let_def on_extra_def)
  moreover from assms(6) b(2) assms(2) have p2:
    "tp_categories p2 = builtin_rows R (set ?ns) @ mcp_rows (tv_sort V) (set ?ns) (ex_mcp_tools (tu_extra b))"
    by (auto simp: handle_open_tool_picker_def Let_def chosen_names_def)
  moreover have "\<forall>(n, d, s)\<in>set (concat (map snd (tp_categories p2))). s \<longleftrightarrow> n \<in> set ?ns"
  proof
    fix r assume r: "r \<in> set (concat (map snd (tp_categories p2)))"
    obtain n d t where rt: "r = (n, d, t)" by (cases r)
    from opened_ticks [OF r [unfolded p2 rt]] rt show "case r of (n, d, s) \<Rightarrow> s \<longleftrightarrow> n \<in> set ?ns" by simp
  qed
  ultimately show ?thesis using tools_named_names [OF assms(1), of ?ns ?mcp] by simp
qed


text \<open>An interface with a built-in tool and one of a server.\<close>

definition picker_env :: "(sample_world, rstr, rstr list, bool \<times> bool, unit, tool_mode) tui_env" where
  "picker_env =
     \<lparr>tv_area = tv_area sample_tui_env, tv_console = tv_console sample_tui_env, tv_box = tv_box sample_tui_env,
     tv_help = tv_help sample_tui_env, tv_bindings = tv_bindings sample_tui_env, tv_lower = tv_lower sample_tui_env,
     tv_sort = tv_sort sample_tui_env, tv_now_ms = tv_now_ms sample_tui_env, tv_now = tv_now sample_tui_env, tv_clock
     = tv_clock sample_tui_env, tv_uuid = tv_uuid sample_tui_env, tv_write = (\<lambda>m w. (True, w)), tv_stored =
     tv_stored sample_tui_env, tv_add_message = tv_add_message sample_tui_env, tv_create_conversation =
     tv_create_conversation sample_tui_env, tv_update_conversation = tv_update_conversation sample_tui_env,
     tv_list_conversations = tv_list_conversations sample_tui_env, tv_count_tasks = tv_count_tasks sample_tui_env,
     tv_load_tasks = tv_load_tasks sample_tui_env, tv_clear_tasks = tv_clear_tasks sample_tui_env, tv_task_tree =
     tv_task_tree sample_tui_env, tv_commands = tv_commands sample_tui_env, tv_skills = tv_skills sample_tui_env,
     tv_model_cache = tv_model_cache sample_tui_env, tv_add_prompt = tv_add_prompt sample_tui_env\<rparr>"

definition sample_modes :: "tool_mode tool_modes" where
  "sample_modes = \<lparr>tm_of = id, tm_view = id, tm_name = (\<lambda>c. [])\<rparr>"

definition bash_tool :: tool_def where
  "bash_tool = \<lparr>td_name = lit ''bash'', td_description = [], td_requires_approval = True\<rparr>"

definition sample_registry :: tool_registry where
  "sample_registry = \<lparr>rg_get = (\<lambda>n. if n = lit ''bash'' then Some bash_tool else None),
     rg_category = (\<lambda>h. if h = lit ''Bash/Shell'' then [bash_tool] else []), rg_all = [bash_tool],
     rg_with_mcp = (\<lambda>ts. bash_tool # ts), rg_core = [bash_tool]\<rparr>"

definition picker_tui :: "(sample_world, rstr, rstr list, bool \<times> bool, unit, tool_mode) tui_app" where
  "picker_tui = new_viewer_app (lit ''s'') (lit ''m'') (lit ''x'') [] sample_prompts ToolsSmart True True None (0, [])"

text \<open>Down and Space tick the first tool of the first category.\<close>

theorem picker_round_trip_witness:
  "\<exists>p0 a0 p q1 b. handle_open_tool_picker picker_env sample_modes sample_registry (None, picker_tui) = (Some p0, a0)
    \<and> p = fold tool_picker_key [KDown, KChar 32] p0
    \<and> confirm_tool_selection picker_env sample_modes sample_registry (Some p, a0) = (q1, b)
    \<and> td_name ` set (ex_tools (tu_extra b)) = {lit ''bash''}"
proof -
  obtain p0 a0 where o: "handle_open_tool_picker picker_env sample_modes sample_registry (None, picker_tui) = (Some p0, a0)"
    by (auto simp: handle_open_tool_picker_def Let_def)
  let ?p = "fold tool_picker_key [KDown, KChar 32] p0"
  obtain q1 b where c: "confirm_tool_selection picker_env sample_modes sample_registry (Some ?p, a0) = (q1, b)" by fastforce
  obtain p2 d where r: "handle_open_tool_picker picker_env sample_modes sample_registry (q1, b) = (Some p2, d)"
    by (auto simp: handle_open_tool_picker_def Let_def split: prod.split)
  have law: "registry_lawful sample_registry"
    by (simp add: registry_lawful_def sample_registry_def bash_tool_def)
  have view: "tm_view sample_modes (tm_of sample_modes c) = c" for c by (simp add: sample_modes_def)
  have "p0 = \<lparr>tp_categories = [(lit ''Bash/Shell'', [(lit ''bash'', [], False)])], tp_category = 0, tp_tool = None, tp_scroll = 0,
      tp_filter = [], tp_collapsed = {}\<rparr>"
    using o by (simp add: handle_open_tool_picker_def Let_def builtin_rows_def mcp_rows_def picker_headings_def sample_registry_def
        bash_tool_def tool_row_def chosen_names_def sample_modes_def picker_tui_def new_viewer_app_def fresh_app_def fresh_extra_def
        picker_env_def sample_tui_env_def lit_def List.map_filter_def)
  then have "picked_rows (tp_categories ?p) = [lit ''bash'']"
    by (simp add: tool_picker_key_def tool_picker_move_down_def tool_picker_toggle_def rows_of_def vec_get_def modify_nth_def
        picked_rows_def)
  with picker_round_trip [OF law view o refl c r] o c show ?thesis by auto
qed

end
