(* ===== verification/TuiCore.thy ===== *)
theory TuiCore
  imports TuiEditors TuiGit TuiPicker
begin

text \<open>
  The dispatch of the terminal's events, \<^verbatim>\<open>tui/app/events/core.rs\<close>, and the handlers of the full screens in
  \<^verbatim>\<open>viewers.rs\<close>, over the interface and its panels together, a desk. An event yields whether the interface goes on and
  what it started in the background. The dialog of hotkeys is a widget of a library and is given by its operations; the
  commands of a submitted text may open panels, which is the parameter \<open>ds_panels\<close>.
\<close>

datatype hotkey_action = HotkeyClose | HotkeySelected | HotkeyOther

record 'h hotkey_env =
  hk_mouse :: "mouse_kind \<Rightarrow> 16 word \<Rightarrow> 16 word \<Rightarrow> 'h \<Rightarrow> 'h"
  hk_key :: "key_code \<Rightarrow> modifier set \<Rightarrow> 'h \<Rightarrow> hotkey_action \<times> 'h"
  hk_entry :: "'h \<Rightarrow> (rstr \<times> rstr \<times> rstr) option"

record ('w, 'i, 's, 'c, 'j, 'm, 'h) desk =
  dk_app :: "('w, 'i, 's, 'c, 'j, 'm) tui_app"
  dk_editors :: editors
  dk_git :: "git_scm option"
  dk_picker :: "tool_picker option"
  dk_hotkeys :: "'h option"

record ('w, 'i, 's, 'c, 'j, 'm, 'h) desk_env =
  ds_ai :: "('w, 'j, 'm) ai_env"
  ds_tui :: "('w, 'i, 's, 'c, 'j, 'm) tui_env"
  ds_commands :: "('w, 'i, 's, 'c, 'j, 'm) command_handler"
  ds_panels :: "rstr \<Rightarrow> ('w, 'i, 's, 'c, 'j, 'm, 'h) desk \<Rightarrow> ('w, 'i, 's, 'c, 'j, 'm, 'h) desk"
  ds_regex :: regex_engine
  ds_clip :: "rstr \<Rightarrow> 'w \<Rightarrow> clipboard_result \<times> 'w"
  ds_upper :: "rstr \<Rightarrow> rstr"
  ds_tasks :: "'w task_env"
  ds_files :: "'w file_env"
  ds_git :: "'w git_env"
  ds_sockets :: "'w socket_env"
  ds_listed :: "'w \<Rightarrow> listed_task list"
  ds_modes :: "'m tool_modes"
  ds_registry :: tool_registry
  ds_hotkeys :: "'h hotkey_env"

definition with_app :: "(('w, 'i, 's, 'c, 'j, 'm) tui_app \<Rightarrow> 'j background list ending \<times> ('w, 'i, 's, 'c, 'j, 'm) tui_app) \<Rightarrow>
    ('w, 'i, 's, 'c, 'j, 'm, 'h) desk \<Rightarrow> 'j background list ending \<times> ('w, 'i, 's, 'c, 'j, 'm, 'h) desk" where
  "with_app f d = (case f (dk_app d) of (r, a) \<Rightarrow> (r, d\<lparr>dk_app := a\<rparr>))"

definition plainly :: "('a \<Rightarrow> 'a) \<Rightarrow> 'a \<Rightarrow> 'b list ending \<times> 'a" where
  "plainly f a = (Returns [], f a)"

definition or_panic :: "('a \<Rightarrow> 'a option) \<Rightarrow> 'a \<Rightarrow> 'b list ending \<times> 'a" where
  "or_panic f a = (case f a of Some b \<Rightarrow> (Returns [], b) | None \<Rightarrow> (Panics, a))"

section \<open>Panels of the main view\<close>

definition tab_panel :: "bool \<Rightarrow> focused_panel \<Rightarrow> focused_panel" where
  "tab_panel status p =
     (case p of
        InputPanel \<Rightarrow> ConversationPanel
      | ConversationPanel \<Rightarrow> if status then StatusBarPanel else InputPanel
      | StatusBarPanel \<Rightarrow> InputPanel)"

definition shift_tab_panel :: "bool \<Rightarrow> focused_panel \<Rightarrow> focused_panel" where
  "shift_tab_panel status p =
     (case p of
        InputPanel \<Rightarrow> if status then StatusBarPanel else ConversationPanel
      | ConversationPanel \<Rightarrow> InputPanel
      | StatusBarPanel \<Rightarrow> ConversationPanel)"

definition panel_click :: "('w, 'i, 's, 'c, 'j, 'm) tui_env \<Rightarrow> 16 word \<Rightarrow> 16 word \<Rightarrow> ('w, 'i, 's, 'c, 'j, 'm) tui_app \<Rightarrow>
    ('w, 'i, 's, 'c, 'j, 'm) tui_app" where
  "panel_click V col row a =
     (if in_exit_button col row (tu_view a) then open_exit_dialog V a
      else
        case check_double_click (tv_now_ms V (tu_world a)) col row (tu_view a) of
          (double, v) \<Rightarrow>
            let b = a\<lparr>tu_view := v\<rparr> in
            if \<not> double then b
            else if in_conversation_area col row v then b\<lparr>tu_mode := ConversationFullscreen\<rparr>
            else if in_input_area col row v then b\<lparr>tu_mode := InputFullscreen\<rparr>
            else b)"

text \<open>The mouse over the main view, the same while an answer is awaited; nothing for another event.\<close>

definition pointer_event :: "('w, 'i, 's, 'c, 'j, 'm) tui_env \<Rightarrow> 'e event \<Rightarrow> ('w, 'i, 's, 'c, 'j, 'm) tui_app \<Rightarrow>
    ('w, 'i, 's, 'c, 'j, 'm) tui_app option" where
  "pointer_event V e a =
     (case (mouse_scroll_up e, mouse_scroll_down e, mouse_click e) of
        (Some (col, row), _) \<Rightarrow> Some (if in_conversation_area col row (tu_view a) then scroll_up 3 a else a)
      | (None, Some (col, row), _) \<Rightarrow> Some (if in_conversation_area col row (tu_view a) then scroll_down 3 a else a)
      | (None, None, Some (col, row)) \<Rightarrow> Some (panel_click V col row a)
      | (None, None, None) \<Rightarrow> None)"

text \<open>The keys that edit the input by words and lines, and those of them after which the completion is looked up.\<close>

definition text_shortcut :: "'e event \<Rightarrow> text_op option" where
  "text_shortcut e =
     (if is_delete_word_backward e then Some EdWordBackspace
      else if is_delete_word_forward e then Some EdWordDelete
      else if is_delete_to_start e then Some EdDeleteToStart
      else if is_delete_to_end e then Some EdDeleteToEnd
      else if is_move_to_line_start e then Some EdLineStart
      else if is_move_to_line_end e then Some EdLineEnd
      else if is_move_to_document_start e then Some EdStart
      else if is_move_to_document_end e then Some EdEnd
      else if is_move_word_backward e then Some EdWordLeft
      else if is_move_word_forward e then Some EdWordRight
      else None)"

definition deletes_text :: "text_op \<Rightarrow> bool" where
  "deletes_text p \<longleftrightarrow> p = EdWordBackspace \<or> p = EdWordDelete \<or> p = EdDeleteToStart \<or> p = EdDeleteToEnd"

definition apply_shortcut :: "('w, 'i, 's, 'c, 'j, 'm) tui_env \<Rightarrow> text_op \<Rightarrow> ('w, 'i, 's, 'c, 'j, 'm) tui_app \<Rightarrow>
    ('w, 'i, 's, 'c, 'j, 'm) tui_app option" where
  "apply_shortcut V p a = (if deletes_text p then update_autocomplete V (edit_input V p a) else Some (edit_input V p a))"

section \<open>The journal in the main view\<close>

definition follow_cursor :: "nat option \<Rightarrow> bool \<Rightarrow> ('w, 'i, 's, 'c, 'j, 'm) tui_app \<Rightarrow> ('w, 'i, 's, 'c, 'j, 'm) tui_app" where
  "follow_cursor i down a =
     (case i of
        None \<Rightarrow> a
      | Some n \<Rightarrow>
          let x = of_nat n; h = visible_height (tu_view a) in
          if x < tu_scroll a then a\<lparr>tu_scroll := x\<rparr>
          else if down \<and> x \<ge> tu_scroll a + h then a\<lparr>tu_scroll := u16_sub x (u16_sub h 1)\<rparr>
          else a)"

definition move_in_journal :: "bool \<Rightarrow> ('w, 'i, 's, 'c, 'j, 'm) tui_app \<Rightarrow> ('w, 'i, 's, 'c, 'j, 'm) tui_app option" where
  "move_in_journal down a =
     do {
       j \<leftarrow> (if down then cursor_next (tu_journal a) else cursor_prev (tu_journal a));
       (i, k) \<leftarrow> cursor_render_index j;
       Some (follow_cursor i down (a\<lparr>tu_journal := k\<rparr>))
     }"

definition in_journal_tree :: "('w, 'i, 's, 'c, 'j, 'm) tui_app \<Rightarrow> bool" where
  "in_journal_tree a \<longleftrightarrow> tu_panel a = ConversationPanel \<and> vw_style (tu_view a) = JournalStyle"

text \<open>The keys of the journal; the outer \<open>None\<close> is another key, the inner one a panic.\<close>

definition journal_key :: "'e event \<Rightarrow> ('w, 'i, 's, 'c, 'j, 'm) tui_app \<Rightarrow> ('w, 'i, 's, 'c, 'j, 'm) tui_app option option" where
  "journal_key e a =
     (let j = tu_journal a in
      if \<not> in_journal_tree a then None
      else if is_journal_cursor_down e then Some (move_in_journal True a)
      else if is_journal_cursor_up e then Some (move_in_journal False a)
      else if is_journal_expand e
      then Some (Some (case cursor j of Some c \<Rightarrow> a\<lparr>tu_journal := expand_node c j\<rparr> | None \<Rightarrow> a))
      else if is_journal_collapse e then Some (Some (a\<lparr>tu_journal := cursor_collapse_or_parent j\<rparr>))
      else if is_enter e
      then Some (case cursor j of
             Some c \<Rightarrow> Some (a\<lparr>tu_journal := toggle_collapse c j\<rparr>)
           | None \<Rightarrow> map_option (\<lambda>k. a\<lparr>tu_journal := k\<rparr>) (cursor_first j))
      else None)"

section \<open>The main view\<close>

definition submit :: "('w, 'i, 's, 'c, 'j, 'm, 'h) desk_env \<Rightarrow> ('w, 'i, 's, 'c, 'j, 'm, 'h) desk \<Rightarrow>
    'j background list ending \<times> ('w, 'i, 's, 'c, 'j, 'm, 'h) desk" where
  "submit D d =
     (case process_message (ds_ai D) (ds_tui D) (ds_commands D) (dk_app d) of
        (r, a) \<Rightarrow> (r, (ds_panels D (input_text (ds_tui D) (dk_app d)) d)\<lparr>dk_app := a\<rparr>))"

definition submit_if_text :: "('w, 'i, 's, 'c, 'j, 'm, 'h) desk_env \<Rightarrow> ('w, 'i, 's, 'c, 'j, 'm, 'h) desk \<Rightarrow>
    'j background list ending \<times> ('w, 'i, 's, 'c, 'j, 'm, 'h) desk" where
  "submit_if_text D d = (if trim (input_text (ds_tui D) (dk_app d)) \<noteq> [] then submit D d else (Returns [], d))"

definition enter_main :: "('w, 'i, 's, 'c, 'j, 'm, 'h) desk_env \<Rightarrow> ('w, 'i, 's, 'c, 'j, 'm, 'h) desk \<Rightarrow>
    'j background list ending \<times> ('w, 'i, 's, 'c, 'j, 'm, 'h) desk" where
  "enter_main D d =
     (if cm_shown (tu_complete (dk_app d))
      then (case autocomplete_accept (ds_tui D) False (dk_app d) of
              Some a \<Rightarrow> submit_if_text D (d\<lparr>dk_app := a\<rparr>)
            | None \<Rightarrow> (Panics, d))
      else submit_if_text D d)"

definition open_session_picker :: "('w, 'i, 's, 'c, 'j, 'm) tui_env \<Rightarrow> ('w, 'i, 's, 'c, 'j, 'm) tui_app \<Rightarrow>
    ('w, 'i, 's, 'c, 'j, 'm) tui_app" where
  "open_session_picker V a =
     (case tv_list_conversations V (tu_world a) of
        Inr ss \<Rightarrow> a\<lparr>tu_picker := \<lparr>pk_sessions = ss, pk_index = 0, pk_scroll = 0\<rparr>, tu_mode := SessionPicker\<rparr>
      | Inl e \<Rightarrow> set_tui_status V LogError (lit ''Failed to load sessions: '' @ e) a)"

definition open_task_viewer :: "('w, 'i, 's, 'c, 'j, 'm) tui_env \<Rightarrow> ('w, 'i, 's, 'c, 'j, 'm) tui_app \<Rightarrow>
    ('w, 'i, 's, 'c, 'j, 'm) tui_app" where
  "open_task_viewer V a =
     (on_tasks (\<lambda>p. p\<lparr>tk_index := 0, tk_scroll := 0\<rparr>) (refresh_task_tree V a))\<lparr>tu_mode := TaskViewer\<rparr>"

definition open_sub_agents :: "('w, 'i, 's, 'c, 'j, 'm, 'h) desk_env \<Rightarrow> ('w, 'i, 's, 'c, 'j, 'm) tui_app \<Rightarrow>
    ('w, 'i, 's, 'c, 'j, 'm) tui_app option" where
  "open_sub_agents D a =
     map_option (\<lambda>b. b\<lparr>tu_mode := SubAgentViewer\<rparr>)
       (refresh_sub_agent_list (ds_listed D (tu_world a)) (\<lambda>i. so_exists (ds_sockets D) i (tu_world a)) a)"

text \<open>The keys that open another view or change the panels; nothing for another key.\<close>

definition opening_key :: "('w, 'i, 's, 'c, 'j, 'm, 'h) desk_env \<Rightarrow> 'e event \<Rightarrow> ('w, 'i, 's, 'c, 'j, 'm) tui_app \<Rightarrow>
    ('w, 'i, 's, 'c, 'j, 'm) tui_app option option" where
  "opening_key D e a =
     (let V = ds_tui D; B = tv_bindings V; shown = cm_shown (tu_complete a); bar = vw_status_bar_visible (tu_view a) in
      if binding_matches B (lit ''sub_agent_viewer'') e \<and> tu_mode a \<noteq> Waiting then Some (open_sub_agents D a)
      else if binding_matches B (lit ''reverse_search'') e
      then Some (Some (on_search (\<lambda>s. s\<lparr>se_query := []\<rparr>) (a\<lparr>tu_mode := ReverseSearch\<rparr>)))
      else if is_session_picker e then Some (Some (open_session_picker V a))
      else if binding_matches B (lit ''task_viewer'') e then Some (Some (open_task_viewer V a))
      else if is_help e then Some (Some ((set_help (Some hd_new) a)\<lparr>tu_mode := HelpDialog\<rparr>))
      else if is_tab e \<and> \<not> shown then Some (Some (a\<lparr>tu_panel := tab_panel bar (tu_panel a)\<rparr>))
      else if is_shift_tab e \<and> \<not> shown then Some (Some (a\<lparr>tu_panel := shift_tab_panel bar (tu_panel a)\<rparr>))
      else if tu_panel a = StatusBarPanel \<and> keyed (\<lambda>k ms. k = KEnter \<or> k = KChar 32) e then Some (Some (open_exit_dialog V a))
      else if is_fullscreen_toggle e
      then Some (Some (case tu_panel a of
             InputPanel \<Rightarrow> a\<lparr>tu_mode := InputFullscreen\<rparr>
           | ConversationPanel \<Rightarrow> a\<lparr>tu_mode := ConversationFullscreen\<rparr>
           | StatusBarPanel \<Rightarrow> a))
      else if is_view_style_toggle e then Some (Some (toggle_view_style V a))
      else if is_shift_enter e then Some (Some (edit_input V EdNewline a))
      else None)"

definition arrow_key :: "('w, 'i, 's, 'c, 'j, 'm) tui_env \<Rightarrow> bool \<Rightarrow> ('w, 'i, 's, 'c, 'j, 'm) tui_app \<Rightarrow>
    ('w, 'i, 's, 'c, 'j, 'm) tui_app" where
  "arrow_key V up a =
     (if cm_shown (tu_complete a)
      then a\<lparr>tu_complete := (if up then autocomplete_prev else autocomplete_next) (tu_complete a)\<rparr>
      else if tu_panel a \<noteq> InputPanel then (if up then scroll_up 1 a else scroll_down 1 a)
      else if is_multiline_input V a \<and> \<not> (if up then cursor_on_first_line V a else cursor_on_last_line V a)
      then edit_input V (if up then EdUp else EdDown) a
      else if up then navigate_history_up V a else navigate_history_down V a)"

definition page_key :: "('w, 'i, 's, 'c, 'j, 'm) tui_env \<Rightarrow> bool \<Rightarrow> ('w, 'i, 's, 'c, 'j, 'm) tui_app \<Rightarrow>
    ('w, 'i, 's, 'c, 'j, 'm) tui_app" where
  "page_key V up a =
     (if tu_panel a = InputPanel \<and> is_multiline_input V a then edit_input V (if up then EdPageUp else EdPageDown) a
      else if up then scroll_up 10 a else scroll_down 10 a)"

definition editing_key :: "('w, 'i, 's, 'c, 'j, 'm) tui_env \<Rightarrow> 'e event \<Rightarrow> ('w, 'i, 's, 'c, 'j, 'm) tui_app \<Rightarrow>
    ('w, 'i, 's, 'c, 'j, 'm) tui_app option" where
  "editing_key V e a =
     (if is_up e then Some (arrow_key V True a)
      else if is_down e then Some (arrow_key V False a)
      else if is_page_up e then Some (page_key V True a)
      else if is_page_down e then Some (page_key V False a)
      else
        case text_shortcut e of
          Some p \<Rightarrow> apply_shortcut V p a
        | None \<Rightarrow>
            if is_backspace e then backspace_and_complete V a
            else (case e of Key k ms \<Rightarrow> type_and_complete V k a | _ \<Rightarrow> Some a))"

definition normal_event :: "('w, 'i, 's, 'c, 'j, 'm, 'h) desk_env \<Rightarrow> 'e event \<Rightarrow> ('w, 'i, 's, 'c, 'j, 'm, 'h) desk \<Rightarrow>
    'j background list ending \<times> ('w, 'i, 's, 'c, 'j, 'm, 'h) desk" where
  "normal_event D e d =
     (let V = ds_tui D; a = dk_app d in
      case e of
        event.Paste t \<Rightarrow> with_app (plainly (handle_paste V t)) d
      | _ \<Rightarrow>
          case pointer_event V e a of
            Some b \<Rightarrow> (Returns [], d\<lparr>dk_app := b\<rparr>)
          | None \<Rightarrow>
              (case opening_key D e a of
                 Some r \<Rightarrow> with_app (or_panic (\<lambda>_. r)) d
               | None \<Rightarrow>
                   (case journal_key e a of
                      Some r \<Rightarrow> with_app (or_panic (\<lambda>_. r)) d
                    | None \<Rightarrow> if is_enter e then enter_main D d else with_app (or_panic (editing_key V e)) d)))"

section \<open>Waiting for an answer\<close>

definition queue_input :: "('w, 'i, 's, 'c, 'j, 'm) tui_env \<Rightarrow> ('w, 'i, 's, 'c, 'j, 'm) tui_app \<Rightarrow>
    ('w, 'i, 's, 'c, 'j, 'm) tui_app" where
  "queue_input V a =
     (if trim (input_text V a) = [] then a
      else
        let b = a\<lparr>tu_queued := tu_queued a @ [input_text V a]\<rparr> in
        clear_input V (set_tui_status V LogInfo (lit ''Message queued ('' @ show_nat (length (tu_queued b)) @ lit '' pending)'') b))"

definition waiting_key :: "('w, 'i, 's, 'c, 'j, 'm) tui_env \<Rightarrow> key_code \<Rightarrow> ('w, 'i, 's, 'c, 'j, 'm) tui_app \<Rightarrow>
    ('w, 'i, 's, 'c, 'j, 'm) tui_app" where
  "waiting_key V k a =
     (case k of
        KChar c \<Rightarrow> edit_input V (EdInsert c) a
      | KLeft \<Rightarrow> edit_input V EdLeft a
      | KRight \<Rightarrow> edit_input V EdRight a
      | KHome \<Rightarrow> edit_input V EdLineStart a
      | KEnd \<Rightarrow> edit_input V EdLineEnd a
      | _ \<Rightarrow> a)"

definition waiting_event :: "('w, 'i, 's, 'c, 'j, 'm) tui_env \<Rightarrow> 'e event \<Rightarrow> ('w, 'i, 's, 'c, 'j, 'm) tui_app \<Rightarrow>
    ('w, 'i, 's, 'c, 'j, 'm) tui_app" where
  "waiting_event V e a =
     (case e of
        event.Paste t \<Rightarrow> handle_paste V t a
      | _ \<Rightarrow>
          case pointer_event V e a of
            Some b \<Rightarrow> b
          | None \<Rightarrow>
              if is_escape e then set_tui_status V LogWarn (lit ''Cancel operation? (y/n)'') (a\<lparr>tu_mode := CancelConfirm\<rparr>)
              else if is_enter e then queue_input V a
              else if is_backspace e then edit_input V EdBackspace a
              else if is_move_to_document_start e then edit_input V EdStart a
              else if is_move_to_document_end e then edit_input V EdEnd a
              else (case e of Key k ms \<Rightarrow> waiting_key V k a | _ \<Rightarrow> a))"

section \<open>Full screens\<close>

definition double_click_home :: "('w, 'i, 's, 'c, 'j, 'm) tui_env \<Rightarrow> 16 word \<times> 16 word \<Rightarrow> ('w, 'i, 's, 'c, 'j, 'm) tui_app \<Rightarrow>
    bool \<times> ('w, 'i, 's, 'c, 'j, 'm) tui_app" where
  "double_click_home V p a =
     (case check_double_click (tv_now_ms V (tu_world a)) (fst p) (snd p) (tu_view a) of
        (double, v) \<Rightarrow> (double, if double then a\<lparr>tu_view := v, tu_mode := NormalView\<rparr> else a\<lparr>tu_view := v\<rparr>))"

definition conversation_key :: "('w, 'i, 's, 'c, 'j, 'm, 'h) desk_env \<Rightarrow> 'e event \<Rightarrow> ('w, 'i, 's, 'c, 'j, 'm) tui_app \<Rightarrow>
    ('w, 'i, 's, 'c, 'j, 'm) tui_app" where
  "conversation_key D e a =
     (let V = ds_tui D in
      if is_escape e \<or> is_fullscreen_toggle e then leave_viewer a
      else if is_view_style_toggle e then toggle_view_style V a
      else if is_copy e then copy_conversation V (ds_upper D) (ds_clip D) a
      else if is_toggle_mouse e then toggle_mouse V a
      else if is_up e then scroll_up 1 a
      else if is_down e then scroll_down 1 a
      else if is_page_up e then scroll_up 10 a
      else if is_page_down e then scroll_down 10 a
      else a)"

definition open_git :: "('w, 'i, 's, 'c, 'j, 'm, 'h) desk_env \<Rightarrow> ('w, 'i, 's, 'c, 'j, 'm, 'h) desk \<Rightarrow>
    'j background list ending \<times> ('w, 'i, 's, 'c, 'j, 'm, 'h) desk" where
  "open_git D d =
     (let a = dk_app d in
      case gs_new (ds_git D) (tu_world a) of
        (Inr s, w) \<Rightarrow> (Returns [], d\<lparr>dk_git := Some s, dk_app := a\<lparr>tu_world := w, tu_mode := GitView\<rparr>\<rparr>)
      | (Inl (Fail e), w) \<Rightarrow>
          (Returns [], d\<lparr>dk_app := show_toast (ds_tui D) (lit ''Git not available: '' @ e) 3000 (a\<lparr>tu_world := w\<rparr>)\<rparr>)
      | (Inl Panic, w) \<Rightarrow> (Panics, d))"

definition conversation_event :: "('w, 'i, 's, 'c, 'j, 'm, 'h) desk_env \<Rightarrow> 'e event \<Rightarrow> ('w, 'i, 's, 'c, 'j, 'm, 'h) desk \<Rightarrow>
    'j background list ending \<times> ('w, 'i, 's, 'c, 'j, 'm, 'h) desk" where
  "conversation_event D e d =
     (let V = ds_tui D; a = dk_app d; F = ds_files D in
      if mouse_scroll_up e \<noteq> None then with_app (plainly (scroll_up 3)) d
      else if mouse_scroll_down e \<noteq> None then with_app (plainly (scroll_down 3)) d
      else
        case mouse_click e of
          Some p \<Rightarrow>
            (case double_click_home V p a of
               (double, b) \<Rightarrow> (Returns [], d\<lparr>dk_app := if double then leave_viewer b else b\<rparr>))
        | None \<Rightarrow>
            if binding_matches (tv_bindings V) (lit ''file_explorer'') e
            then (Returns [], d\<lparr>dk_editors := (dk_editors d)\<lparr>pn_explorer := Some
                     (fe_new (tv_lower V) (fv_fs F (tu_world a)) (fv_cwd F (tu_world a)))\<rparr>, dk_app := a\<lparr>tu_mode := ExplorerView\<rparr>\<rparr>)
            else if is_find e then with_app (or_panic (open_find V (ds_regex D) (new_find ConversationView))) d
            else if is_git_scm e then open_git D d
            else with_app (plainly (conversation_key D e)) d)"

definition input_screen_key :: "('w, 'i, 's, 'c, 'j, 'm) tui_env \<Rightarrow> key_code \<Rightarrow> ('w, 'i, 's, 'c, 'j, 'm) tui_app \<Rightarrow>
    ('w, 'i, 's, 'c, 'j, 'm) tui_app" where
  "input_screen_key V k a = (case k of KDelete \<Rightarrow> edit_input V EdDelete a | _ \<Rightarrow> waiting_key V k a)"

definition input_screen_edit :: "('w, 'i, 's, 'c, 'j, 'm) tui_env \<Rightarrow> 'e event \<Rightarrow> ('w, 'i, 's, 'c, 'j, 'm) tui_app \<Rightarrow>
    ('w, 'i, 's, 'c, 'j, 'm) tui_app" where
  "input_screen_edit V e a =
     (if is_up e then (if is_multiline_input V a \<and> \<not> cursor_on_first_line V a then edit_input V EdUp a else a)
      else if is_down e then (if is_multiline_input V a \<and> \<not> cursor_on_last_line V a then edit_input V EdDown a else a)
      else if is_page_up e then edit_input V EdPageUp a
      else if is_page_down e then edit_input V EdPageDown a
      else
        case text_shortcut e of
          Some p \<Rightarrow> edit_input V p a
        | None \<Rightarrow>
            if is_backspace e then edit_input V EdBackspace a
            else (case e of Key k ms \<Rightarrow> input_screen_key V k a | _ \<Rightarrow> a))"

definition input_screen_event :: "('w, 'i, 's, 'c, 'j, 'm, 'h) desk_env \<Rightarrow> 'e event \<Rightarrow> ('w, 'i, 's, 'c, 'j, 'm, 'h) desk \<Rightarrow>
    'j background list ending \<times> ('w, 'i, 's, 'c, 'j, 'm, 'h) desk" where
  "input_screen_event D e d =
     (let V = ds_tui D; a = dk_app d in
      case e of
        event.Paste t \<Rightarrow> with_app (plainly (handle_paste V t)) d
      | _ \<Rightarrow>
          case mouse_click e of
            Some p \<Rightarrow> (Returns [], d\<lparr>dk_app := snd (double_click_home V p a)\<rparr>)
          | None \<Rightarrow>
              if is_find e then with_app (or_panic (open_find V (ds_regex D) (new_find InputView))) d
              else if is_replace e then with_app (or_panic (open_find V (ds_regex D) (new_replace InputView))) d
              else if is_escape e \<or> is_fullscreen_toggle e then (Returns [], d\<lparr>dk_app := a\<lparr>tu_mode := NormalView\<rparr>\<rparr>)
              else if is_shift_enter e then with_app (plainly (edit_input V EdNewline)) d
              else if is_enter e
              then (if trim (input_text V a) \<noteq> [] then submit D (d\<lparr>dk_app := a\<lparr>tu_mode := NormalView\<rparr>\<rparr>) else (Returns [], d))
              else with_app (plainly (input_screen_edit V e)) d)"

section \<open>Dispatch\<close>

definition hotkey_event :: "('w, 'i, 's, 'c, 'j, 'm, 'h) desk_env \<Rightarrow> 'e event \<Rightarrow> ('w, 'i, 's, 'c, 'j, 'm, 'h) desk \<Rightarrow>
    ('w, 'i, 's, 'c, 'j, 'm, 'h) desk" where
  "hotkey_event D e d =
     (case dk_hotkeys d of
        None \<Rightarrow> d\<lparr>dk_app := (dk_app d)\<lparr>tu_mode := NormalView\<rparr>\<rparr>
      | Some h \<Rightarrow>
          (case e of
             Mouse k x y \<Rightarrow> d\<lparr>dk_hotkeys := Some (hk_mouse (ds_hotkeys D) k x y h)\<rparr>
           | Key k ms \<Rightarrow>
               (case hk_key (ds_hotkeys D) k ms h of
                  (HotkeyClose, h') \<Rightarrow> d\<lparr>dk_hotkeys := None, dk_app := (dk_app d)\<lparr>tu_mode := NormalView\<rparr>\<rparr>
                | (HotkeySelected, h') \<Rightarrow>
                    d\<lparr>dk_hotkeys := Some h',
                      dk_app := (case hk_entry (ds_hotkeys D) h' of
                          Some (key, what, ctx) \<Rightarrow>
                            show_toast (ds_tui D) (key @ lit '': '' @ what @ lit '' ['' @ ctx @ lit '']'') 3000 (dk_app d)
                        | None \<Rightarrow> dk_app d)\<rparr>
                | (HotkeyOther, h') \<Rightarrow> d\<lparr>dk_hotkeys := Some h'\<rparr>)
           | _ \<Rightarrow> d))"

definition ask_event :: "'e event \<Rightarrow> ('w, 'i, 's, 'c, 'j, 'm) tui_app \<Rightarrow> ('w, 'i, 's, 'c, 'j, 'm) tui_app" where
  "ask_event e a =
     (case ex_question (tu_extra a) of
        None \<Rightarrow> a\<lparr>tu_mode := NormalView\<rparr>
      | Some p \<Rightarrow>
          (case question_event e p of
             (q, r) \<Rightarrow>
               let b = on_extra (\<lambda>x. x\<lparr>ex_question := q,
                     ex_replies := ex_replies x @ (case r of Some y \<Rightarrow> [y] | None \<Rightarrow> [])\<rparr>) a
               in if q = None then b\<lparr>tu_mode := NormalView\<rparr> else b))"

definition with_editors :: "(('w, 'i, 's, 'c, 'j, 'm) editing \<Rightarrow> ('w, 'i, 's, 'c, 'j, 'm) editing option) \<Rightarrow>
    ('w, 'i, 's, 'c, 'j, 'm, 'h) desk \<Rightarrow> 'j background list ending \<times> ('w, 'i, 's, 'c, 'j, 'm, 'h) desk" where
  "with_editors f d =
     (case f (dk_editors d, dk_app d) of
        Some (x, a) \<Rightarrow> (Returns [], d\<lparr>dk_editors := x, dk_app := a\<rparr>)
      | None \<Rightarrow> (Panics, d))"

definition dispatch :: "('w, 'i, 's, 'c, 'j, 'm, 'h) desk_env \<Rightarrow> 'e event \<Rightarrow> ('w, 'i, 's, 'c, 'j, 'm, 'h) desk \<Rightarrow>
    'j background list ending \<times> ('w, 'i, 's, 'c, 'j, 'm, 'h) desk" where
  "dispatch D e d =
     (let V = ds_tui D in
      case tu_mode (dk_app d) of
        NormalView \<Rightarrow> normal_event D e d
      | ReverseSearch \<Rightarrow> with_app (plainly (search_event V e)) d
      | SessionPicker \<Rightarrow> with_app (\<lambda>a. run_then (picker_event V e a) (\<lambda>_ b. (Returns [], b))) d
      | ConsoleView \<Rightarrow> with_app (plainly (console_event V (ds_clip D) e)) d
      | ShellViewer \<Rightarrow> with_app (plainly (shell_viewer_event e)) d
      | Waiting \<Rightarrow> with_app (plainly (waiting_event V e)) d
      | ConversationFullscreen \<Rightarrow> conversation_event D e d
      | InputFullscreen \<Rightarrow> input_screen_event D e d
      | ToolPicker \<Rightarrow>
          (case tool_picker_event V (ds_modes D) (ds_registry D) e (dk_picker d, dk_app d) of
             (p, a) \<Rightarrow> (Returns [], d\<lparr>dk_picker := p, dk_app := a\<rparr>))
      | TaskViewer \<Rightarrow> with_app (plainly (task_viewer_event V (ds_tasks D) e)) d
      | ExplorerView \<Rightarrow> with_editors (\<lambda>x. Some (explorer_event V (ds_files D) e x)) d
      | NanoView \<Rightarrow> with_editors (nano_event V (ds_files D) e) d
      | GitView \<Rightarrow>
          (case git_event V (ds_git D) e (dk_git d, dk_app d) of
             Some (g, a) \<Rightarrow> (Returns [], d\<lparr>dk_git := g, dk_app := a\<rparr>)
           | None \<Rightarrow> (Panics, d))
      | CancelConfirm \<Rightarrow> with_app (plainly (cancel_confirm_event V e)) d
      | QuestionAnswer \<Rightarrow> with_app (questions_event (ds_ai D) V e) d
      | UserQuestion \<Rightarrow> with_app (plainly (ask_event e)) d
      | FindDialog \<Rightarrow> with_app (or_panic (find_replace_event V (ds_regex D) e)) d
      | FindReplaceDialog \<Rightarrow> with_app (or_panic (find_replace_event V (ds_regex D) e)) d
      | HelpDialog \<Rightarrow> with_app (or_panic (help_event V e)) d
      | SuspendDialog \<Rightarrow> with_app (plainly (suspend_event V e)) d
      | ExitDialog \<Rightarrow> with_app (plainly (exit_event V e)) d
      | HotkeyDialog \<Rightarrow> (Returns [], hotkey_event D e d)
      | ApprovalView \<Rightarrow> with_app (plainly (approval_event V e)) d
      | SudoPasswordDialog \<Rightarrow> with_app (or_panic (sudo_event V e)) d
      | PlanView \<Rightarrow> with_app (or_panic (plan_mode_event V e)) d
      | SubAgentViewer \<Rightarrow> with_app (plainly (sub_agent_event V (ds_sockets D) e)) d)"

definition toggle_console :: "('w, 'i, 's, 'c, 'j, 'm) tui_env \<Rightarrow> ('w, 'i, 's, 'c, 'j, 'm) tui_app \<Rightarrow>
    ('w, 'i, 's, 'c, 'j, 'm) tui_app" where
  "toggle_console V a =
     (if tu_mode a = ConsoleView then a\<lparr>tu_mode := NormalView\<rparr>
      else on_console (co_scroll_down (tv_console V) ((2 ^ 64 - 1) div 2) 100) (clear_unread_errors (a\<lparr>tu_mode := ConsoleView\<rparr>)))"

text \<open>What is handled before the mode is looked at; nothing for another event.\<close>

definition global_event :: "('w, 'i, 's, 'c, 'j, 'm, 'h) desk_env \<Rightarrow> ('j, 'm) agent_event event \<Rightarrow>
    ('w, 'i, 's, 'c, 'j, 'm) tui_app \<Rightarrow> ('w, 'i, 's, 'c, 'j, 'm) tui_app option" where
  "global_event D e a =
     (let V = ds_tui D in
      if is_quit e \<and> tu_mode a \<noteq> ExitDialog then Some (open_exit_dialog V a)
      else
        case e of
          Resize x y \<Rightarrow>
            Some (if vw_bottom_on_resize (tu_view a)
                  then on_tui_view (\<lambda>v. v\<lparr>vw_bottom_on_resize := False, vw_pending_bottom := True\<rparr>) a else a)
        | Ipc m \<Rightarrow> Some (handle_ipc_event (ds_ai D) V m a)
        | IpcDisconnected \<Rightarrow>
            Some ((set_tui_status V LogWarn (lit ''Session disconnected - respawning...'')
                    (log_console V ([9888, 65039] @ lit '' Session connection lost'') a))\<lparr>tu_needs_respawn := True\<rparr>)
        | _ \<Rightarrow>
            if is_suspend e \<and> tu_mode a \<noteq> SuspendDialog
            then Some ((set_suspend (Some (sd_new (tv_box V))) a)\<lparr>tu_mode := SuspendDialog\<rparr>)
            else if binding_matches (tv_bindings V) (lit ''console_view'') e then Some (toggle_console V a)
            else if binding_matches (tv_bindings V) (lit ''plan_mode_toggle'') e
            then Some (if tu_mode a = PlanView then tui_exit_plan_mode V a else tui_enter_plan_mode V None a)
            else None)"

definition handle_event :: "('w, 'i, 's, 'c, 'j, 'm, 'h) desk_env \<Rightarrow> ('j, 'm) agent_event event \<Rightarrow>
    ('w, 'i, 's, 'c, 'j, 'm, 'h) desk \<Rightarrow> (bool \<times> 'j background list) ending \<times> ('w, 'i, 's, 'c, 'j, 'm, 'h) desk" where
  "handle_event D e d =
     (case global_event D e (dk_app d) of
        Some a \<Rightarrow> (Returns (True, []), d\<lparr>dk_app := a\<rparr>)
      | None \<Rightarrow> run_then (dispatch D e d) (\<lambda>bs d'. (Returns (\<not> tu_should_quit (dk_app d'), bs), d')))"


section \<open>Typing while an answer is awaited\<close>

lemma tui_fields_console [simp]:
  "tu_history (log_console V m a) = tu_history a" "tu_messages (log_console V m a) = tu_messages a"
  "tu_sent (log_console V m a) = tu_sent a" "tu_world (log_console V m a) = tu_world a"
  "tu_queued (log_console V m a) = tu_queued a" "tu_mode (log_console V m a) = tu_mode a"
  "tu_input_state (log_console V m a) = tu_input_state a" "tu_prompts (log_console V m a) = tu_prompts a"
  by (simp_all add: log_console_def)

lemma tui_fields_status [simp]:
  "tu_history (set_tui_status V l m a) = tu_history a" "tu_messages (set_tui_status V l m a) = tu_messages a"
  "tu_sent (set_tui_status V l m a) = tu_sent a" "tu_world (set_tui_status V l m a) = tu_world a"
  "tu_queued (set_tui_status V l m a) = tu_queued a" "tu_mode (set_tui_status V l m a) = tu_mode a"
  "tu_input_state (set_tui_status V l m a) = tu_input_state a" "tu_prompts (set_tui_status V l m a) = tu_prompts a"
  by (simp_all add: set_tui_status_def Let_def)

definition same_talk :: "('w, 'i, 's, 'c, 'j, 'm) tui_app \<Rightarrow> ('w, 'i, 's, 'c, 'j, 'm) tui_app \<Rightarrow> bool" where
  "same_talk a b \<longleftrightarrow> tu_history b = tu_history a \<and> tu_messages b = tu_messages a \<and> tu_sent b = tu_sent a \<and> tu_world b = tu_world a
     \<and> tu_prompts b = tu_prompts a \<and> tu_stream b = tu_stream a"

lemma same_talk_trans: "same_talk a b \<Longrightarrow> same_talk b c \<Longrightarrow> same_talk a c"
  by (simp add: same_talk_def)

lemma same_talk_parts [simp]:
  "same_talk a (edit_input V p a)" "same_talk a (clear_input V a)" "same_talk a (show_toast V m n a)" "same_talk a (log_console V m a)"
  "same_talk a (set_tui_status V l m a)" "same_talk a (scroll_up k a)" "same_talk a (scroll_down k a)" "same_talk a (open_exit_dialog V a)"
  "same_talk a a"
  by (simp_all add: same_talk_def edit_input_def clear_input_def show_toast_def on_tui_view_def log_console_def set_tui_status_def
      scroll_up_def scroll_down_def open_exit_dialog_def on_dialogs_def Let_def)

lemma queue_parts [simp]:
  "tu_queued (edit_input V p a) = tu_queued a" "tu_queued (clear_input V a) = tu_queued a" "tu_queued (show_toast V m n a) = tu_queued a"
  "tu_queued (scroll_up k a) = tu_queued a" "tu_queued (scroll_down k a) = tu_queued a" "tu_queued (open_exit_dialog V a) = tu_queued a"
  by (simp_all add: edit_input_def clear_input_def show_toast_def on_tui_view_def scroll_up_def scroll_down_def open_exit_dialog_def
      on_dialogs_def)

lemma panel_click_talk: "same_talk a (panel_click V x y a) \<and> tu_queued (panel_click V x y a) = tu_queued a"
proof (cases "in_exit_button x y (tu_view a)")
  case False
  obtain dbl v where "check_double_click (tv_now_ms V (tu_world a)) x y (tu_view a) = (dbl, v)" by fastforce
  with False show ?thesis by (simp add: panel_click_def same_talk_def Let_def)
qed (simp add: panel_click_def)

lemma pointer_talk: "pointer_event V e a = Some b \<Longrightarrow> same_talk a b \<and> tu_queued b = tu_queued a"
  by (auto simp: pointer_event_def panel_click_talk split: option.splits if_splits)

lemma paste_talk: "same_talk a (handle_paste V t a) \<and> tu_queued (handle_paste V t a) = tu_queued a"
  by (auto simp: handle_paste_def Let_def intro: same_talk_trans [OF same_talk_parts(1) same_talk_parts(3)])

lemma waiting_key_talk: "same_talk a (waiting_key V k a) \<and> tu_queued (waiting_key V k a) = tu_queued a"
  by (simp add: waiting_key_def split: key_code.split)

text \<open>The text that an event appends to the queue.\<close>

definition queued_text :: "('w, 'i, 's, 'c, 'j, 'm) tui_env \<Rightarrow> 'e event \<Rightarrow> ('w, 'i, 's, 'c, 'j, 'm) tui_app \<Rightarrow> rstr list" where
  "queued_text V e a = (if is_enter e \<and> trim (input_text V a) \<noteq> [] then [input_text V a] else [])"

lemma pointer_no_key: "pointer_event V (Key k ms) a = None"
  by (simp add: pointer_event_def mouse_scroll_up_def mouse_scroll_down_def mouse_click_def)

lemma waiting_talk: "same_talk a (waiting_event V e a) \<and> tu_queued (waiting_event V e a) = tu_queued a @ queued_text V e a"
proof (cases e)
  case (Key k ms)
  show ?thesis
    unfolding waiting_event_def Key
    using waiting_key_talk [of a V k]
    by (simp add: pointer_no_key queued_text_def queue_input_def Let_def is_escape_def is_enter_def any_mods_def with_mods_def same_talk_def
        set_tui_status_def log_console_def clear_input_def edit_input_def)
next
  case (Mouse k x y)
  then show ?thesis
    using pointer_talk [of V e a]
    by (auto simp: waiting_event_def queued_text_def is_enter_def is_escape_def any_mods_def with_mods_def is_backspace_def
        is_move_to_document_start_def is_move_to_document_end_def split: option.split)
next
  case (Paste t)
  then show ?thesis using paste_talk [of a V t] by (simp add: waiting_event_def queued_text_def is_enter_def with_mods_def)
qed (auto simp: waiting_event_def queued_text_def is_enter_def is_escape_def any_mods_def with_mods_def is_backspace_def
        is_move_to_document_start_def is_move_to_document_end_def pointer_event_def mouse_scroll_up_def mouse_scroll_down_def
        mouse_click_def)

fun queued_texts :: "('w, 'i, 's, 'c, 'j, 'm) tui_env \<Rightarrow> 'e event list \<Rightarrow> ('w, 'i, 's, 'c, 'j, 'm) tui_app \<Rightarrow> rstr list" where
  "queued_texts V [] a = []"
| "queued_texts V (e # es) a = queued_text V e a @ queued_texts V es (waiting_event V e a)"


section \<open>Control and C, then Escape\<close>

abbreviation quit_key :: "'e event" where "quit_key \<equiv> Key (KChar 99) {Control}"
abbreviation escape_key :: "'e event" where "escape_key \<equiv> Key KEsc {}"

lemma quit_key_simps [simp]: "is_quit quit_key" "\<not> is_quit escape_key" "\<not> is_suspend escape_key" "is_escape escape_key"
  "\<not> is_enter escape_key" "\<not> is_quit (Key KEsc ms)"
  by (simp_all add: is_quit_def is_suspend_def ctrl_def is_escape_def any_mods_def is_enter_def with_mods_def lit_def)

text \<open>Escape is bound to none of the actions that are looked at before a view handles it, as by default.\<close>

definition escape_is_free :: "bindings \<Rightarrow> bool" where
  "escape_is_free B \<longleftrightarrow>
     B (lit ''console_view'') \<noteq> Some (KEsc, {}) \<and> B (lit ''plan_mode_toggle'') \<noteq> Some (KEsc, {}) \<and> B (lit ''file_explorer'') \<noteq> Some (KEsc, {})"

lemma escape_is_free_default: "escape_is_free (map_of default_bindings)"
  by (simp add: escape_is_free_def default_bindings_def lit_def)

lemma escape_unbound:
  assumes "escape_is_free B"
  shows "\<not> binding_matches B (lit ''console_view'') escape_key" "\<not> binding_matches B (lit ''plan_mode_toggle'') escape_key"
    "\<not> binding_matches B (lit ''file_explorer'') escape_key"
  using assms by (auto simp: escape_is_free_def binding_matches_def split: option.splits)

lemma global_escape: "escape_is_free (tv_bindings (ds_tui D)) \<Longrightarrow> global_event D escape_key a = None"
  by (simp add: global_event_def escape_unbound Let_def)

lemma set_exit_twice [simp]: "set_exit x (set_exit y a) = set_exit x a"
  by (simp add: set_exit_def on_dialogs_def)

text \<open>
  C39: Control and C in any view but the exit dialog opens that dialog with the last choice about the chat, and Escape then
  leaves it: of the whole desk only the mode has changed, which is the main view now whatever it was before, and the dialog
  is gone. So neither key loses a message, an edit, a panel or a queued text, but a view that waited for an answer is left.
\<close>

theorem quit_then_escape:
  assumes "tu_mode (dk_app d) \<noteq> ExitDialog" and "escape_is_free (tv_bindings (ds_tui D))"
  shows "\<exists>d1. handle_event D quit_key d = (Returns (True, []), d1)
    \<and> tu_mode (dk_app d1) = ExitDialog
    \<and> dg_exit (tu_dialogs (dk_app d1)) = Some (ed_with_preserve_chat (tv_box (ds_tui D)) (lv_last_preserve (tu_leave (dk_app d))))
    \<and> handle_event D escape_key d1 =
        (Returns (\<not> tu_should_quit (dk_app d), []), d\<lparr>dk_app := (set_exit None (dk_app d))\<lparr>tu_mode := NormalView\<rparr>\<rparr>)"
proof -
  let ?d = "d\<lparr>dk_app := open_exit_dialog (ds_tui D) (dk_app d)\<rparr>"
  have "handle_event D quit_key d = (Returns (True, []), ?d)"
    using assms(1) by (simp add: handle_event_def global_event_def Let_def)
  moreover have "handle_event D escape_key ?d =
      (Returns (\<not> tu_should_quit (dk_app d), []), d\<lparr>dk_app := (set_exit None (dk_app d))\<lparr>tu_mode := NormalView\<rparr>\<rparr>)"
    using global_escape [OF assms(2), of "dk_app ?d"]
    by (simp add: handle_event_def dispatch_def with_app_def plainly_def exit_event_def open_exit_dialog_def on_dialogs_def set_exit_def
        is_suspend_def ctrl_def is_escape_def any_mods_def)
  ultimately show ?thesis by (auto simp: open_exit_dialog_def on_dialogs_def)
qed


section \<open>Escape leads home\<close>

text \<open>How many times Escape is pressed at most until the main view is there again.\<close>

definition explorer_depth :: "editors \<Rightarrow> nat" where
  "explorer_depth x = (case pn_explorer x of Some s \<Rightarrow> if explorer.mode s = explorer_mode.Search then 3 else 2 | None \<Rightarrow> 2)"

definition depth :: "('w, 'i, 's, 'c, 'j, 'm, 'h) desk \<Rightarrow> nat" where
  "depth d =
     (case tu_mode (dk_app d) of
        NormalView \<Rightarrow> 0
      | GitView \<Rightarrow> (case dk_git d of Some s \<Rightarrow> if git_scm.mode s = Browse then 2 else 3 | None \<Rightarrow> 2)
      | ExplorerView \<Rightarrow> explorer_depth (dk_editors d)
      | NanoView \<Rightarrow> Suc (explorer_depth (dk_editors d))
      | FindDialog \<Rightarrow> if dg_find (tu_dialogs (dk_app d)) = None then 1 else 2
      | FindReplaceDialog \<Rightarrow> if dg_find (tu_dialogs (dk_app d)) = None then 1 else 2
      | HelpDialog \<Rightarrow>
          (case dg_help (tu_dialogs (dk_app d)) of
             Some h \<Rightarrow> if hd_focus h = SearchInput \<and> hd_query h \<noteq> [] then 2 else 1
           | None \<Rightarrow> 1)
      | _ \<Rightarrow> 1)"

text \<open>
  The views Escape does not lead out of: an answer is awaited, questions of the model are open, the dialog of hotkeys, which
  is not ours, and a text with unsaved edits. The panel of a view is there.
\<close>

definition escapable :: "('w, 'i, 's, 'c, 'j, 'm, 'h) desk \<Rightarrow> bool" where
  "escapable d \<longleftrightarrow>
     (case tu_mode (dk_app d) of
        Waiting \<Rightarrow> False
      | CancelConfirm \<Rightarrow> False
      | QuestionAnswer \<Rightarrow> False
      | HotkeyDialog \<Rightarrow> False
      | GitView \<Rightarrow> dk_git d \<noteq> None
      | ExplorerView \<Rightarrow> pn_explorer (dk_editors d) \<noteq> None
      | NanoView \<Rightarrow> pn_explorer (dk_editors d) \<noteq> None \<and> (\<exists>p n. pn_nano (dk_editors d) = Some (p, n) \<and> \<not> ne_modified n)
      | _ \<Rightarrow> True)"

lemma depth_le_4: "depth d \<le> 4"
  by (auto simp: depth_def explorer_depth_def split: tui_mode.split option.split)

lemma depth_0: "depth d = 0 \<longleftrightarrow> tu_mode (dk_app d) = NormalView"
  by (auto simp: depth_def explorer_depth_def split: tui_mode.split option.split)

lemma no_mouse_key [simp]: "mouse_scroll_up (Key k ms) = None" "mouse_scroll_down (Key k ms) = None" "mouse_click (Key k ms) = None"
  by (simp_all add: mouse_scroll_up_def mouse_scroll_down_def mouse_click_def)

lemmas escape_tests = is_ctrl_x_def is_save_def is_ctrl_o_def is_delete_to_end_def is_delete_to_start_def is_find_def is_replace_def
  is_git_scm_def ctrl_def is_fullscreen_toggle_def with_mods_def any_mods_def is_help_def is_suspend_def is_quit_def

lemma escape_mode_simps [simp]:
  "tu_mode (on_tui_view f a) = tu_mode a" "tu_mode (on_dialogs g a) = tu_mode a" "tu_mode (on_extra h a) = tu_mode a"
  "tu_mode (on_search k a) = tu_mode a" "tu_mode (tell_session V m a) = tu_mode a" "tu_dialogs (on_tui_view f a) = tu_dialogs a"
  by (simp_all add: on_tui_view_def on_dialogs_def on_extra_def on_search_def tell_session_def write_ipc_def Let_def log_console_def
      split: prod.split)

lemma one_escape:
  assumes "escapable d" and "tu_mode (dk_app d) \<noteq> NormalView" and "escape_is_free (tv_bindings (ds_tui D))"
  shows "\<exists>d'. dispatch D escape_key d = (Returns [], d') \<and> escapable d' \<and> depth d' < depth d"
proof (cases "tu_mode (dk_app d)")
  case ReverseSearch
  then show ?thesis by (simp add: dispatch_def with_app_def plainly_def search_event_def leave_search_def escapable_def depth_def)
next
  case SessionPicker
  then show ?thesis by (simp add: dispatch_def with_app_def picker_event_def escapable_def depth_def)
next
  case ConsoleView
  then show ?thesis
    by (simp add: dispatch_def with_app_def plainly_def console_event_def leave_viewer_def escapable_def depth_def)
next
  case ShellViewer
  then show ?thesis by (simp add: dispatch_def with_app_def plainly_def shell_viewer_event_def escapable_def depth_def)
next
  case ConversationFullscreen
  then show ?thesis
    by (simp add: escape_unbound(3) [OF assms(3)] dispatch_def with_app_def plainly_def conversation_event_def conversation_key_def leave_viewer_def escapable_def depth_def
        Let_def is_find_def is_git_scm_def ctrl_def)
next
  case InputFullscreen
  then show ?thesis
    by (simp add: dispatch_def input_screen_event_def escapable_def depth_def Let_def is_find_def is_replace_def ctrl_def)
next
  case ToolPicker
  then show ?thesis by (simp add: dispatch_def tool_picker_event_def escapable_def depth_def Let_def)
next
  case TaskViewer
  then show ?thesis by (simp add: dispatch_def with_app_def plainly_def task_viewer_event_def escapable_def depth_def)
next
  case ExplorerView
  with assms(1) obtain s where s: "pn_explorer (dk_editors d) = Some s" by (auto simp: escapable_def)
  with ExplorerView show ?thesis
    by (simp add: dispatch_def with_editors_def explorer_event_def explorer_search_key_def exit_search_def on_explorer_def escapable_def
        depth_def explorer_depth_def)
next
  case NanoView
  with assms(1) obtain s p n where "pn_explorer (dk_editors d) = Some s" "pn_nano (dk_editors d) = Some (p, n)" "\<not> ne_modified n"
    by (auto simp: escapable_def)
  with NanoView show ?thesis
    by (simp add: dispatch_def with_editors_def nano_event_def leave_nano_def escapable_def depth_def explorer_depth_def Let_def
        escape_tests)
next
  case GitView
  with assms(1) obtain s where "dk_git d = Some s" by (auto simp: escapable_def)
  with GitView show ?thesis
    by (cases "git_scm.mode s")
       (simp_all add: dispatch_def git_event_def commit_prompt_def confirm_prompt_def clear_messages_def escapable_def depth_def Let_def)
next
  case UserQuestion
  then show ?thesis
    by (simp add: dispatch_def with_app_def plainly_def ask_event_def question_event_def escapable_def depth_def Let_def split: option.split)
next
  case FindDialog
  then show ?thesis
    by (cases "dg_find (tu_dialogs (dk_app d))") (simp_all add: dispatch_def with_app_def or_panic_def find_replace_event_def find_rest_def set_find_def escapable_def depth_def Let_def)
next
  case FindReplaceDialog
  then show ?thesis
    by (cases "dg_find (tu_dialogs (dk_app d))") (simp_all add: dispatch_def with_app_def or_panic_def find_replace_event_def find_rest_def set_find_def escapable_def depth_def Let_def)
next
  case HelpDialog
  then show ?thesis
    by (cases "dg_help (tu_dialogs (dk_app d))") (simp_all add: dispatch_def with_app_def or_panic_def help_event_def set_help_def hd_clear_search_def on_dialogs_def escapable_def
        depth_def Let_def)
next
  case SuspendDialog
  then show ?thesis
    by (cases "dg_suspend (tu_dialogs (dk_app d))") (simp_all add: dispatch_def with_app_def plainly_def suspend_event_def set_suspend_def escapable_def depth_def Let_def)
next
  case ExitDialog
  then show ?thesis
    by (cases "dg_exit (tu_dialogs (dk_app d))") (simp_all add: dispatch_def with_app_def plainly_def exit_event_def set_exit_def escapable_def depth_def Let_def)
next
  case ApprovalView
  show ?thesis
  proof (cases "dg_approval (tu_dialogs (dk_app d))")
    case (Some x)
    obtain had sent x' where "respond DenyOnce x = (had, sent, x')" by (cases "respond DenyOnce x")
    with Some ApprovalView show ?thesis
      by (simp add: dispatch_def with_app_def plainly_def approval_event_def close_approval_def escapable_def depth_def Let_def)
  qed (use ApprovalView in \<open>simp add: dispatch_def with_app_def plainly_def approval_event_def escapable_def depth_def\<close>)
next
  case SudoPasswordDialog
  then show ?thesis
    by (cases "dg_sudo (tu_dialogs (dk_app d))") (simp_all add: dispatch_def with_app_def or_panic_def sudo_event_def close_sudo_def escapable_def depth_def Let_def)
next
  case PlanView
  then show ?thesis
    by (simp add: dispatch_def with_app_def or_panic_def plan_mode_event_def tui_exit_plan_mode_def escapable_def depth_def Let_def)
next
  case SubAgentViewer
  then show ?thesis by (simp add: dispatch_def with_app_def plainly_def sub_agent_event_def escapable_def depth_def)
qed (use assms in \<open>simp_all add: escapable_def\<close>)

definition escape_step :: "('w, 'i, 's, 'c, 'j, 'm, 'h) desk_env \<Rightarrow> ('w, 'i, 's, 'c, 'j, 'm, 'h) desk \<Rightarrow>
    ('w, 'i, 's, 'c, 'j, 'm, 'h) desk" where
  "escape_step D d = snd (handle_event D escape_key d)"

lemma escapes_home:
  fixes d :: "('w, 'i, 's, 'c, 'j, 'm, 'h) desk"
  assumes "escape_is_free (tv_bindings (ds_tui D))" and "escapable d"
  shows "\<exists>n\<le>depth d. tu_mode (dk_app ((escape_step D ^^ n) d)) = NormalView"
  using assms(2)
proof (induction "depth d" arbitrary: d rule: less_induct)
  case less
  show ?case
  proof (cases "tu_mode (dk_app d) = NormalView")
    case True
    then show ?thesis by (intro exI [of _ 0]) simp
  next
    case False
    from one_escape [OF less.prems False assms(1)] obtain d' where
      d': "dispatch D (escape_key :: ('j, 'm) agent_event event) d = (Returns [], d')" "escapable d'" "depth d' < depth d" by blast
    have "escape_step D d = d'"
      using d'(1) global_escape [OF assms(1)] by (simp add: escape_step_def handle_event_def)
    moreover from less.hyps [OF d'(3,2)] obtain n where "n \<le> depth d'" "tu_mode (dk_app ((escape_step D ^^ n) d')) = NormalView" by blast
    ultimately show ?thesis using d'(3) by (intro exI [of _ "Suc n"]) (simp add: funpow_swap1 del: funpow.simps(2) add: funpow_Suc_right)
  qed
qed

text \<open>
  C40: From every view but those that wait for an answer, ask the model's questions, hold unsaved edits or belong to the
  library, at most four presses of Escape lead back to the main view.
\<close>

theorem four_escapes_lead_home:
  assumes "escape_is_free (tv_bindings (ds_tui D))" and "escapable d"
  shows "\<exists>n\<le>4. tu_mode (dk_app ((escape_step D ^^ n) d)) = NormalView"
  using escapes_home [OF assms] depth_le_4 [of d] by (meson le_trans)


section \<open>Ways out of order\<close>

text \<open>
  Control and Z over the exit dialog never reaches its handler: the suspend dialog opens, the choice about the chat made in
  the exit dialog is not kept, and the exit dialog stays behind.
\<close>

lemma suspend_over_exit_dialog:
  assumes "tu_mode (dk_app d) = ExitDialog"
  shows "\<exists>d1. handle_event D (Key (KChar 122) {Control}) d = (Returns (True, []), d1) \<and> tu_mode (dk_app d1) = SuspendDialog
    \<and> tu_leave (dk_app d1) = tu_leave (dk_app d) \<and> dg_exit (tu_dialogs (dk_app d1)) = dg_exit (tu_dialogs (dk_app d))"
  using assms
  by (simp add: handle_event_def global_event_def Let_def is_quit_def is_suspend_def ctrl_def lit_def set_suspend_def on_dialogs_def)

text \<open>
  The console opened and closed in plan mode leads to the main view while the plan's messages are shown; entering plan mode
  again then saves them over the main conversation, which is lost.
\<close>

lemma console_detour_loses_main:
  assumes "tu_mode a = PlanView"
  shows "map_option sc_messages (tu_saved_main (tui_enter_plan_mode V None (toggle_console V (toggle_console V a)))) =
    Some (map to_display (tu_messages a))"
  using assms
  by (simp add: toggle_console_def on_console_def clear_unread_errors_def tui_enter_plan_mode_def plan_at_entry_def tell_session_def
      write_ipc_def set_tui_status_def log_console_def Let_def split: prod.split)

text \<open>A wait for an answer that is left with Control and C and Escape is not taken up again: the main view is shown.\<close>

lemma waiting_is_left:
  assumes "tu_mode (dk_app d) = Waiting" and "escape_is_free (tv_bindings (ds_tui D))"
  shows "\<exists>d1. handle_event D quit_key d = (Returns (True, []), d1)
    \<and> tu_mode (dk_app (snd (handle_event D escape_key d1))) = NormalView \<and> tu_stream (dk_app d1) = tu_stream (dk_app d)"
  using quit_key_simps global_escape [OF assms(2)] assms(1)
  by (simp add: handle_event_def global_event_def Let_def open_exit_dialog_def on_dialogs_def dispatch_def with_app_def plainly_def
      exit_event_def set_exit_def)

section \<open>Witnesses\<close>

definition sample_desk_env :: "(sample_world, rstr, rstr list, bool \<times> bool, unit, unit, unit) desk_env" where
  "sample_desk_env =
     \<lparr>ds_ai = sample_ai_env, ds_tui = sample_tui_env, ds_commands = (\<lambda>n args t a. (Returns True, a)), ds_panels = (\<lambda>t d. d),
      ds_regex = (\<lambda>q c t. None), ds_clip = (\<lambda>t w. (NoClipboard, w)), ds_upper = id,
      ds_tasks = \<lparr>te_status = (\<lambda>i w. None), te_start = (\<lambda>i w. w), te_complete = (\<lambda>i t w. w)\<rparr>,
      ds_files = \<lparr>fv_fs = (\<lambda>w. demo_fs), fv_cwd = (\<lambda>w. demo_home), fv_list = (\<lambda>s. []), fv_len = (\<lambda>p w. None),
        fv_read = (\<lambda>p w. None), fv_write = (\<lambda>p t w. (True, w)), fv_megabytes = show_nat, fv_error = (\<lambda>e. []), fv_shuffle = id\<rparr>,
      ds_git = \<lparr>ge_run = (\<lambda>args dir w. (Inr \<lparr>co_success = False, co_stdout = [], co_stderr = []\<rparr>, w)), ge_now = (\<lambda>w. 0),
        ge_read = (\<lambda>r p w. Inl [])\<rparr>,
      ds_sockets = \<lparr>so_dir = False, so_exists = (\<lambda>i w. False), so_connect = (\<lambda>i w. (None, w)), so_write = (\<lambda>i t w. (None, w))\<rparr>,
      ds_listed = (\<lambda>w. []), ds_modes = \<lparr>tm_of = (\<lambda>c. ()), tm_view = (\<lambda>m. ToolsSmart), tm_name = (\<lambda>m. [])\<rparr>,
      ds_registry = sample_registry,
      ds_hotkeys = \<lparr>hk_mouse = (\<lambda>k x y h. h), hk_key = (\<lambda>k ms h. (HotkeyClose, h)), hk_entry = (\<lambda>h. None)\<rparr>\<rparr>"

text \<open>An editor over the explorer that is being searched.\<close>

definition sample_desk :: "(sample_world, rstr, rstr list, bool \<times> bool, unit, unit, unit) desk" where
  "sample_desk = \<lparr>dk_app = sample_tui\<lparr>tu_mode := NanoView\<rparr>,
     dk_editors = \<lparr>pn_explorer = Some (start_search (fe_new id demo_fs demo_home)), pn_nano = Some ([], nano_on [[]])\<rparr>,
     dk_git = None, dk_picker = None, dk_hotkeys = None\<rparr>"

lemma sample_escape_free: "escape_is_free (tv_bindings (ds_tui sample_desk_env))"
  using escape_is_free_default by (simp add: sample_desk_env_def sample_tui_env_def)

theorem quit_then_escape_witness:
  "\<exists>d1. handle_event sample_desk_env quit_key sample_desk = (Returns (True, []), d1)
    \<and> dk_editors (snd (handle_event sample_desk_env escape_key d1)) = dk_editors sample_desk"
proof -
  have "tu_mode (dk_app sample_desk) \<noteq> ExitDialog" by (simp add: sample_desk_def)
  from quit_then_escape [OF this sample_escape_free] show ?thesis by auto
qed

theorem four_escapes_lead_home_witness:
  "\<exists>n\<le>4. tu_mode (dk_app ((escape_step sample_desk_env ^^ n) sample_desk)) = NormalView"
proof (rule four_escapes_lead_home [OF sample_escape_free])
  show "escapable sample_desk" by (simp add: escapable_def sample_desk_def nano_on_def)
qed

end
