(* ===== verification/Recovery.thy ===== *)
theory Recovery
  imports Prelude
begin

text \<open>
  Retries with exponential backoff, \<^verbatim>\<open>apps/cli/src/utils/recovery.rs\<close>. Delays are \<^verbatim>\<open>u64\<close>
  words. The floating-point product of a delay with the multiplier (kept as a fraction) is the parameter
  \<open>scale\<close>, the sub-second nanoseconds of the clock are \<open>clock\<close>, and an operation is a function of the
  world, \<open>None\<close> when it never returns. The attempt counter is a \<open>nat\<close>: it stays below \<open>max_retries\<close>.
\<close>

section \<open>Configuration\<close>

record recovery_config =
  max_retries :: nat
  initial_delay_ms :: "64 word"
  max_delay_ms :: "64 word"
  backoff_multiplier :: "nat \<times> nat"
  add_jitter :: bool
  retryable_patterns :: "rstr list"

definition default_patterns :: "rstr list" where
  "default_patterns = map lit [''connection refused'', ''connection reset'', ''connection closed'', ''timeout'',
     ''timed out'', ''rate limit'', ''429'', ''503'', ''502'', ''504'', ''temporary'', ''unavailable'',
     ''ECONNRESET'', ''ETIMEDOUT'', ''ECONNREFUSED'']"

definition recovery_default :: recovery_config where
  "recovery_default = \<lparr>max_retries = 3, initial_delay_ms = 100, max_delay_ms = 10000,
     backoff_multiplier = (2, 1), add_jitter = True, retryable_patterns = default_patterns\<rparr>"

definition recovery_quick :: recovery_config where
  "recovery_quick = \<lparr>max_retries = 2, initial_delay_ms = 50, max_delay_ms = 500,
     backoff_multiplier = (2, 1), add_jitter = True, retryable_patterns = default_patterns\<rparr>"

definition recovery_patient :: recovery_config where
  "recovery_patient = \<lparr>max_retries = 5, initial_delay_ms = 500, max_delay_ms = 30000,
     backoff_multiplier = (2, 1), add_jitter = True, retryable_patterns = default_patterns\<rparr>"

definition recovery_aggressive :: recovery_config where
  "recovery_aggressive = \<lparr>max_retries = 10, initial_delay_ms = 100, max_delay_ms = 60000,
     backoff_multiplier = (3, 2), add_jitter = True, retryable_patterns = default_patterns\<rparr>"

definition with_max_retries :: "nat \<Rightarrow> recovery_config \<Rightarrow> recovery_config" where
  "with_max_retries n c = c\<lparr>max_retries := n\<rparr>"

definition with_initial_delay :: "64 word \<Rightarrow> recovery_config \<Rightarrow> recovery_config" where
  "with_initial_delay d c = c\<lparr>initial_delay_ms := d\<rparr>"

definition with_retryable_pattern :: "rstr \<Rightarrow> recovery_config \<Rightarrow> recovery_config" where
  "with_retryable_pattern p c = c\<lparr>retryable_patterns := retryable_patterns c @ [p]\<rparr>"

section \<open>Which errors, which delays\<close>

definition is_retryable :: "(rstr \<Rightarrow> rstr) \<Rightarrow> recovery_config \<Rightarrow> rstr \<Rightarrow> bool" where
  "is_retryable lower c err \<longleftrightarrow> list_ex (\<lambda>p. str_contains (lower err) (lower p)) (retryable_patterns c)"

definition sat_sub64 :: "64 word \<Rightarrow> 64 word \<Rightarrow> 64 word" where
  "sat_sub64 a b = (if b \<le> a then a - b else 0)"

text \<open>\<^verbatim>\<open>saturating_add_signed(j as i64)\<close>.\<close>

definition sat_add_signed :: "64 word \<Rightarrow> 64 word \<Rightarrow> 64 word" where
  "sat_add_signed a j =
     (let s = uint a + sint j in if s < 0 then 0 else if 2 ^ 64 \<le> s then - 1 else word_of_int s)"

definition calculate_delay :: "recovery_config \<Rightarrow> 64 word \<Rightarrow> 64 word \<Rightarrow> 64 word" where
  "calculate_delay c seed base_delay =
     (let delay = min base_delay (max_delay_ms c) in
      if add_jitter c then
        (let jitter_range = delay div 4;
             jitter = (if 0 < jitter_range then sat_sub64 (seed mod (jitter_range * 2)) jitter_range else 0) in
         sat_add_signed delay jitter)
      else delay)"

section \<open>The retry loop\<close>

record 'w runtime =
  rt_lower :: "rstr \<Rightarrow> rstr"
  rt_scale :: "nat \<times> nat \<Rightarrow> 64 word \<Rightarrow> 64 word"
  rt_clock :: "'w \<Rightarrow> 64 word"
  rt_sleep :: "64 word \<Rightarrow> 'w \<Rightarrow> 'w"

definition final_error :: "nat \<Rightarrow> rstr \<Rightarrow> rstr" where
  "final_error attempts msg =
     (if 0 < attempts
      then lit ''Failed after '' @ show_nat attempts @ lit '' retry attempt(s). Last error: '' @ msg
      else msg)"

definition back_off :: "'w runtime \<Rightarrow> recovery_config \<Rightarrow> 64 word \<Rightarrow> 'w \<Rightarrow> 'w" where
  "back_off R c delay w = rt_sleep R (calculate_delay c (rt_clock R w) delay) w"

function retry_from :: "'w runtime \<Rightarrow> recovery_config \<Rightarrow> (nat \<Rightarrow> 'w \<Rightarrow> ((rstr + 'a) \<times> 'w) option) \<Rightarrow>
    nat \<Rightarrow> 64 word \<Rightarrow> 'w \<Rightarrow> ((rstr + 'a) \<times> 'w) option" where
  "retry_from R c op attempts delay w =
     (case op attempts w of
        None \<Rightarrow> None
      | Some (Inr x, w1) \<Rightarrow> Some (Inr x, w1)
      | Some (Inl msg, w1) \<Rightarrow>
          if is_retryable (rt_lower R) c msg \<and> attempts < max_retries c then
            retry_from R c op (attempts + 1) (rt_scale R (backoff_multiplier c) delay) (back_off R c delay w1)
          else Some (Inl (final_error attempts msg), w1))"
  by pat_completeness auto
termination
  by (relation "measure (\<lambda>(R, c, op, attempts, delay, w). max_retries c - attempts)") auto

declare retry_from.simps [simp del]

definition with_retry_context :: "'w runtime \<Rightarrow> recovery_config \<Rightarrow> (nat \<Rightarrow> 'w \<Rightarrow> ((rstr + 'a) \<times> 'w) option) \<Rightarrow>
    'w \<Rightarrow> ((rstr + 'a) \<times> 'w) option" where
  "with_retry_context R c op w = retry_from R c op 0 (initial_delay_ms c) w"

definition with_retry :: "'w runtime \<Rightarrow> recovery_config \<Rightarrow> ('w \<Rightarrow> ((rstr + 'a) \<times> 'w) option) \<Rightarrow>
    'w \<Rightarrow> ((rstr + 'a) \<times> 'w) option" where
  "with_retry R c op w = retry_from R c (\<lambda>n. op) 0 (initial_delay_ms c) w"

definition with_retry_default :: "'w runtime \<Rightarrow> ('w \<Rightarrow> ((rstr + 'a) \<times> 'w) option) \<Rightarrow> 'w \<Rightarrow> ((rstr + 'a) \<times> 'w) option" where
  "with_retry_default R op w = with_retry R recovery_default op w"

section \<open>Delays\<close>

lemma jitter_bound:
  fixes r seed :: "64 word"
  assumes "0 < r" and "unat r * 2 < 2 ^ 64"
  shows "unat (sat_sub64 (seed mod (r * 2)) r) < unat r"
proof -
  have r2: "unat (r * 2) = unat r * 2" using assms(2) by (simp add: unat_word_ariths)
  have "unat (seed mod (r * 2)) < unat r * 2"
    using assms r2 by (simp add: unat_mod_distrib word_gt_0_no unat_gt_0)
  moreover have "0 < unat r" using assms by (simp add: unat_gt_0)
  ultimately show ?thesis
    by (auto simp: sat_sub64_def unat_sub word_le_nat_alt)
qed


lemma sint_small:
  fixes j :: "64 word"
  assumes "unat j < 2 ^ 63"
  shows "sint j = int (unat j)"
proof -
  have "int (unat j) < int (2 ^ 63)" using assms by (rule iffD2 [OF of_nat_less_iff])
  then have "uint j < 2 ^ 63" by simp
  moreover have "- (2 ^ 63) \<le> uint j" by (rule order_trans [of _ 0]) simp_all
  ultimately have "signed_take_bit 63 (uint j) = uint j" by (intro signed_take_bit_int_eq_self)
  then show ?thesis by (simp add: sint_uint)
qed

lemma sat_add_signed_small:
  assumes "unat j < 2 ^ 63" and "unat a + unat j < 2 ^ 64"
  shows "unat (sat_add_signed a j) = unat a + unat j"
proof -
  have s: "uint a + sint j = int (unat a + unat j)" by (simp add: sint_small [OF assms(1)])
  show ?thesis
    unfolding sat_add_signed_def Let_def s using assms(2)
    by (simp add: unat_of_nat take_bit_nat_eq_self flip: of_nat_add)
qed


text \<open>
  The delay before a retry is between the capped base delay and a quarter more. Without jitter it
  is exactly the base delay capped at the maximum; with jitter, whatever the clock, it never is below
  that (the jitter is only positive) and exceeds it by less than a quarter.
\<close>

theorem delay_bounds:
  "let d = unat (min base (max_delay_ms c)); r = unat (calculate_delay c seed base) in
   d \<le> r \<and> r \<le> d + d div 4 \<and> (add_jitter c \<or> r = d)"
proof -
  let ?d = "min base (max_delay_ms c)" and ?q = "min base (max_delay_ms c) div 4"
  have q: "unat ?q = unat ?d div 4" by (simp add: unat_div_distrib)
  have lt: "unat ?d < 2 ^ 64" using unsigned_less [of ?d, where ?'a = nat] by simp
  show ?thesis
  proof (cases "add_jitter c \<and> 0 < ?q")
    case True
    let ?j = "sat_sub64 (seed mod (?q * 2)) ?q"
    have j: "unat ?j < unat ?q"
      using True q lt by (intro jitter_bound) auto
    have "unat ?q < 2 ^ 62" unfolding q using lt by (simp add: div_less_iff_less_mult)
    with j have j63: "unat ?j < 2 ^ 63" by simp
    show ?thesis
    proof (cases "unat ?d + unat ?j < 2 ^ 64")
      case fits: True
      have "calculate_delay c seed base = sat_add_signed ?d ?j"
        using True by (simp add: calculate_delay_def Let_def)
      then show ?thesis
        using sat_add_signed_small [OF j63 fits] j q True by (simp add: Let_def)
    next
      case False
      have "uint ?d + sint ?j \<ge> 2 ^ 64"
      proof -
        have "int (unat ?d + unat ?j) \<ge> int (2 ^ 64)" using False by (simp only: of_nat_le_iff not_less)
        then show ?thesis by (simp add: sint_small [OF j63])
      qed
      then have "calculate_delay c seed base = - 1"
        using True by (simp add: calculate_delay_def Let_def sat_add_signed_def)
      moreover have "unat (- 1 :: 64 word) = 2 ^ 64 - 1" by (simp add: unsigned_minus_1_eq_mask mask_eq_exp_minus_1)
      ultimately show ?thesis using False j q lt True by (simp add: Let_def)
    qed
  next
    case False
    have "sat_add_signed ?d 0 = ?d"
      using sat_add_signed_small [of 0 ?d] lt by (simp add: word_unat_eq_iff)
    with False show ?thesis by (auto simp: calculate_delay_def Let_def)
  qed
qed


section \<open>The result of a retried operation\<close>

text \<open>
  The world in which attempt \<open>k\<close> starts, when the attempts before it all failed with a retryable
  error; otherwise \<open>None\<close>.
\<close>

fun attempt_world :: "'w runtime \<Rightarrow> recovery_config \<Rightarrow> (nat \<Rightarrow> 'w \<Rightarrow> ((rstr + 'a) \<times> 'w) option) \<Rightarrow> 'w \<Rightarrow> nat \<Rightarrow> 'w option" where
  "attempt_world R c op w 0 = Some w"
| "attempt_world R c op w (Suc k) =
     (case attempt_world R c op w k of
        None \<Rightarrow> None
      | Some v \<Rightarrow>
          (case op k v of
             Some (Inl msg, v1) \<Rightarrow>
               if is_retryable (rt_lower R) c msg
               then Some (back_off R c ((rt_scale R (backoff_multiplier c) ^^ k) (initial_delay_ms c)) v1)
               else None
           | _ \<Rightarrow> None))"

text \<open>
  How the loop ends at attempt \<open>k\<close>: with the value of the operation, or with its error when the error
  is not retryable or the attempts are used up.
\<close>

definition ends_at :: "'w runtime \<Rightarrow> recovery_config \<Rightarrow> (nat \<Rightarrow> 'w \<Rightarrow> ((rstr + 'a) \<times> 'w) option) \<Rightarrow> 'w \<Rightarrow> nat \<Rightarrow>
    ((rstr + 'a) \<times> 'w) \<Rightarrow> bool" where
  "ends_at R c op w k result \<longleftrightarrow>
     (case attempt_world R c op w k of
        None \<Rightarrow> False
      | Some v \<Rightarrow>
          (case op k v of
             None \<Rightarrow> False
           | Some (Inr x, v1) \<Rightarrow> result = (Inr x, v1)
           | Some (Inl msg, v1) \<Rightarrow>
               (k = max_retries c \<or> \<not> is_retryable (rt_lower R) c msg)
               \<and> result = (Inl (final_error k msg), v1)))"

lemma retry_from_ends:
  assumes "\<And>n v. op n v \<noteq> None"
  shows "k \<le> max_retries c \<Longrightarrow> attempt_world R c op w k = Some v \<Longrightarrow>
    \<exists>j \<le> max_retries c. \<exists>r. retry_from R c op k ((rt_scale R (backoff_multiplier c) ^^ k) (initial_delay_ms c)) v = Some r
      \<and> ends_at R c op w j r"
proof (induction "max_retries c - k" arbitrary: k v rule: less_induct)
  case less
  let ?d = "(rt_scale R (backoff_multiplier c) ^^ k) (initial_delay_ms c)"
  obtain out v1 where out: "op k v = Some (out, v1)" using assms [of k v] by auto
  show ?case
  proof (cases out)
    case (Inr x)
    then have "retry_from R c op k ?d v = Some (Inr x, v1)" "ends_at R c op w k (Inr x, v1)"
      using out less.prems by (simp_all add: retry_from.simps [of R c op k] ends_at_def)
    with less.prems(1) show ?thesis by blast
  next
    case (Inl msg)
    show ?thesis
    proof (cases "is_retryable (rt_lower R) c msg \<and> k < max_retries c")
      case True
      then have "max_retries c - Suc k < max_retries c - k" by (simp add: diff_less_mono2)
      moreover have "attempt_world R c op w (Suc k) = Some (back_off R c ?d v1)"
        using less.prems(2) out Inl True by simp
      moreover have "retry_from R c op k ?d v
          = retry_from R c op (Suc k) ((rt_scale R (backoff_multiplier c) ^^ Suc k) (initial_delay_ms c)) (back_off R c ?d v1)"
        using out Inl True by (simp add: retry_from.simps [of R c op k])
      ultimately show ?thesis using less.hyps [of "Suc k"] True by fastforce
    next
      case False
      then have "retry_from R c op k ?d v = Some (Inl (final_error k msg), v1)"
        "ends_at R c op w k (Inl (final_error k msg), v1)"
        using out Inl less.prems by (auto simp: retry_from.simps [of R c op k] ends_at_def)
      with less.prems(1) show ?thesis by blast
    qed
  qed
qed

text \<open>
  C13: A retried operation ends, with the right answer. If the operation always returns, the retry loop
  returns after at most \<open>max_retries + 1\<close> attempts: the attempts before the last one all failed with
  a retryable error, each after the backed-off delay, and the result is the value of the last attempt,
  or its error when that is not retryable or no retry is left.
\<close>

theorem retry_ends_with_last_attempt:
  assumes "\<And>v. op v \<noteq> None"
  shows "\<exists>k \<le> max_retries c. \<exists>r. with_retry R c op w = Some r \<and> ends_at R c (\<lambda>n. op) w k r"
  using retry_from_ends [of "\<lambda>n. op" 0 c R w w] assms by (simp add: with_retry_def)

text \<open>An operation that fails twice with a time-out and then answers.\<close>

definition flaky :: "nat \<Rightarrow> ((rstr + nat) \<times> nat) option" where
  "flaky n = Some (if n < 2 then Inl (lit ''timeout'') else Inr n, Suc n)"

definition test_runtime :: "nat runtime" where
  "test_runtime = \<lparr>rt_lower = ascii_lower, rt_scale = \<lambda>m d. d * 2, rt_clock = \<lambda>w. 0, rt_sleep = \<lambda>d w. w\<rparr>"

lemma retry_ends_with_last_attempt_witness:
  "\<exists>k \<le> max_retries recovery_default. \<exists>r. with_retry test_runtime recovery_default flaky 0 = Some r
     \<and> ends_at test_runtime recovery_default (\<lambda>n. flaky) 0 k r"
  by (rule retry_ends_with_last_attempt) (simp add: flaky_def)

end
