(* ===== verification/AgentPool.thy ===== *)
theory AgentPool
  imports Prelude
begin

text \<open>
  The pool of background agents, \<^verbatim>\<open>apps/cli/src/agents/pool.rs\<close>, and the manager of workers,
  \<^verbatim>\<open>apps/cli/src/agents/manager.rs\<close>. The pool is shared: every critical section (one hold of its
  read or write lock) is one step, and the steps of concurrent callers interleave. An agent is known by
  its id; ids are fresh, as version 4 UUIDs are.
\<close>

section \<open>The pool\<close>

datatype 'r agent_state = Running | Finished 'r

text \<open>
  \<open>p_agents\<close> is the shared map. \<open>p_starting\<close> are the agents whose task was started by a caller that
  has not inserted them yet, \<open>p_awaited\<close> those a caller took out of the map to await them, \<open>p_used\<close> all
  ids ever given, \<open>p_released\<close> the ids whose locks the pool released.
\<close>

record 'r pool =
  p_max :: nat
  p_agents :: "rstr \<rightharpoonup> 'r agent_state"
  p_starting :: "rstr \<rightharpoonup> 'r agent_state"
  p_awaited :: "rstr \<rightharpoonup> 'r agent_state"
  p_used :: "rstr set"
  p_released :: "rstr set"

definition pool_new :: "nat \<Rightarrow> 'r pool" where
  "pool_new n = \<lparr>p_max = n, p_agents = Map.empty, p_starting = Map.empty, p_awaited = Map.empty,
     p_used = {}, p_released = {}\<rparr>"

definition active_count :: "'r pool \<Rightarrow> nat" where
  "active_count p = card (dom (p_agents p))"

text \<open>The two halves of \<^verbatim>\<open>spawn_agent\<close>: the check under the read lock with the start, the insert.\<close>

definition spawn_check :: "rstr \<Rightarrow> 'r pool \<Rightarrow> rstr + 'r pool" where
  "spawn_check i p =
     (if p_max p \<le> active_count p
      then Inl (lit ''Agent pool is full ('' @ show_nat (active_count p) @ lit ''/'' @ show_nat (p_max p) @ lit '')'')
      else Inr (p\<lparr>p_starting := (p_starting p)(i \<mapsto> Running), p_used := insert i (p_used p)\<rparr>))"

definition spawn_insert :: "rstr \<Rightarrow> 'r pool \<Rightarrow> 'r pool" where
  "spawn_insert i p = p\<lparr>p_agents := (p_agents p)(i := p_starting p i), p_starting := (p_starting p)(i := None)\<rparr>"

definition spawn_agent :: "rstr \<Rightarrow> 'r pool \<Rightarrow> rstr + 'r pool" where
  "spawn_agent i p = (case spawn_check i p of Inl e \<Rightarrow> Inl e | Inr p1 \<Rightarrow> Inr (spawn_insert i p1))"

definition not_found :: "rstr \<Rightarrow> rstr" where
  "not_found i = lit ''Agent '' @ i @ lit '' not found''"

definition stop_agent :: "rstr \<Rightarrow> 'r pool \<Rightarrow> rstr + 'r pool" where
  "stop_agent i p =
     (if p_agents p i = None then Inl (not_found i)
      else Inr (p\<lparr>p_agents := (p_agents p)(i := None), p_released := insert i (p_released p)\<rparr>))"

text \<open>\<^verbatim>\<open>await_completion\<close> first takes the handle out of the map, then waits for the task.\<close>

definition await_take :: "rstr \<Rightarrow> 'r pool \<Rightarrow> rstr + 'r pool" where
  "await_take i p =
     (if p_agents p i = None then Inl (not_found i)
      else Inr (p\<lparr>p_agents := (p_agents p)(i := None), p_awaited := (p_awaited p)(i := p_agents p i)\<rparr>))"

definition await_result :: "rstr \<Rightarrow> 'r pool \<Rightarrow> ('r \<times> 'r pool) option" where
  "await_result i p =
     (case p_awaited p i of
        Some (Finished r) \<Rightarrow> Some (r, p\<lparr>p_awaited := (p_awaited p)(i := None)\<rparr>)
      | _ \<Rightarrow> None)"

definition is_running :: "rstr \<Rightarrow> 'r pool \<Rightarrow> bool" where
  "is_running i p \<longleftrightarrow> (case p_agents p i of Some Running \<Rightarrow> True | _ \<Rightarrow> False)"

text \<open>\<^verbatim>\<open>cleanup_completed\<close>: find the finished agents, then remove each and collect its result.\<close>

definition finished_ids :: "rstr list \<Rightarrow> 'r pool \<Rightarrow> rstr list" where
  "finished_ids order p = filter (\<lambda>i. case p_agents p i of Some (Finished r) \<Rightarrow> True | _ \<Rightarrow> False) order"

definition cleanup_one :: "rstr \<Rightarrow> 'r pool \<Rightarrow> 'r option \<times> 'r pool" where
  "cleanup_one i p =
     (case p_agents p i of
        Some (Finished r) \<Rightarrow> (Some r, p\<lparr>p_agents := (p_agents p)(i := None)\<rparr>)
      | _ \<Rightarrow> (None, p))"

fun cleanup_all :: "rstr list \<Rightarrow> 'r pool \<Rightarrow> (rstr \<times> 'r) list \<times> 'r pool" where
  "cleanup_all [] p = ([], p)"
| "cleanup_all (i # is) p =
     (case cleanup_one i p of
        (r, p1) \<Rightarrow>
          (case cleanup_all is p1 of
             (rs, p2) \<Rightarrow> ((case r of Some x \<Rightarrow> [(i, x)] | None \<Rightarrow> []) @ rs, p2)))"

definition cleanup_completed :: "rstr list \<Rightarrow> 'r pool \<Rightarrow> (rstr \<times> 'r) list \<times> 'r pool" where
  "cleanup_completed order p = cleanup_all (finished_ids order p) p"

definition shutdown :: "'r pool \<Rightarrow> 'r pool" where
  "shutdown p = p\<lparr>p_agents := Map.empty, p_released := p_released p \<union> dom (p_agents p)\<rparr>"

record pool_stats =
  st_max_agents :: nat
  st_total_agents :: nat
  st_running :: nat
  st_completed :: nat
  st_failed :: nat

definition pool_stats_of :: "rstr list \<Rightarrow> 'r pool \<Rightarrow> pool_stats" where
  "pool_stats_of order p =
     \<lparr>st_max_agents = p_max p, st_total_agents = active_count p,
      st_running = length (filter (\<lambda>i. is_running i p) order),
      st_completed = length (finished_ids order p), st_failed = 0\<rparr>"

text \<open>A task ends by itself, wherever its handle is.\<close>

definition finish_in :: "rstr \<Rightarrow> 'r \<Rightarrow> (rstr \<rightharpoonup> 'r agent_state) \<Rightarrow> (rstr \<rightharpoonup> 'r agent_state)" where
  "finish_in i r m = (if m i = Some Running then m(i \<mapsto> Finished r) else m)"

definition task_ends :: "rstr \<Rightarrow> 'r \<Rightarrow> 'r pool \<Rightarrow> 'r pool" where
  "task_ends i r p = p\<lparr>p_agents := finish_in i r (p_agents p), p_starting := finish_in i r (p_starting p),
     p_awaited := finish_in i r (p_awaited p)\<rparr>"

section \<open>The steps of concurrent callers\<close>

text \<open>\<open>c\<close> bounds how many callers are between the two halves of a spawn.\<close>

inductive pool_step :: "nat \<Rightarrow> 'r pool \<Rightarrow> 'r pool \<Rightarrow> bool" for c :: nat where
  Check: "i \<notin> p_used p \<Longrightarrow> card (dom (p_starting p)) < c \<Longrightarrow> spawn_check i p = Inr q \<Longrightarrow> pool_step c p q"
| Insert: "i \<in> dom (p_starting p) \<Longrightarrow> pool_step c p (spawn_insert i p)"
| Stop: "stop_agent i p = Inr q \<Longrightarrow> pool_step c p q"
| Take: "await_take i p = Inr q \<Longrightarrow> pool_step c p q"
| Await: "await_result i p = Some (r, q) \<Longrightarrow> pool_step c p q"
| Clean: "cleanup_one i p = (Some r, q) \<Longrightarrow> pool_step c p q"
| Shutdown: "pool_step c p (shutdown p)"
| Ends: "pool_step c p (task_ends i r p)"

inductive_cases pool_stepE: "pool_step c p q"

inductive pool_reach :: "nat \<Rightarrow> nat \<Rightarrow> 'r pool \<Rightarrow> bool" for c n where
  init: "pool_reach c n (pool_new n)"
| step: "pool_reach c n p \<Longrightarrow> pool_step c p q \<Longrightarrow> pool_reach c n q"

text \<open>Well-formed pools: finite maps over used ids, an agent is in at most one of them.\<close>

definition pool_wf :: "'r pool \<Rightarrow> bool" where
  "pool_wf p \<longleftrightarrow> finite (dom (p_agents p)) \<and> finite (dom (p_starting p)) \<and> finite (dom (p_awaited p))
     \<and> dom (p_agents p) \<inter> dom (p_starting p) = {} \<and> dom (p_agents p) \<inter> dom (p_awaited p) = {}
     \<and> dom (p_starting p) \<inter> dom (p_awaited p) = {}
     \<and> dom (p_agents p) \<union> dom (p_starting p) \<union> dom (p_awaited p) \<subseteq> p_used p"

definition in_flight :: "'r pool \<Rightarrow> nat" where
  "in_flight p = card (dom (p_agents p)) + card (dom (p_starting p))"


lemma dom_finish_in [simp]: "dom (finish_in i r m) = dom m"
  by (auto simp: finish_in_def)

lemma pool_wf_new [simp]: "pool_wf (pool_new n)"
  by (simp add: pool_wf_def pool_new_def)

text \<open>The operations that succeed, with the state they leave.\<close>

lemma op_results:
  "spawn_check i p = Inr q \<longleftrightarrow> active_count p < p_max p
     \<and> q = p\<lparr>p_starting := (p_starting p)(i \<mapsto> Running), p_used := insert i (p_used p)\<rparr>"
  "stop_agent i p = Inr q \<longleftrightarrow> p_agents p i \<noteq> None
     \<and> q = p\<lparr>p_agents := (p_agents p)(i := None), p_released := insert i (p_released p)\<rparr>"
  "await_take i p = Inr q \<longleftrightarrow> p_agents p i \<noteq> None
     \<and> q = p\<lparr>p_agents := (p_agents p)(i := None), p_awaited := (p_awaited p)(i := p_agents p i)\<rparr>"
  "await_result i p = Some (r, q) \<longleftrightarrow> p_awaited p i = Some (Finished r)
     \<and> q = p\<lparr>p_awaited := (p_awaited p)(i := None)\<rparr>"
  "cleanup_one i p = (Some r, q) \<longleftrightarrow> p_agents p i = Some (Finished r)
     \<and> q = p\<lparr>p_agents := (p_agents p)(i := None)\<rparr>"
  by (auto simp: spawn_check_def stop_agent_def await_take_def await_result_def cleanup_one_def
      split: option.splits agent_state.splits)

lemma in_dom: "m i \<noteq> None \<Longrightarrow> i \<in> dom m" "m i = Some x \<Longrightarrow> i \<in> dom m"
  by auto

lemma remove_wf: "pool_wf p \<Longrightarrow> pool_wf (p\<lparr>p_agents := (p_agents p)(i := None)\<rparr>)"
  unfolding pool_wf_def by simp blast

lemma pool_wf_released [simp]: "pool_wf (p\<lparr>p_released := x\<rparr>) \<longleftrightarrow> pool_wf p"
  by (simp add: pool_wf_def)

lemma spawn_check_wf:
  assumes "pool_wf p" and "i \<notin> p_used p" and "spawn_check i p = Inr q"
  shows "pool_wf q"
proof -
  from assms(3) have q: "q = p\<lparr>p_starting := (p_starting p)(i \<mapsto> Running), p_used := insert i (p_used p)\<rparr>"
    by (simp add: op_results)
  show ?thesis using assms(1,2) unfolding q pool_wf_def by simp blast
qed

lemma spawn_insert_wf: "pool_wf p \<Longrightarrow> i \<in> dom (p_starting p) \<Longrightarrow> pool_wf (spawn_insert i p)"
  unfolding pool_wf_def spawn_insert_def by (simp add: domIff [of i "p_starting p"]) (auto simp: domIff [symmetric] simp del: domIff)

lemma stop_agent_wf: "pool_wf p \<Longrightarrow> stop_agent i p = Inr q \<Longrightarrow> pool_wf q"
  using remove_wf [of p i] by (simp add: op_results pool_wf_def)

lemma await_take_wf:
  assumes "pool_wf p" and "await_take i p = Inr q"
  shows "pool_wf q"
proof -
  from assms(2) have q: "q = p\<lparr>p_agents := (p_agents p)(i := None), p_awaited := (p_awaited p)(i := p_agents p i)\<rparr>"
    and i: "p_agents p i \<noteq> None" by (simp_all add: op_results)
  from i have d: "dom ((p_awaited p)(i := p_agents p i)) = insert i (dom (p_awaited p))" by auto
  have "i \<in> dom (p_agents p)" using i by (rule in_dom)
  with assms(1) show ?thesis unfolding q pool_wf_def by (simp add: d) blast
qed

lemma await_result_wf: "pool_wf p \<Longrightarrow> await_result i p = Some (r, q) \<Longrightarrow> pool_wf q"
  unfolding pool_wf_def op_results by simp blast

lemma cleanup_one_wf: "pool_wf p \<Longrightarrow> cleanup_one i p = (Some r, q) \<Longrightarrow> pool_wf q"
  using remove_wf [of p i] by (simp add: op_results)

lemma shutdown_wf: "pool_wf p \<Longrightarrow> pool_wf (shutdown p)"
  by (simp add: pool_wf_def shutdown_def)

lemma task_ends_wf: "pool_wf p \<Longrightarrow> pool_wf (task_ends i r p)"
  by (simp add: pool_wf_def task_ends_def)

lemmas pool_wf_intros = spawn_check_wf spawn_insert_wf stop_agent_wf await_take_wf await_result_wf
  cleanup_one_wf shutdown_wf task_ends_wf

lemma pool_step_wf: "pool_step c p q \<Longrightarrow> pool_wf p \<Longrightarrow> pool_wf q"
  by (erule pool_stepE) (blast intro: pool_wf_intros)+

lemma pool_reach_wf: "pool_reach c n p \<Longrightarrow> pool_wf p"
  by (induction rule: pool_reach.induct) (auto intro: pool_step_wf)

lemma pool_step_max: "pool_step c p q \<Longrightarrow> p_max q = p_max p"
  by (erule pool_stepE)
    (simp_all add: op_results spawn_insert_def shutdown_def task_ends_def)

lemma pool_reach_max: "pool_reach c n p \<Longrightarrow> p_max p = n"
  by (induction rule: pool_reach.induct) (auto simp: pool_new_def dest: pool_step_max)



section \<open>The limit on agents\<close>

lemma card_upd_None: "finite (dom m) \<Longrightarrow> i \<in> dom m \<Longrightarrow> card (dom (m(i := None))) = card (dom m) - 1"
  by simp

lemma in_flight_insert:
  assumes "pool_wf p" and "i \<in> dom (p_starting p)"
  shows "in_flight (spawn_insert i p) = in_flight p"
proof -
  have "i \<notin> dom (p_agents p)" using assms by (auto simp: pool_wf_def)
  moreover have "dom ((p_agents p)(i := p_starting p i)) = insert i (dom (p_agents p))"
    using assms(2) by (auto simp: dom_def)
  moreover have "0 < card (dom (p_starting p))"
    using assms by (auto simp: pool_wf_def card_gt_0_iff)
  ultimately show ?thesis
    using assms by (simp add: in_flight_def spawn_insert_def pool_wf_def)
qed

lemma in_flight_check:
  assumes "pool_wf p" and "i \<notin> p_used p" and "spawn_check i p = Inr q"
  shows "in_flight q = Suc (in_flight p)" "card (dom (p_agents p)) < p_max p"
proof -
  have "i \<notin> dom (p_starting p)" using assms(1,2) unfolding pool_wf_def by blast
  with assms show "in_flight q = Suc (in_flight p)" "card (dom (p_agents p)) < p_max p"
    by (simp_all add: op_results in_flight_def pool_wf_def active_count_def)
qed

lemma pool_step_in_flight:
  assumes "pool_step c p q" and "pool_wf p" and "in_flight p \<le> p_max p + c - 1"
  shows "in_flight q \<le> p_max p + c - 1"
  using assms(1)
proof (cases rule: pool_step.cases)
  case (Check i)
  then have "in_flight q = Suc (in_flight p)" and "card (dom (p_agents p)) < p_max p"
    using assms(2) in_flight_check by blast+
  with Check show ?thesis by (simp add: in_flight_def)
next
  case (Insert i)
  then show ?thesis using assms(2,3) by (simp add: in_flight_insert)
next
  case (Ends i r)
  then show ?thesis using assms(3) by (simp add: in_flight_def task_ends_def)
qed (use assms(2,3) in \<open>auto simp: op_results shutdown_def in_flight_def pool_wf_def card_Diff_singleton_if\<close>)

lemma reach_in_flight: "pool_reach c n p \<Longrightarrow> in_flight p \<le> n + c - 1"
proof (induction rule: pool_reach.induct)
  case init
  then show ?case by (simp add: in_flight_def pool_new_def)
next
  case (step p q)
  then show ?case
    using pool_step_in_flight [of c p q] pool_reach_wf pool_reach_max by metis
qed

text \<open>
  C12: The limit holds up to the number of concurrent spawns. When at most \<open>c\<close> callers are inside
  \<^verbatim>\<open>spawn_agent\<close> at any time, no reachable pool has more than \<open>max_agents + c - 1\<close> agents in its map and
  starting; with one caller at a time the limit is exact.
\<close>

theorem pool_limit_with_concurrency:
  assumes "pool_reach c n p"
  shows "active_count p + card (dom (p_starting p)) \<le> n + c - 1"
  using reach_in_flight [OF assms] by (simp add: active_count_def in_flight_def)


lemma pool_limit_with_concurrency_witness:
  "active_count (pool_new 3 :: unit pool) + card (dom (p_starting (pool_new 3 :: unit pool))) \<le> 3 + 1 - 1"
  by (rule pool_limit_with_concurrency) (rule pool_reach.init)

text \<open>Distinct ids, to name any number of agents.\<close>

definition agent_name :: "nat \<Rightarrow> rstr" where
  "agent_name k = replicate k 0"

lemma agent_name_eq [simp]: "agent_name j = agent_name k \<longleftrightarrow> j = k"
  by (metis agent_name_def length_replicate)

text \<open>The pool after \<open>k\<close> callers have passed the check, and after \<open>j\<close> of them have inserted.\<close>

definition raced :: "nat \<Rightarrow> nat \<Rightarrow> nat \<Rightarrow> 'r pool" where
  "raced n k j = (pool_new n)
     \<lparr>p_agents := (\<lambda>i. if i \<in> agent_name ` {..<j} then Some Running else None),
      p_starting := (\<lambda>i. if i \<in> agent_name ` {j..<k} then Some Running else None),
      p_used := agent_name ` {..<k}\<rparr>"

lemma dom_raced [simp]:
  "dom (p_agents (raced n k j)) = agent_name ` {..<j}" "dom (p_starting (raced n k j)) = agent_name ` {j..<k}"
  by (auto simp: raced_def dom_def split: if_splits)

lemma inj_agent_name: "inj_on agent_name A"
  by (simp add: inj_on_def)

lemma raced_check:
  assumes "0 < n" and "k < c"
  shows "pool_step c (raced n k 0) (raced n (Suc k) 0)"
proof (rule pool_step.Check)
  show "agent_name k \<notin> p_used (raced n k 0)" by (auto simp: raced_def)
  show "card (dom (p_starting (raced n k 0))) < c"
    using assms(2) by (simp add: card_image inj_agent_name)
  have "raced n (Suc k) 0 = (raced n k 0)\<lparr>p_starting := (p_starting (raced n k 0))(agent_name k \<mapsto> Running),
      p_used := insert (agent_name k) (p_used (raced n k 0))\<rparr>"
    by (rule pool.equality) (auto simp: raced_def fun_eq_iff less_Suc_eq)
  moreover have "active_count (raced n k 0) < p_max (raced n k 0)"
    using assms(1) by (simp add: active_count_def) (simp add: raced_def pool_new_def)
  ultimately show "spawn_check (agent_name k) (raced n k 0) = Inr (raced n (Suc k) 0)"
    by (simp add: op_results)
qed

lemma raced_insert:
  assumes "j < k"
  shows "pool_step c (raced n k j) (raced n k (Suc j))"
proof -
  have "agent_name j \<in> dom (p_starting (raced n k j))" using assms by simp
  moreover have "spawn_insert (agent_name j) (raced n k j) = raced n k (Suc j)"
    using assms by (intro pool.equality) (auto simp: spawn_insert_def raced_def fun_eq_iff less_Suc_eq)
  ultimately show ?thesis by (metis pool_step.Insert)
qed

text \<open>
  The limit does not hold for concurrent spawns. For every limit of at least one agent and every
  number \<open>k\<close>, \<open>k\<close> callers that check before any of them inserts bring the pool to \<open>k\<close> running agents:
  the check and the insert of \<^verbatim>\<open>spawn_agent\<close> take the lock separately.
\<close>

theorem concurrent_spawns_exceed_limit:
  assumes "0 < n"
  shows "\<exists>p :: 'r pool. pool_reach k n p \<and> active_count p = k"
proof -
  have checks: "pool_reach k n (raced n i 0 :: 'r pool)" if "i \<le> k" for i
    using that
  proof (induction i)
    case 0
    have "raced n 0 0 = (pool_new n :: 'r pool)" by (simp add: raced_def pool_new_def fun_eq_iff)
    then show ?case by (simp add: pool_reach.init)
  next
    case (Suc i)
    then show ?case using raced_check [OF assms, of i k] by (auto intro: pool_reach.step)
  qed
  have "pool_reach k n (raced n k j :: 'r pool)" if "j \<le> k" for j
    using that
  proof (induction j)
    case (Suc j)
    then show ?case using raced_insert [of j k k n] by (auto intro: pool_reach.step)
  qed (use checks in simp)
  from this [of k] show ?thesis
    by (intro exI [of _ "raced n k k"]) (simp add: active_count_def card_image inj_agent_name)
qed

lemma concurrent_spawns_exceed_limit_witness:
  "\<exists>p :: unit pool. pool_reach 9 1 p \<and> active_count p = 9"
  by (rule concurrent_spawns_exceed_limit) simp


section \<open>The manager of workers\<close>

text \<open>
  The orchestrator, the workers and the communication hub are functions over a world; the queue is the
  list of tasks in the order it yields them. \<open>pick\<close> is the worker a hash map iterates first.
\<close>

record ('w, 't, 'r) manager_env =
  me_max_workers :: nat
  me_description :: "'t \<Rightarrow> rstr"
  me_orchestrate :: "rstr \<Rightarrow> 'w \<Rightarrow> (rstr + 'r) \<times> 'w"
  me_work :: "rstr \<Rightarrow> rstr \<Rightarrow> 'w \<Rightarrow> (rstr + 'r) \<times> 'w"
  me_register :: "rstr \<Rightarrow> 'w \<Rightarrow> (rstr + unit) \<times> 'w"
  me_unregister :: "rstr \<Rightarrow> 'w \<Rightarrow> (rstr + unit) \<times> 'w"
  me_request :: "rstr \<Rightarrow> rstr \<Rightarrow> 'w \<Rightarrow> (rstr + unit) \<times> 'w"
  me_pick :: "rstr set \<Rightarrow> 'w \<Rightarrow> rstr"

definition spawn_worker :: "('w, 't, 'r) manager_env \<Rightarrow> rstr \<Rightarrow> rstr set \<Rightarrow> 'w \<Rightarrow> (rstr + rstr) \<times> rstr set \<times> 'w" where
  "spawn_worker M i ws w =
     (if me_max_workers M \<le> card ws
      then (Inl (lit ''Maximum number of workers ('' @ show_nat (me_max_workers M) @ lit '') reached''), ws, w)
      else
        (case me_register M i w of
           (Inl e, w1) \<Rightarrow> (Inl e, insert i ws, w1)
         | (Inr _, w1) \<Rightarrow> (Inr i, insert i ws, w1)))"

definition remove_worker :: "('w, 't, 'r) manager_env \<Rightarrow> rstr \<Rightarrow> rstr set \<Rightarrow> 'w \<Rightarrow> (rstr + unit) \<times> rstr set \<times> 'w" where
  "remove_worker M i ws w = (case me_unregister M i w of (r, w1) \<Rightarrow> (r, ws - {i}, w1))"

definition delegate_to_worker :: "('w, 't, 'r) manager_env \<Rightarrow> rstr \<Rightarrow> rstr \<Rightarrow> rstr set \<Rightarrow> 'w \<Rightarrow> (rstr + 'r) \<times> 'w" where
  "delegate_to_worker M i d ws w =
     (if i \<in> ws then me_work M i d w else (Inl (lit ''Worker '' @ i @ lit '' not found''), w))"

definition delegate_to_any_worker :: "('w, 't, 'r) manager_env \<Rightarrow> rstr \<Rightarrow> rstr set \<Rightarrow> 'w \<Rightarrow> (rstr + 'r) \<times> 'w" where
  "delegate_to_any_worker M d ws w =
     (if ws = {} then (Inl (lit ''No workers available''), w)
      else
        let i = me_pick M ws w in
        (case me_request M i d w of
           (Inl e, w1) \<Rightarrow> (Inl e, w1)
         | (Inr _, w1) \<Rightarrow> me_work M i d w1))"

definition run_queued :: "('w, 't, 'r) manager_env \<Rightarrow> rstr set \<Rightarrow> 't \<Rightarrow> 'w \<Rightarrow> (rstr + 'r) \<times> 'w" where
  "run_queued M ws t w =
     (if ws = {} then me_orchestrate M (me_description M t) w
      else delegate_to_any_worker M (me_description M t) ws w)"

text \<open>The responses or the error, and the tasks that are left in the queue.\<close>

fun process_queue :: "('w, 't, 'r) manager_env \<Rightarrow> rstr set \<Rightarrow> 't list \<Rightarrow> 'w \<Rightarrow> (rstr + 'r list) \<times> 't list \<times> 'w" where
  "process_queue M ws [] w = (Inr [], [], w)"
| "process_queue M ws (t # ts) w =
     (case run_queued M ws t w of
        (Inl e, w1) \<Rightarrow> (Inl e, ts, w1)
      | (Inr r, w1) \<Rightarrow>
          (case process_queue M ws ts w1 of
             (Inl e, q, w2) \<Rightarrow> (Inl e, q, w2)
           | (Inr rs, q, w2) \<Rightarrow> (Inr (r # rs), q, w2)))"

lemma process_queue_append:
  "process_queue M ws (ts @ us) w =
    (case process_queue M ws ts w of
       (Inl e, q, w1) \<Rightarrow> (Inl e, q @ us, w1)
     | (Inr rs, q, w1) \<Rightarrow>
         (case process_queue M ws us w1 of
            (Inl e, q2, w2) \<Rightarrow> (Inl e, q2, w2)
          | (Inr rs2, q2, w2) \<Rightarrow> (Inr (rs @ rs2), q2, w2)))"
  by (induction ts arbitrary: w) (auto split: sum.splits prod.splits)

text \<open>
  A failing task takes finished work with it. When the tasks before \<open>t\<close> succeed with the responses
  \<open>rs\<close> and \<open>t\<close> fails, processing the queue yields only the error of \<open>t\<close>: the responses are lost, and the
  queue has neither the finished tasks nor \<open>t\<close>.
\<close>

theorem failing_task_loses_responses:
  assumes "process_queue M ws ts w = (Inr rs, [], w1)" and "run_queued M ws t w1 = (Inl e, w2)"
  shows "process_queue M ws (ts @ t # us) w = (Inl e, us, w2)"
  using assms by (simp add: process_queue_append)

definition sample_manager :: "(nat, nat, nat) manager_env" where
  "sample_manager = \<lparr>me_max_workers = 2, me_description = \<lambda>t. [t],
     me_orchestrate = \<lambda>d w. (if hd d = 0 then Inl d else Inr (hd d), Suc w), me_work = \<lambda>i d w. (Inr 0, w),
     me_register = \<lambda>i w. (Inr (), w), me_unregister = \<lambda>i w. (Inr (), w), me_request = \<lambda>i d w. (Inr (), w),
     me_pick = \<lambda>ws w. []\<rparr>"

lemma failing_task_loses_responses_witness:
  "process_queue sample_manager {} ([5] @ 0 # [7]) 0 = (Inl [0], [7], 2)"
  by (rule failing_task_loses_responses [where rs = "[5]" and ?w1.0 = 1])
    (simp_all add: sample_manager_def run_queued_def)

end
