(* ===== verification/Orchestrator.thy ===== *)
theory Orchestrator
  imports TaskAgent
begin

text \<open>
  The orchestrator and worker agents and the tools they share:
  \<^verbatim>\<open>apps/cli/src/agents/orchestrator.rs\<close>, \<^verbatim>\<open>agents/worker.rs\<close> and \<^verbatim>\<open>tools/task_manager.rs\<close>. Both agents
  run one loop: ask the provider, stop at a final answer, else run the tools it names and ask again,
  at most \<open>max_iterations\<close> times. They differ in the tool runner (the orchestrator retries, and sends
  \<^verbatim>\<open>task_\<close> tools to the task manager) and in the system prompt. The conversation history belongs to the
  caller's context: it keeps what an aborted run has pushed. Provider, knowledge coordinator, SEAL
  processor, prompt generator and the framework's task manager are parameters over a world; the JSON
  input of a task tool is read through \<open>field\<close>, what serde sees of one member. A call that never
  returns, or a panic, is \<open>None\<close>. The iteration counter is a \<open>nat\<close>: it stops one above the \<^verbatim>\<open>u32\<close>
  limit.
\<close>

section \<open>The loop\<close>

record 't agent_response =
  rp_message :: rstr
  rp_is_complete :: bool
  rp_tasks :: "'t list"
  rp_iterations :: nat

record ('w, 'j, 't) loop_env =
  le_task :: "('w, 't) task_ops"
  le_new_task :: "rstr \<Rightarrow> 'w \<Rightarrow> 't \<times> 'w"
  le_text :: "'j message \<Rightarrow> rstr option"
  le_chat :: "'j message list \<Rightarrow> 'w \<Rightarrow> ((rstr + 'j chat_response) \<times> 'w) option"
  le_run :: "'j tool_use \<Rightarrow> 'w \<Rightarrow> ((rstr + tool_result) \<times> 'w) option"
  le_max :: nat
  le_limit_error :: rstr

type_synonym ('w, 'j) conversation = "'j message list \<times> 'w"

fun run_uses :: "('w, 'j, 't) loop_env \<Rightarrow> 'j tool_use list \<Rightarrow> ('w, 'j) conversation \<Rightarrow>
    ((rstr + unit) \<times> ('w, 'j) conversation) option" where
  "run_uses L [] (h, w) = Some (Inr (), h, w)"
| "run_uses L (tu # tus) (h, w) =
     (case le_run L tu w of
        None \<Rightarrow> None
      | Some (Inl e, w1) \<Rightarrow> Some (Inl e, h, w1)
      | Some (Inr r, w1) \<Rightarrow>
          run_uses L tus (h @ [tool_result_message (tr_id r) (tr_content r) (tr_is_error r)], w1))"

definition is_final :: "'j chat_response \<Rightarrow> bool" where
  "is_final resp \<longleftrightarrow> cr_finish_reason resp \<in> {Some (lit ''end_turn''), Some (lit ''stop'')}
     \<or> extract_tool_uses (cr_message resp) = []"

definition completed :: "('w, 'j, 't) loop_env \<Rightarrow> 'j message \<Rightarrow> 't \<Rightarrow> nat \<Rightarrow> 't agent_response" where
  "completed L m t n =
     (let message_text = (case le_text L m of Some x \<Rightarrow> x | None \<Rightarrow> lit ''Task completed'') in
      \<lparr>rp_message = message_text, rp_is_complete = True, rp_tasks = [to_complete (le_task L) message_text t],
       rp_iterations = n\<rparr>)"

definition exhausted :: "('w, 'j, 't) loop_env \<Rightarrow> 't \<Rightarrow> nat \<Rightarrow> 't agent_response" where
  "exhausted L t n =
     \<lparr>rp_message = lit ''Task failed: exceeded maximum iterations'', rp_is_complete = True,
      rp_tasks = [to_fail (le_task L) (le_limit_error L) t], rp_iterations = n\<rparr>"

function turns :: "('w, 'j, 't) loop_env \<Rightarrow> nat \<Rightarrow> 't \<Rightarrow> ('w, 'j) conversation \<Rightarrow>
    ((rstr + 't agent_response) \<times> ('w, 'j) conversation) option" where
  "turns L n t (h, w) =
     (let n1 = n + 1; t1 = to_increment (le_task L) t in
      if le_max L < n1 then Some (Inr (exhausted L t1 n1), h, w)
      else
        case le_chat L h w of
          None \<Rightarrow> None
        | Some (Inl e, w1) \<Rightarrow> Some (Inl e, h, w1)
        | Some (Inr resp, w1) \<Rightarrow>
            if is_final resp then Some (Inr (completed L (cr_message resp) t1 n1), h, w1)
            else
              case run_uses L (extract_tool_uses (cr_message resp)) (h @ [cr_message resp], w1) of
                None \<Rightarrow> None
              | Some (Inl e, c) \<Rightarrow> Some (Inl e, c)
              | Some (Inr _, c) \<Rightarrow> turns L n1 t1 c)"
  by pat_completeness auto
termination by (relation "measure (\<lambda>(L, n, t, c). le_max L - n)") auto

declare turns.simps [simp del]

definition execute_loop :: "('w, 'j, 't) loop_env \<Rightarrow> rstr \<Rightarrow> ('w, 'j) conversation \<Rightarrow>
    ((rstr + 't agent_response) \<times> ('w, 'j) conversation) option" where
  "execute_loop L d c =
     (case c of (h, w) \<Rightarrow>
        case le_new_task L d w of
          (t, w1) \<Rightarrow> turns L 0 (to_start (le_task L) t) (h @ [user_text d], w1))"

section \<open>The task manager tool\<close>

datatype json_field = FieldAbsent | FieldNull | FieldString rstr | FieldOther

datatype task_priority = LowPriority | NormalPriority | HighPriority | UrgentPriority

fun debug_priority :: "task_priority \<Rightarrow> rstr" where
  "debug_priority LowPriority = lit ''Low''"
| "debug_priority NormalPriority = lit ''Normal''"
| "debug_priority HighPriority = lit ''High''"
| "debug_priority UrgentPriority = lit ''Urgent''"

record task_stats =
  st_total :: nat
  st_pending :: nat
  st_in_progress :: nat
  st_completed :: nat
  st_failed :: nat
  st_blocked :: nat

record ('w, 'r) task_manager =
  tm_create :: "rstr \<Rightarrow> rstr option \<Rightarrow> task_priority \<Rightarrow> 'w \<Rightarrow> (rstr + rstr) \<times> 'w"
  tm_add_subtask :: "rstr \<Rightarrow> rstr \<Rightarrow> 'w \<Rightarrow> (rstr + rstr) \<times> 'w"
  tm_start :: "rstr \<Rightarrow> 'w \<Rightarrow> (rstr + unit) \<times> 'w"
  tm_complete :: "rstr \<Rightarrow> rstr \<Rightarrow> 'w \<Rightarrow> (rstr + unit) \<times> 'w"
  tm_fail :: "rstr \<Rightarrow> rstr \<Rightarrow> 'w \<Rightarrow> (rstr + unit) \<times> 'w"
  tm_add_dependency :: "rstr \<Rightarrow> rstr \<Rightarrow> 'w \<Rightarrow> (rstr + unit) \<times> 'w"
  tm_get :: "rstr \<Rightarrow> 'w \<Rightarrow> 'r option"
  tm_tree :: "rstr \<Rightarrow> 'w \<Rightarrow> 'r list"
  tm_format_tree :: "'w \<Rightarrow> rstr"
  tm_ready :: "'w \<Rightarrow> (rstr \<times> rstr \<times> task_priority) list"
  tm_stats :: "'w \<Rightarrow> task_stats"

record ('w, 'j, 'r) task_tool =
  tk_manager :: "('w, 'r) task_manager"
  tk_store :: "('r \<Rightarrow> rstr \<Rightarrow> 'w \<Rightarrow> (rstr + unit) \<times> 'w) option"
  tk_conversation_id :: "rstr option"
  tk_field :: "'j \<Rightarrow> rstr \<Rightarrow> json_field"
  tk_serde_error :: "'j \<Rightarrow> rstr"
  tk_lower :: "rstr \<Rightarrow> rstr"

text \<open>A save that fails is only printed.\<close>

definition persist_task :: "('w, 'j, 'r) task_tool \<Rightarrow> rstr \<Rightarrow> 'w \<Rightarrow> 'w" where
  "persist_task K i w =
     (case (tk_store K, tk_conversation_id K) of
        (Some save, Some conv) \<Rightarrow>
          (case tm_get (tk_manager K) i w of Some task \<Rightarrow> snd (save task conv w) | None \<Rightarrow> w)
      | _ \<Rightarrow> w)"

text \<open>How serde reads a member declared \<^verbatim>\<open>String\<close>, \<^verbatim>\<open>Option<String>\<close>, and \<^verbatim>\<open>String\<close> with a default.\<close>

definition required :: "('w, 'j, 'r) task_tool \<Rightarrow> 'j \<Rightarrow> rstr \<Rightarrow> rstr + rstr" where
  "required K j k = (case tk_field K j k of FieldString s \<Rightarrow> Inr s | _ \<Rightarrow> Inl (tk_serde_error K j))"

definition optional :: "('w, 'j, 'r) task_tool \<Rightarrow> 'j \<Rightarrow> rstr \<Rightarrow> rstr + rstr option" where
  "optional K j k =
     (case tk_field K j k of
        FieldString s \<Rightarrow> Inr (Some s) | FieldOther \<Rightarrow> Inl (tk_serde_error K j) | _ \<Rightarrow> Inr None)"

definition defaulted :: "('w, 'j, 'r) task_tool \<Rightarrow> 'j \<Rightarrow> rstr \<Rightarrow> rstr \<Rightarrow> rstr + rstr" where
  "defaulted K j k d =
     (case tk_field K j k of
        FieldString s \<Rightarrow> Inr s | FieldAbsent \<Rightarrow> Inr d | _ \<Rightarrow> Inl (tk_serde_error K j))"

definition parse_priority :: "(rstr \<Rightarrow> rstr) \<Rightarrow> rstr \<Rightarrow> task_priority" where
  "parse_priority lower p =
     (let l = lower p in
      if l = lit ''low'' then LowPriority else if l = lit ''normal'' then NormalPriority
      else if l = lit ''high'' then HighPriority else if l = lit ''urgent'' then UrgentPriority
      else NormalPriority)"

text \<open>A manager operation followed, when it succeeded, by saving the tasks it names.\<close>

definition then_persist :: "('w, 'j, 'r) task_tool \<Rightarrow> ('a \<Rightarrow> rstr list) \<Rightarrow> ('a \<Rightarrow> rstr) \<Rightarrow>
    (rstr + 'a) \<times> 'w \<Rightarrow> (rstr + rstr) \<times> 'w" where
  "then_persist K ids text_of res =
     (case res of
        (Inl e, w1) \<Rightarrow> (Inl e, w1)
      | (Inr a, w1) \<Rightarrow> (Inr (text_of a), fold (persist_task K) (ids a) w1))"

definition execute_create_task :: "('w, 'j, 'r) task_tool \<Rightarrow> 'j \<Rightarrow> 'w \<Rightarrow> (rstr + rstr) \<times> 'w" where
  "execute_create_task K j w =
     (case (required K j (lit ''description''), optional K j (lit ''parent_id''),
            defaulted K j (lit ''priority'') (lit ''normal'')) of
        (Inr d, Inr parent, Inr p) \<Rightarrow>
          then_persist K (\<lambda>i. i # (case parent of Some q \<Rightarrow> [q] | None \<Rightarrow> []))
            (\<lambda>i. lit ''Created task '' @ [39] @ d @ [39] @ lit '' with ID: '' @ i)
            (tm_create (tk_manager K) d parent (parse_priority (tk_lower K) p) w)
      | _ \<Rightarrow> (Inl (tk_serde_error K j), w))"

definition execute_add_subtask :: "('w, 'j, 'r) task_tool \<Rightarrow> 'j \<Rightarrow> 'w \<Rightarrow> (rstr + rstr) \<times> 'w" where
  "execute_add_subtask K j w =
     (case (required K j (lit ''parent_id''), required K j (lit ''description'')) of
        (Inr parent, Inr d) \<Rightarrow>
          then_persist K (\<lambda>i. [i, parent])
            (\<lambda>i. lit ''Created subtask '' @ [39] @ d @ [39] @ lit '' with ID: '' @ i @ lit '' under parent '' @ parent)
            (tm_add_subtask (tk_manager K) parent d w)
      | _ \<Rightarrow> (Inl (tk_serde_error K j), w))"

definition execute_start_task :: "('w, 'j, 'r) task_tool \<Rightarrow> 'j \<Rightarrow> 'w \<Rightarrow> (rstr + rstr) \<times> 'w" where
  "execute_start_task K j w =
     (case required K j (lit ''task_id'') of
        Inl e \<Rightarrow> (Inl e, w)
      | Inr i \<Rightarrow> then_persist K (\<lambda>_. [i]) (\<lambda>_. lit ''Started task '' @ i) (tm_start (tk_manager K) i w))"

definition execute_complete_task :: "('w, 'j, 'r) task_tool \<Rightarrow> 'j \<Rightarrow> 'w \<Rightarrow> (rstr + rstr) \<times> 'w" where
  "execute_complete_task K j w =
     (case (required K j (lit ''task_id''), required K j (lit ''summary'')) of
        (Inr i, Inr s) \<Rightarrow>
          then_persist K (\<lambda>_. [i]) (\<lambda>_. lit ''Completed task '' @ i @ lit '': '' @ s)
            (tm_complete (tk_manager K) i s w)
      | _ \<Rightarrow> (Inl (tk_serde_error K j), w))"

definition execute_fail_task :: "('w, 'j, 'r) task_tool \<Rightarrow> 'j \<Rightarrow> 'w \<Rightarrow> (rstr + rstr) \<times> 'w" where
  "execute_fail_task K j w =
     (case (required K j (lit ''task_id''), required K j (lit ''error'')) of
        (Inr i, Inr e) \<Rightarrow>
          then_persist K (\<lambda>_. [i]) (\<lambda>_. lit ''Failed task '' @ i @ lit '': '' @ e)
            (tm_fail (tk_manager K) i e w)
      | _ \<Rightarrow> (Inl (tk_serde_error K j), w))"

definition execute_add_dependency :: "('w, 'j, 'r) task_tool \<Rightarrow> 'j \<Rightarrow> 'w \<Rightarrow> (rstr + rstr) \<times> 'w" where
  "execute_add_dependency K j w =
     (case (required K j (lit ''task_id''), required K j (lit ''depends_on'')) of
        (Inr i, Inr d) \<Rightarrow>
          then_persist K (\<lambda>_. [i]) (\<lambda>_. lit ''Added dependency: '' @ i @ lit '' depends on '' @ d)
            (tm_add_dependency (tk_manager K) i d w)
      | _ \<Rightarrow> (Inl (tk_serde_error K j), w))"

definition execute_get_tree :: "('w, 'j, 'r) task_tool \<Rightarrow> 'j \<Rightarrow> 'w \<Rightarrow> rstr + rstr" where
  "execute_get_tree K j w =
     (let root_id = (case optional K j (lit ''root_id'') of Inr r \<Rightarrow> r | Inl e \<Rightarrow> None) in
      case root_id of
        Some r \<Rightarrow>
          if tm_tree (tk_manager K) r w = [] then Inr (lit ''No tasks found under '' @ r)
          else Inr (tm_format_tree (tk_manager K) w)
      | None \<Rightarrow> Inr (tm_format_tree (tk_manager K) w))"

definition execute_get_ready :: "('w, 'j, 'r) task_tool \<Rightarrow> 'w \<Rightarrow> rstr + rstr" where
  "execute_get_ready K w =
     (let ready = tm_ready (tk_manager K) w in
      if ready = [] then Inr (lit ''No tasks ready to execute'')
      else
        Inr (show_nat (length ready) @ lit '' tasks ready:'' @ [10] @
          concat (map (\<lambda>(i, d, p). lit ''- ['' @ i @ lit ''] '' @ d @ lit '' (priority: '' @ debug_priority p
            @ lit '')'' @ [10]) ready)))"

definition execute_get_stats :: "('w, 'j, 'r) task_tool \<Rightarrow> 'w \<Rightarrow> rstr + rstr" where
  "execute_get_stats K w =
     (let s = tm_stats (tk_manager K) w in
      Inr (join [10] [lit ''Task Statistics:'', lit ''Total: '' @ show_nat (st_total s),
        lit ''Pending: '' @ show_nat (st_pending s), lit ''In Progress: '' @ show_nat (st_in_progress s),
        lit ''Completed: '' @ show_nat (st_completed s), lit ''Failed: '' @ show_nat (st_failed s),
        lit ''Blocked: '' @ show_nat (st_blocked s)]))"

definition task_operation :: "('w, 'j, 'r) task_tool \<Rightarrow> rstr \<Rightarrow> 'j \<Rightarrow> 'w \<Rightarrow> (rstr + rstr) \<times> 'w" where
  "task_operation K n j w =
     (if n = lit ''task_create'' then execute_create_task K j w
      else if n = lit ''task_add_subtask'' then execute_add_subtask K j w
      else if n = lit ''task_start'' then execute_start_task K j w
      else if n = lit ''task_complete'' then execute_complete_task K j w
      else if n = lit ''task_fail'' then execute_fail_task K j w
      else if n = lit ''task_add_dependency'' then execute_add_dependency K j w
      else if n = lit ''task_get_tree'' then (execute_get_tree K j w, w)
      else if n = lit ''task_get_ready'' then (execute_get_ready K w, w)
      else if n = lit ''task_get_stats'' then (execute_get_stats K w, w)
      else (Inl (lit ''Unknown task manager tool: '' @ n), w))"

definition task_tool_execute :: "('w, 'j, 'r) task_tool \<Rightarrow> rstr \<Rightarrow> rstr \<Rightarrow> 'j \<Rightarrow> 'w \<Rightarrow> tool_result \<times> 'w" where
  "task_tool_execute K i n j w =
     (case task_operation K n j w of
        (Inr output, w1) \<Rightarrow> (\<lparr>tr_id = i, tr_content = output, tr_is_error = False\<rparr>, w1)
      | (Inl e, w1) \<Rightarrow> (tool_error i (lit ''Task operation failed: '' @ e), w1))"

section \<open>The worker\<close>

record ('w, 'j, 't) worker =
  wk_task :: "('w, 't) task_ops"
  wk_new_task :: "rstr \<Rightarrow> 'w \<Rightarrow> 't \<times> 'w"
  wk_text :: "'j message \<Rightarrow> rstr option"
  wk_chat :: "'j message list \<Rightarrow> 'w \<Rightarrow> ((rstr + 'j chat_response) \<times> 'w) option"
  wk_max_iterations :: nat

text \<open>
  A successful result longer than 200 bytes is cut at byte 200 for the log line: a panic when that is
  inside a character.
\<close>

definition log_preview :: "tool_result \<Rightarrow> rstr option" where
  "log_preview r =
     (if 200 < blen (tr_content r)
      then map_option (\<lambda>(a, b). a @ lit ''...'') (split_byte 200 (tr_content r))
      else Some (tr_content r))"

definition worker_run_tool :: "('w, 'j, 'k, 'c, 'l, 'g, 'cat) executor \<Rightarrow> 'j tool_context \<Rightarrow> 'j tool_use \<Rightarrow> 'w \<Rightarrow>
    ((rstr + tool_result) \<times> 'w) option" where
  "worker_run_tool E ctx tu w =
     (case execute E tu ctx w of
        None \<Rightarrow> None
      | Some (Inl e, w1) \<Rightarrow> Some (Inl e, w1)
      | Some (Inr r, w1) \<Rightarrow>
          if \<not> tr_is_error r \<and> log_preview r = None then None else Some (Inr r, w1))"

definition worker_loop :: "('w, 'j, 't) worker \<Rightarrow> ('w, 'j, 'k, 'c, 'l, 'g, 'cat) executor \<Rightarrow> 'j tool_context \<Rightarrow>
    ('w, 'j, 't) loop_env" where
  "worker_loop W E ctx =
     \<lparr>le_task = wk_task W, le_new_task = wk_new_task W, le_text = wk_text W, le_chat = wk_chat W,
      le_run = worker_run_tool E ctx, le_max = wk_max_iterations W,
      le_limit_error = lit ''Worker exceeded maximum iterations ('' @ show_nat (wk_max_iterations W) @ lit '')''\<rparr>"

definition worker_execute :: "('w, 'j, 't) worker \<Rightarrow> ('w, 'j, 'k, 'c, 'l, 'g, 'cat) executor \<Rightarrow> 'j tool_context \<Rightarrow>
    rstr \<Rightarrow> ('w, 'j) conversation \<Rightarrow> ((rstr + 't agent_response) \<times> ('w, 'j) conversation) option" where
  "worker_execute W E ctx d c = execute_loop (worker_loop W E ctx) d c"

section \<open>The system prompt of the orchestrator\<close>

definition file_rules :: rstr where
  "file_rules = join [10]
    [lit ''CRITICAL FILE OPERATION RULES:'',
     lit ''1. For small edits to existing files: ALWAYS use edit_file with specific old_text/new_text'',
     lit ''2. NEVER use write_file for large files or when preserving existing content'',
     lit ''3. For adding content to files: Use edit_file to insert at specific locations'',
     lit ''4. Read files first with read_file before making any changes'',
     lit ''5. Be precise - match exact text including whitespace when using edit_file'',
     [],
     lit ''TOOL USAGE:'',
     lit ''- read_file: {\"path\": \"README.md\"} - Read complete file content'',
     lit ''- edit_file: {\"path\": \"README.md\", \"old_text\": \"# Title'' @ [92, 110] @ [92, 110] @ lit ''Existing content\", \"new_text\": \"# Title'' @ [92, 110] @ [92, 110] @ lit ''Hello World'' @ [92, 110] @ [92, 110] @ lit ''Existing content\"} - Edit specific text'',
     lit ''- list_directory: {\"path\": \".\"} - List files'',
     lit ''- bash: {\"command\": \"git status\"} - Run commands'']"

definition exact_match_reminder :: rstr where
  "exact_match_reminder =
     lit ''Remember: edit_file requires EXACT text matching. Include enough surrounding lines to make the match unique.''"

definition response_guidelines :: rstr where
  "response_guidelines = join [10]
    [lit ''RESPONSE GUIDELINES:'',
     lit ''- For questions about code/concepts: Answer directly without tools'',
     lit ''- For file modifications: Use read_file first, then edit_file with precise text matching'',
     lit ''- Be concise and accurate in your tool usage'',
     lit ''- When editing files, include sufficient context in old_text to ensure unique matching'']"

record ('w, 's, 'p) knowledge =
  kn_bks :: "rstr \<Rightarrow> 'w \<Rightarrow> (rstr + rstr option) \<times> 'w"
  kn_pks :: "'s \<Rightarrow> 'w \<Rightarrow> (rstr + rstr option) \<times> 'w"
  kn_observe :: "'s \<Rightarrow> 'w \<Rightarrow> 'w"
  kn_promote :: "'p \<Rightarrow> 'w \<Rightarrow> 'w"

record ('w, 's, 'p) seal =
  sl_context :: "'w \<Rightarrow> rstr"
  sl_process :: "rstr \<Rightarrow> 'w \<Rightarrow> (rstr + 's) \<times> 'w"
  sl_record :: "'s option \<Rightarrow> bool \<Rightarrow> nat \<Rightarrow> 'w \<Rightarrow> 'w"
  sl_promotable :: "'w \<Rightarrow> 'p list"

record ('w, 'v, 's) adaptive =
  ad_embed :: "rstr \<Rightarrow> 'w \<Rightarrow> (rstr + 'v) \<times> 'w"
  ad_generate :: "rstr \<Rightarrow> 'v \<Rightarrow> 's option \<Rightarrow> 'w \<Rightarrow> (rstr + rstr) \<times> 'w"
  ad_remember :: "rstr \<Rightarrow> 'w \<Rightarrow> 'w"

text \<open>
  \<open>os_prompting\<close> is the pair of prompt generator and embedding provider, \<open>None\<close> while either is
  missing. \<open>os_observe\<close> is the entity extraction and dialog bookkeeping of every input.
  \<open>os_resolved\<close> reads the resolved query of a SEAL result, which may be older than the processor.
\<close>

record ('w, 'j, 't, 'r, 's, 'p, 'v, 'e) orchestrator =
  os_task :: "('w, 't) task_ops"
  os_new_task :: "rstr \<Rightarrow> 'w \<Rightarrow> 't \<times> 'w"
  os_text :: "'j message \<Rightarrow> rstr option"
  os_chat :: "rstr \<Rightarrow> 'j message list \<Rightarrow> 'w \<Rightarrow> ((rstr + 'j chat_response) \<times> 'w) option"
  os_max_iterations :: nat
  os_working_directory :: rstr
  os_task_tool :: "('w, 'j, 'r) task_tool"
  os_taxonomy :: "('w, 'e) taxonomy"
  os_observe :: "rstr \<Rightarrow> 'w \<Rightarrow> 'w"
  os_seal :: "('w, 's, 'p) seal option"
  os_knowledge :: "('w, 's, 'p) knowledge option"
  os_use_adaptive_prompts :: bool
  os_prompting :: "('w, 'v, 's) adaptive option"
  os_resolved :: "'s \<Rightarrow> rstr"

definition get_seal_context :: "('w, 'j, 't, 'r, 's, 'p, 'v, 'e) orchestrator \<Rightarrow> 'w \<Rightarrow> rstr" where
  "get_seal_context R w = (case os_seal R of Some s \<Rightarrow> sl_context s w | None \<Rightarrow> [])"

definition learning_section :: "rstr \<Rightarrow> rstr" where
  "learning_section ctx =
     (if ctx = [] then [] else [10, 10] @ lit ''LEARNED PATTERNS (from previous executions):'' @ [10] @ ctx @ [10])"

definition knowledge_sections :: "('w, 'j, 't, 'r, 's, 'p, 'v, 'e) orchestrator \<Rightarrow> 's option \<Rightarrow> rstr \<Rightarrow> 'w \<Rightarrow>
    rstr list \<times> 'w" where
  "knowledge_sections R seal_result q w =
     (case os_knowledge R of
        None \<Rightarrow> ([], w)
      | Some k \<Rightarrow>
          (case kn_bks k q w of
             (bks, w1) \<Rightarrow>
               let b = (case bks of Inr (Some x) \<Rightarrow> [x] | _ \<Rightarrow> []) in
               (case seal_result of
                  None \<Rightarrow> (b, w1)
                | Some s \<Rightarrow>
                    (case kn_pks k s w1 of
                       (pks, w2) \<Rightarrow> (b @ (case pks of Inr (Some x) \<Rightarrow> [x] | _ \<Rightarrow> []), w2)))))"

definition knowledge_section :: "rstr list \<Rightarrow> rstr" where
  "knowledge_section xs = (if xs = [] then [] else [10, 10] @ join [10, 10] xs @ [10])"

definition adaptive_text :: "('w, 'j, 't, 'r, 's, 'p, 'v, 'e) orchestrator \<Rightarrow> rstr \<Rightarrow> 's option \<Rightarrow> 'w \<Rightarrow>
    rstr option \<times> 'w" where
  "adaptive_text R q seal_result w =
     (if os_use_adaptive_prompts R then
        (case os_prompting R of
           None \<Rightarrow> (None, w)
         | Some a \<Rightarrow>
             let task_desc = (case seal_result of Some s \<Rightarrow> os_resolved R s | None \<Rightarrow> q) in
             (case ad_embed a task_desc w of
                (Inl e, w1) \<Rightarrow> (None, w1)
              | (Inr v, w1) \<Rightarrow>
                  (case ad_generate a task_desc v seal_result w1 of
                     (Inl e, w2) \<Rightarrow> (None, w2)
                   | (Inr p, w2) \<Rightarrow> (Some p, ad_remember a p w2))))
      else (None, w))"

definition build_system_prompt :: "('w, 'j, 't, 'r, 's, 'p, 'v, 'e) orchestrator \<Rightarrow> rstr \<Rightarrow> 's option \<Rightarrow> rstr \<Rightarrow> rstr \<Rightarrow>
    'w \<Rightarrow> rstr \<times> 'w" where
  "build_system_prompt R q seal_result learning knowledge w =
     (case adaptive_text R q seal_result w of
        (Some p, w1) \<Rightarrow>
          (p @ [10, 10] @ lit ''Current working directory: '' @ os_working_directory R @ [10, 10] @ file_rules
           @ [10, 10] @ exact_match_reminder @ learning @ knowledge, w1)
      | (None, w1) \<Rightarrow>
          (lit ''You are an autonomous coding assistant.'' @ [10] @ lit ''Current working directory: ''
           @ os_working_directory R @ learning @ knowledge @ [10, 10] @ file_rules @ [10, 10]
           @ response_guidelines @ [10, 10] @ exact_match_reminder, w1))"

definition orch_call_provider :: "('w, 'j, 't, 'r, 's, 'p, 'v, 'e) orchestrator \<Rightarrow> 's option \<Rightarrow> rstr \<Rightarrow> 'j message list \<Rightarrow>
    'w \<Rightarrow> ((rstr + 'j chat_response) \<times> 'w) option" where
  "orch_call_provider R seal_result q h w =
     (let learning = learning_section (get_seal_context R w) in
      case knowledge_sections R seal_result q w of
        (xs, w1) \<Rightarrow>
          (case build_system_prompt R q seal_result learning (knowledge_section xs) w1 of
             (p, w2) \<Rightarrow> os_chat R p h w2))"

section \<open>The orchestrator\<close>

definition orch_run_tool :: "('w, 'j, 't, 'r, 's, 'p, 'v, 'e) orchestrator \<Rightarrow> ('w, 'j, 'k, 'c, 'l, 'g, 'cat) executor \<Rightarrow>
    'j tool_context \<Rightarrow> 'j tool_use \<Rightarrow> 'w \<Rightarrow> ((rstr + tool_result) \<times> 'w) option" where
  "orch_run_tool R E ctx tu w =
     (if starts ''task_'' (tu_name tu)
      then Some (apfst Inr (task_tool_execute (os_task_tool R) (tu_id tu) (tu_name tu) (tu_input tu) w))
      else map_option (apfst (map_sum id fst)) (execute_with_retry E (os_taxonomy R) tu ctx w))"

definition orch_loop :: "('w, 'j, 't, 'r, 's, 'p, 'v, 'e) orchestrator \<Rightarrow> ('w, 'j, 'k, 'c, 'l, 'g, 'cat) executor \<Rightarrow>
    'j tool_context \<Rightarrow> 's option \<Rightarrow> rstr \<Rightarrow> ('w, 'j, 't) loop_env" where
  "orch_loop R E ctx seal_result q =
     \<lparr>le_task = os_task R, le_new_task = os_new_task R, le_text = os_text R,
      le_chat = orch_call_provider R seal_result q, le_run = orch_run_tool R E ctx,
      le_max = os_max_iterations R,
      le_limit_error = lit ''Max iterations ('' @ show_nat (os_max_iterations R) @ lit '') reached''\<rparr>"

definition execute_internal :: "('w, 'j, 't, 'r, 's, 'p, 'v, 'e) orchestrator \<Rightarrow> ('w, 'j, 'k, 'c, 'l, 'g, 'cat) executor \<Rightarrow>
    'j tool_context \<Rightarrow> rstr \<Rightarrow> 's option \<Rightarrow> ('w, 'j) conversation \<Rightarrow>
    ((rstr + 't agent_response) \<times> ('w, 'j) conversation) option" where
  "execute_internal R E ctx q seal_result c = execute_loop (orch_loop R E ctx seal_result q) q c"

definition preprocess_input :: "('w, 'j, 't, 'r, 's, 'p, 'v, 'e) orchestrator \<Rightarrow> rstr \<Rightarrow> 'w \<Rightarrow>
    (rstr \<times> 's option) \<times> 'w" where
  "preprocess_input R i w =
     (let w1 = os_observe R i w in
      case os_seal R of
        None \<Rightarrow> ((i, None), w1)
      | Some s \<Rightarrow>
          (case sl_process s i w1 of
             (Inr res, w2) \<Rightarrow> ((os_resolved R res, Some res), w2)
           | (Inl e, w2) \<Rightarrow> ((i, None), w2)))"

definition check_pattern_promotion :: "('w, 'j, 't, 'r, 's, 'p, 'v, 'e) orchestrator \<Rightarrow> 'w \<Rightarrow> 'w" where
  "check_pattern_promotion R w =
     (case (os_seal R, os_knowledge R) of
        (Some s, Some k) \<Rightarrow> fold (kn_promote k) (sl_promotable s w) w
      | _ \<Rightarrow> w)"

definition record_seal_outcome :: "('w, 'j, 't, 'r, 's, 'p, 'v, 'e) orchestrator \<Rightarrow> 's option \<Rightarrow> bool \<Rightarrow> nat \<Rightarrow> 'w \<Rightarrow> 'w" where
  "record_seal_outcome R seal_result success n w =
     (let w1 = (case os_seal R of Some s \<Rightarrow> sl_record s seal_result success n w | None \<Rightarrow> w) in
      case (seal_result, os_knowledge R) of
        (Some res, Some k) \<Rightarrow> check_pattern_promotion R (kn_observe k res w1)
      | _ \<Rightarrow> w1)"

definition execute_with_seal :: "('w, 'j, 't, 'r, 's, 'p, 'v, 'e) orchestrator \<Rightarrow> ('w, 'j, 'k, 'c, 'l, 'g, 'cat) executor \<Rightarrow>
    'j tool_context \<Rightarrow> rstr \<Rightarrow> ('w, 'j) conversation \<Rightarrow>
    ((rstr + 't agent_response) \<times> ('w, 'j) conversation) option" where
  "execute_with_seal R E ctx d c =
     (case c of (h, w) \<Rightarrow>
        case preprocess_input R d w of
          ((q, seal_result), w1) \<Rightarrow>
            (case execute_internal R E ctx q seal_result (h, w1) of
               Some (Inr r, h2, w2) \<Rightarrow> Some (Inr r, h2, record_seal_outcome R seal_result (rp_is_complete r) 1 w2)
             | out \<Rightarrow> out))"

section \<open>What a run leaves in the context\<close>

text \<open>
  A round is an assistant message that names tools and one tool result for each call; a broken round
  has fewer results than calls.
\<close>

definition round_ok :: "'j message list \<Rightarrow> bool" where
  "round_ok ms = (case ms of [] \<Rightarrow> False
     | m # rs \<Rightarrow> extract_tool_uses m \<noteq> [] \<and> length rs = length (extract_tool_uses m) \<and> list_all is_tool_result rs)"

definition round_broken :: "'j message list \<Rightarrow> bool" where
  "round_broken ms = (case ms of [] \<Rightarrow> False
     | m # rs \<Rightarrow> length rs < length (extract_tool_uses m) \<and> list_all is_tool_result rs)"

lemma run_uses_history:
  "run_uses L tus (h, w) = Some (out, h1, w1) \<Longrightarrow>
   \<exists>rs. h1 = h @ rs \<and> list_all is_tool_result rs
     \<and> (case out of Inr _ \<Rightarrow> length rs = length tus | Inl _ \<Rightarrow> length rs < length tus)"
proof (induction tus arbitrary: h w)
  case (Cons tu tus)
  then show ?case
  proof (cases "le_run L tu w")
    case (Some p)
    show ?thesis
    proof (cases p)
      case (Pair o1 w2)
      show ?thesis
      proof (cases o1)
        case (Inr r)
        let ?m = "tool_result_message (tr_id r) (tr_content r) (tr_is_error r)"
        from Cons.prems Some Pair Inr have "run_uses L tus (h @ [?m], w2) = Some (out, h1, w1)"
          by simp
        from Cons.IH [OF this] obtain rs where
          "h1 = (h @ [?m]) @ rs" "list_all is_tool_result rs"
          "case out of Inr _ \<Rightarrow> length rs = length tus | Inl _ \<Rightarrow> length rs < length tus" by blast
        then show ?thesis by (intro exI [where x = "?m # rs"]) (simp split: sum.splits)
      qed (use Cons.prems Some Pair in auto)
    qed
  qed simp
qed auto

text \<open>\<open>rounds_of n out rs\<close>: what a run that began at iteration \<open>n\<close> and ended with \<open>out\<close> appends.\<close>

definition rounds_of :: "nat \<Rightarrow> rstr + 't agent_response \<Rightarrow> 'j message list list \<Rightarrow> bool" where
  "rounds_of n out rs =
     (case out of
        Inr r \<Rightarrow> list_all round_ok rs \<and> n + length rs + 1 = rp_iterations r
      | Inl e \<Rightarrow> \<exists>oks b. rs = oks @ b \<and> list_all round_ok oks \<and> (b = [] \<or> length b = 1 \<and> list_all round_broken b))"

lemma rounds_of_nil: "rounds_of n (Inl e) []" "rp_iterations r = n + 1 \<Longrightarrow> rounds_of n (Inr r) []"
  by (auto simp: rounds_of_def)

lemma rounds_of_broken: "round_broken b \<Longrightarrow> rounds_of n (Inl e) [b]"
  unfolding rounds_of_def by (simp, intro exI [where x = "[]"] exI [where x = "[b]"]) simp

lemma rounds_of_Cons: "round_ok b \<Longrightarrow> rounds_of (n + 1) out rs \<Longrightarrow> rounds_of n out (b # rs)"
proof (cases out)
  case (Inl e)
  assume b: "round_ok b" and "rounds_of (n + 1) out rs"
  then obtain oks c where "rs = oks @ c" "list_all round_ok oks"
    "c = [] \<or> length c = 1 \<and> list_all round_broken c" by (auto simp: rounds_of_def Inl)
  with b show ?thesis
    by (simp add: rounds_of_def Inl) (intro exI [where x = "b # oks"] exI [where x = c], simp)
qed (simp add: rounds_of_def)

lemma turns_history:
  "turns L n t (h, w) = Some (out, h1, w1) \<Longrightarrow>
   \<exists>rs. h1 = h @ concat rs \<and> rounds_of n out rs \<and> (\<forall>r. out = Inr r \<longrightarrow> rp_iterations r \<le> max (n + 1) (le_max L + 1))"
proof (induction "le_max L - n" arbitrary: n t h w rule: less_induct)
  case less
  show ?case
  proof (cases "le_max L < n + 1")
    case True
    with less.prems show ?thesis
      by (subst (asm) turns.simps) (auto simp: exhausted_def Let_def intro!: exI [where x = "[]"] rounds_of_nil)
  next
    case False
    show ?thesis
    proof (cases "\<exists>resp w2. le_chat L h w = Some (Inr resp, w2) \<and> \<not> is_final resp")
      case True
      then obtain resp w2 where c: "le_chat L h w = Some (Inr resp, w2)" "\<not> is_final resp" by blast
      let ?m = "cr_message resp"
      from less.prems False c obtain o2 h2 w3 where
        u: "run_uses L (extract_tool_uses ?m) (h @ [?m], w2) = Some (o2, h2, w3)"
        by (subst (asm) turns.simps) (auto simp: Let_def split: option.splits)
      from run_uses_history [OF this] obtain rs where
        rs: "h2 = (h @ [?m]) @ rs" "list_all is_tool_result rs"
          "case o2 of Inr _ \<Rightarrow> length rs = length (extract_tool_uses ?m)
             | Inl _ \<Rightarrow> length rs < length (extract_tool_uses ?m)" by blast
      show ?thesis
      proof (cases o2)
        case (Inl e)
        with less.prems False c u rs show ?thesis
          by (subst (asm) turns.simps)
            (auto simp: Let_def round_broken_def intro!: exI [where x = "[?m # rs]"] rounds_of_broken)
      next
        case (Inr x)
        with less.prems False c u have
          t: "turns L (n + 1) (to_increment (le_task L) t) (h2, w3) = Some (out, h1, w1)"
          by (subst (asm) turns.simps) (simp add: Let_def)
        have "le_max L - (n + 1) < le_max L - n" using False by simp
        from less.hyps [OF this t] obtain rs' where
          "h1 = h2 @ concat rs'" "rounds_of (n + 1) out rs'"
          "\<forall>r. out = Inr r \<longrightarrow> rp_iterations r \<le> max (n + 1 + 1) (le_max L + 1)" by blast
        moreover have "round_ok (?m # rs)"
          using rs Inr c(2) by (simp add: round_ok_def is_final_def)
        ultimately show ?thesis
          using rs False by (intro exI [where x = "(?m # rs) # rs'"]) (auto intro: rounds_of_Cons)
      qed
    next
      case noround: False
      with less.prems False show ?thesis
        by (subst (asm) turns.simps)
          (auto simp: Let_def completed_def intro!: exI [where x = "[]"] rounds_of_nil
            split: option.splits sum.splits if_splits)
    qed
  qed
qed

lemma run_uses_returns:
  assumes "\<And>tu w. le_run L tu w \<noteq> None"
  shows "\<exists>out h1 w1. run_uses L tus (h, w) = Some (out, h1, w1)"
proof (induction tus arbitrary: h w)
  case (Cons tu tus)
  obtain o1 w1 where "le_run L tu w = Some (o1, w1)" using assms [of tu w] by auto
  then show ?case using Cons.IH by (cases o1) auto
qed simp

lemma turns_returns:
  assumes "\<And>tu w. le_run L tu w \<noteq> None" and "\<And>h w. le_chat L h w \<noteq> None"
  shows "\<exists>out h1 w1. turns L n t (h, w) = Some (out, h1, w1)"
proof (induction "le_max L - n" arbitrary: n t h w rule: less_induct)
  case less
  obtain o1 w1 where c: "le_chat L h w = Some (o1, w1)" using assms(2) [of h w] by auto
  have *: "\<exists>out h1 w1. (case run_uses L tus (k, w2) of None \<Rightarrow> None | Some (Inl e, c) \<Rightarrow> Some (Inl e, c)
      | Some (Inr _, c) \<Rightarrow> turns L (Suc n) (to_increment (le_task L) t) c) = Some (out, h1, w1)"
    if "Suc n \<le> le_max L" for tus k w2
    using run_uses_returns [OF assms(1), of tus k w2] that less.hyps [of "Suc n"]
    by (fastforce split: sum.splits)
  then show ?case
    by (subst turns.simps) (use c * in \<open>auto simp: Let_def not_less split: sum.split\<close>)
qed

lemma orch_chat_returns:
  assumes "\<And>p h w. os_chat R p h w \<noteq> None"
  shows "orch_call_provider R sr q h w \<noteq> None"
  using assms by (simp add: orch_call_provider_def Let_def split: prod.splits)

lemma orch_run_returns:
  assumes "\<And>tu w. execute_with_retry E (os_taxonomy R) tu ctx w \<noteq> None"
  shows "orch_run_tool R E ctx tu w \<noteq> None"
  using assms [of tu w] by (auto simp: orch_run_tool_def)


definition sample_task_manager :: "(nat, nat) task_manager" where
  "sample_task_manager = \<lparr>tm_create = \<lambda>d p q w. (Inr (lit ''t1''), Suc w), tm_add_subtask = \<lambda>p d w. (Inr (lit ''t2''), Suc w),
     tm_start = \<lambda>i w. (Inr (), w), tm_complete = \<lambda>i s w. (Inr (), w), tm_fail = \<lambda>i e w. (Inr (), w),
     tm_add_dependency = \<lambda>i d w. (Inr (), w), tm_get = \<lambda>i w. Some w, tm_tree = \<lambda>i w. [w], tm_format_tree = \<lambda>w. lit ''all'',
     tm_ready = \<lambda>w. [], tm_stats = \<lambda>w. \<lparr>st_total = w, st_pending = 0, st_in_progress = 0, st_completed = 0,
       st_failed = 0, st_blocked = 0\<rparr>\<rparr>"

definition sample_task_tool :: "(nat, unit, nat) task_tool" where
  "sample_task_tool = \<lparr>tk_manager = sample_task_manager, tk_store = None, tk_conversation_id = None,
     tk_field = \<lambda>j k. FieldString (lit ''x''), tk_serde_error = \<lambda>j. lit ''invalid'', tk_lower = ascii_lower\<rparr>"

text \<open>A provider that names a task tool each time it is asked; its SEAL processor counts failures.\<close>

definition eager_response :: "unit chat_response" where
  "eager_response = \<lparr>cr_message = \<lparr>m_role = AssistantRole,
       m_content = Blocks [ToolUseBlock (lit ''1'') (lit ''task_get_stats'') ()]\<rparr>,
     cr_finish_reason = Some (lit ''tool_use''), cr_total_tokens = 7\<rparr>"

definition counting_seal :: "(nat, unit, unit) seal" where
  "counting_seal = \<lparr>sl_context = \<lambda>w. [], sl_process = \<lambda>i w. (Inr (), w),
     sl_record = \<lambda>s ok n w. if ok then w else Suc w, sl_promotable = \<lambda>w. []\<rparr>"

definition sample_orchestrator :: "(nat, unit, nat, nat, unit, unit, unit, nat) orchestrator" where
  "sample_orchestrator = \<lparr>os_task = sample_task_ops, os_new_task = \<lambda>d w. (0, w), os_text = \<lambda>m. None,
     os_chat = \<lambda>p h w. Some (Inr eager_response, w), os_max_iterations = 2, os_working_directory = lit ''/'',
     os_task_tool = sample_task_tool, os_taxonomy = one_retry\<lparr>tx_retryable := \<lambda>e. False\<rparr>, os_observe = \<lambda>i w. w, os_seal = Some counting_seal,
     os_knowledge = None, os_use_adaptive_prompts = False, os_prompting = None, os_resolved = \<lambda>s. lit ''x''\<rparr>"

lemmas sample_orchestrator_defs = sample_orchestrator_def counting_seal_def eager_response_def

lemma unretried_returns:
  assumes "execute E tu ctx w \<noteq> None" and "\<And>e. \<not> tx_retryable X e"
  shows "execute_with_retry E X tu ctx w \<noteq> None"
  using assms unfolding execute_with_retry_def
  by (subst retry_loop.simps) (auto simp: Let_def split: sum.splits)


section \<open>What SEAL learns\<close>

lemma run_uses_succeeds:
  "\<forall>tu\<in>set tus. \<forall>v. \<exists>r w1. le_run L tu v = Some (Inr r, w1) \<Longrightarrow>
   \<exists>h1 w1. run_uses L tus (h, w) = Some (Inr (), h1, w1)"
proof (induction tus arbitrary: h w)
  case (Cons tu tus)
  then obtain r w1 where "le_run L tu w = Some (Inr r, w1)" by (meson list.set_intros(1))
  with Cons show ?case by simp
qed simp

lemma turns_exhaust:
  assumes "\<And>h w. \<exists>resp w1. le_chat L h w = Some (Inr resp, w1) \<and> \<not> is_final resp
      \<and> (\<forall>tu\<in>set (extract_tool_uses (cr_message resp)). \<forall>v. \<exists>r w2. le_run L tu v = Some (Inr r, w2))"
    and "n \<le> le_max L"
  shows "\<exists>t1 h1 w1. turns L n t (h, w) = Some (Inr (exhausted L t1 (le_max L + 1)), h1, w1)"
  using assms(2)
proof (induction "le_max L - n" arbitrary: n t h w rule: less_induct)
  case less
  show ?case
  proof (cases "n = le_max L")
    case True
    then show ?thesis by (subst turns.simps) (auto simp: Let_def)
  next
    case False
    obtain resp w1 where c: "le_chat L h w = Some (Inr resp, w1)" "\<not> is_final resp"
      "\<forall>tu\<in>set (extract_tool_uses (cr_message resp)). \<forall>v. \<exists>r w2. le_run L tu v = Some (Inr r, w2)"
      using assms(1) [of h w] by blast
    obtain h2 w2 where "run_uses L (extract_tool_uses (cr_message resp)) (h @ [cr_message resp], w1) = Some (Inr (), h2, w2)"
      using run_uses_succeeds [OF c(3)] by blast
    then show ?thesis
      using c(1,2) False less.prems less.hyps [of "Suc n" "to_increment (le_task L) t" h2 w2]
      by (subst turns.simps) (simp add: Let_def)
  qed
qed

text \<open>
  SEAL learns failures as successes. When the model names tools until the iteration limit, the
  run reports that its task failed, but the response is marked complete, and that flag is recorded as
  the outcome: the learning processor is told that the query succeeded.
\<close>

theorem exhaustion_recorded_as_success:
  assumes "\<And>p h w. \<exists>resp w1. os_chat R p h w = Some (Inr resp, w1) \<and> \<not> is_final resp
      \<and> (\<forall>tu\<in>set (extract_tool_uses (cr_message resp)). \<forall>v. \<exists>r w2. orch_run_tool R E ctx tu v = Some (Inr r, w2))"
  shows "\<exists>r h1 w1. execute_with_seal R E ctx d (h, w)
      = Some (Inr r, h1, record_seal_outcome R (snd (fst (preprocess_input R d w))) True 1 w1)
    \<and> rp_message r = lit ''Task failed: exceeded maximum iterations''
    \<and> rp_iterations r = os_max_iterations R + 1"
proof -
  obtain q sr w0 where p: "preprocess_input R d w = ((q, sr), w0)" by (metis surj_pair)
  let ?L = "orch_loop R E ctx sr q"
  obtain t w1 where t: "os_new_task R q w0 = (t, w1)" by force
  have "\<exists>resp w1. le_chat ?L k v = Some (Inr resp, w1) \<and> \<not> is_final resp
      \<and> (\<forall>tu\<in>set (extract_tool_uses (cr_message resp)). \<forall>v. \<exists>r w2. le_run ?L tu v = Some (Inr r, w2))" for k v
    using assms by (simp add: orch_loop_def orch_call_provider_def Let_def split: prod.splits)
  from turns_exhaust [OF this, of 0 "to_start (os_task R) t" "h @ [user_text q]" w1]
  obtain t1 h2 w2 where
    "turns ?L 0 (to_start (os_task R) t) (h @ [user_text q], w1)
      = Some (Inr (exhausted ?L t1 (os_max_iterations R + 1)), h2, w2)"
    by (auto simp: orch_loop_def)
  moreover have "le_task ?L = os_task R" "le_new_task ?L = os_new_task R" by (simp_all add: orch_loop_def)
  ultimately show ?thesis
    by (simp add: execute_with_seal_def p execute_internal_def execute_loop_def t)
      (auto simp: exhausted_def)
qed

lemma exhaustion_recorded_as_success_witness:
  "\<exists>r h1 w1. execute_with_seal sample_orchestrator (sample_executor PolicyAllow) sample_context (lit ''d'') ([], 0)
      = Some (Inr r, h1, record_seal_outcome sample_orchestrator
          (snd (fst (preprocess_input sample_orchestrator (lit ''d'') 0))) True 1 w1)
    \<and> rp_message r = lit ''Task failed: exceeded maximum iterations''
    \<and> rp_iterations r = os_max_iterations sample_orchestrator + 1"
  by (rule exhaustion_recorded_as_success)
    (simp add: sample_orchestrator_defs is_final_def extract_tool_uses_def orch_run_tool_def starts_def lit_def
      task_tool_execute_def task_operation_def split: prod.splits sum.splits)

section \<open>Faults of the worker and of the task tools\<close>

lemma turns_none:
  assumes "le_chat L h w = Some (Inr resp, w1)" and "\<not> is_final resp" and "n < le_max L"
    and "extract_tool_uses (cr_message resp) = tu # tus" and "le_run L tu w1 = None"
  shows "turns L n t (h, w) = None"
  using assms by (subst turns.simps) (simp add: Let_def)

text \<open>
  A worker panics on a long answer. When the first response names a tool whose successful
  result is longer than 200 bytes with byte 200 inside a character, the log line cuts the result there
  and the worker's run panics, although the tool has done its work.
\<close>

theorem worker_panics_on_long_result:
  assumes "wk_new_task W d w = (t, w1)" and "0 < wk_max_iterations W"
    and "wk_chat W (h @ [user_text d]) w1 = Some (Inr resp, w2)" and "\<not> is_final resp"
    and "extract_tool_uses (cr_message resp) = tu # tus"
    and "execute E tu ctx w2 = Some (Inr r, w3)" and "\<not> tr_is_error r"
    and "200 < blen (tr_content r)" and "\<not> on_boundary (tr_content r) 200"
  shows "worker_execute W E ctx d (h, w) = None"
proof -
  have "worker_run_tool E ctx tu w2 = None"
    using assms(6-9) by (simp add: worker_run_tool_def log_preview_def on_boundary_def)
  then show ?thesis
    using assms(1-5)
    by (simp add: worker_execute_def execute_loop_def worker_loop_def turns_none [where n = 0 and tu = tu])
qed

text \<open>A tool that answers 199 letters and a two-byte character.\<close>

definition long_answer :: rstr where
  "long_answer = replicate 199 97 @ [233]"

definition sample_worker :: "(nat, unit, nat) worker" where
  "sample_worker = \<lparr>wk_task = sample_task_ops, wk_new_task = \<lambda>d w. (0, w), wk_text = \<lambda>m. None,
     wk_chat = \<lambda>h w. Some (Inr (eager_response\<lparr>cr_message := \<lparr>m_role = AssistantRole,
       m_content = Blocks [ToolUseBlock (lit ''1'') (lit ''git_x'') ()]\<rparr>\<rparr>), w), wk_max_iterations = 10\<rparr>"

lemma split_byte_replicate:
  assumes "utf8_len c = 1"
  shows "split_byte (n + k) (replicate n c @ s) = map_option (\<lambda>(a, b). (replicate n c @ a, b)) (split_byte k s)"
  using assms by (induction n) (auto simp: option.map_comp comp_def case_prod_beta' option.map_ident)

lemma long_answer_cut: "200 < blen long_answer" "\<not> on_boundary long_answer 200"
proof -
  show "200 < blen long_answer" by code_simp
  show "\<not> on_boundary long_answer 200"
    using split_byte_replicate [of 97 199 1 "[233]"] by (simp add: long_answer_def on_boundary_def utf8_len_def)
qed

lemma worker_panics_on_long_result_witness:
  "worker_execute sample_worker ((sample_executor PolicyAllow)\<lparr>x_tools := sample_tools long_answer\<rparr>) sample_context
      (lit ''d'') ([], 0) = None"
  by (rule worker_panics_on_long_result [where tu = sample_call and tus = "[]" and ?w2.0 = 0 and ?w3.0 = 0
        and r = "\<lparr>tr_id = lit ''1'', tr_content = long_answer, tr_is_error = False\<rparr>"])
    (simp_all add: sample_worker_def sample_execute long_answer_cut, simp_all add: is_final_def eager_response_def
      extract_tool_uses_def sample_call_def lit_def)

text \<open>A \<^verbatim>\<open>task_\<close> tool runs whatever the executor is configured to refuse, and always returns.\<close>

lemma task_tools_pass_no_gate:
  assumes "starts ''task_'' (tu_name tu)"
  shows "orch_run_tool R E ctx tu w = orch_run_tool R E' ctx' tu w"
    and "orch_run_tool R E ctx tu w \<noteq> None"
  using assms by (simp_all add: orch_run_tool_def)

text \<open>A subtree request that finds something returns the whole tree.\<close>

lemma subtree_request_formats_everything:
  "tk_field K j (lit ''root_id'') = FieldString r \<Longrightarrow> tm_tree (tk_manager K) r w \<noteq> [] \<Longrightarrow>
   tk_field K j' (lit ''root_id'') = FieldAbsent \<Longrightarrow> execute_get_tree K j w = execute_get_tree K j' w"
  by (simp add: execute_get_tree_def optional_def)

end
