(* ===== verification/Mdap.thy ===== *)
theory Mdap
  imports Orchestrator
begin

text \<open>
  Massively decomposed execution: the configuration and the executor of \<^verbatim>\<open>apps/cli/src/mdap/mod.rs\<close>,
  and the variant \<^verbatim>\<open>OrchestratorAgent::execute_mdap\<close> of \<^verbatim>\<open>agents/orchestrator.rs\<close>. A task is decomposed,
  its subtasks are ordered by their dependencies, each is voted on with the results of its
  dependencies as input, and the results are composed. Decomposer, cost estimate, topological sort,
  voter, composer and metrics are framework code and parameters. A panic, or a call that never
  returns, is \<open>None\<close>.
\<close>

section \<open>The configuration\<close>

datatype decomposition_strategy =
  BinaryRecursive "32 word" | SimpleStrategy "32 word" | SequentialStrategy | CodeOperations | NoDecomposition

record ('f, 'g) mdap_config =
  mc_k :: "32 word"
  mc_target_success_rate :: 'f
  mc_parallel_samples :: "32 word"
  mc_max_samples :: "32 word"
  mc_red_flags :: 'g
  mc_decomposition :: decomposition_strategy
  mc_seal_integration :: bool
  mc_max_depth :: "32 word"
  mc_cost_per_sample :: "'f option"
  mc_fail_fast :: bool
  mc_adaptive_k :: bool
  mc_k_min :: "32 word"
  mc_k_max :: "32 word"

text \<open>\<open>'f\<close> is \<^verbatim>\<open>f64\<close> and \<open>'r\<close> is \<^verbatim>\<open>f32\<close>; \<open>mf_ceil\<close> is \<^verbatim>\<open>ceil() as u32\<close>, \<open>mf_variance\<close> is \<^verbatim>\<open>(v * 2.0).min(1.0) as f32\<close>.\<close>

record ('f, 'r) mdap_floats =
  mf_percent :: "nat \<Rightarrow> 'f"
  mf_cost :: 'f
  mf_le_zero :: "'f \<Rightarrow> bool"
  mf_ge_one :: "'f \<Rightarrow> bool"
  mf_zero :: 'r
  mf_clamp01 :: "'r \<Rightarrow> 'r"
  mf_of_u32 :: "32 word \<Rightarrow> 'r"
  mf_add :: "'r \<Rightarrow> 'r \<Rightarrow> 'r"
  mf_mul :: "'r \<Rightarrow> 'r \<Rightarrow> 'r"
  mf_variance :: "'f \<Rightarrow> 'r"
  mf_ceil :: "'r \<Rightarrow> 32 word"

definition mc_default :: "('f, 'r) mdap_floats \<Rightarrow> 'g \<Rightarrow> ('f, 'g) mdap_config" where
  "mc_default F strict =
     \<lparr>mc_k = 3, mc_target_success_rate = mf_percent F 95, mc_parallel_samples = 4, mc_max_samples = 50,
      mc_red_flags = strict, mc_decomposition = BinaryRecursive 10, mc_seal_integration = True, mc_max_depth = 10,
      mc_cost_per_sample = Some (mf_cost F), mc_fail_fast = False, mc_adaptive_k = True, mc_k_min = 2, mc_k_max = 5\<rparr>"

definition high_reliability :: "('f, 'r) mdap_floats \<Rightarrow> 'g \<Rightarrow> ('f, 'g) mdap_config" where
  "high_reliability F strict =
     (mc_default F strict)\<lparr>mc_k := 5, mc_target_success_rate := mf_percent F 99, mc_max_samples := 100,
       mc_adaptive_k := True, mc_k_min := 4, mc_k_max := 7\<rparr>"

definition cost_optimized :: "('f, 'r) mdap_floats \<Rightarrow> 'g \<Rightarrow> ('f, 'g) mdap_config" where
  "cost_optimized F strict =
     (mc_default F strict)\<lparr>mc_k := 2, mc_target_success_rate := mf_percent F 90, mc_max_samples := 30,
       mc_parallel_samples := 2, mc_adaptive_k := True, mc_k_min := 1, mc_k_max := 3\<rparr>"

text \<open>\<^verbatim>\<open>Ord::clamp\<close> panics when its bounds are crossed; the \<^verbatim>\<open>u32\<close> difference of crossed bounds wraps.\<close>

definition clamp :: "32 word \<Rightarrow> 32 word \<Rightarrow> 32 word \<Rightarrow> 32 word option" where
  "clamp lo hi x = (if hi < lo then None else Some (if x < lo then lo else if hi < x then hi else x))"

definition adaptive_k_for_subtask :: "('f, 'r) mdap_floats \<Rightarrow> ('f, 'g) mdap_config \<Rightarrow> 'r \<Rightarrow> 'f option \<Rightarrow> 32 word option" where
  "adaptive_k_for_subtask F c complexity variance =
     (if \<not> mc_adaptive_k c then Some (mc_k c)
      else
        let base_k = mf_add F (mf_of_u32 F (mc_k_min c))
              (mf_mul F (mf_clamp01 F complexity) (mf_of_u32 F (mc_k_max c - mc_k_min c)));
            adjustment = (case variance of Some v \<Rightarrow> mf_variance F v | None \<Rightarrow> mf_zero F) in
        clamp (mc_k_min c) (mc_k_max c) (mf_ceil F (mf_add F base_k adjustment)))"

datatype task_type = CodeTask | PlanningTask | AnalysisTask | SimpleTask | UnknownTask

definition classify_task :: "(rstr \<Rightarrow> rstr) \<Rightarrow> rstr \<Rightarrow> task_type" where
  "classify_task to_lower task =
     (let lower = to_lower task; has = (\<lambda>w. str_contains lower (lit w)) in
      if has ''implement'' \<or> has ''code'' \<or> has ''function'' then CodeTask
      else if has ''plan'' \<or> has ''design'' then PlanningTask
      else if has ''analyze'' \<or> has ''research'' then AnalysisTask
      else if has ''just'' \<or> has ''simply'' then SimpleTask
      else UnknownTask)"

definition select_strategy_heuristic :: "(rstr \<Rightarrow> rstr) \<Rightarrow> rstr \<Rightarrow> decomposition_strategy" where
  "select_strategy_heuristic to_lower task =
     (let word_count = length (split_ws task) in
      case classify_task to_lower task of
        SimpleTask \<Rightarrow> NoDecomposition
      | CodeTask \<Rightarrow> if 30 < word_count then BinaryRecursive 8 else CodeOperations
      | PlanningTask \<Rightarrow> if 50 < word_count then BinaryRecursive 10 else SequentialStrategy
      | _ \<Rightarrow> if word_count < 10 then NoDecomposition else if word_count < 30 then SequentialStrategy
             else BinaryRecursive 10)"

datatype 'f config_error =
  InvalidK "32 word" | InvalidTargetSuccessRate 'f | InvalidParallelSamples "32 word" | InvalidMaxSamples "32 word"
| InvalidMaxDepth "32 word"

definition validate_config :: "('f, 'r) mdap_floats \<Rightarrow> ('f, 'g) mdap_config \<Rightarrow> 'f config_error + unit" where
  "validate_config F c =
     (if mc_k c < 1 then Inl (InvalidK (mc_k c))
      else if mf_le_zero F (mc_target_success_rate c) \<or> mf_ge_one F (mc_target_success_rate c)
      then Inl (InvalidTargetSuccessRate (mc_target_success_rate c))
      else if mc_parallel_samples c < 1 \<or> 4 < mc_parallel_samples c
      then Inl (InvalidParallelSamples (mc_parallel_samples c))
      else if mc_max_samples c < 1 then Inl (InvalidMaxSamples (mc_max_samples c))
      else if mc_max_depth c < 1 then Inl (InvalidMaxDepth (mc_max_depth c))
      else Inr ())"

definition build_config :: "('f, 'r) mdap_floats \<Rightarrow> ('f, 'g) mdap_config \<Rightarrow> 'f config_error + ('f, 'g) mdap_config" where
  "build_config F c = map_sum id (\<lambda>_. c) (validate_config F c)"

section \<open>JSON values\<close>

datatype json = JNull | JBool bool | JNumber rstr | JString rstr | JArray "json list" | JObject "(rstr \<times> json) list"

fun obj_insert :: "rstr \<Rightarrow> 'v \<Rightarrow> (rstr \<times> 'v) list \<Rightarrow> (rstr \<times> 'v) list" where
  "obj_insert k v [] = [(k, v)]"
| "obj_insert k v ((k1, v1) # xs) = (if k1 = k then (k, v) # xs else (k1, v1) # obj_insert k v xs)"

text \<open>\<^verbatim>\<open>value[key] = v\<close>: null becomes an object, any other value that is no object panics.\<close>

fun index_set :: "rstr \<Rightarrow> json \<Rightarrow> json \<Rightarrow> json option" where
  "index_set k v JNull = Some (JObject [(k, v)])"
| "index_set k v (JObject xs) = Some (JObject (obj_insert k v xs))"
| "index_set k v _ = None"

section \<open>The pipeline\<close>

record subtask =
  sb_id :: rstr
  sb_description :: rstr
  sb_depends_on :: "rstr list"
  sb_input_state :: json

record subtask_output =
  so_subtask_id :: rstr
  so_value :: json

record vote_result =
  vr_winner :: subtask_output
  vr_total_samples :: "32 word"
  vr_red_flagged :: "32 word"
  vr_winner_votes :: "32 word"
  vr_total_votes :: "32 word"

type_synonym results = "rstr \<rightharpoonup> subtask_output"

datatype decomposer =
  BinaryDecomposer "32 word" "32 word" | SimpleDecomposer "32 word" | SequentialDecomposer | AtomicDecomposer

text \<open>
  A voter: the margin, the sample limit, whether every response is accepted, and the key samples are
  counted under (\<open>None\<close>: the microagent's own).
\<close>

record voter =
  vo_k :: "32 word"
  vo_max_samples :: "32 word"
  vo_accept_all :: bool
  vo_key :: "(subtask_output \<Rightarrow> rstr) option"

record ('w, 'c) mdap_framework =
  mx_decompose :: "decomposer \<Rightarrow> 32 word \<Rightarrow> rstr \<Rightarrow> 'w \<Rightarrow> ((rstr + subtask list \<times> 'c) \<times> 'w) option"
  mx_estimate :: "nat \<Rightarrow> rstr + 32 word"
  mx_sort :: "subtask list \<Rightarrow> rstr + subtask list"
  mx_vote :: "voter \<Rightarrow> subtask \<Rightarrow> json \<Rightarrow> 'w \<Rightarrow> ((rstr + vote_result) \<times> 'w) option"
  mx_compose :: "subtask_output list \<Rightarrow> 'c \<Rightarrow> rstr + json"
  mx_compose_map :: "subtask list \<times> 'c \<Rightarrow> results \<Rightarrow> rstr + json"

record subtask_metric =
  sm_subtask_id :: rstr
  sm_samples_needed :: "32 word"
  sm_red_flags_hit :: "32 word"
  sm_winner_votes :: "32 word"
  sm_total_votes :: "32 word"

definition metric_of :: "subtask \<Rightarrow> vote_result \<Rightarrow> subtask_metric" where
  "metric_of s v = \<lparr>sm_subtask_id = sb_id s, sm_samples_needed = vr_total_samples v,
     sm_red_flags_hit = vr_red_flagged v, sm_winner_votes = vr_winner_votes v, sm_total_votes = vr_total_votes v\<rparr>"

definition gather_inputs :: "subtask \<Rightarrow> results \<Rightarrow> json" where
  "gather_inputs s res =
     (case (if sb_input_state s = JNull then JObject [] else sb_input_state s) of
        JObject xs \<Rightarrow>
          JObject (fold (\<lambda>d ys. case res d of Some o1 \<Rightarrow> obj_insert (lit ''dep_'' @ d) (so_value o1) ys | None \<Rightarrow> ys)
            (sb_depends_on s) xs)
      | other \<Rightarrow> other)"

fun executor_decomposer :: "32 word \<Rightarrow> decomposition_strategy \<Rightarrow> decomposer" where
  "executor_decomposer k (BinaryRecursive d) = BinaryDecomposer d k"
| "executor_decomposer k NoDecomposition = AtomicDecomposer"
| "executor_decomposer k _ = SequentialDecomposer"

fun run_voted :: "('w, 'c) mdap_framework \<Rightarrow> voter \<Rightarrow> subtask list \<Rightarrow> results \<Rightarrow> subtask_metric list \<Rightarrow> 'w \<Rightarrow>
    ((rstr + results) \<times> subtask_metric list \<times> 'w) option" where
  "run_voted M v [] res ms w = Some (Inr res, ms, w)"
| "run_voted M v (s # ss) res ms w =
     (case mx_vote M v s (gather_inputs s res) w of
        None \<Rightarrow> None
      | Some (Inl e, w1) \<Rightarrow> Some (Inl e, ms, w1)
      | Some (Inr r, w1) \<Rightarrow>
          run_voted M v ss (res(sb_id s \<mapsto> vr_winner r)) (ms @ [metric_of s r]) w1)"

definition mdap_execute :: "('w, 'c) mdap_framework \<Rightarrow> ('f, 'g) mdap_config \<Rightarrow> rstr \<Rightarrow> 'w \<Rightarrow>
    ((rstr + json \<times> subtask_metric list) \<times> 'w) option" where
  "mdap_execute M c task w =
     (case mx_decompose M (executor_decomposer (mc_k c) (mc_decomposition c)) (mc_max_depth c) task w of
        None \<Rightarrow> None
      | Some (Inl e, w1) \<Rightarrow> Some (Inl e, w1)
      | Some (Inr (subs, cf), w1) \<Rightarrow>
          (case mx_estimate M (length subs) of
             Inl e \<Rightarrow> Some (Inl e, w1)
           | Inr recommended_k \<Rightarrow>
               (case mx_sort M subs of
                  Inl e \<Rightarrow> Some (Inl e, w1)
                | Inr ordered \<Rightarrow>
                    (case run_voted M \<lparr>vo_k = max (mc_k c) recommended_k, vo_max_samples = mc_max_samples c,
                            vo_accept_all = False, vo_key = None\<rparr> ordered Map.empty [] w1 of
                       None \<Rightarrow> None
                     | Some (Inl e, ms, w2) \<Rightarrow> Some (Inl e, w2)
                     | Some (Inr res, ms, w2) \<Rightarrow>
                         let outputs = List.map_filter (\<lambda>s. res (sb_id s)) subs in
                         (case mx_compose M outputs cf of
                            Inl e \<Rightarrow> Some (Inl e, w2)
                          | Inr j \<Rightarrow> Some (Inr (j, ms), w2))))))"

section \<open>The orchestrator's variant\<close>

fun orch_decomposer :: "32 word \<Rightarrow> decomposition_strategy \<Rightarrow> decomposer" where
  "orch_decomposer k (BinaryRecursive d) = BinaryDecomposer d k"
| "orch_decomposer k (SimpleStrategy d) = SimpleDecomposer d"
| "orch_decomposer k _ = SimpleDecomposer 10"

text \<open>\<^verbatim>\<open>input[dep_id] = value\<close> for each dependency with a result.\<close>

fun orch_gather :: "results \<Rightarrow> rstr list \<Rightarrow> json \<Rightarrow> json option" where
  "orch_gather res [] j = Some j"
| "orch_gather res (d # ds) j =
     (case res d of
        None \<Rightarrow> orch_gather res ds j
      | Some o1 \<Rightarrow> (case index_set d (so_value o1) j of None \<Rightarrow> None | Some j1 \<Rightarrow> orch_gather res ds j1))"

record mdap_metrics =
  mm_total_steps :: nat
  mm_failed_steps :: nat
  mm_subtasks :: "subtask_metric list"
  mm_finalized :: "bool option"

fun orch_run_subtasks :: "('w, 'c) mdap_framework \<Rightarrow> voter \<Rightarrow> bool \<Rightarrow> subtask list \<Rightarrow> results \<Rightarrow> mdap_metrics \<Rightarrow> 'w \<Rightarrow>
    ((rstr + results \<times> mdap_metrics) \<times> 'w) option" where
  "orch_run_subtasks M v fail_fast [] res m w = Some (Inr (res, m), w)"
| "orch_run_subtasks M v fail_fast (s # ss) res m w =
     (case orch_gather res (sb_depends_on s) (sb_input_state s) of
        None \<Rightarrow> None
      | Some input \<Rightarrow>
          (case mx_vote M v s input w of
             None \<Rightarrow> None
           | Some (Inr r, w1) \<Rightarrow>
               orch_run_subtasks M v fail_fast ss (res(sb_id s \<mapsto> vr_winner r))
                 (m\<lparr>mm_subtasks := mm_subtasks m @ [metric_of s r]\<rparr>) w1
           | Some (Inl e, w1) \<Rightarrow>
               if fail_fast then Some (Inl (lit ''MDAP subtask failed: '' @ e), w1)
               else orch_run_subtasks M v fail_fast ss res (m\<lparr>mm_failed_steps := mm_failed_steps m + 1\<rparr>) w1))"

definition as_str :: "json \<Rightarrow> rstr option" where
  "as_str j = (case j of JString t \<Rightarrow> Some t | _ \<Rightarrow> None)"

definition plan_of :: "(json \<Rightarrow> rstr) \<Rightarrow> json \<Rightarrow> rstr" where
  "plan_of pretty j =
     (case j of
        JString t \<Rightarrow> t
      | JObject kvs \<Rightarrow>
          (case map_of kvs (lit ''outputs'') of
             Some (JArray outputs) \<Rightarrow> join [10, 10] (List.map_filter as_str outputs)
           | _ \<Rightarrow> pretty j)
      | _ \<Rightarrow> pretty j)"

definition plan_needs_tools :: "(rstr \<Rightarrow> rstr) \<Rightarrow> rstr \<Rightarrow> rstr \<Rightarrow> bool" where
  "plan_needs_tools to_lower task plan \<longleftrightarrow>
     str_contains plan (lit ''edit_file'') \<or> str_contains plan (lit ''write_file'')
     \<or> str_contains plan (lit ''read_file'') \<or> str_contains (to_lower task) (lit ''add'')
     \<or> str_contains (to_lower task) (lit ''modify'') \<or> str_contains (to_lower task) (lit ''change'')
     \<or> str_contains (to_lower task) (lit ''create'') \<or> str_contains (to_lower task) (lit ''file'')"

text \<open>The decomposition, voting and composition of \<^verbatim>\<open>execute_mdap\<close>, up to the plan.\<close>

definition mdap_plan :: "('w, 'c) mdap_framework \<Rightarrow> ('f, 'g) mdap_config \<Rightarrow> (json \<Rightarrow> rstr) \<Rightarrow> bool \<Rightarrow> rstr \<Rightarrow> 'w \<Rightarrow>
    ((rstr + rstr \<times> mdap_metrics) \<times> 'w) option" where
  "mdap_plan M c pretty has_tools task w =
     (case mx_decompose M (orch_decomposer (mc_k c) (mc_decomposition c)) 10 task w of
        None \<Rightarrow> None
      | Some (Inl e, w1) \<Rightarrow> Some (Inl (lit ''MDAP decomposition failed: '' @ e), w1)
      | Some (Inr (subs, cf), w1) \<Rightarrow>
          (case mx_sort M subs of
             Inl e \<Rightarrow> Some (Inl (lit ''MDAP topological sort failed: '' @ e), w1)
           | Inr ordered \<Rightarrow>
               (case orch_run_subtasks M \<lparr>vo_k = mc_k c, vo_max_samples = mc_max_samples c,
                       vo_accept_all = has_tools, vo_key = Some so_subtask_id\<rparr> (mc_fail_fast c) ordered Map.empty
                       \<lparr>mm_total_steps = length subs, mm_failed_steps = 0, mm_subtasks = [], mm_finalized = None\<rparr> w1 of
                  None \<Rightarrow> None
                | Some (Inl e, w2) \<Rightarrow> Some (Inl e, w2)
                | Some (Inr (res, m), w2) \<Rightarrow>
                    (case mx_compose_map M (subs, cf) res of
                       Inl e \<Rightarrow> Some (Inl (lit ''MDAP composition failed: '' @ e), w2)
                     | Inr j \<Rightarrow> Some (Inr (plan_of pretty j, m\<lparr>mm_finalized := Some True\<rparr>), w2)))))"

text \<open>
  \<open>mt_completed\<close> is the framework's count of completed steps, \<open>mt_learn\<close> hands the metrics to SEAL.
\<close>

record 'w mdap_tools =
  mt_has_tools :: bool
  mt_lower :: "rstr \<Rightarrow> rstr"
  mt_pretty :: "json \<Rightarrow> rstr"
  mt_completed :: "mdap_metrics \<Rightarrow> nat"
  mt_learn :: "mdap_metrics \<Rightarrow> 'w \<Rightarrow> 'w"

definition execute_mdap :: "('w, 'c) mdap_framework \<Rightarrow> ('f, 'g) mdap_config \<Rightarrow> 'w mdap_tools \<Rightarrow>
    ('w, 'j, 't, 'r, 's, 'p, 'v, 'e) orchestrator \<Rightarrow> ('w, 'j, 'k, 'c2, 'l, 'g2, 'cat) executor \<Rightarrow>
    'j tool_context \<Rightarrow> rstr \<Rightarrow> ('w, 'j) conversation \<Rightarrow>
    ((rstr + 't agent_response \<times> mdap_metrics) \<times> ('w, 'j) conversation) option" where
  "execute_mdap M c T R E ctx task hw =
     (case hw of (h, w) \<Rightarrow>
        case mdap_plan M c (mt_pretty T) (mt_has_tools T) task w of
          None \<Rightarrow> None
        | Some (Inl e, w1) \<Rightarrow> Some (Inl e, h, w1)
        | Some (Inr (plan, m), w1) \<Rightarrow>
            let w2 = (if mc_seal_integration c \<and> os_seal R \<noteq> None then mt_learn T m w1 else w1);
                steps = mt_completed T m in
            if mt_has_tools T \<and> plan_needs_tools (mt_lower T) task plan then
              (case execute_internal R E ctx plan None (h, w2) of
                 None \<Rightarrow> None
               | Some (Inr r, hw3) \<Rightarrow>
                   Some (Inr (r\<lparr>rp_iterations := steps + rp_iterations r\<rparr>, m), hw3)
               | Some (Inl e, hw3) \<Rightarrow>
                   Some (Inr (\<lparr>rp_message = lit ''MDAP Plan (execution failed): '' @ plan @ [10, 10] @ lit ''Error: '' @ e,
                     rp_is_complete = True, rp_tasks = [], rp_iterations = steps\<rparr>, m), hw3))
            else
              Some (Inr (\<lparr>rp_message = plan, rp_is_complete = True, rp_tasks = [], rp_iterations = steps\<rparr>, m), h, w2))"

section \<open>The adaptive margin\<close>

text \<open>
  Bounds of the adaptive margin. An adaptive margin lies between the configured bounds, and the
  call panics exactly when they are crossed; validation does not look at them, so a crossed pair
  passes whenever the rest of the configuration does.
\<close>

theorem adaptive_k_bounds:
  "(adaptive_k_for_subtask F c x v = None \<longleftrightarrow> mc_adaptive_k c \<and> mc_k_max c < mc_k_min c)
   \<and> (\<forall>k. mc_adaptive_k c \<and> adaptive_k_for_subtask F c x v = Some k \<longrightarrow> mc_k_min c \<le> k \<and> k \<le> mc_k_max c)
   \<and> validate_config F (c\<lparr>mc_k_min := a, mc_k_max := b\<rparr>) = validate_config F c"
  by (auto simp: adaptive_k_for_subtask_def clamp_def Let_def validate_config_def not_less split: if_splits option.splits)

definition sample_floats :: "(nat, nat) mdap_floats" where
  "sample_floats = \<lparr>mf_percent = \<lambda>n. n, mf_cost = 1, mf_le_zero = (\<lambda>n. n = 0), mf_ge_one = \<lambda>n. 100 \<le> n, mf_zero = 0,
     mf_clamp01 = \<lambda>n. min 1 n, mf_of_u32 = unat, mf_add = (+), mf_mul = (*), mf_variance = \<lambda>n. n, mf_ceil = of_nat\<rparr>"

lemma adaptive_k_bounds_witness:
  "adaptive_k_for_subtask sample_floats (high_reliability sample_floats ()) 0 (Some 1) = Some 5
   \<and> mc_k_min (high_reliability sample_floats ()) \<le> 5 \<and> 5 \<le> mc_k_max (high_reliability sample_floats ())"
proof -
  have "adaptive_k_for_subtask sample_floats (high_reliability sample_floats ()) 0 (Some 1) = Some 5"
    "mc_adaptive_k (high_reliability sample_floats ())"
    by (simp_all add: high_reliability_def mc_default_def adaptive_k_for_subtask_def sample_floats_def clamp_def)
  then show ?thesis
    using adaptive_k_bounds [of sample_floats "high_reliability sample_floats ()" 0 "Some 1"] by blast
qed

section \<open>Inputs\<close>

fun dep_ordered :: "subtask list \<Rightarrow> bool" where
  "dep_ordered [] = True"
| "dep_ordered (s # ss) \<longleftrightarrow> set (sb_depends_on s) \<inter> sb_id ` set (s # ss) = {} \<and> dep_ordered ss"

lemma gather_inputs_cong:
  assumes "\<And>d. d \<in> set (sb_depends_on s) \<Longrightarrow> res d = res' d"
  shows "gather_inputs s res = gather_inputs s res'"
proof -
  have "fold (\<lambda>d ys. case res d of Some o1 \<Rightarrow> obj_insert (lit ''dep_'' @ d) (so_value o1) ys | None \<Rightarrow> ys)
        (sb_depends_on s) xs
      = fold (\<lambda>d ys. case res' d of Some o1 \<Rightarrow> obj_insert (lit ''dep_'' @ d) (so_value o1) ys | None \<Rightarrow> ys)
        (sb_depends_on s) xs" for xs
    by (rule fold_cong) (simp_all add: assms)
  then show ?thesis by (simp add: gather_inputs_def split: json.splits)
qed

definition voted_from :: "('w, 'c) mdap_framework \<Rightarrow> voter \<Rightarrow> results \<Rightarrow> subtask \<Rightarrow> bool" where
  "voted_from M v fin s \<longleftrightarrow>
     (\<exists>w1 r w2. mx_vote M v s (gather_inputs s fin) w1 = Some (Inr r, w2) \<and> fin (sb_id s) = Some (vr_winner r))"

lemma run_voted_inputs:
  "run_voted M v ss res ms w = Some (Inr fin, ms1, w1) \<Longrightarrow> dep_ordered ss \<Longrightarrow> distinct (map sb_id ss) \<Longrightarrow>
   (\<forall>i. i \<notin> sb_id ` set ss \<longrightarrow> fin i = res i) \<and> list_all (voted_from M v fin) ss
   \<and> length ms1 = length ms + length ss"
proof (induction ss arbitrary: res ms w)
  case (Cons s ss)
  from Cons.prems(1) obtain r w2 where
    vote: "mx_vote M v s (gather_inputs s res) w = Some (Inr r, w2)" and
    rest: "run_voted M v ss (res(sb_id s \<mapsto> vr_winner r)) (ms @ [metric_of s r]) w2 = Some (Inr fin, ms1, w1)"
    by (auto split: option.splits sum.splits prod.splits)
  from Cons.IH [OF rest] Cons.prems(2,3) have IH:
    "\<forall>i. i \<notin> sb_id ` set ss \<longrightarrow> fin i = (res(sb_id s \<mapsto> vr_winner r)) i"
    "list_all (voted_from M v fin) ss" "length ms1 = length (ms @ [metric_of s r]) + length ss" by auto
  have "gather_inputs s res = gather_inputs s fin"
  proof (rule gather_inputs_cong)
    fix d assume "d \<in> set (sb_depends_on s)"
    with Cons.prems(2) have "d \<notin> sb_id ` set ss" "d \<noteq> sb_id s" by auto
    with IH(1) show "res d = fin d" by simp
  qed
  moreover have "fin (sb_id s) = Some (vr_winner r)" using IH(1) Cons.prems(3) by auto
  ultimately have "voted_from M v fin s" using vote by (auto simp: voted_from_def)
  with IH Cons.prems(3) show ?case by auto
qed simp


text \<open>Two subtasks, the second on the result of the first; every vote is won by the subtask's input.\<close>

definition sample_subtask :: "rstr \<Rightarrow> rstr list \<Rightarrow> subtask" where
  "sample_subtask i ds = \<lparr>sb_id = i, sb_description = i, sb_depends_on = ds, sb_input_state = JNull\<rparr>"

definition sample_mdap :: "(nat, unit) mdap_framework" where
  "sample_mdap = \<lparr>mx_decompose = \<lambda>d n t w. Some (Inr ([sample_subtask [97] [], sample_subtask [98] [[97]]], ()), w),
     mx_estimate = \<lambda>n. Inr 1,
     mx_sort = \<lambda>ss. if dep_ordered ss \<and> distinct (map sb_id ss) then Inr ss else Inl (lit ''cycle''),
     mx_vote = \<lambda>v s j w. Some (Inr \<lparr>vr_winner = \<lparr>so_subtask_id = sb_id s, so_value = j\<rparr>, vr_total_samples = 3,
       vr_red_flagged = 0, vr_winner_votes = 3, vr_total_votes = 3\<rparr>, Suc w),
     mx_compose = \<lambda>os u. Inr (JArray (map so_value os)), mx_compose_map = \<lambda>d res. Inr JNull\<rparr>"

definition sample_mdap_run :: "json \<times> subtask_metric list" where
  "sample_mdap_run = (JArray [JObject [], JObject [(lit ''dep_'' @ [97], JObject [])]],
     map (\<lambda>i. \<lparr>sm_subtask_id = i, sm_samples_needed = 3, sm_red_flags_hit = 0, sm_winner_votes = 3,
       sm_total_votes = 3\<rparr>) [[97], [98]])"


text \<open>
  The orchestrator's variant reads the same dependencies with other rules: a scalar input panics as soon
  as a dependency has a result, where the executor passes the input on unchanged.
\<close>

lemma scalar_input_panics:
  assumes "res d = Some o1" and "sb_depends_on s = d # ds" and "sb_input_state s = JString t"
  shows "orch_run_subtasks M v ff (s # ss) res m w = None" and "gather_inputs s res = JString t"
  using assms by (simp_all add: gather_inputs_def)

end
