(* ===== verification/MicroTools.thy ===== *)
theory MicroTools
  imports ToolExecutor
begin

text \<open>
  The tool executor of microagents, \<^verbatim>\<open>apps/cli/src/mdap/tool_executor.rs\<close>: tool intents run after the
  vote, limited to tool categories and to a depth counted in an \<^verbatim>\<open>AtomicU32\<close> that every intent raises
  when it enters and lowers when it leaves. Which tools a category holds is framework code and the
  parameter \<open>mg_contains\<close>. The counter is a word in the operations; the interleaving model, where only
  the number of intents in flight matters, has it as a \<open>nat\<close>.
\<close>

section \<open>Configuration\<close>

datatype tool_category =
  FileReadCat | FileWriteCat | SearchCat | SemanticSearchCat | BashCat | GitCat | WebCat | AgentPoolCat
| TaskManagerCat | McpCat

fun debug_category :: "tool_category \<Rightarrow> rstr" where
  "debug_category FileReadCat = lit ''FileRead''"
| "debug_category FileWriteCat = lit ''FileWrite''"
| "debug_category SearchCat = lit ''Search''"
| "debug_category SemanticSearchCat = lit ''SemanticSearch''"
| "debug_category BashCat = lit ''Bash''"
| "debug_category GitCat = lit ''Git''"
| "debug_category WebCat = lit ''Web''"
| "debug_category AgentPoolCat = lit ''AgentPool''"
| "debug_category TaskManagerCat = lit ''TaskManager''"
| "debug_category McpCat = lit ''Mcp''"

record category_table =
  mg_contains :: "tool_category \<Rightarrow> rstr \<Rightarrow> bool"
  mg_read_only :: "tool_category list"
  mg_side_effect :: "tool_category list"

record micro_config =
  mi_max_depth :: "32 word"
  mi_allowed :: "tool_category list"
  mi_audit_enabled :: bool
  mi_timeout_ms :: nat

definition micro_default :: "category_table \<Rightarrow> micro_config" where
  "micro_default G = \<lparr>mi_max_depth = 3, mi_allowed = mg_read_only G, mi_audit_enabled = True, mi_timeout_ms = 30000\<rparr>"

definition micro_permissive :: "category_table \<Rightarrow> micro_config" where
  "micro_permissive G = (micro_default G)\<lparr>mi_allowed := mg_read_only G @ mg_side_effect G\<rparr>"

definition allow_category :: "tool_category \<Rightarrow> micro_config \<Rightarrow> micro_config" where
  "allow_category c C = C\<lparr>mi_allowed := List.insert c (mi_allowed C)\<rparr>"

definition with_max_depth :: "32 word \<Rightarrow> micro_config \<Rightarrow> micro_config" where
  "with_max_depth n C = C\<lparr>mi_max_depth := n\<rparr>"

section \<open>One intent\<close>

record 'j tool_intent =
  in_tool_name :: rstr
  in_arguments :: 'j

datatype mdap_error =
  ToolRecursionLimit "32 word" "32 word" | ToolNotAllowed rstr rstr | ToolExecutionFailed rstr rstr

definition is_tool_allowed :: "category_table \<Rightarrow> micro_config \<Rightarrow> rstr \<Rightarrow> bool" where
  "is_tool_allowed G C n = list_ex (\<lambda>c. mg_contains G c n) (mi_allowed C)"

definition get_tool_category :: "category_table \<Rightarrow> rstr \<Rightarrow> tool_category option" where
  "get_tool_category G n =
     find (\<lambda>c. mg_contains G c n) [FileReadCat, FileWriteCat, SearchCat, SemanticSearchCat, BashCat, GitCat, WebCat,
       AgentPoolCat, TaskManagerCat, McpCat]"

definition validate_tool :: "category_table \<Rightarrow> micro_config \<Rightarrow> 'j tool_intent \<Rightarrow> mdap_error + unit" where
  "validate_tool G C i =
     (if \<not> is_tool_allowed G C (in_tool_name i)
      then Inl (ToolNotAllowed (in_tool_name i)
        (case get_tool_category G (in_tool_name i) of Some c \<Rightarrow> debug_category c | None \<Rightarrow> lit ''Unknown''))
      else Inr ())"

text \<open>Up to the call of the executor: raise the counter, and lower it again on a refusal.\<close>

definition enter :: "category_table \<Rightarrow> micro_config \<Rightarrow> 'j tool_intent \<Rightarrow> 32 word \<Rightarrow> (mdap_error + unit) \<times> 32 word" where
  "enter G C i depth =
     (let raised = depth + 1 in
      if mi_max_depth C \<le> depth then (Inl (ToolRecursionLimit depth (mi_max_depth C)), raised - 1)
      else (case validate_tool G C i of Inl e \<Rightarrow> (Inl e, raised - 1) | Inr u \<Rightarrow> (Inr u, raised)))"

definition execute_intent :: "category_table \<Rightarrow> micro_config \<Rightarrow> ('w, 'j, 'k, 'c, 'l, 'g, 'cat) executor \<Rightarrow>
    ('w \<Rightarrow> rstr \<times> 'w) \<Rightarrow> 'j tool_context \<Rightarrow> 'j tool_intent \<Rightarrow> 32 word \<times> 'w \<Rightarrow>
    ((mdap_error + tool_result) \<times> 32 word \<times> 'w) option" where
  "execute_intent G C E fresh ctx i dw =
     (case dw of (depth, w) \<Rightarrow>
        case enter G C i depth of
          (Inl e, d1) \<Rightarrow> Some (Inl e, d1, w)
        | (Inr _, d1) \<Rightarrow>
            (case fresh w of
               (uid, w1) \<Rightarrow>
                 let tu = \<lparr>tu_id = uid, tu_name = in_tool_name i, tu_input = in_arguments i\<rparr> in
                 (case execute E tu ctx w1 of
                    None \<Rightarrow> None
                  | Some (Inr r, w2) \<Rightarrow> Some (Inr r, d1 - 1, w2)
                  | Some (Inl e, w2) \<Rightarrow> Some (Inl (ToolExecutionFailed (in_tool_name i) e), d1 - 1, w2))))"

fun execute_intents :: "category_table \<Rightarrow> micro_config \<Rightarrow> ('w, 'j, 'k, 'c, 'l, 'g, 'cat) executor \<Rightarrow>
    ('w \<Rightarrow> rstr \<times> 'w) \<Rightarrow> 'j tool_context \<Rightarrow> 'j tool_intent list \<Rightarrow> 32 word \<times> 'w \<Rightarrow>
    ((mdap_error + tool_result list) \<times> 32 word \<times> 'w) option" where
  "execute_intents G C E fresh ctx [] s = Some (Inr [], s)"
| "execute_intents G C E fresh ctx (i # xs) s =
     (case execute_intent G C E fresh ctx i s of
        None \<Rightarrow> None
      | Some (Inl e, s1) \<Rightarrow> Some (Inl e, s1)
      | Some (Inr r, s1) \<Rightarrow> map_option (apfst (map_sum id (Cons r))) (execute_intents G C E fresh ctx xs s1))"

definition create_microagent_context :: "micro_config \<Rightarrow> 'j tool_context \<Rightarrow> 'j tool_context" where
  "create_microagent_context C ctx =
     ctx\<lparr>ctx_metadata := (ctx_metadata ctx)(lit ''execution_context'' \<mapsto> lit ''mdap_microagent'',
       lit ''max_tool_depth'' \<mapsto> show_nat (unat (mi_max_depth C)))\<rparr>"

section \<open>Intents in parallel\<close>

text \<open>
  A batch runs in parallel when every tool is read-only and there are at least two. \<^verbatim>\<open>try_join_all\<close> polls
  the futures in order; each runs until its tool waits. At the first error it returns and drops the
  futures that wait: they never reach the line that lowers the counter.
\<close>

datatype poll = Waits | Done | Fails rstr

definition runs_in_parallel :: "category_table \<Rightarrow> 'j tool_intent list \<Rightarrow> bool" where
  "runs_in_parallel G xs \<longleftrightarrow>
     list_all (\<lambda>i. case get_tool_category G (in_tool_name i) of
         Some c \<Rightarrow> c \<in> set (mg_read_only G) | None \<Rightarrow> False) xs
     \<and> 1 < length xs"

fun first_polls :: "category_table \<Rightarrow> micro_config \<Rightarrow> ('j tool_intent \<Rightarrow> poll) \<Rightarrow> 'j tool_intent list \<Rightarrow> 32 word \<Rightarrow>
    mdap_error option \<times> 32 word" where
  "first_polls G C tool [] depth = (None, depth)"
| "first_polls G C tool (i # xs) depth =
     (case enter G C i depth of
        (Inl e, d1) \<Rightarrow> (Some e, d1)
      | (Inr _, d1) \<Rightarrow>
          (case tool i of
             Waits \<Rightarrow> first_polls G C tool xs d1
           | Done \<Rightarrow> first_polls G C tool xs (d1 - 1)
           | Fails e \<Rightarrow> (Some (ToolExecutionFailed (in_tool_name i) e), d1 - 1)))"

section \<open>One intent after the other\<close>

lemma enter_depth:
  "enter G C i d = (Inl e, d1) \<Longrightarrow> d1 = d" "enter G C i d = (Inr u, d1) \<Longrightarrow> d1 = d + 1"
  by (auto simp: enter_def Let_def split: if_splits sum.splits)

lemma enter_Inr: "enter G C i d = (Inr u, d1) \<Longrightarrow> is_tool_allowed G C (in_tool_name i) \<and> d < mi_max_depth C"
  by (auto simp: enter_def validate_tool_def Let_def not_le split: if_splits sum.splits)

lemma enter_full: "mi_max_depth C \<le> d \<Longrightarrow> enter G C i d = (Inl (ToolRecursionLimit d (mi_max_depth C)), d)"
  by (simp add: enter_def Let_def)

lemma enter_ok:
  "d < mi_max_depth C \<Longrightarrow> is_tool_allowed G C (in_tool_name i) \<Longrightarrow> enter G C i d = (Inr (), d + 1)"
  by (simp add: enter_def validate_tool_def Let_def not_le)

lemma execute_intent_depth: "execute_intent G C E fresh ctx i (d, w) = Some (out, d1, w1) \<Longrightarrow> d1 = d"
  by (auto simp: execute_intent_def Let_def dest!: enter_depth split: sum.splits prod.splits option.splits)

text \<open>
  A sequence of intents restores the depth. However it ends, with results, a refusal or a failing
  tool, the counter is what it was; the results answer a prefix-free run: all intents, each of an
  allowed category, or none is returned.
\<close>

theorem sequence_restores_depth:
  assumes "execute_intents G C E fresh ctx xs (d, w) = Some (out, d1, w1)"
  shows "d1 = d \<and> (case out of Inl e \<Rightarrow> xs \<noteq> []
      | Inr rs \<Rightarrow> length rs = length xs \<and> list_all (\<lambda>i. is_tool_allowed G C (in_tool_name i)) xs
          \<and> (xs \<noteq> [] \<longrightarrow> d < mi_max_depth C))"
  using assms
proof (induction xs arbitrary: d w out)
  case (Cons i xs)
  then obtain o1 w2 where e: "execute_intent G C E fresh ctx i (d, w) = Some (o1, d, w2)"
    by (auto split: option.splits dest: execute_intent_depth)
  show ?case
  proof (cases o1)
    case (Inr r)
    from e Inr have "is_tool_allowed G C (in_tool_name i) \<and> d < mi_max_depth C"
      by (auto simp: execute_intent_def Let_def dest!: enter_Inr split: sum.splits prod.splits option.splits)
    moreover obtain o2 where "execute_intents G C E fresh ctx xs (d, w2) = Some (o2, d1, w1)"
      "out = map_sum id (Cons r) o2" using Cons.prems e Inr by auto
    ultimately show ?thesis
      using Cons.IH [of d w2 o2] by (auto split: sum.splits)
  qed (use Cons.prems e in auto)
qed auto

text \<open>An executor that may use one git tool.\<close>

definition git_categories :: category_table where
  "git_categories = \<lparr>mg_contains = \<lambda>c n. c = GitCat \<and> n = lit ''git_x'', mg_read_only = [GitCat], mg_side_effect = []\<rparr>"

definition git_intent :: "unit tool_intent" where
  "git_intent = \<lparr>in_tool_name = lit ''git_x'', in_arguments = ()\<rparr>"

lemma sequence_restores_depth_witness:
  "execute_intents git_categories (micro_default git_categories) (sample_executor PolicyAllow) (\<lambda>w. (lit ''1'', w))
      sample_context [git_intent, git_intent] (1, 5)
    = Some (Inr (replicate 2 \<lparr>tr_id = lit ''1'', tr_content = lit ''a'', tr_is_error = False\<rparr>), 1, 5)
   \<and> list_all (\<lambda>i. is_tool_allowed git_categories (micro_default git_categories) (in_tool_name i)) [git_intent, git_intent]"
proof -
  have tu: "\<lparr>tu_id = lit ''1'', tu_name = lit ''git_x'', tu_input = ()\<rparr> = sample_call" by (simp add: sample_call_def)
  have ok: "is_tool_allowed git_categories (micro_default git_categories) (lit ''git_x'')"
    by (simp add: is_tool_allowed_def micro_default_def git_categories_def)
  have "(1 :: 32 word) < mi_max_depth (micro_default git_categories)" by (simp add: micro_default_def)
  then have run: "execute_intents git_categories (micro_default git_categories) (sample_executor PolicyAllow)
      (\<lambda>w. (lit ''1'', w)) sample_context [git_intent, git_intent] (1, 5)
    = Some (Inr (replicate 2 \<lparr>tr_id = lit ''1'', tr_content = lit ''a'', tr_is_error = False\<rparr>), 1, 5)"
    using ok by (simp add: execute_intent_def git_intent_def enter_ok tu sample_execute_plain numeral_2_eq_2)
  from sequence_restores_depth [OF run] run show ?thesis by simp
qed

section \<open>A batch in parallel\<close>

lemma get_tool_category_contains: "get_tool_category G n = Some c \<Longrightarrow> mg_contains G c n"
  unfolding get_tool_category_def find_Some_iff by auto

lemma first_polls_waiting:
  assumes "\<And>i. i \<in> set xs \<Longrightarrow> is_tool_allowed G C (in_tool_name i) \<and> tool i = Waits"
    and "d \<le> mi_max_depth C" and "unat (mi_max_depth C) < unat d + length xs"
  shows "first_polls G C tool xs d = (Some (ToolRecursionLimit (mi_max_depth C) (mi_max_depth C)), mi_max_depth C)"
  using assms
proof (induction xs arbitrary: d)
  case Nil
  then show ?case by (simp add: word_le_nat_alt)
next
  case (Cons i xs)
  show ?case
  proof (cases "d = mi_max_depth C")
    case True
    then show ?thesis by (simp add: enter_full)
  next
    case False
    with Cons.prems(2) have less: "d < mi_max_depth C" by simp
    moreover have "unat (mi_max_depth C) < 2 ^ 32" by (rule order_less_le_trans [OF unsigned_less]) simp
    ultimately have "unat (d + 1) = unat d + 1" by (simp add: unat_word_ariths word_less_nat_alt)
    with less have "d + 1 \<le> mi_max_depth C" "unat (mi_max_depth C) < unat (d + 1) + length xs"
      using Cons.prems(3) by (simp_all add: word_le_nat_alt word_less_nat_alt)
    with Cons.IH [of "d + 1"] Cons.prems(1) less show ?thesis by (simp add: enter_ok)
  qed
qed


definition sample_categories :: category_table where
  "sample_categories = \<lparr>mg_contains = \<lambda>c n. c = FileReadCat \<and> n = lit ''read_file'', mg_read_only = [FileReadCat, SearchCat],
     mg_side_effect = [FileWriteCat]\<rparr>"

definition sample_intent :: "unit tool_intent" where
  "sample_intent = \<lparr>in_tool_name = lit ''read_file'', in_arguments = ()\<rparr>"


section \<open>Interleavings\<close>

text \<open>
  Several callers share the counter. An intent has raised it and is being checked (with the value it
  read and whether its tool is allowed), runs, or was dropped while it ran. Raising and checking are
  separate steps; an intent waits, and can be dropped, only while it runs.
\<close>

record depth_state =
  ds_depth :: nat
  ds_checking :: "(nat \<times> bool) multiset"
  ds_running :: "nat multiset"
  ds_dropped :: "nat multiset"

definition ds_fresh :: depth_state where
  "ds_fresh = \<lparr>ds_depth = 0, ds_checking = {#}, ds_running = {#}, ds_dropped = {#}\<rparr>"

inductive depth_step :: "nat \<Rightarrow> depth_state \<Rightarrow> depth_state \<Rightarrow> bool" for m where
  Raise: "depth_step m s (s\<lparr>ds_depth := ds_depth s + 1, ds_checking := add_mset (ds_depth s, ok) (ds_checking s)\<rparr>)"
| Refuse: "(d, ok) \<in># ds_checking s \<Longrightarrow> m \<le> d \<or> \<not> ok \<Longrightarrow>
    depth_step m s (s\<lparr>ds_depth := ds_depth s - 1, ds_checking := ds_checking s - {#(d, ok)#}\<rparr>)"
| Start: "(d, True) \<in># ds_checking s \<Longrightarrow> d < m \<Longrightarrow>
    depth_step m s (s\<lparr>ds_checking := ds_checking s - {#(d, True)#}, ds_running := add_mset d (ds_running s)\<rparr>)"
| Finish: "d \<in># ds_running s \<Longrightarrow>
    depth_step m s (s\<lparr>ds_depth := ds_depth s - 1, ds_running := ds_running s - {#d#}\<rparr>)"
| Drop: "d \<in># ds_running s \<Longrightarrow>
    depth_step m s (s\<lparr>ds_running := ds_running s - {#d#}, ds_dropped := add_mset d (ds_dropped s)\<rparr>)"

definition ds_values :: "depth_state \<Rightarrow> nat multiset" where
  "ds_values s = image_mset fst (ds_checking s) + ds_running s + ds_dropped s"

text \<open>Of the values that were read and are still held, at most \<open>n\<close> are below \<open>n\<close>.\<close>

definition slots_ok :: "nat multiset \<Rightarrow> bool" where
  "slots_ok A \<longleftrightarrow> (\<forall>n. size (filter_mset (\<lambda>v. v < n) A) \<le> n)"

definition ds_inv :: "nat \<Rightarrow> depth_state \<Rightarrow> bool" where
  "ds_inv m s \<longleftrightarrow> ds_depth s = size (ds_values s) \<and> slots_ok (ds_values s)
     \<and> (\<forall>v\<in>#ds_running s + ds_dropped s. v < m)"

lemma slots_ok_mono: "slots_ok A \<Longrightarrow> B \<subseteq># A \<Longrightarrow> slots_ok B"
  unfolding slots_ok_def by (meson size_mset_mono multiset_filter_mono le_trans)

lemma slots_ok_remove: "slots_ok (add_mset d A) \<Longrightarrow> slots_ok A"
  by (erule slots_ok_mono) simp

lemma slots_ok_add: "slots_ok A \<Longrightarrow> slots_ok (add_mset (size A) A)"
  unfolding slots_ok_def
proof
  fix n assume ok: "\<forall>n. size (filter_mset (\<lambda>v. v < n) A) \<le> n"
  show "size (filter_mset (\<lambda>v. v < n) (add_mset (size A) A)) \<le> n"
  proof (cases "size A < n")
    case True
    have "size (filter_mset (\<lambda>v. v < n) A) \<le> size A" by (rule size_mset_mono) simp
    then have "size (filter_mset (\<lambda>v. v < n) A) < n" using True by (rule le_less_trans)
    with True show ?thesis by (simp add: Suc_le_eq)
  qed (use ok in simp)
qed

lemma depth_step_inv: "depth_step m s s' \<Longrightarrow> ds_inv m s \<Longrightarrow> ds_inv m s'"
proof (induction rule: depth_step.induct)
  case (Raise s ok)
  then show ?case using slots_ok_add [of "ds_values s"] by (simp add: ds_inv_def ds_values_def)
next
  case (Refuse d ok s)
  then obtain K where "ds_checking s = add_mset (d, ok) K" by (meson multi_member_split)
  with Refuse.prems show ?case by (auto simp: ds_inv_def ds_values_def intro: slots_ok_remove)
next
  case (Start d s)
  then obtain K where "ds_checking s = add_mset (d, True) K" by (meson multi_member_split)
  with Start show ?case by (simp add: ds_inv_def ds_values_def)
next
  case (Finish d s)
  then obtain K where "ds_running s = add_mset d K" by (meson multi_member_split)
  with Finish.prems show ?case by (auto simp: ds_inv_def ds_values_def intro: slots_ok_remove)
next
  case (Drop d s)
  then obtain K where "ds_running s = add_mset d K" by (meson multi_member_split)
  with Drop.prems show ?case by (simp add: ds_inv_def ds_values_def)
qed

lemma depth_reach_inv: "(depth_step m)\<^sup>*\<^sup>* s s' \<Longrightarrow> ds_inv m s \<Longrightarrow> ds_inv m s'"
  by (induction rule: rtranclp_induct) (auto intro: depth_step_inv)

lemma depth_step_dropped: "depth_step m s s' \<Longrightarrow> ds_dropped s \<subseteq># ds_dropped s'"
  by (induction rule: depth_step.induct) auto

lemma depth_reach_dropped: "(depth_step m)\<^sup>*\<^sup>* s s' \<Longrightarrow> ds_dropped s \<subseteq># ds_dropped s'"
  by (induction rule: rtranclp_induct) (auto dest: depth_step_dropped intro: subset_mset.trans)

lemma ds_inv_limit: "ds_inv m s \<Longrightarrow> size (ds_running s) + size (ds_dropped s) \<le> m"
proof -
  assume inv: "ds_inv m s"
  then have f: "filter_mset (\<lambda>v. v < m) (ds_running s + ds_dropped s) = ds_running s + ds_dropped s"
    by (subst filter_mset_eq_conv) (auto simp: ds_inv_def)
  moreover have "ds_running s + ds_dropped s \<subseteq># ds_values s" by (simp add: ds_values_def)
  ultimately have "slots_ok (ds_running s + ds_dropped s)"
    using inv by (auto simp: ds_inv_def intro: slots_ok_mono)
  then have "size (filter_mset (\<lambda>v. v < m) (ds_running s + ds_dropped s)) \<le> m" by (simp only: slots_ok_def)
  with f show ?thesis by simp
qed

text \<open>
  The depth limit under concurrency. In every interleaving from a fresh executor the counter is the
  number of intents being checked, running or dropped, and the running ones together with all that
  were ever dropped are at most \<^verbatim>\<open>max_depth\<close>: the limit bounds parallelism, not recursion, and each
  dropped intent takes one place away for the rest of the executor's life.
\<close>

theorem dropped_intents_keep_their_place:
  assumes "(depth_step m)\<^sup>*\<^sup>* ds_fresh s" and "(depth_step m)\<^sup>*\<^sup>* s s'"
  shows "ds_depth s' = size (ds_checking s') + size (ds_running s') + size (ds_dropped s')
    \<and> size (ds_running s') + size (ds_dropped s) \<le> m"
proof -
  have "ds_inv m ds_fresh" by (simp add: ds_inv_def ds_values_def ds_fresh_def slots_ok_def)
  with assms have inv: "ds_inv m s'" by (meson depth_reach_inv)
  have "size (ds_dropped s) \<le> size (ds_dropped s')" using depth_reach_dropped [OF assms(2)] by (rule size_mset_mono)
  with ds_inv_limit [OF inv] inv show ?thesis by (simp add: ds_inv_def ds_values_def)
qed

lemma dropped_intents_keep_their_place_witness:
  "ds_depth \<lparr>ds_depth = 1, ds_checking = {#}, ds_running = {#}, ds_dropped = {#0#}\<rparr> = 0 + 0 + 1
    \<and> size (ds_running \<lparr>ds_depth = 1, ds_checking = {#}, ds_running = {#}, ds_dropped = {#0#}\<rparr>) + 1 \<le> (1::nat)"
proof -
  let ?s = "\<lparr>ds_depth = 1, ds_checking = {#}, ds_running = {#}, ds_dropped = {#0#}\<rparr>"
  have "depth_step 1 ds_fresh \<lparr>ds_depth = 1, ds_checking = {#(0, True)#}, ds_running = {#}, ds_dropped = {#}\<rparr>"
    using depth_step.Raise [of 1 ds_fresh True] by (simp add: ds_fresh_def)
  moreover have "depth_step 1 \<lparr>ds_depth = 1, ds_checking = {#(0, True)#}, ds_running = {#}, ds_dropped = {#}\<rparr>
      \<lparr>ds_depth = 1, ds_checking = {#}, ds_running = {#0#}, ds_dropped = {#}\<rparr>"
    using depth_step.Start [of 0 "\<lparr>ds_depth = 1, ds_checking = {#(0, True)#}, ds_running = {#}, ds_dropped = {#}\<rparr>" 1] by simp
  moreover have "depth_step 1 \<lparr>ds_depth = 1, ds_checking = {#}, ds_running = {#0#}, ds_dropped = {#}\<rparr> ?s"
    using depth_step.Drop [of 0 "\<lparr>ds_depth = 1, ds_checking = {#}, ds_running = {#0#}, ds_dropped = {#}\<rparr>" 1] by simp
  ultimately have "(depth_step 1)\<^sup>*\<^sup>* ds_fresh ?s" by (meson converse_rtranclp_into_rtranclp rtranclp.rtrancl_refl)
  from dropped_intents_keep_their_place [OF this rtranclp.rtrancl_refl] show ?thesis by simp
qed

end
