(* ===== verification/ContextBuilder.thy ===== *)
theory ContextBuilder
  imports TaskAgent
begin

text \<open>
  What is added to a conversation before it is sent: \<^verbatim>\<open>apps/cli/src/utils/context_builder.rs\<close> with the
  gate of \<^verbatim>\<open>utils/retrieval_gate.rs\<close>. The builder decides whether to search the stored history, keeps
  the results above a threshold, formats them and inserts them as a system message. Message store,
  tiered memory, re-ranking model, knowledge coordinator and personal knowledge cache are parameters
  over a world; the floating-point scores are abstract, with the operations the code applies. A slice
  that is not on a character boundary, or an insertion past the end, is \<open>None\<close>.
\<close>

section \<open>The gate\<close>

text \<open>\<open>fl_lit n\<close> is the literal \<open>n / 100\<close>; \<open>fl_pct\<close> prints \<^verbatim>\<open>{:.0}\<close> of a score times 100.\<close>

record 'f floats =
  fl_lit :: "nat \<Rightarrow> 'f"
  fl_add :: "'f \<Rightarrow> 'f \<Rightarrow> 'f"
  fl_min :: "'f \<Rightarrow> 'f \<Rightarrow> 'f"
  fl_ge :: "'f \<Rightarrow> 'f \<Rightarrow> bool"
  fl_gt :: "'f \<Rightarrow> 'f \<Rightarrow> bool"
  fl_bonus :: "nat \<Rightarrow> 'f"
  fl_relax :: "'f \<Rightarrow> 'f \<Rightarrow> 'f"
  fl_pct :: "'f \<Rightarrow> rstr"

definition reference_patterns :: "rstr list" where
  "reference_patterns = map lit [''earlier'', ''before'', ''we discussed'', ''remember when'', ''what was'']
     @ [lit ''didn'' @ [39] @ lit ''t we'']
     @ map lit [''you mentioned'', ''as i said'', ''previously'', ''last time'', ''originally'', ''initially'',
       ''you said'', ''i said'', ''we talked'', ''back when'', ''recall'', ''mentioned earlier'', ''as mentioned'']"

definition question_patterns :: "rstr list" where
  "question_patterns = map lit [''what did'', ''when did'', ''why did'', ''how did'', ''where was'', ''who was'']"

definition needs_retrieval :: "(rstr \<Rightarrow> rstr) \<Rightarrow> rstr \<Rightarrow> nat \<Rightarrow> bool" where
  "needs_retrieval to_lower user_message recent =
     (let lower = to_lower user_message in
      if list_ex (str_contains lower) reference_patterns then True
      else if list_ex (str_contains lower) question_patterns then True
      else if recent < 5 then True
      else recent < 10
        \<and> list_ex (\<lambda>p. p \<in> set (split_ws lower)) (map lit [''it'', ''they'', ''that'', ''those'', ''the one''])
        \<and> blen user_message < 100 \<and> 63 \<in> set lower)"

datatype retrieval_need = NeedNone | NeedLow | NeedMedium | NeedHigh

definition classify_retrieval_need :: "'f floats \<Rightarrow> (rstr \<Rightarrow> rstr) \<Rightarrow> rstr \<Rightarrow> nat \<Rightarrow> retrieval_need \<times> 'f" where
  "classify_retrieval_need F to_lower user_message recent =
     (let lower = to_lower user_message;
          add_all = (\<lambda>ps x (score, matches).
            fold (\<lambda>p (sc, k). if str_contains lower p then (fl_add F sc (fl_lit F x), k + 1) else (sc, k)) ps
              (score, matches));
          (s1, m1) = add_all reference_patterns 40 (fl_lit F 0, 0 :: nat);
          (s2, m2) = add_all question_patterns 25 (s1, m1);
          s3 = (if recent < 3 then fl_add F s2 (fl_lit F 30) else if recent < 5 then fl_add F s2 (fl_lit F 20)
                else if recent < 10 then fl_add F s2 (fl_lit F 10) else s2);
          score = fl_min F s3 (fl_lit F 100);
          need = (if fl_ge F score (fl_lit F 60) then NeedHigh else if fl_ge F score (fl_lit F 35) then NeedMedium
                  else if fl_ge F score (fl_lit F 15) then NeedLow else NeedNone);
          confidence = (if 0 < m2 then fl_add F (fl_lit F 80) (fl_bonus F m2) else fl_lit F 60) in
      (need, confidence))"

text \<open>With a local classifier its answer counts when it has one.\<close>

definition classify_enhanced :: "'f floats \<Rightarrow> (rstr \<Rightarrow> rstr) \<Rightarrow> (rstr \<Rightarrow> nat \<Rightarrow> (retrieval_need \<times> 'f) option) option \<Rightarrow>
    rstr \<Rightarrow> nat \<Rightarrow> retrieval_need \<times> 'f" where
  "classify_enhanced F to_lower classifier user_message recent =
     (case Option.bind classifier (\<lambda>c. c user_message recent) of
        Some r \<Rightarrow> r
      | None \<Rightarrow> classify_retrieval_need F to_lower user_message recent)"

definition needs_retrieval_enhanced :: "'f floats \<Rightarrow> (rstr \<Rightarrow> rstr) \<Rightarrow>
    (rstr \<Rightarrow> nat \<Rightarrow> (retrieval_need \<times> 'f) option) option \<Rightarrow> rstr \<Rightarrow> nat \<Rightarrow> bool" where
  "needs_retrieval_enhanced F to_lower classifier user_message recent \<longleftrightarrow>
     fst (classify_enhanced F to_lower classifier user_message recent) \<in> {NeedMedium, NeedHigh}"

section \<open>The builder\<close>

record 'f builder_config =
  bc_injection_threshold :: 'f
  bc_max_inject_tokens :: nat
  bc_max_inject_items :: nat
  bc_use_gating :: bool
  bc_min_retrieval_need :: retrieval_need
  bc_enable_seal_enhancement :: bool
  bc_use_resolved_query :: bool
  bc_inject_entity_context :: bool
  bc_quality_aware_threshold :: bool
  bc_enable_personal_knowledge :: bool
  bc_personal_min_confidence :: 'f
  bc_personal_max_items :: nat
  bc_include_context_facts :: bool

definition bc_default :: "'f floats \<Rightarrow> 'f builder_config" where
  "bc_default F = \<lparr>bc_injection_threshold = fl_lit F 75, bc_max_inject_tokens = 2000, bc_max_inject_items = 3, bc_use_gating = True,
     bc_min_retrieval_need = NeedMedium, bc_enable_seal_enhancement = True, bc_use_resolved_query = True,
     bc_inject_entity_context = True, bc_quality_aware_threshold = True, bc_enable_personal_knowledge = True,
     bc_personal_min_confidence = fl_lit F 50, bc_personal_max_items = 15, bc_include_context_facts = True\<rparr>"

definition system_text :: "rstr \<Rightarrow> 'j message" where
  "system_text t = \<lparr>m_role = SystemRole, m_content = TextContent t\<rparr>"

definition marked :: "rstr list \<Rightarrow> 'j message \<Rightarrow> bool" where
  "marked marks m \<longleftrightarrow> m_role m = SystemRole
     \<and> (case m_content m of TextContent t \<Rightarrow> list_ex (str_contains t) marks | Blocks bs \<Rightarrow> False)"

definition has_compaction_summary :: "'j message list \<Rightarrow> bool" where
  "has_compaction_summary ms =
     list_ex (marked [lit ''[Compacted Context]'', lit ''Summary of earlier conversation'']) ms"

text \<open>\<open>to_lower\<close> is \<^verbatim>\<open>str::to_lowercase\<close>.\<close>

definition should_retrieve :: "'f floats \<Rightarrow> (rstr \<Rightarrow> rstr) \<Rightarrow> 'f builder_config \<Rightarrow> rstr \<Rightarrow> 'j message list \<Rightarrow> bool" where
  "should_retrieve F to_lower C q ms =
     (if \<not> has_compaction_summary ms then False
      else if \<not> bc_use_gating C then True
      else if needs_retrieval to_lower q (length ms) then True
      else
        (case fst (classify_retrieval_need F to_lower q (length ms)) of
           NeedHigh \<Rightarrow> True
         | NeedMedium \<Rightarrow> bc_min_retrieval_need C \<noteq> NeedHigh
         | NeedLow \<Rightarrow> bc_min_retrieval_need C = NeedLow
         | NeedNone \<Rightarrow> False))"

fun count_system :: "'j message list \<Rightarrow> nat" where
  "count_system [] = 0"
| "count_system (m # ms) = (if m_role m = SystemRole then Suc (count_system ms) else 0)"

fun marker_index :: "'j message list \<Rightarrow> nat option" where
  "marker_index [] = None"
| "marker_index (m # ms) =
     (if marked [lit ''[Compacted Context]'', lit ''Summary of earlier''] m then Some 0
      else map_option Suc (marker_index ms))"

definition find_injection_point :: "'j message list \<Rightarrow> nat" where
  "find_injection_point ms = (case marker_index ms of Some i \<Rightarrow> i + 1 | None \<Rightarrow> count_system ms)"

definition inject :: "rstr \<Rightarrow> 'j message list \<Rightarrow> 'j message list option" where
  "inject t ms = vec_insert ms (find_injection_point ms) (system_text t)"

text \<open>\<^verbatim>\<open>rfind(' ')\<close> in the part up to the limit; \<open>None\<close> is a panic.\<close>

definition cut_at_last_space :: "rstr \<Rightarrow> rstr" where
  "cut_at_last_space s = (if 32 \<in> set s then rev (tl (dropWhile (\<lambda>c. c \<noteq> 32) (rev s))) else s)"

definition truncate_content :: "rstr \<Rightarrow> nat \<Rightarrow> rstr option" where
  "truncate_content content max_chars =
     (if blen content \<le> max_chars then Some content
      else map_option (\<lambda>(a, b). cut_at_last_space a @ lit ''...'') (split_byte max_chars content))"

section \<open>Formatting\<close>

record stored_message =
  sd_role :: rstr
  sd_content :: rstr

datatype memory_tier = Hot | Warm | Cold | MentalModel

fun tier_label :: "memory_tier \<Rightarrow> rstr" where
  "tier_label Hot = lit ''recent''"
| "tier_label Warm = lit ''summarized''"
| "tier_label Cold = lit ''archived''"
| "tier_label MentalModel = lit ''mental-model''"

record 'f tiered_result =
  tr_text :: rstr
  tr_score :: 'f
  tr_tier :: memory_tier

record 'f resolution =
  rs_reference :: rstr
  rs_antecedent :: rstr
  rs_confidence :: 'f

text \<open>The lines of the results: a label, the score and the text cut at 500 bytes.\<close>

definition result_line :: "'f floats \<Rightarrow> rstr \<Rightarrow> 'f \<Rightarrow> rstr \<Rightarrow> rstr option" where
  "result_line F label score text1 =
     map_option (\<lambda>t. lit ''- ['' @ label @ lit ''] (relevance: '' @ fl_pct F score @ lit ''%): '' @ t)
       (truncate_content text1 500)"

definition message_lines :: "'f floats \<Rightarrow> (stored_message \<times> 'f) list \<Rightarrow> rstr list option" where
  "message_lines F results = those (map (\<lambda>(m, score). result_line F (sd_role m) score (sd_content m)) results)"

definition tiered_lines :: "'f floats \<Rightarrow> 'f tiered_result list \<Rightarrow> rstr list option" where
  "tiered_lines F results = those (map (\<lambda>r. result_line F (tier_label (tr_tier r)) (tr_score r) (tr_text r)) results)"

definition earlier_intro :: rstr where
  "earlier_intro = lit ''The following information was retrieved from earlier in this conversation:''"

definition history_intro :: rstr where
  "history_intro = lit ''The following information was retrieved from conversation history:''"

definition retrieved_block :: "rstr \<Rightarrow> rstr list \<Rightarrow> rstr list" where
  "retrieved_block intro ls =
     [lit ''[Retrieved Context]'', intro, []] @ ls @ [[], lit ''[End Retrieved Context]'']"

definition format_injection :: "'f floats \<Rightarrow> (stored_message \<times> 'f) list \<Rightarrow> rstr option" where
  "format_injection F results =
     map_option (\<lambda>ls. join [10] (retrieved_block earlier_intro ls)) (message_lines F results)"

definition format_tiered_injection :: "'f floats \<Rightarrow> 'f tiered_result list \<Rightarrow> rstr option" where
  "format_tiered_injection F results =
     map_option (\<lambda>ls. join [10] (retrieved_block history_intro ls)) (tiered_lines F results)"

definition resolution_lines :: "'f floats \<Rightarrow> 'f resolution list \<Rightarrow> rstr list" where
  "resolution_lines F rs =
     map (\<lambda>r. lit ''- '' @ [34] @ rs_reference r @ [34] @ lit '' '' @ [8594] @ lit '' '' @ rs_antecedent r
         @ lit '' ('' @ fl_pct F (rs_confidence r) @ lit ''% confidence)'')
       (filter (\<lambda>r. fl_ge F (rs_confidence r) (fl_lit F 50)) rs)"

definition entity_block :: "'f floats \<Rightarrow> 'f resolution list \<Rightarrow> rstr list" where
  "entity_block F rs =
     [lit ''[Entity Context]'', lit ''Resolved references from current query:''] @ resolution_lines F rs @ [[]]"

definition format_entity_resolutions :: "'f floats \<Rightarrow> 'f resolution list \<Rightarrow> rstr" where
  "format_entity_resolutions F rs = join [10] (entity_block F rs)"

definition seal_parts :: "'f floats \<Rightarrow> 'f builder_config \<Rightarrow> rstr \<Rightarrow> rstr list option \<Rightarrow> 'f resolution list \<Rightarrow> rstr option" where
  "seal_parts F C intro result_lines rs =
     map_option (\<lambda>ls. join [10]
         ((if bc_inject_entity_context C \<and> rs \<noteq> [] then entity_block F rs else [])
          @ (if ls = [] then [] else retrieved_block intro ls))) result_lines"

definition format_seal_injection :: "'f floats \<Rightarrow> 'f builder_config \<Rightarrow> (stored_message \<times> 'f) list \<Rightarrow> 'f resolution list \<Rightarrow>
    rstr option" where
  "format_seal_injection F C results rs = seal_parts F C earlier_intro (message_lines F results) rs"

definition format_seal_tiered_injection :: "'f floats \<Rightarrow> 'f builder_config \<Rightarrow> 'f tiered_result list \<Rightarrow> 'f resolution list \<Rightarrow>
    rstr option" where
  "format_seal_tiered_injection F C results rs = seal_parts F C history_intro (tiered_lines F results) rs"

section \<open>Building the context\<close>

record 'f seal_result =
  sr_resolved_query :: rstr
  sr_quality :: 'f
  sr_resolutions :: "'f resolution list"

text \<open>
  \<open>sv_search\<close> is \<^verbatim>\<open>search_conversation\<close> with conversation, query, limit and minimal score;
  \<open>sv_adaptive\<close> is the tiered memory's adaptive search; \<open>sv_rerank\<close> yields the positions of the
  candidates in the order of their new scores; the knowledge operations may fail or find nothing, and
  \<open>sv_bks_quality\<close> is the coordinator's quality bound.
\<close>

record ('w, 'f, 'fact) services =
  sv_search :: "rstr \<Rightarrow> rstr \<Rightarrow> nat \<Rightarrow> 'f \<Rightarrow> 'w \<Rightarrow> (rstr + (stored_message \<times> 'f) list) \<times> 'w"
  sv_adaptive :: "rstr \<Rightarrow> rstr \<Rightarrow> 'w \<Rightarrow> (rstr + 'f tiered_result list) \<times> 'w"
  sv_rerank :: "(rstr \<Rightarrow> (rstr \<times> 'f) list \<Rightarrow> 'w \<Rightarrow> (nat \<times> 'f) list \<times> 'w) option"
  sv_facts :: "'w \<Rightarrow> rstr + 'fact list"
  sv_relevant :: "'f \<Rightarrow> nat \<Rightarrow> bool \<Rightarrow> 'fact list \<Rightarrow> rstr option \<Rightarrow> 'fact list"
  sv_format_facts :: "'fact list \<Rightarrow> rstr"
  sv_coordinator :: bool
  sv_pks :: "'f seal_result \<Rightarrow> 'w \<Rightarrow> (rstr + rstr option) \<times> 'w"
  sv_bks :: "rstr \<Rightarrow> 'w \<Rightarrow> (rstr + rstr option) \<times> 'w"
  sv_bks_quality :: 'f
  sv_adjust :: "'f \<Rightarrow> 'f \<Rightarrow> 'f"

text \<open>A builder: its configuration and what it calls. Results are \<open>None\<close> for a panic.\<close>

record ('w, 'f, 'fact) context_builder =
  bu_config :: "'f builder_config"
  bu_floats :: "'f floats"
  bu_lower :: "rstr \<Rightarrow> rstr"
  bu_services :: "('w, 'f, 'fact) services"

type_synonym ('w, 'j) built = "((rstr + 'j message list) \<times> 'w) option"

definition keep_relevant :: "('w, 'f, 'fact) context_builder \<Rightarrow> 'f \<Rightarrow> ('a \<Rightarrow> 'f) \<Rightarrow> 'a list \<Rightarrow> 'a list" where
  "keep_relevant B threshold score xs =
     take (bc_max_inject_items (bu_config B)) (filter (\<lambda>x. fl_ge (bu_floats B) (score x) threshold) xs)"

definition retrieval_wanted :: "('w, 'f, 'fact) context_builder \<Rightarrow> rstr \<Rightarrow> 'j message list \<Rightarrow> bool" where
  "retrieval_wanted B q ms = should_retrieve (bu_floats B) (bu_lower B) (bu_config B) q ms"

text \<open>The text, if there is one to inject, goes in as a system message.\<close>

definition inject_text :: "rstr option \<Rightarrow> 'j message list \<Rightarrow> 'w \<Rightarrow> ('w, 'j) built" where
  "inject_text t ms w = map_option (\<lambda>ms1. (Inr ms1, w)) (Option.bind t (\<lambda>x. inject x ms))"

definition build_context :: "('w, 'f, 'fact) context_builder \<Rightarrow> 'j message list \<Rightarrow> rstr \<Rightarrow> rstr \<Rightarrow> 'w \<Rightarrow> ('w, 'j) built" where
  "build_context B ms q conv w =
     (if \<not> retrieval_wanted B q ms then Some (Inr ms, w)
      else
        case sv_search (bu_services B) conv q (bc_max_inject_items (bu_config B) + 2) (fl_lit (bu_floats B) 50) w of
          (Inl e, w1) \<Rightarrow> Some (Inl e, w1)
        | (Inr results, w1) \<Rightarrow>
            let relevant = keep_relevant B (bc_injection_threshold (bu_config B)) snd results in
            if relevant = [] then Some (Inr ms, w1)
            else inject_text (format_injection (bu_floats B) relevant) ms w1)"

definition build_context_tiered :: "('w, 'f, 'fact) context_builder \<Rightarrow> 'j message list \<Rightarrow> rstr \<Rightarrow> rstr \<Rightarrow> 'w \<Rightarrow> ('w, 'j) built" where
  "build_context_tiered B ms q conv w =
     (if \<not> retrieval_wanted B q ms then Some (Inr ms, w)
      else
        case sv_adaptive (bu_services B) q conv w of
          (Inl e, w1) \<Rightarrow> Some (Inl e, w1)
        | (Inr results, w1) \<Rightarrow>
            let relevant = keep_relevant B (bc_injection_threshold (bu_config B)) tr_score results in
            if relevant = [] then Some (Inr ms, w1)
            else inject_text (format_tiered_injection (bu_floats B) relevant) ms w1)"

definition search_query :: "('w, 'f, 'fact) context_builder \<Rightarrow> rstr \<Rightarrow> 'f seal_result \<Rightarrow> rstr" where
  "search_query B q sr = (if bc_use_resolved_query (bu_config B) then sr_resolved_query sr else q)"

text \<open>\<open>fl_relax t q\<close> is \<^verbatim>\<open>t * (1.0 - (1.0 - q) * 0.3)\<close>.\<close>

definition seal_threshold :: "('w, 'f, 'fact) context_builder \<Rightarrow> 'f seal_result \<Rightarrow> 'f" where
  "seal_threshold B sr =
     (let t = bc_injection_threshold (bu_config B) in
      if bc_quality_aware_threshold (bu_config B) \<and> fl_gt (bu_floats B) (sr_quality sr) (fl_lit (bu_floats B) 0)
      then fl_relax (bu_floats B) t (sr_quality sr) else t)"

definition build_context_with_seal :: "('w, 'f, 'fact) context_builder \<Rightarrow> 'j message list \<Rightarrow> rstr \<Rightarrow> 'f seal_result \<Rightarrow> rstr \<Rightarrow> 'w \<Rightarrow>
    ('w, 'j) built" where
  "build_context_with_seal B ms q sr conv w =
     (if \<not> bc_enable_seal_enhancement (bu_config B) then build_context B ms q conv w
      else
        let sq = search_query B q sr in
        if \<not> retrieval_wanted B sq ms then Some (Inr ms, w)
        else
          case sv_search (bu_services B) conv sq (bc_max_inject_items (bu_config B) + 2) (fl_lit (bu_floats B) 50) w of
            (Inl e, w1) \<Rightarrow> Some (Inl e, w1)
          | (Inr results, w1) \<Rightarrow>
              let relevant = keep_relevant B (seal_threshold B sr) snd results in
              if relevant = [] \<and> sr_resolutions sr = [] then Some (Inr ms, w1)
              else inject_text (format_seal_injection (bu_floats B) (bu_config B) relevant (sr_resolutions sr)) ms w1)"

definition build_context_with_seal_tiered :: "('w, 'f, 'fact) context_builder \<Rightarrow> 'j message list \<Rightarrow> rstr \<Rightarrow> 'f seal_result \<Rightarrow>
    rstr \<Rightarrow> 'w \<Rightarrow> ('w, 'j) built" where
  "build_context_with_seal_tiered B ms q sr conv w =
     (if \<not> bc_enable_seal_enhancement (bu_config B) then build_context_tiered B ms q conv w
      else
        let sq = search_query B q sr in
        if \<not> retrieval_wanted B sq ms then Some (Inr ms, w)
        else
          case sv_adaptive (bu_services B) sq conv w of
            (Inl e, w1) \<Rightarrow> Some (Inl e, w1)
          | (Inr results, w1) \<Rightarrow>
              let relevant = keep_relevant B (seal_threshold B sr) tr_score results in
              if relevant = [] \<and> sr_resolutions sr = [] then Some (Inr ms, w1)
              else inject_text (format_seal_tiered_injection (bu_floats B) (bu_config B) relevant (sr_resolutions sr))
                ms w1)"

text \<open>The first entries of the new order, with the new scores; a position past the end is skipped.\<close>

definition reranked :: "('w, 'f, 'fact) context_builder \<Rightarrow> ('f \<Rightarrow> 'a \<Rightarrow> 'a) \<Rightarrow> 'a list \<Rightarrow> (nat \<times> 'f) list \<Rightarrow> 'a list" where
  "reranked B rescore results order =
     List.map_filter (\<lambda>(i, score). map_option (rescore score) (vec_get results i))
       (take (bc_max_inject_items (bu_config B)) order)"

definition build_context_with_reranking :: "('w, 'f, 'fact) context_builder \<Rightarrow> 'j message list \<Rightarrow> rstr \<Rightarrow> rstr \<Rightarrow> 'w \<Rightarrow>
    ('w, 'j) built" where
  "build_context_with_reranking B ms q conv w =
     (if \<not> retrieval_wanted B q ms then Some (Inr ms, w)
      else
        case sv_search (bu_services B) conv q (bc_max_inject_items (bu_config B) * 2) (fl_lit (bu_floats B) 40) w of
          (Inl e, w1) \<Rightarrow> Some (Inl e, w1)
        | (Inr results, w1) \<Rightarrow>
            if results = [] then Some (Inr ms, w1)
            else
              case (case sv_rerank (bu_services B) of
                  Some rerank \<Rightarrow>
                    apfst (reranked B (\<lambda>score (m, _). (m, score)) results)
                      (rerank q (map (\<lambda>(m, score). (sd_content m, score)) results) w1)
                | None \<Rightarrow> (keep_relevant B (bc_injection_threshold (bu_config B)) snd results, w1)) of
                (relevant, w2) \<Rightarrow>
                  if relevant = [] then Some (Inr ms, w2)
                  else inject_text (format_injection (bu_floats B) relevant) ms w2)"

definition build_context_tiered_with_reranking :: "('w, 'f, 'fact) context_builder \<Rightarrow> 'j message list \<Rightarrow> rstr \<Rightarrow> rstr \<Rightarrow> 'w \<Rightarrow>
    ('w, 'j) built" where
  "build_context_tiered_with_reranking B ms q conv w =
     (if \<not> retrieval_wanted B q ms then Some (Inr ms, w)
      else
        case sv_adaptive (bu_services B) q conv w of
          (Inl e, w1) \<Rightarrow> Some (Inl e, w1)
        | (Inr results, w1) \<Rightarrow>
            if results = [] then Some (Inr ms, w1)
            else
              case (case sv_rerank (bu_services B) of
                  Some rerank \<Rightarrow>
                    apfst (reranked B (\<lambda>score r. r\<lparr>tr_score := score\<rparr>) results)
                      (rerank q (map (\<lambda>r. (tr_text r, tr_score r)) results) w1)
                | None \<Rightarrow> (keep_relevant B (bc_injection_threshold (bu_config B)) tr_score results, w1)) of
                (relevant, w2) \<Rightarrow>
                  if relevant = [] then Some (Inr ms, w2)
                  else inject_text (format_tiered_injection (bu_floats B) relevant) ms w2)"

definition merge_new :: "rstr list \<Rightarrow> rstr list \<Rightarrow> rstr list" where
  "merge_new fs suggestions = fold (\<lambda>f s. if f \<in> set s then s else s @ [f]) fs suggestions"

definition suggest_files_from_results :: "(rstr \<Rightarrow> rstr list) \<Rightarrow> (stored_message \<times> 'f) list \<Rightarrow> rstr list" where
  "suggest_files_from_results extract results = fold (\<lambda>(m, _). merge_new (extract (sd_content m))) results []"

definition suggest_files_from_tiered :: "(rstr \<Rightarrow> rstr list) \<Rightarrow> 'f tiered_result list \<Rightarrow> rstr list" where
  "suggest_files_from_tiered extract results = fold (\<lambda>r. merge_new (extract (tr_text r))) results []"

section \<open>Personal and behavioural knowledge\<close>

definition build_personal_context :: "('w, 'f, 'fact) context_builder \<Rightarrow> rstr option \<Rightarrow> 'w \<Rightarrow> rstr" where
  "build_personal_context B q w =
     (let C = bu_config B; S = bu_services B in
      if \<not> bc_enable_personal_knowledge C then []
      else
        case sv_facts S w of
          Inl e \<Rightarrow> []
        | Inr facts \<Rightarrow>
            if facts = [] then []
            else
              let relevant = sv_relevant S (bc_personal_min_confidence C) (bc_personal_max_items C)
                    (bc_include_context_facts C) facts q in
              if relevant = [] then [] else sv_format_facts S relevant)"

definition inject_personal_context :: "('w, 'f, 'fact) context_builder \<Rightarrow> 'j message list \<Rightarrow> rstr option \<Rightarrow> 'w \<Rightarrow>
    'j message list option" where
  "inject_personal_context B ms q w =
     (let t = build_personal_context B q w in if t = [] then Some ms else inject t ms)"

definition build_full_context :: "('w, 'f, 'fact) context_builder \<Rightarrow> 'j message list \<Rightarrow> rstr \<Rightarrow> rstr \<Rightarrow> 'w \<Rightarrow> ('w, 'j) built" where
  "build_full_context B ms q conv w =
     Option.bind (inject_personal_context B ms (Some q) w) (\<lambda>ms1. build_context B ms1 q conv w)"

definition build_full_context_tiered :: "('w, 'f, 'fact) context_builder \<Rightarrow> 'j message list \<Rightarrow> rstr \<Rightarrow> rstr \<Rightarrow> 'w \<Rightarrow>
    ('w, 'j) built" where
  "build_full_context_tiered B ms q conv w =
     Option.bind (inject_personal_context B ms (Some q) w) (\<lambda>ms1. build_context_tiered B ms1 q conv w)"

text \<open>The three insertions before the search; each position is fixed by the configuration alone.\<close>

definition insert_pks :: "('w, 'f, 'fact) context_builder \<Rightarrow> 'f seal_result option \<Rightarrow> 'j message list \<Rightarrow> 'w \<Rightarrow> 'j message list \<times> 'w" where
  "insert_pks B seal ms w =
     (case seal of
        Some sr \<Rightarrow>
          if bc_enable_personal_knowledge (bu_config B) \<and> sv_coordinator (bu_services B) then
            (case sv_pks (bu_services B) sr w of
               (Inr (Some t), w1) \<Rightarrow> (system_text t # ms, w1) | (_, w1) \<Rightarrow> (ms, w1))
          else (ms, w)
      | None \<Rightarrow> (ms, w))"

definition insert_entities :: "('w, 'f, 'fact) context_builder \<Rightarrow> 'f seal_result option \<Rightarrow> 'j message list \<Rightarrow> 'j message list option" where
  "insert_entities B seal ms =
     (case seal of
        Some sr \<Rightarrow>
          if bc_inject_entity_context (bu_config B) \<and> sr_resolutions sr \<noteq> [] then
            vec_insert ms (if bc_enable_personal_knowledge (bu_config B) \<and> sv_coordinator (bu_services B) then 1 else 0)
              (system_text (format_entity_resolutions (bu_floats B) (sr_resolutions sr)))
          else Some ms
      | None \<Rightarrow> Some ms)"

definition bks_position :: "'f builder_config \<Rightarrow> nat" where
  "bks_position C =
     (if bc_enable_personal_knowledge C then if bc_inject_entity_context C then 2 else 1
      else if bc_inject_entity_context C then 1 else 0)"

definition insert_bks :: "('w, 'f, 'fact) context_builder \<Rightarrow> 'f seal_result option \<Rightarrow> rstr \<Rightarrow> 'j message list \<Rightarrow> 'w \<Rightarrow>
    ('j message list \<times> 'w) option" where
  "insert_bks B seal q ms w =
     (case seal of
        Some sr \<Rightarrow>
          if sv_coordinator (bu_services B)
              \<and> fl_ge (bu_floats B) (sr_quality sr) (sv_bks_quality (bu_services B)) then
            (case sv_bks (bu_services B) q w of
               (Inr (Some t), w1) \<Rightarrow>
                 map_option (\<lambda>ms1. (ms1, w1)) (vec_insert ms (bks_position (bu_config B)) (system_text t))
             | (_, w1) \<Rightarrow> Some (ms, w1))
          else Some (ms, w)
      | None \<Rightarrow> Some (ms, w))"

definition knowledge_threshold :: "('w, 'f, 'fact) context_builder \<Rightarrow> 'f seal_result option \<Rightarrow> 'f" where
  "knowledge_threshold B seal =
     (let t = bc_injection_threshold (bu_config B) in
      case seal of
        Some sr \<Rightarrow>
          if bc_quality_aware_threshold (bu_config B) \<and> fl_gt (bu_floats B) (sr_quality sr) (fl_lit (bu_floats B) 0)
          then if sv_coordinator (bu_services B) then sv_adjust (bu_services B) t (sr_quality sr) else t
          else t
      | None \<Rightarrow> t)"

definition build_context_with_seal_and_knowledge :: "('w, 'f, 'fact) context_builder \<Rightarrow> 'j message list \<Rightarrow> rstr \<Rightarrow>
    'f seal_result option \<Rightarrow> rstr \<Rightarrow> 'w \<Rightarrow> ('w, 'j) built" where
  "build_context_with_seal_and_knowledge B ms q seal conv w =
     (case insert_pks B seal ms w of
        (ms1, w1) \<Rightarrow>
          Option.bind (insert_entities B seal ms1) (\<lambda>ms2.
            Option.bind (insert_bks B seal q ms2 w1) (\<lambda>(ms3, w2).
              let sq = (case seal of Some sr \<Rightarrow> search_query B q sr | None \<Rightarrow> q) in
              if \<not> retrieval_wanted B sq ms3 then Some (Inr ms3, w2)
              else
                case sv_search (bu_services B) conv sq (bc_max_inject_items (bu_config B) + 2)
                    (fl_lit (bu_floats B) 50) w2 of
                  (Inl e, w3) \<Rightarrow> Some (Inl e, w3)
                | (Inr results, w3) \<Rightarrow>
                    let relevant = keep_relevant B (knowledge_threshold B seal) snd results in
                    if relevant = [] then Some (Inr ms3, w3)
                    else inject_text (format_injection (bu_floats B) relevant) ms3 w3)))"

section \<open>Insertion\<close>

lemma marker_index_less: "marker_index ms = Some i \<Longrightarrow> i < length ms"
  by (induction ms arbitrary: i) (auto split: if_splits)

lemma count_system_le: "count_system ms \<le> length ms"
  by (induction ms) auto

lemma injection_point_le: "find_injection_point ms \<le> length ms"
  using marker_index_less [of ms] count_system_le [of ms]
  by (auto simp: find_injection_point_def Suc_le_eq split: option.split)

lemma inject_eq:
  "inject t ms = Some (take (find_injection_point ms) ms @ system_text t # drop (find_injection_point ms) ms)"
  by (simp add: inject_def vec_insert_def injection_point_le)

text \<open>A message list with at most one more message, a system text.\<close>

definition one_more :: "'j message list \<Rightarrow> rstr \<Rightarrow> 'j message list \<Rightarrow> bool" where
  "one_more ms t ms1 \<longleftrightarrow> (\<exists>i\<le>length ms. ms1 = take i ms @ system_text t # drop i ms)"

lemma one_more_inject: "inject t ms = Some ms1 \<Longrightarrow> one_more ms t ms1"
  using injection_point_le [of ms] by (auto simp: inject_eq one_more_def)

text \<open>
  Only relevant results are injected. A context that is built is the conversation itself, or the
  conversation with one system message inserted, which lists at most \<^verbatim>\<open>max_inject_items\<close> results of the
  search, each with a score that reaches the threshold.
\<close>

theorem only_relevant_results_injected:
  assumes "build_context B ms q conv w = Some (Inr ms1, w1)"
  shows "ms1 = ms \<or> (\<exists>results relevant t. relevant \<noteq> [] \<and> set relevant \<subseteq> set results
      \<and> sv_search (bu_services B) conv q (bc_max_inject_items (bu_config B) + 2) (fl_lit (bu_floats B) 50) w
          = (Inr results, w1)
      \<and> length relevant \<le> bc_max_inject_items (bu_config B)
      \<and> list_all (\<lambda>(m, score). fl_ge (bu_floats B) score (bc_injection_threshold (bu_config B))) relevant
      \<and> format_injection (bu_floats B) relevant = Some t \<and> one_more ms t ms1)"
proof (cases "ms1 = ms")
  case False
  with assms obtain results where
    s: "sv_search (bu_services B) conv q (bc_max_inject_items (bu_config B) + 2) (fl_lit (bu_floats B) 50) w
        = (Inr results, w1)" and
    r: "keep_relevant B (bc_injection_threshold (bu_config B)) snd results \<noteq> []" and
    i: "inject_text (format_injection (bu_floats B)
          (keep_relevant B (bc_injection_threshold (bu_config B)) snd results)) ms w1 = Some (Inr ms1, w1)"
    by (auto simp: build_context_def Let_def inject_text_def split: if_splits prod.splits sum.splits)
  let ?r = "keep_relevant B (bc_injection_threshold (bu_config B)) snd results"
  from i obtain t where "format_injection (bu_floats B) ?r = Some t" "inject t ms = Some ms1"
    by (auto simp: inject_text_def split: bind_splits)
  moreover have "set ?r \<subseteq> set results" "length ?r \<le> bc_max_inject_items (bu_config B)"
    "list_all (\<lambda>(m, score). fl_ge (bu_floats B) score (bc_injection_threshold (bu_config B))) ?r"
    by (auto simp: keep_relevant_def list_all_iff dest!: in_set_takeD)
  ultimately show ?thesis using s r one_more_inject by blast
qed simp

text \<open>A store with one relevant and one irrelevant message.\<close>

definition sample_fl :: "nat floats" where
  "sample_fl = \<lparr>fl_lit = \<lambda>n. n, fl_add = (+), fl_min = min, fl_ge = (\<lambda>a b. b \<le> a), fl_gt = (\<lambda>a b. b < a),
     fl_bonus = \<lambda>n. n, fl_relax = \<lambda>t q. t, fl_pct = show_nat\<rparr>"

definition sample_services :: "(nat, nat, unit) services" where
  "sample_services = \<lparr>sv_search = \<lambda>c q n m w. (Inr [(\<lparr>sd_role = lit ''user'', sd_content = lit ''a''\<rparr>, 80),
       (\<lparr>sd_role = lit ''user'', sd_content = lit ''b''\<rparr>, 60)], Suc w),
     sv_adaptive = \<lambda>q c w. (Inr [], w), sv_rerank = None, sv_facts = \<lambda>w. Inr [], sv_relevant = \<lambda>a b c d e. [],
     sv_format_facts = \<lambda>f. [], sv_coordinator = True, sv_pks = \<lambda>s w. (Inr None, w),
     sv_bks = \<lambda>q w. (Inr (Some (lit ''k'')), w), sv_bks_quality = 70, sv_adjust = \<lambda>t q. t\<rparr>"

definition sample_builder :: "(nat, nat, unit) context_builder" where
  "sample_builder = \<lparr>bu_config = bc_default sample_fl, bu_floats = sample_fl, bu_lower = ascii_lower,
     bu_services = sample_services\<rparr>"

lemmas sample_builder_defs = sample_builder_def sample_services_def sample_fl_def bc_default_def

definition marked_conversation :: "unit message list" where
  "marked_conversation = [system_text (lit ''[Compacted Context]''), user_text (lit ''x'')]"

lemma marked_conversation_marked: "has_compaction_summary marked_conversation"
  by code_simp

lemma marked_conversation_built:
  "build_context sample_builder marked_conversation (lit ''x'') [] 0
    = Some (Inr (take 1 marked_conversation
        @ system_text (join [10] (retrieved_block earlier_intro [lit ''- [user] (relevance: 80%): a'']))
        # drop 1 marked_conversation), 1)"
  by code_simp

lemma only_relevant_results_injected_witness:
  "\<exists>ms1. build_context sample_builder marked_conversation (lit ''x'') [] 0 = Some (Inr ms1, 1)
    \<and> (ms1 = marked_conversation \<or> (\<exists>results relevant t. relevant \<noteq> [] \<and> set relevant \<subseteq> set results
      \<and> sv_search sample_services [] (lit ''x'') (bc_max_inject_items (bc_default sample_fl) + 2) (fl_lit sample_fl 50) 0
          = (Inr results, 1)
      \<and> length relevant \<le> bc_max_inject_items (bc_default sample_fl)
      \<and> list_all (\<lambda>(m, score). fl_ge sample_fl score (bc_injection_threshold (bc_default sample_fl))) relevant
      \<and> format_injection sample_fl relevant = Some t \<and> one_more marked_conversation t ms1))"
  using marked_conversation_built only_relevant_results_injected [OF marked_conversation_built]
  by (intro exI conjI) (auto simp: sample_builder_def)

section \<open>Retrieval without a marker\<close>

lemma not_wanted: "\<not> has_compaction_summary ms \<Longrightarrow> \<not> retrieval_wanted B q ms"
  by (simp add: retrieval_wanted_def should_retrieve_def)

lemma inject_unmarked:
  assumes "inject t ms = Some (ms1 :: 'j message list)" and "\<not> has_compaction_summary ms"
    and "\<not> has_compaction_summary [system_text t :: 'j message]"
  shows "\<not> has_compaction_summary ms1"
proof -
  let ?n = "find_injection_point ms"
  have "set ms1 = insert (system_text t) (set (take ?n ms) \<union> set (drop ?n ms))" using assms(1) by (auto simp: inject_eq)
  also have "set (take ?n ms) \<union> set (drop ?n ms) = set ms" by (metis append_take_drop_id set_append)
  finally have "set ms1 = insert (system_text t) (set ms)" .
  with assms(2,3) show ?thesis by (simp add: has_compaction_summary_def list_ex_iff)
qed

lemma personal_unmarked:
  assumes "inject_personal_context B ms q w = Some ms1" and "\<not> has_compaction_summary ms"
    and "\<not> has_compaction_summary [system_text (build_personal_context B q w) :: 'j message]"
  shows "\<not> has_compaction_summary (ms1 :: 'j message list)"
  using assms inject_unmarked by (auto simp: inject_personal_context_def Let_def split: if_splits)

lemma personal_returns: "inject_personal_context B ms q w \<noteq> None"
  by (simp add: inject_personal_context_def inject_eq Let_def)

lemma full_context_unmarked:
  assumes "\<not> has_compaction_summary (ms :: 'j message list)"
    and "\<not> has_compaction_summary [system_text (build_personal_context B (Some q) w) :: 'j message]"
  shows "build_full_context B ms q conv w = Some (Inr (the (inject_personal_context B ms (Some q) w)), w)"
proof -
  obtain ms1 where "inject_personal_context B ms (Some q) w = Some ms1"
    using personal_returns [of B ms "Some q" w] by auto
  with not_wanted [OF personal_unmarked [OF this assms], of B q] show ?thesis
    by (simp add: build_full_context_def build_context_def)
qed

text \<open>
  C3: A task agent never retrieves. When the agent's context comes from the builder and neither its
  history nor the personal context holds a compaction marker, the message store is not searched,
  whatever the query and the configuration, gating switched off included: the provider gets the
  history and the personal context. No code of the program writes a marker.
\<close>

theorem agent_never_retrieves:
  fixes s :: "('w, 'j, 't) agent_run"
  assumes "ae_messages A = Some st"
    and "\<And>h q. ms_enhance st h q (r_world s)
        = (case build_full_context B h q conv (r_world s) of Some (Inr ms, w1) \<Rightarrow> Some ms | _ \<Rightarrow> None)"
    and "\<not> has_compaction_summary (r_history s)"
    and "\<not> has_compaction_summary
        [system_text (build_personal_context B (Some (last_user_query (r_history s))) (r_world s)) :: 'j message]"
  shows "call_provider A s = map_option (apsnd (\<lambda>w. s\<lparr>r_world := w\<rparr>))
      (ae_chat A (the (inject_personal_context B (r_history s) (Some (last_user_query (r_history s))) (r_world s)))
        (r_world s))"
  using assms full_context_unmarked [OF assms(3,4), of conv] by (simp add: call_provider_def Let_def)

definition ungated_builder :: "(nat, nat, unit) context_builder" where
  "ungated_builder = sample_builder\<lparr>bu_config := (bc_default sample_fl)\<lparr>bc_use_gating := False\<rparr>\<rparr>"

definition enhancing_store :: "(nat, unit) message_store" where
  "enhancing_store = \<lparr>ms_enhance = \<lambda>h q w. case build_full_context ungated_builder h q (lit ''c'') w of
       Some (Inr ms, w1) \<Rightarrow> Some ms | _ \<Rightarrow> None,
     ms_add_batch = \<lambda>ms w. w\<rparr>"

lemma agent_never_retrieves_witness:
  "call_provider ((sample_agent 5)\<lparr>ae_messages := Some enhancing_store\<rparr>) (push (user_text (lit ''before'')) sample_run)
    = map_option (apsnd (\<lambda>w. (push (user_text (lit ''before'')) sample_run)\<lparr>r_world := w\<rparr>))
      (ae_chat ((sample_agent 5)\<lparr>ae_messages := Some enhancing_store\<rparr>)
        (the (inject_personal_context ungated_builder (r_history (push (user_text (lit ''before'')) sample_run))
          (Some (last_user_query (r_history (push (user_text (lit ''before'')) sample_run)))) 0)) 0)"
proof -
  let ?s = "push (user_text (lit ''before'')) sample_run"
  have w: "r_world ?s = 0" by (simp add: push_def sample_run_def)
  have h: "\<not> has_compaction_summary (r_history ?s)"
    by (simp add: push_def sample_run_def user_text_def has_compaction_summary_def marked_def)
  have p: "build_personal_context ungated_builder q v = []" for q v
    by (simp add: build_personal_context_def ungated_builder_def sample_builder_defs)
  have "\<not> has_compaction_summary [system_text [] :: unit message]"
    by (simp add: has_compaction_summary_def marked_def system_text_def str_contains_def lit_def)
  with agent_never_retrieves [where A = "(sample_agent 5)\<lparr>ae_messages := Some enhancing_store\<rparr>" and s = ?s
      and B = ungated_builder and conv = "lit ''c''" and st = enhancing_store] h p
  show ?thesis by (simp add: enhancing_store_def w)
qed

section \<open>Positions past the end\<close>

text \<open>
  The behavioural knowledge can panic. Its position assumes that the personal and the entity
  message are there. For the first message of a conversation whose query has no references, with no
  personal knowledge found but behavioural knowledge at hand, the default configuration inserts at
  position two of a list of one.
\<close>

theorem first_message_knowledge_panics:
  assumes "bc_enable_personal_knowledge (bu_config B)" and "bc_inject_entity_context (bu_config B)"
    and "sv_coordinator (bu_services B)" and "sr_resolutions sr = []"
    and "fl_ge (bu_floats B) (sr_quality sr) (sv_bks_quality (bu_services B))"
    and "sv_pks (bu_services B) sr w = (Inr None, w1)" and "sv_bks (bu_services B) q w1 = (Inr (Some t), w2)"
  shows "build_context_with_seal_and_knowledge B [m] q (Some sr) conv w = None"
  using assms by (simp add: build_context_with_seal_and_knowledge_def insert_pks_def insert_entities_def insert_bks_def
      bks_position_def vec_insert_def)

lemma first_message_knowledge_panics_witness:
  "build_context_with_seal_and_knowledge sample_builder [user_text (lit ''x'') :: unit message] (lit ''x'')
     (Some \<lparr>sr_resolved_query = lit ''x'', sr_quality = 90, sr_resolutions = []\<rparr>) [] 0 = None"
  by (rule first_message_knowledge_panics) (simp_all add: sample_builder_defs)

end
