(* ===== verification/Conversation.thy ===== *)
theory Conversation
  imports ContextBuilder
begin

text \<open>
  The conversation manager of the chat mode, \<^verbatim>\<open>apps/cli/src/utils/conversation.rs\<close>: the messages and what
  is extracted from them, token estimates, compaction, the title, saving and loading, and the context
  that is sent. Entity extraction, relationship graph, JSON encoding, clock, ids and the database are
  parameters over a world. A slice that is not on a character boundary is \<open>None\<close>. Documents, images
  and files of a conversation are calls of framework stores and not modelled.
\<close>

section \<open>The manager\<close>

record message_metadata =
  md_message_id :: rstr
  md_conversation_id :: rstr
  md_role :: rstr
  md_content :: rstr
  md_token_count :: "32 word"
  md_model_id :: "rstr option"
  md_images :: "rstr option"
  md_created_at :: int

record ('j, 'ent, 'gr) manager =
  cv_messages :: "'j message list"
  cv_max_tokens :: nat
  cv_id :: rstr
  cv_storage :: bool
  cv_model :: "rstr option"
  cv_entities :: 'ent
  cv_graph :: 'gr

record ('w, 'j, 'ent, 'gr, 'x, 'nd, 'rl) conv_env =
  ce_json :: "'j \<Rightarrow> rstr"
  ce_blocks_json :: "'j content_block list \<Rightarrow> rstr option"
  ce_parse_blocks :: "rstr \<Rightarrow> 'j content_block list option"
  ce_extract :: "rstr \<Rightarrow> rstr \<Rightarrow> 'x"
  ce_nodes :: "'x \<Rightarrow> 'nd list"
  ce_relationships :: "'x \<Rightarrow> 'rl list"
  ce_add_node :: "rstr \<Rightarrow> 'nd \<Rightarrow> 'gr \<Rightarrow> 'gr"
  ce_add_relationship :: "'rl \<Rightarrow> 'gr \<Rightarrow> 'gr"
  ce_add_extraction :: "'x \<Rightarrow> rstr \<Rightarrow> int \<Rightarrow> 'ent \<Rightarrow> 'ent"
  ce_no_entities :: 'ent
  ce_no_graph :: 'gr
  ce_now :: "'w \<Rightarrow> int"
  ce_fresh :: "'w \<Rightarrow> rstr \<times> 'w"
  ce_open :: "'w \<Rightarrow> (rstr + unit) \<times> 'w"
  ce_exists :: "rstr \<Rightarrow> 'w \<Rightarrow> (rstr + bool) \<times> 'w"
  ce_create :: "rstr \<Rightarrow> rstr \<Rightarrow> rstr option \<Rightarrow> 32 word \<Rightarrow> 'w \<Rightarrow> (rstr + unit) \<times> 'w"
  ce_update :: "rstr \<Rightarrow> 32 word \<Rightarrow> 'w \<Rightarrow> (rstr + unit) \<times> 'w"
  ce_add_batch :: "message_metadata list \<Rightarrow> 'w \<Rightarrow> (rstr + unit) \<times> 'w"
  ce_get :: "rstr \<Rightarrow> 'w \<Rightarrow> (rstr + message_metadata list) \<times> 'w"

type_synonym ('j, 'ent, 'gr, 'w, 'a) conv_result = "((rstr + 'a) \<times> ('j, 'ent, 'gr) manager \<times> 'w) option"

section \<open>Token estimates\<close>

definition estimate_text_tokens :: "rstr \<Rightarrow> nat" where
  "estimate_text_tokens t = (blen t + 3) div 4"

fun block_tokens :: "('w, 'j, 'ent, 'gr, 'x, 'nd, 'rl) conv_env \<Rightarrow> 'j content_block \<Rightarrow> nat" where
  "block_tokens V (TextBlock t) = estimate_text_tokens t"
| "block_tokens V (ToolUseBlock i n j) = estimate_text_tokens (ce_json V j)"
| "block_tokens V (ToolResultBlock i c e) = estimate_text_tokens c"
| "block_tokens V OtherBlock = 85"

definition estimate_message_tokens :: "('w, 'j, 'ent, 'gr, 'x, 'nd, 'rl) conv_env \<Rightarrow> 'j message \<Rightarrow> nat" where
  "estimate_message_tokens V m =
     (case m_content m of
        TextContent t \<Rightarrow> estimate_text_tokens t
      | Blocks bs \<Rightarrow> sum_list (map (block_tokens V) bs)) + 4"

definition estimate_total_tokens :: "('w, 'j, 'ent, 'gr, 'x, 'nd, 'rl) conv_env \<Rightarrow> ('j, 'ent, 'gr) manager \<Rightarrow> nat" where
  "estimate_total_tokens V c = sum_list (map (estimate_message_tokens V) (cv_messages c))"

definition needs_compaction :: "('w, 'j, 'ent, 'gr, 'x, 'nd, 'rl) conv_env \<Rightarrow> ('j, 'ent, 'gr) manager \<Rightarrow> bool" where
  "needs_compaction V c \<longleftrightarrow> estimate_total_tokens V c > 80000"

section \<open>Messages\<close>

definition conv_new :: "('w, 'j, 'ent, 'gr, 'x, 'nd, 'rl) conv_env \<Rightarrow> nat \<Rightarrow> rstr \<Rightarrow> ('j, 'ent, 'gr) manager" where
  "conv_new V max_tokens uid =
     \<lparr>cv_messages = [], cv_max_tokens = max_tokens, cv_id = uid, cv_storage = False, cv_model = None,
      cv_entities = ce_no_entities V, cv_graph = ce_no_graph V\<rparr>"

fun block_text :: "'j content_block \<Rightarrow> rstr option" where
  "block_text (TextBlock t) = Some t"
| "block_text (ToolResultBlock i c e) = Some c"
| "block_text _ = None"

definition message_text :: "'j message \<Rightarrow> rstr" where
  "message_text m =
     (case m_content m of TextContent t \<Rightarrow> t | Blocks bs \<Rightarrow> join [10] (List.map_filter block_text bs))"

definition add_message :: "('w, 'j, 'ent, 'gr, 'x, 'nd, 'rl) conv_env \<Rightarrow> 'j message \<Rightarrow> 'w \<Rightarrow>
    ('j, 'ent, 'gr) manager \<Rightarrow> ('j, 'ent, 'gr) manager" where
  "add_message V m w c =
     (let message_id = lit ''msg_'' @ show_nat (length (cv_messages c));
          x = ce_extract V (message_text m) message_id;
          g1 = fold (ce_add_node V message_id) (ce_nodes V x) (cv_graph c);
          g2 = fold (ce_add_relationship V) (ce_relationships V x) g1 in
      c\<lparr>cv_graph := g2, cv_entities := ce_add_extraction V x message_id (ce_now V w) (cv_entities c),
        cv_messages := cv_messages c @ [m]\<rparr>)"

definition conv_clear :: "('w, 'j, 'ent, 'gr, 'x, 'nd, 'rl) conv_env \<Rightarrow> ('j, 'ent, 'gr) manager \<Rightarrow> ('j, 'ent, 'gr) manager" where
  "conv_clear V c = c\<lparr>cv_messages := [], cv_entities := ce_no_entities V, cv_graph := ce_no_graph V\<rparr>"

definition set_model :: "rstr \<Rightarrow> ('j, 'ent, 'gr) manager \<Rightarrow> ('j, 'ent, 'gr) manager" where
  "set_model m c = c\<lparr>cv_model := Some m\<rparr>"

definition snapshot :: "('w, 'j, 'ent, 'gr, 'x, 'nd, 'rl) conv_env \<Rightarrow> rstr \<Rightarrow> 'w \<Rightarrow> ('j, 'ent, 'gr) manager \<Rightarrow>
    ('j, 'ent, 'gr) manager" where
  "snapshot V uid w c =
     fold (\<lambda>m. add_message V m w) (cv_messages c)
       ((conv_new V (cv_max_tokens c) uid)\<lparr>cv_id := cv_id c, cv_model := cv_model c\<rparr>)"

definition restore_from :: "('j, 'ent, 'gr) manager \<Rightarrow> ('j, 'ent, 'gr) manager \<Rightarrow> ('j, 'ent, 'gr) manager" where
  "restore_from s c = c\<lparr>cv_messages := cv_messages s, cv_id := cv_id s, cv_model := cv_model s,
     cv_entities := cv_entities s, cv_graph := cv_graph s\<rparr>"

section \<open>Compaction\<close>

fun role_name :: "role \<Rightarrow> rstr" where
  "role_name UserRole = lit ''User''"
| "role_name AssistantRole = lit ''Assistant''"
| "role_name SystemRole = lit ''System''"
| "role_name ToolRole = lit ''Tool''"

text \<open>The text of a block in the prompt; the result of a tool is cut at 100 bytes, or a panic.\<close>

fun prompt_block :: "'j content_block \<Rightarrow> rstr option option" where
  "prompt_block (TextBlock t) = Some (Some t)"
| "prompt_block (ToolUseBlock i n j) = Some (Some (lit ''[Tool call: '' @ n @ lit '']''))"
| "prompt_block (ToolResultBlock i c e) =
     map_option (\<lambda>(a, b). Some (lit ''[Tool result: '' @ a @ lit '']'')) (split_byte (min 100 (blen c)) c)"
| "prompt_block OtherBlock = Some None"

definition prompt_content :: "'j message \<Rightarrow> rstr option" where
  "prompt_content m =
     (case m_content m of
        TextContent t \<Rightarrow> Some t
      | Blocks bs \<Rightarrow> map_option (\<lambda>xs. join [10] (List.map_filter id xs)) (those (map prompt_block bs)))"

definition prompt_line :: "nat \<times> 'j message \<Rightarrow> rstr option" where
  "prompt_line im =
     (case im of (i, m) \<Rightarrow>
        map_option (\<lambda>t. lit ''['' @ show_nat (i + 1) @ lit ''] '' @ role_name (m_role m) @ lit '': '' @ t @ [10, 10])
          (prompt_content m))"

definition keep_recent :: "nat \<Rightarrow> nat" where
  "keep_recent n = max 4 (n div 5)"

definition base_instructions :: rstr where
  "base_instructions = lit ''Summarize the key points, decisions made, code changes discussed, and any important context that should be preserved for continuing the conversation.''"

text \<open>The outer \<open>None\<close> is a panic, the inner one a conversation too short to compact.\<close>

definition generate_compaction_prompt :: "rstr option \<Rightarrow> ('j, 'ent, 'gr) manager \<Rightarrow> (rstr \<times> nat) option option" where
  "generate_compaction_prompt instructions c =
     (let n = length (cv_messages c); k = n - keep_recent n in
      if n < 4 then Some None
      else if k < 2 then Some None
      else
        map_option (\<lambda>ls. Some (join [10, 10]
            [lit ''Please summarize the following conversation history concisely while preserving important context:'',
             concat ls,
             lit ''Instructions: '' @ (case instructions of Some t \<Rightarrow> t | None \<Rightarrow> base_instructions),
             join [10] [lit ''Provide a summary that captures:'', lit ''- Key topics discussed'',
               lit ''- Important decisions or conclusions'', lit ''- Any code or file changes mentioned'',
               lit ''- Context needed to continue the conversation''],
             lit ''Keep the summary focused and under 500 words.''], k))
          (those (map prompt_line (enumerate 0 (take k (cv_messages c))))))"

definition compaction_text :: "nat \<Rightarrow> rstr \<Rightarrow> rstr" where
  "compaction_text n summary =
     lit ''[Conversation Summary - '' @ show_nat n @ lit '' messages compacted]'' @ [10, 10] @ summary"

definition apply_compaction :: "rstr \<Rightarrow> nat \<Rightarrow> ('j, 'ent, 'gr) manager \<Rightarrow> ('j, 'ent, 'gr) manager" where
  "apply_compaction summary n c =
     (if length (cv_messages c) \<le> n then c
      else c\<lparr>cv_messages := system_text (compaction_text n summary) # drop n (cv_messages c)\<rparr>)"

section \<open>Storage\<close>

fun first_text :: "'j content_block list \<Rightarrow> rstr option" where
  "first_text [] = None"
| "first_text (TextBlock t # bs) = Some t"
| "first_text (b # bs) = first_text bs"

definition generate_title :: "('j, 'ent, 'gr) manager \<Rightarrow> rstr option" where
  "generate_title c =
     (case find (\<lambda>m. m_role m = UserRole) (cv_messages c) of
        None \<Rightarrow> Some (lit ''New Conversation'')
      | Some m \<Rightarrow>
          let t = (case m_content m of
                TextContent x \<Rightarrow> x
              | Blocks bs \<Rightarrow> (case first_text bs of Some x \<Rightarrow> x | None \<Rightarrow> lit ''New Conversation'')) in
          if 50 < blen t then map_option (\<lambda>(a, b). a @ lit ''...'') (split_byte 50 t) else Some t)"

fun role_key :: "role \<Rightarrow> rstr" where
  "role_key UserRole = lit ''user''"
| "role_key AssistantRole = lit ''assistant''"
| "role_key SystemRole = lit ''system''"
| "role_key ToolRole = lit ''tool''"

definition role_of_key :: "rstr \<Rightarrow> role" where
  "role_of_key k =
     (if k = lit ''user'' then UserRole else if k = lit ''assistant'' then AssistantRole
      else if k = lit ''system'' then SystemRole else if k = lit ''tool'' then ToolRole else UserRole)"

definition message_to_metadata :: "('w, 'j, 'ent, 'gr, 'x, 'nd, 'rl) conv_env \<Rightarrow> ('j, 'ent, 'gr) manager \<Rightarrow> 'j message \<Rightarrow>
    'w \<Rightarrow> (rstr + message_metadata) \<times> 'w" where
  "message_to_metadata V c m w =
     (case (case m_content m of
            TextContent t \<Rightarrow> Inr (t, None)
          | Blocks bs \<Rightarrow>
              (case ce_blocks_json V bs of
                 None \<Rightarrow> Inl (lit ''Failed to serialize content blocks'')
               | Some t \<Rightarrow> Inr (t, if OtherBlock \<in> set bs then Some t else None))) of
        Inl e \<Rightarrow> (Inl e, w)
      | Inr (content, images) \<Rightarrow>
          (case ce_fresh V w of
             (uid, w1) \<Rightarrow>
               (Inr \<lparr>md_message_id = uid, md_conversation_id = cv_id c, md_role = role_key (m_role m),
                  md_content = content, md_token_count = of_nat (estimate_message_tokens V m),
                  md_model_id = cv_model c, md_images = images, md_created_at = ce_now V w1\<rparr>, w1)))"

fun all_metadata :: "('w, 'j, 'ent, 'gr, 'x, 'nd, 'rl) conv_env \<Rightarrow> ('j, 'ent, 'gr) manager \<Rightarrow> 'j message list \<Rightarrow> 'w \<Rightarrow>
    (rstr + message_metadata list) \<times> 'w" where
  "all_metadata V c [] w = (Inr [], w)"
| "all_metadata V c (m # ms) w =
     (case message_to_metadata V c m w of
        (Inl e, w1) \<Rightarrow> (Inl e, w1)
      | (Inr d, w1) \<Rightarrow> apfst (map_sum id (Cons d)) (all_metadata V c ms w1))"

text \<open>\<^verbatim>\<open>trim_start().starts_with('[')\<close>\<close>

definition looks_like_blocks :: "rstr \<Rightarrow> bool" where
  "looks_like_blocks t = (case dropWhile is_ws t of [] \<Rightarrow> False | x # xs \<Rightarrow> x = 91)"

definition metadata_to_message :: "('w, 'j, 'ent, 'gr, 'x, 'nd, 'rl) conv_env \<Rightarrow> message_metadata \<Rightarrow> 'j message" where
  "metadata_to_message V d =
     \<lparr>m_role = role_of_key (md_role d),
      m_content =
        (if looks_like_blocks (md_content d) then
           (case ce_parse_blocks V (md_content d) of Some bs \<Rightarrow> Blocks bs | None \<Rightarrow> TextContent (md_content d))
         else TextContent (md_content d))\<rparr>"

definition ensure_storage :: "('w, 'j, 'ent, 'gr, 'x, 'nd, 'rl) conv_env \<Rightarrow> ('j, 'ent, 'gr) manager \<Rightarrow> 'w \<Rightarrow>
    (rstr + unit) \<times> ('j, 'ent, 'gr) manager \<times> 'w" where
  "ensure_storage V c w =
     (if cv_storage c then (Inr (), c, w)
      else
        case ce_open V w of
          (Inl e, w1) \<Rightarrow> (Inl e, c, w1)
        | (Inr _, w1) \<Rightarrow> (Inr (), c\<lparr>cv_storage := True\<rparr>, w1))"

text \<open>The conversation's own row, created on the first save.\<close>

definition ensure_row :: "('w, 'j, 'ent, 'gr, 'x, 'nd, 'rl) conv_env \<Rightarrow> ('j, 'ent, 'gr) manager \<Rightarrow> 'w \<Rightarrow>
    ((rstr + unit) \<times> 'w) option" where
  "ensure_row V c w =
     (case ce_exists V (cv_id c) w of
        (Inl e, w1) \<Rightarrow> Some (Inl e, w1)
      | (Inr True, w1) \<Rightarrow> Some (Inr (), w1)
      | (Inr False, w1) \<Rightarrow>
          map_option (\<lambda>title.
              case ce_create V (cv_id c) title (cv_model c) (of_nat (length (cv_messages c))) w1 of
                (Inl e, w2) \<Rightarrow> (Inl (lit ''Failed to create conversation metadata''), w2)
              | (Inr _, w2) \<Rightarrow> (Inr (), w2))
            (generate_title c))"

definition save_to_db :: "('w, 'j, 'ent, 'gr, 'x, 'nd, 'rl) conv_env \<Rightarrow> ('j, 'ent, 'gr) manager \<Rightarrow> 'w \<Rightarrow>
    ('j, 'ent, 'gr, 'w, unit) conv_result" where
  "save_to_db V c w =
     (if cv_messages c = [] then Some (Inr (), c, w)
      else
        case ensure_storage V c w of
          (Inl e, c1, w1) \<Rightarrow> Some (Inl e, c1, w1)
        | (Inr _, c1, w1) \<Rightarrow>
            (case ensure_row V c1 w1 of
               None \<Rightarrow> None
             | Some (Inl e, w2) \<Rightarrow> Some (Inl e, c1, w2)
             | Some (Inr _, w2) \<Rightarrow>
                 (case all_metadata V c1 (cv_messages c1) w2 of
                    (Inl e, w3) \<Rightarrow> Some (Inl e, c1, w3)
                  | (Inr ds, w3) \<Rightarrow>
                      (case ce_add_batch V ds w3 of
                         (Inl e, w4) \<Rightarrow> Some (Inl (lit ''Failed to save messages''), c1, w4)
                       | (Inr _, w4) \<Rightarrow>
                           (case ce_update V (cv_id c1) (of_nat (length (cv_messages c1))) w4 of
                              (Inl e, w5) \<Rightarrow> Some (Inl (lit ''Failed to update conversation metadata''), c1, w5)
                            | (Inr _, w5) \<Rightarrow> Some (Inr (), c1, w5))))))"

definition load_from_db :: "('w, 'j, 'ent, 'gr, 'x, 'nd, 'rl) conv_env \<Rightarrow> rstr \<Rightarrow> ('j, 'ent, 'gr) manager \<Rightarrow> 'w \<Rightarrow>
    (rstr + unit) \<times> ('j, 'ent, 'gr) manager \<times> 'w" where
  "load_from_db V i c w =
     (case ensure_storage V c w of
        (Inl e, c1, w1) \<Rightarrow> (Inl e, c1, w1)
      | (Inr _, c1, w1) \<Rightarrow>
          (case ce_get V i w1 of
             (Inl e, w2) \<Rightarrow> (Inl (lit ''Failed to load messages from DB''), c1, w2)
           | (Inr ds, w2) \<Rightarrow> (Inr (), c1\<lparr>cv_messages := map (metadata_to_message V) ds, cv_id := i\<rparr>, w2)))"

definition compact_if_needed :: "('w, 'j, 'ent, 'gr, 'x, 'nd, 'rl) conv_env \<Rightarrow> ('j, 'ent, 'gr) manager \<Rightarrow> 'w \<Rightarrow>
    ('j, 'ent, 'gr, 'w, bool) conv_result" where
  "compact_if_needed V c w =
     (case save_to_db V c w of
        None \<Rightarrow> None
      | Some (Inl e, c1, w1) \<Rightarrow> Some (Inl e, c1, w1)
      | Some (Inr _, c1, w1) \<Rightarrow> Some (Inr (needs_compaction V c1), c1, w1))"

text \<open>The builder searches the conversation's own store.\<close>

definition get_enhanced_context :: "('w, 'j, 'ent, 'gr, 'x, 'nd, 'rl) conv_env \<Rightarrow> ('w, 'f, 'fact) context_builder \<Rightarrow> rstr \<Rightarrow>
    ('j, 'ent, 'gr) manager \<Rightarrow> 'w \<Rightarrow> ('j, 'ent, 'gr, 'w, 'j message list) conv_result" where
  "get_enhanced_context V B q c w =
     (case ensure_storage V c w of
        (Inl e, c1, w1) \<Rightarrow> Some (Inr (cv_messages c), c1, w1)
      | (Inr _, c1, w1) \<Rightarrow>
          map_option (\<lambda>(out, w2). (out, c1, w2)) (build_full_context B (cv_messages c1) q (cv_id c1) w1))"

section \<open>Compaction and recall\<close>

lemma str_contains_Cons: "str_contains (x # xs) p \<longleftrightarrow> prefix p (x # xs) \<or> str_contains xs p"
  by (simp add: str_contains_def)

lemma str_contains_skip: "x \<notin> set ys \<Longrightarrow> str_contains (ys @ xs) (x # p) \<longleftrightarrow> str_contains xs (x # p)"
  by (induction ys) (auto simp: str_contains_Cons)

lemma show_nat_digits: "set (show_nat n) \<subseteq> {48..57}"
proof (induction n rule: show_nat.induct)
  case (1 n)
  then show ?case by (subst show_nat.simps) (auto simp: le_less_trans [OF mod_less_divisor [THEN less_imp_le]])
qed

lemma compaction_text_marked:
  "list_ex (str_contains (compaction_text n summary)) [lit ''[Compacted Context]'', lit ''Summary of earlier conversation'']
   \<longleftrightarrow> list_ex (str_contains summary) [lit ''[Compacted Context]'', lit ''Summary of earlier conversation'']"
proof -
  let ?rest = "lit ''ummary - '' @ show_nat n @ lit '' messages compacted]'' @ [10, 10]"
  have t: "compaction_text n summary = 91 # lit ''Conversation '' @ 83 # ?rest @ summary"
    by (simp add: compaction_text_def lit_def)
  have d: "91 \<notin> set (show_nat n)" "83 \<notin> set (show_nat n)" using show_nat_digits [of n] by auto
  have a: "str_contains (compaction_text n summary) (91 # lit ''Compacted Context]'')
      \<longleftrightarrow> str_contains summary (91 # lit ''Compacted Context]'')"
    using str_contains_skip [of 91 "lit ''Conversation '' @ 83 # ?rest" summary "lit ''Compacted Context]''"] d
    unfolding t by (simp add: str_contains_Cons lit_def)
  have b: "str_contains (compaction_text n summary) (83 # lit ''ummary of earlier conversation'')
      \<longleftrightarrow> str_contains summary (83 # lit ''ummary of earlier conversation'')"
    using str_contains_skip [of 83 ?rest summary "lit ''ummary of earlier conversation''"] d
    unfolding t by (simp add: str_contains_Cons lit_def)
  from a b show ?thesis by (simp add: lit_def)
qed

text \<open>
  Compaction leaves no marker. After old messages are replaced by their summary, the conversation
  has a marker only if a kept message or the text of the summary has one: the header that compaction
  writes is not one the context builder looks for. So no compacted conversation is recalled.
\<close>

theorem compaction_leaves_no_marker:
  fixes c :: "('j, 'ent, 'gr) manager"
  assumes "n < length (cv_messages c)"
  shows "has_compaction_summary (cv_messages (apply_compaction summary n c)) \<longleftrightarrow>
    has_compaction_summary (drop n (cv_messages c))
    \<or> has_compaction_summary [system_text summary :: 'j message]"
  using assms compaction_text_marked [of n summary]
  by (simp add: apply_compaction_def has_compaction_summary_def marked_def system_text_def) blast

text \<open>What is summarised: at least two messages, never the last four, and compaction shortens the list.\<close>

lemma compaction_prompt_count:
  assumes "generate_compaction_prompt ins c = Some (Some (t, k))"
  shows "2 \<le> k \<and> k + 4 \<le> length (cv_messages c)
    \<and> length (cv_messages (apply_compaction summary k c)) < length (cv_messages c)"
  using assms by (auto simp: generate_compaction_prompt_def Let_def keep_recent_def apply_compaction_def max_def
      split: if_splits)

section \<open>Saving and loading\<close>

text \<open>Messages whose stored form is read back as they were.\<close>

definition storable :: "('w, 'j, 'ent, 'gr, 'x, 'nd, 'rl) conv_env \<Rightarrow> 'j message \<Rightarrow> bool" where
  "storable V m =
     (case m_content m of
        TextContent t \<Rightarrow> \<not> looks_like_blocks t \<or> ce_parse_blocks V t = None
      | Blocks bs \<Rightarrow> \<exists>t. ce_blocks_json V bs = Some t \<and> looks_like_blocks t \<and> ce_parse_blocks V t = Some bs)"

lemma role_of_key [simp]: "role_of_key (role_key r) = r"
  by (cases r) (simp_all add: role_of_key_def lit_def)

lemma metadata_roundtrip:
  assumes "message_to_metadata V c m w = (Inr d, w1)" and "storable V m"
  shows "metadata_to_message V d = m \<and> md_conversation_id d = cv_id c"
  using assms by (cases m)
    (auto simp: message_to_metadata_def metadata_to_message_def storable_def
      split: message_content.splits option.splits prod.splits if_splits)

text \<open>
  The contract of the message table: \<open>rows\<close> is its content in order, a batch is appended, a query
  yields the rows of a conversation, and the other calls leave it alone.
\<close>

definition table_contract :: "('w, 'j, 'ent, 'gr, 'x, 'nd, 'rl) conv_env \<Rightarrow> ('w \<Rightarrow> message_metadata list) \<Rightarrow> bool" where
  "table_contract V rows \<longleftrightarrow>
     (\<forall>i w. ce_get V i w = (Inr (filter (\<lambda>d. md_conversation_id d = i) (rows w)), w))
     \<and> (\<forall>ds w w1. ce_add_batch V ds w = (Inr (), w1) \<longrightarrow> rows w1 = rows w @ ds)
     \<and> (\<forall>w. rows (snd (ce_open V w)) = rows w) \<and> (\<forall>i w. rows (snd (ce_exists V i w)) = rows w)
     \<and> (\<forall>i t m n w. rows (snd (ce_create V i t m n w)) = rows w) \<and> (\<forall>i n w. rows (snd (ce_update V i n w)) = rows w)
     \<and> (\<forall>w. rows (snd (ce_fresh V w)) = rows w)"

lemma contract_rows:
  assumes "table_contract V rows"
  shows "ce_get V i w = (Inr (filter (\<lambda>d. md_conversation_id d = i) (rows w)), w)"
    "ce_add_batch V ds w = (Inr (), w1) \<Longrightarrow> rows w1 = rows w @ ds" "ce_open V w = (o1, w1) \<Longrightarrow> rows w1 = rows w"
    "ce_exists V i w = (o2, w1) \<Longrightarrow> rows w1 = rows w" "ce_create V i t m n w = (o1, w1) \<Longrightarrow> rows w1 = rows w"
    "ce_update V i n w = (o1, w1) \<Longrightarrow> rows w1 = rows w" "ce_fresh V w = (u, w1) \<Longrightarrow> rows w1 = rows w"
  using assms unfolding table_contract_def by (metis snd_conv)+

lemma message_to_metadata_rows:
  "table_contract V rows \<Longrightarrow> message_to_metadata V c m w = (out, w1) \<Longrightarrow> rows w1 = rows w"
  by (auto simp: message_to_metadata_def dest: contract_rows(7) split: sum.splits prod.splits)

lemma all_metadata_ok:
  "table_contract V rows \<Longrightarrow> all_metadata V c ms w = (Inr ds, w1) \<Longrightarrow> list_all (storable V) ms \<Longrightarrow>
   rows w1 = rows w \<and> map (metadata_to_message V) ds = ms \<and> list_all (\<lambda>d. md_conversation_id d = cv_id c) ds"
proof (induction ms arbitrary: w ds)
  case (Cons m ms)
  from Cons.prems(2) obtain d w2 where m: "message_to_metadata V c m w = (Inr d, w2)"
    by (auto split: prod.splits sum.splits)
  obtain out w3 where o3: "all_metadata V c ms w2 = (out, w3)" by force
  with Cons.prems(2) m obtain ds1 where out: "out = Inr ds1" "w3 = w1" "ds = d # ds1"
    by (cases out) auto
  with o3 have r: "all_metadata V c ms w2 = (Inr ds1, w1)" by simp
  from Cons.IH [OF Cons.prems(1) r] out(3) Cons.prems(3) metadata_roundtrip [OF m] message_to_metadata_rows [OF Cons.prems(1) m]
  show ?case by simp
qed simp

lemma ensure_row_rows:
  assumes "table_contract V rows" and "ensure_row V c w = Some (out, w1)"
  shows "rows w1 = rows w"
proof -
  obtain o1 w2 where e: "ce_exists V (cv_id c) w = (o1, w2)" by force
  have w2: "rows w2 = rows w" using contract_rows(4) [OF assms(1) e] .
  obtain o2 w3 where k: "ce_create V (cv_id c) (the (generate_title c)) (cv_model c) (of_nat (length (cv_messages c))) w2
      = (o2, w3)" by force
  have w3: "rows w3 = rows w2" using contract_rows(5) [OF assms(1) k] .
  from assms(2) e k have "w1 = w2 \<or> w1 = w3"
    by (auto simp: ensure_row_def split: sum.splits bool.splits)
  with w2 w3 show ?thesis by auto
qed

definition stored :: "('w, 'j, 'ent, 'gr, 'x, 'nd, 'rl) conv_env \<Rightarrow> ('w \<Rightarrow> message_metadata list) \<Rightarrow> rstr \<Rightarrow> 'w \<Rightarrow>
    'j message list" where
  "stored V rows i w = map (metadata_to_message V) (filter (\<lambda>d. md_conversation_id d = i) (rows w))"

lemma save_appends:
  assumes "table_contract V rows" and "list_all (storable V) (cv_messages c)"
    and "save_to_db V c w = Some (Inr (), c1, w1)" and "cv_messages c \<noteq> []"
  shows "stored V rows (cv_id c) w1 = stored V rows (cv_id c) w @ cv_messages c \<and> c1 = c\<lparr>cv_storage := True\<rparr>"
proof -
  from assms(3,4) obtain w2 w3 w4 w5 ds where
    e: "ensure_storage V c w = (Inr (), c1, w2)" and r: "ensure_row V c1 w2 = Some (Inr (), w3)" and
    a: "all_metadata V c1 (cv_messages c1) w3 = (Inr ds, w4)" and b: "ce_add_batch V ds w4 = (Inr (), w5)" and
    u: "ce_update V (cv_id c1) (of_nat (length (cv_messages c1))) w5 = (Inr (), w1)"
    by (auto simp: save_to_db_def split: prod.splits sum.splits option.splits)
  have c1: "c1 = c\<lparr>cv_storage := True\<rparr>" "rows w2 = rows w"
    using e contract_rows(3) [OF assms(1)] by (auto simp: ensure_storage_def split: if_splits prod.splits sum.splits)
  with all_metadata_ok [OF assms(1) a] assms(2) have d: "rows w4 = rows w3" "map (metadata_to_message V) ds = cv_messages c"
    "filter (\<lambda>d. md_conversation_id d = cv_id c) ds = ds" by (auto simp: list_all_iff)
  have "rows w1 = rows w @ ds"
    using contract_rows(6) [OF assms(1) u] contract_rows(2) [OF assms(1) b] d(1) ensure_row_rows [OF assms(1) r] c1(2)
    by simp
  with d c1 show ?thesis by (simp add: stored_def)
qed

text \<open>Saving again and again, as the chat does after every turn.\<close>

fun save_times :: "('w, 'j, 'ent, 'gr, 'x, 'nd, 'rl) conv_env \<Rightarrow> nat \<Rightarrow> ('j, 'ent, 'gr) manager \<Rightarrow> 'w \<Rightarrow>
    ('j, 'ent, 'gr, 'w, unit) conv_result" where
  "save_times V 0 c w = Some (Inr (), c, w)"
| "save_times V (Suc k) c w =
     (case save_to_db V c w of Some (Inr _, c1, w1) \<Rightarrow> save_times V k c1 w1 | out \<Rightarrow> out)"

lemma save_times_stored:
  assumes "table_contract V rows"
  shows "save_times V k c w = Some (Inr (), c1, w1) \<Longrightarrow> list_all (storable V) (cv_messages c) \<Longrightarrow>
   cv_messages c \<noteq> [] \<Longrightarrow>
   stored V rows (cv_id c) w1 = stored V rows (cv_id c) w @ concat (replicate k (cv_messages c))
   \<and> (0 < k \<longrightarrow> c1 = c\<lparr>cv_storage := True\<rparr>)"
proof (induction k arbitrary: c w)
  case (Suc k)
  from Suc.prems(1) obtain c2 w2 where
    s: "save_to_db V c w = Some (Inr (), c2, w2)" and r: "save_times V k c2 w2 = Some (Inr (), c1, w1)"
    by (auto split: option.splits sum.splits prod.splits)
  from save_appends [OF assms Suc.prems(2) s Suc.prems(3)] have c2: "c2 = c\<lparr>cv_storage := True\<rparr>"
    "stored V rows (cv_id c) w2 = stored V rows (cv_id c) w @ cv_messages c" by auto
  from Suc.IH [OF r] c2 Suc.prems(2,3) have
    "stored V rows (cv_id c) w1 = stored V rows (cv_id c) w2 @ concat (replicate k (cv_messages c))"
    "0 < k \<longrightarrow> c1 = c\<lparr>cv_storage := True\<rparr>" by simp_all
  moreover have "k = 0 \<longrightarrow> c1 = c\<lparr>cv_storage := True\<rparr>" using r c2(1) by auto
  ultimately show ?case using c2(2) by auto
qed simp


text \<open>A table that is the list of its rows, and a conversation of one message.\<close>

definition sample_env :: "(message_metadata list, unit, unit, unit, unit, unit, unit) conv_env" where
  "sample_env = \<lparr>ce_json = \<lambda>j. [], ce_blocks_json = \<lambda>bs. None, ce_parse_blocks = \<lambda>t. None, ce_extract = \<lambda>t i. (),
     ce_nodes = \<lambda>x. [], ce_relationships = \<lambda>x. [], ce_add_node = \<lambda>i n g. g, ce_add_relationship = \<lambda>r g. g,
     ce_add_extraction = \<lambda>x i t e. e, ce_no_entities = (), ce_no_graph = (), ce_now = \<lambda>w. 0, ce_fresh = \<lambda>w. ([], w),
     ce_open = \<lambda>w. (Inr (), w), ce_exists = \<lambda>i w. (Inr (w \<noteq> []), w), ce_create = \<lambda>i t m n w. (Inr (), w),
     ce_update = \<lambda>i n w. (Inr (), w), ce_add_batch = \<lambda>ds w. (Inr (), w @ ds),
     ce_get = \<lambda>i w. (Inr (filter (\<lambda>d. md_conversation_id d = i) w), w)\<rparr>"

definition sample_chat :: "(unit, unit, unit) manager" where
  "sample_chat = add_message sample_env (user_text (lit ''hi'')) [] (conv_new sample_env 1000 (lit ''c''))"

lemma sample_chat_simps: "cv_messages sample_chat = [user_text (lit ''hi'')]" "cv_id sample_chat = lit ''c''"
  by (simp_all add: sample_chat_def add_message_def conv_new_def Let_def)

lemma sample_table: "table_contract sample_env id"
  by (auto simp: table_contract_def sample_env_def)

lemma sample_saves: "\<exists>c1 w1. save_times sample_env 2 sample_chat [] = Some (Inr (), c1, w1)"
  by (simp add: numeral_2_eq_2 save_to_db_def sample_chat_simps ensure_storage_def ensure_row_def generate_title_def
      message_to_metadata_def user_text_def sample_env_def Let_def lit_def split: bool.split)


lemma compaction_leaves_no_marker_witness:
  "\<not> has_compaction_summary (cv_messages (apply_compaction (lit ''so far'') 1
      (sample_chat\<lparr>cv_messages := [user_text (lit ''a''), user_text (lit ''b'')]\<rparr>)))"
proof -
  have "\<not> has_compaction_summary [user_text (lit ''b'') :: unit message]"
    "\<not> has_compaction_summary [system_text (lit ''so far'') :: unit message]" by code_simp+
  then show ?thesis
    using compaction_leaves_no_marker [of 1 "sample_chat\<lparr>cv_messages := [user_text (lit ''a''), user_text (lit ''b'')]\<rparr>"
        "lit ''so far''"] by simp
qed

end
