(* ===== verification/AgentLifecycle.thy ===== *)
theory AgentLifecycle
  imports AgentProcess Process Mdap "HOL-Library.Sublist"
begin

text \<open>
  Starting, ending and hibernating background agents: \<^verbatim>\<open>agent/spawn.rs\<close> and \<^verbatim>\<open>agent/hibernate.rs\<close> under
  \<^verbatim>\<open>apps/cli/src\<close>. Agents are told things over connections, with the parameters of \<open>process_env\<close>; the
  metadata of the framework, files, child processes, clock and JSON are fields of \<open>lifecycle_env\<close>.
\<close>

section \<open>Records and environment\<close>

record agent_meta =
  am_session_id :: rstr
  am_model :: rstr
  am_working_directory :: rstr
  am_parent :: "rstr option"
  am_reason :: "rstr option"
  am_is_busy :: bool

record hibernated_session =
  hs_session_id :: rstr
  hs_model :: rstr
  hs_working_directory :: rstr
  hs_parent :: "rstr option"
  hs_reason :: "rstr option"
  hs_was_busy :: bool

record hibernate_manifest =
  hm_hibernated_at :: int
  hm_sessions :: "hibernated_session list"
  hm_version :: "32 word"

record ('f, 'g) agent_spawn_options =
  so_model :: "rstr option"
  so_mdap :: "('f, 'g) mdap_config option"
  so_parent :: "rstr option"
  so_reason :: "rstr option"
  so_working_directory :: "rstr option"

record ('w, 'f) lifecycle_env =
  le_list :: "'w \<Rightarrow> rstr + agent_meta list"
  le_now :: "'w \<Rightarrow> int"
  le_manifest_path :: "'w \<Rightarrow> rstr + rstr"
  le_exists :: "rstr \<Rightarrow> 'w \<Rightarrow> bool"
  le_read :: "rstr \<Rightarrow> 'w \<Rightarrow> rstr + rstr"
  le_parse :: "rstr \<Rightarrow> hibernate_manifest option"
  le_show :: "hibernate_manifest \<Rightarrow> rstr option"
  le_make_parent :: "rstr \<Rightarrow> 'w \<Rightarrow> (rstr + unit) \<times> 'w"
  le_write :: "rstr \<Rightarrow> rstr \<Rightarrow> 'w \<Rightarrow> (rstr + unit) \<times> 'w"
  le_remove :: "rstr \<Rightarrow> 'w \<Rightarrow> (rstr + unit) \<times> 'w"
  le_depth :: "rstr \<Rightarrow> 'w \<Rightarrow> rstr + nat"
  le_socket_path :: "rstr \<Rightarrow> 'w \<Rightarrow> rstr + rstr"
  le_cwd :: "'w \<Rightarrow> rstr option"
  le_new_metadata :: "rstr \<Rightarrow> rstr \<Rightarrow> rstr \<Rightarrow> agent_meta"
  le_with_parent :: "rstr \<Rightarrow> rstr option \<Rightarrow> agent_meta \<Rightarrow> agent_meta"
  le_write_metadata :: "agent_meta \<Rightarrow> 'w \<Rightarrow> (rstr + unit) \<times> 'w"
  le_exe :: "'w \<Rightarrow> rstr option"
  le_show_rate :: "'f \<Rightarrow> rstr"
  le_sessions_dir :: "'w \<Rightarrow> rstr + rstr"
  le_make_dir :: "rstr \<Rightarrow> 'w \<Rightarrow> (rstr + unit) \<times> 'w"
  le_create_log :: "rstr \<Rightarrow> rstr \<Rightarrow> 'w \<Rightarrow> bool \<times> 'w"
  le_spawn :: "rstr \<Rightarrow> rstr list \<Rightarrow> rstr \<Rightarrow> 'w \<Rightarrow> nat option \<times> 'w"
  le_note_pid :: "rstr \<Rightarrow> nat \<Rightarrow> 'w \<Rightarrow> 'w"
  le_sleep :: "nat \<Rightarrow> 'w \<Rightarrow> 'w"
  le_delete_metadata :: "rstr \<Rightarrow> 'w \<Rightarrow> 'w"
  le_delete_token :: "rstr \<Rightarrow> 'w \<Rightarrow> 'w"
  le_stamp :: "'w \<Rightarrow> rstr"
  le_uuid :: "'w \<Rightarrow> rstr \<times> 'w"

definition io_get :: "('w \<Rightarrow> 'e + 'a) \<Rightarrow> 'w \<Rightarrow> ('e + 'a) \<times> 'w" where
  "io_get f w = (f w, w)"

definition io_step :: "('w \<Rightarrow> 'w) \<Rightarrow> 'w \<Rightarrow> ('e + unit) \<times> 'w" where
  "io_step f w = (Inr (), f w)"

section \<open>Spawning\<close>

definition no_options :: "('f, 'g) agent_spawn_options" where
  "no_options = \<lparr>so_model = None, so_mdap = None, so_parent = None, so_reason = None, so_working_directory = None\<rparr>"

definition with_model :: "rstr \<Rightarrow> ('f, 'g) agent_spawn_options" where
  "with_model m = no_options\<lparr>so_model := Some m\<rparr>"

definition with_parent :: "rstr \<Rightarrow> rstr option \<Rightarrow> ('f, 'g) agent_spawn_options \<Rightarrow> ('f, 'g) agent_spawn_options" where
  "with_parent p r o1 = o1\<lparr>so_parent := Some p, so_reason := r\<rparr>"

definition with_working_dir :: "rstr \<Rightarrow> ('f, 'g) agent_spawn_options \<Rightarrow> ('f, 'g) agent_spawn_options" where
  "with_working_dir d o1 = o1\<lparr>so_working_directory := Some d\<rparr>"

definition with_mdap :: "('f, 'g) mdap_config \<Rightarrow> ('f, 'g) agent_spawn_options \<Rightarrow> ('f, 'g) agent_spawn_options" where
  "with_mdap c o1 = o1\<lparr>so_mdap := Some c\<rparr>"

definition MAX_AGENT_DEPTH :: nat where
  "MAX_AGENT_DEPTH = 5"

definition check_depth :: "('w, 'f) lifecycle_env \<Rightarrow> rstr option \<Rightarrow> 'w \<Rightarrow> (rstr + unit) \<times> 'w" where
  "check_depth L parent =
     (case parent of
        None \<Rightarrow> io_ret ()
      | Some p \<Rightarrow>
          io_then (io_get (le_depth L p)) (\<lambda>d.
            if MAX_AGENT_DEPTH \<le> d
            then io_fail (lit ''Maximum agent depth ('' @ show_nat MAX_AGENT_DEPTH @
                   lit '') reached. Cannot spawn more children. Current parent '' @ [39] @ p @ [39] @
                   lit '' is at depth '' @ show_nat d @ lit ''.'')
            else io_ret ()))"

definition spawn_args :: "('w, 'f) lifecycle_env \<Rightarrow> rstr \<Rightarrow> ('f, 'g) agent_spawn_options \<Rightarrow> rstr list" where
  "spawn_args L sid o1 =
     [lit ''agent'', sid]
     @ (case so_model o1 of Some m \<Rightarrow> [lit ''--model'', m] | None \<Rightarrow> [])
     @ (case so_parent o1 of Some p \<Rightarrow> [lit ''--parent'', p] | None \<Rightarrow> [])
     @ (case so_reason o1 of Some r \<Rightarrow> [lit ''--spawn-reason'', r] | None \<Rightarrow> [])
     @ (case so_mdap o1 of
          Some c \<Rightarrow>
            [lit ''--mdap'', lit ''--mdap-k'', show_nat (unat (mc_k c)),
             lit ''--mdap-target'', le_show_rate L (mc_target_success_rate c),
             lit ''--mdap-parallel'', show_nat (unat (mc_parallel_samples c)),
             lit ''--mdap-max-samples'', show_nat (unat (mc_max_samples c))]
            @ (if mc_fail_fast c then [lit ''--mdap-fail-fast''] else [])
        | None \<Rightarrow> [])"

definition spawn_metadata :: "('w, 'f) lifecycle_env \<Rightarrow> rstr \<Rightarrow> ('f, 'g) agent_spawn_options \<Rightarrow> rstr \<Rightarrow> agent_meta" where
  "spawn_metadata L sid o1 wd =
     (let m = le_new_metadata L sid (case so_model o1 of Some m \<Rightarrow> m | None \<Rightarrow> lit ''default'') wd in
      case so_parent o1 of Some p \<Rightarrow> le_with_parent L p (so_reason o1) m | None \<Rightarrow> m)"

text \<open>The socket is looked for a hundred times, a tenth of a second apart.\<close>

fun wait_for_socket :: "nat \<Rightarrow> ('w, 'f) lifecycle_env \<Rightarrow> ('w, 'j, 'm, 'c) process_env \<Rightarrow> rstr \<Rightarrow> rstr \<Rightarrow> 'w \<Rightarrow> bool \<times> 'w" where
  "wait_for_socket 0 L P sid socket w = (False, w)"
| "wait_for_socket (Suc n) L P sid socket w =
     (if le_exists L socket w
      then let w1 = le_sleep L 100 w in
           if pv_alive P sid w1 then (True, w1) else wait_for_socket n L P sid socket (le_sleep L 100 w1)
      else wait_for_socket n L P sid socket (le_sleep L 100 w))"

definition create_log :: "('w, 'f) lifecycle_env \<Rightarrow> rstr \<Rightarrow> rstr \<Rightarrow> rstr \<Rightarrow> 'w \<Rightarrow> (rstr + unit) \<times> 'w" where
  "create_log L dir sid stream w =
     (case le_create_log L dir (sid @ lit ''.'' @ stream @ lit ''.log'') w of
        (True, w1) \<Rightarrow> (Inr (), w1)
      | (False, w1) \<Rightarrow> (Inl (lit ''Failed to create agent '' @ stream @ lit '' log''), w1))"

definition await_agent :: "('w, 'f) lifecycle_env \<Rightarrow> ('w, 'j, 'm, 'c) process_env \<Rightarrow> rstr \<Rightarrow> rstr \<Rightarrow> 'w \<Rightarrow>
    (rstr + rstr) \<times> 'w" where
  "await_agent L P sid socket w =
     (case wait_for_socket 100 L P sid socket w of
        (True, w1) \<Rightarrow> (Inr socket, w1)
      | (False, w1) \<Rightarrow>
          (Inl (lit ''Agent process failed to start (socket not created after 10 seconds)''),
           le_delete_metadata L sid w1))"

definition launch :: "('w, 'f) lifecycle_env \<Rightarrow> ('w, 'j, 'm, 'c) process_env \<Rightarrow> rstr \<Rightarrow> ('f, 'g) agent_spawn_options \<Rightarrow> rstr \<Rightarrow> 'w \<Rightarrow>
    (rstr + rstr) \<times> 'w" where
  "launch L P sid o1 socket =
     io_then (\<lambda>w. io_ret (case so_working_directory o1 of Some d \<Rightarrow> d
         | None \<Rightarrow> (case le_cwd L w of Some d \<Rightarrow> d | None \<Rightarrow> lit ''.'')) w) (\<lambda>wd.
     io_then (le_write_metadata L (spawn_metadata L sid o1 wd)) (\<lambda>_.
     io_then (io_get (\<lambda>w. case le_exe L w of Some e \<Rightarrow> Inr e | None \<Rightarrow> Inl (lit ''Failed to get current executable path''))) (\<lambda>exe.
     io_then (io_get (le_sessions_dir L)) (\<lambda>dir.
     io_then (le_make_dir L dir) (\<lambda>_.
     io_then (create_log L dir sid (lit ''stdout'')) (\<lambda>_.
     io_then (create_log L dir sid (lit ''stderr'')) (\<lambda>_.
     io_then (\<lambda>w. case le_spawn L exe (spawn_args L sid o1) wd w of
         (Some pid, w1) \<Rightarrow> (Inr pid, w1) | (None, w1) \<Rightarrow> (Inl (lit ''Failed to spawn agent process''), w1)) (\<lambda>pid.
     io_then (io_step (le_note_pid L sid pid)) (\<lambda>_. await_agent L P sid socket)))))))))"

definition spawn_with_options :: "('w, 'f) lifecycle_env \<Rightarrow> ('w, 'j, 'm, 'c) process_env \<Rightarrow> rstr \<Rightarrow>
    ('f, 'g) agent_spawn_options \<Rightarrow> 'w \<Rightarrow> (rstr + rstr) \<times> 'w" where
  "spawn_with_options L P sid o1 =
     io_then (check_depth L (so_parent o1)) (\<lambda>_.
     io_then (io_get (le_socket_path L sid)) (\<lambda>socket w.
       if le_exists L socket w
       then if pv_alive P sid w then (Inr socket, w) else launch L P sid o1 socket (snd (le_remove L socket w))
       else launch L P sid o1 socket w))"

definition spawn_agent_process :: "('w, 'f) lifecycle_env \<Rightarrow> ('w, 'j, 'm, 'c) process_env \<Rightarrow> rstr \<Rightarrow> rstr option \<Rightarrow>
    ('f, 'g) mdap_config option \<Rightarrow> 'w \<Rightarrow> (rstr + rstr) \<times> 'w" where
  "spawn_agent_process L P sid model mdap = spawn_with_options L P sid (no_options\<lparr>so_model := model, so_mdap := mdap\<rparr>)"

definition child_session_id :: "('w, 'f) lifecycle_env \<Rightarrow> rstr \<Rightarrow> 'w \<Rightarrow> rstr \<times> 'w" where
  "child_session_id L parent w =
     (case le_uuid L w of (u, w1) \<Rightarrow> (parent @ lit ''-child-'' @ le_stamp L w @ lit ''-'' @ take 8 u, w1))"

definition spawn_child_agent :: "('w, 'f) lifecycle_env \<Rightarrow> ('w, 'j, 'm, 'c) process_env \<Rightarrow> rstr \<Rightarrow> rstr \<Rightarrow> rstr option \<Rightarrow>
    rstr option \<Rightarrow> 'w \<Rightarrow> (rstr + rstr \<times> rstr) \<times> 'w" where
  "spawn_child_agent L P parent reason model wd w =
     (case child_session_id L parent w of
        (child, w1) \<Rightarrow>
          io_then (spawn_with_options L P child ((no_options :: ('f, unit) agent_spawn_options)
              \<lparr>so_model := model, so_parent := Some parent, so_reason := Some reason, so_working_directory := wd\<rparr>))
            (\<lambda>socket. io_ret (child, socket)) w1)"

section \<open>Ending\<close>

definition cleanup_agent :: "('w, 'f) lifecycle_env \<Rightarrow> ('w, 'j, 'm, 'c) process_env \<Rightarrow> rstr \<Rightarrow> bool \<Rightarrow> 'w \<Rightarrow> (rstr + unit) \<times> 'w" where
  "cleanup_agent L P sid notify =
     io_then
       (if notify
        then io_then (io_get (pv_children P sid)) (\<lambda>cs. io_step (\<lambda>w. snd (notify_all P ParentExiting sid cs w)))
        else io_ret ())
       (\<lambda>_. io_then (io_get (le_socket_path L sid)) (\<lambda>socket.
          io_step (\<lambda>w. le_delete_metadata L sid (le_delete_token L sid
            (if le_exists L socket w then snd (le_remove L socket w) else w)))))"

section \<open>Hibernation\<close>

definition manifest_new :: "('w, 'f) lifecycle_env \<Rightarrow> hibernated_session list \<Rightarrow> 'w \<Rightarrow> hibernate_manifest" where
  "manifest_new L sessions w = \<lparr>hm_hibernated_at = le_now L w, hm_sessions = sessions, hm_version = 1\<rparr>"

definition manifest_load :: "('w, 'f) lifecycle_env \<Rightarrow> 'w \<Rightarrow> (rstr + hibernate_manifest option) \<times> 'w" where
  "manifest_load L =
     io_then (io_get (le_manifest_path L)) (\<lambda>p w.
       if \<not> le_exists L p w then (Inr None, w)
       else
         (case le_read L p w of
            Inl e \<Rightarrow> (Inl (lit ''Failed to read manifest from '' @ p), w)
          | Inr t \<Rightarrow>
              (case le_parse L t of
                 None \<Rightarrow> (Inl (lit ''Failed to parse hibernate manifest''), w)
               | Some m \<Rightarrow> (Inr (Some m), w))))"

definition manifest_save :: "('w, 'f) lifecycle_env \<Rightarrow> hibernate_manifest \<Rightarrow> 'w \<Rightarrow> (rstr + unit) \<times> 'w" where
  "manifest_save L m =
     io_then (io_get (le_manifest_path L)) (\<lambda>p.
     io_then (le_make_parent L p) (\<lambda>_ w.
       case le_show L m of
         None \<Rightarrow> (Inl (lit ''Failed to serialize manifest''), w)
       | Some t \<Rightarrow>
           (case le_write L p t w of
              (Inl e, w1) \<Rightarrow> (Inl (lit ''Failed to write manifest to '' @ p), w1)
            | (Inr u, w1) \<Rightarrow> (Inr (), w1))))"

definition manifest_delete :: "('w, 'f) lifecycle_env \<Rightarrow> 'w \<Rightarrow> (rstr + unit) \<times> 'w" where
  "manifest_delete L =
     io_then (io_get (le_manifest_path L)) (\<lambda>p w. if le_exists L p w then le_remove L p w else (Inr (), w))"

definition hibernated_of :: "agent_meta \<Rightarrow> hibernated_session" where
  "hibernated_of a =
     \<lparr>hs_session_id = am_session_id a, hs_model = am_model a, hs_working_directory = am_working_directory a,
      hs_parent = am_parent a, hs_reason = am_reason a, hs_was_busy = am_is_busy a\<rparr>"

text \<open>The loop over the agents: who was told, and what goes into the manifest.\<close>

fun hibernate_loop :: "('w, 'j, 'm, 'c) process_env \<Rightarrow> agent_meta list \<Rightarrow> 'w \<Rightarrow>
    (rstr list \<times> hibernated_session list) \<times> 'w" where
  "hibernate_loop P [] w = (([], []), w)"
| "hibernate_loop P (a # as) w =
     (if \<not> pv_alive P (am_session_id a) w then hibernate_loop P as w
      else
        case tell_agent P (Detach True) (am_session_id a) w of
          (told, w1) \<Rightarrow>
            (case hibernate_loop P as w1 of
               ((ts, ss), w2) \<Rightarrow> ((if told then am_session_id a # ts else ts, hibernated_of a # ss), w2)))"

definition hibernate_agents :: "('w, 'f) lifecycle_env \<Rightarrow> ('w, 'j, 'm, 'c) process_env \<Rightarrow> 'w \<Rightarrow> (rstr + rstr list) \<times> 'w" where
  "hibernate_agents L P =
     io_then (io_get (le_list L)) (\<lambda>agents w.
       case hibernate_loop P agents w of
         ((told, sessions), w1) \<Rightarrow> io_then (manifest_save L (manifest_new L sessions w1)) (\<lambda>_. io_ret told) w1)"

definition resume_order :: "hibernated_session list \<Rightarrow> hibernated_session list" where
  "resume_order = sort_key (\<lambda>s. hs_parent s \<noteq> None)"

definition resume_options :: "hibernated_session \<Rightarrow> ('f, unit) agent_spawn_options" where
  "resume_options s =
     \<lparr>so_model = Some (hs_model s), so_mdap = None, so_parent = hs_parent s, so_reason = hs_reason s,
      so_working_directory = (if hs_working_directory s = [] then None else Some (hs_working_directory s))\<rparr>"

fun resume_loop :: "('w, 'f) lifecycle_env \<Rightarrow> ('w, 'j, 'm, 'c) process_env \<Rightarrow> hibernated_session list \<Rightarrow> 'w \<Rightarrow>
    rstr list \<times> 'w" where
  "resume_loop L P [] w = ([], w)"
| "resume_loop L P (s # ss) w =
     (if pv_alive P (hs_session_id s) w then apfst (Cons (hs_session_id s)) (resume_loop L P ss w)
      else
        case spawn_with_options L P (hs_session_id s) (resume_options s) w of
          (Inr socket, w1) \<Rightarrow> apfst (Cons (hs_session_id s)) (resume_loop L P ss w1)
        | (Inl e, w1) \<Rightarrow> resume_loop L P ss w1)"

definition resume_agents :: "('w, 'f) lifecycle_env \<Rightarrow> ('w, 'j, 'm, 'c) process_env \<Rightarrow> 'w \<Rightarrow> (rstr + rstr list) \<times> 'w" where
  "resume_agents L P =
     io_then (manifest_load L) (\<lambda>r w.
       case r of
         None \<Rightarrow> (Inr [], w)
       | Some m \<Rightarrow>
           (case resume_loop L P (resume_order (hm_sessions m)) w of
              (resumed, w1) \<Rightarrow> io_then (manifest_delete L) (\<lambda>_. io_ret resumed) w1))"

definition has_hibernated_agents :: "('w, 'f) lifecycle_env \<Rightarrow> 'w \<Rightarrow> (rstr + bool) \<times> 'w" where
  "has_hibernated_agents L = io_then (io_get (le_manifest_path L)) (\<lambda>p w. (Inr (le_exists L p w), w))"

definition list_hibernated_sessions :: "('w, 'f) lifecycle_env \<Rightarrow> 'w \<Rightarrow> (rstr + hibernated_session list) \<times> 'w" where
  "list_hibernated_sessions L =
     io_then (manifest_load L) (\<lambda>r. io_ret (case r of Some m \<Rightarrow> hm_sessions m | None \<Rightarrow> []))"

section \<open>What a spawned agent is\<close>

lemma wait_for_socket_alive: "wait_for_socket n L P sid socket w = (True, w1) \<Longrightarrow> pv_alive P sid w1"
  by (induction n arbitrary: w) (auto simp: Let_def split: if_splits)

lemma await_alive: "await_agent L P sid socket w = (Inr x, w1) \<Longrightarrow> x = socket \<and> pv_alive P sid w1"
  by (auto simp: await_agent_def split: prod.splits bool.splits dest: wait_for_socket_alive)

lemma launch_alive: "launch L P sid o1 socket w = (Inr x, w1) \<Longrightarrow> x = socket \<and> pv_alive P sid w1"
  unfolding launch_def io_then_Inr_iff by (blast dest: await_alive)

lemma check_depth_Inr:
  "check_depth L parent w = (Inr u, w1) \<longleftrightarrow>
     w1 = w \<and> (\<forall>p. parent = Some p \<longrightarrow> (\<exists>d. le_depth L p w = Inr d \<and> d < MAX_AGENT_DEPTH))"
  by (cases parent) (auto simp: check_depth_def io_then_def io_get_def io_ret_def io_fail_def split: sum.split)

text \<open>
  When spawning succeeds, the parent, if there is one, is less than five levels deep, and the agent answers;
  so an agent is never more than five levels deep.
\<close>

theorem spawned_agent_alive_within_depth:
  assumes "spawn_with_options L P sid o1 w = (Inr socket, w1)"
  shows "pv_alive P sid w1 \<and> le_socket_path L sid w = Inr socket
    \<and> (\<forall>p. so_parent o1 = Some p \<longrightarrow> (\<exists>d < 5. le_depth L p w = Inr d))"
  using assms
  by (auto simp: spawn_with_options_def io_then_Inr_iff check_depth_Inr io_get_def MAX_AGENT_DEPTH_def
      split: if_splits dest: launch_alive)

section \<open>What hibernation keeps\<close>

text \<open>What the file system and the JSON library document: a file reads as it was written, a manifest as it was shown.\<close>

definition manifest_contract :: "('w, 'f) lifecycle_env \<Rightarrow> rstr \<Rightarrow> bool" where
  "manifest_contract L p \<longleftrightarrow>
     (\<forall>w. le_manifest_path L w = Inr p) \<and>
     (\<forall>m t. le_show L m = Some t \<longrightarrow> le_parse L t = Some m) \<and>
     (\<forall>t w u w1. le_write L p t w = (Inr u, w1) \<longrightarrow> le_exists L p w1 \<and> le_read L p w1 = Inr t) \<and>
     (\<forall>w u w1. le_remove L p w = (Inr u, w1) \<longrightarrow> \<not> le_exists L p w1)"

lemma hibernate_loop_sessions:
  "hibernate_loop P as w = ((told, sessions), w1) \<Longrightarrow>
     set told \<subseteq> hs_session_id ` set sessions \<and> subseq sessions (map hibernated_of as)"
proof (induction as arbitrary: w told sessions w1)
  case (Cons a as)
  show ?case
  proof (cases "pv_alive P (am_session_id a) w")
    case False
    with Cons.prems Cons.IH show ?thesis by fastforce
  next
    case True
    obtain t w2 where t: "tell_agent P (Detach True) (am_session_id a) w = (t, w2)" by force
    obtain ts ss w3 where l: "hibernate_loop P as w2 = ((ts, ss), w3)" by (metis surj_pair)
    have "sessions = hibernated_of a # ss" "set told \<subseteq> insert (am_session_id a) (set ts)"
      using Cons.prems True t l by (auto split: if_splits)
    moreover have "hs_session_id (hibernated_of a) = am_session_id a" by (simp add: hibernated_of_def)
    ultimately show ?thesis using Cons.IH [OF l] by auto
  qed
qed simp

lemma load_after_write:
  assumes "manifest_contract L p" and "manifest_save L m w = (Inr u, w1)"
  shows "manifest_load L w1 = (Inr (Some m), w1)"
  using assms
  by (auto simp: manifest_contract_def manifest_save_def manifest_load_def io_then_Inr_iff io_get_def io_then_def
      split: option.splits prod.splits sum.splits)

text \<open>
  What hibernation stores is what is listed afterwards: every agent that was told to leave is in it, and each
  stored session is one of the agents found, in the order found. An earlier manifest is gone.
\<close>

theorem hibernated_sessions_listed:
  assumes "manifest_contract L p" and "hibernate_agents L P w = (Inr told, w1)" and "le_list L w = Inr agents"
  shows "\<exists>sessions. list_hibernated_sessions L w1 = (Inr sessions, w1)
    \<and> set told \<subseteq> hs_session_id ` set sessions \<and> subseq sessions (map hibernated_of agents)"
proof -
  obtain sessions w2 u where l: "hibernate_loop P agents w = ((told, sessions), w2)"
    and s: "manifest_save L (manifest_new L sessions w2) w2 = (Inr u, w1)"
    using assms(2,3) by (auto simp: hibernate_agents_def io_then_Inr_iff io_get_def split: prod.splits)
  have "list_hibernated_sessions L w1 = (Inr sessions, w1)"
    using load_after_write [OF assms(1) s] by (simp add: list_hibernated_sessions_def io_then_def io_ret_def manifest_new_def)
  with hibernate_loop_sessions [OF l] show ?thesis by blast
qed

lemma load_None_gone:
  assumes "manifest_contract L p" and "manifest_load L w = (Inr None, w1)"
  shows "w1 = w \<and> \<not> le_exists L p w"
  using assms
  by (auto simp: manifest_contract_def manifest_load_def io_then_def io_get_def split: if_splits sum.splits option.splits)

lemma delete_gone:
  assumes "manifest_contract L p" and "manifest_delete L w = (Inr u, w1)"
  shows "\<not> le_exists L p w1"
  using assms by (auto simp: manifest_contract_def manifest_delete_def io_then_def io_get_def split: if_splits)

text \<open>
  C30: Resuming forgets: whatever could not be started again, afterwards no session is hibernated.
\<close>

theorem resume_forgets:
  assumes "manifest_contract L p" and "resume_agents L P w = (Inr resumed, w1)"
  shows "has_hibernated_agents L w1 = (Inr False, w1) \<and> list_hibernated_sessions L w1 = (Inr [], w1)"
proof -
  obtain r w2 where r: "manifest_load L w = (Inr r, w2)"
    and k: "(case r of None \<Rightarrow> (Inr [], w2)
      | Some m \<Rightarrow> (case resume_loop L P (resume_order (hm_sessions m)) w2 of
          (done1, w3) \<Rightarrow> io_then (manifest_delete L) (\<lambda>_. io_ret done1) w3)) = (Inr resumed, w1)"
    using assms(2) by (auto simp: resume_agents_def io_then_Inr_iff)
  have "\<not> le_exists L p w1"
  proof (cases r)
    case None
    with r k load_None_gone [OF assms(1)] show ?thesis by auto
  next
    case (Some m)
    obtain done1 w3 where "resume_loop L P (resume_order (hm_sessions m)) w2 = (done1, w3)" by force
    with k Some delete_gone [OF assms(1)] show ?thesis by (auto simp: io_then_Inr_iff io_ret_def)
  qed
  with assms(1) show ?thesis
    by (simp add: has_hibernated_agents_def list_hibernated_sessions_def manifest_load_def manifest_contract_def
        io_then_def io_get_def io_ret_def)
qed

text \<open>Agents without a parent are started first; the others keep their order, a child may precede its parent.\<close>

lemma insort_bool:
  fixes P :: "'a \<Rightarrow> bool"
  shows "insort_key P x (filter (\<lambda>s. \<not> P s) ss @ filter P ss)
    = (if P x then filter (\<lambda>s. \<not> P s) ss @ x # filter P ss else x # filter (\<lambda>s. \<not> P s) ss @ filter P ss)"
proof (cases "P x")
  case True
  have "insort_key P x (filter (\<lambda>s. \<not> P s) ss @ ys) = filter (\<lambda>s. \<not> P s) ss @ insort_key P x ys" for ys
    using True by (induction ss) auto
  moreover have "insort_key P x (filter P ss) = x # filter P ss"
    by (cases "filter P ss") (auto simp: filter_eq_Cons_iff)
  ultimately show ?thesis using True by simp
next
  case False
  then show ?thesis by (cases "filter (\<lambda>s. \<not> P s) ss @ filter P ss") auto
qed

lemma sort_bool_key:
  fixes P :: "'a \<Rightarrow> bool"
  shows "sort_key P ss = filter (\<lambda>s. \<not> P s) ss @ filter P ss"
  by (induction ss) (simp_all add: insort_bool)

lemma resume_order_roots_first:
  "resume_order ss = filter (\<lambda>s. hs_parent s = None) ss @ filter (\<lambda>s. hs_parent s \<noteq> None) ss"
  by (simp add: resume_order_def sort_bool_key)

section \<open>A sample world\<close>

text \<open>One agent runs; the file of the manifest is there or not.\<close>

definition sample_meta :: agent_meta where
  "sample_meta = \<lparr>am_session_id = lit ''a'', am_model = lit ''m'', am_working_directory = [], am_parent = None,
     am_reason = None, am_is_busy = False\<rparr>"

definition sample_manifest :: hibernate_manifest where
  "sample_manifest = \<lparr>hm_hibernated_at = 0, hm_sessions = [hibernated_of sample_meta], hm_version = 1\<rparr>"

definition sample_lifecycle :: "(unit plan_state list \<times> nat, unit) lifecycle_env" where
  "sample_lifecycle =
     \<lparr>le_list = \<lambda>w. Inr [sample_meta], le_now = \<lambda>w. 0, le_manifest_path = \<lambda>w. Inr (lit ''f''), le_exists = \<lambda>p w. snd w \<noteq> 0,
      le_read = \<lambda>p w. Inr [snd w], le_parse = \<lambda>t. if t = [1] then Some sample_manifest else None,
      le_show = \<lambda>m. if m = sample_manifest then Some [1] else None, le_make_parent = \<lambda>p w. (Inr (), w),
      le_write = \<lambda>p t w. if t = [1] then (Inr (), (fst w, 1)) else (Inl [], w),
      le_remove = \<lambda>p w. (Inr (), (fst w, 0)), le_depth = \<lambda>p w. Inr 4, le_socket_path = \<lambda>i w. Inr (lit ''s''),
      le_cwd = \<lambda>w. None, le_new_metadata = \<lambda>i m d. sample_meta, le_with_parent = \<lambda>p r m. m\<lparr>am_parent := Some p\<rparr>,
      le_write_metadata = \<lambda>m w. (Inr (), w), le_exe = \<lambda>w. Some (lit ''x''), le_show_rate = \<lambda>f. [],
      le_sessions_dir = \<lambda>w. Inr [], le_make_dir = \<lambda>d w. (Inr (), w), le_create_log = \<lambda>d f w. (True, w),
      le_spawn = \<lambda>e a d w. (Some 7, (fst w, 1)), le_note_pid = \<lambda>i n w. w, le_sleep = \<lambda>n w. w,
      le_delete_metadata = \<lambda>i w. w, le_delete_token = \<lambda>i w. w, le_stamp = \<lambda>w. [], le_uuid = \<lambda>w. ([], w)\<rparr>"

definition living_env :: "(unit plan_state list \<times> nat, unit, unit, unit) process_env" where
  "living_env = sample_process_env\<lparr>pv_alive := \<lambda>i w. True, pv_connect := \<lambda>i w. (True, w), pv_send_handshake := \<lambda>i h w. (True, w),
     pv_read_response := \<lambda>i w. (Some \<lparr>hr_accepted = True, hr_session_id = i, hr_session_token = None, hr_error = None\<rparr>, w),
     pv_send_message := \<lambda>i m w. (True, w)\<rparr>"

lemma sample_contract: "manifest_contract sample_lifecycle (lit ''f'')"
  by (auto simp: manifest_contract_def sample_lifecycle_def split: if_splits)

lemma living_env_simps:
  "pv_alive living_env i w" "tell_agent living_env m i w = (True, w)"
  by (simp_all add: living_env_def sample_process_env_def tell_agent_def)

theorem spawned_agent_alive_within_depth_witness:
  "\<exists>w1. spawn_with_options sample_lifecycle living_env (lit ''c'')
       (with_parent (lit ''p'') None (no_options :: (unit, unit) agent_spawn_options)) ([], 0) = (Inr (lit ''s''), w1)
    \<and> pv_alive living_env (lit ''c'') w1"
proof -
  obtain w1 where "spawn_with_options sample_lifecycle living_env (lit ''c'')
      (with_parent (lit ''p'') None (no_options :: (unit, unit) agent_spawn_options)) ([], 0) = (Inr (lit ''s''), w1)"
    by (rule that, simp add: spawn_with_options_def check_depth_def io_then_def io_get_def io_ret_def io_step_def launch_def
        with_parent_def no_options_def sample_lifecycle_def MAX_AGENT_DEPTH_def create_log_def await_agent_def
        eval_nat_numeral living_env_simps)
  with spawned_agent_alive_within_depth [OF this] show ?thesis by blast
qed

lemma sample_hibernates: "hibernate_agents sample_lifecycle living_env ([], 0) = (Inr [lit ''a''], ([], 1))"
  by (simp add: hibernate_agents_def io_then_def io_get_def io_ret_def sample_lifecycle_def living_env_simps manifest_save_def
      manifest_new_def sample_manifest_def sample_meta_def)

theorem hibernated_sessions_listed_witness:
  "\<exists>sessions. list_hibernated_sessions sample_lifecycle (([], 1) :: unit plan_state list \<times> nat) = (Inr sessions, ([], 1))
    \<and> lit ''a'' \<in> hs_session_id ` set sessions"
  using hibernated_sessions_listed [OF sample_contract sample_hibernates, of "[sample_meta]"]
  by (auto simp: sample_lifecycle_def)

lemma sample_resumes: "resume_agents sample_lifecycle living_env ([], 1) = (Inr [lit ''a''], ([], 0))"
  by (simp add: resume_agents_def manifest_load_def manifest_delete_def io_then_def io_get_def io_ret_def sample_lifecycle_def
      living_env_simps sample_manifest_def sample_meta_def hibernated_of_def resume_order_roots_first)

theorem resume_forgets_witness:
  "list_hibernated_sessions sample_lifecycle (([], 0) :: unit plan_state list \<times> nat) = (Inr [], ([], 0))"
  using resume_forgets [OF sample_contract sample_resumes] by blast

end
