(* ===== verification/Spec2Isabelle.thy ===== *)
theory Spec2Isabelle
  imports Prelude MessageQueue SessionBudget WorkingSet PromptHistory NanoEditor FindReplace JournalTree Questions SelfImprove
    FileExplorer GitScm TuiEvents TuiDialogs Keybindings UserQuestions TuiApp TuiPlan TuiStatus TuiMessages TuiHandlers TuiEditors TuiGit TuiPicker TuiCore Settings Hooks Approval ToolExecutor Recovery TaskAgent AgentPool Orchestrator Mdap MicroTools
    ContextBuilder Conversation AgentSession SlashCommands AgentProcess AgentLifecycle
begin

text \<open>
  A verification library for the core of the agent command line \<^verbatim>\<open>apps/cli/src\<close>: what decides, counts,
  orders or keeps state, as opposed to what draws, stores or talks to a service. Paths below are
  relative to \<^verbatim>\<open>apps/cli/src\<close>.

  \<^bold>\<open>The parts and how they meet.\<close> A conversation (\<open>Conversation\<close>) is extended by what the context
  builder retrieves (\<open>ContextBuilder\<close>) and sent to a provider by one of the agents. The autonomous
  agent (\<open>TaskAgent\<close>) asks, runs the tools of the answer under file locks, and completes; it keeps the
  files it touched in a working set (\<open>WorkingSet\<close>) and charges a budget shared by the session
  (\<open>SessionBudget\<close>). A pool and a manager start agents and collect their results (\<open>AgentPool\<close>); the
  orchestrator and its workers share a simpler loop (\<open>Orchestrator\<close>), and tasks that are decomposed
  and voted on go through \<open>Mdap\<close> and \<open>MicroTools\<close>. Every tool call of every agent ends in the executor
  (\<open>ToolExecutor\<close>), whose gates read the layered settings (\<open>Settings\<close>), ask the user (\<open>Approval\<close>) and
  run the hooks (\<open>Hooks\<close>) around the call; failing calls are retried with \<open>Recovery\<close>. The terminal
  interface edits, searches, browses and commits (\<open>PromptHistory\<close>, \<open>NanoEditor\<close>, \<open>FindReplace\<close>,
  \<open>FileExplorer\<close>, \<open>GitScm\<close>), shows a conversation as a tree (\<open>JournalTree\<close>) and asks clarifying
  questions (\<open>Questions\<close>). What is typed with a slash is looked up and carried out by \<open>SlashCommands\<close>.
  \<open>SelfImprove\<close> drives an agent through cycles of changes to a repository. In the background an agent
  runs as a process (\<open>AgentProcess\<close>) that keeps a session with its plan mode (\<open>AgentSession\<close>), answers
  the messages of its viewers and drains the message queue (\<open>MessageQueue\<close>) one message after another;
  \<open>AgentLifecycle\<close> starts, ends, hibernates and resumes such processes. What the terminal delivers becomes
  events (\<open>TuiEvents\<close>), and the dialogs for leaving, passwords and help are in \<open>TuiDialogs\<close>.

  \<^bold>\<open>Theories and sources.\<close>
  \<^item> \<open>Prelude\<close>: strings as lists of code points with byte offsets, vectors whose accesses may panic,
    and the interfaces; \<open>Process\<close>: child processes and the \<^verbatim>\<open>?\<close> operator over a world.
  \<^item> \<open>MessageQueue\<close>: \<^verbatim>\<open>agent/message_queue.rs\<close>; \<open>SessionBudget\<close>: \<^verbatim>\<open>types/session_budget.rs\<close>; \<open>WorkingSet\<close>:
    \<^verbatim>\<open>types/working_set.rs\<close>; \<open>Questions\<close>: \<^verbatim>\<open>types/question.rs\<close>, \<^verbatim>\<open>tui/question_parser.rs\<close>.
  \<^item> \<open>PromptHistory\<close>: \<^verbatim>\<open>utils/prompt_history.rs\<close>; \<open>NanoEditor\<close>, \<open>FindReplace\<close>, \<open>JournalTree\<close>, \<open>FileExplorer\<close>,
    \<open>GitScm\<close>: the files of those names in \<^verbatim>\<open>tui/app\<close>.
  \<^item> \<open>Settings\<close>: \<^verbatim>\<open>config/settings.rs\<close>, \<^verbatim>\<open>config/settings_manager.rs\<close>; \<open>Hooks\<close>: \<^verbatim>\<open>hooks/mod.rs\<close>; \<open>Approval\<close>:
    \<^verbatim>\<open>approval/\<close> with the dialog of \<^verbatim>\<open>tui/app\<close>; \<open>ToolExecutor\<close>: \<^verbatim>\<open>tools/executor.rs\<close>; \<open>Recovery\<close>:
    \<^verbatim>\<open>utils/recovery.rs\<close>.
  \<^item> \<open>TaskAgent\<close>, \<open>AgentPool\<close>, \<open>Orchestrator\<close>: \<^verbatim>\<open>agents/\<close> with \<^verbatim>\<open>tools/task_manager.rs\<close>; \<open>Mdap\<close>,
    \<open>MicroTools\<close>: \<^verbatim>\<open>mdap/\<close>.
  \<^item> \<open>ContextBuilder\<close>: \<^verbatim>\<open>utils/context_builder.rs\<close>, \<^verbatim>\<open>utils/retrieval_gate.rs\<close>; \<open>Conversation\<close>:
    \<^verbatim>\<open>utils/conversation.rs\<close>.
  \<^item> \<open>SelfImprove\<close>: \<^verbatim>\<open>self_improve/\<close>; \<open>SlashCommands\<close>: \<^verbatim>\<open>commands/\<close>.
  \<^item> \<open>AgentSession\<close>: \<^verbatim>\<open>agent/state.rs\<close>, \<^verbatim>\<open>agent/plan_mode.rs\<close>, \<^verbatim>\<open>types/plan_mode.rs\<close>,
    \<^verbatim>\<open>plan_mode_store.rs\<close>; \<open>AgentProcess\<close>: \<^verbatim>\<open>agent/process.rs\<close>, its message handlers as functions and the
    interleaving of messages and jobs as the step relation \<open>proc_step\<close>; \<open>AgentLifecycle\<close>:
    \<^verbatim>\<open>agent/spawn.rs\<close>, \<^verbatim>\<open>agent/hibernate.rs\<close>.
  \<^item> \<open>TuiEvents\<close>: \<^verbatim>\<open>tui/events.rs\<close>, with the detection of pastes as a state machine; \<open>TuiDialogs\<close>:
    \<^verbatim>\<open>exit_dialog.rs\<close>, \<^verbatim>\<open>suspend_dialog.rs\<close>, \<^verbatim>\<open>sudo_dialog.rs\<close> and \<^verbatim>\<open>help_dialog.rs\<close> of \<^verbatim>\<open>tui/app\<close>.

  \<^bold>\<open>How state and operations correspond.\<close> A struct is a record with its fields, an enum a datatype with
  its constructors, a method a function from the record to the record with its result. Framework
  crates, the file system, the clock, providers and stores are fields of an environment record, or
  arguments; what they change is a world \<open>'w\<close> that is threaded through every call. \<^verbatim>\<open>usize\<close> is \<open>nat\<close>;
  \<^verbatim>\<open>u16\<close>, \<^verbatim>\<open>u32\<close>, \<^verbatim>\<open>u64\<close> and \<^verbatim>\<open>i64\<close> are words where they can wrap or saturate. \<^verbatim>\<open>Result\<close> is a sum with the
  error on the left. A panic, or a call that never returns, is \<open>None\<close> (or a constructor of its own
  where the caller survives it). The iteration order of a hash map is an argument. JSON input is read
  through accessors for the members the code reads. Tasks that run at the same time are sequences of
  their atomic steps.

  \<^bold>\<open>Interfaces.\<close> \<open>invariant_machine\<close> (operations that keep an invariant; prompt history, question dialog,
  file explorer, working set, approval), \<open>panic_machine\<close> (operations that are safe under a guard; message
  queue, nano editor), \<open>commuting_machine\<close> (interleavings of atomic updates; session budget),
  \<open>focus_ring\<close>, \<open>list_cursor\<close> and \<open>paged_cursor\<close> (the dialogs and panels), \<open>priority_channel\<close> (the
  message queue) and \<open>layered_policy\<close> (settings and permissions). Each is interpreted on the model's
  own definitions in the theory of the component that provides it, and the properties rest on those facts.

  \<^bold>\<open>What the lemmas show.\<close> Invariants of every state the operations reach; what each operation
  returns on every branch, errors and panics included; refinement of abstract specifications (queue
  classes, text edits); agreement with reference definitions (budget of any interleaving, replacement
  of all matches, merged settings and their strictest layer); round trips through files and tables;
  bounds and termination of the loops; which calls reach a tool, and in which order. Where the code does
  something other than it says, the theorem states what it does.

  \<^bold>\<open>Termination and bounds.\<close> Rounds of the agent loops (\<open>agent_loop\<close>, \<open>turns\<close>), retries (\<open>retry_from\<close>)
  and the loops over a process's output have a measure: the distance to the limit the code compares
  with. The traversal of the journal takes the next free identifier as fuel, more than the depth of the
  tree since a child's identifier exceeds its parent's. The search for a match, the retry of a tool
  and the reading of a provider's stream (\<open>stream_plan\<close>, \<open>stream_tools\<close>) are partial functions: not
  returning is a value, and the properties say when they return. Draining the queue is given two steps
  for each message and one to find it empty.

  \<^bold>\<open>Not modelled.\<close> Rendering of the terminal interface, argument parsing and the
  command line's subcommands, HTTP and MCP transports, provider clients, the database and its
  embeddings, process and socket management, the web and native front ends, the extraction of entities
  and costs by regular expression: they are calls of libraries, text, or input and output. The
  manifest lists them with the reason.
\<close>

end
